(* ===== verification/B46_Prelude.thy ===== *)
theory B46_Prelude
  imports Main "HOL-Library.List_Lexorder" "HOL-Library.Char_ord" "HOL-Library.Product_Lexorder"
    "HOL-Library.Multiset"
begin

text \<open>
  Shared vocabulary of the development: machine integers of the Go code (64-bit two's
  complement, written over \<open>int\<close> with the wrap-around spelled out), the outcome of one
  round trip to PostgreSQL, and the list view of a relational table with the statements the
  stores use (\<open>SELECT\<close> of one row, \<open>UPDATE ... WHERE\<close>, the affected-row count), together
  with the generic facts about them that the component theories share.
\<close>

named_theorems row_simps \<open>equations for single-row selects and updates of a table\<close>

section \<open>Go integers\<close>

definition max_int64 :: int where
  "max_int64 = 9223372036854775807"

definition in64 :: "int \<Rightarrow> bool" where
  "in64 x \<longleftrightarrow> - max_int64 - 1 \<le> x \<and> x \<le> max_int64"

definition wrap64 :: "int \<Rightarrow> int" where
  "wrap64 x = (x + (max_int64 + 1)) mod (2 * (max_int64 + 1)) - (max_int64 + 1)"

text \<open>Go's integer division truncates towards zero.\<close>

definition go_div :: "int \<Rightarrow> int \<Rightarrow> int" where
  "go_div a b = sgn a * sgn b * (\<bar>a\<bar> div \<bar>b\<bar>)"

lemma wrap64_id [simp]: "in64 x \<Longrightarrow> wrap64 x = x"
  by (simp add: in64_def wrap64_def max_int64_def)

lemma wrap64_in64 [simp]: "in64 (wrap64 x)"
proof -
  have "0 \<le> (x + (max_int64 + 1)) mod (2 * (max_int64 + 1))"
    and "(x + (max_int64 + 1)) mod (2 * (max_int64 + 1)) < 2 * (max_int64 + 1)"
    by (simp_all add: max_int64_def)
  then show ?thesis by (simp add: in64_def wrap64_def max_int64_def)
qed

lemma go_div_pos [simp]: "0 \<le> a \<Longrightarrow> 0 < b \<Longrightarrow> go_div a b = a div b"
  by (cases "a = 0") (simp_all add: go_div_def)

lemma max_int64_pos [simp]: "0 < max_int64" "0 \<le> max_int64"
  by (simp_all add: max_int64_def)

section \<open>PostgreSQL round trips\<close>

text \<open>
  Every \<open>Begin\<close>, \<open>Exec\<close>, \<open>Query\<close> and \<open>Commit\<close> of the stores is one round trip, and the
  \<open>n\<close>-th one of an operation is answered by \<open>replies n\<close>. \<open>Done\<close>: the statement ran.
  \<open>Refused\<close>: it had no effect and the call returned an error. \<open>Lost\<close>: it took effect
  but the call returned an error (the connection broke before the answer). Inside an open
  transaction both failures end in a rollback; they differ for a \<open>COMMIT\<close> and for a
  statement run directly on the pool.
\<close>

datatype dberr = Serialization | UniqueViolation | OtherDb

datatype reply = Done | Refused dberr | Lost dberr

text \<open>
  \<open>settle r old new e v\<close> is what a \<open>COMMIT\<close> (or an autocommitted statement) leaves behind
  when the answer is \<open>r\<close>: the value and the new state, or the error with the state the
  server is in.
\<close>

fun settle :: "reply \<Rightarrow> 'd \<Rightarrow> 'd \<Rightarrow> 'e \<Rightarrow> 'a \<Rightarrow> ('e + 'a) \<times> 'd" where
  "settle Done old new e v = (Inr v, new)"
| "settle (Refused k) old new e v = (Inl e, old)"
| "settle (Lost k) old new e v = (Inl e, new)"

lemma settle_Inr [simp]: "settle r old new e v = (Inr w, d) \<longleftrightarrow> r = Done \<and> w = v \<and> d = new"
  by (cases r) auto

lemma settle_state: "snd (settle r old new e v) = old \<or> snd (settle r old new e v) = new"
  by (cases r) auto

lemma settle_same [simp]: "snd (settle r d d e v) = d"
  by (cases r) auto

lemma settle_cases:
  assumes "settle r old new e v = (res, d)"
  shows "(res = Inl e \<and> (d = old \<or> d = new)) \<or> (res = Inr v \<and> d = new \<and> r = Done)"
  using assms by (cases r) auto

section \<open>Tables\<close>

text \<open>
  A table is the list of its rows in insertion order. \<open>update_where P f\<close> is
  \<open>UPDATE ... SET f WHERE P\<close>, \<open>affected P\<close> its command tag's \<open>RowsAffected\<close>, and
  \<open>find P\<close> the row \<open>QueryRow\<close> scans (\<open>None\<close> is \<open>pgx.ErrNoRows\<close>).
\<close>

definition update_where :: "('r \<Rightarrow> bool) \<Rightarrow> ('r \<Rightarrow> 'r) \<Rightarrow> 'r list \<Rightarrow> 'r list" where
  "update_where P f rs = map (\<lambda>r. if P r then f r else r) rs"

definition affected :: "('r \<Rightarrow> bool) \<Rightarrow> 'r list \<Rightarrow> nat" where
  "affected P rs = length (filter P rs)"

lemma update_where_Nil [simp]: "update_where P f [] = []"
  by (simp add: update_where_def)

lemma update_where_Cons [simp]:
  "update_where P f (r # rs) = (if P r then f r else r) # update_where P f rs"
  by (simp add: update_where_def)

lemma length_update_where [simp]: "length (update_where P f rs) = length rs"
  by (simp add: update_where_def)

lemma map_update_where [simp]:
  "(\<And>r. k (f r) = k r) \<Longrightarrow> map k (update_where P f rs) = map k rs"
  by (induction rs) auto

lemma set_update_where: "set (update_where P f rs) = (\<lambda>r. if P r then f r else r) ` set rs"
  by (simp add: update_where_def)

lemma affected_Nil [simp]: "affected P [] = 0"
  by (simp add: affected_def)

lemma affected_Cons [simp]: "affected P (r # rs) = (if P r then Suc (affected P rs) else affected P rs)"
  by (simp add: affected_def)

lemma affected_0: "affected P rs = 0 \<longleftrightarrow> (\<forall>r \<in> set rs. \<not> P r)"
  by (induction rs) auto

lemma update_where_unaffected: "affected P rs = 0 \<Longrightarrow> update_where P f rs = rs"
  by (induction rs) (auto split: if_splits)

text \<open>Rows of a table with a unique key.\<close>

lemma find_key_Some:
  "distinct (map k rs) \<Longrightarrow> r \<in> set rs \<Longrightarrow> find (\<lambda>x. k x = k r) rs = Some r"
  by (induction rs) (auto simp: image_iff)

lemma find_SomeD: "find P rs = Some r \<Longrightarrow> r \<in> set rs \<and> P r"
  by (induction rs) (auto split: if_splits)

lemma find_NoneD: "find P rs = None \<Longrightarrow> r \<in> set rs \<Longrightarrow> \<not> P r"
  by (auto simp: find_None_iff)

lemma find_append [row_simps]:
  "find P (rs @ ss) = (case find P rs of Some r \<Rightarrow> Some r | None \<Rightarrow> find P ss)"
  by (induction rs) auto

lemma find_update_where [row_simps]:
  "(\<And>r. Q (f r) = Q r) \<Longrightarrow>
    find Q (update_where P f rs) = map_option (\<lambda>r. if P r then f r else r) (find Q rs)"
  by (induction rs) auto

lemma list_all2_partner: "list_all2 P xs ys \<Longrightarrow> x \<in> set xs \<Longrightarrow> \<exists>y \<in> set ys. P x y"
  by (induction rule: list_all2_induct) auto

lemma key_unique: "distinct (map k rs) \<Longrightarrow> x \<in> set rs \<Longrightarrow> y \<in> set rs \<Longrightarrow> k x = k y \<Longrightarrow> x = y"
  by (auto simp: distinct_map dest: inj_onD)

lemma map_option_update [simp]:
  "(\<And>r. k (f r) = k r) \<Longrightarrow> map_option k (map_option (\<lambda>r. if P r then f r else r) x) = map_option k x"
  by (cases x) auto

lemma affected_key_le_1:
  "distinct (map k rs) \<Longrightarrow> affected (\<lambda>r. k r = a \<and> P r) rs \<le> 1"
proof (induction rs)
  case (Cons r rs)
  show ?case
  proof (cases "k r = a \<and> P r")
    case True
    with Cons.prems have "\<forall>x \<in> set rs. k x \<noteq> a" by (auto simp: image_iff)
    then have "affected (\<lambda>r. k r = a \<and> P r) rs = 0" by (simp add: affected_0)
    with True show ?thesis by simp
  next
    case False
    with Cons show ?thesis by auto
  qed
qed simp

lemma affected_key:
  assumes "distinct (map k rs)"
  shows "affected (\<lambda>r. k r = a \<and> P r) rs =
    (case find (\<lambda>r. k r = a) rs of Some r \<Rightarrow> if P r then 1 else 0 | None \<Rightarrow> 0)"
  using assms
proof (induction rs)
  case (Cons r rs)
  show ?case
  proof (cases "k r = a")
    case True
    with Cons.prems have "\<forall>x \<in> set rs. k x \<noteq> a" by (auto simp: image_iff)
    then have "affected (\<lambda>r. k r = a \<and> P r) rs = 0" by (simp add: affected_0)
    with True show ?thesis by simp
  next
    case False
    with Cons show ?thesis by simp
  qed
qed simp

lemma find_None_image: "find (\<lambda>r. k r = a) rs = None \<longleftrightarrow> a \<notin> k ` set rs"
  by (auto simp: find_None_iff)

lemma find_cong_set: "(\<And>r. r \<in> set rs \<Longrightarrow> P r = Q r) \<Longrightarrow> find P rs = find Q rs"
  by (induction rs) auto

section \<open>Go maps read with a zero value\<close>

definition map_get :: "'v \<Rightarrow> ('k \<rightharpoonup> 'v) \<Rightarrow> 'k \<Rightarrow> 'v" where
  "map_get z m k = (case m k of Some v \<Rightarrow> v | None \<Rightarrow> z)"

lemma map_get_Some [simp]: "m k = Some v \<Longrightarrow> map_get z m k = v"
  by (simp add: map_get_def)

lemma map_get_None [simp]: "m k = None \<Longrightarrow> map_get z m k = z"
  by (simp add: map_get_def)

section \<open>Statements\<close>

text \<open>
  The outcome of one statement: its own result when the round trip answers, the connection's
  error otherwise.
\<close>

fun exec :: "reply \<Rightarrow> dberr + 'a \<Rightarrow> dberr + 'a" where
  "exec Done x = x"
| "exec (Refused k) x = Inl k"
| "exec (Lost k) x = Inl k"

definition stmt :: "'e \<Rightarrow> reply \<Rightarrow> dberr + 'a \<Rightarrow> 'e + 'a" where
  "stmt e r x = (case exec r x of Inl k \<Rightarrow> Inl e | Inr v \<Rightarrow> Inr v)"

text \<open>
  \<open>INSERT\<close> of one row, in the order PostgreSQL checks it: the row's own constraints, the
  unique indexes, the foreign keys. \<open>UPDATE\<close> yields the table and the affected-row count, or
  an error when an updated row violates a constraint.
\<close>

definition insert_row ::
    "('r \<Rightarrow> bool) \<Rightarrow> ('r \<Rightarrow> 'r \<Rightarrow> bool) \<Rightarrow> ('r \<Rightarrow> bool) \<Rightarrow> 'r \<Rightarrow> 'r list \<Rightarrow> dberr + 'r list" where
  "insert_row check clash ref r rs =
     (if \<not> check r then Inl OtherDb
      else if list_ex (\<lambda>x. clash x r) rs then Inl UniqueViolation
      else if \<not> ref r then Inl OtherDb
      else Inr (rs @ [r]))"

definition update_rows ::
    "('r \<Rightarrow> bool) \<Rightarrow> ('r \<Rightarrow> bool) \<Rightarrow> ('r \<Rightarrow> 'r) \<Rightarrow> 'r list \<Rightarrow> dberr + 'r list \<times> nat" where
  "update_rows check P f rs =
     (if list_all (\<lambda>r. P r \<longrightarrow> check (f r)) rs then Inr (update_where P f rs, affected P rs) else Inl OtherDb)"

text \<open>
  A transaction: when it cannot begin, and when its body fails, the state is the old one (the
  deferred rollback); the body's own state is what the \<open>COMMIT\<close> settles.
\<close>

definition in_tx ::
    "reply \<Rightarrow> 'e \<Rightarrow> (nat \<Rightarrow> reply) \<Rightarrow> 'e \<Rightarrow> 'd \<Rightarrow> 'e + 'a \<times> 'd \<times> nat \<Rightarrow> ('e + 'a) \<times> 'd" where
  "in_tx begin_reply begin_error replies commit_error db body =
     (if begin_reply \<noteq> Done then (Inl begin_error, db)
      else case body of
        Inl e \<Rightarrow> (Inl e, db)
      | Inr (v, db', n) \<Rightarrow> settle (replies n) db db' commit_error v)"

lemma stmt_Inr [simp]: "stmt e r x = Inr v \<longleftrightarrow> r = Done \<and> x = Inr v"
  by (cases r) (auto simp: stmt_def split: sum.splits)

lemma All_less_add: "(\<forall>i < a + (b::nat). P i) \<longleftrightarrow> (\<forall>i < a. P i) \<and> (\<forall>i < b. P (a + i))"
proof (intro iffI conjI allI impI)
  fix i assume "(\<forall>i < a. P i) \<and> (\<forall>i < b. P (a + i))" "i < a + b"
  then show "P i" by (cases "i < a") (auto dest: spec [where x = "i - a"])
qed auto

lemma sum_bind_Inr: "(case m of Inl e \<Rightarrow> Inl e | Inr v \<Rightarrow> f v) = Inr y \<longleftrightarrow> (\<exists>v. m = Inr v \<and> f v = Inr y)"
  by (cases m) auto

lemma exec_Inr [simp]: "exec r x = Inr v \<longleftrightarrow> r = Done \<and> x = Inr v"
  by (cases r) auto

lemma stmt_Inl: "stmt e r x = Inl e' \<Longrightarrow> e' = e"
  by (auto simp: stmt_def split: sum.splits)

lemma stmt_Done [simp]: "stmt e Done (Inr v) = Inr v"
  by (simp add: stmt_def)

lemma insert_row_Inr:
  "insert_row check clash ref r rs = Inr rs' \<longleftrightarrow>
     check r \<and> (\<forall>x \<in> set rs. \<not> clash x r) \<and> ref r \<and> rs' = rs @ [r]"
  by (auto simp: insert_row_def list_ex_iff)

lemma update_rows_Inr:
  "update_rows check P f rs = Inr (rs', n) \<longleftrightarrow>
     (\<forall>r \<in> set rs. P r \<longrightarrow> check (f r)) \<and> rs' = update_where P f rs \<and> n = affected P rs"
  by (auto simp: update_rows_def list_all_iff)

lemma in_tx_cases:
  assumes "in_tx b be rs ce db body = (res, db')"
  shows "(\<exists>e. res = Inl e \<and> db' = db) \<or>
    (\<exists>v new n. b = Done \<and> body = Inr (v, new, n) \<and> (res = Inr v \<or> res = Inl ce) \<and> (db' = db \<or> db' = new) \<and>
       (res = Inr v \<longrightarrow> db' = new \<and> rs n = Done))"
proof (cases "b = Done")
  case True
  show ?thesis
  proof (cases body)
    case (Inr c)
    obtain v new n where "c = (v, new, n)" by (cases c) auto
    with True Inr assms settle_cases show ?thesis by (fastforce simp: in_tx_def)
  qed (use True assms in \<open>auto simp: in_tx_def\<close>)
qed (use assms in \<open>auto simp: in_tx_def\<close>)

lemma in_tx_Inr:
  "in_tx b be rs ce db body = (Inr v, db') \<longleftrightarrow> b = Done \<and> (\<exists>n. body = Inr (v, db', n) \<and> rs n = Done)"
  by (auto simp: in_tx_def split: sum.splits)

lemma map_sum_Inr [simp]: "map_sum f g x = Inr y \<longleftrightarrow> (\<exists>z. x = Inr z \<and> y = g z)"
  by (cases x) auto

section \<open>Sequencing fallible steps\<close>

definition bindE :: "'e + 'a \<Rightarrow> ('a \<Rightarrow> 'e + 'b) \<Rightarrow> 'e + 'b" where
  "bindE m f = (case m of Inl e \<Rightarrow> Inl e | Inr v \<Rightarrow> f v)"

lemma bindE_Inr: "bindE m f = Inr y \<longleftrightarrow> (\<exists>v. m = Inr v \<and> f v = Inr y)"
  by (cases m) (auto simp: bindE_def)

lemma bindE_simps [simp]: "bindE (Inl e) f = Inl e" "bindE (Inr v) f = f v"
  by (simp_all add: bindE_def)

text \<open>
  A transaction whose body also says what the call answers once the \<open>COMMIT\<close> is done (some
  operations commit and then return an error of their own) and how it wraps an error of the
  \<open>COMMIT\<close>.
\<close>

definition tx_run ::
    "reply \<Rightarrow> 'e \<Rightarrow> (nat \<Rightarrow> reply) \<Rightarrow> 'd \<Rightarrow> 'e + ('e + 'a) \<times> 'e \<times> 'd \<times> nat \<Rightarrow> ('e + 'a) \<times> 'd" where
  "tx_run begin_reply begin_error replies db body =
     (if begin_reply \<noteq> Done then (Inl begin_error, db)
      else case body of
        Inl e \<Rightarrow> (Inl e, db)
      | Inr (answer, commit_error, db', n) \<Rightarrow>
          (case replies n of
             Done \<Rightarrow> (answer, db')
           | Refused _ \<Rightarrow> (Inl commit_error, db)
           | Lost _ \<Rightarrow> (Inl commit_error, db')))"

lemma tx_run_cases:
  assumes "tx_run b be replies db body = (res, db')"
  shows "(db' = db \<and> (\<exists>e. res = Inl e)) \<or>
    (\<exists>answer ce n. b = Done \<and> body = Inr (answer, ce, db', n) \<and> (res = answer \<and> replies n = Done \<or> res = Inl ce))"
  using assms by (auto simp: tx_run_def split: if_splits sum.splits reply.splits)

lemma tx_run_Inr:
  "tx_run b be replies db body = (Inr v, db') \<longleftrightarrow>
     b = Done \<and> (\<exists>ce n. body = Inr (Inr v, ce, db', n) \<and> replies n = Done)"
  by (auto simp: tx_run_def split: sum.splits reply.splits)

section \<open>Sorting by a key\<close>

lemma map_sort_key: "map f (sort_key f xs) = sort (map f xs)"
  by (rule properties_for_sort [symmetric]) simp_all

lemma sort_key_of_map: "sort_key k (map f xs) = map f (sort_key (\<lambda>x. k (f x)) xs)"
proof -
  have "insort_key k (f x) (map f ys) = map f (insort_key (\<lambda>x. k (f x)) x ys)" for x ys
    by (induction ys) auto
  then show ?thesis by (induction xs) (simp_all add: sort_key_def)
qed

lemma sort_key_perm:
  assumes "mset xs = mset ys" and "inj_on f (set xs)"
  shows "sort_key f xs = sort_key f ys"
proof -
  have "mset (map f xs) = mset (map f ys)" using assms(1) by (metis mset_map)
  then have "map f (sort_key f xs) = map f (sort_key f ys)"
    unfolding map_sort_key by (metis properties_for_sort mset_sort sorted_sort)
  moreover have "set xs = set ys" using assms(1) by (rule mset_eq_setD)
  ultimately show ?thesis using assms(2) by (metis inj_on_map_eq_map set_sort sup.idem)
qed

end
