(* ===== verification/Go_Text.thy ===== *)
theory Go_Text
  imports B46_Prelude
begin

text \<open>
  Go strings are byte sequences; here a \<open>string\<close> is the list of its bytes. The theory models
  what the services use of the standard library on them: UTF-8 decoding (\<open>utf8.DecodeRune\<close>,
  with U+FFFD of width one for a byte that starts no valid encoding), \<open>strings.TrimSpace\<close>
  over Unicode white space, \<open>utf8.RuneCountInString\<close>, hexadecimal digits, and the
  identifier check \<open>validUUID\<close> of the ordering application.
\<close>

section \<open>Bytes and runes\<close>

definition byte :: "char \<Rightarrow> nat" where
  "byte c = of_char c"

lemma byte_less_256: "byte c < 256"
  by (simp add: byte_def)

definition cont :: "nat \<Rightarrow> bool" where
  "cont b \<longleftrightarrow> 128 \<le> b \<and> b \<le> 191"

text \<open>Accepted second bytes after a lead byte \<open>b\<close>, as in Go's \<open>acceptRanges\<close>.\<close>

definition second_ok :: "nat \<Rightarrow> nat \<Rightarrow> bool" where
  "second_ok b c \<longleftrightarrow>
     (if b = 224 then 160 \<le> c \<and> c \<le> 191
      else if b = 237 then 128 \<le> c \<and> c \<le> 159
      else if b = 240 then 144 \<le> c \<and> c \<le> 191
      else if b = 244 then 128 \<le> c \<and> c \<le> 143
      else cont c)"

text \<open>The rune at the front of a non-empty byte sequence and its width.\<close>

definition decode_rune :: "nat list \<Rightarrow> nat \<times> nat" where
  "decode_rune bs =
     (case bs of
        [] \<Rightarrow> (65533, 0)
      | b0 # t0 \<Rightarrow>
          if b0 < 128 then (b0, 1)
          else (case t0 of
             [] \<Rightarrow> (65533, 1)
           | b1 # t1 \<Rightarrow>
               if 194 \<le> b0 \<and> b0 \<le> 223 \<and> second_ok b0 b1
               then ((b0 - 192) * 64 + (b1 - 128), 2)
               else (case t1 of
                  [] \<Rightarrow> (65533, 1)
                | b2 # t2 \<Rightarrow>
                    if 224 \<le> b0 \<and> b0 \<le> 239 \<and> second_ok b0 b1 \<and> cont b2
                    then ((b0 - 224) * 4096 + (b1 - 128) * 64 + (b2 - 128), 3)
                    else (case t2 of
                       [] \<Rightarrow> (65533, 1)
                     | b3 # t3 \<Rightarrow>
                         if 240 \<le> b0 \<and> b0 \<le> 244 \<and> second_ok b0 b1 \<and> cont b2 \<and> cont b3
                         then ((b0 - 240) * 262144 + (b1 - 128) * 4096
                               + (b2 - 128) * 64 + (b3 - 128), 4)
                         else (65533, 1)))))"

text \<open>A string cut into its runes, each with the bytes that encode it.\<close>

function utf8_segs :: "string \<Rightarrow> (nat \<times> string) list" where
  "utf8_segs [] = []"
| "utf8_segs (c # cs) =
     (let (r, w) = decode_rune (map byte (c # cs))
      in (r, take w (c # cs)) # utf8_segs (drop (w - 1) cs))"
  by pat_completeness auto
termination
  by (relation "measure length") auto

definition RuneCountInString :: "string \<Rightarrow> nat" where
  "RuneCountInString s = length (utf8_segs s)"

text \<open>\<open>unicode.IsSpace\<close>.\<close>

definition IsSpace :: "nat \<Rightarrow> bool" where
  "IsSpace r \<longleftrightarrow> (9 \<le> r \<and> r \<le> 13) \<or> r = 32 \<or> r = 133 \<or> r = 160 \<or> r = 5760 \<or>
     (8192 \<le> r \<and> r \<le> 8202) \<or> r = 8232 \<or> r = 8233 \<or> r = 8239 \<or> r = 8287 \<or> r = 12288"

text \<open>Leading and trailing segments that are white space are dropped.\<close>

definition trim_segs :: "(nat \<times> string) list \<Rightarrow> (nat \<times> string) list" where
  "trim_segs xs =
     rev (dropWhile (IsSpace \<circ> fst) (rev (dropWhile (IsSpace \<circ> fst) xs)))"

definition TrimSpace :: "string \<Rightarrow> string" where
  "TrimSpace s = concat (map snd (trim_segs (utf8_segs s)))"

lemma decode_rune_width:
  "bs \<noteq> [] \<Longrightarrow> 1 \<le> snd (decode_rune bs) \<and> snd (decode_rune bs) \<le> length bs"
  by (auto simp: decode_rune_def split: list.splits)

lemma utf8_segs_concat: "concat (map snd (utf8_segs s)) = s"
proof (induction s rule: utf8_segs.induct)
  case (2 c cs)
  obtain r w where rw: "decode_rune (map byte (c # cs)) = (r, w)" by fastforce
  with decode_rune_width [of "map byte (c # cs)"] have w: "1 \<le> w" by simp
  then obtain w' where w': "w = Suc w'" by (cases w) auto
  have "concat (map snd (utf8_segs (drop (w - 1) cs))) = drop (w - 1) cs"
    by (rule "2.IH"[OF rw[symmetric] refl])
  then show ?case using rw by (simp add: w')
qed simp

lemma utf8_segs_eq_Nil [simp]: "utf8_segs s = [] \<longleftrightarrow> s = []"
  by (cases s) (auto simp: Let_def split: prod.splits)

lemma RuneCount_zero [simp]: "RuneCountInString s = 0 \<longleftrightarrow> s = []"
  by (simp add: RuneCountInString_def)

lemma utf8_segs_ascii:
  "\<forall>c \<in> set s. byte c < 128 \<Longrightarrow> utf8_segs s = map (\<lambda>c. (byte c, [c])) s"
  by (induction s) (auto simp: decode_rune_def Let_def)

lemma RuneCount_ascii: "\<forall>c \<in> set s. byte c < 128 \<Longrightarrow> RuneCountInString s = length s"
  by (simp add: RuneCountInString_def utf8_segs_ascii)

lemma dropWhile_no_space:
  "\<forall>x \<in> set xs. \<not> IsSpace (fst x) \<Longrightarrow> dropWhile (IsSpace \<circ> fst) xs = xs"
  by (cases xs) auto

lemma trim_segs_no_space:
  "\<forall>x \<in> set xs. \<not> IsSpace (fst x) \<Longrightarrow> trim_segs xs = xs"
  by (simp add: trim_segs_def dropWhile_no_space)

lemma TrimSpace_plain:
  assumes "\<forall>c \<in> set s. byte c < 128 \<and> \<not> IsSpace (byte c)"
  shows "TrimSpace s = s"
proof -
  have "trim_segs (utf8_segs s) = utf8_segs s"
    using assms by (intro trim_segs_no_space) (auto simp: utf8_segs_ascii)
  then show ?thesis by (simp add: TrimSpace_def utf8_segs_concat)
qed

section \<open>Hexadecimal text\<close>

definition is_hex :: "char \<Rightarrow> bool" where
  "is_hex c \<longleftrightarrow> (48 \<le> byte c \<and> byte c \<le> 57) \<or> (97 \<le> byte c \<and> byte c \<le> 102) \<or>
     (65 \<le> byte c \<and> byte c \<le> 70)"

text \<open>\<open>hex.DecodeString\<close> succeeds on an even number of hexadecimal digits.\<close>

definition hex_decodes :: "string \<Rightarrow> bool" where
  "hex_decodes s \<longleftrightarrow> even (length s) \<and> list_all is_hex s"

definition validUUID :: "string \<Rightarrow> bool" where
  "validUUID value =
     (if length value \<noteq> 36 \<or> value ! 8 \<noteq> CHR ''-'' \<or> value ! 13 \<noteq> CHR ''-'' \<or>
         value ! 18 \<noteq> CHR ''-'' \<or> value ! 23 \<noteq> CHR ''-'' then False
      else let compact = filter (\<lambda>c. c \<noteq> CHR ''-'') value in
           if length compact \<noteq> 32 then False else hex_decodes compact)"

lemma is_hex_dash [simp]: "\<not> is_hex (CHR ''-'')"
  by (simp add: is_hex_def byte_def)

lemma validUUID_length: "validUUID s \<Longrightarrow> length s = 36"
  by (simp add: validUUID_def split: if_splits)

lemma validUUID_not_empty [simp]: "\<not> validUUID []"
  by (simp add: validUUID_def)

section \<open>PostgreSQL text\<close>

text \<open>
  A \<open>text\<close> column takes valid UTF-8 without the zero byte; its \<open>length\<close> counts characters, and
  \<open>btrim\<close> removes spaces.
\<close>

definition pg_text :: "string \<Rightarrow> bool" where
  "pg_text s \<longleftrightarrow> list_all (\<lambda>(r, bs). \<not> (r = 65533 \<and> length bs = 1) \<and> r \<noteq> 0) (utf8_segs s)"

definition btrim :: "string \<Rightarrow> string" where
  "btrim s = rev (dropWhile (\<lambda>c. c = CHR '' '') (rev (dropWhile (\<lambda>c. c = CHR '' '') s)))"

definition text_between :: "nat \<Rightarrow> nat \<Rightarrow> string \<Rightarrow> bool" where
  "text_between lo hi s \<longleftrightarrow> lo \<le> RuneCountInString s \<and> RuneCountInString s \<le> hi"

lemma pg_text_ascii: "\<forall>c \<in> set s. byte c < 128 \<and> byte c \<noteq> 0 \<Longrightarrow> pg_text s"
  by (auto simp: pg_text_def utf8_segs_ascii list_all_iff)

lemma text_between_ascii: "\<forall>c \<in> set s. byte c < 128 \<Longrightarrow> text_between lo hi s \<longleftrightarrow> lo \<le> length s \<and> length s \<le> hi"
  by (simp add: text_between_def RuneCount_ascii)

end
