(* ===== verification/Order_Domain.thy ===== *)
theory Order_Domain
  imports Go_Text
begin

text \<open>
  \<open>services/ordering/internal/ordering/domain/order.go\<close>: statuses, the records that cross the
  ports, the customer-facing state of an order and the fulfilment transitions. The status types
  are Go strings; their constants are constructors, and the \<open>Other\<close> constructor of each type
  holds any other string (a status read from a request body can be one).
\<close>

section \<open>Statuses and errors\<close>

datatype OrderStatus = OrderSubmitted | OrderConfirmed | OrderRejected | OrderStatusOther string

datatype FulfillmentStatus =
  FulfillmentPreparing | FulfillmentDelivering | FulfillmentDelivered | FulfillmentOther string

datatype CustomerStateT = CustomerPreparing | CustomerOnTheWay | CustomerDelivered | CustomerRejected

datatype InventoryResultStatus =
  InventoryPending | InventoryCommitted | InventoryItemsUnavailable | InventoryOther string

definition RejectionItemsUnavailable :: string where
  "RejectionItemsUnavailable = ''ITEMS_UNAVAILABLE''"

text \<open>
  The error values of \<open>order.go\<close>; \<open>Wrapped\<close> is any other error, with the text it is wrapped in,
  and \<open>Coded\<close> an error that carries a code (the \<open>codedError\<close> of the worker).
\<close>

datatype order_error =
  ErrInvalidInput | ErrCartChanged | ErrCheckoutConflict | ErrNotFound | ErrInvalidTransition
| ErrOperationConflict | ErrClaimLost | ErrInventoryTechnical
| Wrapped string | Coded string

section \<open>Records\<close>

record OrderLine =
  line_ID :: string
  line_ProductID :: string
  line_ProductName :: string
  line_UnitPriceCentavos :: int
  line_Quantity :: int
  line_LineTotalCentavos :: int

record Fulfillment =
  ful_Status :: FulfillmentStatus
  ful_Version :: int
  ful_Unread :: bool
  ful_PreparingAt :: int
  ful_DeliveringAt :: "int option"
  ful_DeliveredAt :: "int option"
  ful_CashierReadAt :: "int option"
  ful_CashierReadBy :: string
  ful_UpdatedBy :: string

record UnavailableItem =
  un_OrderLineID :: string
  un_ProductID :: string
  un_RequestedQuantity :: int
  un_AvailableQuantity :: int

record Order =
  ord_ID :: string
  ord_CheckoutID :: string
  ord_CustomerID :: string
  ord_CustomerName :: string
  ord_Status :: OrderStatus
  ord_RejectionCode :: string
  ord_SubtotalCentavos :: int
  ord_DeliveryFeeCentavos :: int
  ord_TotalCentavos :: int
  ord_DeliveryAddress :: string
  ord_DeliveryNotes :: string
  ord_Lines :: "OrderLine list"
  ord_Fulfillment :: "Fulfillment option"
  ord_UnavailableItems :: "UnavailableItem list"
  ord_CreatedAt :: int
  ord_UpdatedAt :: int

record InventoryItem =
  it_OrderLineID :: string
  it_ProductID :: string
  it_Quantity :: int

record InventoryCommit =
  com_EventID :: string
  com_OperationID :: string
  com_OrderID :: string
  com_OccurredAt :: int
  com_Items :: "InventoryItem list"

record InventoryResult =
  res_EventID :: string
  res_OperationID :: string
  res_OrderID :: string
  res_Status :: InventoryResultStatus
  res_OccurredAt :: int
  res_UnavailableItems :: "UnavailableItem list"

record ClaimedInventoryWork =
  clm_Commit :: InventoryCommit
  clm_ClaimToken :: string
  clm_AttemptCount :: int

record CheckoutLine =
  req_ProductID :: string
  req_Quantity :: int
  req_ExpectedUnitPriceCentavos :: int

record PlaceOrderCommand =
  cmd_CustomerID :: string
  cmd_CheckoutID :: string
  cmd_Lines :: "CheckoutLine list"
  cmd_DeliveryAddress :: string
  cmd_DeliveryNotes :: string

record ProductSnapshot =
  snap_ProductID :: string
  snap_Name :: string
  snap_UnitPriceCentavos :: int
  snap_Orderable :: bool

record OrderDraft =
  draft_Order :: Order
  draft_CheckoutFingerprint :: string
  draft_EventID :: string
  draft_OperationID :: string
  draft_OccurredAt :: int

record PlaceOrderResult =
  placed_Order :: Order
  placed_Replayed :: bool

datatype NotificationKind =
  NotificationOrderAccepted | NotificationOrderOnTheWay | NotificationOrderDelivered

record Notification =
  note_EventID :: string
  note_Kind :: NotificationKind
  note_OrderID :: string
  note_RecipientUserID :: string
  note_Audience :: string
  note_OccurredAt :: int

section \<open>Operations\<close>

definition CustomerState :: "Order \<Rightarrow> order_error + CustomerStateT" where
  "CustomerState order =
     (case ord_Status order of
        OrderSubmitted \<Rightarrow> Inr CustomerPreparing
      | OrderRejected \<Rightarrow> Inr CustomerRejected
      | OrderConfirmed \<Rightarrow>
          (case ord_Fulfillment order of
             None \<Rightarrow> Inl ErrInvalidTransition
           | Some f \<Rightarrow>
               (case ful_Status f of
                  FulfillmentPreparing \<Rightarrow> Inr CustomerPreparing
                | FulfillmentDelivering \<Rightarrow> Inr CustomerOnTheWay
                | FulfillmentDelivered \<Rightarrow> Inr CustomerDelivered
                | FulfillmentOther _ \<Rightarrow> Inl ErrInvalidTransition))
      | OrderStatusOther _ \<Rightarrow> Inl ErrInvalidTransition)"

definition NextAction :: "FulfillmentStatus \<Rightarrow> FulfillmentStatus" where
  "NextAction status =
     (case status of
        FulfillmentPreparing \<Rightarrow> FulfillmentDelivering
      | FulfillmentDelivering \<Rightarrow> FulfillmentDelivered
      | _ \<Rightarrow> FulfillmentOther [])"

definition ValidateFulfillmentTarget ::
    "FulfillmentStatus \<Rightarrow> FulfillmentStatus \<Rightarrow> order_error option" where
  "ValidateFulfillmentTarget current target =
     (if current = target \<and> (current = FulfillmentDelivering \<or> current = FulfillmentDelivered)
      then None
      else if current = FulfillmentPreparing \<and> target = FulfillmentDelivering then None
      else if current = FulfillmentDelivering \<and> target = FulfillmentDelivered then None
      else Some ErrInvalidTransition)"

text \<open>A target is accepted when it repeats a reached delivery stage or is the next action.\<close>

lemma ValidateFulfillmentTarget_None:
  "ValidateFulfillmentTarget current target = None \<longleftrightarrow>
     (current = target \<and> current \<in> {FulfillmentDelivering, FulfillmentDelivered}) \<or>
     (target = NextAction current \<and> current \<in> {FulfillmentPreparing, FulfillmentDelivering})"
  by (cases current; cases target) (auto simp: ValidateFulfillmentTarget_def NextAction_def)

lemma ValidateFulfillmentTarget_Some:
  "ValidateFulfillmentTarget current target = Some e \<Longrightarrow> e = ErrInvalidTransition"
  by (auto simp: ValidateFulfillmentTarget_def split: if_splits)

end
