(* ===== verification/Checkout.thy ===== *)
theory Checkout
  imports Order_Domain
begin

text \<open>
  The checkout of \<open>services/ordering/internal/ordering/application/service.go\<close>: validation of
  a command, pricing against the catalog with the overflow guards of the Go code on 64-bit
  integers, the draft handed to the store, and the guards of the query operations.
  The catalog, the identifier source, the store and the notifier are the ports the service
  calls and are arguments here. \<open>digest\<close> stands for the hex SHA-256 of the JSON encoding of
  the canonical payload.
\<close>

section \<open>Validation of a command\<close>

definition maximumCheckoutLines :: nat where
  "maximumCheckoutLines = 100"

definition maximumLineQuantity :: int where
  "maximumLineQuantity = 100"

definition zero_line :: CheckoutLine where
  "zero_line = \<lparr>req_ProductID = [], req_Quantity = 0, req_ExpectedUnitPriceCentavos = 0\<rparr>"

definition zero_snapshot :: ProductSnapshot where
  "zero_snapshot = \<lparr>snap_ProductID = [], snap_Name = [], snap_UnitPriceCentavos = 0, snap_Orderable = False\<rparr>"

definition command_ok :: "PlaceOrderCommand \<Rightarrow> bool" where
  "command_ok command \<longleftrightarrow>
     \<not> (\<not> validUUID (cmd_CustomerID command) \<or> \<not> validUUID (cmd_CheckoutID command) \<or>
        length (cmd_Lines command) = 0 \<or> length (cmd_Lines command) > maximumCheckoutLines \<or>
        RuneCountInString (cmd_DeliveryAddress command) = 0 \<or>
        RuneCountInString (cmd_DeliveryAddress command) > 500 \<or>
        RuneCountInString (cmd_DeliveryNotes command) > 500)"

text \<open>The loop over the request's lines: the map \<open>requested\<close> and the list \<open>productIDs\<close>.\<close>

fun collect_lines ::
    "(string \<rightharpoonup> CheckoutLine) \<Rightarrow> string list \<Rightarrow> CheckoutLine list \<Rightarrow>
     order_error + (string \<rightharpoonup> CheckoutLine) \<times> string list" where
  "collect_lines requested productIDs [] = Inr (requested, productIDs)"
| "collect_lines requested productIDs (line0 # rest) =
     (let line = line0\<lparr>req_ProductID := TrimSpace (req_ProductID line0)\<rparr> in
      if req_ProductID line = [] \<or> length (req_ProductID line) > 100 \<or> req_Quantity line < 1 \<or>
         req_Quantity line > maximumLineQuantity \<or> req_ExpectedUnitPriceCentavos line < 0
      then Inl ErrInvalidInput
      else if requested (req_ProductID line) \<noteq> None then Inl ErrInvalidInput
      else collect_lines (requested(req_ProductID line \<mapsto> line))
             (productIDs @ [req_ProductID line]) rest)"

section \<open>Pricing\<close>

definition index_products :: "ProductSnapshot list \<Rightarrow> (string \<rightharpoonup> ProductSnapshot)" where
  "index_products products = foldl (\<lambda>m p. m(snap_ProductID p \<mapsto> p)) Map.empty products"

fun price_lines ::
    "(string \<rightharpoonup> CheckoutLine) \<Rightarrow> (string \<rightharpoonup> ProductSnapshot) \<Rightarrow> int \<Rightarrow> string list \<Rightarrow>
     order_error + int" where
  "price_lines requested byID subtotal [] = Inr subtotal"
| "price_lines requested byID subtotal (productID # rest) =
     (let request = map_get zero_line requested productID;
          product = map_get zero_snapshot byID productID in
      if byID productID = None \<or> \<not> snap_Orderable product \<or>
         snap_UnitPriceCentavos product \<noteq> req_ExpectedUnitPriceCentavos request \<or>
         TrimSpace (snap_Name product) = [] \<or> snap_UnitPriceCentavos product < 0
      then Inl ErrCartChanged
      else if snap_UnitPriceCentavos product > go_div max_int64 (req_Quantity request)
      then Inl ErrInvalidInput
      else let lineTotal = wrap64 (snap_UnitPriceCentavos product * req_Quantity request) in
           if subtotal > wrap64 (max_int64 - lineTotal) then Inl ErrInvalidInput
           else price_lines requested byID (wrap64 (subtotal + lineTotal)) rest)"

section \<open>The draft\<close>

text \<open>
  \<open>ids n\<close> is the answer of the \<open>n\<close>-th call of the identifier source in one checkout: the
  order, the event, the operation, then one per line in product order.
\<close>

fun build_lines ::
    "(nat \<Rightarrow> string option) \<Rightarrow> nat \<Rightarrow> (string \<rightharpoonup> CheckoutLine) \<Rightarrow> (string \<rightharpoonup> ProductSnapshot) \<Rightarrow>
     string list \<Rightarrow> order_error + OrderLine list" where
  "build_lines ids n requested byID [] = Inr []"
| "build_lines ids n requested byID (productID # rest) =
     (let request = map_get zero_line requested productID;
          product = map_get zero_snapshot byID productID in
      case ids n of
        None \<Rightarrow> Inl (Wrapped ''generate order line ID'')
      | Some lineID \<Rightarrow>
          (case build_lines ids (Suc n) requested byID rest of
             Inl e \<Rightarrow> Inl e
           | Inr lines \<Rightarrow> Inr (\<lparr>line_ID = lineID, line_ProductID = productID,
               line_ProductName = TrimSpace (snap_Name product),
               line_UnitPriceCentavos = snap_UnitPriceCentavos product,
               line_Quantity = req_Quantity request,
               line_LineTotalCentavos =
                 wrap64 (snap_UnitPriceCentavos product * req_Quantity request)\<rparr> # lines)))"

record canonicalLine =
  can_ProductID :: string
  can_Quantity :: int
  can_ExpectedUnitPriceCentavos :: int

record fingerprintPayload =
  pay_CustomerID :: string
  pay_DeliveryAddress :: string
  pay_DeliveryNotes :: string
  pay_Lines :: "canonicalLine list"

definition fingerprint_payload ::
    "PlaceOrderCommand \<Rightarrow> string list \<Rightarrow> (string \<rightharpoonup> CheckoutLine) \<Rightarrow> fingerprintPayload" where
  "fingerprint_payload command productIDs requested =
     \<lparr>pay_CustomerID = cmd_CustomerID command,
      pay_DeliveryAddress = cmd_DeliveryAddress command,
      pay_DeliveryNotes = cmd_DeliveryNotes command,
      pay_Lines = map (\<lambda>productID.
        let line = map_get zero_line requested productID in
        \<lparr>can_ProductID = productID, can_Quantity = req_Quantity line,
         can_ExpectedUnitPriceCentavos = req_ExpectedUnitPriceCentavos line\<rparr>) productIDs\<rparr>"

definition checkoutFingerprint ::
    "(fingerprintPayload \<Rightarrow> string) \<Rightarrow> PlaceOrderCommand \<Rightarrow> string list \<Rightarrow>
     (string \<rightharpoonup> CheckoutLine) \<Rightarrow> string" where
  "checkoutFingerprint digest command productIDs requested =
     digest (fingerprint_payload command productIDs requested)"

definition trim_command :: "PlaceOrderCommand \<Rightarrow> PlaceOrderCommand" where
  "trim_command command =
     command\<lparr>cmd_DeliveryAddress := TrimSpace (cmd_DeliveryAddress command),
             cmd_DeliveryNotes := TrimSpace (cmd_DeliveryNotes command)\<rparr>"

definition make_draft ::
    "PlaceOrderCommand \<Rightarrow> string \<Rightarrow> string \<Rightarrow> string \<Rightarrow> OrderLine list \<Rightarrow> int \<Rightarrow> string \<Rightarrow> int \<Rightarrow> OrderDraft" where
  "make_draft command orderID eventID operationID lines subtotal fingerprint now =
     \<lparr>draft_Order = \<lparr>ord_ID = orderID, ord_CheckoutID = cmd_CheckoutID command,
        ord_CustomerID = cmd_CustomerID command, ord_CustomerName = [],
        ord_Status = OrderSubmitted, ord_RejectionCode = [],
        ord_SubtotalCentavos = subtotal, ord_DeliveryFeeCentavos = 0,
        ord_TotalCentavos = subtotal, ord_DeliveryAddress = cmd_DeliveryAddress command,
        ord_DeliveryNotes = cmd_DeliveryNotes command, ord_Lines = lines,
        ord_Fulfillment = None, ord_UnavailableItems = [], ord_CreatedAt = now,
        ord_UpdatedAt = now\<rparr>,
      draft_CheckoutFingerprint = fingerprint, draft_EventID = eventID,
      draft_OperationID = operationID, draft_OccurredAt = now\<rparr>"

text \<open>Everything \<open>PlaceOrder\<close> does before it calls the store.\<close>

definition prepare_order ::
    "(string list \<Rightarrow> order_error + ProductSnapshot list) \<Rightarrow> (nat \<Rightarrow> string option) \<Rightarrow>
     (fingerprintPayload \<Rightarrow> string) \<Rightarrow> int \<Rightarrow> PlaceOrderCommand \<Rightarrow> order_error + OrderDraft" where
  "prepare_order resolve ids digest now command0 =
     (let command = trim_command command0 in
      if \<not> command_ok command then Inl ErrInvalidInput
      else case collect_lines Map.empty [] (cmd_Lines command) of
        Inl e \<Rightarrow> Inl e
      | Inr (requested, unsorted) \<Rightarrow>
          let productIDs = sort unsorted in
          case resolve productIDs of
            Inl e \<Rightarrow> Inl e
          | Inr products \<Rightarrow>
              let byID = index_products products in
              case price_lines requested byID 0 productIDs of
                Inl e \<Rightarrow> Inl e
              | Inr subtotal \<Rightarrow>
                  case ids 0 of None \<Rightarrow> Inl (Wrapped ''generate order ID'')
                  | Some orderID \<Rightarrow>
                  case ids 1 of None \<Rightarrow> Inl (Wrapped ''generate event ID'')
                  | Some eventID \<Rightarrow>
                  case ids 2 of None \<Rightarrow> Inl (Wrapped ''generate operation ID'')
                  | Some operationID \<Rightarrow>
                  case build_lines ids 3 requested byID productIDs of
                    Inl e \<Rightarrow> Inl e
                  | Inr lines \<Rightarrow>
                      Inr (make_draft command orderID eventID operationID lines subtotal
                             (checkoutFingerprint digest command productIDs requested) now))"

definition PlaceOrder_service ::
    "(string list \<Rightarrow> order_error + ProductSnapshot list) \<Rightarrow> (nat \<Rightarrow> string option) \<Rightarrow>
     (fingerprintPayload \<Rightarrow> string) \<Rightarrow> int \<Rightarrow>
     (OrderDraft \<Rightarrow> 's \<Rightarrow> (order_error + PlaceOrderResult) \<times> 's) \<Rightarrow>
     PlaceOrderCommand \<Rightarrow> 's \<Rightarrow> (order_error + PlaceOrderResult) \<times> 's" where
  "PlaceOrder_service resolve ids digest now place command st =
     (case prepare_order resolve ids digest now command of
        Inl e \<Rightarrow> (Inl e, st)
      | Inr draft \<Rightarrow> place draft st)"

section \<open>Facts about the loops\<close>

lemma cmd_Lines_trim [simp]: "cmd_Lines (trim_command command) = cmd_Lines command"
  by (simp add: trim_command_def)

definition trim_line :: "CheckoutLine \<Rightarrow> CheckoutLine" where
  "trim_line l = l\<lparr>req_ProductID := TrimSpace (req_ProductID l)\<rparr>"

definition line_ok :: "CheckoutLine \<Rightarrow> bool" where
  "line_ok l \<longleftrightarrow> req_ProductID (trim_line l) \<noteq> [] \<and> length (req_ProductID (trim_line l)) \<le> 100 \<and>
     1 \<le> req_Quantity l \<and> req_Quantity l \<le> maximumLineQuantity \<and> 0 \<le> req_ExpectedUnitPriceCentavos l"

abbreviation product_key :: "CheckoutLine \<Rightarrow> string" where
  "product_key l \<equiv> req_ProductID (trim_line l)"

definition line_map :: "CheckoutLine list \<Rightarrow> (string \<rightharpoonup> CheckoutLine)" where
  "line_map ls = map_of (map (\<lambda>l. (product_key l, trim_line l)) ls)"

lemma trim_line_simps [simp]:
  "req_Quantity (trim_line l) = req_Quantity l"
  "req_ExpectedUnitPriceCentavos (trim_line l) = req_ExpectedUnitPriceCentavos l"
  by (simp_all add: trim_line_def)

lemma dom_line_map [simp]: "dom (line_map ls) = product_key ` set ls"
  by (simp add: line_map_def dom_map_of_conv_image_fst image_image)

lemma line_map_Some: "line_map ls pid = Some l \<Longrightarrow> \<exists>l0 \<in> set ls. l = trim_line l0 \<and> product_key l0 = pid"
  unfolding line_map_def by (drule map_of_SomeD) auto

lemma collect_lines_step:
  "collect_lines m ids (l # ls) =
     (if \<not> line_ok l \<or> product_key l \<in> dom m then Inl ErrInvalidInput
      else collect_lines (m(product_key l \<mapsto> trim_line l)) (ids @ [product_key l]) ls)"
  by (auto simp: line_ok_def trim_line_def Let_def domIff not_le)

declare collect_lines.simps(2) [simp del]

lemma map_add_line_map:
  "product_key l \<notin> product_key ` set ls \<Longrightarrow>
     m(product_key l \<mapsto> trim_line l) ++ line_map ls = m ++ line_map (l # ls)"
  unfolding line_map_def
  by (intro ext) (auto simp: map_add_def map_of_eq_None_iff image_image split: option.splits
      dest!: map_of_SomeD)

text \<open>
  The loop accepts exactly the well-formed lines with pairwise distinct products, and then the
  map and the list of products are determined by the lines.
\<close>

lemma collect_lines_eq:
  "collect_lines m ids ls =
     (if (\<forall>l \<in> set ls. line_ok l) \<and> distinct (map product_key ls) \<and>
         (\<forall>l \<in> set ls. product_key l \<notin> dom m)
      then Inr (m ++ line_map ls, ids @ map product_key ls) else Inl ErrInvalidInput)"
proof (induction ls arbitrary: m ids)
  case Nil
  show ?case by (simp add: line_map_def)
next
  case (Cons l ls)
  show ?case
  proof (cases "line_ok l \<and> product_key l \<notin> dom m")
    case True
    then show ?thesis
      by (auto simp: collect_lines_step Cons.IH map_add_line_map image_iff domIff split: if_splits)
        metis
  next
    case False
    then show ?thesis by (auto simp: collect_lines_step)
  qed
qed

definition lines_ok :: "CheckoutLine list \<Rightarrow> bool" where
  "lines_ok ls \<longleftrightarrow> (\<forall>l \<in> set ls. line_ok l) \<and> distinct (map product_key ls)"

lemma collect_lines_start:
  "collect_lines Map.empty [] ls =
     (if lines_ok ls then Inr (line_map ls, map product_key ls) else Inl ErrInvalidInput)"
  by (simp add: collect_lines_eq lines_ok_def)

lemma line_map_perm:
  assumes "distinct (map product_key ls)" and "mset ls = mset ls'"
  shows "line_map ls = line_map ls'"
proof -
  have "mset (map product_key ls) = mset (map product_key ls')"
    using assms(2) by (metis mset_map)
  with assms(1) have "distinct (map product_key ls')"
    using mset_eq_imp_distinct_iff by blast
  moreover have "set ls = set ls'"
    using assms(2) by (rule mset_eq_setD)
  ultimately show ?thesis
    unfolding line_map_def using assms(1)
    by (intro map_of_inject_set [THEN iffD2]) (simp_all add: comp_def)
qed

subsection \<open>Pricing\<close>

definition cart_matches ::
    "(string \<rightharpoonup> CheckoutLine) \<Rightarrow> (string \<rightharpoonup> ProductSnapshot) \<Rightarrow> string \<Rightarrow> bool" where
  "cart_matches requested byID pid \<longleftrightarrow>
     (\<exists>p. byID pid = Some p \<and> snap_Orderable p \<and>
        snap_UnitPriceCentavos p = req_ExpectedUnitPriceCentavos (map_get zero_line requested pid) \<and>
        TrimSpace (snap_Name p) \<noteq> [] \<and> 0 \<le> snap_UnitPriceCentavos p)"

definition line_amount ::
    "(string \<rightharpoonup> CheckoutLine) \<Rightarrow> (string \<rightharpoonup> ProductSnapshot) \<Rightarrow> string \<Rightarrow> int" where
  "line_amount requested byID pid =
     snap_UnitPriceCentavos (map_get zero_snapshot byID pid) * req_Quantity (map_get zero_line requested pid)"

lemma guard_product:
  assumes "1 \<le> (q::int)" and "0 \<le> p"
  shows "p > go_div max_int64 q \<longleftrightarrow> p * q > max_int64"
proof -
  have "go_div max_int64 q = max_int64 div q" using assms(1) by simp
  moreover have "p \<le> max_int64 div q \<longleftrightarrow> p * q \<le> max_int64"
  proof
    assume "p \<le> max_int64 div q"
    then have "p * q \<le> max_int64 div q * q" using assms(1) by (simp add: mult_right_mono)
    also have "\<dots> \<le> max_int64" using assms(1) by (simp add: minus_mod_eq_div_mult [symmetric])
    finally show "p * q \<le> max_int64" .
  next
    assume "p * q \<le> max_int64"
    then have "p * q div q \<le> max_int64 div q" using assms(1) by (intro zdiv_mono1) auto
    then show "p \<le> max_int64 div q" using assms(1) by simp
  qed
  ultimately show ?thesis by linarith
qed

lemma in64_range: "0 \<le> x \<Longrightarrow> x \<le> max_int64 \<Longrightarrow> in64 x"
  by (simp add: in64_def max_int64_def)

text \<open>
  One pricing step in exact arithmetic: under the guards no operation of the Go code wraps.
\<close>

lemma price_lines_step:
  assumes "0 \<le> subtotal" and "subtotal \<le> max_int64"
    and "1 \<le> req_Quantity (map_get zero_line requested pid)"
  shows "price_lines requested byID subtotal (pid # rest) =
     (if \<not> cart_matches requested byID pid then Inl ErrCartChanged
      else if subtotal + line_amount requested byID pid > max_int64 then Inl ErrInvalidInput
      else price_lines requested byID (subtotal + line_amount requested byID pid) rest)"
proof (cases "cart_matches requested byID pid")
  case False
  then show ?thesis by (auto simp: cart_matches_def Let_def)
next
  case True
  then obtain p where p: "byID pid = Some p" and pos: "0 \<le> snap_UnitPriceCentavos p"
    by (auto simp: cart_matches_def)
  let ?q = "req_Quantity (map_get zero_line requested pid)"
  let ?a = "snap_UnitPriceCentavos p * ?q"
  have amt: "line_amount requested byID pid = ?a" by (simp add: line_amount_def p)
  have a0: "0 \<le> ?a" using pos assms(3) by simp
  have guard: "snap_UnitPriceCentavos p > go_div max_int64 ?q \<longleftrightarrow> ?a > max_int64"
    using assms(3) pos by (rule guard_product)
  show ?thesis
  proof (cases "?a \<le> max_int64")
    case False
    with True guard assms(1) show ?thesis by (auto simp: cart_matches_def p amt Let_def)
  next
    case le: True
    then have "wrap64 ?a = ?a" using a0 by (simp add: in64_range)
    moreover have "wrap64 (max_int64 - ?a) = max_int64 - ?a"
      using a0 le by (intro wrap64_id in64_range) auto
    moreover have "subtotal + ?a \<le> max_int64 \<Longrightarrow> wrap64 (subtotal + ?a) = subtotal + ?a"
      using a0 assms(1) by (intro wrap64_id in64_range) auto
    ultimately show ?thesis using True guard le by (auto simp: cart_matches_def p amt Let_def)
  qed
qed

declare price_lines.simps(2) [simp del]

lemma line_amount_nonneg:
  assumes "cart_matches requested byID pid" and "1 \<le> req_Quantity (map_get zero_line requested pid)"
  shows "0 \<le> line_amount requested byID pid"
  using assms by (auto simp: cart_matches_def line_amount_def)

lemma price_lines_Inr:
  assumes "0 \<le> subtotal" and "subtotal \<le> max_int64"
    and "\<forall>pid \<in> set pids. 1 \<le> req_Quantity (map_get zero_line requested pid)"
  shows "price_lines requested byID subtotal pids = Inr t \<longleftrightarrow>
     (\<forall>pid \<in> set pids. cart_matches requested byID pid) \<and>
     t = subtotal + (\<Sum>pid\<leftarrow>pids. line_amount requested byID pid) \<and> t \<le> max_int64"
  using assms
proof (induction pids arbitrary: subtotal)
  case Nil
  then show ?case by auto
next
  case (Cons pid rest)
  let ?a = "line_amount requested byID pid"
  show ?case
  proof (cases "cart_matches requested byID pid \<and> subtotal + ?a \<le> max_int64")
    case True
    with Cons.prems have "0 \<le> subtotal + ?a" using line_amount_nonneg by fastforce
    with True Cons.prems Cons.IH [of "subtotal + ?a"] show ?thesis
      by (auto simp: price_lines_step add.assoc)
  next
    case False
    have "(\<forall>p \<in> set rest. cart_matches requested byID p) \<Longrightarrow>
        0 \<le> (\<Sum>p\<leftarrow>rest. line_amount requested byID p)"
      using Cons.prems line_amount_nonneg by (intro sum_list_nonneg) auto
    with False Cons.prems show ?thesis by (auto simp: price_lines_step)
  qed
qed

subsection \<open>Lines of the draft\<close>

definition line_for ::
    "(string \<rightharpoonup> CheckoutLine) \<Rightarrow> (string \<rightharpoonup> ProductSnapshot) \<Rightarrow> OrderLine \<Rightarrow> bool" where
  "line_for requested byID l \<longleftrightarrow>
     (let pid = line_ProductID l in
      line_Quantity l = req_Quantity (map_get zero_line requested pid) \<and>
      line_UnitPriceCentavos l = snap_UnitPriceCentavos (map_get zero_snapshot byID pid) \<and>
      line_ProductName l = TrimSpace (snap_Name (map_get zero_snapshot byID pid)) \<and>
      line_LineTotalCentavos l = wrap64 (line_amount requested byID pid))"

lemma build_lines_Inr:
  "build_lines ids n requested byID pids = Inr lines \<Longrightarrow>
     map line_ProductID lines = pids \<and> (\<forall>l \<in> set lines. line_for requested byID l) \<and>
     map (Some \<circ> line_ID) lines = map ids [n..<n + length pids]"
proof (induction pids arbitrary: n lines)
  case (Cons pid rest)
  have "[n..<n + length (pid # rest)] = n # [Suc n..<Suc n + length rest]"
    by (simp add: upt_rec)
  with Cons show ?case
    by (auto simp: Let_def line_amount_def line_for_def simp del: upt_Suc split: option.splits sum.splits)
qed simp

lemma build_lines_ids:
  "(\<exists>lines. build_lines ids n requested byID pids = Inr lines) \<longleftrightarrow> (\<forall>i < length pids. ids (n + i) \<noteq> None)"
proof (induction pids arbitrary: n)
  case (Cons pid rest)
  show ?case
    by (auto simp: Let_def All_less_Suc2 Cons.IH [of "Suc n", simplified] split: option.splits sum.splits)
      (metis Cons.IH Inr_not_Inl add_Suc add_Suc_right option.distinct(1))+
qed simp

section \<open>Properties of a prepared draft\<close>

lemma line_map_at:
  assumes "lines_ok ls" and "l \<in> set ls"
  shows "line_map ls (product_key l) = Some (trim_line l)"
proof -
  have "distinct (map fst (map (\<lambda>l. (product_key l, trim_line l)) ls))"
    using assms(1) by (simp add: lines_ok_def comp_def)
  then show ?thesis
    using assms(2) unfolding line_map_def by (intro map_of_is_SomeI) auto
qed

lemma quantity_at:
  assumes "lines_ok ls" and "pid \<in> product_key ` set ls"
  shows "1 \<le> req_Quantity (map_get zero_line (line_map ls) pid)"
    and "req_Quantity (map_get zero_line (line_map ls) pid) \<le> 100"
  using assms by (auto simp: line_map_at lines_ok_def line_ok_def maximumLineQuantity_def)

lemma sum_list_sort: "sum_list (map (f :: 'a::linorder \<Rightarrow> int) (sort xs)) = sum_list (map f xs)"
  by (metis mset_map mset_sort sum_mset_sum_list)

lemma strict_sorted_sort: "distinct xs \<Longrightarrow> sorted_wrt (<) (sort (xs :: 'a::linorder list))"
  by (simp add: strict_sorted_iff)

text \<open>The draft in closed form: what each line of a successful preparation passed.\<close>

lemma prepare_order_Inr:
  assumes "prepare_order resolve ids digest now command = Inr draft"
  obtains products lines t oid eid opid where
    "command_ok (trim_command command)" and "lines_ok (cmd_Lines command)"
    and "resolve (sort (map product_key (cmd_Lines command))) = Inr products"
    and "price_lines (line_map (cmd_Lines command)) (index_products products) 0
           (sort (map product_key (cmd_Lines command))) = Inr t"
    and "build_lines ids 3 (line_map (cmd_Lines command)) (index_products products)
           (sort (map product_key (cmd_Lines command))) = Inr lines"
    and "ids 0 = Some oid" and "ids 1 = Some eid" and "ids 2 = Some opid"
    and "draft = make_draft (trim_command command) oid eid opid lines t
           (checkoutFingerprint digest (trim_command command)
             (sort (map product_key (cmd_Lines command))) (line_map (cmd_Lines command))) now"
proof -
  show thesis
    using assms that unfolding prepare_order_def Let_def collect_lines_start cmd_Lines_trim
    by (auto split: if_splits sum.splits option.splits)
qed

lemma price_lines_sum:
  assumes "lines_ok ls"
  shows "price_lines (line_map ls) byID 0 (sort (map product_key ls)) = Inr t \<longleftrightarrow>
     (\<forall>l \<in> set ls. cart_matches (line_map ls) byID (product_key l)) \<and>
     t = (\<Sum>l\<leftarrow>ls. req_ExpectedUnitPriceCentavos l * req_Quantity l) \<and> t \<le> max_int64"
proof -
  have amount: "line_amount (line_map ls) byID (product_key l) =
      req_ExpectedUnitPriceCentavos l * req_Quantity l"
    if "l \<in> set ls" "cart_matches (line_map ls) byID (product_key l)" for l
    using that assms by (auto simp: line_amount_def cart_matches_def line_map_at)
  have "(\<Sum>pid\<leftarrow>sort (map product_key ls). line_amount (line_map ls) byID pid) =
      (\<Sum>l\<leftarrow>ls. line_amount (line_map ls) byID (product_key l))"
    by (simp add: sum_list_sort comp_def)
  moreover have "\<dots> = (\<Sum>l\<leftarrow>ls. req_ExpectedUnitPriceCentavos l * req_Quantity l)"
    if "\<forall>l \<in> set ls. cart_matches (line_map ls) byID (product_key l)"
    using that amount by (intro arg_cong [where f = sum_list] map_cong) auto
  ultimately show ?thesis
    using assms by (subst price_lines_Inr) (auto simp: quantity_at)
qed

text \<open>Every line of a successful preparation, against the request and the catalog.\<close>

lemma built_line:
  assumes "lines_ok ls"
    and "price_lines (line_map ls) byID 0 (sort (map product_key ls)) = Inr t"
    and "build_lines ids n (line_map ls) byID (sort (map product_key ls)) = Inr lines"
    and "l \<in> set lines"
  shows "line_ProductID l \<noteq> []"
    and "line_Quantity l = req_Quantity (map_get zero_line (line_map ls) (line_ProductID l))"
    and "line_UnitPriceCentavos l = req_ExpectedUnitPriceCentavos (map_get zero_line (line_map ls) (line_ProductID l))"
    and "line_Quantity l \<in> {1..100}" and "0 \<le> line_UnitPriceCentavos l" and "line_ProductName l \<noteq> []"
    and "line_LineTotalCentavos l = line_amount (line_map ls) byID (line_ProductID l)"
    and "line_LineTotalCentavos l = line_UnitPriceCentavos l * line_Quantity l"
proof -
  let ?pids = "sort (map product_key ls)" and ?pid = "line_ProductID l"
  let ?amount = "line_amount (line_map ls) byID"
  have qty: "\<forall>pid \<in> set ?pids. 1 \<le> req_Quantity (map_get zero_line (line_map ls) pid)"
    using quantity_at(1) [OF assms(1)] by simp
  have price: "(\<forall>pid \<in> set ?pids. cart_matches (line_map ls) byID pid) \<and>
      t = 0 + (\<Sum>pid\<leftarrow>?pids. ?amount pid) \<and> t \<le> max_int64"
    using assms(2) qty by (subst (asm) price_lines_Inr) auto
  from build_lines_Inr [OF assms(3)] assms(4) have pid: "?pid \<in> set ?pids"
    and lfor: "line_for (line_map ls) byID l" by (metis image_eqI set_map, blast)
  from pid have key: "?pid \<in> product_key ` set ls" by simp
  have match: "cart_matches (line_map ls) byID ?pid" using price pid by blast
  have nonneg: "\<forall>pid \<in> set ?pids. 0 \<le> ?amount pid"
    using qty price by (auto intro!: line_amount_nonneg)
  then have "?amount ?pid \<le> (\<Sum>pid\<leftarrow>?pids. ?amount pid)"
    using pid by (intro member_le_sum_list) auto
  then have wrap: "wrap64 (?amount ?pid) = ?amount ?pid"
    using price nonneg pid by (intro wrap64_id in64_range) auto
  show "?pid \<noteq> []" using key assms(1) by (auto simp: lines_ok_def line_ok_def)
  show q: "line_Quantity l = req_Quantity (map_get zero_line (line_map ls) ?pid)"
    and "line_UnitPriceCentavos l = req_ExpectedUnitPriceCentavos (map_get zero_line (line_map ls) ?pid)"
    and "0 \<le> line_UnitPriceCentavos l" and "line_ProductName l \<noteq> []"
    and tot: "line_LineTotalCentavos l = ?amount ?pid"
    using lfor match wrap by (auto simp: line_for_def Let_def cart_matches_def)
  show "line_Quantity l \<in> {1..100}" using q quantity_at [OF assms(1) key] by simp
  show "line_LineTotalCentavos l = line_UnitPriceCentavos l * line_Quantity l"
    using lfor tot by (simp add: line_for_def Let_def line_amount_def)
qed

lemma first_three: "(\<forall>i < 3 + (n::nat). ids i \<noteq> None) \<longleftrightarrow>
    ids 0 \<noteq> None \<and> ids 1 \<noteq> None \<and> ids 2 \<noteq> None \<and> (\<forall>i < n. ids (3 + i) \<noteq> None)"
  by (simp add: numeral_3_eq_3 numeral_2_eq_2 All_less_Suc2)

text \<open>
  C21: A checkout is accepted exactly when the command is well formed, its lines are valid and
  name distinct products, the catalog resolves them at the expected prices, the exact total
  fits in an int64 and the identifier source answers.
\<close>

theorem prepare_order_accepts:
  "(\<exists>draft. prepare_order resolve ids digest now command = Inr draft) \<longleftrightarrow>
     command_ok (trim_command command) \<and> lines_ok (cmd_Lines command) \<and>
     (\<exists>products. resolve (sort (map product_key (cmd_Lines command))) = Inr products \<and>
        (\<forall>l \<in> set (cmd_Lines command).
           cart_matches (line_map (cmd_Lines command)) (index_products products) (product_key l))) \<and>
     (\<Sum>l\<leftarrow>cmd_Lines command. req_ExpectedUnitPriceCentavos l * req_Quantity l) \<le> max_int64 \<and>
     (\<forall>i < 3 + length (cmd_Lines command). ids i \<noteq> None)"
  (is "?lhs \<longleftrightarrow> ?rhs")
proof
  {
    assume ?lhs
    then obtain draft where "prepare_order resolve ids digest now command = Inr draft" ..
    then show ?rhs
    proof (rule prepare_order_Inr)
      fix products lines t oid eid opid
      assume ok: "lines_ok (cmd_Lines command)" "ids 0 = Some oid" "ids 1 = Some eid" "ids 2 = Some opid"
        "command_ok (trim_command command)"
        "resolve (sort (map product_key (cmd_Lines command))) = Inr products"
        "price_lines (line_map (cmd_Lines command)) (index_products products) 0
           (sort (map product_key (cmd_Lines command))) = Inr t"
        and "build_lines ids 3 (line_map (cmd_Lines command)) (index_products products)
           (sort (map product_key (cmd_Lines command))) = Inr lines"
      then have "\<forall>i < length (cmd_Lines command). ids (3 + i) \<noteq> None"
        using build_lines_ids [of ids 3 "line_map (cmd_Lines command)" "index_products products"
            "sort (map product_key (cmd_Lines command))"] by auto
      then have "\<forall>i < 3 + length (cmd_Lines command). ids i \<noteq> None"
        unfolding first_three using ok(2-4) by simp
      moreover from ok(7) have "(\<forall>l \<in> set (cmd_Lines command).
          cart_matches (line_map (cmd_Lines command)) (index_products products) (product_key l)) \<and>
          (\<Sum>l\<leftarrow>cmd_Lines command. req_ExpectedUnitPriceCentavos l * req_Quantity l) \<le> max_int64"
        unfolding price_lines_sum [OF ok(1)] by blast
      ultimately show ?rhs using ok(1,5,6) by blast
    qed
  next
    assume rhs: ?rhs
    then obtain products where res: "resolve (sort (map product_key (cmd_Lines command))) = Inr products"
      and "\<forall>l \<in> set (cmd_Lines command).
        cart_matches (line_map (cmd_Lines command)) (index_products products) (product_key l)" by blast
    with rhs obtain t where price: "price_lines (line_map (cmd_Lines command)) (index_products products) 0
           (sort (map product_key (cmd_Lines command))) = Inr t"
      using price_lines_sum by blast
    have "\<exists>lines. build_lines ids 3 (line_map (cmd_Lines command)) (index_products products)
           (sort (map product_key (cmd_Lines command))) = Inr lines"
      using rhs by (simp add: build_lines_ids first_three)
    moreover from rhs obtain oid eid opid where "ids 0 = Some oid" "ids 1 = Some eid" "ids 2 = Some opid"
      unfolding first_three by blast
    ultimately show ?lhs
      using rhs res price by (auto simp: prepare_order_def Let_def collect_lines_start)
  }
qed

lemma prepare_order_totals_facts:
  assumes "prepare_order resolve ids digest now command = Inr draft"
  shows "ord_Status (draft_Order draft) = OrderSubmitted"
    and "ord_DeliveryFeeCentavos (draft_Order draft) = 0"
    and "ord_TotalCentavos (draft_Order draft) = ord_SubtotalCentavos (draft_Order draft)"
    and "ord_SubtotalCentavos (draft_Order draft) =
           (\<Sum>l\<leftarrow>ord_Lines (draft_Order draft). line_LineTotalCentavos l)"
    and "ord_SubtotalCentavos (draft_Order draft) \<in> {0..max_int64}"
    and "\<forall>l \<in> set (ord_Lines (draft_Order draft)).
           line_LineTotalCentavos l = line_UnitPriceCentavos l * line_Quantity l \<and>
           0 \<le> line_UnitPriceCentavos l \<and> line_Quantity l \<in> {1..100} \<and>
           line_ProductID l \<noteq> [] \<and> line_ProductName l \<noteq> []"
    and "sorted_wrt (<) (map line_ProductID (ord_Lines (draft_Order draft)))"
    and "length (ord_Lines (draft_Order draft)) = length (cmd_Lines command)"
proof -
  let ?ls = "cmd_Lines command"
  let ?pids = "sort (map product_key ?ls)"
  from assms obtain products lines t oid eid opid fp where
    ok: "lines_ok ?ls"
    and price: "price_lines (line_map ?ls) (index_products products) 0 ?pids = Inr t"
    and build: "build_lines ids 3 (line_map ?ls) (index_products products) ?pids = Inr lines"
    and draft: "draft = make_draft (trim_command command) oid eid opid lines t fp now"
    by (rule prepare_order_Inr) blast
  let ?amount = "line_amount (line_map ?ls) (index_products products)"
  note line = built_line [OF ok price build]
  have qty: "\<forall>pid \<in> set ?pids. 1 \<le> req_Quantity (map_get zero_line (line_map ?ls) pid)"
    using quantity_at(1) [OF ok] by simp
  then have sum: "\<forall>pid \<in> set ?pids. cart_matches (line_map ?ls) (index_products products) pid"
      "t = (\<Sum>pid\<leftarrow>?pids. ?amount pid)" "t \<le> max_int64"
    using price by (subst (asm) price_lines_Inr; auto)+
  have nonneg: "\<forall>pid \<in> set ?pids. 0 \<le> ?amount pid"
    using qty sum(1) by (auto intro!: line_amount_nonneg)
  have bl: "map line_ProductID lines = ?pids" using build_lines_Inr [OF build] by simp
  have o: "ord_Lines (draft_Order draft) = lines" "ord_SubtotalCentavos (draft_Order draft) = t"
    by (simp_all add: draft make_draft_def)
  have "(\<Sum>l\<leftarrow>lines. line_LineTotalCentavos l) = (\<Sum>l\<leftarrow>lines. ?amount (line_ProductID l))"
    using line(7) by (intro arg_cong [where f = sum_list] map_cong) auto
  also have "\<dots> = t" unfolding sum(2) bl [symmetric] by (simp add: comp_def)
  finally show "ord_SubtotalCentavos (draft_Order draft) =
      (\<Sum>l\<leftarrow>ord_Lines (draft_Order draft). line_LineTotalCentavos l)" by (simp add: o)
  have "0 \<le> t" unfolding sum(2) using nonneg by (intro sum_list_nonneg) auto
  then show "ord_SubtotalCentavos (draft_Order draft) \<in> {0..max_int64}" using sum(3) by (simp add: o)
  show "\<forall>l \<in> set (ord_Lines (draft_Order draft)).
      line_LineTotalCentavos l = line_UnitPriceCentavos l * line_Quantity l \<and>
      0 \<le> line_UnitPriceCentavos l \<and> line_Quantity l \<in> {1..100} \<and>
      line_ProductID l \<noteq> [] \<and> line_ProductName l \<noteq> []"
    using line o(1) by simp
  show "sorted_wrt (<) (map line_ProductID (ord_Lines (draft_Order draft)))"
    using ok by (simp add: o bl lines_ok_def strict_sorted_sort)
  show "length (ord_Lines (draft_Order draft)) = length ?ls"
    using bl by (metis length_map length_sort o(1))
qed (rule prepare_order_Inr [OF assms], simp add: make_draft_def)+

text \<open>
  C22: The totals of a prepared order are exact: every line total is the price times the
  quantity with no wrap-around, the subtotal is their sum within int64, the order is submitted
  with no delivery fee, and its lines are strictly sorted by product.
\<close>

theorem prepare_order_totals:
  assumes "prepare_order resolve ids digest now command = Inr draft"
  shows "(ord_Status (draft_Order draft) = OrderSubmitted) \<and>
    (ord_DeliveryFeeCentavos (draft_Order draft) = 0) \<and>
    (ord_TotalCentavos (draft_Order draft) = ord_SubtotalCentavos (draft_Order draft)) \<and>
    (ord_SubtotalCentavos (draft_Order draft) =
           (\<Sum>l\<leftarrow>ord_Lines (draft_Order draft). line_LineTotalCentavos l)) \<and>
    (ord_SubtotalCentavos (draft_Order draft) \<in> {0..max_int64}) \<and>
    (\<forall>l \<in> set (ord_Lines (draft_Order draft)).
           line_LineTotalCentavos l = line_UnitPriceCentavos l * line_Quantity l \<and>
           0 \<le> line_UnitPriceCentavos l \<and> line_Quantity l \<in> {1..100} \<and>
           line_ProductID l \<noteq> [] \<and> line_ProductName l \<noteq> []) \<and>
    (sorted_wrt (<) (map line_ProductID (ord_Lines (draft_Order draft)))) \<and>
    (length (ord_Lines (draft_Order draft)) = length (cmd_Lines command))"
  using prepare_order_totals_facts(1) [OF assms] prepare_order_totals_facts(2) [OF assms] prepare_order_totals_facts(3) [OF assms] prepare_order_totals_facts(4) [OF assms] prepare_order_totals_facts(5) [OF assms] prepare_order_totals_facts(6) [OF assms] prepare_order_totals_facts(7) [OF assms] prepare_order_totals_facts(8) [OF assms] by blast

text \<open>
  The order in which a request lists its lines does not matter: the whole draft, its
  fingerprint included, is the same.
\<close>

theorem prepare_order_line_order:
  assumes "mset lines1 = mset lines2"
  shows "prepare_order resolve ids digest now (command\<lparr>cmd_Lines := lines1\<rparr>) =
    prepare_order resolve ids digest now (command\<lparr>cmd_Lines := lines2\<rparr>)"
proof -
  have m: "mset (map product_key lines1) = mset (map product_key lines2)"
    using assms by (metis mset_map)
  have s: "set lines1 = set lines2" using assms by (rule mset_eq_setD)
  have len: "length lines1 = length lines2" using assms by (metis size_mset)
  have ok: "lines_ok lines1 = lines_ok lines2"
    unfolding lines_ok_def s mset_eq_imp_distinct_iff [OF m] ..
  have sorted: "sort (map product_key lines1) = sort (map product_key lines2)"
    using m by (metis properties_for_sort mset_sort sorted_sort)
  have cok: "command_ok (trim_command (command\<lparr>cmd_Lines := lines1\<rparr>)) =
      command_ok (trim_command (command\<lparr>cmd_Lines := lines2\<rparr>))"
    using len by (simp add: command_ok_def trim_command_def)
  have draft: "make_draft (trim_command (command\<lparr>cmd_Lines := lines1\<rparr>)) =
      make_draft (trim_command (command\<lparr>cmd_Lines := lines2\<rparr>))"
    and fp: "checkoutFingerprint digest (trim_command (command\<lparr>cmd_Lines := lines1\<rparr>)) =
      checkoutFingerprint digest (trim_command (command\<lparr>cmd_Lines := lines2\<rparr>))"
    by (simp_all add: fun_eq_iff make_draft_def checkoutFingerprint_def fingerprint_payload_def trim_command_def)
  have lns: "cmd_Lines (trim_command (command\<lparr>cmd_Lines := ls\<rparr>)) = ls" for ls by simp
  show ?thesis
  proof (cases "lines_ok lines1")
    case True
    then have lm: "line_map lines1 = line_map lines2"
      using assms line_map_perm by (simp add: lines_ok_def)
    show ?thesis
      using True ok
      by (simp only: prepare_order_def Let_def collect_lines_start lns cok draft fp lm sorted
          if_True sum.case prod.case)
  next
    case False
    then show ?thesis
      unfolding prepare_order_def Let_def collect_lines_start lns using ok cok by simp
  qed
qed

text \<open>What a draft keeps of its request: exactly the payload its fingerprint is taken of.\<close>

definition draft_payload :: "OrderDraft \<Rightarrow> fingerprintPayload" where
  "draft_payload draft =
     \<lparr>pay_CustomerID = ord_CustomerID (draft_Order draft),
      pay_DeliveryAddress = ord_DeliveryAddress (draft_Order draft),
      pay_DeliveryNotes = ord_DeliveryNotes (draft_Order draft),
      pay_Lines = map (\<lambda>l. \<lparr>can_ProductID = line_ProductID l, can_Quantity = line_Quantity l,
        can_ExpectedUnitPriceCentavos = line_UnitPriceCentavos l\<rparr>) (ord_Lines (draft_Order draft))\<rparr>"

lemma prepare_order_fingerprint:
  assumes "prepare_order resolve ids digest now command = Inr draft"
  shows "draft_CheckoutFingerprint draft = digest (draft_payload draft)"
proof (rule prepare_order_Inr [OF assms])
  fix products lines t oid eid opid
  let ?ls = "cmd_Lines command"
  let ?pids = "sort (map product_key ?ls)"
  assume ok: "lines_ok ?ls"
    and price: "price_lines (line_map ?ls) (index_products products) 0 ?pids = Inr t"
    and build: "build_lines ids 3 (line_map ?ls) (index_products products) ?pids = Inr lines"
    and draft: "draft = make_draft (trim_command command) oid eid opid lines t
      (checkoutFingerprint digest (trim_command command) ?pids (line_map ?ls)) now"
  have "map line_ProductID lines = ?pids" using build_lines_Inr [OF build] by simp
  then have "fingerprint_payload (trim_command command) ?pids (line_map ?ls) = draft_payload draft"
    using built_line [OF ok price build]
    by (auto simp: fingerprint_payload_def draft_payload_def draft make_draft_def Let_def
        simp flip: \<open>map line_ProductID lines = ?pids\<close>)
  then show ?thesis by (simp add: draft make_draft_def checkoutFingerprint_def)
qed

text \<open>
  With a collision-free digest, two drafts with the same checkout fingerprint come from
  the same customer, address and notes and order the same quantities at the same prices; and
  the converse holds for every digest, so the fingerprint identifies the checked-out cart.
\<close>

theorem fingerprint_determines_cart:
  assumes "prepare_order resolve1 ids1 digest now1 command1 = Inr draft1"
    and "prepare_order resolve2 ids2 digest now2 command2 = Inr draft2"
    and "digest (draft_payload draft1) = digest (draft_payload draft2) \<Longrightarrow>
      draft_payload draft1 = draft_payload draft2"
  shows "draft_CheckoutFingerprint draft1 = draft_CheckoutFingerprint draft2 \<longleftrightarrow>
     ord_CustomerID (draft_Order draft1) = ord_CustomerID (draft_Order draft2) \<and>
     ord_DeliveryAddress (draft_Order draft1) = ord_DeliveryAddress (draft_Order draft2) \<and>
     ord_DeliveryNotes (draft_Order draft1) = ord_DeliveryNotes (draft_Order draft2) \<and>
     map (\<lambda>l. (line_ProductID l, line_Quantity l, line_UnitPriceCentavos l)) (ord_Lines (draft_Order draft1)) =
     map (\<lambda>l. (line_ProductID l, line_Quantity l, line_UnitPriceCentavos l)) (ord_Lines (draft_Order draft2))"
proof -
  have lines: "pay_Lines (draft_payload d) =
      map (\<lambda>(p, q, u). \<lparr>can_ProductID = p, can_Quantity = q, can_ExpectedUnitPriceCentavos = u\<rparr>)
        (map (\<lambda>l. (line_ProductID l, line_Quantity l, line_UnitPriceCentavos l)) (ord_Lines (draft_Order d)))" for d
    by (simp add: draft_payload_def comp_def)
  have "inj (\<lambda>(p, q, u). \<lparr>can_ProductID = p, can_Quantity = q, can_ExpectedUnitPriceCentavos = u\<rparr>)"
    by (auto intro: injI)
  then have "pay_Lines (draft_payload draft1) = pay_Lines (draft_payload draft2) \<longleftrightarrow>
      map (\<lambda>l. (line_ProductID l, line_Quantity l, line_UnitPriceCentavos l)) (ord_Lines (draft_Order draft1)) =
      map (\<lambda>l. (line_ProductID l, line_Quantity l, line_UnitPriceCentavos l)) (ord_Lines (draft_Order draft2))"
    unfolding lines by (rule inj_map_eq_map)
  moreover have "draft_CheckoutFingerprint draft1 = draft_CheckoutFingerprint draft2 \<longleftrightarrow>
      draft_payload draft1 = draft_payload draft2"
    using assms by (auto simp: prepare_order_fingerprint)
  ultimately show ?thesis by (auto simp: draft_payload_def)
qed

section \<open>A concrete checkout\<close>

definition sample_command :: PlaceOrderCommand where
  "sample_command =
     \<lparr>cmd_CustomerID = ''11111111-1111-4111-8111-111111111111'',
      cmd_CheckoutID = ''22222222-2222-4222-8222-222222222222'',
      cmd_Lines = [\<lparr>req_ProductID = '' tea '', req_Quantity = 2, req_ExpectedUnitPriceCentavos = 150\<rparr>,
                   \<lparr>req_ProductID = ''cake'', req_Quantity = 1, req_ExpectedUnitPriceCentavos = 9000\<rparr>],
      cmd_DeliveryAddress = '' 1 Main St '', cmd_DeliveryNotes = []\<rparr>"

definition sample_resolve :: "string list \<Rightarrow> order_error + ProductSnapshot list" where
  "sample_resolve ids = Inr
     [\<lparr>snap_ProductID = ''cake'', snap_Name = ''Cake'', snap_UnitPriceCentavos = 9000, snap_Orderable = True\<rparr>,
      \<lparr>snap_ProductID = ''tea'', snap_Name = ''Tea'', snap_UnitPriceCentavos = 150, snap_Orderable = True\<rparr>]"

definition sample_ids :: "nat \<Rightarrow> string option" where
  "sample_ids n = Some (replicate n CHR ''i'')"

definition sample_digest :: "fingerprintPayload \<Rightarrow> string" where
  "sample_digest p = pay_CustomerID p @ concat (map can_ProductID (pay_Lines p))"






definition sample_line :: "string \<Rightarrow> string \<Rightarrow> string \<Rightarrow> int \<Rightarrow> int \<Rightarrow> OrderLine" where
  "sample_line lid pid name price qty =
     \<lparr>line_ID = lid, line_ProductID = pid, line_ProductName = name, line_UnitPriceCentavos = price,
      line_Quantity = qty, line_LineTotalCentavos = price * qty\<rparr>"

definition sample_draft :: "int \<Rightarrow> OrderDraft" where
  "sample_draft now =
     make_draft (trim_command sample_command) [] ''i'' ''ii''
       [sample_line ''iii'' ''cake'' ''Cake'' 9000 1, sample_line ''iiii'' ''tea'' ''Tea'' 150 2] 9300
       ''11111111-1111-4111-8111-111111111111caketea'' now"

lemmas trim_eval = TrimSpace_def trim_segs_def IsSpace_def decode_rune_def byte_def

lemma sample_trim:
  "TrimSpace '' tea '' = ''tea''" "TrimSpace ''cake'' = ''cake''"
  "TrimSpace '' 1 Main St '' = ''1 Main St''" "TrimSpace [] = []"
  "TrimSpace ''Cake'' = ''Cake''" "TrimSpace ''Tea'' = ''Tea''"
  by (simp_all add: trim_eval)

lemmas uuid_eval = validUUID_def hex_decodes_def is_hex_def byte_def Let_def

lemma sample_uuids:
  "validUUID ''11111111-1111-4111-8111-111111111111''" "validUUID ''22222222-2222-4222-8222-222222222222''"
  by (simp_all add: uuid_eval)

lemma sample_command_ok: "command_ok (trim_command sample_command)"
  by (simp add: command_ok_def trim_command_def sample_command_def sample_uuids sample_trim RuneCount_ascii
      maximumCheckoutLines_def byte_def)

lemma sample_order: "CHR ''c'' < CHR ''t''"
  by (simp add: less_char_def)

lemma sample_sorted: "sort (map product_key (cmd_Lines sample_command)) = [''cake'', ''tea'']"
  using sample_order by (simp add: sample_command_def trim_line_def sample_trim not_le less_imp_le not_less_iff_gr_or_eq)

lemma sample_lines_ok: "lines_ok (cmd_Lines sample_command)"
  by (simp add: lines_ok_def line_ok_def trim_line_def sample_command_def maximumLineQuantity_def sample_trim)

lemma sample_requested:
  "line_map (cmd_Lines sample_command) ''tea'' = Some \<lparr>req_ProductID = ''tea'', req_Quantity = 2, req_ExpectedUnitPriceCentavos = 150\<rparr>"
  "line_map (cmd_Lines sample_command) ''cake'' = Some \<lparr>req_ProductID = ''cake'', req_Quantity = 1, req_ExpectedUnitPriceCentavos = 9000\<rparr>"
  by (simp_all add: line_map_def sample_command_def trim_line_def sample_trim)

lemma sample_priced:
  "price_lines (line_map (cmd_Lines sample_command)) (index_products products) 0 [''cake'', ''tea''] = Inr 9300"
  if "sample_resolve [''cake'', ''tea''] = Inr products"
  using that by (auto simp: price_lines.simps sample_requested sample_resolve_def index_products_def Let_def
     sample_trim max_int64_def wrap64_def)

lemma sample_built:
  "build_lines sample_ids 3 (line_map (cmd_Lines sample_command)) (index_products products) [''cake'', ''tea''] = 
   Inr [sample_line ''iii'' ''cake'' ''Cake'' 9000 1, sample_line ''iiii'' ''tea'' ''Tea'' 150 2]"
  if "sample_resolve [''cake'', ''tea''] = Inr products"
  using that by (auto simp: sample_requested sample_resolve_def index_products_def Let_def sample_ids_def sample_line_def
     sample_trim max_int64_def wrap64_def numeral_3_eq_3)
 
lemma sample_fingerprint:
  "checkoutFingerprint sample_digest (trim_command sample_command) [''cake'', ''tea''] (line_map (cmd_Lines sample_command)) =
   ''11111111-1111-4111-8111-111111111111caketea''"
  by (simp add: checkoutFingerprint_def fingerprint_payload_def
      sample_digest_def trim_command_def Let_def) (simp add: sample_command_def)

lemma sample_prepared:
  "prepare_order sample_resolve sample_ids sample_digest now sample_command = Inr (sample_draft now)"
proof -
  obtain products where p: "sample_resolve [''cake'', ''tea''] = Inr products" by (simp add: sample_resolve_def)
  have i: "sample_ids 0 = Some []" "sample_ids 1 = Some ''i''" "sample_ids 2 = Some ''ii''"
    by (simp_all add: sample_ids_def numeral_2_eq_2)
  show ?thesis
  unfolding prepare_order_def Let_def cmd_Lines_trim collect_lines_start
  by (simp only: sample_command_ok sample_sorted sample_lines_ok p sample_priced[OF p] sample_built[OF p]
       i sample_fingerprint sample_draft_def if_True if_False option.case sum.case prod.case not_True_eq_False)
qed

theorem prepare_order_accepts_witness:
  "prepare_order sample_resolve sample_ids sample_digest 7 sample_command = Inr (sample_draft 7) \<and>
   lines_ok (cmd_Lines sample_command) \<and>
   (\<Sum>l\<leftarrow>cmd_Lines sample_command. req_ExpectedUnitPriceCentavos l * req_Quantity l) = 9300"
  using prepare_order_accepts [of sample_resolve sample_ids sample_digest 7 sample_command] sample_prepared [of 7]
  by (auto simp: sample_command_def)

theorem prepare_order_totals_witness:
  "ord_SubtotalCentavos (draft_Order (sample_draft 7)) = 9300 \<and>
   sorted_wrt (<) (map line_ProductID (ord_Lines (draft_Order (sample_draft 7))))"
  using prepare_order_totals [OF sample_prepared [of 7]] by (simp add: sample_draft_def make_draft_def)

theorem prepare_order_line_order_witness:
  "prepare_order sample_resolve sample_ids sample_digest 7
     (sample_command\<lparr>cmd_Lines := rev (cmd_Lines sample_command)\<rparr>) = Inr (sample_draft 7)"
  using prepare_order_line_order [of "rev (cmd_Lines sample_command)" "cmd_Lines sample_command"
      sample_resolve sample_ids sample_digest 7 sample_command] by (simp add: sample_prepared)

theorem fingerprint_determines_cart_witness:
  "draft_CheckoutFingerprint (sample_draft 7) = draft_CheckoutFingerprint (sample_draft 8)"
  using fingerprint_determines_cart [OF sample_prepared [of 7] sample_prepared [of 8]]
  by (simp add: sample_draft_def make_draft_def draft_payload_def)

end
