(* ===== verification/Go_Json.thy ===== *)
theory Go_Json
  imports Go_Text
begin

text \<open>
  What the services use of \<open>encoding/json\<close>: decoding an object into a struct (keys matched
  case-insensitively, a later duplicate overwriting an earlier one, \<open>null\<close> leaving a field
  alone, a value of another type an error, unknown keys refused in the strict mode), and the
  decoder's view of an input as the sequence of the values it holds. The lexical layer, from
  bytes to values, is below this model.
\<close>

section \<open>Values\<close>

text \<open>\<open>JInt\<close> is a number written as an integer literal, \<open>JReal\<close> any other number.\<close>

datatype json =
  JNull | JBool bool | JInt int | JReal string | JStr string
| JArr "json list" | JObj "(string \<times> json) list"

text \<open>
  An input: the values a decoder reads off it one after the other, \<open>None\<close> standing for a
  syntax error.
\<close>

type_synonym json_input = "json option list"

section \<open>Struct decoding\<close>

text \<open>
  Key folding of the package: ASCII letters fold to upper case, and the two non-ASCII runes
  that fold to an ASCII letter (long s and the Kelvin sign) do too.
\<close>

definition fold_rune :: "nat \<Rightarrow> nat" where
  "fold_rune r = (if 97 \<le> r \<and> r \<le> 122 then r - 32 else if r = 383 then 83 else if r = 8490 then 75 else r)"

definition fold_name :: "string \<Rightarrow> nat list" where
  "fold_name s = map (fold_rune \<circ> fst) (utf8_segs s)"

type_synonym 'a field = "string \<times> (json \<Rightarrow> 'a \<Rightarrow> 'a option)"

definition find_field :: "'a field list \<Rightarrow> string \<Rightarrow> (json \<Rightarrow> 'a \<Rightarrow> 'a option) option" where
  "find_field fields key = map_option snd (find (\<lambda>f. fold_name (fst f) = fold_name key) fields)"

fun decode_fields :: "bool \<Rightarrow> 'a field list \<Rightarrow> (string \<times> json) list \<Rightarrow> 'a \<Rightarrow> 'a option" where
  "decode_fields strict fields [] acc = Some acc"
| "decode_fields strict fields ((key, v) # rest) acc =
     (case find_field fields key of
        None \<Rightarrow> if strict then None else decode_fields strict fields rest acc
      | Some put \<Rightarrow>
          (case put v acc of
             None \<Rightarrow> None
           | Some acc' \<Rightarrow> decode_fields strict fields rest acc'))"

definition decode_struct :: "bool \<Rightarrow> 'a field list \<Rightarrow> 'a \<Rightarrow> json \<Rightarrow> 'a option" where
  "decode_struct strict fields zero v =
     (case v of JNull \<Rightarrow> Some zero | JObj kvs \<Rightarrow> decode_fields strict fields kvs zero | _ \<Rightarrow> None)"

definition string_field :: "(string \<Rightarrow> 'a \<Rightarrow> 'a) \<Rightarrow> json \<Rightarrow> 'a \<Rightarrow> 'a option" where
  "string_field put v acc = (case v of JNull \<Rightarrow> Some acc | JStr s \<Rightarrow> Some (put s acc) | _ \<Rightarrow> None)"

text \<open>A Go \<open>int\<close> or \<open>int64\<close> field: an integer literal in range.\<close>

definition int_field :: "(int \<Rightarrow> 'a \<Rightarrow> 'a) \<Rightarrow> json \<Rightarrow> 'a \<Rightarrow> 'a option" where
  "int_field put v acc =
     (case v of JNull \<Rightarrow> Some acc | JInt i \<Rightarrow> if in64 i then Some (put i acc) else None | _ \<Rightarrow> None)"

definition list_field :: "(json \<Rightarrow> 'b option) \<Rightarrow> ('b list \<Rightarrow> 'a \<Rightarrow> 'a) \<Rightarrow> json \<Rightarrow> 'a \<Rightarrow> 'a option" where
  "list_field elem put v acc =
     (case v of
        JNull \<Rightarrow> Some (put [] acc)
      | JArr vs \<Rightarrow> if list_all (\<lambda>x. elem x \<noteq> None) vs then Some (put (map (the \<circ> elem) vs) acc) else None
      | _ \<Rightarrow> None)"

section \<open>Whole inputs\<close>

text \<open>\<open>json.Unmarshal\<close>: exactly one value.\<close>

definition Unmarshal :: "(json \<Rightarrow> 'a option) \<Rightarrow> json_input \<Rightarrow> 'a option" where
  "Unmarshal dec input = (case input of [Some v] \<Rightarrow> dec v | _ \<Rightarrow> None)"

text \<open>
  \<open>DecodeStrict\<close>: the first value is decoded, then the decoder has to be at the end of the
  input; a second value and a syntax error after the first are both refused.
\<close>

definition DecodeStrict :: "(json \<Rightarrow> 'a option) \<Rightarrow> json_input \<Rightarrow> 'a option" where
  "DecodeStrict dec input =
     (case input of
        [] \<Rightarrow> None
      | None # _ \<Rightarrow> None
      | Some v # rest \<Rightarrow>
          (case dec v of
             None \<Rightarrow> None
           | Some a \<Rightarrow> if rest = [] then Some a else None))"

lemma decode_struct_JObj [simp]: "decode_struct strict tbl zero (JObj kvs) = decode_fields strict tbl kvs zero"
  by (simp add: decode_struct_def)

lemma DecodeStrict_Some: "DecodeStrict dec input = Some a \<longleftrightarrow> (\<exists>v. input = [Some v] \<and> dec v = Some a)"
  by (cases input) (auto simp: DecodeStrict_def split: option.splits)

lemma Unmarshal_Some: "Unmarshal dec input = Some a \<longleftrightarrow> (\<exists>v. input = [Some v] \<and> dec v = Some a)"
  by (auto simp: Unmarshal_def split: list.splits option.splits)

lemma string_field_JStr [simp]: "string_field put (JStr s) acc = Some (put s acc)"
  by (simp add: string_field_def)

lemma int_field_JInt [simp]: "in64 i \<Longrightarrow> int_field put (JInt i) acc = Some (put i acc)"
  by (simp add: int_field_def)

lemma list_field_JArr:
  assumes "\<And>x. x \<in> set xs \<Longrightarrow> elem (enc x) = Some x"
  shows "list_field elem put (JArr (map enc xs)) acc = Some (put xs acc)"
proof -
  have "list_all (\<lambda>y. elem y \<noteq> None) (map enc xs)"
    using assms by (auto simp: list_all_iff)
  moreover have "map (the \<circ> elem) (map enc xs) = xs"
    using assms by (simp add: map_idI)
  ultimately show ?thesis by (simp add: list_field_def)
qed

lemma fold_name_ascii: "\<forall>c \<in> set s. byte c < 128 \<Longrightarrow> fold_name s = map (fold_rune \<circ> byte) s"
  by (simp add: fold_name_def utf8_segs_ascii comp_def)

end
