(* ===== verification/Inventory_Wire.thy ===== *)
theory Inventory_Wire
  imports Order_Domain Go_Json
begin

text \<open>
  The contract between Ordering and the inventory adapter, from the Ordering side: the wire
  types of \<open>adapters/inventorycontract/types.go\<close> and the HTTP committer of
  \<open>adapters/inventoryhttp/\<close> (\<open>committer.go\<close>, \<open>errors.go\<close>) under
  \<open>services/ordering/internal/ordering\<close>. \<open>fmt_time\<close> and \<open>parse_time\<close> stand for
  \<open>time.Format\<close> and \<open>time.Parse\<close> in the layout \<open>RFC3339Nano\<close>, \<open>parse_uuid\<close> for
  \<open>uuid.Parse\<close> of \<open>github.com/google/uuid\<close>.
\<close>

section \<open>Wire types\<close>

definition SchemaVersion :: string where
  "SchemaVersion = ''1.0''"

record ItemRequest =
  wi_OrderLineID :: string
  wi_ProductID :: string
  wi_Quantity :: int

record CommitRequested =
  wr_SchemaVersion :: string
  wr_EventID :: string
  wr_OperationID :: string
  wr_OrderID :: string
  wr_OccurredAt :: string
  wr_Items :: "ItemRequest list"

record Committed =
  wc_SchemaVersion :: string
  wc_EventID :: string
  wc_OperationID :: string
  wc_OrderID :: string
  wc_Result :: string
  wc_OccurredAt :: string

record WireUnavailableItem =
  wu_OrderLineID :: string
  wu_ProductID :: string
  wu_RequestedQuantity :: int
  wu_AvailableQuantity :: int

record ItemsUnavailable =
  wx_SchemaVersion :: string
  wx_EventID :: string
  wx_OperationID :: string
  wx_OrderID :: string
  wx_Result :: string
  wx_OccurredAt :: string
  wx_Items :: "WireUnavailableItem list"

subsection \<open>Field tables\<close>

definition committed_fields :: "Committed field list" where
  "committed_fields =
     [(''schema_version'', string_field (\<lambda>s. wc_SchemaVersion_update (\<lambda>_. s))),
      (''event_id'', string_field (\<lambda>s. wc_EventID_update (\<lambda>_. s))),
      (''operation_id'', string_field (\<lambda>s. wc_OperationID_update (\<lambda>_. s))),
      (''order_id'', string_field (\<lambda>s. wc_OrderID_update (\<lambda>_. s))),
      (''result'', string_field (\<lambda>s. wc_Result_update (\<lambda>_. s))),
      (''occurred_at'', string_field (\<lambda>s. wc_OccurredAt_update (\<lambda>_. s)))]"

definition wire_item_fields :: "WireUnavailableItem field list" where
  "wire_item_fields =
     [(''order_line_id'', string_field (\<lambda>s. wu_OrderLineID_update (\<lambda>_. s))),
      (''product_id'', string_field (\<lambda>s. wu_ProductID_update (\<lambda>_. s))),
      (''requested_quantity'', int_field (\<lambda>i. wu_RequestedQuantity_update (\<lambda>_. i))),
      (''available_quantity'', int_field (\<lambda>i. wu_AvailableQuantity_update (\<lambda>_. i)))]"

definition zero_committed :: Committed where
  "zero_committed = \<lparr>wc_SchemaVersion = [], wc_EventID = [], wc_OperationID = [], wc_OrderID = [],
     wc_Result = [], wc_OccurredAt = []\<rparr>"

definition zero_wire_item :: WireUnavailableItem where
  "zero_wire_item = \<lparr>wu_OrderLineID = [], wu_ProductID = [], wu_RequestedQuantity = 0, wu_AvailableQuantity = 0\<rparr>"

definition zero_unavailable :: ItemsUnavailable where
  "zero_unavailable = \<lparr>wx_SchemaVersion = [], wx_EventID = [], wx_OperationID = [], wx_OrderID = [],
     wx_Result = [], wx_OccurredAt = [], wx_Items = []\<rparr>"

definition unavailable_fields :: "ItemsUnavailable field list" where
  "unavailable_fields =
     [(''schema_version'', string_field (\<lambda>s. wx_SchemaVersion_update (\<lambda>_. s))),
      (''event_id'', string_field (\<lambda>s. wx_EventID_update (\<lambda>_. s))),
      (''operation_id'', string_field (\<lambda>s. wx_OperationID_update (\<lambda>_. s))),
      (''order_id'', string_field (\<lambda>s. wx_OrderID_update (\<lambda>_. s))),
      (''result'', string_field (\<lambda>s. wx_Result_update (\<lambda>_. s))),
      (''occurred_at'', string_field (\<lambda>s. wx_OccurredAt_update (\<lambda>_. s))),
      (''items'', list_field (decode_struct True wire_item_fields zero_wire_item)
                    (\<lambda>items. wx_Items_update (\<lambda>_. items)))]"

definition decode_committed :: "json \<Rightarrow> Committed option" where
  "decode_committed = decode_struct True committed_fields zero_committed"

definition decode_unavailable :: "json \<Rightarrow> ItemsUnavailable option" where
  "decode_unavailable = decode_struct True unavailable_fields zero_unavailable"

text \<open>The anonymous envelope of \<open>decodeResult\<close>, read without the strict mode.\<close>

definition decode_envelope :: "json \<Rightarrow> string option" where
  "decode_envelope = decode_struct False [(''result'', string_field (\<lambda>s _. s))] []"

section \<open>Error classes\<close>

definition CodeUnreachable :: string where "CodeUnreachable = ''INVENTORY_UNREACHABLE''"
definition CodeTimeout :: string where "CodeTimeout = ''INVENTORY_TIMEOUT''"
definition CodeThrottled :: string where "CodeThrottled = ''INVENTORY_THROTTLED''"
definition CodeUnauthorized :: string where "CodeUnauthorized = ''INVENTORY_UNAUTHORIZED''"
definition CodeServerError :: string where "CodeServerError = ''INVENTORY_SERVER_ERROR''"
definition CodeContractRejected :: string where "CodeContractRejected = ''INVENTORY_CONTRACT_REJECTED''"
definition CodeOperationConflict :: string where "CodeOperationConflict = ''INVENTORY_OPERATION_CONFLICT''"
definition CodeInvalidResponse :: string where "CodeInvalidResponse = ''INVENTORY_INVALID_RESPONSE''"

lemmas inventory_codes = CodeUnreachable_def CodeTimeout_def CodeThrottled_def CodeUnauthorized_def
  CodeServerError_def CodeContractRejected_def CodeOperationConflict_def CodeInvalidResponse_def

definition statusError :: "int \<Rightarrow> order_error" where
  "statusError status =
     Coded (if status = 401 \<or> status = 403 then CodeUnauthorized
            else if status = 409 then CodeOperationConflict
            else if status = 429 then CodeThrottled
            else if status \<ge> 500 then CodeServerError
            else if status \<ge> 400 then CodeContractRejected
            else CodeInvalidResponse)"

section \<open>Validation of a result\<close>

definition index_items :: "InventoryItem list \<Rightarrow> (string \<rightharpoonup> InventoryItem)" where
  "index_items items = foldl (\<lambda>m item. m(it_OrderLineID item \<mapsto> item)) Map.empty items"

text \<open>The loop over the reported items, with the set of the lines seen so far.\<close>

fun check_unavailable ::
    "(string \<rightharpoonup> InventoryItem) \<Rightarrow> string set \<Rightarrow> UnavailableItem list \<Rightarrow> bool" where
  "check_unavailable requested seen [] = True"
| "check_unavailable requested seen (item # rest) =
     (case requested (un_OrderLineID item) of
        None \<Rightarrow> False
      | Some expected \<Rightarrow>
          if it_ProductID expected \<noteq> un_ProductID item \<or>
             it_Quantity expected \<noteq> un_RequestedQuantity item \<or> un_AvailableQuantity item < 0
          then False
          else if un_OrderLineID item \<in> seen then False
          else check_unavailable requested (insert (un_OrderLineID item) seen) rest)"

definition result_status :: "string \<Rightarrow> InventoryResultStatus" where
  "result_status s =
     (if s = ''COMMITTED'' then InventoryCommitted
      else if s = ''ITEMS_UNAVAILABLE'' then InventoryItemsUnavailable
      else if s = ''PENDING'' then InventoryPending else InventoryOther s)"

definition validateResult ::
    "(string \<Rightarrow> 'u option) \<Rightarrow> (string \<Rightarrow> int option) \<Rightarrow> string \<Rightarrow> string \<Rightarrow> string \<Rightarrow> string \<Rightarrow> string \<Rightarrow>
     string \<Rightarrow> UnavailableItem list \<Rightarrow> InventoryCommit \<Rightarrow> order_error + InventoryResult" where
  "validateResult parse_uuid parse_time schemaVersion eventID operationID orderID status occurredAt
     unavailable request =
     (if schemaVersion \<noteq> SchemaVersion \<or> operationID \<noteq> com_OperationID request \<or>
         orderID \<noteq> com_OrderID request
      then Inl (Coded CodeInvalidResponse)
      else if parse_uuid eventID = None then Inl (Coded CodeInvalidResponse)
      else case parse_time occurredAt of
        None \<Rightarrow> Inl (Coded CodeInvalidResponse)
      | Some when \<Rightarrow>
          if result_status status = InventoryItemsUnavailable \<and> unavailable = []
          then Inl (Coded CodeInvalidResponse)
          else if \<not> check_unavailable (index_items (com_Items request)) {} unavailable
          then Inl (Coded CodeInvalidResponse)
          else Inr \<lparr>res_EventID = eventID, res_OperationID = operationID, res_OrderID = orderID,
                    res_Status = result_status status, res_OccurredAt = when,
                    res_UnavailableItems = unavailable\<rparr>)"

definition unavailable_of_wire :: "WireUnavailableItem \<Rightarrow> UnavailableItem" where
  "unavailable_of_wire item =
     \<lparr>un_OrderLineID = wu_OrderLineID item, un_ProductID = wu_ProductID item,
      un_RequestedQuantity = wu_RequestedQuantity item,
      un_AvailableQuantity = wu_AvailableQuantity item\<rparr>"

definition decodeResult ::
    "(string \<Rightarrow> 'u option) \<Rightarrow> (string \<Rightarrow> int option) \<Rightarrow> json_input \<Rightarrow> InventoryCommit \<Rightarrow>
     order_error + InventoryResult" where
  "decodeResult parse_uuid parse_time body request =
     (case Unmarshal decode_envelope body of
        None \<Rightarrow> Inl (Coded CodeInvalidResponse)
      | Some result \<Rightarrow>
          (case result_status result of
             InventoryCommitted \<Rightarrow>
               (case DecodeStrict decode_committed body of
                  None \<Rightarrow> Inl (Coded CodeInvalidResponse)
                | Some wire \<Rightarrow>
                    validateResult parse_uuid parse_time (wc_SchemaVersion wire) (wc_EventID wire)
                      (wc_OperationID wire) (wc_OrderID wire) (wc_Result wire) (wc_OccurredAt wire)
                      [] request)
           | InventoryItemsUnavailable \<Rightarrow>
               (case DecodeStrict decode_unavailable body of
                  None \<Rightarrow> Inl (Coded CodeInvalidResponse)
                | Some wire \<Rightarrow>
                    validateResult parse_uuid parse_time (wx_SchemaVersion wire) (wx_EventID wire)
                      (wx_OperationID wire) (wx_OrderID wire) (wx_Result wire) (wx_OccurredAt wire)
                      (map unavailable_of_wire (wx_Items wire)) request)
           | _ \<Rightarrow> Inl (Coded CodeInvalidResponse)))"

section \<open>The HTTP committer\<close>

text \<open>
  What \<open>client.Do\<close> and reading the body come to: no response (by a timeout or otherwise), a
  body that cannot be read, or a status with a body of so many bytes.
\<close>

datatype http_reply =
  NoResponse bool
| BodyUnreadable
| Response int nat json_input

definition commit_request :: "(int \<Rightarrow> string) \<Rightarrow> InventoryCommit \<Rightarrow> CommitRequested" where
  "commit_request fmt_time value =
     \<lparr>wr_SchemaVersion = SchemaVersion, wr_EventID = com_EventID value,
      wr_OperationID = com_OperationID value, wr_OrderID = com_OrderID value,
      wr_OccurredAt = fmt_time (com_OccurredAt value),
      wr_Items = map (\<lambda>item. \<lparr>wi_OrderLineID = it_OrderLineID item, wi_ProductID = it_ProductID item,
        wi_Quantity = it_Quantity item\<rparr>) (com_Items value)\<rparr>"

definition read_reply ::
    "(string \<Rightarrow> 'u option) \<Rightarrow> (string \<Rightarrow> int option) \<Rightarrow> nat \<Rightarrow> InventoryCommit \<Rightarrow> http_reply \<Rightarrow>
     order_error + InventoryResult" where
  "read_reply parse_uuid parse_time maxResponseBytes value reply =
     (case reply of
        NoResponse timeout \<Rightarrow> Inl (Coded (if timeout then CodeTimeout else CodeUnreachable))
      | BodyUnreadable \<Rightarrow> Inl (Coded CodeInvalidResponse)
      | Response status bytes body \<Rightarrow>
          if bytes > maxResponseBytes then Inl (Coded CodeInvalidResponse)
          else if status \<noteq> 200 then Inl (statusError status)
          else decodeResult parse_uuid parse_time body value)"

text \<open>
  \<open>Commit\<close>: the request goes out with the operation id in the header \<open>X-Operation-ID\<close>; the
  transport, with the remote state \<open>'s\<close>, is what the client is connected to.
\<close>

definition Commit_http ::
    "(int \<Rightarrow> string) \<Rightarrow> (string \<Rightarrow> 'u option) \<Rightarrow> (string \<Rightarrow> int option) \<Rightarrow> nat \<Rightarrow>
     (string \<Rightarrow> CommitRequested \<Rightarrow> 's \<Rightarrow> http_reply \<times> 's) \<Rightarrow>
     InventoryCommit \<Rightarrow> 's \<Rightarrow> (order_error + InventoryResult) \<times> 's" where
  "Commit_http fmt_time parse_uuid parse_time maxResponseBytes transport value st =
     (let (reply, st') = transport (com_OperationID value) (commit_request fmt_time value) st in
      (read_reply parse_uuid parse_time maxResponseBytes value reply, st'))"

section \<open>What an accepted result says\<close>

lemma wire_names:
  "fold_name ''schema_version'' \<noteq> fold_name ''result''" "fold_name ''event_id'' \<noteq> fold_name ''result''"
  "fold_name ''operation_id'' \<noteq> fold_name ''result''" "fold_name ''order_id'' \<noteq> fold_name ''result''"
  "fold_name ''occurred_at'' \<noteq> fold_name ''result''" "fold_name ''items'' \<noteq> fold_name ''result''"
  by (simp_all add: fold_name_ascii byte_def fold_rune_def)

lemma string_field_cases:
  "string_field put v acc = Some acc' \<longleftrightarrow> (v = JNull \<and> acc' = acc) \<or> (\<exists>s. v = JStr s \<and> acc' = put s acc)"
  by (auto simp: string_field_def split: json.splits)

text \<open>The strict decoder and the envelope read the same result field.\<close>

lemma envelope_fields:
  assumes res: "\<And>key put. find_field tbl key = Some put \<Longrightarrow>
      (fold_name key = fold_name ''result'' \<and> (\<forall>v acc acc'. put v acc = Some acc' \<longrightarrow>
          string_field (\<lambda>s _. s) v (get acc) = Some (get acc'))) \<or>
      (fold_name key \<noteq> fold_name ''result'' \<and> (\<forall>v acc acc'. put v acc = Some acc' \<longrightarrow> get acc' = get acc))"
    and "decode_fields True tbl kvs w = Some w'"
  shows "decode_fields False [(''result'', string_field (\<lambda>s _. s))] kvs (get w) = Some (get w')"
  using assms(2)
proof (induction kvs arbitrary: w)
  case (Cons kv kvs)
  obtain key v where kv: "kv = (key, v)" by fastforce
  from Cons.prems obtain put acc where put: "find_field tbl key = Some put" "put v w = Some acc"
    "decode_fields True tbl kvs acc = Some w'"
    by (auto simp: kv split: option.splits)
  from res [OF put(1)] put(2) show ?case
    using Cons.IH [OF put(3)] by (fastforce simp: kv find_field_def)
qed simp

lemma committed_envelope:
  assumes "decode_committed v = Some wire"
  shows "decode_envelope v = Some (wc_Result wire)"
proof -
  have "find_field committed_fields key = Some put \<Longrightarrow>
      (fold_name key = fold_name ''result'' \<and> (\<forall>v acc acc'. put v acc = Some acc' \<longrightarrow>
          string_field (\<lambda>s _. s) v (wc_Result acc) = Some (wc_Result acc'))) \<or>
      (fold_name key \<noteq> fold_name ''result'' \<and> (\<forall>v acc acc'. put v acc = Some acc' \<longrightarrow> wc_Result acc' = wc_Result acc))" for key put
    by (auto simp: find_field_def committed_fields_def string_field_cases wire_names wire_names [THEN not_sym] split: if_splits)
  note env = envelope_fields [of committed_fields wc_Result, OF this]
  have "wc_Result zero_committed = []" by (simp add: zero_committed_def)
  then show ?thesis
    using assms env [where w = zero_committed]
    by (auto simp: decode_committed_def decode_envelope_def decode_struct_def split: json.splits)
qed

lemma unavailable_envelope:
  assumes "decode_unavailable v = Some wire"
  shows "decode_envelope v = Some (wx_Result wire)"
proof -
  have "find_field unavailable_fields key = Some put \<Longrightarrow>
      (fold_name key = fold_name ''result'' \<and> (\<forall>v acc acc'. put v acc = Some acc' \<longrightarrow>
          string_field (\<lambda>s _. s) v (wx_Result acc) = Some (wx_Result acc'))) \<or>
      (fold_name key \<noteq> fold_name ''result'' \<and> (\<forall>v acc acc'. put v acc = Some acc' \<longrightarrow> wx_Result acc' = wx_Result acc))" for key put
    by (auto simp: find_field_def unavailable_fields_def string_field_cases list_field_def wire_names wire_names [THEN not_sym] split: if_splits json.splits)
  note env = envelope_fields [of unavailable_fields wx_Result, OF this]
  have "wx_Result zero_unavailable = []" by (simp add: zero_unavailable_def)
  then show ?thesis
    using assms env [where w = zero_unavailable]
    by (auto simp: decode_unavailable_def decode_envelope_def decode_struct_def split: json.splits)
qed

lemma index_items_at:
  assumes "distinct (map it_OrderLineID items)"
  shows "index_items items lid = map_of (map (\<lambda>i. (it_OrderLineID i, i)) items) lid"
proof -
  have "foldl (\<lambda>m item. m(it_OrderLineID item \<mapsto> item)) m items = m ++ map_of (map (\<lambda>i. (it_OrderLineID i, i)) items)"
    if "distinct (map it_OrderLineID items)" for m items
    using that
  proof (induction items arbitrary: m)
    case (Cons i items)
    then have "map_of (map (\<lambda>i. (it_OrderLineID i, i)) items) (it_OrderLineID i) = None"
      by (auto simp: map_of_eq_None_iff image_image)
    with Cons show ?case by (auto simp: fun_eq_iff map_add_def split: option.splits)
  qed simp
  from this [OF assms, of Map.empty] show ?thesis by (simp add: index_items_def)
qed

lemma index_items_mem: "index_items items lid = Some i \<Longrightarrow> i \<in> set items \<and> it_OrderLineID i = lid"
proof -
  have "foldl (\<lambda>m item. m(it_OrderLineID item \<mapsto> item)) m items lid = Some i \<Longrightarrow>
    (i \<in> set items \<and> it_OrderLineID i = lid) \<or> m lid = Some i" for m
  proof (induction items arbitrary: m)
    case (Cons j items)
    from Cons.IH [of "m(it_OrderLineID j \<mapsto> j)"] Cons.prems show ?case by (auto split: if_splits)
  qed simp
  from this [of Map.empty] show "index_items items lid = Some i \<Longrightarrow> i \<in> set items \<and> it_OrderLineID i = lid"
    by (simp add: index_items_def)
qed

definition reported :: "(string \<rightharpoonup> InventoryItem) \<Rightarrow> UnavailableItem \<Rightarrow> bool" where
  "reported requested item \<longleftrightarrow>
     (\<exists>expected. requested (un_OrderLineID item) = Some expected \<and>
        it_ProductID expected = un_ProductID item \<and> it_Quantity expected = un_RequestedQuantity item \<and>
        0 \<le> un_AvailableQuantity item)"

lemma check_unavailable_iff:
  "check_unavailable requested seen items \<longleftrightarrow>
     (\<forall>item \<in> set items. reported requested item \<and> un_OrderLineID item \<notin> seen) \<and>
     distinct (map un_OrderLineID items)"
  by (induction items arbitrary: seen) (auto simp: reported_def image_iff split: option.splits)

text \<open>The requested lines a map of them holds, whatever the order of duplicates.\<close>

lemma validateResult_Inr:
  assumes "validateResult parse_uuid parse_time sv eid oid ordid status at items request = Inr r"
  shows "sv = SchemaVersion" and "oid = com_OperationID request" and "ordid = com_OrderID request"
    and "parse_uuid eid \<noteq> None" and "parse_time at = Some (res_OccurredAt r)"
    and "result_status status = InventoryItemsUnavailable \<Longrightarrow> items \<noteq> []"
    and "\<forall>item \<in> set items. reported (index_items (com_Items request)) item"
    and "distinct (map un_OrderLineID items)"
    and "r = \<lparr>res_EventID = eid, res_OperationID = oid, res_OrderID = ordid,
          res_Status = result_status status, res_OccurredAt = res_OccurredAt r, res_UnavailableItems = items\<rparr>"
  using assms by (auto simp: validateResult_def check_unavailable_iff split: if_splits option.splits)

lemma decodeResult_sound_facts:
  assumes "decodeResult parse_uuid parse_time body request = Inr r"
  shows "res_OperationID r = com_OperationID request" and "res_OrderID r = com_OrderID request"
    and "parse_uuid (res_EventID r) \<noteq> None"
    and "(res_Status r = InventoryCommitted \<and> res_UnavailableItems r = []) \<or>
         (res_Status r = InventoryItemsUnavailable \<and> res_UnavailableItems r \<noteq> [])"
    and "distinct (map un_OrderLineID (res_UnavailableItems r))"
    and "\<forall>u \<in> set (res_UnavailableItems r). 0 \<le> un_AvailableQuantity u \<and>
           (\<exists>item \<in> set (com_Items request). it_OrderLineID item = un_OrderLineID u \<and>
              it_ProductID item = un_ProductID u \<and> it_Quantity item = un_RequestedQuantity u)"
proof -
  from assms obtain result where env: "Unmarshal decode_envelope body = Some result"
    by (auto simp: decodeResult_def split: option.splits)
  have "\<exists>sv eid oid ordid status at items.
      validateResult parse_uuid parse_time sv eid oid ordid status at items request = Inr r \<and>
      status = result \<and>
      ((result_status result = InventoryCommitted \<and> items = []) \<or> result_status result = InventoryItemsUnavailable)"
    using assms env committed_envelope unavailable_envelope
    by (auto simp: decodeResult_def DecodeStrict_Some Unmarshal_Some
        split: option.splits InventoryResultStatus.splits) fastforce+
  then obtain sv eid oid ordid at items where
    v: "validateResult parse_uuid parse_time sv eid oid ordid result at items request = Inr r"
    and st: "(result_status result = InventoryCommitted \<and> items = []) \<or>
        result_status result = InventoryItemsUnavailable" by blast
  note val = validateResult_Inr [OF v]
  have r: "res_OperationID r = oid" "res_OrderID r = ordid" "res_EventID r = eid"
    "res_Status r = result_status result" "res_UnavailableItems r = items"
    by (subst val(9), simp)+
  show "res_OperationID r = com_OperationID request" "res_OrderID r = com_OrderID request"
    "parse_uuid (res_EventID r) \<noteq> None" "distinct (map un_OrderLineID (res_UnavailableItems r))"
    using val r by simp_all
  show "(res_Status r = InventoryCommitted \<and> res_UnavailableItems r = []) \<or>
         (res_Status r = InventoryItemsUnavailable \<and> res_UnavailableItems r \<noteq> [])"
    using st val(6) r by auto
  show "\<forall>u \<in> set (res_UnavailableItems r). 0 \<le> un_AvailableQuantity u \<and>
           (\<exists>item \<in> set (com_Items request). it_OrderLineID item = un_OrderLineID u \<and>
              it_ProductID item = un_ProductID u \<and> it_Quantity item = un_RequestedQuantity u)"
    using val(7) index_items_mem unfolding r reported_def by fastforce
qed


text \<open>
  C28: A result the HTTP committer accepts answers its own request: same operation, same order, a
  parseable event id; it is either COMMITTED with no items or ITEMS_UNAVAILABLE with at least
  one, each naming a requested line once, with that line's product and quantity and a
  non-negative availability.
\<close>

theorem decodeResult_sound:
  assumes "decodeResult parse_uuid parse_time body request = Inr r"
  shows "(res_OperationID r = com_OperationID request) \<and>
    (res_OrderID r = com_OrderID request) \<and>
    (parse_uuid (res_EventID r) \<noteq> None) \<and>
    ((res_Status r = InventoryCommitted \<and> res_UnavailableItems r = []) \<or>
         (res_Status r = InventoryItemsUnavailable \<and> res_UnavailableItems r \<noteq> [])) \<and>
    (distinct (map un_OrderLineID (res_UnavailableItems r))) \<and>
    (\<forall>u \<in> set (res_UnavailableItems r). 0 \<le> un_AvailableQuantity u \<and>
           (\<exists>item \<in> set (com_Items request). it_OrderLineID item = un_OrderLineID u \<and>
              it_ProductID item = un_ProductID u \<and> it_Quantity item = un_RequestedQuantity u))"
  using decodeResult_sound_facts(1) [OF assms] decodeResult_sound_facts(2) [OF assms] decodeResult_sound_facts(3) [OF assms] decodeResult_sound_facts(4) [OF assms] decodeResult_sound_facts(5) [OF assms] decodeResult_sound_facts(6) [OF assms] by blast

text \<open>A reply that reports one of two requested lines.\<close>

definition sample_commit :: InventoryCommit where
  "sample_commit = \<lparr>com_EventID = ''e'', com_OperationID = ''op'', com_OrderID = ''ord'', com_OccurredAt = 3,
     com_Items = [\<lparr>it_OrderLineID = ''l1'', it_ProductID = ''tea'', it_Quantity = 2\<rparr>,
                  \<lparr>it_OrderLineID = ''l2'', it_ProductID = ''cake'', it_Quantity = 1\<rparr>]\<rparr>"

definition sample_body :: json_input where
  "sample_body = [Some (JObj [(''schema_version'', JStr ''1.0''), (''event_id'', JStr ''r1''),
     (''operation_id'', JStr ''op''), (''order_id'', JStr ''ord''), (''Result'', JStr ''ITEMS_UNAVAILABLE''),
     (''occurred_at'', JStr ''now''),
     (''items'', JArr [JObj [(''order_line_id'', JStr ''l2''), (''product_id'', JStr ''cake''),
        (''requested_quantity'', JInt 1), (''available_quantity'', JInt 0)]])])]"

definition sample_result :: InventoryResult where
  "sample_result = \<lparr>res_EventID = ''r1'', res_OperationID = ''op'', res_OrderID = ''ord'',
     res_Status = InventoryItemsUnavailable, res_OccurredAt = 5,
     res_UnavailableItems = [\<lparr>un_OrderLineID = ''l2'', un_ProductID = ''cake'', un_RequestedQuantity = 1,
       un_AvailableQuantity = 0\<rparr>]\<rparr>"

lemma sample_decoded:
  "decodeResult (\<lambda>s. if s = [] then None else Some s) (\<lambda>s. Some 5) sample_body sample_commit = Inr sample_result"
proof -
  have fold: "fold_name ''Result'' = fold_name ''result''"
    by (simp add: fold_name_ascii byte_def fold_rune_def)
  have env: "Unmarshal decode_envelope sample_body = Some ''ITEMS_UNAVAILABLE''"
    by (simp add: Unmarshal_def sample_body_def decode_envelope_def decode_struct_def find_field_def
        wire_names wire_names [THEN not_sym] fold)
  have "DecodeStrict decode_unavailable sample_body = Some
      \<lparr>wx_SchemaVersion = ''1.0'', wx_EventID = ''r1'', wx_OperationID = ''op'', wx_OrderID = ''ord'',
       wx_Result = ''ITEMS_UNAVAILABLE'', wx_OccurredAt = ''now'',
       wx_Items = [\<lparr>wu_OrderLineID = ''l2'', wu_ProductID = ''cake'', wu_RequestedQuantity = 1,
         wu_AvailableQuantity = 0\<rparr>]\<rparr>"
    by (simp add: DecodeStrict_def sample_body_def decode_unavailable_def unavailable_fields_def
        wire_item_fields_def find_field_def zero_unavailable_def zero_wire_item_def list_field_def in64_def
        max_int64_def fold_name_ascii byte_def fold_rune_def)
  with env show ?thesis
    by (simp add: decodeResult_def validateResult_def result_status_def SchemaVersion_def sample_commit_def
        index_items_def unavailable_of_wire_def sample_result_def)
qed

theorem decodeResult_sound_witness:
  "res_OperationID sample_result = ''op'' \<and>
   (\<exists>item \<in> set (com_Items sample_commit). it_OrderLineID item = ''l2'' \<and> it_ProductID item = ''cake'' \<and>
      it_Quantity item = 1)"
  using decodeResult_sound [OF sample_decoded] by (simp add: sample_result_def sample_commit_def)

end
