(* ===== verification/Order_Store.thy ===== *)
theory Order_Store
  imports Checkout Inventory_Wire
begin

text \<open>
  The PostgreSQL store of \<open>services/ordering/internal/ordering/adapters/postgres/store.go\<close> over
  the tables of \<open>services/ordering/migrations\<close> (00001, 00003), with their \<open>CHECK\<close>,
  \<open>UNIQUE\<close> and foreign-key constraints. A statement is a function on the tables, an operation
  the sequence of its round trips in a transaction. Columns that no query reads (creation times
  of lines and operations, generated keys of the audit) are left out; identifiers are in the
  canonical lower-case form in which PostgreSQL returns them. \<open>dbnow\<close> is the server's
  transaction time.
\<close>

section \<open>Tables\<close>

record order_row =
  or_id :: string
  or_checkout_id :: string
  or_checkout_fingerprint :: string
  or_customer_id :: string
  or_status :: OrderStatus
  or_rejection_code :: "string option"
  or_subtotal :: int
  or_delivery_fee :: int
  or_total :: int
  or_address :: string
  or_notes :: string
  or_created_at :: int
  or_updated_at :: int

record line_row =
  lr_order_id :: string
  lr_line :: OrderLine

record fulfillment_row =
  fr_order_id :: string
  fr_status :: FulfillmentStatus
  fr_version :: int
  fr_preparing_at :: int
  fr_delivering_at :: "int option"
  fr_delivered_at :: "int option"
  fr_read_at :: "int option"
  fr_read_by :: "string option"
  fr_updated_by :: "string option"

text \<open>
  The \<open>jsonb\<close> column \<open>unavailable_items\<close>: \<open>json.Marshal\<close> of a nil slice is \<open>null\<close>, which
  \<open>jsonb_typeof\<close> tells from an array. The empty list of this model is the nil slice.
\<close>

datatype items_json = ItemsNull | ItemsArray "UnavailableItem list"

definition marshal_items :: "UnavailableItem list \<Rightarrow> items_json" where
  "marshal_items items = (if items = [] then ItemsNull else ItemsArray items)"

fun unmarshal_items :: "items_json \<Rightarrow> UnavailableItem list" where
  "unmarshal_items ItemsNull = []"
| "unmarshal_items (ItemsArray items) = items"

record operation_row =
  op_operation_id :: string
  op_order_id :: string
  op_result_status :: InventoryResultStatus
  op_result_event_id :: "string option"
  op_unavailable_items :: "items_json option"
  op_completed_at :: "int option"

record outbox_row =
  ob_event_id :: string
  ob_operation_id :: string
  ob_order_id :: string
  ob_payload :: CommitRequested
  ob_occurred_at :: int
  ob_published_at :: "int option"
  ob_attempt_count :: int
  ob_next_attempt_at :: int
  ob_locked_at :: "int option"
  ob_claim_token :: "string option"
  ob_last_error_code :: "string option"

record audit_row =
  au_actor :: "string option"
  au_action :: string
  au_target_id :: string
  au_details :: "(string \<times> string) list"
  au_occurred_at :: int

record user_row =
  ur_id :: string
  ur_name :: string

record order_db =
  db_users :: "user_row list"
  db_orders :: "order_row list"
  db_lines :: "line_row list"
  db_fulfillments :: "fulfillment_row list"
  db_operations :: "operation_row list"
  db_outbox :: "outbox_row list"
  db_audit :: "audit_row list"

section \<open>Constraints\<close>

definition is_user :: "order_db \<Rightarrow> string \<Rightarrow> bool" where
  "is_user db uid \<longleftrightarrow> list_ex (\<lambda>u. ur_id u = uid) (db_users db)"

definition has_order :: "order_db \<Rightarrow> string \<Rightarrow> bool" where
  "has_order db oid \<longleftrightarrow> list_ex (\<lambda>r. or_id r = oid) (db_orders db)"

definition order_check :: "order_row \<Rightarrow> bool" where
  "order_check r \<longleftrightarrow>
     or_status r \<in> {OrderSubmitted, OrderConfirmed, OrderRejected} \<and>
     0 \<le> or_subtotal r \<and> 0 \<le> or_delivery_fee r \<and> 0 \<le> or_total r \<and>
     in64 (or_subtotal r) \<and> in64 (or_delivery_fee r) \<and> in64 (or_total r) \<and>
     pg_text (or_address r) \<and> pg_text (or_notes r) \<and>
     text_between 1 500 (btrim (or_address r)) \<and> text_between 0 500 (or_notes r) \<and>
     or_total r = or_subtotal r + or_delivery_fee r \<and>
     (or_status r = OrderRejected \<longleftrightarrow> or_rejection_code r \<noteq> None) \<and>
     text_between 64 64 (or_checkout_fingerprint r)"

definition order_clash :: "order_row \<Rightarrow> order_row \<Rightarrow> bool" where
  "order_clash x r \<longleftrightarrow> or_id x = or_id r \<or> or_checkout_id x = or_checkout_id r"

definition line_check :: "line_row \<Rightarrow> bool" where
  "line_check r \<longleftrightarrow>
     (let l = lr_line r in
      pg_text (line_ProductID l) \<and> text_between 1 100 (line_ProductID l) \<and>
      pg_text (line_ProductName l) \<and> text_between 1 200 (btrim (line_ProductName l)) \<and>
      0 \<le> line_UnitPriceCentavos l \<and> in64 (line_UnitPriceCentavos l) \<and>
      0 < line_Quantity l \<and> line_Quantity l < 2 ^ 31 \<and>
      0 \<le> line_LineTotalCentavos l \<and> in64 (line_LineTotalCentavos l) \<and>
      line_LineTotalCentavos l = line_UnitPriceCentavos l * line_Quantity l)"

definition line_clash :: "line_row \<Rightarrow> line_row \<Rightarrow> bool" where
  "line_clash x r \<longleftrightarrow> line_ID (lr_line x) = line_ID (lr_line r) \<or>
     (lr_order_id x = lr_order_id r \<and> line_ProductID (lr_line x) = line_ProductID (lr_line r))"

definition fulfillment_check :: "fulfillment_row \<Rightarrow> bool" where
  "fulfillment_check r \<longleftrightarrow>
     0 < fr_version r \<and> fr_version r < 2 ^ 31 \<and>
     (fr_read_at r = None \<longleftrightarrow> fr_read_by r = None) \<and>
     ((fr_status r = FulfillmentPreparing \<and> fr_delivering_at r = None \<and> fr_delivered_at r = None) \<or>
      (fr_status r = FulfillmentDelivering \<and> fr_delivering_at r \<noteq> None \<and> fr_delivered_at r = None \<and>
         fr_updated_by r \<noteq> None) \<or>
      (fr_status r = FulfillmentDelivered \<and> fr_delivering_at r \<noteq> None \<and> fr_delivered_at r \<noteq> None \<and>
         the (fr_delivering_at r) \<le> the (fr_delivered_at r) \<and> fr_updated_by r \<noteq> None))"

definition is_array :: "items_json option \<Rightarrow> bool" where
  "is_array j \<longleftrightarrow> (case j of Some (ItemsArray _) \<Rightarrow> True | _ \<Rightarrow> False)"

definition operation_check :: "operation_row \<Rightarrow> bool" where
  "operation_check r \<longleftrightarrow>
     (op_result_status r = InventoryPending \<and> op_result_event_id r = None \<and> op_completed_at r = None \<and>
        op_unavailable_items r = None) \<or>
     (op_result_status r = InventoryCommitted \<and> op_result_event_id r \<noteq> None \<and> op_completed_at r \<noteq> None \<and>
        op_unavailable_items r = None) \<or>
     (op_result_status r = InventoryItemsUnavailable \<and> op_result_event_id r \<noteq> None \<and>
        op_completed_at r \<noteq> None \<and> is_array (op_unavailable_items r))"

definition operation_clash :: "operation_row \<Rightarrow> operation_row \<Rightarrow> bool" where
  "operation_clash x r \<longleftrightarrow> op_operation_id x = op_operation_id r \<or> op_order_id x = op_order_id r \<or>
     (op_result_event_id x \<noteq> None \<and> op_result_event_id x = op_result_event_id r)"

definition outbox_check :: "outbox_row \<Rightarrow> bool" where
  "outbox_check r \<longleftrightarrow> 0 \<le> ob_attempt_count r \<and> ob_attempt_count r < 2 ^ 31"

definition outbox_clash :: "outbox_row \<Rightarrow> outbox_row \<Rightarrow> bool" where
  "outbox_clash x r \<longleftrightarrow> ob_event_id x = ob_event_id r \<or> ob_operation_id x = ob_operation_id r \<or>
     ob_order_id x = ob_order_id r"

definition audit_check :: "audit_row \<Rightarrow> bool" where
  "audit_check r \<longleftrightarrow> text_between 1 100 (au_action r) \<and> text_between 1 255 (au_target_id r)"

definition insert_audit :: "order_db \<Rightarrow> audit_row \<Rightarrow> dberr + order_db" where
  "insert_audit db r =
     map_sum id (\<lambda>rows. db\<lparr>db_audit := rows\<rparr>)
       (insert_row audit_check (\<lambda>_ _. False)
          (\<lambda>r. case au_actor r of None \<Rightarrow> True | Some uid \<Rightarrow> is_user db uid) r (db_audit db))"

section \<open>Reading an order\<close>

definition findCheckout :: "order_db \<Rightarrow> string \<Rightarrow> (string \<times> string \<times> string) option" where
  "findCheckout db checkoutID =
     map_option (\<lambda>r. (or_id r, or_checkout_fingerprint r, or_customer_id r))
       (find (\<lambda>r. or_checkout_id r = checkoutID) (db_orders db))"

definition fulfillment_of_row :: "fulfillment_row \<Rightarrow> Fulfillment" where
  "fulfillment_of_row f =
     \<lparr>ful_Status = fr_status f, ful_Version = fr_version f, ful_Unread = (fr_read_at f = None),
      ful_PreparingAt = fr_preparing_at f, ful_DeliveringAt = fr_delivering_at f,
      ful_DeliveredAt = fr_delivered_at f, ful_CashierReadAt = fr_read_at f,
      ful_CashierReadBy = (case fr_read_by f of None \<Rightarrow> [] | Some uid \<Rightarrow> uid),
      ful_UpdatedBy = (case fr_updated_by f of None \<Rightarrow> [] | Some uid \<Rightarrow> uid)\<rparr>"

text \<open>The row of the joined query of \<open>loadOrder\<close>, without the lines.\<close>

definition order_of_rows ::
    "order_row \<Rightarrow> user_row \<Rightarrow> fulfillment_row option \<Rightarrow> operation_row option \<Rightarrow> Order" where
  "order_of_rows r u f io =
     \<lparr>ord_ID = or_id r, ord_CheckoutID = or_checkout_id r, ord_CustomerID = or_customer_id r,
      ord_CustomerName = ur_name u, ord_Status = or_status r,
      ord_RejectionCode = (case or_rejection_code r of None \<Rightarrow> [] | Some c \<Rightarrow> c),
      ord_SubtotalCentavos = or_subtotal r, ord_DeliveryFeeCentavos = or_delivery_fee r,
      ord_TotalCentavos = or_total r, ord_DeliveryAddress = or_address r, ord_DeliveryNotes = or_notes r,
      ord_Lines = [], ord_Fulfillment = map_option fulfillment_of_row f,
      ord_UnavailableItems =
        unmarshal_items (case io of None \<Rightarrow> ItemsArray []
          | Some x \<Rightarrow> (case op_unavailable_items x of None \<Rightarrow> ItemsArray [] | Some j \<Rightarrow> j)),
      ord_CreatedAt = or_created_at r, ord_UpdatedAt = or_updated_at r\<rparr>"

definition select_order :: "order_db \<Rightarrow> string \<Rightarrow> string \<Rightarrow> bool \<Rightarrow> Order option" where
  "select_order db orderID customerID cashier =
     (case find (\<lambda>r. or_id r = orderID) (db_orders db) of
        None \<Rightarrow> None
      | Some r \<Rightarrow>
          (case find (\<lambda>u. ur_id u = or_customer_id r) (db_users db) of
             None \<Rightarrow> None
           | Some u \<Rightarrow>
               let f = find (\<lambda>f. fr_order_id f = or_id r) (db_fulfillments db);
                   io = find (\<lambda>x. op_order_id x = or_id r) (db_operations db) in
               if (customerID = [] \<or> or_customer_id r = customerID) \<and>
                  (\<not> cashier \<or> (or_status r = OrderConfirmed \<and> f \<noteq> None))
               then Some (order_of_rows r u f io) else None))"

definition select_lines :: "order_db \<Rightarrow> string \<Rightarrow> OrderLine list" where
  "select_lines db orderID =
     sort_key (\<lambda>l. (line_ProductID l, line_ID l))
       (map lr_line (filter (\<lambda>r. lr_order_id r = orderID) (db_lines db)))"

text \<open>\<open>loadOrder\<close>, its two queries being the round trips \<open>n\<close> and \<open>n + 1\<close>.\<close>

definition loadOrder ::
    "(nat \<Rightarrow> reply) \<Rightarrow> nat \<Rightarrow> order_db \<Rightarrow> string \<Rightarrow> string \<Rightarrow> bool \<Rightarrow> order_error + Order" where
  "loadOrder replies n db orderID customerID cashier =
     (case stmt (Wrapped ''load order'') (replies n) (Inr (select_order db orderID customerID cashier)) of
        Inl e \<Rightarrow> Inl e
      | Inr None \<Rightarrow> Inl ErrNotFound
      | Inr (Some order) \<Rightarrow>
          (case stmt (Wrapped ''load order lines'') (replies (Suc n)) (Inr (select_lines db orderID)) of
             Inl e \<Rightarrow> Inl e
           | Inr lines \<Rightarrow> Inr (order\<lparr>ord_Lines := lines\<rparr>)))"

section \<open>Placing an order\<close>

definition order_row_of :: "OrderDraft \<Rightarrow> order_row" where
  "order_row_of draft =
     (let order = draft_Order draft in
      \<lparr>or_id = ord_ID order, or_checkout_id = ord_CheckoutID order,
       or_checkout_fingerprint = draft_CheckoutFingerprint draft,
       or_customer_id = ord_CustomerID order, or_status = OrderSubmitted, or_rejection_code = None,
       or_subtotal = ord_SubtotalCentavos order, or_delivery_fee = ord_DeliveryFeeCentavos order,
       or_total = ord_TotalCentavos order, or_address = ord_DeliveryAddress order,
       or_notes = ord_DeliveryNotes order, or_created_at = draft_OccurredAt draft,
       or_updated_at = draft_OccurredAt draft\<rparr>)"

definition insert_order :: "OrderDraft \<Rightarrow> order_db \<Rightarrow> dberr + order_db" where
  "insert_order draft db =
     map_sum id (\<lambda>rows. db\<lparr>db_orders := rows\<rparr>)
       (insert_row order_check order_clash (\<lambda>r. is_user db (or_customer_id r))
          (order_row_of draft) (db_orders db))"

fun insert_lines ::
    "(nat \<Rightarrow> reply) \<Rightarrow> nat \<Rightarrow> string \<Rightarrow> OrderLine list \<Rightarrow> order_db \<Rightarrow> order_error + order_db" where
  "insert_lines replies n orderID [] db = Inr db"
| "insert_lines replies n orderID (line # rest) db =
     (case stmt (Wrapped ''insert order line'') (replies n)
             (insert_row line_check line_clash (\<lambda>r. has_order db (lr_order_id r))
                \<lparr>lr_order_id = orderID, lr_line = line\<rparr> (db_lines db)) of
        Inl e \<Rightarrow> Inl e
      | Inr rows \<Rightarrow> insert_lines replies (Suc n) orderID rest (db\<lparr>db_lines := rows\<rparr>))"

definition draft_payload_wire :: "(int \<Rightarrow> string) \<Rightarrow> OrderDraft \<Rightarrow> CommitRequested" where
  "draft_payload_wire fmt_time draft =
     \<lparr>wr_SchemaVersion = SchemaVersion, wr_EventID = draft_EventID draft,
      wr_OperationID = draft_OperationID draft, wr_OrderID = ord_ID (draft_Order draft),
      wr_OccurredAt = fmt_time (draft_OccurredAt draft),
      wr_Items = map (\<lambda>line. \<lparr>wi_OrderLineID = line_ID line, wi_ProductID = line_ProductID line,
        wi_Quantity = line_Quantity line\<rparr>) (ord_Lines (draft_Order draft))\<rparr>"

definition insert_operation :: "OrderDraft \<Rightarrow> order_db \<Rightarrow> dberr + order_db" where
  "insert_operation draft db =
     map_sum id (\<lambda>rows. db\<lparr>db_operations := rows\<rparr>)
       (insert_row operation_check operation_clash (\<lambda>r. has_order db (op_order_id r))
          \<lparr>op_operation_id = draft_OperationID draft, op_order_id = ord_ID (draft_Order draft),
           op_result_status = InventoryPending, op_result_event_id = None,
           op_unavailable_items = None, op_completed_at = None\<rparr> (db_operations db))"

definition insert_outbox :: "(int \<Rightarrow> string) \<Rightarrow> OrderDraft \<Rightarrow> order_db \<Rightarrow> dberr + order_db" where
  "insert_outbox fmt_time draft db =
     map_sum id (\<lambda>rows. db\<lparr>db_outbox := rows\<rparr>)
       (insert_row outbox_check outbox_clash (\<lambda>r. has_order db (ob_order_id r))
          \<lparr>ob_event_id = draft_EventID draft, ob_operation_id = draft_OperationID draft,
           ob_order_id = ord_ID (draft_Order draft), ob_payload = draft_payload_wire fmt_time draft,
           ob_occurred_at = draft_OccurredAt draft, ob_published_at = None, ob_attempt_count = 0,
           ob_next_attempt_at = draft_OccurredAt draft, ob_locked_at = None, ob_claim_token = None,
           ob_last_error_code = None\<rparr> (db_outbox db))"

text \<open>The statements after the order row, up to the \<open>COMMIT\<close>; \<open>n\<close> is the next round trip.\<close>

definition insert_rest ::
    "(int \<Rightarrow> string) \<Rightarrow> (nat \<Rightarrow> reply) \<Rightarrow> nat \<Rightarrow> OrderDraft \<Rightarrow> order_db \<Rightarrow> order_error + order_db" where
  "insert_rest fmt_time replies n draft db =
     (let order = draft_Order draft; m = n + length (ord_Lines order) in
      case insert_lines replies n (ord_ID order) (ord_Lines order) db of
        Inl e \<Rightarrow> Inl e
      | Inr db1 \<Rightarrow>
      case stmt (Wrapped ''insert inventory operation'') (replies m) (insert_operation draft db1) of
        Inl e \<Rightarrow> Inl e
      | Inr db2 \<Rightarrow>
      case stmt (Wrapped ''insert ordering outbox'') (replies (m + 1)) (insert_outbox fmt_time draft db2) of
        Inl e \<Rightarrow> Inl e
      | Inr db3 \<Rightarrow>
        stmt (Wrapped ''audit order placement'') (replies (m + 2))
          (insert_audit db3
             \<lparr>au_actor = Some (ord_CustomerID order), au_action = ''ORDER_PLACED'',
              au_target_id = ord_ID order, au_details = [(''checkout_id'', ord_CheckoutID order)],
              au_occurred_at = draft_OccurredAt draft\<rparr>))"

definition checkoutAfterConflict ::
    "(nat \<Rightarrow> reply) \<Rightarrow> nat \<Rightarrow> OrderDraft \<Rightarrow> order_db \<Rightarrow> order_error + PlaceOrderResult" where
  "checkoutAfterConflict replies n draft db =
     (case stmt (Wrapped ''load concurrent checkout'') (replies n)
             (Inr (findCheckout db (ord_CheckoutID (draft_Order draft)))) of
        Inl e \<Rightarrow> Inl e
      | Inr None \<Rightarrow> Inl (Wrapped ''load concurrent checkout'')
      | Inr (Some (orderID, fingerprint, owner)) \<Rightarrow>
          if fingerprint \<noteq> draft_CheckoutFingerprint draft \<or> owner \<noteq> ord_CustomerID (draft_Order draft)
          then Inl ErrCheckoutConflict
          else (case loadOrder replies (n + 1) db orderID (ord_CustomerID (draft_Order draft)) False of
                  Inl e \<Rightarrow> Inl e
                | Inr order \<Rightarrow> Inr \<lparr>placed_Order = order, placed_Replayed = True\<rparr>))"

text \<open>
  \<open>PlaceOrder\<close>. The transaction reads the checkout in the state \<open>seen\<close>; the later statements
  find the state \<open>db\<close>, in which other transactions may have committed in between. The round
  trips: 0 begins, 1 looks the checkout up; on a replay 2 and 3 load the order and 4 commits;
  otherwise 2 inserts the order, the next ones its lines, operation, outbox event and audit
  record, and the one after commits. A unique violation of the order row leads to
  \<open>checkoutAfterConflict\<close> outside the transaction.
\<close>

definition PlaceOrder ::
    "(int \<Rightarrow> string) \<Rightarrow> (nat \<Rightarrow> reply) \<Rightarrow> order_db \<Rightarrow> OrderDraft \<Rightarrow> order_db \<Rightarrow>
     (order_error + PlaceOrderResult) \<times> order_db" where
  "PlaceOrder fmt_time replies seen draft db =
     (let order = draft_Order draft in
      if replies 0 \<noteq> Done then (Inl (Wrapped ''begin place order''), db)
      else case stmt (Wrapped ''find checkout'') (replies 1) (Inr (findCheckout seen (ord_CheckoutID order))) of
        Inl e \<Rightarrow> (Inl e, db)
      | Inr (Some (existing, fingerprint, owner)) \<Rightarrow>
          if fingerprint \<noteq> draft_CheckoutFingerprint draft \<or> owner \<noteq> ord_CustomerID order
          then (Inl ErrCheckoutConflict, db)
          else (case loadOrder replies 2 db existing (ord_CustomerID order) False of
                  Inl e \<Rightarrow> (Inl e, db)
                | Inr stored \<Rightarrow>
                    settle (replies 4) db db (Wrapped ''commit checkout replay'')
                      \<lparr>placed_Order = stored, placed_Replayed = True\<rparr>)
      | Inr None \<Rightarrow>
          (case exec (replies 2) (insert_order draft db) of
             Inl UniqueViolation \<Rightarrow> (checkoutAfterConflict replies 3 draft db, db)
           | Inl _ \<Rightarrow> (Inl (Wrapped ''insert order''), db)
           | Inr db0 \<Rightarrow>
               (case insert_rest fmt_time replies 3 draft db0 of
                  Inl e \<Rightarrow> (Inl e, db)
                | Inr db1 \<Rightarrow>
                    settle (replies (6 + length (ord_Lines order))) db db1 (Wrapped ''commit place order'')
                      \<lparr>placed_Order = order, placed_Replayed = False\<rparr>)))"

section \<open>Queries\<close>

definition CustomerOrder :: "(nat \<Rightarrow> reply) \<Rightarrow> order_db \<Rightarrow> string \<Rightarrow> string \<Rightarrow> order_error + Order" where
  "CustomerOrder replies db customerID orderID = loadOrder replies 0 db orderID customerID False"

definition CashierOrder :: "(nat \<Rightarrow> reply) \<Rightarrow> order_db \<Rightarrow> string \<Rightarrow> order_error + Order" where
  "CashierOrder replies db orderID = loadOrder replies 0 db orderID [] True"

fun loadOrders ::
    "(nat \<Rightarrow> reply) \<Rightarrow> nat \<Rightarrow> order_db \<Rightarrow> string list \<Rightarrow> string \<Rightarrow> bool \<Rightarrow> order_error + Order list" where
  "loadOrders replies n db [] customerID cashier = Inr []"
| "loadOrders replies n db (oid # rest) customerID cashier =
     (case loadOrder replies n db oid customerID cashier of
        Inl e \<Rightarrow> Inl e
      | Inr order \<Rightarrow>
          (case loadOrders replies (n + 2) db rest customerID cashier of
             Inl e \<Rightarrow> Inl e
           | Inr orders \<Rightarrow> Inr (order # orders)))"

text \<open>\<open>ORDER BY created_at DESC, id DESC\<close> and the comparison of \<open>(created_at, id)\<close> pairs.\<close>

definition page_key :: "order_row \<Rightarrow> int \<times> string" where
  "page_key r = (or_created_at r, or_id r)"

definition newest_first :: "order_row list \<Rightarrow> order_row list" where
  "newest_first rows = rev (sort_key page_key rows)"

text \<open>
  The rows after the anchor: the subquery yields at most one row, and a comparison with the
  \<open>NULL\<close> of an empty subquery keeps nothing.
\<close>

definition after_anchor :: "order_row option \<Rightarrow> order_row \<Rightarrow> bool" where
  "after_anchor anchor r \<longleftrightarrow> (case anchor of None \<Rightarrow> False | Some a \<Rightarrow> page_key r < page_key a)"

definition customer_page :: "order_db \<Rightarrow> string \<Rightarrow> nat \<Rightarrow> string \<Rightarrow> string list" where
  "customer_page db customerID limit afterID =
     map or_id (take limit (newest_first (filter (\<lambda>r. or_customer_id r = customerID \<and>
       (afterID = [] \<or>
        after_anchor (find (\<lambda>a. or_id a = afterID \<and> or_customer_id a = customerID) (db_orders db)) r))
       (db_orders db))))"

definition CustomerOrders ::
    "(nat \<Rightarrow> reply) \<Rightarrow> order_db \<Rightarrow> string \<Rightarrow> nat \<Rightarrow> string \<Rightarrow> order_error + Order list" where
  "CustomerOrders replies db customerID limit afterID =
     (case stmt (Wrapped ''list customer order IDs'') (replies 0)
             (Inr (customer_page db customerID limit afterID)) of
        Inl e \<Rightarrow> Inl e
      | Inr ids \<Rightarrow> loadOrders replies 1 db ids customerID False)"

definition cashier_page :: "order_db \<Rightarrow> FulfillmentStatus \<Rightarrow> nat \<Rightarrow> string \<Rightarrow> string list" where
  "cashier_page db status limit afterID =
     map or_id (take limit (newest_first (filter (\<lambda>r.
       (case find (\<lambda>f. fr_order_id f = or_id r) (db_fulfillments db) of
          None \<Rightarrow> False
        | Some f \<Rightarrow> status = FulfillmentOther [] \<or> fr_status f = status) \<and>
       or_status r = OrderConfirmed \<and>
       (afterID = [] \<or> after_anchor (find (\<lambda>a. or_id a = afterID) (db_orders db)) r))
       (db_orders db))))"

definition CashierOrders ::
    "(nat \<Rightarrow> reply) \<Rightarrow> order_db \<Rightarrow> FulfillmentStatus \<Rightarrow> nat \<Rightarrow> string \<Rightarrow> order_error + Order list" where
  "CashierOrders replies db status limit afterID =
     (case stmt (Wrapped ''list cashier order IDs'') (replies 0) (Inr (cashier_page db status limit afterID)) of
        Inl e \<Rightarrow> Inl e
      | Inr ids \<Rightarrow> loadOrders replies 1 db ids [] True)"

section \<open>The cashier's operations\<close>

definition confirmed :: "order_db \<Rightarrow> string \<Rightarrow> bool" where
  "confirmed db orderID \<longleftrightarrow>
     (case find (\<lambda>r. or_id r = orderID) (db_orders db) of None \<Rightarrow> False | Some r \<Rightarrow> or_status r = OrderConfirmed)"

definition user_or_null :: "order_db \<Rightarrow> string option \<Rightarrow> bool" where
  "user_or_null db uid \<longleftrightarrow> (case uid of None \<Rightarrow> True | Some u \<Rightarrow> is_user db u)"

text \<open>\<open>UPDATE fulfillments\<close> with the table's constraints, its foreign keys included.\<close>

definition update_fulfillments ::
    "(fulfillment_row \<Rightarrow> bool) \<Rightarrow> (fulfillment_row \<Rightarrow> fulfillment_row) \<Rightarrow> order_db \<Rightarrow> dberr + order_db \<times> nat" where
  "update_fulfillments P f db =
     map_sum id (\<lambda>(rows, n). (db\<lparr>db_fulfillments := rows\<rparr>, n))
       (update_rows (\<lambda>r. fulfillment_check r \<and> user_or_null db (fr_read_by r) \<and> user_or_null db (fr_updated_by r))
          P f (db_fulfillments db))"

definition mark_read_body ::
    "(nat \<Rightarrow> reply) \<Rightarrow> string \<Rightarrow> string \<Rightarrow> int \<Rightarrow> order_db \<Rightarrow> order_error + Order \<times> order_db \<times> nat" where
  "mark_read_body replies cashierID orderID now db =
     (case stmt (Wrapped ''mark cashier order read'') (replies 1)
             (update_fulfillments
                (\<lambda>f. fr_order_id f = orderID \<and> confirmed db (fr_order_id f) \<and> fr_read_at f = None)
                (\<lambda>f. f\<lparr>fr_read_at := Some now, fr_read_by := Some cashierID\<rparr>) db) of
        Inl e \<Rightarrow> Inl e
      | Inr (db1, rows) \<Rightarrow>
          (case (if rows = 1
                 then stmt (Wrapped ''audit cashier read'') (replies 2)
                        (insert_audit db1 \<lparr>au_actor = Some cashierID, au_action = ''CASHIER_ORDER_READ'',
                           au_target_id = orderID, au_details = [], au_occurred_at = now\<rparr>)
                 else Inr db1) of
             Inl e \<Rightarrow> Inl e
           | Inr db2 \<Rightarrow>
               let n = if rows = 1 then 3 else 2 in
               (case loadOrder replies n db2 orderID [] True of
                  Inl e \<Rightarrow> Inl e
                | Inr order \<Rightarrow> Inr (order, db2, n + 2))))"

definition MarkCashierRead ::
    "(nat \<Rightarrow> reply) \<Rightarrow> string \<Rightarrow> string \<Rightarrow> int \<Rightarrow> order_db \<Rightarrow> (order_error + Order) \<times> order_db" where
  "MarkCashierRead replies cashierID orderID now db =
     in_tx (replies 0) (Wrapped ''begin mark cashier read'') replies (Wrapped ''commit cashier read'') db
       (mark_read_body replies cashierID orderID now db)"

definition fulfillment_name :: "FulfillmentStatus \<Rightarrow> string" where
  "fulfillment_name status =
     (case status of FulfillmentPreparing \<Rightarrow> ''PREPARING'' | FulfillmentDelivering \<Rightarrow> ''DELIVERING''
      | FulfillmentDelivered \<Rightarrow> ''DELIVERED'' | FulfillmentOther s \<Rightarrow> s)"

text \<open>
  The \<open>UPDATE\<close> chosen by the \<open>switch\<close> on the target; no case matches another target, and the
  zero command tag then reports no row.
\<close>

definition advance_update ::
    "string \<Rightarrow> string \<Rightarrow> FulfillmentStatus \<Rightarrow> int \<Rightarrow> order_db \<Rightarrow> dberr + order_db \<times> nat" where
  "advance_update cashierID orderID target now db =
     (case target of
        FulfillmentDelivering \<Rightarrow>
          update_fulfillments (\<lambda>f. fr_order_id f = orderID \<and> fr_status f = FulfillmentPreparing)
            (\<lambda>f. f\<lparr>fr_status := FulfillmentDelivering, fr_version := fr_version f + 1,
                    fr_delivering_at := Some now, fr_updated_by := Some cashierID\<rparr>) db
      | FulfillmentDelivered \<Rightarrow>
          update_fulfillments (\<lambda>f. fr_order_id f = orderID \<and> fr_status f = FulfillmentDelivering)
            (\<lambda>f. f\<lparr>fr_status := FulfillmentDelivered, fr_version := fr_version f + 1,
                    fr_delivered_at := Some now, fr_updated_by := Some cashierID\<rparr>) db
      | _ \<Rightarrow> Inr (db, 0))"

definition advance_body ::
    "(nat \<Rightarrow> reply) \<Rightarrow> string \<Rightarrow> string \<Rightarrow> FulfillmentStatus \<Rightarrow> int \<Rightarrow> order_db \<Rightarrow>
     order_error + Order \<times> order_db \<times> nat" where
  "advance_body replies cashierID orderID target now db =
     (case stmt (Wrapped ''lock fulfillment'') (replies 1)
             (Inr (if confirmed db orderID
                   then find (\<lambda>f. fr_order_id f = orderID) (db_fulfillments db) else None)) of
        Inl e \<Rightarrow> Inl e
      | Inr None \<Rightarrow> Inl ErrNotFound
      | Inr (Some f) \<Rightarrow>
          (case ValidateFulfillmentTarget (fr_status f) target of
             Some e \<Rightarrow> Inl e
           | None \<Rightarrow>
               if fr_status f = target
               then (case loadOrder replies 2 db orderID [] True of
                       Inl e \<Rightarrow> Inl e
                     | Inr order \<Rightarrow> Inr (order, db, 4))
               else
                 (case stmt (Wrapped ''advance fulfillment'') (replies 2)
                         (advance_update cashierID orderID target now db) of
                    Inl e \<Rightarrow> Inl e
                  | Inr (db1, rows) \<Rightarrow>
                      if rows \<noteq> 1 then Inl ErrInvalidTransition
                      else
                        (case stmt (Wrapped ''audit fulfillment transition'') (replies 3)
                                (insert_audit db1
                                   \<lparr>au_actor = Some cashierID, au_action = ''FULFILLMENT_ADVANCED'',
                                    au_target_id = orderID,
                                    au_details = [(''from'', fulfillment_name (fr_status f)),
                                                  (''to'', fulfillment_name target)],
                                    au_occurred_at = now\<rparr>) of
                           Inl e \<Rightarrow> Inl e
                         | Inr db2 \<Rightarrow>
                             (case loadOrder replies 4 db2 orderID [] True of
                                Inl e \<Rightarrow> Inl e
                              | Inr order \<Rightarrow> Inr (order, db2, 6))))))"

definition AdvanceFulfillment ::
    "(nat \<Rightarrow> reply) \<Rightarrow> string \<Rightarrow> string \<Rightarrow> FulfillmentStatus \<Rightarrow> int \<Rightarrow> order_db \<Rightarrow>
     (order_error + Order) \<times> order_db" where
  "AdvanceFulfillment replies cashierID orderID target now db =
     in_tx (replies 0) (Wrapped ''begin fulfillment transition'') replies
       (Wrapped ''commit fulfillment transition'') db
       (advance_body replies cashierID orderID target now db)"

section \<open>The outbox\<close>

text \<open>
  \<open>ClaimInventoryWork\<close> is one statement on the pool. \<open>busy\<close> are the rows other transactions
  hold locked (\<open>SKIP LOCKED\<close>), \<open>token\<close> the generated claim tokens, \<open>arrange\<close> the order in
  which the server returns the updated rows.
\<close>

definition claim_candidates ::
    "(string \<Rightarrow> bool) \<Rightarrow> int \<Rightarrow> int \<Rightarrow> nat \<Rightarrow> outbox_row list \<Rightarrow> outbox_row list" where
  "claim_candidates busy now leaseTimeout batchSize rows =
     take batchSize (sort_key (\<lambda>b. (ob_next_attempt_at b, ob_occurred_at b))
       (filter (\<lambda>b. ob_published_at b = None \<and> ob_next_attempt_at b \<le> now \<and>
          (case ob_locked_at b of None \<Rightarrow> True | Some t \<Rightarrow> t \<le> now - leaseTimeout) \<and>
          \<not> busy (ob_event_id b)) rows))"

definition claim_row :: "(string \<Rightarrow> string) \<Rightarrow> int \<Rightarrow> outbox_row \<Rightarrow> outbox_row" where
  "claim_row token now b =
     b\<lparr>ob_locked_at := Some now, ob_claim_token := Some (token (ob_event_id b)),
       ob_attempt_count := ob_attempt_count b + 1, ob_last_error_code := None\<rparr>"

definition item_of_wire :: "ItemRequest \<Rightarrow> InventoryItem" where
  "item_of_wire item =
     \<lparr>it_OrderLineID = wi_OrderLineID item, it_ProductID = wi_ProductID item, it_Quantity = wi_Quantity item\<rparr>"

text \<open>Scanning the returned rows; a payload whose time does not parse ends the loop.\<close>

fun scan_claimed :: "(string \<Rightarrow> int option) \<Rightarrow> outbox_row list \<Rightarrow> order_error + ClaimedInventoryWork list" where
  "scan_claimed parse_time [] = Inr []"
| "scan_claimed parse_time (b # rest) =
     (let wire = ob_payload b in
      case parse_time (wr_OccurredAt wire) of
        None \<Rightarrow> Inl (Wrapped ''parse inventory request occurrence'')
      | Some occurredAt \<Rightarrow>
          (case scan_claimed parse_time rest of
             Inl e \<Rightarrow> Inl e
           | Inr work \<Rightarrow>
               Inr (\<lparr>clm_Commit = \<lparr>com_EventID = wr_EventID wire, com_OperationID = wr_OperationID wire,
                       com_OrderID = wr_OrderID wire, com_OccurredAt = occurredAt,
                       com_Items = map item_of_wire (wr_Items wire)\<rparr>,
                     clm_ClaimToken = (case ob_claim_token b of None \<Rightarrow> [] | Some t \<Rightarrow> t),
                     clm_AttemptCount = ob_attempt_count b\<rparr> # work)))"

definition ClaimInventoryWork ::
    "(string \<Rightarrow> int option) \<Rightarrow> (string \<Rightarrow> bool) \<Rightarrow> (string \<Rightarrow> string) \<Rightarrow>
     (outbox_row list \<Rightarrow> outbox_row list) \<Rightarrow> reply \<Rightarrow> int \<Rightarrow> int \<Rightarrow> nat \<Rightarrow> order_db \<Rightarrow>
     (order_error + ClaimedInventoryWork list) \<times> order_db" where
  "ClaimInventoryWork parse_time busy token arrange reply now leaseTimeout batchSize db =
     (let chosen = claim_candidates busy now leaseTimeout batchSize (db_outbox db);
          claimed = arrange (map (claim_row token now) chosen) in
      case update_rows outbox_check (\<lambda>b. ob_event_id b \<in> set (map ob_event_id chosen)) (claim_row token now)
             (db_outbox db) of
        Inl _ \<Rightarrow> (Inl (Wrapped ''claim ordering outbox''), db)
      | Inr (rows, _) \<Rightarrow>
          (case settle reply db (db\<lparr>db_outbox := rows\<rparr>) (Wrapped ''claim ordering outbox'') () of
             (Inl e, db') \<Rightarrow> (Inl e, db')
           | (Inr _, db') \<Rightarrow> (scan_claimed parse_time claimed, db')))"

text \<open>\<open>UPDATE\<close>s of the inventory result; the \<open>orders\<close> trigger sets \<open>updated_at\<close>.\<close>

definition update_operation ::
    "string \<Rightarrow> (operation_row \<Rightarrow> operation_row) \<Rightarrow> order_db \<Rightarrow> dberr + order_db \<times> nat" where
  "update_operation operationID f db =
     (let P = (\<lambda>r. op_operation_id r = operationID \<and> op_result_status r = InventoryPending) in
      if list_ex (\<lambda>x. \<not> P x \<and> list_ex (\<lambda>r. P r \<and> op_result_event_id x \<noteq> None \<and>
           op_result_event_id x = op_result_event_id (f r)) (db_operations db)) (db_operations db)
      then Inl UniqueViolation
      else map_sum id (\<lambda>(rows, n). (db\<lparr>db_operations := rows\<rparr>, n))
             (update_rows operation_check P f (db_operations db)))"

definition update_submitted ::
    "int \<Rightarrow> string \<Rightarrow> OrderStatus \<Rightarrow> string option \<Rightarrow> order_db \<Rightarrow> dberr + order_db \<times> nat" where
  "update_submitted dbnow orderID status code db =
     map_sum id (\<lambda>(rows, n). (db\<lparr>db_orders := rows\<rparr>, n))
       (update_rows order_check (\<lambda>r. or_id r = orderID \<and> or_status r = OrderSubmitted)
          (\<lambda>r. r\<lparr>or_status := status, or_rejection_code := code, or_updated_at := dbnow\<rparr>) (db_orders db))"

definition insert_fulfillment :: "string \<Rightarrow> int \<Rightarrow> order_db \<Rightarrow> dberr + order_db" where
  "insert_fulfillment orderID occurredAt db =
     map_sum id (\<lambda>rows. db\<lparr>db_fulfillments := rows\<rparr>)
       (insert_row fulfillment_check (\<lambda>x r. fr_order_id x = fr_order_id r) (\<lambda>r. has_order db (fr_order_id r))
          \<lparr>fr_order_id = orderID, fr_status = FulfillmentPreparing, fr_version = 1,
           fr_preparing_at = occurredAt, fr_delivering_at = None, fr_delivered_at = None,
           fr_read_at = None, fr_read_by = None, fr_updated_by = None\<rparr> (db_fulfillments db))"

text \<open>
  The business part of a result: the state, the affected rows of the last \<open>UPDATE\<close> and the
  next round trip. A statement runs only when the one before it updated one row.
\<close>

definition apply_business ::
    "int \<Rightarrow> (nat \<Rightarrow> reply) \<Rightarrow> InventoryResult \<Rightarrow> order_db \<Rightarrow> order_error + order_db \<times> nat \<times> nat" where
  "apply_business dbnow replies result db =
     (let err = Wrapped ''apply inventory business result'' in
      if res_Status result = InventoryCommitted
      then
        (case stmt err (replies 2)
                (update_operation (res_OperationID result)
                   (\<lambda>r. r\<lparr>op_result_status := InventoryCommitted, op_result_event_id := Some (res_EventID result),
                           op_completed_at := Some (res_OccurredAt result)\<rparr>) db) of
           Inl e \<Rightarrow> Inl e
         | Inr (db1, n1) \<Rightarrow>
             if n1 \<noteq> 1 then Inr (db1, n1, 3)
             else
               (case stmt err (replies 3) (update_submitted dbnow (res_OrderID result) OrderConfirmed None db1) of
                  Inl e \<Rightarrow> Inl e
                | Inr (db2, n2) \<Rightarrow>
                    if n2 \<noteq> 1 then Inr (db2, n2, 4)
                    else
                      (case stmt err (replies 4)
                              (insert_fulfillment (res_OrderID result) (res_OccurredAt result) db2) of
                         Inl e \<Rightarrow> Inl e
                       | Inr db3 \<Rightarrow> Inr (db3, n2, 5))))
      else
        (case stmt err (replies 2)
                (update_operation (res_OperationID result)
                   (\<lambda>r. r\<lparr>op_result_status := InventoryItemsUnavailable,
                           op_result_event_id := Some (res_EventID result),
                           op_unavailable_items := Some (marshal_items (res_UnavailableItems result)),
                           op_completed_at := Some (res_OccurredAt result)\<rparr>) db) of
           Inl e \<Rightarrow> Inl e
         | Inr (db1, n1) \<Rightarrow>
             if n1 \<noteq> 1 then Inr (db1, n1, 3)
             else
               (case stmt err (replies 3)
                       (update_submitted dbnow (res_OrderID result) OrderRejected
                          (Some RejectionItemsUnavailable) db1) of
                  Inl e \<Rightarrow> Inl e
                | Inr (db2, n2) \<Rightarrow> Inr (db2, n2, 4))))"

definition publish_outbox :: "ClaimedInventoryWork \<Rightarrow> int \<Rightarrow> order_db \<Rightarrow> dberr + order_db \<times> nat" where
  "publish_outbox claimed now db =
     map_sum id (\<lambda>(rows, n). (db\<lparr>db_outbox := rows\<rparr>, n))
       (update_rows outbox_check
          (\<lambda>b. ob_event_id b = com_EventID (clm_Commit claimed) \<and>
                ob_claim_token b = Some (clm_ClaimToken claimed) \<and> ob_published_at b = None)
          (\<lambda>b. b\<lparr>ob_published_at := Some now, ob_locked_at := None, ob_claim_token := None,
                   ob_last_error_code := None\<rparr>) (db_outbox db))"

definition apply_pending ::
    "int \<Rightarrow> (nat \<Rightarrow> reply) \<Rightarrow> ClaimedInventoryWork \<Rightarrow> InventoryResult \<Rightarrow> int \<Rightarrow> order_db \<Rightarrow>
     order_error + unit \<times> order_db \<times> nat" where
  "apply_pending dbnow replies claimed result now db =
     (case apply_business dbnow replies result db of
        Inl e \<Rightarrow> Inl e
      | Inr (db1, rows, n) \<Rightarrow>
          if rows \<noteq> 1 then Inl ErrOperationConflict
          else
            (case stmt (Wrapped ''audit inventory result'') (replies n)
                    (insert_audit db1
                       \<lparr>au_actor = None,
                        au_action = (if res_Status result = InventoryItemsUnavailable
                          then ''ORDER_REJECTED_ITEMS_UNAVAILABLE'' else ''INVENTORY_COMMITTED''),
                        au_target_id = res_OrderID result,
                        au_details = [(''operation_id'', res_OperationID result)],
                        au_occurred_at = now\<rparr>) of
               Inl e \<Rightarrow> Inl e
             | Inr db2 \<Rightarrow>
                 (case stmt (Wrapped ''publish ordering outbox'') (replies (n + 1))
                         (publish_outbox claimed now db2) of
                    Inl e \<Rightarrow> Inl e
                  | Inr (db3, rows) \<Rightarrow>
                      if rows \<noteq> 1 then Inl ErrClaimLost else Inr ((), db3, n + 2))))"

definition apply_body ::
    "int \<Rightarrow> (nat \<Rightarrow> reply) \<Rightarrow> ClaimedInventoryWork \<Rightarrow> InventoryResult \<Rightarrow> int \<Rightarrow> order_db \<Rightarrow>
     order_error + unit \<times> order_db \<times> nat" where
  "apply_body dbnow replies claimed result now db =
     (case stmt (Wrapped ''lock inventory operation'') (replies 1)
             (Inr (case find (\<lambda>r. op_operation_id r = res_OperationID result \<and>
                                 op_order_id r = res_OrderID result) (db_operations db) of
                     None \<Rightarrow> None
                   | Some io \<Rightarrow>
                       map_option (Pair io)
                         (find (\<lambda>b. ob_operation_id b = op_operation_id io) (db_outbox db)))) of
        Inl e \<Rightarrow> Inl e
      | Inr None \<Rightarrow> Inl ErrNotFound
      | Inr (Some (io, outbox)) \<Rightarrow>
          if op_result_status io \<noteq> InventoryPending
          then (if op_result_status io = res_Status result \<and>
                   op_result_event_id io = Some (res_EventID result) \<and>
                   unmarshal_items (case op_unavailable_items io of None \<Rightarrow> ItemsArray [] | Some j \<Rightarrow> j) =
                     res_UnavailableItems result
                then Inr ((), db, 2) else Inl ErrOperationConflict)
          else if ob_published_at outbox \<noteq> None \<or> ob_claim_token outbox \<noteq> Some (clm_ClaimToken claimed)
          then Inl ErrClaimLost
          else apply_pending dbnow replies claimed result now db)"

definition ApplyInventoryResult ::
    "int \<Rightarrow> (nat \<Rightarrow> reply) \<Rightarrow> ClaimedInventoryWork \<Rightarrow> InventoryResult \<Rightarrow> int \<Rightarrow> order_db \<Rightarrow>
     (order_error + unit) \<times> order_db" where
  "ApplyInventoryResult dbnow replies claimed result now db =
     (if res_EventID result = [] \<or> res_OperationID result \<noteq> com_OperationID (clm_Commit claimed) \<or>
         res_OrderID result \<noteq> com_OrderID (clm_Commit claimed) \<or>
         (res_Status result \<noteq> InventoryCommitted \<and> res_Status result \<noteq> InventoryItemsUnavailable)
      then (Inl ErrOperationConflict, db)
      else in_tx (replies 0) (Wrapped ''begin inventory result'') replies (Wrapped ''commit inventory result'')
             db (apply_body dbnow replies claimed result now db))"

definition RetryInventoryWork ::
    "reply \<Rightarrow> ClaimedInventoryWork \<Rightarrow> int \<Rightarrow> string \<Rightarrow> order_db \<Rightarrow> (order_error + unit) \<times> order_db" where
  "RetryInventoryWork reply claimed nextAttemptAt errorCode db =
     (let P = (\<lambda>b. ob_event_id b = com_EventID (clm_Commit claimed) \<and>
            ob_claim_token b = Some (clm_ClaimToken claimed) \<and> ob_published_at b = None) in
      case update_rows outbox_check P
             (\<lambda>b. b\<lparr>ob_locked_at := None, ob_claim_token := None, ob_next_attempt_at := nextAttemptAt,
                      ob_last_error_code := Some errorCode\<rparr>) (db_outbox db) of
        Inl _ \<Rightarrow> (Inl (Wrapped ''release ordering outbox retry''), db)
      | Inr (rows, n) \<Rightarrow>
          (case settle reply db (db\<lparr>db_outbox := rows\<rparr>) (Wrapped ''release ordering outbox retry'') n of
             (Inl e, db') \<Rightarrow> (Inl e, db')
           | (Inr n, db') \<Rightarrow> (if n \<noteq> 1 then Inl ErrClaimLost else Inr (), db')))"

end
