(* ===== verification/Order_Lifecycle.thy ===== *)
theory Order_Lifecycle
  imports Order_Store
begin

text \<open>
  The life of an order in the store: what each operation of \<open>Order_Store\<close> does to the tables,
  the step relation of all of them, the stage an order is in, read off the four tables that
  describe it, and the abstract machine those stages follow.
\<close>

section \<open>What the operations do to the tables\<close>

subsection \<open>Placing\<close>

definition line_rows :: "OrderDraft \<Rightarrow> line_row list" where
  "line_rows draft =
     map (\<lambda>l. \<lparr>lr_order_id = ord_ID (draft_Order draft), lr_line = l\<rparr>) (ord_Lines (draft_Order draft))"

definition operation_row_of :: "OrderDraft \<Rightarrow> operation_row" where
  "operation_row_of draft =
     \<lparr>op_operation_id = draft_OperationID draft, op_order_id = ord_ID (draft_Order draft),
      op_result_status = InventoryPending, op_result_event_id = None,
      op_unavailable_items = None, op_completed_at = None\<rparr>"

definition outbox_row_of :: "(int \<Rightarrow> string) \<Rightarrow> OrderDraft \<Rightarrow> outbox_row" where
  "outbox_row_of fmt_time draft =
     \<lparr>ob_event_id = draft_EventID draft, ob_operation_id = draft_OperationID draft,
      ob_order_id = ord_ID (draft_Order draft), ob_payload = draft_payload_wire fmt_time draft,
      ob_occurred_at = draft_OccurredAt draft, ob_published_at = None, ob_attempt_count = 0,
      ob_next_attempt_at = draft_OccurredAt draft, ob_locked_at = None, ob_claim_token = None,
      ob_last_error_code = None\<rparr>"

definition placed_audit :: "OrderDraft \<Rightarrow> audit_row" where
  "placed_audit draft =
     \<lparr>au_actor = Some (ord_CustomerID (draft_Order draft)), au_action = ''ORDER_PLACED'',
      au_target_id = ord_ID (draft_Order draft),
      au_details = [(''checkout_id'', ord_CheckoutID (draft_Order draft))],
      au_occurred_at = draft_OccurredAt draft\<rparr>"

definition placed_db :: "(int \<Rightarrow> string) \<Rightarrow> OrderDraft \<Rightarrow> order_db \<Rightarrow> order_db" where
  "placed_db fmt_time draft db =
     db\<lparr>db_orders := db_orders db @ [order_row_of draft], db_lines := db_lines db @ line_rows draft,
        db_operations := db_operations db @ [operation_row_of draft],
        db_outbox := db_outbox db @ [outbox_row_of fmt_time draft],
        db_audit := db_audit db @ [placed_audit draft]\<rparr>"

definition placeable :: "OrderDraft \<Rightarrow> order_db \<Rightarrow> bool" where
  "placeable draft db \<longleftrightarrow>
     order_check (order_row_of draft) \<and> (\<forall>x \<in> set (db_orders db). \<not> order_clash x (order_row_of draft)) \<and>
     is_user db (ord_CustomerID (draft_Order draft)) \<and>
     (\<forall>r \<in> set (line_rows draft). line_check r \<and> (\<forall>x \<in> set (db_lines db). \<not> line_clash x r)) \<and>
     sorted_wrt (\<lambda>x y. \<not> line_clash x y) (line_rows draft) \<and>
     (\<forall>x \<in> set (db_operations db). \<not> operation_clash x (operation_row_of draft)) \<and>
     (\<forall>x \<in> set (db_outbox db). ob_event_id x \<noteq> draft_EventID draft \<and>
        ob_operation_id x \<noteq> draft_OperationID draft \<and> ob_order_id x \<noteq> ord_ID (draft_Order draft)) \<and>
     audit_check (placed_audit draft)"

lemma insert_lines_Inr:
  "insert_lines replies n oid lines db = Inr db' \<longleftrightarrow>
     (let rows = map (\<lambda>l. \<lparr>lr_order_id = oid, lr_line = l\<rparr>) lines in
      db' = db\<lparr>db_lines := db_lines db @ rows\<rparr> \<and> (\<forall>i < length lines. replies (n + i) = Done) \<and>
      (\<forall>r \<in> set rows. line_check r \<and> (\<forall>x \<in> set (db_lines db). \<not> line_clash x r)) \<and>
      sorted_wrt (\<lambda>x y. \<not> line_clash x y) rows \<and> (rows \<noteq> [] \<longrightarrow> has_order db oid))"
proof (induction lines arbitrary: n db)
  case (Cons l lines)
  have has: "has_order (db\<lparr>db_lines := rs\<rparr>) = has_order db" for rs by (simp add: has_order_def fun_eq_iff)
  show ?case
    by (auto simp: Cons.IH Let_def insert_row_Inr has All_less_Suc2 sum_bind_Inr)
qed auto

lemma has_order_simps [simp]:
  "has_order (db\<lparr>db_lines := a\<rparr>) oid = has_order db oid"
  "has_order (db\<lparr>db_operations := b\<rparr>) oid = has_order db oid"
  "has_order (db\<lparr>db_outbox := c\<rparr>) oid = has_order db oid"
  "has_order (db\<lparr>db_orders := db_orders db @ [r]\<rparr>) oid \<longleftrightarrow> has_order db oid \<or> or_id r = oid"
  by (auto simp: has_order_def)

lemma is_user_simps [simp]:
  "is_user (db\<lparr>db_lines := a\<rparr>) uid = is_user db uid"
  "is_user (db\<lparr>db_operations := b\<rparr>) uid = is_user db uid"
  "is_user (db\<lparr>db_outbox := c\<rparr>) uid = is_user db uid"
  "is_user (db\<lparr>db_orders := d\<rparr>) uid = is_user db uid"
  "is_user (db\<lparr>db_fulfillments := e\<rparr>) uid = is_user db uid"
  by (simp_all add: is_user_def)

lemma order_row_of_simps [simp]:
  "or_id (order_row_of draft) = ord_ID (draft_Order draft)"
  "or_checkout_id (order_row_of draft) = ord_CheckoutID (draft_Order draft)"
  "or_customer_id (order_row_of draft) = ord_CustomerID (draft_Order draft)"
  "or_checkout_fingerprint (order_row_of draft) = draft_CheckoutFingerprint draft"
  "or_status (order_row_of draft) = OrderSubmitted"
  by (simp_all add: order_row_of_def Let_def)

lemma insert_order_Inr:
  "insert_order draft db = Inr db' \<longleftrightarrow>
     order_check (order_row_of draft) \<and> (\<forall>x \<in> set (db_orders db). \<not> order_clash x (order_row_of draft)) \<and>
     is_user db (ord_CustomerID (draft_Order draft)) \<and> db' = db\<lparr>db_orders := db_orders db @ [order_row_of draft]\<rparr>"
  by (auto simp: insert_order_def insert_row_Inr)

lemma insert_operation_Inr:
  "insert_operation draft db = Inr db' \<longleftrightarrow>
     (\<forall>x \<in> set (db_operations db). \<not> operation_clash x (operation_row_of draft)) \<and>
     has_order db (ord_ID (draft_Order draft)) \<and>
     db' = db\<lparr>db_operations := db_operations db @ [operation_row_of draft]\<rparr>"
  by (auto simp: insert_operation_def insert_row_Inr operation_check_def operation_row_of_def)

lemma insert_outbox_Inr:
  "insert_outbox fmt_time draft db = Inr db' \<longleftrightarrow>
     (\<forall>x \<in> set (db_outbox db). \<not> outbox_clash x (outbox_row_of fmt_time draft)) \<and>
     has_order db (ord_ID (draft_Order draft)) \<and>
     db' = db\<lparr>db_outbox := db_outbox db @ [outbox_row_of fmt_time draft]\<rparr>"
  by (auto simp: insert_outbox_def insert_row_Inr outbox_check_def outbox_row_of_def)

lemma insert_audit_Inr:
  "insert_audit db r = Inr db' \<longleftrightarrow>
     audit_check r \<and> user_or_null db (au_actor r) \<and> db' = db\<lparr>db_audit := db_audit db @ [r]\<rparr>"
  by (auto simp: insert_audit_def insert_row_Inr user_or_null_def split: option.splits)

lemma insert_rest_Inr:
  "insert_rest fmt_time replies n draft db = Inr db' \<longleftrightarrow>
     (\<exists>db1 db2 db3. insert_lines replies n (ord_ID (draft_Order draft)) (ord_Lines (draft_Order draft)) db = Inr db1 \<and>
       replies (n + length (ord_Lines (draft_Order draft))) = Done \<and>
       insert_operation draft db1 = Inr db2 \<and>
       replies (n + length (ord_Lines (draft_Order draft)) + 1) = Done \<and>
       insert_outbox fmt_time draft db2 = Inr db3 \<and>
       replies (n + length (ord_Lines (draft_Order draft)) + 2) = Done \<and>
       insert_audit db3 (placed_audit draft) = Inr db')"
  unfolding insert_rest_def Let_def sum_bind_Inr stmt_Inr placed_audit_def by blast

lemma outbox_clash_row_of:
  "outbox_clash x (outbox_row_of fmt_time draft) \<longleftrightarrow> ob_event_id x = draft_EventID draft \<or>
     ob_operation_id x = draft_OperationID draft \<or> ob_order_id x = ord_ID (draft_Order draft)"
  by (simp add: outbox_clash_def outbox_row_of_def)

lemma replies_split:
  "(\<forall>i < n + 4. replies (k + i) = Done) \<longleftrightarrow>
     replies k = Done \<and> (\<forall>i < n. replies (Suc k + i) = Done) \<and> replies (Suc k + n) = Done \<and>
     replies (Suc k + n + 1) = Done \<and> replies (Suc k + n + 2) = Done"
proof -
  have "n + 4 = 1 + (n + 3)" by simp
  then show ?thesis
    by (simp only: All_less_add) (simp add: eval_nat_numeral All_less_Suc2)
qed

text \<open>The statements of a placement all run exactly when the rows satisfy every constraint.\<close>

lemma place_statements:
  "(\<exists>db0. exec (replies k) (insert_order draft db) = Inr db0 \<and>
      insert_rest fmt_time replies (Suc k) draft db0 = Inr db') \<longleftrightarrow>
   placeable draft db \<and> db' = placed_db fmt_time draft db \<and>
   (\<forall>i < length (ord_Lines (draft_Order draft)) + 4. replies (k + i) = Done)"
  unfolding replies_split insert_rest_Inr insert_lines_Inr Let_def insert_order_Inr insert_operation_Inr
    insert_outbox_Inr insert_audit_Inr exec_Inr placeable_def line_rows_def [symmetric] outbox_clash_row_of
    placed_db_def
  by (simp add: user_or_null_def placed_audit_def) blast

lemma PlaceOrder_effect:
  assumes "PlaceOrder fmt_time replies seen draft db = (res, db')"
  shows "(db' = db \<and> (\<forall>p. res = Inr p \<longrightarrow> placed_Replayed p)) \<or>
    (placeable draft db \<and> db' = placed_db fmt_time draft db \<and>
       res = Inr \<lparr>placed_Order = draft_Order draft, placed_Replayed = False\<rparr>) \<or>
    (placeable draft db \<and> (db' = db \<or> db' = placed_db fmt_time draft db) \<and>
       res = Inl (Wrapped ''commit place order''))"
proof (cases "findCheckout seen (ord_CheckoutID (draft_Order draft)) = None \<and> replies 0 = Done \<and> replies 1 = Done")
  case False
  then show ?thesis
    using assms by (auto simp: PlaceOrder_def Let_def settle_cases split: if_splits sum.splits option.splits
        dest!: settle_cases stmt_Inl)
next
  case True
  show ?thesis
  proof (cases "exec (replies 2) (insert_order draft db)")
    case (Inl k)
    then show ?thesis using True assms
      by (cases k) (auto simp: PlaceOrder_def Let_def checkoutAfterConflict_def
          split: if_splits sum.splits option.splits)
  next
    case ins: (Inr db0)
    show ?thesis
    proof (cases "insert_rest fmt_time replies 3 draft db0")
      case (Inl e)
      with ins True assms show ?thesis by (auto simp: PlaceOrder_def Let_def)
    next
      case (Inr db1)
      have "placeable draft db \<and> db1 = placed_db fmt_time draft db"
        using place_statements [of replies 2 draft db fmt_time db1] ins Inr by auto
      with ins Inr True assms show ?thesis
        by (auto simp: PlaceOrder_def Let_def dest!: settle_cases)
    qed
  qed
qed

lemma loadOrder_Done:
  assumes "\<forall>n. replies n = Done" and "select_order db oid cust cashier = Some order"
  shows "loadOrder replies n db oid cust cashier = Inr (order\<lparr>ord_Lines := select_lines db oid\<rparr>)"
  using assms by (simp add: loadOrder_def)

lemma loadOrder_Inr:
  "loadOrder replies n db oid cust cashier = Inr order \<longleftrightarrow>
     replies n = Done \<and> replies (Suc n) = Done \<and>
     (\<exists>o'. select_order db oid cust cashier = Some o' \<and> order = o'\<lparr>ord_Lines := select_lines db oid\<rparr>)"
  by (auto simp: loadOrder_def sum_bind_Inr split: sum.splits option.splits dest: stmt_Inl)

subsection \<open>Lookups\<close>

definition order_of :: "order_db \<Rightarrow> string \<Rightarrow> order_row option" where
  "order_of db oid = find (\<lambda>r. or_id r = oid) (db_orders db)"

definition operation_of :: "order_db \<Rightarrow> string \<Rightarrow> operation_row option" where
  "operation_of db oid = find (\<lambda>r. op_order_id r = oid) (db_operations db)"

definition outbox_of :: "order_db \<Rightarrow> string \<Rightarrow> outbox_row option" where
  "outbox_of db oid = find (\<lambda>b. ob_order_id b = oid) (db_outbox db)"

definition fulfillment_of :: "order_db \<Rightarrow> string \<Rightarrow> fulfillment_row option" where
  "fulfillment_of db oid = find (\<lambda>f. fr_order_id f = oid) (db_fulfillments db)"

lemmas lookups = order_of_def operation_of_def outbox_of_def fulfillment_of_def

lemma select_order_Some:
  "select_order db oid cust cashier = Some order \<longleftrightarrow>
     (\<exists>r u. order_of db oid = Some r \<and> find (\<lambda>u. ur_id u = or_customer_id r) (db_users db) = Some u \<and>
        (cust = [] \<or> or_customer_id r = cust) \<and>
        (cashier \<longrightarrow> or_status r = OrderConfirmed \<and> fulfillment_of db oid \<noteq> None) \<and>
        order = order_of_rows r u (fulfillment_of db oid) (operation_of db oid))"
proof (cases "order_of db oid")
  case None
  then show ?thesis by (simp add: select_order_def order_of_def)
next
  case (Some r)
  then have f: "find (\<lambda>r. or_id r = oid) (db_orders db) = Some r" and id: "or_id r = oid"
    by (auto simp: order_of_def dest: find_SomeD)
  show ?thesis
  proof (cases "find (\<lambda>u. ur_id u = or_customer_id r) (db_users db)")
    case None
    then show ?thesis using Some by (simp add: select_order_def f)
  next
    case u: (Some u)
    show ?thesis unfolding Some
      by (simp add: select_order_def f u Let_def id operation_of_def fulfillment_of_def) blast
  qed
qed

lemma find_user: "is_user db uid \<Longrightarrow> \<exists>u. find (\<lambda>u. ur_id u = uid) (db_users db) = Some u"
  unfolding is_user_def list_ex_iff by (cases "find (\<lambda>u. ur_id u = uid) (db_users db)") (auto dest: find_NoneD)

definition keys_ok :: "order_db \<Rightarrow> bool" where
  "keys_ok db \<longleftrightarrow>
     distinct (map or_id (db_orders db)) \<and> distinct (map or_checkout_id (db_orders db)) \<and>
     distinct (map op_operation_id (db_operations db)) \<and> distinct (map op_order_id (db_operations db)) \<and>
     distinct (map ob_event_id (db_outbox db)) \<and> distinct (map ob_operation_id (db_outbox db)) \<and>
     distinct (map ob_order_id (db_outbox db)) \<and> distinct (map fr_order_id (db_fulfillments db)) \<and>
     (\<forall>r \<in> set (db_orders db). is_user db (or_customer_id r))"

lemma order_of_mem: "keys_ok db \<Longrightarrow> r \<in> set (db_orders db) \<Longrightarrow> order_of db (or_id r) = Some r"
  unfolding order_of_def by (rule find_key_Some) (simp_all add: keys_ok_def)

lemma findCheckout_mem:
  "keys_ok db \<Longrightarrow> r \<in> set (db_orders db) \<Longrightarrow>
     findCheckout db (or_checkout_id r) = Some (or_id r, or_checkout_fingerprint r, or_customer_id r)"
  unfolding findCheckout_def by (subst find_key_Some) (simp_all add: keys_ok_def)

lemma PlaceOrder_idempotent_facts:
  assumes "keys_ok db" and "r \<in> set (db_orders db)"
    and "ord_CheckoutID (draft_Order draft) = or_checkout_id r"
    and "findCheckout seen (or_checkout_id r) \<in> {None, findCheckout db (or_checkout_id r)}"
    and "\<forall>n. replies n = Done" and "order_check (order_row_of draft)"
  shows "select_order db (or_id r) (or_customer_id r) False \<noteq> None"
    and "PlaceOrder fmt_time replies seen draft db =
    (if draft_CheckoutFingerprint draft = or_checkout_fingerprint r \<and>
        ord_CustomerID (draft_Order draft) = or_customer_id r
     then Inr \<lparr>placed_Order = (the (select_order db (or_id r) (or_customer_id r) False))
                  \<lparr>ord_Lines := select_lines db (or_id r)\<rparr>, placed_Replayed = True\<rparr>
     else Inl ErrCheckoutConflict, db)"
proof -
  let ?c = "(or_id r, or_checkout_fingerprint r, or_customer_id r)"
  have found: "findCheckout db (or_checkout_id r) = Some ?c"
    using assms(1,2) by (rule findCheckout_mem)
  have "is_user db (or_customer_id r)" using assms(1,2) by (auto simp: keys_ok_def)
  then obtain u where "find (\<lambda>u. ur_id u = or_customer_id r) (db_users db) = Some u" using find_user by blast
  then show "select_order db (or_id r) (or_customer_id r) False \<noteq> None"
    using order_of_mem [OF assms(1,2)] by (metis select_order_Some option.distinct(1))
  then have load: "loadOrder replies n db (or_id r) (or_customer_id r) False =
      Inr ((the (select_order db (or_id r) (or_customer_id r) False))\<lparr>ord_Lines := select_lines db (or_id r)\<rparr>)" for n
    using assms(5) by (auto intro!: loadOrder_Done)
  have "list_ex (\<lambda>x. order_clash x (order_row_of draft)) (db_orders db)"
    using assms(2,3) by (auto simp: list_ex_iff order_clash_def)
  then have ins: "insert_order draft db = Inl UniqueViolation"
    using assms(6) by (simp add: insert_order_def insert_row_def)
  show "PlaceOrder fmt_time replies seen draft db =
    (if draft_CheckoutFingerprint draft = or_checkout_fingerprint r \<and>
        ord_CustomerID (draft_Order draft) = or_customer_id r
     then Inr \<lparr>placed_Order = (the (select_order db (or_id r) (or_customer_id r) False))
                  \<lparr>ord_Lines := select_lines db (or_id r)\<rparr>, placed_Replayed = True\<rparr>
     else Inl ErrCheckoutConflict, db)"
    using assms(3-5) found load ins
    by (auto simp: PlaceOrder_def checkoutAfterConflict_def Let_def stmt_def)
qed

text \<open>
  C8: A checkout that is already stored is answered with the stored order and changes nothing,
  whether the transaction saw it at once or only ran into it at the insertion, and a second
  draft with other contents or another customer is refused as a conflict, in both cases too.
\<close>

theorem PlaceOrder_idempotent:
  assumes "keys_ok db" and "r \<in> set (db_orders db)"
    and "ord_CheckoutID (draft_Order draft) = or_checkout_id r"
    and "findCheckout seen (or_checkout_id r) \<in> {None, findCheckout db (or_checkout_id r)}"
    and "\<forall>n. replies n = Done" and "order_check (order_row_of draft)"
  shows "(select_order db (or_id r) (or_customer_id r) False \<noteq> None) \<and>
    (PlaceOrder fmt_time replies seen draft db =
    (if draft_CheckoutFingerprint draft = or_checkout_fingerprint r \<and>
        ord_CustomerID (draft_Order draft) = or_customer_id r
     then Inr \<lparr>placed_Order = (the (select_order db (or_id r) (or_customer_id r) False))
                  \<lparr>ord_Lines := select_lines db (or_id r)\<rparr>, placed_Replayed = True\<rparr>
     else Inl ErrCheckoutConflict, db))"
  using PlaceOrder_idempotent_facts(1) [OF assms] PlaceOrder_idempotent_facts(2) [OF assms] by blast

lemma PlaceOrder_atomic_facts:
  assumes "PlaceOrder fmt_time replies seen draft db = (res, db')"
  shows "db' = db \<or> (placeable draft db \<and> db' = placed_db fmt_time draft db)"
    and "res = Inr p \<Longrightarrow> \<not> placed_Replayed p \<Longrightarrow>
           db' = placed_db fmt_time draft db \<and> placed_Order p = draft_Order draft"
    and "res = Inl e \<Longrightarrow> e \<noteq> Wrapped ''commit place order'' \<Longrightarrow> db' = db"
    and "res = Inr p \<Longrightarrow> placed_Replayed p \<Longrightarrow> db' = db"
  using PlaceOrder_effect [OF assms] by auto

text \<open>
  C15: Placing an order is all or nothing: the tables are left alone, or gain the order with its
  lines, its pending inventory operation, its outbox event and its audit record together. A
  successful answer that is not a replay is the draft's own order, stored; every error but a
  failed commit leaves the tables alone.
\<close>

theorem PlaceOrder_atomic:
  assumes "PlaceOrder fmt_time replies seen draft db = (res, db')"
  shows "(db' = db \<or> (placeable draft db \<and> db' = placed_db fmt_time draft db)) \<and>
    (res = Inr p \<longrightarrow> \<not> placed_Replayed p \<longrightarrow>
           db' = placed_db fmt_time draft db \<and> placed_Order p = draft_Order draft) \<and>
    (res = Inl e \<longrightarrow> e \<noteq> Wrapped ''commit place order'' \<longrightarrow> db' = db) \<and>
    (res = Inr p \<longrightarrow> placed_Replayed p \<longrightarrow> db' = db)"
  using PlaceOrder_atomic_facts(1) [OF assms] PlaceOrder_atomic_facts(2) [OF assms] PlaceOrder_atomic_facts(3) [OF assms] PlaceOrder_atomic_facts(4) [OF assms] by blast

section \<open>Stages\<close>

datatype stage = Absent | Awaiting | Preparing | Delivering | Delivered | Rejected

definition linked :: "operation_row \<Rightarrow> outbox_row \<Rightarrow> bool" where
  "linked io b \<longleftrightarrow> ob_operation_id b = op_operation_id io \<and> wr_EventID (ob_payload b) = ob_event_id b \<and>
     wr_OperationID (ob_payload b) = ob_operation_id b \<and> wr_OrderID (ob_payload b) = ob_order_id b"

text \<open>
  The stage of an order, from its rows in the four tables; \<open>None\<close> when they contradict each
  other: an order without its operation or event, a confirmed order without a fulfilment, a
  decided operation whose event is still to be sent, and so on.
\<close>

definition stage_of_rows ::
    "order_row option \<Rightarrow> operation_row option \<Rightarrow> outbox_row option \<Rightarrow> fulfillment_row option \<Rightarrow> stage option" where
  "stage_of_rows ord io outbox ful =
     (case (ord, io, outbox) of
        (None, None, None) \<Rightarrow> if ful = None then Some Absent else None
      | (Some r, Some io, Some b) \<Rightarrow>
          if \<not> linked io b then None
          else if or_status r = OrderSubmitted \<and> op_result_status io = InventoryPending \<and>
                  ob_published_at b = None \<and> ful = None
          then Some Awaiting
          else if or_status r = OrderRejected \<and> op_result_status io = InventoryItemsUnavailable \<and>
                  ob_published_at b \<noteq> None \<and> ful = None
          then Some Rejected
          else if or_status r = OrderConfirmed \<and> op_result_status io = InventoryCommitted \<and>
                  ob_published_at b \<noteq> None
          then (case ful of
                  None \<Rightarrow> None
                | Some f \<Rightarrow>
                    (case fr_status f of
                       FulfillmentPreparing \<Rightarrow> Some Preparing
                     | FulfillmentDelivering \<Rightarrow> Some Delivering
                     | FulfillmentDelivered \<Rightarrow> Some Delivered
                     | FulfillmentOther _ \<Rightarrow> None))
          else None
      | _ \<Rightarrow> None)"

definition stage_of :: "order_db \<Rightarrow> string \<Rightarrow> stage option" where
  "stage_of db oid = stage_of_rows (order_of db oid) (operation_of db oid) (outbox_of db oid) (fulfillment_of db oid)"

definition coherent :: "order_db \<Rightarrow> bool" where
  "coherent db \<longleftrightarrow> keys_ok db \<and> (\<forall>oid. stage_of db oid \<noteq> None)"

text \<open>The abstract machine.\<close>

inductive stage_step :: "stage \<Rightarrow> stage \<Rightarrow> bool" where
  place: "stage_step Absent Awaiting"
| confirm: "stage_step Awaiting Preparing"
| reject: "stage_step Awaiting Rejected"
| dispatch: "stage_step Preparing Delivering"
| deliver: "stage_step Delivering Delivered"

inductive_simps stage_step_simps [simp]:
  "stage_step Absent s" "stage_step Awaiting s" "stage_step Preparing s" "stage_step Delivering s"
  "stage_step Delivered s" "stage_step Rejected s"

section \<open>Effects of the later operations\<close>

lemma update_fulfillments_Inr:
  "update_fulfillments P f db = Inr (db', n) \<longleftrightarrow>
     (\<forall>r \<in> set (db_fulfillments db). P r \<longrightarrow> fulfillment_check (f r) \<and> user_or_null db (fr_read_by (f r)) \<and>
        user_or_null db (fr_updated_by (f r))) \<and>
     db' = db\<lparr>db_fulfillments := update_where P f (db_fulfillments db)\<rparr> \<and> n = affected P (db_fulfillments db)"
  by (auto simp: update_fulfillments_def update_rows_Inr)

lemma MarkCashierRead_effect:
  assumes "MarkCashierRead replies cashierID orderID now db = (res, db')"
  shows "db' = db \<or> (\<exists>audit.
    db' = db\<lparr>db_fulfillments := update_where
        (\<lambda>f. fr_order_id f = orderID \<and> confirmed db (fr_order_id f) \<and> fr_read_at f = None)
        (\<lambda>f. f\<lparr>fr_read_at := Some now, fr_read_by := Some cashierID\<rparr>) (db_fulfillments db),
      db_audit := audit\<rparr>)"
proof -
  have "\<exists>audit. new = db\<lparr>db_fulfillments := update_where
        (\<lambda>f. fr_order_id f = orderID \<and> confirmed db (fr_order_id f) \<and> fr_read_at f = None)
        (\<lambda>f. f\<lparr>fr_read_at := Some now, fr_read_by := Some cashierID\<rparr>) (db_fulfillments db),
      db_audit := audit\<rparr>"
    if "mark_read_body replies cashierID orderID now db = Inr (v, new, n)" for v new n
  proof -
    from that obtain db1 rows where
      "update_fulfillments (\<lambda>f. fr_order_id f = orderID \<and> confirmed db (fr_order_id f) \<and> fr_read_at f = None)
        (\<lambda>f. f\<lparr>fr_read_at := Some now, fr_read_by := Some cashierID\<rparr>) db = Inr (db1, rows)"
      "new = db1 \<or> (\<exists>r. insert_audit db1 r = Inr new)"
      by (auto simp: mark_read_body_def sum_bind_Inr Let_def split: if_splits)
    then show ?thesis
      by (cases db) (auto simp: update_fulfillments_Inr insert_audit_Inr)
  qed
  then show ?thesis
    using in_tx_cases [OF assms [unfolded MarkCashierRead_def]] by blast
qed

definition advanced_row :: "string \<Rightarrow> FulfillmentStatus \<Rightarrow> int \<Rightarrow> fulfillment_row \<Rightarrow> fulfillment_row" where
  "advanced_row cashierID target now f =
     (let g = f\<lparr>fr_status := target, fr_version := fr_version f + 1, fr_updated_by := Some cashierID\<rparr> in
      if target = FulfillmentDelivering then g\<lparr>fr_delivering_at := Some now\<rparr>
      else g\<lparr>fr_delivered_at := Some now\<rparr>)"

definition advanced_db ::
    "string \<Rightarrow> string \<Rightarrow> FulfillmentStatus \<Rightarrow> FulfillmentStatus \<Rightarrow> int \<Rightarrow> audit_row list \<Rightarrow> order_db \<Rightarrow> order_db" where
  "advanced_db cashierID orderID current target now audit db =
     db\<lparr>db_fulfillments := update_where (\<lambda>f. fr_order_id f = orderID \<and> fr_status f = current)
          (advanced_row cashierID target now) (db_fulfillments db), db_audit := audit\<rparr>"

lemma advance_update_next:
  assumes "target = NextAction current" and "current \<in> {FulfillmentPreparing, FulfillmentDelivering}"
  shows "advance_update cashierID orderID target now db =
    update_fulfillments (\<lambda>f. fr_order_id f = orderID \<and> fr_status f = current)
      (advanced_row cashierID target now) db"
proof -
  have "advanced_row cashierID FulfillmentDelivering now =
      (\<lambda>f. f\<lparr>fr_status := FulfillmentDelivering, fr_version := fr_version f + 1,
              fr_delivering_at := Some now, fr_updated_by := Some cashierID\<rparr>)"
    and "advanced_row cashierID FulfillmentDelivered now =
      (\<lambda>f. f\<lparr>fr_status := FulfillmentDelivered, fr_version := fr_version f + 1,
              fr_delivered_at := Some now, fr_updated_by := Some cashierID\<rparr>)"
    by (simp_all add: advanced_row_def Let_def fun_eq_iff)
  then show ?thesis using assms by (auto simp: advance_update_def NextAction_def)
qed

lemma AdvanceFulfillment_effect:
  assumes "AdvanceFulfillment replies cashierID orderID target now db = (res, db')"
  shows "db' = db \<or> (\<exists>f audit. confirmed db orderID \<and> fulfillment_of db orderID = Some f \<and>
    fr_status f \<in> {FulfillmentPreparing, FulfillmentDelivering} \<and> target = NextAction (fr_status f) \<and>
    db' = advanced_db cashierID orderID (fr_status f) target now audit db)"
proof -
  have "new = db \<or> (\<exists>f audit. confirmed db orderID \<and> fulfillment_of db orderID = Some f \<and>
    fr_status f \<in> {FulfillmentPreparing, FulfillmentDelivering} \<and> target = NextAction (fr_status f) \<and>
    new = advanced_db cashierID orderID (fr_status f) target now audit db)"
    if body: "advance_body replies cashierID orderID target now db = Inr (v, new, n)" for v new n
  proof -
    from body obtain f where f: "confirmed db orderID" "fulfillment_of db orderID = Some f"
      "ValidateFulfillmentTarget (fr_status f) target = None"
      "fr_status f = target \<longrightarrow> new = db"
      "fr_status f \<noteq> target \<longrightarrow> (\<exists>db1 r. advance_update cashierID orderID target now db = Inr (db1, 1) \<and>
         insert_audit db1 r = Inr new)"
      by (auto simp: advance_body_def sum_bind_Inr fulfillment_of_def split: if_splits option.splits sum.splits
          dest!: stmt_Inl)
    show ?thesis
    proof (cases "fr_status f = target")
      case False
      with f(3) have nxt: "target = NextAction (fr_status f)"
        "fr_status f \<in> {FulfillmentPreparing, FulfillmentDelivering}"
        by (auto simp: ValidateFulfillmentTarget_None)
      from f(5) False obtain db1 r where "advance_update cashierID orderID target now db = Inr (db1, 1)"
        "insert_audit db1 r = Inr new" by blast
      then have "new = advanced_db cashierID orderID (fr_status f) target now (db_audit db @ [r]) db"
        using advance_update_next [OF nxt] by (simp add: update_fulfillments_Inr insert_audit_Inr advanced_db_def)
      with f(1,2) nxt show ?thesis by blast
    qed (use f in blast)
  qed
  then show ?thesis
    using in_tx_cases [OF assms [unfolded AdvanceFulfillment_def]] by blast
qed

lemma ClaimInventoryWork_effect:
  assumes "ClaimInventoryWork parse_time busy token arrange reply now leaseTimeout batchSize db = (res, db')"
  shows "db' = db \<or> (let chosen = claim_candidates busy now leaseTimeout batchSize (db_outbox db) in
    db' = db\<lparr>db_outbox := update_where (\<lambda>b. ob_event_id b \<in> set (map ob_event_id chosen)) (claim_row token now)
      (db_outbox db)\<rparr>)"
  using assms by (auto simp: ClaimInventoryWork_def Let_def update_rows_Inr split: sum.splits prod.splits
      dest!: settle_cases)

lemma RetryInventoryWork_effect:
  assumes "RetryInventoryWork reply claimed nextAttemptAt errorCode db = (res, db')"
  shows "db' = db \<or> db' = db\<lparr>db_outbox := update_where
      (\<lambda>b. ob_event_id b = com_EventID (clm_Commit claimed) \<and>
         ob_claim_token b = Some (clm_ClaimToken claimed) \<and> ob_published_at b = None)
      (\<lambda>b. b\<lparr>ob_locked_at := None, ob_claim_token := None, ob_next_attempt_at := nextAttemptAt,
               ob_last_error_code := Some errorCode\<rparr>) (db_outbox db)\<rparr>"
  using assms by (auto simp: RetryInventoryWork_def Let_def update_rows_Inr split: sum.splits prod.splits
      dest!: settle_cases)

subsection \<open>Inventory results\<close>

definition decided_operation :: "InventoryResult \<Rightarrow> operation_row \<Rightarrow> operation_row" where
  "decided_operation result r =
     (if res_Status result = InventoryCommitted
      then r\<lparr>op_result_status := InventoryCommitted, op_result_event_id := Some (res_EventID result),
             op_completed_at := Some (res_OccurredAt result)\<rparr>
      else r\<lparr>op_result_status := InventoryItemsUnavailable, op_result_event_id := Some (res_EventID result),
             op_unavailable_items := Some (marshal_items (res_UnavailableItems result)),
             op_completed_at := Some (res_OccurredAt result)\<rparr>)"

definition decided_order :: "int \<Rightarrow> InventoryResult \<Rightarrow> order_row \<Rightarrow> order_row" where
  "decided_order dbnow result r =
     (if res_Status result = InventoryCommitted
      then r\<lparr>or_status := OrderConfirmed, or_rejection_code := None, or_updated_at := dbnow\<rparr>
      else r\<lparr>or_status := OrderRejected, or_rejection_code := Some RejectionItemsUnavailable,
             or_updated_at := dbnow\<rparr>)"

definition new_fulfillment :: "InventoryResult \<Rightarrow> fulfillment_row" where
  "new_fulfillment result =
     \<lparr>fr_order_id = res_OrderID result, fr_status = FulfillmentPreparing, fr_version = 1,
      fr_preparing_at = res_OccurredAt result, fr_delivering_at = None, fr_delivered_at = None,
      fr_read_at = None, fr_read_by = None, fr_updated_by = None\<rparr>"

definition held :: "ClaimedInventoryWork \<Rightarrow> outbox_row \<Rightarrow> bool" where
  "held claimed b \<longleftrightarrow> ob_event_id b = com_EventID (clm_Commit claimed) \<and>
     ob_claim_token b = Some (clm_ClaimToken claimed) \<and> ob_published_at b = None"

definition published_row :: "int \<Rightarrow> outbox_row \<Rightarrow> outbox_row" where
  "published_row now b =
     b\<lparr>ob_published_at := Some now, ob_locked_at := None, ob_claim_token := None, ob_last_error_code := None\<rparr>"

definition applied_db ::
    "int \<Rightarrow> ClaimedInventoryWork \<Rightarrow> InventoryResult \<Rightarrow> int \<Rightarrow> audit_row list \<Rightarrow> order_db \<Rightarrow> order_db" where
  "applied_db dbnow claimed result now audit db =
     db\<lparr>db_operations := update_where (\<lambda>r. op_operation_id r = res_OperationID result \<and>
            op_result_status r = InventoryPending) (decided_operation result) (db_operations db),
        db_orders := update_where (\<lambda>r. or_id r = res_OrderID result \<and> or_status r = OrderSubmitted)
            (decided_order dbnow result) (db_orders db),
        db_fulfillments := db_fulfillments db @
            (if res_Status result = InventoryCommitted then [new_fulfillment result] else []),
        db_outbox := update_where (held claimed) (published_row now) (db_outbox db),
        db_audit := audit\<rparr>"

text \<open>What has to hold of the tables and the arguments for a result to be applied.\<close>

definition applicable :: "ClaimedInventoryWork \<Rightarrow> InventoryResult \<Rightarrow> order_db \<Rightarrow> bool" where
  "applicable claimed result db \<longleftrightarrow>
     res_OperationID result = com_OperationID (clm_Commit claimed) \<and>
     res_OrderID result = com_OrderID (clm_Commit claimed) \<and>
     res_Status result \<in> {InventoryCommitted, InventoryItemsUnavailable} \<and>
     (\<exists>io b. find (\<lambda>r. op_operation_id r = res_OperationID result \<and> op_order_id r = res_OrderID result)
           (db_operations db) = Some io \<and> op_result_status io = InventoryPending \<and>
        find (\<lambda>b. ob_operation_id b = op_operation_id io) (db_outbox db) = Some b \<and>
        ob_published_at b = None \<and> ob_claim_token b = Some (clm_ClaimToken claimed)) \<and>
     affected (\<lambda>r. or_id r = res_OrderID result \<and> or_status r = OrderSubmitted) (db_orders db) = 1 \<and>
     affected (held claimed) (db_outbox db) = 1 \<and>
     (res_Status result = InventoryCommitted \<longrightarrow>
        (\<forall>f \<in> set (db_fulfillments db). fr_order_id f \<noteq> res_OrderID result) \<and>
        has_order db (res_OrderID result)) \<and>
     (res_Status result = InventoryItemsUnavailable \<longrightarrow> res_UnavailableItems result \<noteq> [])"

lemma update_operation_Inr:
  "update_operation operationID f db = Inr (db', n) \<Longrightarrow>
     (\<forall>r \<in> set (db_operations db). op_operation_id r = operationID \<and> op_result_status r = InventoryPending \<longrightarrow>
        operation_check (f r)) \<and>
     db' = db\<lparr>db_operations := update_where (\<lambda>r. op_operation_id r = operationID \<and>
        op_result_status r = InventoryPending) f (db_operations db)\<rparr> \<and>
     n = affected (\<lambda>r. op_operation_id r = operationID \<and> op_result_status r = InventoryPending) (db_operations db)"
  by (auto simp: update_operation_def Let_def update_rows_Inr split: if_splits)

lemma update_submitted_Inr:
  "update_submitted dbnow orderID status code db = Inr (db', n) \<longleftrightarrow>
     (\<forall>r \<in> set (db_orders db). or_id r = orderID \<and> or_status r = OrderSubmitted \<longrightarrow>
        order_check (r\<lparr>or_status := status, or_rejection_code := code, or_updated_at := dbnow\<rparr>)) \<and>
     db' = db\<lparr>db_orders := update_where (\<lambda>r. or_id r = orderID \<and> or_status r = OrderSubmitted)
        (\<lambda>r. r\<lparr>or_status := status, or_rejection_code := code, or_updated_at := dbnow\<rparr>) (db_orders db)\<rparr> \<and>
     n = affected (\<lambda>r. or_id r = orderID \<and> or_status r = OrderSubmitted) (db_orders db)"
  by (auto simp: update_submitted_def update_rows_Inr)

lemma insert_fulfillment_Inr:
  "insert_fulfillment (res_OrderID result) (res_OccurredAt result) db = Inr db' \<longleftrightarrow>
     (\<forall>f \<in> set (db_fulfillments db). fr_order_id f \<noteq> res_OrderID result) \<and> has_order db (res_OrderID result) \<and>
     db' = db\<lparr>db_fulfillments := db_fulfillments db @ [new_fulfillment result]\<rparr>"
  by (auto simp: insert_fulfillment_def insert_row_Inr new_fulfillment_def fulfillment_check_def)

lemma publish_outbox_Inr:
  "publish_outbox claimed now db = Inr (db', n) \<Longrightarrow>
     db' = db\<lparr>db_outbox := update_where (held claimed) (published_row now) (db_outbox db)\<rparr> \<and>
     n = affected (held claimed) (db_outbox db)"
  by (auto simp: publish_outbox_def update_rows_Inr held_def [abs_def] published_row_def [abs_def])

lemma has_order_update [simp]:
  "(\<And>r. or_id (f r) = or_id r) \<Longrightarrow> has_order (db\<lparr>db_orders := update_where P f (db_orders db)\<rparr>) oid = has_order db oid"
  by (auto simp: has_order_def list_ex_iff set_update_where)

lemma decided_operation_eq:
  "res_Status result = InventoryCommitted \<Longrightarrow> decided_operation result =
     (\<lambda>r. r\<lparr>op_result_status := InventoryCommitted, op_result_event_id := Some (res_EventID result),
             op_completed_at := Some (res_OccurredAt result)\<rparr>)"
  "res_Status result \<noteq> InventoryCommitted \<Longrightarrow> decided_operation result =
     (\<lambda>r. r\<lparr>op_result_status := InventoryItemsUnavailable, op_result_event_id := Some (res_EventID result),
             op_unavailable_items := Some (marshal_items (res_UnavailableItems result)),
             op_completed_at := Some (res_OccurredAt result)\<rparr>)"
  by (simp_all add: decided_operation_def fun_eq_iff)

lemma decided_order_eq:
  "res_Status result = InventoryCommitted \<Longrightarrow> decided_order dbnow result =
     (\<lambda>r. r\<lparr>or_status := OrderConfirmed, or_rejection_code := None, or_updated_at := dbnow\<rparr>)"
  "res_Status result \<noteq> InventoryCommitted \<Longrightarrow> decided_order dbnow result =
     (\<lambda>r. r\<lparr>or_status := OrderRejected, or_rejection_code := Some RejectionItemsUnavailable,
             or_updated_at := dbnow\<rparr>)"
  by (simp_all add: decided_order_def fun_eq_iff)

definition business_db :: "int \<Rightarrow> InventoryResult \<Rightarrow> order_db \<Rightarrow> order_db" where
  "business_db dbnow result db =
     db\<lparr>db_operations := update_where (\<lambda>r. op_operation_id r = res_OperationID result \<and>
            op_result_status r = InventoryPending) (decided_operation result) (db_operations db),
        db_orders := update_where (\<lambda>r. or_id r = res_OrderID result \<and> or_status r = OrderSubmitted)
            (decided_order dbnow result) (db_orders db),
        db_fulfillments := db_fulfillments db @
            (if res_Status result = InventoryCommitted then [new_fulfillment result] else [])\<rparr>"

lemma apply_business_1:
  assumes "apply_business dbnow replies result db = Inr (db', 1, n)"
  shows "db' = business_db dbnow result db" (is ?db)
    and "affected (\<lambda>r. or_id r = res_OrderID result \<and> or_status r = OrderSubmitted) (db_orders db) = 1" (is ?orders)
    and "affected (\<lambda>r. op_operation_id r = res_OperationID result \<and> op_result_status r = InventoryPending)
           (db_operations db) = 1" (is ?ops)
    and "\<forall>r \<in> set (db_operations db). op_operation_id r = res_OperationID result \<and>
           op_result_status r = InventoryPending \<longrightarrow> operation_check (decided_operation result r)" (is ?check)
    and "res_Status result = InventoryCommitted \<Longrightarrow>
           (\<forall>f \<in> set (db_fulfillments db). fr_order_id f \<noteq> res_OrderID result) \<and>
           has_order db (res_OrderID result)" (is "_ \<Longrightarrow> ?ful")
proof -
  have "?db \<and> ?orders \<and> ?ops \<and> ?check \<and> (res_Status result = InventoryCommitted \<longrightarrow> ?ful)"
  proof (cases "res_Status result = InventoryCommitted")
    case True
    note eqs = decided_operation_eq(1) [OF True] decided_order_eq(1) [OF True]
    from assms True obtain db1 db2 where
      "update_operation (res_OperationID result) (decided_operation result) db = Inr (db1, 1)"
      "update_submitted dbnow (res_OrderID result) OrderConfirmed None db1 = Inr (db2, 1)"
      "insert_fulfillment (res_OrderID result) (res_OccurredAt result) db2 = Inr db'"
      by (auto simp: apply_business_def sum_bind_Inr Let_def eqs split: if_splits)
    then show ?thesis
      by (auto dest!: update_operation_Inr simp: update_submitted_Inr insert_fulfillment_Inr business_db_def True eqs(2)
          simp del: One_nat_def)
  next
    case False
    note eqs = decided_operation_eq(2) [OF False] decided_order_eq(2) [OF False]
    from assms False obtain db1 where
      "update_operation (res_OperationID result) (decided_operation result) db = Inr (db1, 1)"
      "update_submitted dbnow (res_OrderID result) OrderRejected (Some RejectionItemsUnavailable) db1 = Inr (db', 1)"
      by (auto simp: apply_business_def sum_bind_Inr Let_def eqs split: if_splits)
    then show ?thesis
      by (auto dest!: update_operation_Inr simp: update_submitted_Inr business_db_def False eqs(2)
          simp del: One_nat_def)
  qed
  then show ?db ?orders ?ops ?check "res_Status result = InventoryCommitted \<Longrightarrow> ?ful" by blast+
qed

lemma apply_pending_Inr:
  assumes "apply_pending dbnow replies claimed result now db = Inr (v, db', n)"
    and "find (\<lambda>r. op_operation_id r = res_OperationID result \<and> op_order_id r = res_OrderID result)
           (db_operations db) = Some io" and "op_result_status io = InventoryPending"
  shows "\<exists>audit. db' = applied_db dbnow claimed result now audit db"
    and "affected (\<lambda>r. or_id r = res_OrderID result \<and> or_status r = OrderSubmitted) (db_orders db) = 1"
    and "affected (held claimed) (db_outbox db) = 1"
    and "res_Status result = InventoryCommitted \<Longrightarrow>
           (\<forall>f \<in> set (db_fulfillments db). fr_order_id f \<noteq> res_OrderID result) \<and> has_order db (res_OrderID result)"
    and "res_Status result = InventoryItemsUnavailable \<Longrightarrow> res_UnavailableItems result \<noteq> []"
proof -
  from assms(1) obtain db1 m db2 r where
    b: "apply_business dbnow replies result db = Inr (db1, 1, m)" and
    a: "insert_audit db1 r = Inr db2" and p: "publish_outbox claimed now db2 = Inr (db', 1)"
    by (auto simp: apply_pending_def sum_bind_Inr split: if_splits)
  note b1 = apply_business_1 [OF b]
  have db2: "db2 = db1\<lparr>db_audit := db_audit db1 @ [r]\<rparr>" using a by (simp add: insert_audit_Inr)
  have p1: "db' = db2\<lparr>db_outbox := update_where (held claimed) (published_row now) (db_outbox db2)\<rparr>"
    "1 = affected (held claimed) (db_outbox db2)" using publish_outbox_Inr [OF p] by auto
  have "db' = applied_db dbnow claimed result now (db_audit db @ [r]) db"
    by (simp add: p1(1) db2 b1(1) business_db_def applied_db_def)
  then show "\<exists>audit. db' = applied_db dbnow claimed result now audit db" ..
  show "affected (\<lambda>r. or_id r = res_OrderID result \<and> or_status r = OrderSubmitted) (db_orders db) = 1"
    by (rule b1(2))
  show "affected (held claimed) (db_outbox db) = 1"
    using p1(2) by (simp add: db2 b1(1) business_db_def)
  show "res_Status result = InventoryCommitted \<Longrightarrow>
      (\<forall>f \<in> set (db_fulfillments db). fr_order_id f \<noteq> res_OrderID result) \<and> has_order db (res_OrderID result)"
    by (rule b1(5))
  from find_SomeD [OF assms(2)] assms(3) b1(4) have "operation_check (decided_operation result io)" by blast
  then show "res_Status result = InventoryItemsUnavailable \<Longrightarrow> res_UnavailableItems result \<noteq> []"
    by (auto simp: operation_check_def decided_operation_def is_array_def marshal_items_def)
qed

lemma ApplyInventoryResult_effect:
  assumes "ApplyInventoryResult dbnow replies claimed result now db = (res, db')"
  shows "db' = db \<or> (applicable claimed result db \<and>
    (\<exists>audit. db' = applied_db dbnow claimed result now audit db))"
proof -
  have "new = db \<or> (applicable claimed result db \<and> (\<exists>audit. new = applied_db dbnow claimed result now audit db))"
    if body: "apply_body dbnow replies claimed result now db = Inr (v, new, n)"
      and args: "res_OperationID result = com_OperationID (clm_Commit claimed)"
        "res_OrderID result = com_OrderID (clm_Commit claimed)"
        "res_Status result \<in> {InventoryCommitted, InventoryItemsUnavailable}" for v new n
  proof (cases "new = db")
    case False
    from body False obtain io b where f: "find (\<lambda>r. op_operation_id r = res_OperationID result \<and>
          op_order_id r = res_OrderID result) (db_operations db) = Some io"
      "find (\<lambda>b. ob_operation_id b = op_operation_id io) (db_outbox db) = Some b"
      "op_result_status io = InventoryPending" "ob_published_at b = None"
      "ob_claim_token b = Some (clm_ClaimToken claimed)"
      and pend: "apply_pending dbnow replies claimed result now db = Inr (v, new, n)"
      by (auto simp: apply_body_def split: sum.splits option.splits if_splits dest!: stmt_Inl)
    from f args apply_pending_Inr [OF pend f(1,3)] show ?thesis
      by (auto simp: applicable_def)
  qed simp
  then show ?thesis
    using assms in_tx_cases [of "replies 0" _ replies _ db "apply_body dbnow replies claimed result now db" res db']
    by (auto simp: ApplyInventoryResult_def split: if_splits) blast+
qed

section \<open>Refinement of the abstract machine\<close>

text \<open>
  Work the worker holds comes from a row of the outbox (\<open>ClaimInventoryWork\<close> made it, see
  \<open>scan_claimed_genuine\<close>).
\<close>

definition genuine :: "order_db \<Rightarrow> ClaimedInventoryWork \<Rightarrow> bool" where
  "genuine db claimed \<longleftrightarrow>
     list_ex (\<lambda>b. ob_event_id b = com_EventID (clm_Commit claimed) \<and>
       ob_operation_id b = com_OperationID (clm_Commit claimed) \<and>
       ob_order_id b = com_OrderID (clm_Commit claimed)) (db_outbox db)"

inductive order_step :: "order_db \<Rightarrow> order_db \<Rightarrow> bool" where
  register: "order_step db (db\<lparr>db_users := db_users db @ [u]\<rparr>)"
| place: "PlaceOrder fmt_time replies seen draft db = (res1, db') \<Longrightarrow> order_step db db'"
| read: "MarkCashierRead replies cashierID orderID now db = (res2, db') \<Longrightarrow> order_step db db'"
| advance: "AdvanceFulfillment replies cashierID orderID target now db = (res2, db') \<Longrightarrow> order_step db db'"
| claim: "ClaimInventoryWork parse_time busy token arrange reply now leaseTimeout batchSize db = (res3, db') \<Longrightarrow>
    order_step db db'"
| retry: "RetryInventoryWork reply claimed next_at errorCode db = (res4, db') \<Longrightarrow> order_step db db'"
| applied: "genuine db claimed \<Longrightarrow> ApplyInventoryResult dbnow replies claimed result now db = (res4, db') \<Longrightarrow>
    order_step db db'"

definition empty_db :: "user_row list \<Rightarrow> order_db" where
  "empty_db users = \<lparr>db_users = users, db_orders = [], db_lines = [], db_fulfillments = [],
     db_operations = [], db_outbox = [], db_audit = []\<rparr>"

inductive reachable :: "order_db \<Rightarrow> bool" where
  start: "reachable (empty_db users)"
| step: "reachable db \<Longrightarrow> order_step db db' \<Longrightarrow> reachable db'"

definition advances :: "order_db \<Rightarrow> order_db \<Rightarrow> bool" where
  "advances db db' \<longleftrightarrow> (\<forall>oid. \<exists>s s'. stage_of db oid = Some s \<and> stage_of db' oid = Some s' \<and>
     (s' = s \<or> stage_step s s'))"

lemma stage_of_rows_cong:
  assumes "map_option or_status a = map_option or_status a'"
    and "map_option (\<lambda>io. (op_operation_id io, op_result_status io)) b =
         map_option (\<lambda>io. (op_operation_id io, op_result_status io)) b'"
    and "map_option (\<lambda>b. (ob_event_id b, ob_operation_id b, ob_order_id b, ob_payload b, ob_published_at b = None)) c =
         map_option (\<lambda>b. (ob_event_id b, ob_operation_id b, ob_order_id b, ob_payload b, ob_published_at b = None)) c'"
    and "map_option fr_status d = map_option fr_status d'"
  shows "stage_of_rows a b c d = stage_of_rows a' b' c' d'"
  using assms by (cases a; cases a'; cases b; cases b'; cases c; cases c'; cases d; cases d')
    (auto simp: stage_of_rows_def linked_def)

lemma stage_of_rows_absent:
  "stage_of_rows None b c d = Some s \<Longrightarrow> s = Absent \<and> b = None \<and> c = None \<and> d = None"
  by (cases b; cases c) (auto simp: stage_of_rows_def split: if_splits)

lemma coherent_keys: "coherent db \<Longrightarrow> keys_ok db"
  by (simp add: coherent_def)

lemma coherent_stage: "coherent db \<Longrightarrow> \<exists>s. stage_of db oid = Some s"
  by (simp add: coherent_def)

lemma advances_same:
  assumes "coherent db" and "\<And>oid. stage_of db' oid = stage_of db oid"
  shows "advances db db'"
  using assms coherent_stage unfolding advances_def by metis

lemma advances_one:
  assumes "coherent db" and "\<And>x. x \<noteq> oid \<Longrightarrow> stage_of db' x = stage_of db x"
    and "stage_of db oid = Some s" "stage_of db' oid = Some s'" "s' = s \<or> stage_step s s'"
  shows "advances db db'"
  unfolding advances_def
proof
  fix x
  show "\<exists>s s'. stage_of db x = Some s \<and> stage_of db' x = Some s' \<and> (s' = s \<or> stage_step s s')"
    using assms coherent_stage [OF assms(1), of x] by (cases "x = oid") auto
qed

lemma advances_coherent: "keys_ok db' \<Longrightarrow> advances db db' \<Longrightarrow> coherent db'"
  by (fastforce simp: coherent_def advances_def)

lemma is_user_append [simp]:
  "is_user (db\<lparr>db_users := db_users db @ us\<rparr>) uid \<longleftrightarrow> is_user db uid \<or> list_ex (\<lambda>u. ur_id u = uid) us"
  by (simp add: is_user_def)

lemma is_user_audit [simp]: "is_user (db\<lparr>db_audit := a\<rparr>) uid = is_user db uid"
  by (simp add: is_user_def)

subsection \<open>Placing\<close>

lemma placed_lookups:
  assumes "placeable draft db"
  shows "order_of (placed_db fmt_time draft db) oid =
      (if oid = ord_ID (draft_Order draft) then Some (order_row_of draft) else order_of db oid)"
    and "outbox_of (placed_db fmt_time draft db) oid =
      (if oid = ord_ID (draft_Order draft) then Some (outbox_row_of fmt_time draft) else outbox_of db oid)"
    and "operation_of (placed_db fmt_time draft db) oid =
      (if oid = ord_ID (draft_Order draft) then Some (operation_row_of draft) else operation_of db oid)"
    and "fulfillment_of (placed_db fmt_time draft db) oid = fulfillment_of db oid"
proof -
  have "order_of db (ord_ID (draft_Order draft)) = None" "outbox_of db (ord_ID (draft_Order draft)) = None"
    "operation_of db (ord_ID (draft_Order draft)) = None"
    using assms by (auto simp: lookups placeable_def order_clash_def operation_clash_def operation_row_of_def
        find_None_iff)
  then show "order_of (placed_db fmt_time draft db) oid =
      (if oid = ord_ID (draft_Order draft) then Some (order_row_of draft) else order_of db oid)"
    "outbox_of (placed_db fmt_time draft db) oid =
      (if oid = ord_ID (draft_Order draft) then Some (outbox_row_of fmt_time draft) else outbox_of db oid)"
    "operation_of (placed_db fmt_time draft db) oid =
      (if oid = ord_ID (draft_Order draft) then Some (operation_row_of draft) else operation_of db oid)"
    "fulfillment_of (placed_db fmt_time draft db) oid = fulfillment_of db oid"
    by (auto simp: lookups placed_db_def row_simps outbox_row_of_def operation_row_of_def split: option.splits)
qed

lemma placed_keys:
  assumes "keys_ok db" and "placeable draft db"
  shows "keys_ok (placed_db fmt_time draft db)"
  using assms unfolding keys_ok_def placeable_def placed_db_def
  by (auto simp: order_clash_def operation_clash_def operation_row_of_def outbox_row_of_def is_user_def)

lemma placed_advances:
  assumes "coherent db" and "placeable draft db"
  shows "advances db (placed_db fmt_time draft db)"
proof -
  let ?oid = "ord_ID (draft_Order draft)"
  note look = placed_lookups [OF assms(2), of fmt_time]
  have none: "order_of db ?oid = None"
    using assms(2) by (auto simp: order_of_def placeable_def order_clash_def find_None_iff)
  with coherent_stage [OF assms(1), of ?oid]
  have "stage_of db ?oid = Some Absent" and ful: "fulfillment_of db ?oid = None"
    by (auto simp: stage_of_def dest: stage_of_rows_absent)
  moreover have "stage_of (placed_db fmt_time draft db) ?oid = Some Awaiting"
    by (simp add: stage_of_def look ful stage_of_rows_def linked_def operation_row_of_def outbox_row_of_def
        draft_payload_wire_def)
  moreover have "stage_of (placed_db fmt_time draft db) x = stage_of db x" if "x \<noteq> ?oid" for x
    using that by (simp add: stage_of_def look)
  ultimately show ?thesis using assms(1) by (intro advances_one [where oid = ?oid]) auto
qed

lemma placed_coherent: "coherent db \<Longrightarrow> placeable draft db \<Longrightarrow> coherent (placed_db fmt_time draft db)"
  by (blast intro: advances_coherent placed_keys placed_advances coherent_keys)

subsection \<open>The other steps\<close>

lemma keys_ok_cong:
  assumes "keys_ok db"
    and "map or_id (db_orders db') = map or_id (db_orders db)"
    and "map or_checkout_id (db_orders db') = map or_checkout_id (db_orders db)"
    and "map or_customer_id (db_orders db') = map or_customer_id (db_orders db)"
    and "map op_operation_id (db_operations db') = map op_operation_id (db_operations db)"
    and "map op_order_id (db_operations db') = map op_order_id (db_operations db)"
    and "map ob_event_id (db_outbox db') = map ob_event_id (db_outbox db)"
    and "map ob_operation_id (db_outbox db') = map ob_operation_id (db_outbox db)"
    and "map ob_order_id (db_outbox db') = map ob_order_id (db_outbox db)"
    and "distinct (map fr_order_id (db_fulfillments db'))"
    and "set (db_users db) \<subseteq> set (db_users db')"
  shows "keys_ok db'"
proof -
  have "or_customer_id ` set (db_orders db') = or_customer_id ` set (db_orders db)"
    using assms(4) by (metis set_map)
  then have "\<forall>r \<in> set (db_orders db'). \<exists>r' \<in> set (db_orders db). or_customer_id r = or_customer_id r'"
    by (metis imageE imageI)
  with assms show ?thesis unfolding keys_ok_def is_user_def list_ex_iff by (metis subsetD)
qed

lemma keys_fulfillment: "keys_ok db \<Longrightarrow> distinct (map fr_order_id (db_fulfillments db))"
  by (simp add: keys_ok_def)

lemma register_advances:
  assumes "coherent db"
  shows "coherent (db\<lparr>db_users := db_users db @ [u]\<rparr>) \<and> advances db (db\<lparr>db_users := db_users db @ [u]\<rparr>)"
proof -
  have "advances db (db\<lparr>db_users := db_users db @ [u]\<rparr>)"
    using assms by (rule advances_same) (simp add: stage_of_def lookups)
  moreover have "keys_ok (db\<lparr>db_users := db_users db @ [u]\<rparr>)"
    using keys_fulfillment [OF coherent_keys [OF assms]]
    by (intro keys_ok_cong [OF coherent_keys [OF assms]]) (simp_all add: subset_iff)
  ultimately show ?thesis by (simp add: advances_coherent)
qed

lemma outbox_update_advances:
  assumes "coherent db"
    and "\<And>b. (ob_event_id (f b), ob_operation_id (f b), ob_order_id (f b), ob_payload (f b), ob_published_at (f b)) =
       (ob_event_id b, ob_operation_id b, ob_order_id b, ob_payload b, ob_published_at b)"
  shows "coherent (db\<lparr>db_outbox := update_where P f (db_outbox db)\<rparr>) \<and>
    advances db (db\<lparr>db_outbox := update_where P f (db_outbox db)\<rparr>)"
proof -
  let ?db = "db\<lparr>db_outbox := update_where P f (db_outbox db)\<rparr>"
  have "advances db ?db"
    using assms(1)
  proof (rule advances_same)
    fix oid
    show "stage_of ?db oid = stage_of db oid"
      unfolding stage_of_def by (rule stage_of_rows_cong) (use assms(2) in \<open>simp_all add: lookups row_simps\<close>)
  qed
  moreover have "keys_ok ?db"
    using keys_fulfillment [OF coherent_keys [OF assms(1)]]
    by (intro keys_ok_cong [OF coherent_keys [OF assms(1)]]) (simp_all add: assms(2) [simplified])
  ultimately show ?thesis by (simp add: advances_coherent)
qed

lemma fulfillment_keys:
  assumes "keys_ok db" and "map fr_order_id fs = map fr_order_id (db_fulfillments db)"
  shows "keys_ok (db\<lparr>db_fulfillments := fs, db_audit := audit\<rparr>)"
  using keys_fulfillment [OF assms(1)] by (intro keys_ok_cong [OF assms(1)]) (simp_all add: assms(2))

lemma read_advances:
  assumes "coherent db"
  shows "coherent (db\<lparr>db_fulfillments := update_where P
      (\<lambda>f. f\<lparr>fr_read_at := Some now, fr_read_by := Some cashierID\<rparr>) (db_fulfillments db), db_audit := audit\<rparr>) \<and>
    advances db (db\<lparr>db_fulfillments := update_where P
      (\<lambda>f. f\<lparr>fr_read_at := Some now, fr_read_by := Some cashierID\<rparr>) (db_fulfillments db), db_audit := audit\<rparr>)"
    (is "coherent ?db \<and> _")
proof -
  have "advances db ?db"
    using assms
  proof (rule advances_same)
    fix oid
    show "stage_of ?db oid = stage_of db oid"
      unfolding stage_of_def by (rule stage_of_rows_cong) (simp_all add: lookups row_simps)
  qed
  moreover have "keys_ok ?db"
    by (intro fulfillment_keys coherent_keys [OF assms]) simp
  ultimately show ?thesis by (simp add: advances_coherent)
qed

lemma stage_of_fulfilled:
  assumes "stage_of db oid = Some s" and "fulfillment_of db oid = Some f"
  shows "\<exists>r io b. order_of db oid = Some r \<and> operation_of db oid = Some io \<and> outbox_of db oid = Some b \<and>
    linked io b \<and> or_status r = OrderConfirmed \<and> op_result_status io = InventoryCommitted \<and>
    ob_published_at b \<noteq> None \<and>
    (case fr_status f of FulfillmentPreparing \<Rightarrow> s = Preparing | FulfillmentDelivering \<Rightarrow> s = Delivering
     | FulfillmentDelivered \<Rightarrow> s = Delivered | FulfillmentOther _ \<Rightarrow> False)"
  using assms by (auto simp: stage_of_def stage_of_rows_def split: option.splits if_splits FulfillmentStatus.splits)

lemma advance_advances:
  assumes "coherent db" and f: "fulfillment_of db orderID = Some f"
    and cur: "fr_status f \<in> {FulfillmentPreparing, FulfillmentDelivering}"
  shows "coherent (advanced_db cashierID orderID (fr_status f) (NextAction (fr_status f)) now audit db) \<and>
    advances db (advanced_db cashierID orderID (fr_status f) (NextAction (fr_status f)) now audit db)"
    (is "coherent ?db \<and> _")
proof -
  let ?row = "advanced_row cashierID (NextAction (fr_status f)) now"
  have row: "fr_order_id (?row g) = fr_order_id g" "fr_status (?row g) = NextAction (fr_status f)" for g
    by (simp_all add: advanced_row_def Let_def)
  have ful: "fulfillment_of ?db oid = (if oid = orderID then Some (?row f) else fulfillment_of db oid)" for oid
  proof -
    have "fulfillment_of ?db oid =
        map_option (\<lambda>g. if fr_order_id g = orderID \<and> fr_status g = fr_status f then ?row g else g)
          (fulfillment_of db oid)"
      by (simp add: fulfillment_of_def advanced_db_def row_simps row(1))
    moreover have "fulfillment_of db oid = Some g \<Longrightarrow> fr_order_id g = oid" for g
      by (auto simp: fulfillment_of_def dest: find_SomeD)
    ultimately show ?thesis
      using f by (cases "fulfillment_of db oid"; cases "oid = orderID") auto
  qed
  have rest: "order_of ?db = order_of db" "operation_of ?db = operation_of db" "outbox_of ?db = outbox_of db"
    by (simp_all add: fun_eq_iff lookups advanced_db_def)
  obtain s where s: "stage_of db orderID = Some s" using coherent_stage [OF assms(1)] by blast
  note st = stage_of_fulfilled [OF s f]
  then obtain r io b where l: "order_of db orderID = Some r" "operation_of db orderID = Some io"
    "outbox_of db orderID = Some b" "linked io b" "or_status r = OrderConfirmed"
    "op_result_status io = InventoryCommitted" "ob_published_at b \<noteq> None" by blast
  have "stage_of ?db orderID = stage_of_rows (Some r) (Some io) (Some b) (Some (?row f))"
    by (simp only: stage_of_def rest ful l refl if_True)
  then have "stage_of ?db orderID = (if fr_status f = FulfillmentPreparing then Some Delivering else Some Delivered)"
    using cur l(4-7) row(2) [of f] by (auto simp: stage_of_rows_def NextAction_def)
  moreover have "s = (if fr_status f = FulfillmentPreparing then Preparing else Delivering)"
    using st cur by auto
  moreover have "stage_of ?db x = stage_of db x" if "x \<noteq> orderID" for x
    using that by (simp add: stage_of_def rest ful)
  ultimately have "advances db ?db"
    using assms(1) s cur
    by (intro advances_one [where oid = orderID and s = s and
          s' = "if fr_status f = FulfillmentPreparing then Delivering else Delivered"]) auto
  moreover have "keys_ok ?db"
    unfolding advanced_db_def by (intro fulfillment_keys coherent_keys [OF assms(1)]) (simp add: row(1))
  ultimately show ?thesis by (simp add: advances_coherent)
qed

lemma affected_1E:
  assumes "affected P rs = 1"
  obtains r where "r \<in> set rs" and "P r"
  using assms affected_0 [of P rs] by fastforce

text \<open>The rows of the order a result is applied to.\<close>

lemma applicable_rows:
  assumes "coherent db" and "genuine db claimed" and "applicable claimed result db"
  obtains r io b where "order_of db (res_OrderID result) = Some r" and "or_status r = OrderSubmitted"
    and "operation_of db (res_OrderID result) = Some io" and "op_operation_id io = res_OperationID result"
    and "op_result_status io = InventoryPending"
    and "outbox_of db (res_OrderID result) = Some b" and "held claimed b" and "linked io b"
    and "fulfillment_of db (res_OrderID result) = None"
    and "stage_of db (res_OrderID result) = Some Awaiting"
proof -
  let ?oid = "res_OrderID result"
  note keys = coherent_keys [OF assms(1)]
  from assms(3) have args: "res_OperationID result = com_OperationID (clm_Commit claimed)"
    "?oid = com_OrderID (clm_Commit claimed)"
    and aff: "affected (\<lambda>r. or_id r = ?oid \<and> or_status r = OrderSubmitted) (db_orders db) = 1"
      "affected (held claimed) (db_outbox db) = 1"
    unfolding applicable_def by blast+
  from assms(3) obtain io where
    io_find: "find (\<lambda>r. op_operation_id r = res_OperationID result \<and> op_order_id r = ?oid) (db_operations db) = Some io"
    and pending: "op_result_status io = InventoryPending"
    by (auto simp: applicable_def)
  from find_SomeD [OF io_find] have io: "io \<in> set (db_operations db)" "op_operation_id io = res_OperationID result"
    "op_order_id io = ?oid" by auto
  then have opr: "operation_of db ?oid = Some io"
    using find_key_Some [of op_order_id "db_operations db" io] keys by (simp add: operation_of_def keys_ok_def)
  from aff(1) obtain r where r: "r \<in> set (db_orders db)" "or_id r = ?oid" "or_status r = OrderSubmitted"
    by (rule affected_1E) auto
  then have ord: "order_of db ?oid = Some r" using order_of_mem [OF keys r(1)] by simp
  from aff(2) obtain h where h: "h \<in> set (db_outbox db)" "held claimed h" by (rule affected_1E)
  from assms(2) obtain g where g: "g \<in> set (db_outbox db)" "ob_event_id g = com_EventID (clm_Commit claimed)"
    "ob_order_id g = ?oid" by (auto simp: genuine_def list_ex_iff args)
  have "distinct (map ob_event_id (db_outbox db))" using keys by (simp add: keys_ok_def)
  then have "h = g" by (rule key_unique) (use h g in \<open>simp_all add: held_def\<close>)
  then have out: "outbox_of db ?oid = Some h"
    using find_key_Some [of ob_order_id "db_outbox db" g] g keys by (simp add: outbox_of_def keys_ok_def)
  obtain s where s: "stage_of db ?oid = Some s" using coherent_stage [OF assms(1)] by blast
  then have "linked io h" "fulfillment_of db ?oid = None" "s = Awaiting"
    using r(3) pending h(2)
    by (auto simp: stage_of_def stage_of_rows_def ord opr out held_def split: if_splits)
  with s ord r(3) opr io(2) pending out h(2) show thesis by (intro that) auto
qed

lemma decided_keys [simp]:
  "op_operation_id (decided_operation result io) = op_operation_id io"
  "op_order_id (decided_operation result io) = op_order_id io"
  "or_id (decided_order dbnow result r) = or_id r"
  "or_checkout_id (decided_order dbnow result r) = or_checkout_id r"
  "or_customer_id (decided_order dbnow result r) = or_customer_id r"
  "ob_event_id (published_row now b) = ob_event_id b"
  "ob_operation_id (published_row now b) = ob_operation_id b"
  "ob_order_id (published_row now b) = ob_order_id b"
  "ob_payload (published_row now b) = ob_payload b"
  "ob_published_at (published_row now b) = Some now"
  by (simp_all add: decided_operation_def decided_order_def published_row_def)

lemma applied_lookups:
  assumes "coherent db" and "genuine db claimed" and "applicable claimed result db"
  shows "order_of (applied_db dbnow claimed result now audit db) oid =
      (if oid = res_OrderID result then map_option (decided_order dbnow result) (order_of db oid) else order_of db oid)"
    and "operation_of (applied_db dbnow claimed result now audit db) oid =
      (if oid = res_OrderID result then map_option (decided_operation result) (operation_of db oid)
       else operation_of db oid)"
    and "outbox_of (applied_db dbnow claimed result now audit db) oid =
      (if oid = res_OrderID result then map_option (published_row now) (outbox_of db oid) else outbox_of db oid)"
    and "fulfillment_of (applied_db dbnow claimed result now audit db) oid =
      (if oid = res_OrderID result \<and> res_Status result = InventoryCommitted then Some (new_fulfillment result)
       else fulfillment_of db oid)"
proof -
  let ?oid = "res_OrderID result"
  let ?db = "applied_db dbnow claimed result now audit db"
  note keys = coherent_keys [OF assms(1)]
  from applicable_rows [OF assms] obtain r io b where
    ord: "order_of db ?oid = Some r" "or_status r = OrderSubmitted"
    and opr: "operation_of db ?oid = Some io" "op_operation_id io = res_OperationID result"
      "op_result_status io = InventoryPending"
    and out: "outbox_of db ?oid = Some b" "held claimed b" and ful: "fulfillment_of db ?oid = None" by metis
  have id: "or_id x = oid" if "order_of db oid = Some x" for x
    using that by (auto simp: order_of_def dest: find_SomeD)
  have "order_of ?db oid = map_option (\<lambda>r. if or_id r = ?oid \<and> or_status r = OrderSubmitted
      then decided_order dbnow result r else r) (order_of db oid)"
    by (simp add: order_of_def applied_db_def row_simps)
  then show "order_of ?db oid =
      (if oid = ?oid then map_option (decided_order dbnow result) (order_of db oid) else order_of db oid)"
    using ord id by (cases "order_of db oid") auto
  have "io \<in> set (db_operations db)" "op_order_id io = ?oid"
    using find_SomeD [OF opr(1) [unfolded operation_of_def]] by auto
  moreover have "distinct (map op_operation_id (db_operations db))" using keys by (simp add: keys_ok_def)
  ultimately have "op_operation_id x = res_OperationID result \<Longrightarrow> oid = ?oid" if "operation_of db oid = Some x" for x
    using key_unique [of op_operation_id "db_operations db" x io] opr(2)
      find_SomeD [OF that [unfolded operation_of_def]] by auto
  moreover have "operation_of ?db oid = map_option (\<lambda>r. if op_operation_id r = res_OperationID result \<and>
      op_result_status r = InventoryPending then decided_operation result r else r) (operation_of db oid)"
    by (simp add: operation_of_def applied_db_def row_simps)
  ultimately show "operation_of ?db oid =
      (if oid = ?oid then map_option (decided_operation result) (operation_of db oid) else operation_of db oid)"
    using opr by (cases "operation_of db oid") auto
  have "b \<in> set (db_outbox db)" "ob_order_id b = ?oid"
    using find_SomeD [OF out(1) [unfolded outbox_of_def]] by auto
  moreover have "distinct (map ob_event_id (db_outbox db))" using keys by (simp add: keys_ok_def)
  ultimately have "held claimed x \<Longrightarrow> oid = ?oid" if "outbox_of db oid = Some x" for x
    using key_unique [of ob_event_id "db_outbox db" x b] out(2)
      find_SomeD [OF that [unfolded outbox_of_def]] by (auto simp: held_def)
  moreover have "outbox_of ?db oid = map_option (\<lambda>b. if held claimed b then published_row now b else b)
      (outbox_of db oid)"
    by (simp add: outbox_of_def applied_db_def row_simps)
  ultimately show "outbox_of ?db oid =
      (if oid = ?oid then map_option (published_row now) (outbox_of db oid) else outbox_of db oid)"
    using out by (cases "outbox_of db oid") auto
  show "fulfillment_of ?db oid =
      (if oid = ?oid \<and> res_Status result = InventoryCommitted then Some (new_fulfillment result)
       else fulfillment_of db oid)"
    using ful by (auto simp: fulfillment_of_def applied_db_def row_simps new_fulfillment_def split: option.splits)
qed

lemma applied_advances:
  assumes "coherent db" and "genuine db claimed" and "applicable claimed result db"
  shows "coherent (applied_db dbnow claimed result now audit db) \<and>
    advances db (applied_db dbnow claimed result now audit db)"
    (is "coherent ?db \<and> _")
proof -
  let ?oid = "res_OrderID result"
  note keys = coherent_keys [OF assms(1)]
  note look = applied_lookups [OF assms, of dbnow now audit]
  from applicable_rows [OF assms] obtain r io b where
    rows: "order_of db ?oid = Some r" "operation_of db ?oid = Some io" "outbox_of db ?oid = Some b"
    "linked io b" and ful: "fulfillment_of db ?oid = None" and st: "stage_of db ?oid = Some Awaiting" by metis
  have res: "res_Status result = InventoryCommitted \<or> res_Status result = InventoryItemsUnavailable"
    using assms(3) unfolding applicable_def by blast
  have lk: "linked (decided_operation result io) (published_row now b)"
    using rows(4) by (simp add: linked_def)
  have "stage_of ?db ?oid = (if res_Status result = InventoryCommitted then Some Preparing else Some Rejected)"
    using res lk by (auto simp: stage_of_def look rows ful stage_of_rows_def decided_order_def decided_operation_def
        new_fulfillment_def)
  moreover have "stage_of ?db x = stage_of db x" if "x \<noteq> ?oid" for x
    using that by (simp add: stage_of_def look)
  ultimately have "advances db ?db"
    using assms(1) st
    by (intro advances_one [where oid = ?oid and s = Awaiting and
          s' = "if res_Status result = InventoryCommitted then Preparing else Rejected"]) auto
  moreover have "keys_ok ?db"
  proof (rule keys_ok_cong [OF keys])
    have "res_OrderID result \<notin> fr_order_id ` set (db_fulfillments db)"
      using ful by (simp add: fulfillment_of_def find_None_image)
    then show "distinct (map fr_order_id (db_fulfillments ?db))"
      using keys_fulfillment [OF keys] by (auto simp: applied_db_def new_fulfillment_def)
  qed (simp_all add: applied_db_def)
  ultimately show ?thesis by (simp add: advances_coherent)
qed

lemma order_step_advances:
  assumes "coherent db" and "order_step db db'"
  shows "coherent db' \<and> advances db db'"
proof -
  have same: "coherent db \<and> advances db db" using assms(1) by (auto intro: advances_same)
  from assms(2) show ?thesis
  proof cases
    case (register u)
    then show ?thesis using register_advances [OF assms(1)] by simp
  next
    case (place fmt_time replies seen draft res1)
    from PlaceOrder_effect [OF place] same placed_advances [OF assms(1)]
      placed_coherent [OF assms(1)] show ?thesis by auto
  next
    case (read replies cashierID orderID now res2)
    from MarkCashierRead_effect [OF read] same read_advances [OF assms(1)] show ?thesis by auto
  next
    case (advance replies cashierID orderID target now res2)
    from AdvanceFulfillment_effect [OF advance] same show ?thesis
    proof (elim disjE exE conjE)
      fix f audit
      assume "fulfillment_of db orderID = Some f" "fr_status f \<in> {FulfillmentPreparing, FulfillmentDelivering}"
        "target = NextAction (fr_status f)" "db' = advanced_db cashierID orderID (fr_status f) target now audit db"
      then show ?thesis using advance_advances [OF assms(1)] by simp
    qed simp
  next
    case (claim parse_time busy token arrange reply now leaseTimeout batchSize res3)
    from ClaimInventoryWork_effect [OF claim] show ?thesis
      unfolding Let_def
    proof (elim disjE)
      assume "db' = db\<lparr>db_outbox := update_where (\<lambda>b. ob_event_id b \<in> set (map ob_event_id
        (claim_candidates busy now leaseTimeout batchSize (db_outbox db)))) (claim_row token now) (db_outbox db)\<rparr>"
      then show ?thesis using outbox_update_advances [OF assms(1), of "claim_row token now"]
        by (simp add: claim_row_def)
    qed (use same in simp)
  next
    case (retry reply claimed next_at errorCode res4)
    from RetryInventoryWork_effect [OF retry] show ?thesis
      using same outbox_update_advances [OF assms(1), of "\<lambda>b. b\<lparr>ob_locked_at := None, ob_claim_token := None,
        ob_next_attempt_at := next_at, ob_last_error_code := Some errorCode\<rparr>"] by auto
  next
    case (applied claimed dbnow replies result now res4)
    from ApplyInventoryResult_effect [OF applied(2)] same applied_advances [OF assms(1) applied(1)]
    show ?thesis by auto
  qed
qed

lemma coherent_empty: "coherent (empty_db users)"
  by (simp add: coherent_def keys_ok_def empty_db_def stage_of_def stage_of_rows_def lookups)

lemma reachable_coherent: "reachable db \<Longrightarrow> coherent db"
  by (induction rule: reachable.induct) (auto simp: coherent_empty dest: order_step_advances)

text \<open>
  C3: The store refines the abstract order machine. In every state the operations can reach,
  with any interleaving, any failed round trip and any lost commit, the rows of each order agree
  on one stage, and a further operation leaves the stage of every order alone or moves it along
  Absent, Awaiting, then Preparing, Delivering, Delivered or Rejected.
\<close>

theorem store_refines_stages:
  assumes "reachable db" and "order_step db db'"
  shows "\<exists>s s'. stage_of db oid = Some s \<and> stage_of db' oid = Some s' \<and> (s' = s \<or> stage_step s s')"
  using order_step_advances [OF reachable_coherent [OF assms(1)] assms(2)] by (simp add: advances_def)

inductive later :: "order_db \<Rightarrow> order_db \<Rightarrow> bool" where
  same: "later db db"
| more: "later db db' \<Longrightarrow> order_step db' db'' \<Longrightarrow> later db db''"

lemma later_reachable: "later db db' \<Longrightarrow> reachable db \<Longrightarrow> reachable db'"
  by (induction rule: later.induct) (auto intro: reachable.step)

lemma decisions_are_final_facts:
  assumes "later db db'" and "reachable db"
  shows "stage_of db oid = Some Rejected \<Longrightarrow> stage_of db' oid = Some Rejected"
    and "stage_of db oid = Some Delivered \<Longrightarrow> stage_of db' oid = Some Delivered"
    and "stage_of db oid \<in> Some ` {Preparing, Delivering, Delivered} \<Longrightarrow>
           stage_of db' oid \<in> Some ` {Preparing, Delivering, Delivered}"
proof -
  have "stage_of db' oid = Some s' \<Longrightarrow> stage_of db oid = Some s \<Longrightarrow>
      (s = Rejected \<longrightarrow> s' = Rejected) \<and> (s = Delivered \<longrightarrow> s' = Delivered) \<and>
      (s \<in> {Preparing, Delivering, Delivered} \<longrightarrow> s' \<in> {Preparing, Delivering, Delivered})" for s s'
    using assms
  proof (induction arbitrary: s' rule: later.induct)
    case (more db db' db'')
    have "reachable db'" using more.hyps(1) more.prems(3) by (rule later_reachable)
    with order_step_advances [OF reachable_coherent more.hyps(2)] obtain t
      where t: "stage_of db' oid = Some t" "s' = t \<or> stage_step t s'"
      using more.prems(1) by (force simp: advances_def)
    from more.IH [OF t(1) more.prems(2,3)] t(2) show ?case by (cases t) auto
  qed auto
  moreover have "\<exists>s'. stage_of db' oid = Some s'"
    using coherent_stage reachable_coherent later_reachable assms by blast
  ultimately show "stage_of db oid = Some Rejected \<Longrightarrow> stage_of db' oid = Some Rejected"
    "stage_of db oid = Some Delivered \<Longrightarrow> stage_of db' oid = Some Delivered"
    "stage_of db oid \<in> Some ` {Preparing, Delivering, Delivered} \<Longrightarrow>
       stage_of db' oid \<in> Some ` {Preparing, Delivering, Delivered}" by force+
qed

text \<open>
  C23: A rejected order stays rejected, a delivered one stays delivered, and an order whose stock
  was committed is never rejected, whatever happens later.
\<close>

theorem decisions_are_final:
  assumes "later db db'" and "reachable db"
  shows "(stage_of db oid = Some Rejected \<longrightarrow> stage_of db' oid = Some Rejected) \<and>
    (stage_of db oid = Some Delivered \<longrightarrow> stage_of db' oid = Some Delivered) \<and>
    (stage_of db oid \<in> Some ` {Preparing, Delivering, Delivered} \<longrightarrow>
           stage_of db' oid \<in> Some ` {Preparing, Delivering, Delivered})"
  using decisions_are_final_facts(1) [OF assms] decisions_are_final_facts(2) [OF assms] decisions_are_final_facts(3) [OF assms] by blast

lemma PlaceOrder_placeable:
  assumes "placeable draft db" and "findCheckout seen (ord_CheckoutID (draft_Order draft)) = None"
    and "\<forall>n. replies n = Done"
  shows "PlaceOrder fmt_time replies seen draft db =
    (Inr \<lparr>placed_Order = draft_Order draft, placed_Replayed = False\<rparr>, placed_db fmt_time draft db)"
proof -
  from place_statements [of replies 2 draft db fmt_time "placed_db fmt_time draft db"] assms
  obtain d where "insert_order draft db = Inr d" "insert_rest fmt_time replies 3 draft d = Inr (placed_db fmt_time draft db)"
    by auto
  with assms show ?thesis by (simp add: PlaceOrder_def Let_def stmt_def)
qed

end
