(* ===== verification/Order_Guarantees.thy ===== *)
theory Order_Guarantees
  imports Order_Lifecycle
begin

text \<open>
  What the store's clients rely on, in the states the operations can reach: the state a
  customer is shown, replays of inventory results, claims and leases of outbox work, the
  cashier's operations, and the pages of the order lists.
\<close>

section \<open>The state a customer is shown\<close>

fun customer_view :: "stage \<Rightarrow> CustomerStateT option" where
  "customer_view Absent = None"
| "customer_view Awaiting = Some CustomerPreparing"
| "customer_view Preparing = Some CustomerPreparing"
| "customer_view Delivering = Some CustomerOnTheWay"
| "customer_view Delivered = Some CustomerDelivered"
| "customer_view Rejected = Some CustomerRejected"

lemma stage_of_ordered:
  assumes "stage_of db oid = Some s" and "order_of db oid = Some r"
  shows "case s of
      Awaiting \<Rightarrow> or_status r = OrderSubmitted \<and> fulfillment_of db oid = None
    | Rejected \<Rightarrow> or_status r = OrderRejected \<and> fulfillment_of db oid = None
    | Preparing \<Rightarrow> or_status r = OrderConfirmed \<and> (\<exists>f. fulfillment_of db oid = Some f \<and> fr_status f = FulfillmentPreparing)
    | Delivering \<Rightarrow> or_status r = OrderConfirmed \<and> (\<exists>f. fulfillment_of db oid = Some f \<and> fr_status f = FulfillmentDelivering)
    | Delivered \<Rightarrow> or_status r = OrderConfirmed \<and> (\<exists>f. fulfillment_of db oid = Some f \<and> fr_status f = FulfillmentDelivered)
    | Absent \<Rightarrow> False"
  using assms by (auto simp: stage_of_def stage_of_rows_def split: option.splits if_splits FulfillmentStatus.splits)

text \<open>
  Every order that the store returns, to its customer or to a cashier, has a customer state,
  and it is the one of the order's stage: no reachable state makes \<open>CustomerState\<close> fail.
\<close>

theorem customer_state_of_stage:
  assumes "reachable db" and "loadOrder replies n db oid cust cashier = Inr order"
  shows "\<exists>s c. stage_of db oid = Some s \<and> customer_view s = Some c \<and> CustomerState order = Inr c"
proof -
  from assms(2) obtain o' where "select_order db oid cust cashier = Some o'"
    "order = o'\<lparr>ord_Lines := select_lines db oid\<rparr>" by (auto simp: loadOrder_Inr)
  then obtain r u where r: "order_of db oid = Some r" and
    o: "ord_Status order = or_status r" "ord_Fulfillment order = map_option fulfillment_of_row (fulfillment_of db oid)"
    by (auto simp: select_order_Some order_of_rows_def)
  from coherent_stage [OF reachable_coherent [OF assms(1)]] obtain s where s: "stage_of db oid = Some s" by blast
  from stage_of_ordered [OF s r] have "\<exists>c. customer_view s = Some c \<and> CustomerState order = Inr c"
    by (cases s) (auto simp: CustomerState_def o fulfillment_of_row_def)
  with s show ?thesis by blast
qed

section \<open>Replays of inventory results\<close>

definition decided_as :: "InventoryResult \<Rightarrow> order_db \<Rightarrow> bool" where
  "decided_as result db \<longleftrightarrow>
     (\<exists>io b. find (\<lambda>r. op_operation_id r = res_OperationID result \<and> op_order_id r = res_OrderID result)
          (db_operations db) = Some io \<and>
        find (\<lambda>b. ob_operation_id b = op_operation_id io) (db_outbox db) = Some b \<and>
        op_result_status io = res_Status result \<and> op_result_status io \<noteq> InventoryPending \<and>
        op_result_event_id io = Some (res_EventID result) \<and>
        unmarshal_items (case op_unavailable_items io of None \<Rightarrow> ItemsArray [] | Some j \<Rightarrow> j) =
          res_UnavailableItems result)"

lemma apply_body_decided:
  assumes "decided_as result db" and "replies 1 = Done"
    and "res_OperationID result' = res_OperationID result" and "res_OrderID result' = res_OrderID result"
  shows "apply_body dbnow replies claimed result' now db =
    (if res_Status result' = res_Status result \<and> res_EventID result' = res_EventID result \<and>
        res_UnavailableItems result' = res_UnavailableItems result
     then Inr ((), db, 2) else Inl ErrOperationConflict)"
proof -
  from assms(1) obtain io b where
    "find (\<lambda>r. op_operation_id r = res_OperationID result \<and> op_order_id r = res_OrderID result)
       (db_operations db) = Some io"
    "find (\<lambda>b. ob_operation_id b = op_operation_id io) (db_outbox db) = Some b"
    "op_result_status io = res_Status result" "op_result_status io \<noteq> InventoryPending"
    "op_result_event_id io = Some (res_EventID result)"
    "unmarshal_items (case op_unavailable_items io of None \<Rightarrow> ItemsArray [] | Some j \<Rightarrow> j) =
       res_UnavailableItems result"
    by (auto simp: decided_as_def)
  then show ?thesis using assms(2-4) by (auto simp: apply_body_def)
qed

lemma apply_pending_decided:
  assumes pend: "apply_pending dbnow replies claimed result now db = Inr (v, db', n)"
    and io: "find (\<lambda>r. op_operation_id r = res_OperationID result \<and> op_order_id r = res_OrderID result)
           (db_operations db) = Some io" "op_result_status io = InventoryPending"
    and b: "find (\<lambda>b. ob_operation_id b = op_operation_id io) (db_outbox db) = Some b"
    and status: "res_Status result \<in> {InventoryCommitted, InventoryItemsUnavailable}"
    and items: "res_Status result = InventoryCommitted \<longrightarrow> res_UnavailableItems result = []"
  shows "decided_as result db'"
proof -
  from pend obtain db1 m where "apply_business dbnow replies result db = Inr (db1, 1, m)"
    by (auto simp: apply_pending_def sum_bind_Inr split: if_splits)
  from apply_business_1(4) [OF this] find_SomeD [OF io(1)] io(2)
  have check: "operation_check (decided_operation result io)" by blast
  from apply_pending_Inr(1) [OF pend io] obtain audit where db': "db' = applied_db dbnow claimed result now audit db" ..
  have key: "op_operation_id io = res_OperationID result" using find_SomeD [OF io(1)] by simp
  have "find (\<lambda>r. op_operation_id r = res_OperationID result \<and> op_order_id r = res_OrderID result)
      (db_operations db') = Some (decided_operation result io)"
    using io key by (simp add: db' applied_db_def row_simps)
  moreover have "\<exists>b'. find (\<lambda>b. ob_operation_id b = op_operation_id (decided_operation result io)) (db_outbox db') = Some b'"
    using b by (simp add: db' applied_db_def row_simps)
  moreover have "op_result_status (decided_operation result io) = res_Status result"
    "op_result_event_id (decided_operation result io) = Some (res_EventID result)"
    using status by (auto simp: decided_operation_def)
  moreover have "unmarshal_items (case op_unavailable_items (decided_operation result io) of
      None \<Rightarrow> ItemsArray [] | Some j \<Rightarrow> j) = res_UnavailableItems result"
    using status items check by (auto simp: decided_operation_def operation_check_def marshal_items_def)
  ultimately show ?thesis using status by (auto simp: decided_as_def)
qed

lemma ApplyInventoryResult_decided:
  assumes "ApplyInventoryResult dbnow replies claimed result now db = (Inr (), db')"
    and "res_Status result = InventoryCommitted \<longrightarrow> res_UnavailableItems result = []"
  shows "decided_as result db'" and "res_EventID result \<noteq> []"
    and "res_Status result \<in> {InventoryCommitted, InventoryItemsUnavailable}"
proof -
  from assms(1) have args: "res_EventID result \<noteq> []"
    "res_Status result \<in> {InventoryCommitted, InventoryItemsUnavailable}"
    by (auto simp: ApplyInventoryResult_def split: if_splits)
  from assms(1) obtain n where body: "apply_body dbnow replies claimed result now db = Inr ((), db', n)"
    by (auto simp: ApplyInventoryResult_def in_tx_Inr split: if_splits)
  then obtain io b where f: "find (\<lambda>r. op_operation_id r = res_OperationID result \<and>
        op_order_id r = res_OrderID result) (db_operations db) = Some io"
      "find (\<lambda>b. ob_operation_id b = op_operation_id io) (db_outbox db) = Some b"
    and cs: "(op_result_status io \<noteq> InventoryPending \<and> op_result_status io = res_Status result \<and>
        op_result_event_id io = Some (res_EventID result) \<and> db' = db \<and>
        unmarshal_items (case op_unavailable_items io of None \<Rightarrow> ItemsArray [] | Some j \<Rightarrow> j) =
          res_UnavailableItems result) \<or>
      (op_result_status io = InventoryPending \<and> apply_pending dbnow replies claimed result now db = Inr ((), db', n))"
    by (auto simp: apply_body_def split: sum.splits option.splits if_splits dest!: stmt_Inl)
  then show "decided_as result db'"
    using apply_pending_decided [OF _ f(1) _ f(2) args(2) assms(2)] by (auto simp: decided_as_def)
  show "res_EventID result \<noteq> []" "res_Status result \<in> {InventoryCommitted, InventoryItemsUnavailable}"
    by (fact args)+
qed

lemma apply_result_once_facts:
  assumes "ApplyInventoryResult dbnow replies claimed result now db = (Inr (), db')"
    and "res_Status result = InventoryCommitted \<longrightarrow> res_UnavailableItems result = []"
    and "com_OperationID (clm_Commit claimed2) = res_OperationID result"
    and "com_OrderID (clm_Commit claimed2) = res_OrderID result"
    and "\<forall>n. replies2 n = Done"
  shows "ApplyInventoryResult dbnow2 replies2 claimed2 result now2 db' = (Inr (), db')"
    and "res_OperationID result2 = res_OperationID result \<Longrightarrow> res_OrderID result2 = res_OrderID result \<Longrightarrow>
      (res_Status result2, res_EventID result2, res_UnavailableItems result2) \<noteq>
        (res_Status result, res_EventID result, res_UnavailableItems result) \<Longrightarrow>
      ApplyInventoryResult dbnow2 replies2 claimed2 result2 now2 db' = (Inl ErrOperationConflict, db')"
proof -
  note dec = ApplyInventoryResult_decided [OF assms(1,2)]
  have r1: "replies2 1 = Done" using assms(5) by blast
  show "ApplyInventoryResult dbnow2 replies2 claimed2 result now2 db' = (Inr (), db')"
    using dec(2,3) assms(3-5) apply_body_decided [where replies = replies2, OF dec(1) r1, of result dbnow2 claimed2 now2]
    by (auto simp: ApplyInventoryResult_def in_tx_def)
  show "ApplyInventoryResult dbnow2 replies2 claimed2 result2 now2 db' = (Inl ErrOperationConflict, db')"
    if "res_OperationID result2 = res_OperationID result" "res_OrderID result2 = res_OrderID result"
      "(res_Status result2, res_EventID result2, res_UnavailableItems result2) \<noteq>
        (res_Status result, res_EventID result, res_UnavailableItems result)"
    using that assms(5) apply_body_decided [where replies = replies2, OF dec(1) r1 that(1,2), of dbnow2 claimed2 now2]
    by (auto simp: ApplyInventoryResult_def in_tx_def)
qed

text \<open>
  C4: A result takes effect once. After it was applied, applying it again, under whatever claim
  on the same operation, succeeds and changes nothing, and a result of the same operation that
  differs in its event, its verdict or its items is refused as a conflict and changes nothing.
\<close>

theorem apply_result_once:
  assumes "ApplyInventoryResult dbnow replies claimed result now db = (Inr (), db')"
    and "res_Status result = InventoryCommitted \<longrightarrow> res_UnavailableItems result = []"
    and "com_OperationID (clm_Commit claimed2) = res_OperationID result"
    and "com_OrderID (clm_Commit claimed2) = res_OrderID result"
    and "\<forall>n. replies2 n = Done"
  shows "(ApplyInventoryResult dbnow2 replies2 claimed2 result now2 db' = (Inr (), db')) \<and>
    (res_OperationID result2 = res_OperationID result \<longrightarrow> res_OrderID result2 = res_OrderID result \<longrightarrow>
      (res_Status result2, res_EventID result2, res_UnavailableItems result2) \<noteq>
        (res_Status result, res_EventID result, res_UnavailableItems result) \<longrightarrow>
      ApplyInventoryResult dbnow2 replies2 claimed2 result2 now2 db' = (Inl ErrOperationConflict, db'))"
  using apply_result_once_facts(1) [OF assms] apply_result_once_facts(2) [OF assms] by blast

section \<open>Claims and leases\<close>

definition payload_linked :: "outbox_row \<Rightarrow> bool" where
  "payload_linked b \<longleftrightarrow> wr_EventID (ob_payload b) = ob_event_id b \<and>
     wr_OperationID (ob_payload b) = ob_operation_id b \<and> wr_OrderID (ob_payload b) = ob_order_id b"

lemma outbox_of_mem: "keys_ok db \<Longrightarrow> b \<in> set (db_outbox db) \<Longrightarrow> outbox_of db (ob_order_id b) = Some b"
  unfolding outbox_of_def by (rule find_key_Some) (simp_all add: keys_ok_def)

lemma coherent_payload:
  assumes "coherent db" and "b \<in> set (db_outbox db)"
  shows "payload_linked b"
proof -
  obtain s where "stage_of db (ob_order_id b) = Some s" using coherent_stage [OF assms(1)] by blast
  then show ?thesis
    using outbox_of_mem [OF coherent_keys [OF assms(1)] assms(2)]
    by (auto simp: stage_of_def stage_of_rows_def linked_def payload_linked_def split: option.splits if_splits)
qed

text \<open>Work as the worker holds it, against the row it was claimed from.\<close>

definition work_from :: "ClaimedInventoryWork \<Rightarrow> outbox_row \<Rightarrow> bool" where
  "work_from w b \<longleftrightarrow>
     com_EventID (clm_Commit w) = wr_EventID (ob_payload b) \<and>
     com_OperationID (clm_Commit w) = wr_OperationID (ob_payload b) \<and>
     com_OrderID (clm_Commit w) = wr_OrderID (ob_payload b) \<and>
     com_Items (clm_Commit w) = map item_of_wire (wr_Items (ob_payload b)) \<and>
     Some (clm_ClaimToken w) = ob_claim_token b \<and> clm_AttemptCount w = ob_attempt_count b"

lemma scan_claimed_Inr:
  "scan_claimed parse_time rows = Inr work \<Longrightarrow> \<forall>b \<in> set rows. ob_claim_token b \<noteq> None \<Longrightarrow>
     list_all2 work_from work rows"
  by (induction rows arbitrary: work)
    (auto simp: Let_def work_from_def sum_bind_Inr split: option.splits)

definition lease_free :: "int \<Rightarrow> int \<Rightarrow> outbox_row \<Rightarrow> bool" where
  "lease_free now leaseTimeout b \<longleftrightarrow>
     (case ob_locked_at b of None \<Rightarrow> True | Some t \<Rightarrow> t \<le> now - leaseTimeout)"

lemma claim_candidates_mem:
  "b \<in> set (claim_candidates busy now leaseTimeout batchSize rows) \<Longrightarrow>
     b \<in> set rows \<and> ob_published_at b = None \<and> ob_next_attempt_at b \<le> now \<and> lease_free now leaseTimeout b"
  by (auto simp: claim_candidates_def lease_free_def dest!: in_set_takeD)

lemma distinct_map_sort_key: "distinct (map k (sort_key f xs)) \<longleftrightarrow> distinct (map k xs)"
proof -
  have "mset (map k (sort_key f xs)) = mset (map k xs)" by (metis mset_map mset_sort)
  then show ?thesis by (rule mset_eq_imp_distinct_iff)
qed

lemma distinct_map_take: "distinct (map k xs) \<Longrightarrow> distinct (map k (take n xs))"
  by (metis distinct_take take_map)

lemma claim_candidates_distinct:
  assumes "distinct (map ob_event_id rows)"
  shows "distinct (map ob_event_id (claim_candidates busy now leaseTimeout batchSize rows))"
  unfolding claim_candidates_def
  by (intro distinct_map_take) (simp add: distinct_map_sort_key assms distinct_map_filter)

text \<open>The rows a successful claim returns are those it locked.\<close>

lemma ClaimInventoryWork_Inr:
  assumes "ClaimInventoryWork parse_time busy token arrange reply now leaseTimeout batchSize db = (Inr work, db')"
    and "\<And>xs. mset (arrange xs) = mset xs"
  obtains chosen rows where
    "chosen = claim_candidates busy now leaseTimeout batchSize (db_outbox db)"
    and "mset rows = mset (map (claim_row token now) chosen)" and "list_all2 work_from work rows"
    and "db' = db\<lparr>db_outbox := update_where (\<lambda>b. ob_event_id b \<in> set (map ob_event_id chosen)) (claim_row token now)
            (db_outbox db)\<rparr>"
proof -
  let ?chosen = "claim_candidates busy now leaseTimeout batchSize (db_outbox db)"
  let ?rows = "arrange (map (claim_row token now) ?chosen)"
  from assms(1) have scan: "scan_claimed parse_time ?rows = Inr work"
    and db': "db' = db\<lparr>db_outbox := update_where (\<lambda>b. ob_event_id b \<in> set (map ob_event_id ?chosen))
      (claim_row token now) (db_outbox db)\<rparr>"
    by (auto simp: ClaimInventoryWork_def Let_def update_rows_Inr split: sum.splits prod.splits dest!: settle_cases)
  have "set ?rows = set (map (claim_row token now) ?chosen)"
    using assms(2) by (metis set_mset_mset)
  then have "\<forall>b \<in> set ?rows. ob_claim_token b \<noteq> None" by (auto simp: claim_row_def)
  with scan have "list_all2 work_from work ?rows" by (intro scan_claimed_Inr)
  with db' assms(2) show thesis by (intro that [of ?chosen ?rows]) auto
qed

lemma claim_row_simps [simp]:
  "ob_event_id (claim_row token now b) = ob_event_id b"
  "ob_operation_id (claim_row token now b) = ob_operation_id b"
  "ob_order_id (claim_row token now b) = ob_order_id b"
  "ob_payload (claim_row token now b) = ob_payload b"
  "ob_published_at (claim_row token now b) = ob_published_at b"
  "ob_locked_at (claim_row token now b) = Some now"
  "ob_claim_token (claim_row token now b) = Some (token (ob_event_id b))"
  "ob_attempt_count (claim_row token now b) = ob_attempt_count b + 1"
  by (simp_all add: claim_row_def)

lemma claim_takes:
  assumes "reachable db" and "\<And>xs. mset (arrange xs) = mset xs"
    and "ClaimInventoryWork parse_time busy token arrange reply now leaseTimeout batchSize db = (Inr work, db')"
  shows "length work \<le> batchSize" and "distinct (map (com_EventID \<circ> clm_Commit) work)"
    and "\<forall>w \<in> set work. genuine db' w \<and>
      (\<exists>b \<in> set (db_outbox db'). held w b \<and> ob_locked_at b = Some now \<and> ob_attempt_count b = clm_AttemptCount w)"
    and "\<forall>w \<in> set work. \<exists>b \<in> set (db_outbox db). ob_event_id b = com_EventID (clm_Commit w) \<and>
      ob_published_at b = None \<and> ob_next_attempt_at b \<le> now \<and> lease_free now leaseTimeout b"
proof -
  note coh = reachable_coherent [OF assms(1)]
  from ClaimInventoryWork_Inr [OF assms(3,2)] obtain chosen rows where
    chosen: "chosen = claim_candidates busy now leaseTimeout batchSize (db_outbox db)"
    and rows: "mset rows = mset (map (claim_row token now) chosen)" and all2: "list_all2 work_from work rows"
    and db': "db' = db\<lparr>db_outbox := update_where (\<lambda>b. ob_event_id b \<in> set (map ob_event_id chosen))
        (claim_row token now) (db_outbox db)\<rparr>" by metis
  have len: "length work = length chosen"
    using list_all2_lengthD [OF all2] rows by (metis length_map size_mset)
  then show "length work \<le> batchSize" by (simp add: chosen claim_candidates_def)
  have mem: "b \<in> set chosen \<Longrightarrow> b \<in> set (db_outbox db) \<and> ob_published_at b = None \<and>
      ob_next_attempt_at b \<le> now \<and> lease_free now leaseTimeout b" for b
    unfolding chosen by (rule claim_candidates_mem)
  have set_rows: "set rows = claim_row token now ` set chosen"
    using rows by (metis list.set_map set_mset_mset)
  have row: "\<exists>b \<in> set chosen. work_from w (claim_row token now b)" if "w \<in> set work" for w
    using list_all2_partner [OF all2 that] set_rows by auto
  have linked: "b \<in> set chosen \<Longrightarrow> payload_linked b" for b
    using mem coherent_payload [OF coh] by blast
  show "\<forall>w \<in> set work. genuine db' w \<and>
      (\<exists>b \<in> set (db_outbox db'). held w b \<and> ob_locked_at b = Some now \<and> ob_attempt_count b = clm_AttemptCount w)"
  proof
    fix w assume "w \<in> set work"
    with row obtain b where b: "b \<in> set chosen" "work_from w (claim_row token now b)" by blast
    then have "claim_row token now b \<in> set (db_outbox db')"
      using mem by (auto simp: db' set_update_where)
    moreover from b linked [OF b(1)] mem [OF b(1)] have "held w (claim_row token now b)"
      "ob_operation_id b = com_OperationID (clm_Commit w)" "ob_order_id b = com_OrderID (clm_Commit w)"
      "ob_attempt_count (claim_row token now b) = clm_AttemptCount w"
      by (auto simp: held_def work_from_def payload_linked_def)
    ultimately show "genuine db' w \<and>
        (\<exists>b \<in> set (db_outbox db'). held w b \<and> ob_locked_at b = Some now \<and> ob_attempt_count b = clm_AttemptCount w)"
      unfolding genuine_def list_ex_iff by (auto simp: held_def intro!: bexI [of _ "claim_row token now b"])
  qed
  show "\<forall>w \<in> set work. \<exists>b \<in> set (db_outbox db). ob_event_id b = com_EventID (clm_Commit w) \<and>
      ob_published_at b = None \<and> ob_next_attempt_at b \<le> now \<and> lease_free now leaseTimeout b"
    using row mem linked by (fastforce simp: work_from_def payload_linked_def)
  have "\<forall>b \<in> set rows. payload_linked b"
    using set_rows linked by (auto simp: payload_linked_def)
  with all2 have "map (com_EventID \<circ> clm_Commit) work = map ob_event_id rows"
    by (induction rule: list_all2_induct) (auto simp: work_from_def payload_linked_def)
  moreover have "distinct (map ob_event_id chosen)"
    unfolding chosen using coherent_keys [OF coh] by (intro claim_candidates_distinct) (simp add: keys_ok_def)
  moreover have "mset (map ob_event_id rows) = mset (map ob_event_id chosen)"
    using arg_cong [OF rows, of "image_mset ob_event_id"] by (simp add: image_mset.compositionality comp_def)
  ultimately show "distinct (map (com_EventID \<circ> clm_Commit) work)"
    by (metis mset_eq_imp_distinct_iff)
qed

lemma claim_takes_leases_facts:
  assumes "reachable db" and "\<And>xs. mset (arrange xs) = mset xs"
    and "ClaimInventoryWork parse_time busy token arrange reply now leaseTimeout batchSize db = (Inr work, db')"
  shows "length work \<le> batchSize" and "distinct (map (com_EventID \<circ> clm_Commit) work)"
    and "\<forall>w \<in> set work. genuine db' w \<and>
      (\<exists>b \<in> set (db_outbox db'). held w b \<and> ob_locked_at b = Some now \<and> ob_attempt_count b = clm_AttemptCount w)"
    and "\<forall>w \<in> set work. \<exists>b \<in> set (db_outbox db). ob_event_id b = com_EventID (clm_Commit w) \<and>
      ob_published_at b = None \<and> ob_next_attempt_at b \<le> now \<and> lease_free now leaseTimeout b"
  by (rule claim_takes [OF assms])+

text \<open>
  C24: Claimed work is real and exclusively leased: each piece belongs to an unpublished row of
  the outbox that now carries its token, the lock time of this claim and its attempt number, no
  row is claimed twice in a batch, the batch is no larger than asked, and no row whose lease
  runs is in it.
\<close>

theorem claim_takes_leases:
  assumes "reachable db" and "\<And>xs. mset (arrange xs) = mset xs"
    and "ClaimInventoryWork parse_time busy token arrange reply now leaseTimeout batchSize db = (Inr work, db')"
  shows "(length work \<le> batchSize) \<and>
    (distinct (map (com_EventID \<circ> clm_Commit) work)) \<and>
    (\<forall>w \<in> set work. genuine db' w \<and>
      (\<exists>b \<in> set (db_outbox db'). held w b \<and> ob_locked_at b = Some now \<and> ob_attempt_count b = clm_AttemptCount w)) \<and>
    (\<forall>w \<in> set work. \<exists>b \<in> set (db_outbox db). ob_event_id b = com_EventID (clm_Commit w) \<and>
      ob_published_at b = None \<and> ob_next_attempt_at b \<le> now \<and> lease_free now leaseTimeout b)"
  using claim_takes_leases_facts(1) [OF assms] claim_takes_leases_facts(2) [OF assms] claim_takes_leases_facts(3) [OF assms] claim_takes_leases_facts(4) [OF assms] by blast

text \<open>
  What may happen while a batch is worked on, as long as its lease runs: anything the store does, by
  this process or another, in any order and with any failures. Claims measure the lease by their own
  clock and timeout, so for a claim the lease runs while \<open>now - leaseTimeout\<close> has not reached
  the time of the lock; and nobody else holds the batch's tokens, so a retry with one of them is the
  holder's own, which gives the work back and ends its lease.
\<close>

inductive under_lease :: "ClaimedInventoryWork list \<Rightarrow> int \<Rightarrow> order_db \<Rightarrow> order_db \<Rightarrow> bool"
  for work :: "ClaimedInventoryWork list" and locked :: int where
  same: "under_lease work locked db db"
| register: "under_lease work locked db db' \<Longrightarrow> under_lease work locked db (db'\<lparr>db_users := db_users db' @ [u]\<rparr>)"
| place: "under_lease work locked db db' \<Longrightarrow> PlaceOrder fmt_time replies seen draft db' = (res1, db'') \<Longrightarrow>
    under_lease work locked db db''"
| read: "under_lease work locked db db' \<Longrightarrow> MarkCashierRead replies cashierID orderID now db' = (res2, db'') \<Longrightarrow>
    under_lease work locked db db''"
| advance: "under_lease work locked db db' \<Longrightarrow>
    AdvanceFulfillment replies cashierID orderID target now db' = (res2, db'') \<Longrightarrow> under_lease work locked db db''"
| claim: "under_lease work locked db db' \<Longrightarrow> now - leaseTimeout < locked \<Longrightarrow>
    ClaimInventoryWork parse_time busy token arrange reply now leaseTimeout batchSize db' = (res3, db'') \<Longrightarrow>
    under_lease work locked db db''"
| retry: "under_lease work locked db db' \<Longrightarrow>
    (\<forall>w \<in> set work. (com_EventID (clm_Commit claimed), clm_ClaimToken claimed) \<noteq>
      (com_EventID (clm_Commit w), clm_ClaimToken w)) \<Longrightarrow>
    RetryInventoryWork reply claimed next_at errorCode db' = (res4, db'') \<Longrightarrow> under_lease work locked db db''"
| applied: "under_lease work locked db db' \<Longrightarrow> genuine db' claimed \<Longrightarrow>
    ApplyInventoryResult dbnow replies claimed result now db' = (res4, db'') \<Longrightarrow> under_lease work locked db db''"

lemma under_lease_later: "under_lease work locked db db' \<Longrightarrow> later db db'"
  by (induction rule: under_lease.induct) (auto intro: later.intros order_step.intros)

text \<open>A leased row stays locked by its holder until it is published.\<close>

definition leased :: "int \<Rightarrow> ClaimedInventoryWork \<Rightarrow> outbox_row \<Rightarrow> bool" where
  "leased locked w b \<longleftrightarrow> ob_event_id b = com_EventID (clm_Commit w) \<and>
     (ob_published_at b = None \<longrightarrow> ob_locked_at b = Some locked \<and> ob_claim_token b = Some (clm_ClaimToken w))"

definition lease_held :: "int \<Rightarrow> ClaimedInventoryWork \<Rightarrow> order_db \<Rightarrow> bool" where
  "lease_held locked w db \<longleftrightarrow> list_ex (leased locked w) (db_outbox db)"

lemma lease_held_update:
  assumes "lease_held locked w db" and "db_outbox db' = update_where P f (db_outbox db)"
    and "\<And>b. b \<in> set (db_outbox db) \<Longrightarrow> leased locked w b \<Longrightarrow> P b \<Longrightarrow> leased locked w (f b)"
  shows "lease_held locked w db'"
proof -
  from assms(1) obtain b where b: "b \<in> set (db_outbox db)" "leased locked w b"
    by (auto simp: lease_held_def list_ex_iff)
  then have "(if P b then f b else b) \<in> set (db_outbox db')"
    by (auto simp: assms(2) set_update_where)
  with b assms(3) [OF b] show ?thesis by (auto simp: lease_held_def list_ex_iff split: if_splits)
qed

lemma lease_held_same: "lease_held locked w db \<Longrightarrow> db_outbox db' = db_outbox db \<Longrightarrow> lease_held locked w db'"
  by (simp add: lease_held_def)

lemma lease_held_claim:
  assumes "lease_held locked w db" and "reachable db" and "now - leaseTimeout < locked"
    and "ClaimInventoryWork parse_time busy token arrange reply now leaseTimeout batchSize db = (res, db')"
  shows "lease_held locked w db'"
proof -
  let ?chosen = "claim_candidates busy now leaseTimeout batchSize (db_outbox db)"
  have keys: "distinct (map ob_event_id (db_outbox db))"
    using coherent_keys [OF reachable_coherent [OF assms(2)]] by (simp add: keys_ok_def)
  have taken: "\<not> leased locked w b" if "b \<in> set (db_outbox db)" "ob_event_id b \<in> ob_event_id ` set ?chosen" for b
  proof -
    from that(2) obtain c where c: "c \<in> set ?chosen" "ob_event_id b = ob_event_id c" by blast
    note mem = claim_candidates_mem [OF c(1)]
    from key_unique [OF keys that(1) _ c(2)] mem have "b = c" by simp
    with mem assms(3) show ?thesis by (auto simp: leased_def lease_free_def)
  qed
  from ClaimInventoryWork_effect [OF assms(4)] show ?thesis
    unfolding Let_def
  proof
    assume "db' = db\<lparr>db_outbox := update_where (\<lambda>b. ob_event_id b \<in> set (map ob_event_id ?chosen))
        (claim_row token now) (db_outbox db)\<rparr>"
    then have "db_outbox db' = update_where (\<lambda>b. ob_event_id b \<in> set (map ob_event_id ?chosen)) (claim_row token now) (db_outbox db)"
      by simp
    from lease_held_update [OF assms(1) this] taken show ?thesis by simp
  qed (use assms(1) in simp)
qed

lemma lease_held_kept:
  assumes "under_lease work locked db db'" and "reachable db" and "\<forall>w \<in> set work. lease_held locked w db"
  shows "\<forall>w \<in> set work. lease_held locked w db'"
  using assms
proof (induction rule: under_lease.induct)
  case (register db db' u)
  then show ?case by (auto intro: lease_held_same)
next
  case (place db db' fmt_time replies seen draft res1 db'')
  with PlaceOrder_atomic_facts(1) [OF place.hyps(2)] show ?case by (auto simp: lease_held_def placed_db_def)
next
  case (read db db' replies cashierID orderID now res2 db'')
  with MarkCashierRead_effect [OF read.hyps(2)] show ?case by (auto intro: lease_held_same)
next
  case (advance db db' replies cashierID orderID target now res2 db'')
  with AdvanceFulfillment_effect [OF advance.hyps(2)] show ?case
    by (auto simp: advanced_db_def intro: lease_held_same)
next
  case (claim db db' now leaseTimeout parse_time busy token arrange reply batchSize res3 db'')
  have "reachable db'" using under_lease_later [OF claim.hyps(1)] claim.prems(1) by (rule later_reachable)
  with claim show ?case using lease_held_claim by blast
next
  case (retry db db' claimed reply next_at errorCode res4 db'')
  from RetryInventoryWork_effect [OF retry.hyps(3)] show ?case
  proof
    assume db'': "db'' = db'\<lparr>db_outbox := update_where
      (\<lambda>b. ob_event_id b = com_EventID (clm_Commit claimed) \<and>
         ob_claim_token b = Some (clm_ClaimToken claimed) \<and> ob_published_at b = None)
      (\<lambda>b. b\<lparr>ob_locked_at := None, ob_claim_token := None, ob_next_attempt_at := next_at,
               ob_last_error_code := Some errorCode\<rparr>) (db_outbox db')\<rparr>"
    show ?case
    proof
      fix w assume w: "w \<in> set work"
      with retry have "lease_held locked w db'" by blast
      then show "lease_held locked w db''"
        by (rule lease_held_update [OF _ arg_cong [OF db'', of db_outbox, simplified]])
          (use w retry.hyps(2) in \<open>auto simp: leased_def\<close>)
    qed
  qed (use retry in simp)
next
  case (applied db db' claimed dbnow replies result now res4 db'')
  from ApplyInventoryResult_effect [OF applied.hyps(3)] show ?case
  proof
    assume "applicable claimed result db' \<and> (\<exists>audit. db'' = applied_db dbnow claimed result now audit db')"
    then have out: "db_outbox db'' = update_where (held claimed) (published_row now) (db_outbox db')"
      by (auto simp: applied_db_def)
    have "leased locked w (published_row now b)" if "leased locked w b" for w b
      using that by (simp add: leased_def published_row_def)
    with lease_held_update [OF _ out] applied show ?case by blast
  qed (use applied in simp)
qed simp


lemma stale_claim_is_refused_facts:
  assumes "reachable db" and "b \<in> set (db_outbox db)"
    and "ob_event_id b = com_EventID (clm_Commit w)" and "ob_operation_id b = com_OperationID (clm_Commit w)"
    and "ob_order_id b = com_OrderID (clm_Commit w)"
    and "ob_claim_token b \<noteq> Some (clm_ClaimToken w) \<or> ob_published_at b \<noteq> None"
    and "reply = Done" and "\<forall>n. replies n = Done"
  shows "RetryInventoryWork reply w next_at code db = (Inl ErrClaimLost, db)"
    and "stage_of db (ob_order_id b) = Some Awaiting \<Longrightarrow>
      res_OperationID result = com_OperationID (clm_Commit w) \<Longrightarrow> res_OrderID result = com_OrderID (clm_Commit w) \<Longrightarrow>
      res_EventID result \<noteq> [] \<Longrightarrow> res_Status result \<in> {InventoryCommitted, InventoryItemsUnavailable} \<Longrightarrow>
      ApplyInventoryResult dbnow replies w result now db = (Inl ErrClaimLost, db)"
proof -
  note keys = coherent_keys [OF reachable_coherent [OF assms(1)]]
  have "affected (held w) (db_outbox db) = 0"
    unfolding affected_0
  proof
    fix x assume x: "x \<in> set (db_outbox db)"
    have "distinct (map ob_event_id (db_outbox db))" using keys by (simp add: keys_ok_def)
    from key_unique [OF this x assms(2)] assms(3,6) show "\<not> held w x" by (auto simp: held_def)
  qed
  then have none: "update_where (held w) f (db_outbox db) = db_outbox db" "\<forall>x \<in> set (db_outbox db). \<not> held w x" for f
    by (simp_all add: update_where_unaffected affected_0)
  then show "RetryInventoryWork reply w next_at code db = (Inl ErrClaimLost, db)"
    using \<open>affected (held w) (db_outbox db) = 0\<close> assms(7)
    by (simp add: RetryInventoryWork_def Let_def update_rows_def held_def [symmetric] list_all_iff)
  assume st: "stage_of db (ob_order_id b) = Some Awaiting"
    and args: "res_OperationID result = com_OperationID (clm_Commit w)" "res_OrderID result = com_OrderID (clm_Commit w)"
      "res_EventID result \<noteq> []" "res_Status result \<in> {InventoryCommitted, InventoryItemsUnavailable}"
  have out: "outbox_of db (ob_order_id b) = Some b" using keys assms(2) by (rule outbox_of_mem)
  with st obtain io where io: "operation_of db (ob_order_id b) = Some io" "op_result_status io = InventoryPending"
    "ob_operation_id b = op_operation_id io"
    by (auto simp: stage_of_def stage_of_rows_def linked_def split: option.splits if_splits FulfillmentStatus.splits)
  then have mem: "io \<in> set (db_operations db)" "op_order_id io = ob_order_id b"
    by (auto simp: operation_of_def dest: find_SomeD)
  have "find (\<lambda>r. op_operation_id r = res_OperationID result \<and> op_order_id r = res_OrderID result)
      (db_operations db) = find (\<lambda>r. op_operation_id r = op_operation_id io) (db_operations db)"
  proof (rule find_cong_set)
    fix r assume "r \<in> set (db_operations db)"
    moreover have "distinct (map op_operation_id (db_operations db))" using keys by (simp add: keys_ok_def)
    ultimately show "(op_operation_id r = res_OperationID result \<and> op_order_id r = res_OrderID result) =
        (op_operation_id r = op_operation_id io)"
      using key_unique [of op_operation_id "db_operations db" r io] mem io(3) args assms(4,5) by auto
  qed
  also have "\<dots> = Some io"
    using keys mem(1) by (intro find_key_Some) (simp_all add: keys_ok_def)
  finally have f1: "find (\<lambda>r. op_operation_id r = res_OperationID result \<and> op_order_id r = res_OrderID result)
      (db_operations db) = Some io" .
  have f2: "find (\<lambda>b. ob_operation_id b = op_operation_id io) (db_outbox db) = Some b"
    using find_key_Some [of ob_operation_id "db_outbox db" b] keys assms(2) io(3) by (simp add: keys_ok_def)
  show "ApplyInventoryResult dbnow replies w result now db = (Inl ErrClaimLost, db)"
    using args io(2) assms(6,8) by (auto simp: ApplyInventoryResult_def in_tx_def apply_body_def f1 [unfolded args(1,2)] f2)
qed

text \<open>
  C26: A worker whose claim was taken over, or whose event was published, can neither reschedule
  the work nor apply a result to the pending operation: both calls answer \<open>ErrClaimLost\<close> and
  change nothing.
\<close>

theorem stale_claim_is_refused:
  assumes "reachable db" and "b \<in> set (db_outbox db)"
    and "ob_event_id b = com_EventID (clm_Commit w)" and "ob_operation_id b = com_OperationID (clm_Commit w)"
    and "ob_order_id b = com_OrderID (clm_Commit w)"
    and "ob_claim_token b \<noteq> Some (clm_ClaimToken w) \<or> ob_published_at b \<noteq> None"
    and "reply = Done" and "\<forall>n. replies n = Done"
  shows "(RetryInventoryWork reply w next_at code db = (Inl ErrClaimLost, db)) \<and>
    (stage_of db (ob_order_id b) = Some Awaiting \<longrightarrow>
      res_OperationID result = com_OperationID (clm_Commit w) \<longrightarrow> res_OrderID result = com_OrderID (clm_Commit w) \<longrightarrow>
      res_EventID result \<noteq> [] \<longrightarrow> res_Status result \<in> {InventoryCommitted, InventoryItemsUnavailable} \<longrightarrow>
      ApplyInventoryResult dbnow replies w result now db = (Inl ErrClaimLost, db))"
  using stale_claim_is_refused_facts(1) [OF assms] stale_claim_is_refused_facts(2) [OF assms] by blast

section \<open>The cashier's operations\<close>

lemma confirmed_order_of: "confirmed db oid \<longleftrightarrow> (\<exists>r. order_of db oid = Some r \<and> or_status r = OrderConfirmed)"
  by (auto simp: confirmed_def order_of_def split: option.splits)

lemma confirmed_fulfilled:
  assumes "coherent db"
  shows "confirmed db oid \<longleftrightarrow> fulfillment_of db oid \<noteq> None"
proof -
  obtain s where s: "stage_of db oid = Some s" using coherent_stage [OF assms] by blast
  show ?thesis
  proof (cases "order_of db oid")
    case None
    with s show ?thesis by (auto simp: confirmed_order_of stage_of_def dest: stage_of_rows_absent)
  next
    case (Some r)
    from stage_of_ordered [OF s Some] show ?thesis
      by (cases s) (auto simp: confirmed_order_of Some)
  qed
qed

lemma cashier_load:
  assumes "coherent db" and "fulfillment_of db oid = Some f" and "\<forall>n. replies n = Done"
  shows "\<exists>order. loadOrder replies n db oid [] True = Inr order \<and> ord_ID order = oid \<and>
    ord_Status order = OrderConfirmed \<and> ord_Fulfillment order = Some (fulfillment_of_row f)"
proof -
  from assms(2) confirmed_fulfilled [OF assms(1)] obtain r where r: "order_of db oid = Some r"
    "or_status r = OrderConfirmed" by (auto simp: confirmed_order_of)
  then have mem: "r \<in> set (db_orders db)" "or_id r = oid" by (auto simp: order_of_def dest: find_SomeD)
  then have "is_user db (or_customer_id r)" using coherent_keys [OF assms(1)] by (simp add: keys_ok_def)
  then obtain u where "find (\<lambda>u. ur_id u = or_customer_id r) (db_users db) = Some u" using find_user by blast
  then have "select_order db oid [] True = Some (order_of_rows r u (Some f) (operation_of db oid))"
    using r assms(2) by (simp add: select_order_Some)
  from loadOrder_Done [OF assms(3) this] show ?thesis
    using r mem by (simp add: order_of_rows_def)
qed

lemma fulfillment_select:
  assumes "coherent db"
  shows "(if confirmed db oid then find (\<lambda>f. fr_order_id f = oid) (db_fulfillments db) else None) =
    fulfillment_of db oid"
  using confirmed_fulfilled [OF assms, of oid] by (auto simp: fulfillment_of_def)

lemma advanced_fulfillment:
  assumes "fulfillment_of db oid = Some f"
  shows "fulfillment_of (advanced_db cashierID oid (fr_status f) target now audit db) oid =
    Some (advanced_row cashierID target now f)"
proof -
  have "fr_order_id (advanced_row cashierID target now g) = fr_order_id g" for g
    by (simp add: advanced_row_def Let_def)
  then show ?thesis
    using assms by (auto simp: fulfillment_of_def advanced_db_def row_simps dest: find_SomeD)
qed

lemma affected_fulfillment:
  assumes "keys_ok db" and "fulfillment_of db oid = Some f"
  shows "affected (\<lambda>g. fr_order_id g = oid \<and> fr_status g = fr_status f) (db_fulfillments db) = 1"
  using assms affected_key [of fr_order_id "db_fulfillments db" oid "\<lambda>g. fr_status g = fr_status f"]
  by (simp add: keys_ok_def fulfillment_of_def)

lemma advance_update_Done:
  assumes "coherent db" and f: "fulfillment_of db oid = Some f"
    and nxt: "target = NextAction (fr_status f)" "fr_status f \<in> {FulfillmentPreparing, FulfillmentDelivering}"
    and ok: "fulfillment_check f" "fr_version f + 1 < 2 ^ 31" "user_or_null db (fr_read_by f)" "is_user db cashierID"
      "\<forall>t. target = FulfillmentDelivered \<longrightarrow> fr_delivering_at f = Some t \<longrightarrow> t \<le> now"
  shows "advance_update cashierID oid target now db =
    Inr (advanced_db cashierID oid (fr_status f) target now (db_audit db) db, 1)"
proof -
  have "distinct (map fr_order_id (db_fulfillments db))"
    using coherent_keys [OF assms(1)] by (rule keys_fulfillment)
  moreover have "f \<in> set (db_fulfillments db)" "fr_order_id f = oid"
    using f by (auto simp: fulfillment_of_def dest: find_SomeD)
  ultimately have "g = f" if "g \<in> set (db_fulfillments db)" "fr_order_id g = oid" for g
    using that by (auto dest: key_unique)
  moreover have "fulfillment_check (advanced_row cashierID target now f)"
    using nxt ok(1,2,5) by (auto simp: fulfillment_check_def advanced_row_def Let_def NextAction_def)
  moreover have "fr_read_by (advanced_row cashierID target now f) = fr_read_by f"
    "fr_updated_by (advanced_row cashierID target now f) = Some cashierID"
    by (simp_all add: advanced_row_def Let_def)
  ultimately have "\<forall>g \<in> set (db_fulfillments db). fr_order_id g = oid \<and> fr_status g = fr_status f \<longrightarrow>
      fulfillment_check (advanced_row cashierID target now g) \<and>
      user_or_null db (fr_read_by (advanced_row cashierID target now g)) \<and>
      user_or_null db (fr_updated_by (advanced_row cashierID target now g))"
    using ok(3,4) by (metis user_or_null_def option.case(2))
  then show ?thesis
    unfolding advance_update_next [OF nxt] update_fulfillments_Inr advanced_db_def
    using affected_fulfillment [OF coherent_keys [OF assms(1)] f] by simp
qed

lemma advance_fulfillment_spec_facts:
  assumes "reachable db" and "\<forall>n. replies n = Done"
  shows "fulfillment_of db oid = None \<Longrightarrow>
      AdvanceFulfillment replies cashierID oid target now db = (Inl ErrNotFound, db)"
    and "fulfillment_of db oid = Some f \<Longrightarrow> ValidateFulfillmentTarget (fr_status f) target \<noteq> None \<Longrightarrow>
      AdvanceFulfillment replies cashierID oid target now db = (Inl ErrInvalidTransition, db)"
    and "fulfillment_of db oid = Some f \<Longrightarrow> fr_status f = target \<Longrightarrow>
      target \<in> {FulfillmentDelivering, FulfillmentDelivered} \<Longrightarrow>
      \<exists>order. AdvanceFulfillment replies cashierID oid target now db = (Inr order, db) \<and> ord_ID order = oid \<and>
        ord_Fulfillment order = Some (fulfillment_of_row f)"
    and "fulfillment_of db oid = Some f \<Longrightarrow> target = NextAction (fr_status f) \<Longrightarrow>
      fr_status f \<in> {FulfillmentPreparing, FulfillmentDelivering} \<Longrightarrow>
      fulfillment_check f \<Longrightarrow> fr_version f + 1 < 2 ^ 31 \<Longrightarrow> user_or_null db (fr_read_by f) \<Longrightarrow>
      is_user db cashierID \<Longrightarrow> text_between 1 255 oid \<Longrightarrow>
      \<forall>t. target = FulfillmentDelivered \<longrightarrow> fr_delivering_at f = Some t \<longrightarrow> t \<le> now \<Longrightarrow>
      \<exists>order g db'. AdvanceFulfillment replies cashierID oid target now db = (Inr order, db') \<and>
        ord_Fulfillment order = Some g \<and> ful_Status g = target \<and> ful_Version g = fr_version f + 1 \<and>
        ful_UpdatedBy g = cashierID \<and>
        stage_of db' oid = Some (if target = FulfillmentDelivering then Delivering else Delivered)"
proof -
  note coh = reachable_coherent [OF assms(1)]
  note sel = fulfillment_select [OF coh, of oid]
  show "AdvanceFulfillment replies cashierID oid target now db = (Inl ErrNotFound, db)"
    if "fulfillment_of db oid = None"
    using that assms(2) by (simp add: AdvanceFulfillment_def in_tx_def advance_body_def sel)
  show "AdvanceFulfillment replies cashierID oid target now db = (Inl ErrInvalidTransition, db)"
    if "fulfillment_of db oid = Some f" "ValidateFulfillmentTarget (fr_status f) target \<noteq> None"
    using that assms(2) by (auto simp: AdvanceFulfillment_def in_tx_def advance_body_def sel
        dest: ValidateFulfillmentTarget_Some)
  show "\<exists>order. AdvanceFulfillment replies cashierID oid target now db = (Inr order, db) \<and> ord_ID order = oid \<and>
        ord_Fulfillment order = Some (fulfillment_of_row f)"
    if "fulfillment_of db oid = Some f" "fr_status f = target" "target \<in> {FulfillmentDelivering, FulfillmentDelivered}"
  proof -
    from cashier_load [OF coh that(1) assms(2), of 2] obtain order where
      load: "loadOrder replies 2 db oid [] True = Inr order" "ord_ID order = oid"
        "ord_Fulfillment order = Some (fulfillment_of_row f)" by blast
    have "ValidateFulfillmentTarget (fr_status f) target = None"
      using that(2,3) by (auto simp: ValidateFulfillmentTarget_def)
    then have "AdvanceFulfillment replies cashierID oid target now db = (Inr order, db)"
      using that(1,2) assms(2) load(1) by (simp add: AdvanceFulfillment_def in_tx_def advance_body_def sel)
    with load show ?thesis by blast
  qed
  assume f: "fulfillment_of db oid = Some f"
    and nxt: "target = NextAction (fr_status f)" "fr_status f \<in> {FulfillmentPreparing, FulfillmentDelivering}"
    and ok: "fulfillment_check f" "fr_version f + 1 < 2 ^ 31" "user_or_null db (fr_read_by f)" "is_user db cashierID"
    and tid: "text_between 1 255 oid"
    and late: "\<forall>t. target = FulfillmentDelivered \<longrightarrow> fr_delivering_at f = Some t \<longrightarrow> t \<le> now"
  define r where "r = \<lparr>au_actor = Some cashierID, au_action = ''FULFILLMENT_ADVANCED'', au_target_id = oid,
    au_details = [(''from'', fulfillment_name (fr_status f)), (''to'', fulfillment_name target)], au_occurred_at = now\<rparr>"
  define new where "new = advanced_db cashierID oid (fr_status f) target now (db_audit db @ [r]) db"
  have upd: "advance_update cashierID oid target now db =
      Inr (advanced_db cashierID oid (fr_status f) target now (db_audit db) db, 1)"
    by (rule advance_update_Done [OF coh f nxt ok late])
  have audit: "insert_audit (advanced_db cashierID oid (fr_status f) target now (db_audit db) db) r = Inr new"
    using ok(4) tid by (auto simp: insert_audit_Inr r_def new_def advanced_db_def audit_check_def user_or_null_def
        is_user_def text_between_ascii byte_def)
  have stage: "coherent new \<and> advances db new"
    unfolding new_def nxt(1) by (rule advance_advances [OF coh f nxt(2)])
  have ful: "fulfillment_of new oid = Some (advanced_row cashierID target now f)"
    unfolding new_def by (rule advanced_fulfillment [OF f])
  from cashier_load [OF conjunct1 [OF stage] ful assms(2), of 4] obtain order where
    load: "loadOrder replies 4 new oid [] True = Inr order"
      "ord_Fulfillment order = Some (fulfillment_of_row (advanced_row cashierID target now f))" by blast
  have ne: "fr_status f \<noteq> target" "ValidateFulfillmentTarget (fr_status f) target = None"
    using nxt by (auto simp: NextAction_def ValidateFulfillmentTarget_def)
  have run: "AdvanceFulfillment replies cashierID oid target now db = (Inr order, new)"
    using assms(2) ne f upd audit load(1)
    by (simp add: AdvanceFulfillment_def in_tx_def advance_body_def sel r_def stmt_def)
  obtain s' where s': "stage_of new oid = Some s'" using coherent_stage stage by blast
  from stage_of_fulfilled [OF s' ful]
  have "s' = (if target = FulfillmentDelivering then Delivering else Delivered)"
    using nxt by (auto simp: NextAction_def advanced_row_def Let_def split: if_splits)
  with run s' load(2) show "\<exists>order g db'. AdvanceFulfillment replies cashierID oid target now db = (Inr order, db') \<and>
        ord_Fulfillment order = Some g \<and> ful_Status g = target \<and> ful_Version g = fr_version f + 1 \<and>
        ful_UpdatedBy g = cashierID \<and>
        stage_of db' oid = Some (if target = FulfillmentDelivering then Delivering else Delivered)"
    by (auto simp: fulfillment_of_row_def advanced_row_def Let_def)
qed

text \<open>
  C27: Advancing a fulfilment, branch by branch: an order that is not confirmed is not found; a
  target that is neither the next action nor a repetition of a reached delivery stage is an
  invalid transition; a repetition returns the order and changes nothing; and the next action is
  taken, once, with the version counted up and the cashier recorded.
\<close>

theorem advance_fulfillment_spec:
  assumes "reachable db" and "\<forall>n. replies n = Done"
  shows "(fulfillment_of db oid = None \<longrightarrow>
      AdvanceFulfillment replies cashierID oid target now db = (Inl ErrNotFound, db)) \<and>
    (fulfillment_of db oid = Some f \<longrightarrow> ValidateFulfillmentTarget (fr_status f) target \<noteq> None \<longrightarrow>
      AdvanceFulfillment replies cashierID oid target now db = (Inl ErrInvalidTransition, db)) \<and>
    (fulfillment_of db oid = Some f \<longrightarrow> fr_status f = target \<longrightarrow>
      target \<in> {FulfillmentDelivering, FulfillmentDelivered} \<longrightarrow>
      (\<exists>order. AdvanceFulfillment replies cashierID oid target now db = (Inr order, db) \<and> ord_ID order = oid \<and>
        ord_Fulfillment order = Some (fulfillment_of_row f))) \<and>
    (fulfillment_of db oid = Some f \<longrightarrow> target = NextAction (fr_status f) \<longrightarrow>
      fr_status f \<in> {FulfillmentPreparing, FulfillmentDelivering} \<longrightarrow>
      fulfillment_check f \<longrightarrow> fr_version f + 1 < 2 ^ 31 \<longrightarrow> user_or_null db (fr_read_by f) \<longrightarrow>
      is_user db cashierID \<longrightarrow> text_between 1 255 oid \<longrightarrow>
      (\<forall>t. target = FulfillmentDelivered \<longrightarrow> fr_delivering_at f = Some t \<longrightarrow> t \<le> now) \<longrightarrow>
      (\<exists>order g db'. AdvanceFulfillment replies cashierID oid target now db = (Inr order, db') \<and>
        ord_Fulfillment order = Some g \<and> ful_Status g = target \<and> ful_Version g = fr_version f + 1 \<and>
        ful_UpdatedBy g = cashierID \<and>
        stage_of db' oid = Some (if target = FulfillmentDelivering then Delivering else Delivered)))"
  by (intro conjI impI)
    ((rule advance_fulfillment_spec_facts(1) [OF assms], assumption) |
     (rule advance_fulfillment_spec_facts(2) [OF assms], assumption+) |
     (rule advance_fulfillment_spec_facts(3) [OF assms], assumption+) |
     (rule advance_fulfillment_spec_facts(4) [OF assms], assumption+))+

section \<open>Pages\<close>

lemma filter_drop_sorted:
  fixes key :: "'r \<Rightarrow> 'k::linorder"
  assumes "sorted_wrt (\<lambda>x y. key y < key x) rs" and "k < length rs"
  shows "filter (\<lambda>r. key r < key (rs ! k)) rs = drop (Suc k) rs"
proof -
  let ?a = "rs ! k"
  have rs: "rs = take k rs @ ?a # drop (Suc k) rs" using assms(2) by (rule id_take_nth_drop)
  with assms(1) have s: "sorted_wrt (\<lambda>x y. key y < key x) (take k rs @ ?a # drop (Suc k) rs)" by simp
  then have "\<forall>x \<in> set (take k rs). key ?a < key x" "\<forall>y \<in> set (drop (Suc k) rs). key y < key ?a"
    by (auto simp: sorted_wrt_append)
  then have "filter (\<lambda>r. key r < key ?a) (take k rs) = []"
    "filter (\<lambda>r. key r < key ?a) (drop (Suc k) rs) = drop (Suc k) rs"
    by (auto simp: filter_empty_conv filter_id_conv dest: less_asym)
  then have "filter (\<lambda>r. key r < key ?a) (take k rs @ ?a # drop (Suc k) rs) = drop (Suc k) rs" by simp
  with rs show ?thesis by metis
qed

lemma newest_first_filter: "newest_first (filter P rows) = filter P (newest_first rows)"
  by (simp add: newest_first_def filter_sort rev_filter [symmetric])

lemma newest_first_sorted:
  assumes "distinct (map or_id rows)"
  shows "sorted_wrt (\<lambda>x y. page_key y < page_key x) (newest_first rows)"
proof -
  have "distinct (map page_key (sort_key page_key rows))"
    using assms by (auto simp: distinct_map_sort_key distinct_map page_key_def inj_on_def)
  then have "sorted_wrt (<) (map page_key (sort_key page_key rows))"
    by (simp add: strict_sorted_iff)
  then show ?thesis by (simp add: newest_first_def sorted_wrt_rev sorted_wrt_map)
qed

lemma newest_first_set [simp]: "set (newest_first rows) = set rows"
  by (simp add: newest_first_def)

lemma page_after:
  assumes "distinct (map or_id rows)" and "k < length (newest_first (filter P rows))"
    and "a = newest_first (filter P rows) ! k"
  shows "newest_first (filter (\<lambda>r. P r \<and> after_anchor (Some a) r) rows) = drop (Suc k) (newest_first (filter P rows))"
proof -
  have "newest_first (filter (\<lambda>r. P r \<and> after_anchor (Some a) r) rows) =
      filter (\<lambda>r. page_key r < page_key a) (newest_first (filter P rows))"
    by (simp add: after_anchor_def newest_first_filter conj_commute)
  also have "\<dots> = drop (Suc k) (newest_first (filter P rows))"
    unfolding assms(3)
    by (rule filter_drop_sorted [OF newest_first_sorted assms(2)]) (simp add: distinct_map_filter assms(1))
  finally show ?thesis .
qed

definition customer_listing :: "order_db \<Rightarrow> string \<Rightarrow> string list" where
  "customer_listing db customerID =
     map or_id (newest_first (filter (\<lambda>r. or_customer_id r = customerID) (db_orders db)))"

lemma customer_pages_partition_facts:
  assumes "reachable db"
  shows "customer_page db customerID limit [] = take limit (customer_listing db customerID)"
    and "k < length (customer_listing db customerID) \<Longrightarrow> customer_listing db customerID ! k \<noteq> [] \<Longrightarrow>
      customer_page db customerID limit (customer_listing db customerID ! k) =
        take limit (drop (Suc k) (customer_listing db customerID))"
    and "set (customer_listing db customerID) = or_id ` {r \<in> set (db_orders db). or_customer_id r = customerID}"
    and "distinct (customer_listing db customerID)"
proof -
  let ?P = "\<lambda>r. or_customer_id r = customerID"
  let ?rs = "newest_first (filter ?P (db_orders db))"
  have dist: "distinct (map or_id (db_orders db))"
    using coherent_keys [OF reachable_coherent [OF assms]] by (simp add: keys_ok_def)
  show "customer_page db customerID limit [] = take limit (customer_listing db customerID)"
    by (simp add: customer_page_def customer_listing_def take_map)
  show "set (customer_listing db customerID) = or_id ` {r \<in> set (db_orders db). ?P r}"
    by (auto simp: customer_listing_def)
  show "distinct (customer_listing db customerID)"
    using dist by (simp add: customer_listing_def newest_first_def distinct_map_sort_key distinct_map_filter
        flip: rev_map)
  assume k: "k < length (customer_listing db customerID)" "customer_listing db customerID ! k \<noteq> []"
  then have kr: "k < length ?rs" by (simp add: customer_listing_def)
  let ?a = "?rs ! k"
  have a: "?a \<in> set (db_orders db)" "or_customer_id ?a = customerID"
    using nth_mem [OF kr] by simp_all
  have id: "customer_listing db customerID ! k = or_id ?a" using kr by (simp add: customer_listing_def)
  have "find (\<lambda>x. or_id x = or_id ?a \<and> or_customer_id x = customerID) (db_orders db) =
      find (\<lambda>x. or_id x = or_id ?a) (db_orders db)"
    using key_unique [OF dist] a by (intro find_cong_set) metis
  also have "\<dots> = Some ?a" using dist a(1) by (rule find_key_Some)
  finally have anchor: "find (\<lambda>x. or_id x = or_id ?a \<and> or_customer_id x = customerID) (db_orders db) = Some ?a" .
  show "customer_page db customerID limit (customer_listing db customerID ! k) =
      take limit (drop (Suc k) (customer_listing db customerID))"
    using k(2) page_after [OF dist kr refl]
    unfolding customer_page_def id anchor by (simp add: customer_listing_def take_map drop_map)
qed

text \<open>
  The pages of a customer's orders are consecutive slices of one listing, newest first: the
  first page is its first entries, and the page after any entry continues right behind it, so
  that walking the pages shows every order of the customer once and no one else's.
\<close>

theorem customer_pages_partition:
  assumes "reachable db"
  shows "(customer_page db customerID limit [] = take limit (customer_listing db customerID)) \<and>
    (k < length (customer_listing db customerID) \<longrightarrow> customer_listing db customerID ! k \<noteq> [] \<longrightarrow>
      customer_page db customerID limit (customer_listing db customerID ! k) =
        take limit (drop (Suc k) (customer_listing db customerID))) \<and>
    (set (customer_listing db customerID) = or_id ` {r \<in> set (db_orders db). or_customer_id r = customerID}) \<and>
    (distinct (customer_listing db customerID))"
  using customer_pages_partition_facts(1) [OF assms] customer_pages_partition_facts(2) [OF assms] customer_pages_partition_facts(3) [OF assms] customer_pages_partition_facts(4) [OF assms] by blast

section \<open>Reading\<close>

text \<open>
  The first cashier to read an order is the one on record: marking it again, by anyone at any
  time, returns the order and changes nothing.
\<close>

theorem read_marked_once:
  assumes "reachable db" and "MarkCashierRead replies cashierID oid now db = (Inr order, db')"
    and "\<forall>n. replies2 n = Done"
  shows "\<exists>order2 g. MarkCashierRead replies2 cashierID2 oid now2 db' = (Inr order2, db') \<and>
    ord_ID order2 = oid \<and> ord_Fulfillment order2 = Some g \<and> \<not> ful_Unread g \<and>
    ord_Fulfillment order = Some g"
proof -
  have step: "order_step db db'" using assms(2) by (rule order_step.read)
  have coh: "coherent db'" using assms(1) step by (blast intro: reachable_coherent reachable.step)
  let ?P = "\<lambda>f. fr_order_id f = oid \<and> confirmed db (fr_order_id f) \<and> fr_read_at f = None"
  from assms(2) obtain n where "mark_read_body replies cashierID oid now db = Inr (order, db', n)"
    by (auto simp: MarkCashierRead_def in_tx_Inr)
  then obtain db1 rows m where upd: "update_fulfillments ?P
        (\<lambda>f. f\<lparr>fr_read_at := Some now, fr_read_by := Some cashierID\<rparr>) db = Inr (db1, rows)"
    and "db' = db1 \<or> (\<exists>r. insert_audit db1 r = Inr db')"
    and load: "loadOrder replies m db' oid [] True = Inr order"
    by (auto simp: mark_read_body_def sum_bind_Inr Let_def split: if_splits)
  then have same: "db_fulfillments db' = db_fulfillments db1" "db_orders db' = db_orders db"
    by (auto simp: insert_audit_Inr update_fulfillments_Inr)
  from load obtain f where f: "fulfillment_of db' oid = Some f" and of: "ord_Fulfillment order = Some (fulfillment_of_row f)"
    by (auto simp: loadOrder_Inr select_order_Some order_of_rows_def)
  from f have fm: "f \<in> set (db_fulfillments db')" "fr_order_id f = oid"
    by (auto simp: fulfillment_of_def dest: find_SomeD)
  have "confirmed db' oid" using f confirmed_fulfilled [OF coh] by simp
  then have conf: "confirmed db oid" using same(2) by (simp add: confirmed_def)
  have "db_fulfillments db1 = update_where ?P (\<lambda>f. f\<lparr>fr_read_at := Some now, fr_read_by := Some cashierID\<rparr>)
      (db_fulfillments db)" using upd unfolding update_fulfillments_Inr by simp
  then have rows: "set (db_fulfillments db') = (\<lambda>f. if ?P f
      then f\<lparr>fr_read_at := Some now, fr_read_by := Some cashierID\<rparr> else f) ` set (db_fulfillments db)"
    by (simp only: same(1) set_update_where)
  have read: "fr_read_at g \<noteq> None" if g: "g \<in> set (db_fulfillments db')" "fr_order_id g = oid" for g
  proof -
    from g(1) obtain f where "f \<in> set (db_fulfillments db)"
      "g = (if ?P f then f\<lparr>fr_read_at := Some now, fr_read_by := Some cashierID\<rparr> else f)"
      unfolding rows by blast
    with g(2) conf show ?thesis by (cases "?P f") (auto split: if_splits)
  qed
  let ?P2 = "\<lambda>f. fr_order_id f = oid \<and> confirmed db' (fr_order_id f) \<and> fr_read_at f = None"
  have noP: "\<forall>g \<in> set (db_fulfillments db'). \<not> ?P2 g" using read by blast
  then have none: "affected ?P2 (db_fulfillments db') = 0" by (simp only: affected_0)
  then have "update_fulfillments ?P2 (\<lambda>f. f\<lparr>fr_read_at := Some now2, fr_read_by := Some cashierID2\<rparr>) db' = Inr (db', 0)"
    unfolding update_fulfillments_Inr update_where_unaffected [OF none] none using noP by auto
  moreover from cashier_load [OF coh f assms(3), of 2] obtain order2 where
    "loadOrder replies2 2 db' oid [] True = Inr order2" "ord_ID order2 = oid"
    "ord_Fulfillment order2 = Some (fulfillment_of_row f)" by blast
  ultimately have "MarkCashierRead replies2 cashierID2 oid now2 db' = (Inr order2, db')"
    using assms(3) by (simp add: MarkCashierRead_def in_tx_def mark_read_body_def)
  with \<open>ord_ID order2 = oid\<close> \<open>ord_Fulfillment order2 = Some (fulfillment_of_row f)\<close> of read [OF fm]
  show ?thesis by (auto simp: fulfillment_of_row_def)
qed

end
