(* ===== verification/Order_Samples.thy ===== *)
theory Order_Samples
  imports Order_Guarantees
begin

text \<open>
  One small history of the store, evaluated: an order for two teas is placed, its work is
  claimed, and the inventory's answer is applied, either way; a cashier reads and advances it.
  The properties of \<open>Order_Lifecycle\<close> and \<open>Order_Guarantees\<close> are instantiated on it.
\<close>

section \<open>The history\<close>

definition store_draft :: OrderDraft where
  "store_draft =
     \<lparr>draft_Order = \<lparr>ord_ID = ''aaaaaaaa-0000-4000-8000-000000000001'', ord_CheckoutID = ''dddddddd-0000-4000-8000-000000000001'', ord_CustomerID = ''cccccccc-0000-4000-8000-000000000001'', ord_CustomerName = [],
        ord_Status = OrderSubmitted, ord_RejectionCode = [], ord_SubtotalCentavos = 300,
        ord_DeliveryFeeCentavos = 0, ord_TotalCentavos = 300, ord_DeliveryAddress = ''1 Main St'',
        ord_DeliveryNotes = [],
        ord_Lines = [\<lparr>line_ID = ''l1'', line_ProductID = ''tea'', line_ProductName = ''Tea'',
          line_UnitPriceCentavos = 150, line_Quantity = 2, line_LineTotalCentavos = 300\<rparr>],
        ord_Fulfillment = None, ord_UnavailableItems = [], ord_CreatedAt = 10, ord_UpdatedAt = 10\<rparr>,
      draft_CheckoutFingerprint = replicate 64 CHR ''f'', draft_EventID = ''e1'',
      draft_OperationID = ''p1'', draft_OccurredAt = 10\<rparr>"

definition db0 :: order_db where
  "db0 = empty_db [\<lparr>ur_id = ''cccccccc-0000-4000-8000-000000000001'', ur_name = ''Ann''\<rparr>, \<lparr>ur_id = ''bbbbbbbb-0000-4000-8000-000000000001'', ur_name = ''Sam''\<rparr>]"

definition all_done :: "nat \<Rightarrow> reply" where "all_done n = Done"
definition stamp :: "int \<Rightarrow> string" where "stamp t = ''now''"


lemma store_draft_placeable: "placeable store_draft db0"
  unfolding placeable_def
proof (intro conjI)
  show "order_check (order_row_of store_draft)"
    by (simp add: order_check_def order_row_of_def store_draft_def Let_def pg_text_ascii text_between_ascii
        btrim_def byte_def in64_def max_int64_def)
  show "\<forall>r\<in>set (line_rows store_draft). line_check r \<and> (\<forall>x\<in>set (db_lines db0). \<not> line_clash x r)"
    by (simp add: line_check_def line_rows_def store_draft_def Let_def pg_text_ascii text_between_ascii
        btrim_def byte_def in64_def max_int64_def db0_def empty_db_def)
  show "audit_check (placed_audit store_draft)"
    by (simp add: audit_check_def placed_audit_def store_draft_def text_between_ascii byte_def)
  show "is_user db0 (ord_CustomerID (draft_Order store_draft))"
    by (simp add: is_user_def db0_def empty_db_def store_draft_def)
qed (simp_all add: db0_def empty_db_def line_rows_def store_draft_def)

definition db1 :: order_db where "db1 = placed_db stamp store_draft db0"

lemma placed_sample: "PlaceOrder stamp all_done db0 store_draft db0 =
   (Inr \<lparr>placed_Order = draft_Order store_draft, placed_Replayed = False\<rparr>, db1)"
  unfolding db1_def by (rule PlaceOrder_placeable [OF store_draft_placeable]) (simp_all add: all_done_def findCheckout_def db0_def empty_db_def)

definition sample_work :: ClaimedInventoryWork where
  "sample_work = \<lparr>clm_Commit = \<lparr>com_EventID = ''e1'', com_OperationID = ''p1'', com_OrderID = ''aaaaaaaa-0000-4000-8000-000000000001'', com_OccurredAt = 10,
     com_Items = [\<lparr>it_OrderLineID = ''l1'', it_ProductID = ''tea'', it_Quantity = 2\<rparr>]\<rparr>,
     clm_ClaimToken = ''t1'', clm_AttemptCount = 1\<rparr>"

definition db2 :: order_db where
  "db2 = db1\<lparr>db_outbox := [claim_row (\<lambda>_. ''t1'') 20 (outbox_row_of stamp store_draft)]\<rparr>"

lemma claimed_sample:
  "ClaimInventoryWork (\<lambda>_. Some 10) (\<lambda>_. False) (\<lambda>_. ''t1'') id Done 20 30 5 db1 = (Inr [sample_work], db2)"
  by (simp add: ClaimInventoryWork_def claim_candidates_def db2_def db1_def placed_db_def db0_def empty_db_def
      outbox_row_of_def draft_payload_wire_def store_draft_def update_rows_def outbox_check_def claim_row_def
      Let_def sample_work_def item_of_wire_def update_where_def)

definition sample_decision :: "InventoryResultStatus \<Rightarrow> UnavailableItem list \<Rightarrow> InventoryResult" where
  "sample_decision status items = \<lparr>res_EventID = ''r1'', res_OperationID = ''p1'', res_OrderID = ''aaaaaaaa-0000-4000-8000-000000000001'',
     res_Status = status, res_OccurredAt = 15, res_UnavailableItems = items\<rparr>"

definition short_tea :: "UnavailableItem list" where
  "short_tea = [\<lparr>un_OrderLineID = ''l1'', un_ProductID = ''tea'', un_RequestedQuantity = 2, un_AvailableQuantity = 1\<rparr>]"

definition applied_audit :: "InventoryResultStatus \<Rightarrow> audit_row list" where
  "applied_audit status = [placed_audit store_draft,
     \<lparr>au_actor = None, au_action = (if status = InventoryItemsUnavailable
        then ''ORDER_REJECTED_ITEMS_UNAVAILABLE'' else ''INVENTORY_COMMITTED''),
      au_target_id = ''aaaaaaaa-0000-4000-8000-000000000001'', au_details = [(''operation_id'', ''p1'')], au_occurred_at = 21\<rparr>]"

definition db_rejected :: order_db where
  "db_rejected = applied_db 22 sample_work (sample_decision InventoryItemsUnavailable short_tea) 21
     (applied_audit InventoryItemsUnavailable) db2"

definition db_confirmed :: order_db where
  "db_confirmed = applied_db 22 sample_work (sample_decision InventoryCommitted []) 21
     (applied_audit InventoryCommitted) db2"

lemmas sample_rows = db2_def db1_def placed_db_def db0_def empty_db_def outbox_row_of_def operation_row_of_def
  order_row_of_def draft_payload_wire_def store_draft_def sample_work_def sample_decision_def
lemmas sample_text = pg_text_ascii text_between_ascii btrim_def byte_def in64_def max_int64_def

lemma rejected_sample:
  "ApplyInventoryResult 22 all_done sample_work (sample_decision InventoryItemsUnavailable short_tea) 21 db2 =
     (Inr (), db_rejected)"
  by (simp add: ApplyInventoryResult_def in_tx_def all_done_def apply_body_def apply_pending_def apply_business_def
      sample_rows claim_row_def Let_def update_operation_def update_rows_def operation_check_def update_submitted_def
      order_check_def insert_audit_def insert_row_def audit_check_def publish_outbox_def outbox_check_def
      sample_text db_rejected_def applied_db_def applied_audit_def placed_audit_def decided_operation_def
      decided_order_def held_def published_row_def stmt_def short_tea_def marshal_items_def is_array_def RejectionItemsUnavailable_def)

lemma confirmed_sample:
  "ApplyInventoryResult 22 all_done sample_work (sample_decision InventoryCommitted []) 21 db2 =
     (Inr (), db_confirmed)"
  by (simp add: ApplyInventoryResult_def in_tx_def all_done_def apply_body_def apply_pending_def apply_business_def
      sample_rows claim_row_def Let_def update_operation_def update_rows_def operation_check_def update_submitted_def
      order_check_def insert_audit_def insert_row_def audit_check_def publish_outbox_def outbox_check_def
      sample_text db_confirmed_def applied_db_def applied_audit_def placed_audit_def decided_operation_def
      decided_order_def held_def published_row_def stmt_def insert_fulfillment_def fulfillment_check_def has_order_def new_fulfillment_def)

lemma reachable_samples: "reachable db0" "reachable db1" "reachable db2"
proof -
  show r0: "reachable db0" unfolding db0_def by (rule reachable.start)
  show r1: "reachable db1" using r0 order_step.place [OF placed_sample] by (rule reachable.step)
  show "reachable db2" using r1 order_step.claim [OF claimed_sample] by (rule reachable.step)
qed

lemma genuine_sample: "genuine db2 sample_work"
  by (simp add: genuine_def sample_rows claim_row_def)

lemma reachable_decided: "reachable db_rejected" "reachable db_confirmed"
  using reachable_samples(3) order_step.applied [OF genuine_sample rejected_sample]
    order_step.applied [OF genuine_sample confirmed_sample] by (blast intro: reachable.step)+

lemma sample_stages:
  "stage_of db1 ''aaaaaaaa-0000-4000-8000-000000000001'' = Some Awaiting" "stage_of db2 ''aaaaaaaa-0000-4000-8000-000000000001'' = Some Awaiting"
  "stage_of db_rejected ''aaaaaaaa-0000-4000-8000-000000000001'' = Some Rejected" "stage_of db_confirmed ''aaaaaaaa-0000-4000-8000-000000000001'' = Some Preparing"
  by (simp_all add: stage_of_def stage_of_rows_def lookups linked_def sample_rows claim_row_def db_rejected_def
      db_confirmed_def applied_db_def decided_operation_def decided_order_def held_def published_row_def
      new_fulfillment_def)

lemma sample_fulfillment:
  "fulfillment_of db_confirmed ''aaaaaaaa-0000-4000-8000-000000000001'' = Some (new_fulfillment (sample_decision InventoryCommitted []))"
  by (simp add: fulfillment_of_def db_confirmed_def applied_db_def sample_rows new_fulfillment_def)

lemma all_done: "\<forall>n. all_done n = Done"
  by (simp add: all_done_def)

section \<open>Witnesses\<close>

theorem PlaceOrder_atomic_witness:
  "db1 = placed_db stamp store_draft db0 \<and>
   fst (PlaceOrder stamp all_done db0 store_draft db0) =
     Inr \<lparr>placed_Order = draft_Order store_draft, placed_Replayed = False\<rparr>"
  using PlaceOrder_atomic [OF placed_sample, of "\<lparr>placed_Order = draft_Order store_draft, placed_Replayed = False\<rparr>"] by (simp add: placed_sample)

theorem PlaceOrder_idempotent_witness:
  "\<exists>stored. PlaceOrder stamp all_done db0 store_draft db1 =
      (Inr \<lparr>placed_Order = stored, placed_Replayed = True\<rparr>, db1) \<and>
   PlaceOrder stamp all_done db1 (store_draft\<lparr>draft_CheckoutFingerprint := replicate 64 CHR ''g''\<rparr>) db1 =
      (Inl ErrCheckoutConflict, db1)"
proof -
  have k: "keys_ok db1" using reachable_samples(2) by (blast dest: reachable_coherent coherent_keys)
  have r: "order_row_of store_draft \<in> set (db_orders db1)" by (simp add: db1_def placed_db_def)
  have c: "order_check (order_row_of store_draft)"
    using store_draft_placeable by (simp add: placeable_def)
  have c2: "order_check (order_row_of (store_draft\<lparr>draft_CheckoutFingerprint := replicate 64 CHR ''g''\<rparr>))"
    by (simp add: order_check_def order_row_of_def store_draft_def Let_def sample_text)
  have none: "findCheckout db0 ''dddddddd-0000-4000-8000-000000000001'' = None" by (simp add: findCheckout_def db0_def empty_db_def)
  show ?thesis
    using PlaceOrder_idempotent [OF k r, of store_draft db0 all_done stamp]
      PlaceOrder_idempotent [OF k r, of "store_draft\<lparr>draft_CheckoutFingerprint := replicate 64 CHR ''g''\<rparr>" db1
        all_done stamp] c c2 none all_done
    by (auto simp: store_draft_def)
qed

theorem store_refines_stages_witness:
  "\<exists>s s'. stage_of db0 ''aaaaaaaa-0000-4000-8000-000000000001'' = Some s \<and> stage_of db1 ''aaaaaaaa-0000-4000-8000-000000000001'' = Some s' \<and> (s' = s \<or> stage_step s s')"
  by (rule store_refines_stages [OF reachable_samples(1) order_step.place [OF placed_sample]])

theorem decisions_are_final_witness:
  "stage_of (db_rejected\<lparr>db_users := db_users db_rejected @ [\<lparr>ur_id = ''c2'', ur_name = ''Bea''\<rparr>]\<rparr>) ''aaaaaaaa-0000-4000-8000-000000000001'' = Some Rejected"
  using decisions_are_final [OF later.more [OF later.same order_step.register] reachable_decided(1), of "''aaaaaaaa-0000-4000-8000-000000000001''"
      "\<lparr>ur_id = ''c2'', ur_name = ''Bea''\<rparr>"] sample_stages(3) by simp

theorem customer_state_of_stage_witness:
  "\<exists>order. loadOrder all_done 0 db_confirmed ''aaaaaaaa-0000-4000-8000-000000000001'' [] True = Inr order \<and>
     (\<exists>s c. stage_of db_confirmed ''aaaaaaaa-0000-4000-8000-000000000001'' = Some s \<and> customer_view s = Some c \<and> CustomerState order = Inr c)"
  using cashier_load [OF reachable_coherent [OF reachable_decided(2)] sample_fulfillment all_done, of 0]
    customer_state_of_stage [OF reachable_decided(2)] by blast

theorem apply_result_once_witness:
  "ApplyInventoryResult 30 all_done sample_work (sample_decision InventoryItemsUnavailable short_tea) 31 db_rejected =
     (Inr (), db_rejected) \<and>
   ApplyInventoryResult 30 all_done sample_work (sample_decision InventoryCommitted []) 31 db_rejected =
     (Inl ErrOperationConflict, db_rejected)"
  using apply_result_once [OF rejected_sample, where ?claimed2.0 = sample_work and ?replies2.0 = all_done and
      ?dbnow2.0 = 30 and ?now2.0 = 31 and ?result2.0 = "sample_decision InventoryCommitted []"]
  by (simp add: sample_decision_def sample_work_def all_done_def)

theorem claim_takes_leases_witness:
  "genuine db2 sample_work \<and> (\<exists>b \<in> set (db_outbox db2). held sample_work b \<and> ob_locked_at b = Some 20)"
  using claim_takes_leases [OF reachable_samples(2) _ claimed_sample] by auto


theorem stale_claim_is_refused_witness:
  "RetryInventoryWork Done (sample_work\<lparr>clm_ClaimToken := ''t0''\<rparr>) 99 ''CODE'' db2 = (Inl ErrClaimLost, db2) \<and>
   ApplyInventoryResult 30 all_done (sample_work\<lparr>clm_ClaimToken := ''t0''\<rparr>)
     (sample_decision InventoryCommitted []) 31 db2 = (Inl ErrClaimLost, db2)"
proof -
  let ?b = "claim_row (\<lambda>_. ''t1'') 20 (outbox_row_of stamp store_draft)"
  have b: "?b \<in> set (db_outbox db2)" by (simp add: db2_def)
  show ?thesis
    using stale_claim_is_refused [OF reachable_samples(3) b, of "sample_work\<lparr>clm_ClaimToken := ''t0''\<rparr>" Done all_done]
      sample_stages(2)
    by (simp add: outbox_row_of_def store_draft_def sample_work_def sample_decision_def all_done_def)
qed

theorem advance_fulfillment_spec_witness:
  "(\<exists>order db'. AdvanceFulfillment all_done ''bbbbbbbb-0000-4000-8000-000000000001'' ''aaaaaaaa-0000-4000-8000-000000000001'' FulfillmentDelivering 50 db_confirmed = (Inr order, db') \<and>
      stage_of db' ''aaaaaaaa-0000-4000-8000-000000000001'' = Some Delivering) \<and>
   AdvanceFulfillment all_done ''bbbbbbbb-0000-4000-8000-000000000001'' ''aaaaaaaa-0000-4000-8000-000000000001'' FulfillmentDelivered 50 db_confirmed =
     (Inl ErrInvalidTransition, db_confirmed) \<and>
   AdvanceFulfillment all_done ''bbbbbbbb-0000-4000-8000-000000000001'' ''aaaaaaaa-0000-4000-8000-000000000001'' FulfillmentDelivering 50 db_rejected = (Inl ErrNotFound, db_rejected)"
proof -
  note ful = sample_fulfillment
  have user: "is_user db_confirmed ''bbbbbbbb-0000-4000-8000-000000000001''"
    by (simp add: is_user_def db_confirmed_def applied_db_def sample_rows)
  have none: "fulfillment_of db_rejected ''aaaaaaaa-0000-4000-8000-000000000001'' = None"
    by (simp add: fulfillment_of_def db_rejected_def applied_db_def sample_rows)
  show ?thesis
    using advance_fulfillment_spec [OF reachable_decided(2) all_done, where oid = "''aaaaaaaa-0000-4000-8000-000000000001''" and f = "new_fulfillment (sample_decision InventoryCommitted [])" and cashierID = "''bbbbbbbb-0000-4000-8000-000000000001''" and target = FulfillmentDelivering and now = 50]
      advance_fulfillment_spec [OF reachable_decided(2) all_done, where oid = "''aaaaaaaa-0000-4000-8000-000000000001''" and f = "new_fulfillment (sample_decision InventoryCommitted [])" and cashierID = "''bbbbbbbb-0000-4000-8000-000000000001''" and target = FulfillmentDelivered and now = 50]
      advance_fulfillment_spec [OF reachable_decided(1) all_done, where oid = "''aaaaaaaa-0000-4000-8000-000000000001''" and f = "new_fulfillment (sample_decision InventoryCommitted [])" and cashierID = "''bbbbbbbb-0000-4000-8000-000000000001''" and target = FulfillmentDelivering and now = 50] user ful none
    by (auto simp: new_fulfillment_def NextAction_def fulfillment_check_def user_or_null_def text_between_ascii
        byte_def ValidateFulfillmentTarget_def)
qed

theorem customer_pages_partition_witness:
  "customer_page db1 ''cccccccc-0000-4000-8000-000000000001'' 10 [] = [''aaaaaaaa-0000-4000-8000-000000000001''] \<and> customer_page db1 ''cccccccc-0000-4000-8000-000000000001'' 10 ''aaaaaaaa-0000-4000-8000-000000000001'' = []"
proof -
  have l: "customer_listing db1 ''cccccccc-0000-4000-8000-000000000001'' = [''aaaaaaaa-0000-4000-8000-000000000001'']"
    by (simp add: customer_listing_def sample_rows newest_first_def)
  show ?thesis
    using customer_pages_partition [OF reachable_samples(2), of "''cccccccc-0000-4000-8000-000000000001''" 10 0] by (simp add: l)
qed

theorem read_marked_once_witness:
  "\<exists>order db'. MarkCashierRead all_done ''bbbbbbbb-0000-4000-8000-000000000001'' ''aaaaaaaa-0000-4000-8000-000000000001'' 60 db_confirmed = (Inr order, db') \<and>
     (\<exists>order2 g. MarkCashierRead all_done ''s2'' ''aaaaaaaa-0000-4000-8000-000000000001'' 70 db' = (Inr order2, db') \<and> ord_ID order2 = ''aaaaaaaa-0000-4000-8000-000000000001'' \<and>
        ord_Fulfillment order2 = Some g \<and> \<not> ful_Unread g \<and> ord_Fulfillment order = Some g)"
proof -
  have "\<exists>order db'. MarkCashierRead all_done ''bbbbbbbb-0000-4000-8000-000000000001'' ''aaaaaaaa-0000-4000-8000-000000000001'' 60 db_confirmed = (Inr order, db')"
    by (simp add: MarkCashierRead_def in_tx_def mark_read_body_def all_done_def update_fulfillments_def update_rows_def
        db_confirmed_def applied_db_def sample_rows decided_order_def decided_operation_def new_fulfillment_def
        confirmed_def fulfillment_check_def user_or_null_def is_user_def insert_audit_def insert_row_def audit_check_def
        text_between_ascii byte_def stmt_def loadOrder_def select_order_def Let_def list_ex_iff)
  then show ?thesis using read_marked_once [OF reachable_decided(2) _ all_done] by blast
qed

end
