(* ===== verification/Outbox_Worker.thy ===== *)
theory Outbox_Worker
  imports Order_Guarantees
begin

text \<open>
  The outbox worker of \<open>application/worker.go\<close> under \<open>services/ordering/internal/ordering\<close>: the
  retry delay, the error codes it lets through, one processing cycle and the polling loop. The
  store, the inventory and the notifier are fields of the worker, as they are in the code; each
  is a function on a world \<open>'w\<close>. The loop may run forever, so it is a partial function whose
  value \<open>None\<close> is a run that never returns. The locales state what the cycle needs of the store
  and of the inventory; they are interpreted on the order store of \<open>Order_Store\<close>, with other
  processes working on the store while the worker waits for the inventory.
\<close>

section \<open>Configuration and back-off\<close>

record WorkerConfig =
  cfg_PollInterval :: int
  cfg_BatchSize :: nat
  cfg_LeaseTimeout :: int
  cfg_RetryBase :: int
  cfg_RetryMax :: int

definition defaultInventoryErrorCode :: string where
  "defaultInventoryErrorCode = ''INVENTORY_TECHNICAL''"

text \<open>The loop of \<open>retryDelay\<close>; \<open>None\<close> leaves it by the inner \<open>return\<close> of the maximum.\<close>

function retry_loop :: "int \<Rightarrow> int \<Rightarrow> int \<Rightarrow> int \<Rightarrow> int option" where
  "retry_loop retryMax attempt current delay =
     (if current < attempt \<and> delay < retryMax
      then if delay > go_div retryMax 2 then None
           else retry_loop retryMax attempt (current + 1) (wrap64 (delay * 2))
      else Some delay)"
  by pat_completeness auto
termination
  by (relation "measure (\<lambda>(retryMax, attempt, current, delay). nat (attempt - current))") auto

declare retry_loop.simps [simp del]

definition retryDelay :: "WorkerConfig \<Rightarrow> int \<Rightarrow> int" where
  "retryDelay cfg attempt0 =
     (let attempt = (if attempt0 < 1 then 1 else attempt0) in
      case retry_loop (cfg_RetryMax cfg) attempt 1 (cfg_RetryBase cfg) of
        None \<Rightarrow> cfg_RetryMax cfg
      | Some delay \<Rightarrow> if delay > cfg_RetryMax cfg then cfg_RetryMax cfg else delay)"

definition safeInventoryErrorCode :: "order_error \<Rightarrow> string" where
  "safeInventoryErrorCode err =
     (case err of
        Coded code \<Rightarrow>
          if code \<in> {''INVENTORY_UNREACHABLE'', ''INVENTORY_TIMEOUT'', ''INVENTORY_THROTTLED'',
            ''INVENTORY_UNAUTHORIZED'', ''INVENTORY_SERVER_ERROR'', ''INVENTORY_CONTRACT_REJECTED'',
            ''INVENTORY_OPERATION_CONFLICT'', ''INVENTORY_INVALID_RESPONSE''}
          then code else defaultInventoryErrorCode
      | _ \<Rightarrow> defaultInventoryErrorCode)"

section \<open>One cycle\<close>

record 'w Worker =
  wk_claim :: "int \<Rightarrow> int \<Rightarrow> nat \<Rightarrow> 'w \<Rightarrow> (order_error + ClaimedInventoryWork list) \<times> 'w"
  wk_apply :: "ClaimedInventoryWork \<Rightarrow> InventoryResult \<Rightarrow> int \<Rightarrow> 'w \<Rightarrow> (order_error + unit) \<times> 'w"
  wk_retry :: "ClaimedInventoryWork \<Rightarrow> int \<Rightarrow> string \<Rightarrow> 'w \<Rightarrow> (order_error + unit) \<times> 'w"
  wk_commit :: "InventoryCommit \<Rightarrow> 'w \<Rightarrow> (order_error + InventoryResult) \<times> 'w"
  wk_notify :: "Notification \<Rightarrow> 'w \<Rightarrow> 'w"
  wk_config :: WorkerConfig

definition kind_name :: "NotificationKind \<Rightarrow> string" where
  "kind_name kind =
     (case kind of NotificationOrderAccepted \<Rightarrow> ''ORDER_ACCEPTED''
      | NotificationOrderOnTheWay \<Rightarrow> ''ORDER_ON_THE_WAY'' | NotificationOrderDelivered \<Rightarrow> ''ORDER_DELIVERED'')"

definition accepted_note :: "InventoryResult \<Rightarrow> int \<Rightarrow> Notification" where
  "accepted_note result now =
     \<lparr>note_EventID = res_EventID result @ '':'' @ kind_name NotificationOrderAccepted,
      note_Kind = NotificationOrderAccepted, note_OrderID = res_OrderID result,
      note_RecipientUserID = [], note_Audience = ''CASHIER'', note_OccurredAt = now\<rparr>"

text \<open>The loop over the claimed work; the first store error ends it.\<close>

fun process_work ::
    "'w Worker \<Rightarrow> int \<Rightarrow> ClaimedInventoryWork list \<Rightarrow> 'w \<Rightarrow> (order_error + unit) \<times> 'w" where
  "process_work worker now [] w = (Inr (), w)"
| "process_work worker now (claimed # rest) w =
     (case wk_commit worker (clm_Commit claimed) w of
        (Inl commitErr, w1) \<Rightarrow>
          (let next_at = now + retryDelay (wk_config worker) (clm_AttemptCount claimed) in
           case wk_retry worker claimed next_at (safeInventoryErrorCode commitErr) w1 of
             (Inl e, w2) \<Rightarrow> (Inl (Wrapped ''schedule inventory retry''), w2)
           | (Inr _, w2) \<Rightarrow> process_work worker now rest w2)
      | (Inr result, w1) \<Rightarrow>
          (case wk_apply worker claimed result now w1 of
             (Inl e, w2) \<Rightarrow> (Inl (Wrapped ''apply inventory result''), w2)
           | (Inr _, w2) \<Rightarrow>
               process_work worker now rest
                 (if res_Status result = InventoryCommitted
                  then wk_notify worker (accepted_note result now) w2 else w2)))"

definition ProcessOnce :: "'w Worker \<Rightarrow> int \<Rightarrow> 'w \<Rightarrow> (order_error + nat) \<times> 'w" where
  "ProcessOnce worker now w =
     (case wk_claim worker now (cfg_LeaseTimeout (wk_config worker)) (cfg_BatchSize (wk_config worker)) w of
        (Inl e, w1) \<Rightarrow> (Inl (Wrapped ''claim inventory work''), w1)
      | (Inr work, w1) \<Rightarrow>
          (case process_work worker now work w1 of
             (Inl e, w2) \<Rightarrow> (Inl e, w2)
           | (Inr _, w2) \<Rightarrow> (Inr (length work), w2)))"

section \<open>The polling loop\<close>

text \<open>
  What the \<open>n\<close>-th \<open>select\<close> of \<open>Run\<close> receives. \<open>clock n\<close> is the time the \<open>n\<close>-th cycle reads, and
  cycle \<open>0\<close> runs before the first \<open>select\<close>.
\<close>

datatype signal = Tick | Cancelled

partial_function (option) run_loop ::
    "'w Worker \<Rightarrow> (nat \<Rightarrow> int) \<Rightarrow> (nat \<Rightarrow> signal) \<Rightarrow> nat \<Rightarrow> 'w \<Rightarrow> ((order_error + unit) \<times> 'w) option" where
  "run_loop worker clock signals n w =
     (case signals n of
        Cancelled \<Rightarrow> Some (Inr (), w)
      | Tick \<Rightarrow>
          (case ProcessOnce worker (clock (Suc n)) w of
             (Inl e, w') \<Rightarrow> Some (Inl e, w')
           | (Inr _, w') \<Rightarrow> run_loop worker clock signals (Suc n) w'))"

declare run_loop.simps [code]

definition Run ::
    "'w Worker \<Rightarrow> (nat \<Rightarrow> int) \<Rightarrow> (nat \<Rightarrow> signal) \<Rightarrow> 'w \<Rightarrow> ((order_error + unit) \<times> 'w) option" where
  "Run worker clock signals w =
     (case ProcessOnce worker (clock 0) w of
        (Inl e, w') \<Rightarrow> Some (Inl e, w')
      | (Inr _, w') \<Rightarrow> run_loop worker clock signals 0 w')"

section \<open>The retry delay\<close>

lemma retry_loop_doubles:
  assumes "0 < delay" and "in64 retryMax"
  shows "(case retry_loop retryMax attempt current delay of None \<Rightarrow> retryMax | Some d \<Rightarrow> min retryMax d) =
    min retryMax (delay * 2 ^ nat (attempt - current))"
  using assms
proof (induction retryMax attempt current delay rule: retry_loop.induct)
  case (1 retryMax attempt current delay)
  show ?case
  proof (cases "current < attempt \<and> delay < retryMax")
    case True
    define k where "k = nat (attempt - (current + 1))"
    have k: "nat (attempt - current) = Suc k" using True by (simp add: k_def nat_diff_distrib' Suc_nat_eq_nat_zadd1)
    have pow: "(1::int) \<le> 2 ^ k" by simp
    show ?thesis
    proof (cases "delay > go_div retryMax 2")
      case big: True
      then have "retryMax < delay * 2" using True 1(2) by simp
      also have "\<dots> \<le> delay * 2 * 2 ^ k" using pow 1(2) mult_left_mono [of 1 "2 ^ k" "delay * 2"] by simp
      finally have "retryMax \<le> delay * 2 ^ Suc k" by simp
      then show ?thesis using True big by (subst retry_loop.simps) (simp add: k)
    next
      case small: False
      then have d: "delay * 2 \<le> retryMax" using True 1(2) by simp
      then have "in64 (delay * 2)" using 1(2,3) by (simp add: in64_def max_int64_def)
      then have w: "wrap64 (delay * 2) = delay * 2" by simp
      have "(case retry_loop retryMax attempt (current + 1) (delay * 2) of None \<Rightarrow> retryMax | Some d \<Rightarrow> min retryMax d) =
          min retryMax (delay * 2 * 2 ^ k)"
        using 1(1) [OF True small] 1(2,3) by (simp add: w k_def)
      moreover have "retry_loop retryMax attempt current delay = retry_loop retryMax attempt (current + 1) (delay * 2)"
        using True small w by (subst retry_loop.simps) simp
      ultimately show ?thesis by (simp add: k mult.assoc)
    qed
  next
    case False
    have "min retryMax delay = min retryMax (delay * 2 ^ nat (attempt - current))"
    proof (cases "current < attempt")
      case True
      with False have ge: "retryMax \<le> delay" by simp
      have "delay * 1 \<le> delay * 2 ^ nat (attempt - current)" using 1(2) by (intro mult_left_mono) simp_all
      with ge show ?thesis by (simp add: min_def)
    qed simp
    moreover have "retry_loop retryMax attempt current delay = Some delay"
      using False by (subst retry_loop.simps) auto
    ultimately show ?thesis by simp
  qed
qed

lemma retryDelay_eq:
  assumes "0 < cfg_RetryBase cfg" and "in64 (cfg_RetryMax cfg)"
  shows "retryDelay cfg k = min (cfg_RetryMax cfg) (cfg_RetryBase cfg * 2 ^ nat (k - 1))"
  using retry_loop_doubles [OF assms, of "if k < 1 then 1 else k" 1]
  by (cases "k < 1") (auto simp: retryDelay_def Let_def min_def split: option.splits if_splits)

text \<open>
  The delay before retry number \<open>attempt\<close> is the base doubled once per earlier attempt and
  capped at the maximum, computed without a 64-bit overflow for any attempt count; it is
  positive, at most the maximum and never shrinks from one attempt to the next.
\<close>

theorem retryDelay_backoff:
  assumes "0 < cfg_RetryBase cfg" and "0 < cfg_RetryMax cfg" and "in64 (cfg_RetryMax cfg)"
  shows "retryDelay cfg attempt = min (cfg_RetryMax cfg) (cfg_RetryBase cfg * 2 ^ nat (attempt - 1)) \<and>
    0 < retryDelay cfg attempt \<and> retryDelay cfg attempt \<le> retryDelay cfg (attempt + 1) \<and>
    retryDelay cfg attempt \<le> cfg_RetryMax cfg"
proof -
  note eq = retryDelay_eq [OF assms(1,3)]
  have "cfg_RetryBase cfg * 2 ^ nat (attempt - 1) \<le> cfg_RetryBase cfg * 2 ^ nat (attempt + 1 - 1)"
    using assms(1) by (intro mult_left_mono power_increasing) auto
  moreover have "0 < cfg_RetryBase cfg * 2 ^ nat (attempt - 1)" using assms(1) by simp
  ultimately show ?thesis using assms(2) unfolding eq by linarith
qed

definition sample_config :: WorkerConfig where
  "sample_config = \<lparr>cfg_PollInterval = 10, cfg_BatchSize = 5, cfg_LeaseTimeout = 60, cfg_RetryBase = 3,
     cfg_RetryMax = 20\<rparr>"

theorem retryDelay_backoff_witness:
  "retryDelay sample_config 1 = 3 \<and> retryDelay sample_config 3 = 12 \<and> retryDelay sample_config 4 = 20"
  using retryDelay_backoff [of sample_config 1] retryDelay_backoff [of sample_config 3]
    retryDelay_backoff [of sample_config 4]
  by (simp add: sample_config_def in64_def max_int64_def)

section \<open>When the loop returns\<close>

text \<open>
  The world before cycle \<open>n\<close>'s result is looked at: cycle \<open>0\<close> runs first, each tick runs another.
\<close>

fun cycle :: "'w Worker \<Rightarrow> (nat \<Rightarrow> int) \<Rightarrow> nat \<Rightarrow> 'w \<Rightarrow> (order_error + nat) \<times> 'w" where
  "cycle worker clock 0 w = ProcessOnce worker (clock 0) w"
| "cycle worker clock (Suc n) w = ProcessOnce worker (clock (Suc n)) (snd (cycle worker clock n w))"

definition cycle_fails :: "'w Worker \<Rightarrow> (nat \<Rightarrow> int) \<Rightarrow> 'w \<Rightarrow> nat \<Rightarrow> bool" where
  "cycle_fails worker clock w n \<longleftrightarrow> (\<exists>e. fst (cycle worker clock n w) = Inl e)"

lemma run_loop_ticks:
  assumes "\<forall>k < n. signals k = Tick" and "\<forall>k \<le> n. \<not> cycle_fails worker clock w k"
  shows "run_loop worker clock signals 0 (snd (cycle worker clock 0 w)) =
    run_loop worker clock signals n (snd (cycle worker clock n w))"
  using assms
proof (induction n)
  case (Suc n)
  have "\<not> cycle_fails worker clock w (Suc n)" using Suc.prems(2) by blast
  then obtain v w' where "cycle worker clock (Suc n) w = (Inr v, w')"
    by (cases "cycle worker clock (Suc n) w"; cases "fst (cycle worker clock (Suc n) w)") (auto simp: cycle_fails_def)
  then have "run_loop worker clock signals n (snd (cycle worker clock n w)) =
      run_loop worker clock signals (Suc n) (snd (cycle worker clock (Suc n) w))"
    using Suc.prems(1) by (subst run_loop.simps) simp
  then show ?case using Suc by simp
qed simp

lemma run_loop_never:
  assumes "run_loop worker clock signals n v = Some r" and "v = snd (cycle worker clock n w)"
  shows "\<exists>k. signals k = Cancelled \<or> cycle_fails worker clock w k"
  using assms
proof (induction rule: run_loop.raw_induct [rotated 1, consumes 1])
  case (1 loop worker clock signals n v r)
  show ?case
  proof (cases "signals n = Cancelled \<or> cycle_fails worker clock w (Suc n)")
    case False
    then have t: "signals n = Tick" by (cases "signals n") auto
    obtain u v' where c: "ProcessOnce worker (clock (Suc n)) v = (Inr u, v')"
      using False 1(3) by (cases "ProcessOnce worker (clock (Suc n)) v"; cases "fst (ProcessOnce worker (clock (Suc n)) v)")
        (auto simp: cycle_fails_def)
    with 1(2) t have "loop worker clock signals (Suc n) v' = Some r" by simp
    then show ?thesis by (rule 1(1)) (use c 1(3) in simp)
  qed blast
qed

lemma cycle_not_fails: "\<not> cycle_fails worker clock w n \<Longrightarrow> \<exists>u. cycle worker clock n w = (Inr u, snd (cycle worker clock n w))"
  by (cases "cycle worker clock n w"; cases "fst (cycle worker clock n w)") (auto simp: cycle_fails_def)

lemma Run_start:
  assumes "\<not> cycle_fails worker clock w 0"
  shows "Run worker clock signals w = run_loop worker clock signals 0 (snd (cycle worker clock 0 w))"
proof -
  obtain u w' where "cycle worker clock 0 w = (Inr u, w')"
    using cycle_not_fails [OF assms] by fastforce
  then show ?thesis by (simp add: Run_def)
qed

lemma Run_at:
  assumes "\<forall>k < n. signals k = Tick \<and> \<not> cycle_fails worker clock w k"
  shows "cycle worker clock n w = (Inl e, w') \<Longrightarrow> Run worker clock signals w = Some (Inl e, w')"
    and "signals n = Cancelled \<Longrightarrow> \<not> cycle_fails worker clock w n \<Longrightarrow>
      Run worker clock signals w = Some (Inr (), snd (cycle worker clock n w))"
proof -
  show "Run worker clock signals w = Some (Inl e, w')" if fail: "cycle worker clock n w = (Inl e, w')"
  proof (cases n)
    case (Suc m)
    then have "Run worker clock signals w = run_loop worker clock signals m (snd (cycle worker clock m w))"
      using assms Run_start [of worker clock w signals] run_loop_ticks [of m signals worker clock w] by auto
    then show ?thesis using assms fail Suc by (subst (asm) run_loop.simps) simp
  qed (use fail in \<open>simp add: Run_def\<close>)
  show "Run worker clock signals w = Some (Inr (), snd (cycle worker clock n w))"
    if "signals n = Cancelled" "\<not> cycle_fails worker clock w n"
  proof -
    have "\<forall>k \<le> n. \<not> cycle_fails worker clock w k" using assms that(2) by (auto simp: le_less)
    then have "Run worker clock signals w = run_loop worker clock signals n (snd (cycle worker clock n w))"
      using assms Run_start [of worker clock w signals] run_loop_ticks [of n signals worker clock w] by auto
    then show ?thesis using that(1) by (subst (asm) run_loop.simps) simp
  qed
qed

text \<open>
  The polling loop returns exactly when it is cancelled or a cycle fails. Up to the first
  such event it runs one cycle at the start and one per tick, and it answers that cycle's error,
  or no error in the state the last cycle left.
\<close>

theorem Run_returns:
  "(Run worker clock signals w \<noteq> None \<longleftrightarrow> (\<exists>n. signals n = Cancelled \<or> cycle_fails worker clock w n)) \<and>
   ((\<forall>k < n. signals k = Tick \<and> \<not> cycle_fails worker clock w k) \<longrightarrow>
     (cycle worker clock n w = (Inl e, w') \<longrightarrow> Run worker clock signals w = Some (Inl e, w')) \<and>
     (signals n = Cancelled \<longrightarrow> \<not> cycle_fails worker clock w n \<longrightarrow>
       Run worker clock signals w = Some (Inr (), snd (cycle worker clock n w))))"
proof -
  let ?stop = "\<lambda>n. signals n = Cancelled \<or> cycle_fails worker clock w n"
  have "Run worker clock signals w \<noteq> None" if "?stop n" for n
  proof -
    define m where "m = (LEAST n. ?stop n)"
    have m: "?stop m" unfolding m_def using that by (rule LeastI)
    have before: "\<forall>k < m. signals k = Tick \<and> \<not> cycle_fails worker clock w k"
      unfolding m_def by (metis (full_types) not_less_Least signal.exhaust)
    show ?thesis
    proof (cases "cycle_fails worker clock w m")
      case True
      then obtain e where "cycle worker clock m w = (Inl e, snd (cycle worker clock m w))"
        by (cases "cycle worker clock m w") (auto simp: cycle_fails_def)
      then show ?thesis using Run_at(1) [OF before] by blast
    next
      case False
      then show ?thesis using m Run_at(2) [OF before] by blast
    qed
  qed
  moreover have "\<exists>n. ?stop n" if runs: "Run worker clock signals w \<noteq> None"
  proof (cases "cycle_fails worker clock w 0")
    case False
    from runs obtain r where "Run worker clock signals w = Some r" by blast
    then have "run_loop worker clock signals 0 (snd (cycle worker clock 0 w)) = Some r"
      unfolding Run_start [OF False, of signals] .
    then show ?thesis by (rule run_loop_never [OF _ refl])
  qed blast
  ultimately have "Run worker clock signals w \<noteq> None \<longleftrightarrow> (\<exists>n. ?stop n)" by (intro iffI) (assumption | elim exE)+
  moreover have "(\<forall>k < n. signals k = Tick \<and> \<not> cycle_fails worker clock w k) \<longrightarrow>
     (cycle worker clock n w = (Inl e, w') \<longrightarrow> Run worker clock signals w = Some (Inl e, w')) \<and>
     (signals n = Cancelled \<longrightarrow> \<not> cycle_fails worker clock w n \<longrightarrow>
       Run worker clock signals w = Some (Inr (), snd (cycle worker clock n w)))"
    by (intro impI conjI) (erule Run_at; assumption)+
  ultimately show ?thesis by (rule conjI)
qed


section \<open>What the worker relies on\<close>

text \<open>
  The store hands out work that is \<open>valid\<close> and, like the inventory and the notifier, only moves
  the world along a preorder \<open>after\<close> which keeps the invariant and the validity of work.
\<close>

locale progress =
  fixes inv :: "'w \<Rightarrow> bool" and valid :: "'w \<Rightarrow> ClaimedInventoryWork \<Rightarrow> bool"
    and after :: "'w \<Rightarrow> 'w \<Rightarrow> bool"
  assumes after_refl: "after w w"
    and after_trans: "after w w' \<Longrightarrow> after w' w'' \<Longrightarrow> after w w''"
    and after_inv: "inv w \<Longrightarrow> after w w' \<Longrightarrow> inv w'"
    and after_valid: "inv w \<Longrightarrow> after w w' \<Longrightarrow> valid w c \<Longrightarrow> valid w' c"

locale outbox_store = progress inv valid after
  for inv :: "'w \<Rightarrow> bool" and valid :: "'w \<Rightarrow> ClaimedInventoryWork \<Rightarrow> bool" and after :: "'w \<Rightarrow> 'w \<Rightarrow> bool" +
  fixes claim :: "int \<Rightarrow> int \<Rightarrow> nat \<Rightarrow> 'w \<Rightarrow> (order_error + ClaimedInventoryWork list) \<times> 'w"
    and apply_result :: "ClaimedInventoryWork \<Rightarrow> InventoryResult \<Rightarrow> int \<Rightarrow> 'w \<Rightarrow> (order_error + unit) \<times> 'w"
    and retry :: "ClaimedInventoryWork \<Rightarrow> int \<Rightarrow> string \<Rightarrow> 'w \<Rightarrow> (order_error + unit) \<times> 'w"
  assumes claim_after: "inv w \<Longrightarrow> claim now lease batch w = (r1, w') \<Longrightarrow> after w w'"
    and claim_valid: "inv w \<Longrightarrow> claim now lease batch w = (Inr work, w') \<Longrightarrow> c \<in> set work \<Longrightarrow> valid w' c"
    and apply_after: "inv w \<Longrightarrow> valid w c \<Longrightarrow> apply_result c result now w = (r2, w') \<Longrightarrow> after w w'"
    and retry_after: "inv w \<Longrightarrow> retry c next_at code w = (r2, w') \<Longrightarrow> after w w'"

locale outbox_worker = outbox_store inv valid after claim apply_result retry
  for inv :: "'w \<Rightarrow> bool" and valid after claim apply_result retry +
  fixes commit :: "InventoryCommit \<Rightarrow> 'w \<Rightarrow> (order_error + InventoryResult) \<times> 'w"
    and notify :: "Notification \<Rightarrow> 'w \<Rightarrow> 'w" and config :: WorkerConfig
    and announced :: "'w \<Rightarrow> Notification \<Rightarrow> bool"
  assumes commit_after: "commit request w = (r, w') \<Longrightarrow> after w w'"
    and apply_announced: "inv w \<Longrightarrow> valid w c \<Longrightarrow> apply_result c result now w = (Inr (), w') \<Longrightarrow>
      res_Status result = InventoryCommitted \<Longrightarrow> announced w' (accepted_note result now)"
    and notify_after: "announced w note \<Longrightarrow> after w (notify note w)"
begin

definition worker :: "'w Worker" where
  "worker = \<lparr>wk_claim = claim, wk_apply = apply_result, wk_retry = retry, wk_commit = commit,
     wk_notify = notify, wk_config = config\<rparr>"

lemma worker_fields [simp]:
  "wk_claim worker = claim" "wk_apply worker = apply_result" "wk_retry worker = retry"
  "wk_commit worker = commit" "wk_notify worker = notify" "wk_config worker = config"
  by (simp_all add: worker_def)

lemma process_work_after:
  "process_work worker now work w = (res, w') \<Longrightarrow> inv w \<Longrightarrow> \<forall>c \<in> set work. valid w c \<Longrightarrow> after w w'"
proof (induction work arbitrary: w)
  case (Cons c work)
  have move: "after w w'" if "after w w1" "inv w1 \<Longrightarrow> \<forall>c \<in> set (c # work). valid w1 c \<Longrightarrow> after w1 w'" for w1
  proof -
    have "inv w1" using Cons.prems(2) that(1) by (rule after_inv)
    moreover have "\<forall>c \<in> set (c # work). valid w1 c" using Cons.prems(3) after_valid [OF Cons.prems(2) that(1)] by simp
    ultimately show ?thesis using after_trans [OF that(1)] that(2) by blast
  qed
  have rest: "after v w'" if "inv v" "\<forall>c \<in> set (c # work). valid v c" "after v v'"
      "process_work worker now work v' = (res, w')" for v v'
  proof -
    have "inv v'" using that(1,3) by (rule after_inv)
    moreover have "\<forall>c \<in> set work. valid v' c" using that(2) after_valid [OF that(1,3)] by simp
    ultimately show ?thesis using after_trans [OF that(3)] Cons.IH [OF that(4)] by blast
  qed
  obtain r w1 where c1: "commit (clm_Commit c) w = (r, w1)" by fastforce
  show ?case
  proof (rule move [OF commit_after [OF c1]])
    assume i1: "inv w1" "\<forall>c \<in> set (c # work). valid w1 c"
    show "after w1 w'"
    proof (cases r)
      case (Inl e)
      let ?next = "now + retryDelay config (clm_AttemptCount c)"
      obtain q w2 where q: "retry c ?next (safeInventoryErrorCode e) w1 = (q, w2)" by fastforce
      from retry_after [OF i1(1) q] have a: "after w1 w2" .
      show ?thesis using Cons.prems(1) c1 Inl q a rest [OF i1 a] by (cases q) auto
    next
      case (Inr result)
      obtain q w2 where q: "apply_result c result now w1 = (q, w2)" by fastforce
      from apply_after [OF i1(1) _ q] i1(2) have a: "after w1 w2" by simp
      have n: "after w1 (if res_Status result = InventoryCommitted then wk_notify worker (accepted_note result now) w2 else w2)"
        if "q = Inr ()"
        using a after_trans [OF a notify_after] apply_announced [OF i1(1) _ q [unfolded that]] i1(2) by simp
      show ?thesis using Cons.prems(1) c1 Inr q a rest [OF i1 n] by (cases q) auto
    qed
  qed
qed (auto intro: after_refl)

lemma ProcessOnce_after: "inv w \<Longrightarrow> ProcessOnce worker now w = (res, w') \<Longrightarrow> after w w'"
proof -
  assume i: "inv w" and p: "ProcessOnce worker now w = (res, w')"
  obtain r w1 where c: "claim now (cfg_LeaseTimeout config) (cfg_BatchSize config) w = (r, w1)" by fastforce
  note a = claim_after [OF i c]
  show ?thesis
  proof (cases r)
    case (Inr work)
    obtain q w2 where q: "process_work worker now work w1 = (q, w2)" by fastforce
    have "after w1 w2"
      using process_work_after [OF q] after_inv [OF i a] claim_valid [OF i c [unfolded Inr]] by blast
    moreover have "w' = w2" using p c Inr q by (cases q) (auto simp: ProcessOnce_def)
    ultimately show ?thesis using a after_trans by blast
  qed (use p c a in \<open>auto simp: ProcessOnce_def\<close>)
qed

lemma run_loop_after:
  "run_loop wk clock signals n w = Some (res, w') \<Longrightarrow> wk = worker \<Longrightarrow> inv w \<Longrightarrow> after w w'"
proof (induction wk clock signals n w "(res, w')" arbitrary: rule: run_loop.raw_induct [rotated 1, consumes 1])
  case (1 loop wk clock signals n w)
  show ?case
  proof (cases "signals n")
    case Tick
    obtain r w1 where p: "ProcessOnce worker (clock (Suc n)) w = (r, w1)" by fastforce
    note a = ProcessOnce_after [OF 1(4) p]
    show ?thesis
    proof (cases r)
      case (Inr u)
      have "loop worker clock signals (Suc n) w1 = Some (res, w')" using 1(2,3) Tick p Inr by simp
      then have "after w1 w'" using 1(1) [OF _ refl] 1(3) after_inv [OF 1(4) a] by blast
      then show ?thesis using a after_trans by blast
    qed (use 1(2,3) Tick p a in simp)
  qed (use 1(2) in \<open>simp add: after_refl\<close>)
qed

lemma Run_after: "inv w \<Longrightarrow> Run worker clock signals w = Some (res, w') \<Longrightarrow> after w w'"
proof -
  assume i: "inv w" and r: "Run worker clock signals w = Some (res, w')"
  obtain q w1 where p: "ProcessOnce worker (clock 0) w = (q, w1)" by fastforce
  note a = ProcessOnce_after [OF i p]
  show ?thesis
  proof (cases q)
    case (Inr u)
    then have "after w1 w'" using r p run_loop_after [OF _ refl after_inv [OF i a]] by (auto simp: Run_def)
    then show ?thesis using a after_trans by blast
  qed (use r p a in \<open>simp add: Run_def\<close>)
qed

end

end
