(* ===== verification/Worker_Store.thy ===== *)
theory Worker_Store
  imports Outbox_Worker
begin

text \<open>
  The worker on the order store: its world is the store's tables, the inventory's state, the
  notifications sent and a counter of the calls made. While a call to the inventory is under
  way other processes work on the store; what they do is a list of store operations, so every
  interleaving of them is covered. The locales of \<open>Outbox_Worker\<close> are interpreted here.
\<close>

section \<open>Other processes\<close>

datatype store_op =
  Register user_row
| Place "int \<Rightarrow> string" "nat \<Rightarrow> reply" order_db OrderDraft
| Read "nat \<Rightarrow> reply" string string int
| Advance "nat \<Rightarrow> reply" string string FulfillmentStatus int
| Claim "string \<Rightarrow> int option" "string \<Rightarrow> bool" "string \<Rightarrow> string" "outbox_row list \<Rightarrow> outbox_row list" reply int int nat
| Retry reply ClaimedInventoryWork int string
| Apply int "nat \<Rightarrow> reply" ClaimedInventoryWork InventoryResult int

fun run_op :: "order_db \<Rightarrow> store_op \<Rightarrow> order_db" where
  "run_op db (Register u) = db\<lparr>db_users := db_users db @ [u]\<rparr>"
| "run_op db (Place fmt_time replies seen draft) = snd (PlaceOrder fmt_time replies seen draft db)"
| "run_op db (Read replies cashierID orderID now) = snd (MarkCashierRead replies cashierID orderID now db)"
| "run_op db (Advance replies cashierID orderID target now) =
     snd (AdvanceFulfillment replies cashierID orderID target now db)"
| "run_op db (Claim parse_time busy token arrange reply now lease batch) =
     snd (ClaimInventoryWork parse_time busy token arrange reply now lease batch db)"
| "run_op db (Retry reply claimed next_at code) = snd (RetryInventoryWork reply claimed next_at code db)"
| "run_op db (Apply dbnow replies claimed result now) =
     (if genuine db claimed then snd (ApplyInventoryResult dbnow replies claimed result now db) else db)"

lemma later_trans: "later b c \<Longrightarrow> later a b \<Longrightarrow> later a c"
  by (induction rule: later.induct) (auto intro: later.more)

lemma run_op_later: "later db (run_op db x)"
proof (cases x)
  case (Apply dbnow replies claimed result now)
  then show ?thesis
    by (auto intro: later.same later.more [OF later.same order_step.applied [OF _ surjective_pairing]])
qed (auto intro!: later.more [OF later.same] intro: order_step.register order_step.place [OF surjective_pairing]
    order_step.read [OF surjective_pairing] order_step.advance [OF surjective_pairing]
    order_step.claim [OF surjective_pairing] order_step.retry [OF surjective_pairing])

lemma run_ops_later: "later db (foldl run_op db ops)"
proof (induction ops rule: rev_induct)
  case (snoc x ops)
  then show ?case using later_trans [OF run_op_later] by simp
qed (simp add: later.same)

section \<open>Outbox rows stay\<close>

definition row_key :: "outbox_row \<Rightarrow> string \<times> string \<times> string" where
  "row_key b = (ob_event_id b, ob_operation_id b, ob_order_id b)"

lemma genuine_rows:
  "genuine db c \<longleftrightarrow> (com_EventID (clm_Commit c), com_OperationID (clm_Commit c), com_OrderID (clm_Commit c)) \<in>
     set (map row_key (db_outbox db))"
  by (force simp: genuine_def list_ex_iff row_key_def)

lemma genuine_update:
  "genuine db c \<Longrightarrow> (\<And>b. row_key (f b) = row_key b) \<Longrightarrow> genuine (db\<lparr>db_outbox := update_where P f (db_outbox db)\<rparr>) c"
  unfolding genuine_rows by (simp del: list.set_map)

lemma order_step_genuine: "order_step db db' \<Longrightarrow> genuine db c \<Longrightarrow> genuine db' c"
proof (induction rule: order_step.induct)
  case (place fmt_time replies seen draft db res1 db')
  from PlaceOrder_atomic_facts(1) [OF place(1)] place(2) show ?case
    by (auto simp: genuine_def placed_db_def)
next
  case (read replies cashierID orderID now db res2 db')
  from MarkCashierRead_effect [OF read(1)] read(2) show ?case
    by (auto simp: genuine_def)
next
  case (advance replies cashierID orderID target now db res2 db')
  from AdvanceFulfillment_effect [OF advance(1)] advance(2) show ?case
    by (auto simp: genuine_def advanced_db_def)
next
  case (claim parse_time busy token arrange reply now leaseTimeout batchSize db res3 db')
  from ClaimInventoryWork_effect [OF claim(1)] show ?case
    using claim(2) genuine_update [OF claim(2), of "claim_row token now"]
    by (auto simp: Let_def row_key_def claim_row_def)
next
  case (retry reply claimed next_at errorCode db res4 db')
  from RetryInventoryWork_effect [OF retry(1)] show ?case
    using retry(2) genuine_update [OF retry(2), of "\<lambda>b. b\<lparr>ob_locked_at := None, ob_claim_token := None,
      ob_next_attempt_at := next_at, ob_last_error_code := Some errorCode\<rparr>"] by (auto simp: row_key_def)
next
  case (applied db claimed dbnow replies result now res4 db')
  from ApplyInventoryResult_effect [OF applied(2)] show ?case
    using applied(3) genuine_update [OF applied(3), of "published_row now"]
    by (auto simp: applied_db_def row_key_def genuine_def)
qed (simp add: genuine_def)

lemma later_genuine: "later db db' \<Longrightarrow> genuine db c \<Longrightarrow> genuine db' c"
  by (induction rule: later.induct) (auto intro: order_step_genuine)


section \<open>The world of the worker\<close>

record 'r world =
  w_db :: order_db
  w_remote :: 'r
  w_notes :: "Notification list"
  w_calls :: nat

text \<open>
  What the environment decides, by the number of the call: the answers of the database, the rows
  locked elsewhere, the generated claim tokens, the order of returned rows, the server's clock,
  the other processes' operations while the inventory is called, and the inventory itself.
\<close>

record 'r env =
  env_parse_time :: "string \<Rightarrow> int option"
  env_replies :: "nat \<Rightarrow> nat \<Rightarrow> reply"
  env_busy :: "nat \<Rightarrow> string \<Rightarrow> bool"
  env_token :: "nat \<Rightarrow> string \<Rightarrow> string"
  env_rank :: "nat \<Rightarrow> outbox_row \<Rightarrow> nat"
  env_dbnow :: "nat \<Rightarrow> int"
  env_others :: "nat \<Rightarrow> store_op list"
  env_remote :: "InventoryCommit \<Rightarrow> 'r \<Rightarrow> (order_error + InventoryResult) \<times> 'r"

definition moved :: "'a \<times> order_db \<Rightarrow> 'r world \<Rightarrow> 'a \<times> 'r world" where
  "moved outcome w = (fst outcome, w\<lparr>w_db := snd outcome, w_calls := Suc (w_calls w)\<rparr>)"

definition store_claim ::
    "'r env \<Rightarrow> int \<Rightarrow> int \<Rightarrow> nat \<Rightarrow> 'r world \<Rightarrow> (order_error + ClaimedInventoryWork list) \<times> 'r world" where
  "store_claim env now lease batch w =
     (let n = w_calls w in
      moved (ClaimInventoryWork (env_parse_time env) (env_busy env n) (env_token env n) (sort_key (env_rank env n))
        (env_replies env n 0) now lease batch (w_db w)) w)"

definition store_apply ::
    "'r env \<Rightarrow> ClaimedInventoryWork \<Rightarrow> InventoryResult \<Rightarrow> int \<Rightarrow> 'r world \<Rightarrow> (order_error + unit) \<times> 'r world" where
  "store_apply env claimed result now w =
     (let n = w_calls w in
      moved (ApplyInventoryResult (env_dbnow env n) (env_replies env n) claimed result now (w_db w)) w)"

definition store_retry ::
    "'r env \<Rightarrow> ClaimedInventoryWork \<Rightarrow> int \<Rightarrow> string \<Rightarrow> 'r world \<Rightarrow> (order_error + unit) \<times> 'r world" where
  "store_retry env claimed next_at code w =
     moved (RetryInventoryWork (env_replies env (w_calls w) 0) claimed next_at code (w_db w)) w"

definition remote_commit ::
    "'r env \<Rightarrow> InventoryCommit \<Rightarrow> 'r world \<Rightarrow> (order_error + InventoryResult) \<times> 'r world" where
  "remote_commit env request w =
     (let (res, remote') = env_remote env request (w_remote w) in
      (res, w\<lparr>w_db := foldl run_op (w_db w) (env_others env (w_calls w)), w_remote := remote',
              w_calls := Suc (w_calls w)\<rparr>))"

definition send_note :: "Notification \<Rightarrow> 'r world \<Rightarrow> 'r world" where
  "send_note note w = w\<lparr>w_notes := w_notes w @ [note]\<rparr>"

definition store_worker :: "'r env \<Rightarrow> WorkerConfig \<Rightarrow> 'r world Worker" where
  "store_worker env config =
     \<lparr>wk_claim = store_claim env, wk_apply = store_apply env, wk_retry = store_retry env,
      wk_commit = remote_commit env, wk_notify = send_note, wk_config = config\<rparr>"

section \<open>The worker keeps the store\<close>

definition fulfilled :: "'r world \<Rightarrow> Notification \<Rightarrow> bool" where
  "fulfilled w note \<longleftrightarrow> stage_of (w_db w) (note_OrderID note) \<in> Some ` {Preparing, Delivering, Delivered}"

definition world_ok :: "'r world \<Rightarrow> bool" where
  "world_ok w \<longleftrightarrow> reachable (w_db w)"

definition world_later :: "'r world \<Rightarrow> 'r world \<Rightarrow> bool" where
  "world_later w w' \<longleftrightarrow> later (w_db w) (w_db w') \<and>
     (\<exists>sent. w_notes w' = w_notes w @ sent \<and> (reachable (w_db w) \<longrightarrow> (\<forall>note \<in> set sent. fulfilled w' note)))"

lemma fulfilled_later:
  "reachable (w_db w) \<Longrightarrow> later (w_db w) (w_db w') \<Longrightarrow> fulfilled w note \<Longrightarrow> fulfilled w' note"
  unfolding fulfilled_def by (rule decisions_are_final_facts(3))

lemma moved_later: "later (w_db w) (snd outcome) \<Longrightarrow> moved outcome w = (r, w') \<Longrightarrow> world_later w w'"
  by (auto simp: moved_def world_later_def)

lemma moved_eq: "moved outcome w = (r, w') \<Longrightarrow> outcome = (r, w_db w')"
  by (auto simp: moved_def)

lemma one_step: "order_step db db' \<Longrightarrow> later db db'"
  by (rule later.more [OF later.same])

lemma committed_stage:
  assumes "reachable db" and "ApplyInventoryResult dbnow replies claimed result now db = (Inr (), db')"
    and "genuine db claimed" and "res_Status result = InventoryCommitted"
  shows "stage_of db' (res_OrderID result) \<in> Some ` {Preparing, Delivering, Delivered}"
proof -
  have r': "reachable db'" using assms(1) order_step.applied [OF assms(3,2)] by (rule reachable.step)
  have "\<exists>io \<in> set (db_operations db'). op_order_id io = res_OrderID result \<and> op_result_status io = InventoryCommitted"
  proof -
    from assms(2) obtain n where body: "apply_body dbnow replies claimed result now db = Inr ((), db', n)"
      by (auto simp: ApplyInventoryResult_def in_tx_Inr split: if_splits)
    then obtain io where io: "find (\<lambda>r. op_operation_id r = res_OperationID result \<and>
          op_order_id r = res_OrderID result) (db_operations db) = Some io"
      and cs: "(op_result_status io = res_Status result \<and> db' = db) \<or>
        (op_result_status io = InventoryPending \<and> apply_pending dbnow replies claimed result now db = Inr ((), db', n))"
      by (auto simp: apply_body_def split: sum.splits option.splits if_splits dest!: stmt_Inl)
    from find_SomeD [OF io] have mem: "io \<in> set (db_operations db)" "op_operation_id io = res_OperationID result"
      "op_order_id io = res_OrderID result" by auto
    from cs show ?thesis
    proof (elim disjE conjE)
      assume p: "op_result_status io = InventoryPending"
        and pend: "apply_pending dbnow replies claimed result now db = Inr ((), db', n)"
      from apply_pending_Inr(1) [OF pend io p] obtain audit where "db' = applied_db dbnow claimed result now audit db" ..
      with mem p have "decided_operation result io \<in> set (db_operations db')"
        by (auto simp: applied_db_def set_update_where)
      with mem assms(4) show ?thesis by (intro bexI [of _ "decided_operation result io"]) (simp_all add: decided_operation_def)
    qed (use mem assms(4) in auto)
  qed
  then obtain io where io: "io \<in> set (db_operations db')" "op_order_id io = res_OrderID result"
    "op_result_status io = InventoryCommitted" by blast
  note coh = reachable_coherent [OF r']
  have "operation_of db' (res_OrderID result) = Some io"
    using find_key_Some [of op_order_id "db_operations db'" io] io coherent_keys [OF coh]
    by (simp add: operation_of_def keys_ok_def)
  moreover obtain s where "stage_of db' (res_OrderID result) = Some s" using coherent_stage [OF coh] by blast
  ultimately show ?thesis using io(3)
    by (auto simp: stage_of_def stage_of_rows_def split: option.splits if_splits FulfillmentStatus.splits)
qed

interpretation ow: outbox_worker world_ok "\<lambda>w. genuine (w_db w)" world_later "store_claim env" "store_apply env"
    "store_retry env" "remote_commit env" send_note config fulfilled
  for env :: "'r env" and config
proof unfold_locales
  fix w w' w'' :: "'r world" and c result now lease batch r1 r2 work next_at code request r nt
  show "world_later w w" by (simp add: world_later_def later.same)
  show "world_later w w''" if "world_later w w'" "world_later w' w''"
    using that later_trans later_reachable fulfilled_later [of w' w''] unfolding world_later_def by fastforce
  show "world_ok w'" if "world_ok w" "world_later w w'"
    using that later_reachable fulfilled_later [of w w'] by (auto simp: world_ok_def world_later_def)
  show "genuine (w_db w') c" if "world_later w w'" "genuine (w_db w) c"
    using that later_genuine by (auto simp: world_later_def)
  show "world_later w w'" if "store_claim env now lease batch w = (r1, w')"
    by (rule moved_later [OF one_step [OF order_step.claim [OF surjective_pairing]]
          that [unfolded store_claim_def Let_def]])
  show "genuine (w_db w') c" if "world_ok w" "store_claim env now lease batch w = (Inr work, w')" "c \<in> set work"
    using claim_takes_leases_facts(3) [OF _ _ moved_eq [OF that(2) [unfolded store_claim_def Let_def]]] that(1,3)
    by (simp add: world_ok_def)
  show "world_later w w'" if "genuine (w_db w) c" "store_apply env c result now w = (r2, w')"
    by (rule moved_later [OF one_step [OF order_step.applied [OF that(1) surjective_pairing]]
          that(2) [unfolded store_apply_def Let_def]])
  show "world_later w w'" if "store_retry env c next_at code w = (r2, w')"
    by (rule moved_later [OF one_step [OF order_step.retry [OF surjective_pairing]]
          that [unfolded store_retry_def Let_def]])
  show "world_later w w'" if "remote_commit env request w = (r, w')"
    using that run_ops_later by (auto simp: remote_commit_def world_later_def split: prod.splits)
  show "fulfilled w' (accepted_note result now)"
    if "world_ok w" "genuine (w_db w) c" "store_apply env c result now w = (Inr (), w')" "res_Status result = InventoryCommitted"
    using committed_stage [OF _ moved_eq [OF that(3) [unfolded store_apply_def Let_def]] that(2,4)] that(1)
    by (simp add: world_ok_def fulfilled_def accepted_note_def)
  show "world_later w (send_note nt w)" if "fulfilled w nt"
    using that by (simp add: world_later_def send_note_def later.same fulfilled_def)
qed

lemma store_worker_eq: "ow.worker env config = store_worker env config"
  by (simp add: ow.worker_def store_worker_def)

text \<open>
  C38: A run of the worker, whatever the database, the inventory and the processes beside it
  answer and however it ends, moves the store only by the operations of the store: every
  reachable state stays reachable, so decisions are not undone, and a cashier is only told of
  orders whose stock is committed.
\<close>

theorem worker_run_keeps_store:
  assumes "reachable (w_db w)" and "Run (store_worker env config) clock signals w = Some (res, w')"
  shows "reachable (w_db w') \<and> later (w_db w) (w_db w') \<and>
    (\<exists>sent. w_notes w' = w_notes w @ sent \<and>
       list_all (\<lambda>note. stage_of (w_db w') (note_OrderID note) \<in> Some ` {Preparing, Delivering, Delivered}) sent)"
proof -
  have "world_ok w" using assms(1) by (simp add: world_ok_def)
  from ow.Run_after [OF this assms(2) [folded store_worker_eq]] assms(1) show ?thesis
    using later_reachable by (auto simp: world_later_def list_all_iff fulfilled_def)
qed

end
