(* ===== verification/Order_Service.thy ===== *)
theory Order_Service
  imports Worker_Store
begin

text \<open>
  The application service of \<open>application/service.go\<close> beyond the preparation of a checkout
  (which is \<open>Checkout\<close>): its queries and the cashier's operations, with the checks made before
  the store is asked and the notification of the customer. The store behind the interface
  \<open>ports.OrderQueries\<close> is a record of functions on a state \<open>'s\<close>; the last section composes the
  service with the order store.
\<close>

section \<open>The service\<close>

record 's OrderQueries =
  qs_CustomerOrder :: "string \<Rightarrow> string \<Rightarrow> 's \<Rightarrow> order_error + Order"
  qs_CustomerOrders :: "string \<Rightarrow> nat \<Rightarrow> string \<Rightarrow> 's \<Rightarrow> order_error + Order list"
  qs_CashierOrder :: "string \<Rightarrow> 's \<Rightarrow> order_error + Order"
  qs_CashierOrders :: "FulfillmentStatus \<Rightarrow> nat \<Rightarrow> string \<Rightarrow> 's \<Rightarrow> order_error + Order list"
  qs_MarkCashierRead :: "string \<Rightarrow> string \<Rightarrow> int \<Rightarrow> 's \<Rightarrow> (order_error + Order) \<times> 's"
  qs_AdvanceFulfillment :: "string \<Rightarrow> string \<Rightarrow> FulfillmentStatus \<Rightarrow> int \<Rightarrow> 's \<Rightarrow> (order_error + Order) \<times> 's"

text \<open>\<open>queries = None\<close> is a service built without the queries (\<open>service.queries == nil\<close>).\<close>

definition Service_CustomerOrder ::
    "'s OrderQueries option \<Rightarrow> string \<Rightarrow> string \<Rightarrow> 's \<Rightarrow> order_error + Order" where
  "Service_CustomerOrder queries customerID orderID st =
     (case queries of
        None \<Rightarrow> Inl ErrInvalidInput
      | Some qs \<Rightarrow>
          if \<not> validUUID customerID \<or> \<not> validUUID orderID then Inl ErrInvalidInput
          else qs_CustomerOrder qs customerID orderID st)"

definition Service_CustomerOrders ::
    "'s OrderQueries option \<Rightarrow> string \<Rightarrow> int \<Rightarrow> string \<Rightarrow> 's \<Rightarrow> order_error + Order list" where
  "Service_CustomerOrders queries customerID limit afterID st =
     (case queries of
        None \<Rightarrow> Inl ErrInvalidInput
      | Some qs \<Rightarrow>
          if \<not> validUUID customerID \<or> limit < 1 \<or> limit > 100 \<or> (afterID \<noteq> [] \<and> \<not> validUUID afterID)
          then Inl ErrInvalidInput
          else qs_CustomerOrders qs customerID (nat limit) afterID st)"

definition Service_CashierOrder :: "'s OrderQueries option \<Rightarrow> string \<Rightarrow> 's \<Rightarrow> order_error + Order" where
  "Service_CashierOrder queries orderID st =
     (case queries of
        None \<Rightarrow> Inl ErrInvalidInput
      | Some qs \<Rightarrow> if \<not> validUUID orderID then Inl ErrInvalidInput else qs_CashierOrder qs orderID st)"

definition Service_CashierOrders ::
    "'s OrderQueries option \<Rightarrow> FulfillmentStatus \<Rightarrow> int \<Rightarrow> string \<Rightarrow> 's \<Rightarrow> order_error + Order list" where
  "Service_CashierOrders queries status limit afterID st =
     (case queries of
        None \<Rightarrow> Inl ErrInvalidInput
      | Some qs \<Rightarrow>
          if limit < 1 \<or> limit > 100 \<or> (afterID \<noteq> [] \<and> \<not> validUUID afterID) then Inl ErrInvalidInput
          else if status \<noteq> FulfillmentOther [] \<and> status \<noteq> FulfillmentPreparing \<and>
                  status \<noteq> FulfillmentDelivering \<and> status \<noteq> FulfillmentDelivered
          then Inl ErrInvalidInput
          else qs_CashierOrders qs status (nat limit) afterID st)"

definition Service_MarkCashierRead ::
    "'s OrderQueries option \<Rightarrow> int \<Rightarrow> string \<Rightarrow> string \<Rightarrow> 's \<Rightarrow> (order_error + Order) \<times> 's" where
  "Service_MarkCashierRead queries now cashierID orderID st =
     (case queries of
        None \<Rightarrow> (Inl ErrInvalidInput, st)
      | Some qs \<Rightarrow>
          if \<not> validUUID cashierID \<or> \<not> validUUID orderID then (Inl ErrInvalidInput, st)
          else qs_MarkCashierRead qs cashierID orderID now st)"

definition customer_note :: "Order \<Rightarrow> FulfillmentStatus \<Rightarrow> int \<Rightarrow> Notification" where
  "customer_note order target now =
     (let kind = (if target = FulfillmentDelivered then NotificationOrderDelivered
                  else NotificationOrderOnTheWay) in
      \<lparr>note_EventID = ord_ID order @ '':'' @ kind_name kind, note_Kind = kind, note_OrderID = ord_ID order,
       note_RecipientUserID = ord_CustomerID order, note_Audience = ''CUSTOMER'', note_OccurredAt = now\<rparr>)"

text \<open>
  \<open>now1\<close> and \<open>now2\<close> are the two readings of the clock; the notifier's error is ignored. An
  invalid transition and any other error both come back as the error.
\<close>

definition Service_AdvanceFulfillment ::
    "'s OrderQueries option \<Rightarrow> (Notification \<Rightarrow> 's \<Rightarrow> 's) \<Rightarrow> int \<Rightarrow> int \<Rightarrow> string \<Rightarrow> string \<Rightarrow>
     FulfillmentStatus \<Rightarrow> 's \<Rightarrow> (order_error + Order) \<times> 's" where
  "Service_AdvanceFulfillment queries notify now1 now2 cashierID orderID target st =
     (case queries of
        None \<Rightarrow> (Inl ErrInvalidInput, st)
      | Some qs \<Rightarrow>
          if \<not> validUUID cashierID \<or> \<not> validUUID orderID \<or>
             (target \<noteq> FulfillmentDelivering \<and> target \<noteq> FulfillmentDelivered)
          then (Inl ErrInvalidInput, st)
          else
            (case qs_AdvanceFulfillment qs cashierID orderID target now1 st of
               (Inl e, st1) \<Rightarrow> (Inl e, st1)
             | (Inr order, st1) \<Rightarrow> (Inr order, notify (customer_note order target now2) st1)))"

section \<open>The service on the order store\<close>

type_synonym shop = "order_db \<times> Notification list"

definition shop_queries :: "(nat \<Rightarrow> reply) \<Rightarrow> shop OrderQueries" where
  "shop_queries replies =
     \<lparr>qs_CustomerOrder = (\<lambda>customerID orderID st. CustomerOrder replies (fst st) customerID orderID),
      qs_CustomerOrders = (\<lambda>customerID limit afterID st. CustomerOrders replies (fst st) customerID limit afterID),
      qs_CashierOrder = (\<lambda>orderID st. CashierOrder replies (fst st) orderID),
      qs_CashierOrders = (\<lambda>status limit afterID st. CashierOrders replies (fst st) status limit afterID),
      qs_MarkCashierRead = (\<lambda>cashierID orderID now st.
        let (res, db) = MarkCashierRead replies cashierID orderID now (fst st) in (res, (db, snd st))),
      qs_AdvanceFulfillment = (\<lambda>cashierID orderID target now st.
        let (res, db) = AdvanceFulfillment replies cashierID orderID target now (fst st) in (res, (db, snd st)))\<rparr>"

definition shop_notify :: "Notification \<Rightarrow> shop \<Rightarrow> shop" where
  "shop_notify note st = (fst st, snd st @ [note])"

lemma advance_success:
  assumes "reachable db" and "AdvanceFulfillment replies cashierID oid target now db = (Inr order, db')"
  shows "\<exists>g n. fulfillment_of db' oid = Some g \<and> fr_status g = target \<and> loadOrder replies n db' oid [] True = Inr order"
proof -
  note sel = fulfillment_select [OF reachable_coherent [OF assms(1)], of oid]
  from assms(2) obtain n where "advance_body replies cashierID oid target now db = Inr (order, db', n)"
    by (auto simp: AdvanceFulfillment_def in_tx_Inr)
  then obtain f where f: "fulfillment_of db oid = Some f" and
    valid: "ValidateFulfillmentTarget (fr_status f) target = None" and
    cs: "(fr_status f = target \<and> db' = db \<and> loadOrder replies 2 db oid [] True = Inr order) \<or>
      (fr_status f \<noteq> target \<and> (\<exists>db1 r. advance_update cashierID oid target now db = Inr (db1, 1) \<and>
         insert_audit db1 r = Inr db' \<and> loadOrder replies 4 db' oid [] True = Inr order))"
    by (auto simp: advance_body_def sel sum_bind_Inr split: sum.splits option.splits if_splits dest!: stmt_Inl) blast+
  from cs show ?thesis
  proof (elim disjE conjE exE)
    fix db1 r
    assume ne: "fr_status f \<noteq> target" and upd: "advance_update cashierID oid target now db = Inr (db1, 1)"
      and aud: "insert_audit db1 r = Inr db'" and load: "loadOrder replies 4 db' oid [] True = Inr order"
    from ne valid have nxt: "target = NextAction (fr_status f)" "fr_status f \<in> {FulfillmentPreparing, FulfillmentDelivering}"
      by (auto simp: ValidateFulfillmentTarget_None)
    have "db' = advanced_db cashierID oid (fr_status f) target now (db_audit db @ [r]) db"
      using upd aud advance_update_next [OF nxt] by (simp add: update_fulfillments_Inr insert_audit_Inr advanced_db_def)
    then have "fulfillment_of db' oid = Some (advanced_row cashierID target now f)"
      using advanced_fulfillment [OF f] by simp
    with load show ?thesis by (auto simp: advanced_row_def Let_def)
  qed (use f in auto)
qed

text \<open>
  The customer hears of a fulfilment step exactly when it was taken or had been taken
  before: a failed request sends nothing, a successful one sends one note, to the customer of
  the order, of the kind of the stage the order is then in.
\<close>

theorem advance_notifies_customer:
  assumes "reachable db" and "Service_AdvanceFulfillment (Some (shop_queries replies)) shop_notify now1 now2
      cashierID orderID target (db, notes) = (res, (db', notes'))"
  shows "(case res of
      Inl e \<Rightarrow> notes' = notes
    | Inr order \<Rightarrow> \<exists>note. notes' = notes @ [note] \<and> note_OrderID note = orderID \<and>
        note_RecipientUserID note = ord_CustomerID order \<and>
        (\<exists>r. order_of db' orderID = Some r \<and> or_customer_id r = ord_CustomerID order) \<and>
        stage_of db' orderID = Some (if note_Kind note = NotificationOrderDelivered then Delivered else Delivering))"
proof (cases res)
  case (Inl e)
  then show ?thesis using assms(2)
    by (auto simp: Service_AdvanceFulfillment_def shop_queries_def shop_notify_def split: if_splits prod.splits sum.splits)
next
  case (Inr order)
  from assms(2) Inr obtain t: "target \<in> {FulfillmentDelivering, FulfillmentDelivered}"
    and run: "AdvanceFulfillment replies cashierID orderID target now1 db = (Inr order, db')"
    and sent: "notes' = notes @ [customer_note order target now2]"
    by (auto simp: Service_AdvanceFulfillment_def shop_queries_def shop_notify_def Let_def
        split: if_splits prod.splits sum.splits)
  from advance_success [OF assms(1) run] obtain g n where g: "fulfillment_of db' orderID = Some g" "fr_status g = target"
    and load: "loadOrder replies n db' orderID [] True = Inr order" by blast
  have r': "reachable db'" using assms(1) order_step.advance [OF run] by (rule reachable.step)
  from coherent_stage [OF reachable_coherent [OF r']] obtain s where s: "stage_of db' orderID = Some s" by blast
  from stage_of_fulfilled [OF s g(1)] g(2) t
  have "s = (if target = FulfillmentDelivered then Delivered else Delivering)" by auto
  moreover from load obtain r u where r: "order_of db' orderID = Some r" "or_customer_id r = ord_CustomerID order"
    "ord_ID order = or_id r"
    by (auto simp: loadOrder_Inr select_order_Some order_of_rows_def)
  moreover have "ord_ID order = orderID" using find_SomeD [OF r(1) [unfolded order_of_def]] r(3) by simp
  ultimately show ?thesis using Inr sent s t by (auto simp: customer_note_def Let_def)
qed

section \<open>A repeated checkout\<close>

text \<open>What every step keeps of an order's row: all but its decision and the time of that.\<close>

definition placed_row :: "order_row \<Rightarrow> order_row" where
  "placed_row r = r\<lparr>or_status := OrderSubmitted, or_rejection_code := None, or_updated_at := or_created_at r\<rparr>"

lemma order_step_placed: "order_step db db' \<Longrightarrow> \<exists>more. map placed_row (db_orders db') = map placed_row (db_orders db) @ more"
proof (induction rule: order_step.induct)
  case (place fmt_time replies seen draft db res1 db')
  from PlaceOrder_atomic_facts(1) [OF place] show ?case by (auto simp: placed_db_def)
next
  case (read replies cashierID orderID now db res2 db')
  from MarkCashierRead_effect [OF read] show ?case by auto
next
  case (advance replies cashierID orderID target now db res2 db')
  from AdvanceFulfillment_effect [OF advance] show ?case by (auto simp: advanced_db_def)
next
  case (claim parse_time busy token arrange reply now leaseTimeout batchSize db res3 db')
  from ClaimInventoryWork_effect [OF claim] show ?case by (auto simp: Let_def)
next
  case (retry reply claimed next_at errorCode db res4 db')
  from RetryInventoryWork_effect [OF retry] show ?case by auto
next
  case (applied db claimed dbnow replies result now res4 db')
  have "placed_row (decided_order dbnow result r) = placed_row r" for r
    by (simp add: placed_row_def decided_order_def)
  with ApplyInventoryResult_effect [OF applied(2)] show ?case by (auto simp: applied_db_def)
qed simp

lemma later_placed: "later db db' \<Longrightarrow> \<exists>more. map placed_row (db_orders db') = map placed_row (db_orders db) @ more"
proof (induction rule: later.induct)
  case (more db db' db'')
  from more.IH order_step_placed [OF more.hyps(2)] show ?case by (metis append.assoc)
qed simp

definition order_ids :: "order_db \<Rightarrow> string set" where
  "order_ids db = or_id ` set (db_orders db)"

lemma order_ids_placed: "order_ids db = or_id ` set (map placed_row (db_orders db))"
  by (simp add: order_ids_def image_image placed_row_def)

lemma order_ids_grow: "order_step db db' \<Longrightarrow> order_ids db \<subseteq> order_ids db'"
  unfolding order_ids_placed by (auto dest: order_step_placed simp del: set_map)

lemma later_ids_grow: "later db db' \<Longrightarrow> order_ids db \<subseteq> order_ids db'"
  unfolding order_ids_placed by (auto dest: later_placed simp del: set_map)

lemma placed_ids:
  assumes "placeable draft db"
  shows "ord_ID (draft_Order draft) \<in> order_ids (placed_db fmt_time draft db) - order_ids db"
proof -
  have "or_id (order_row_of draft) = ord_ID (draft_Order draft)" by (simp add: order_row_of_def Let_def)
  moreover have "\<forall>x \<in> set (db_orders db). \<not> order_clash x (order_row_of draft)"
    using assms by (simp add: placeable_def)
  ultimately show ?thesis by (auto simp: order_ids_def placed_db_def order_clash_def)
qed

text \<open>Lines are only added, and only with their order.\<close>

lemma order_step_lines:
  "order_step db db' \<Longrightarrow> \<exists>more. db_lines db' = db_lines db @ more \<and>
     (\<forall>l \<in> set more. lr_order_id l \<in> order_ids db' - order_ids db)"
proof (induction rule: order_step.induct)
  case (place fmt_time replies seen draft db res1 db')
  from PlaceOrder_atomic_facts(1) [OF place] show ?case
  proof
    assume able: "placeable draft db \<and> db' = placed_db fmt_time draft db"
    then have "db_lines db' = db_lines db @ line_rows draft" by (simp add: placed_db_def)
    with placed_ids able show ?thesis by (auto simp: line_rows_def)
  qed simp
next
  case (read replies cashierID orderID now db res2 db')
  from MarkCashierRead_effect [OF read] show ?case by auto
next
  case (advance replies cashierID orderID target now db res2 db')
  from AdvanceFulfillment_effect [OF advance] show ?case by (auto simp: advanced_db_def)
next
  case (claim parse_time busy token arrange reply now leaseTimeout batchSize db res3 db')
  from ClaimInventoryWork_effect [OF claim] show ?case by (auto simp: Let_def)
next
  case (retry reply claimed next_at errorCode db res4 db')
  from RetryInventoryWork_effect [OF retry] show ?case by auto
next
  case (applied db claimed dbnow replies result now res4 db')
  from ApplyInventoryResult_effect [OF applied(2)] show ?case by (auto simp: applied_db_def)
qed simp

lemma reachable_lines: "reachable db \<Longrightarrow> l \<in> set (db_lines db) \<Longrightarrow> lr_order_id l \<in> order_ids db"
proof (induction arbitrary: l rule: reachable.induct)
  case (step db db')
  from order_step_lines [OF step.hyps(2)] order_ids_grow [OF step.hyps(2)] step show ?case by fastforce
qed (simp add: empty_db_def)

definition lines_of :: "order_db \<Rightarrow> string \<Rightarrow> line_row list" where
  "lines_of db oid = filter (\<lambda>l. lr_order_id l = oid) (db_lines db)"

lemma later_lines: "later db db' \<Longrightarrow> oid \<in> order_ids db \<Longrightarrow> lines_of db' oid = lines_of db oid"
proof (induction rule: later.induct)
  case (more db db' db'')
  from later_ids_grow [OF more.hyps(1)] more.prems have "oid \<in> order_ids db'" by blast
  with order_step_lines [OF more.hyps(2)] have "lines_of db'' oid = lines_of db' oid"
    by (auto simp: lines_of_def filter_empty_conv)
  with more show ?case by simp
qed simp

lemma placed_lines:
  assumes "reachable db" and "placeable draft db"
    and "sorted_wrt (<) (map line_ProductID (ord_Lines (draft_Order draft)))"
    and "later (placed_db fmt_time draft db) db'"
  shows "select_lines db' (ord_ID (draft_Order draft)) = ord_Lines (draft_Order draft)"
proof -
  let ?oid = "ord_ID (draft_Order draft)" and ?db = "placed_db fmt_time draft db"
  have "?oid \<notin> order_ids db" "?oid \<in> order_ids ?db" using placed_ids [OF assms(2)] by blast+
  moreover have "\<forall>l \<in> set (db_lines db). lr_order_id l \<noteq> ?oid"
    using reachable_lines [OF assms(1)] \<open>?oid \<notin> order_ids db\<close> by metis
  ultimately have "lines_of ?db ?oid = line_rows draft"
    by (simp add: lines_of_def placed_db_def line_rows_def filter_empty_conv)
  with later_lines [OF assms(4) \<open>?oid \<in> order_ids ?db\<close>] have "lines_of db' ?oid = line_rows draft" by simp
  then have "map lr_line (lines_of db' ?oid) = ord_Lines (draft_Order draft)" by (simp add: line_rows_def comp_def)
  moreover have "sorted (map (\<lambda>l. (line_ProductID l, line_ID l)) (ord_Lines (draft_Order draft)))"
    using assms(3) unfolding sorted_map sorted_wrt_map by (rule sorted_wrt_mono_rel [rotated]) simp
  ultimately show ?thesis by (simp add: select_lines_def lines_of_def [symmetric] sort_key_id_if_sorted)
qed

text \<open>A command that was accepted once is refused later only for the catalog or the identifiers.\<close>

lemma price_lines_Inl:
  assumes "price_lines requested byID subtotal pids = Inl e" and "0 \<le> subtotal"
    and "\<forall>pid \<in> set pids. 1 \<le> req_Quantity (map_get zero_line requested pid) \<and>
      0 \<le> req_ExpectedUnitPriceCentavos (map_get zero_line requested pid)"
    and "subtotal + (\<Sum>pid\<leftarrow>pids. req_ExpectedUnitPriceCentavos (map_get zero_line requested pid) *
      req_Quantity (map_get zero_line requested pid)) \<le> max_int64"
  shows "e = ErrCartChanged"
  using assms
proof (induction pids arbitrary: subtotal)
  case (Cons pid rest)
  let ?amount = "\<lambda>pid. req_ExpectedUnitPriceCentavos (map_get zero_line requested pid) * req_Quantity (map_get zero_line requested pid)"
  have "0 \<le> ?amount x" if "x \<in> set (pid # rest)" for x
  proof -
    from that Cons.prems(3) have "1 \<le> req_Quantity (map_get zero_line requested x)"
      "0 \<le> req_ExpectedUnitPriceCentavos (map_get zero_line requested x)" by blast+
    then show ?thesis by (intro mult_nonneg_nonneg) simp_all
  qed
  then have nonneg: "0 \<le> (\<Sum>pid\<leftarrow>rest. ?amount pid)" "0 \<le> ?amount pid"
    by (auto intro!: sum_list_nonneg)
  with Cons.prems(4) have fits: "subtotal \<le> max_int64" "subtotal + ?amount pid \<le> max_int64" by auto
  show ?case
  proof (cases "cart_matches requested byID pid")
    case True
    then have "line_amount requested byID pid = ?amount pid" by (auto simp: line_amount_def cart_matches_def)
    with Cons.prems fits True have "price_lines requested byID (subtotal + ?amount pid) rest = Inl e"
      by (simp add: price_lines_step del: price_lines.simps)
    from Cons.IH [OF this] Cons.prems(2-4) nonneg show ?thesis by simp
  next
    case False
    with Cons.prems(1-3) fits(1) show ?thesis by (simp add: price_lines_step del: price_lines.simps)
  qed
qed simp

lemma prepared_again:
  assumes "prepare_order resolve ids digest now command = Inr draft"
    and "prepare_order resolve2 ids2 digest now2 command = Inl e"
  shows "e = ErrCartChanged \<or> resolve2 (sort (map product_key (cmd_Lines command))) = Inl e \<or> (\<exists>n. ids2 n = None)"
proof (rule ccontr)
  let ?ls = "cmd_Lines command"
  let ?pids = "sort (map product_key ?ls)" and ?m = "line_map ?ls"
  assume "\<not> ?thesis"
  then have no: "e \<noteq> ErrCartChanged" "resolve2 ?pids \<noteq> Inl e" and ids: "ids2 n \<noteq> None" for n by auto
  from assms(1) obtain products t where ok: "command_ok (trim_command command)" "lines_ok ?ls"
    and price: "price_lines ?m (index_products products) 0 ?pids = Inr t" by (rule prepare_order_Inr) blast
  from price have total: "(\<Sum>l\<leftarrow>?ls. req_ExpectedUnitPriceCentavos l * req_Quantity l) \<le> max_int64"
    by (simp add: price_lines_sum [OF ok(2)])
  have each: "req_ExpectedUnitPriceCentavos (map_get zero_line ?m (product_key l)) = req_ExpectedUnitPriceCentavos l"
    "req_Quantity (map_get zero_line ?m (product_key l)) = req_Quantity l" if "l \<in> set ?ls" for l
    using line_map_at [OF ok(2) that] by simp_all
  have "(\<Sum>pid\<leftarrow>?pids. req_ExpectedUnitPriceCentavos (map_get zero_line ?m pid) * req_Quantity (map_get zero_line ?m pid)) =
      (\<Sum>l\<leftarrow>?ls. req_ExpectedUnitPriceCentavos l * req_Quantity l)"
    unfolding sum_list_sort using each by (auto simp: comp_def intro!: arg_cong [where f = sum_list])
  with total have fits: "0 + (\<Sum>pid\<leftarrow>?pids. req_ExpectedUnitPriceCentavos (map_get zero_line ?m pid) *
      req_Quantity (map_get zero_line ?m pid)) \<le> max_int64" by simp
  have good: "\<forall>pid \<in> set ?pids. 1 \<le> req_Quantity (map_get zero_line ?m pid) \<and>
      0 \<le> req_ExpectedUnitPriceCentavos (map_get zero_line ?m pid)"
    using ok(2) each by (auto simp: lines_ok_def line_ok_def)
  from assms(2) no(2) ok obtain products2 where r: "resolve2 ?pids = Inr products2"
    by (auto simp: prepare_order_def Let_def collect_lines_start split: sum.splits)
  have "price_lines ?m (index_products products2) 0 ?pids \<noteq> Inl e"
    using price_lines_Inl [OF _ _ good fits] no(1) by auto
  then obtain t2 where p: "price_lines ?m (index_products products2) 0 ?pids = Inr t2"
    using price_lines_Inl [OF _ _ good fits] assms(2) ok r
    by (cases "price_lines ?m (index_products products2) 0 ?pids")
      (auto simp: prepare_order_def Let_def collect_lines_start)
  obtain lines where "build_lines ids2 3 ?m (index_products products2) ?pids = Inr lines"
    using build_lines_ids [of ids2 3 ?m "index_products products2" ?pids] ids by blast
  with assms(2) ok r p ids [of 0] ids [of 1] ids [of 2] show False
    by (auto simp: prepare_order_def Let_def collect_lines_start)
qed

lemma same_command_drafts:
  assumes "prepare_order resolve ids digest now command = Inr draft"
    and "prepare_order resolve2 ids2 digest now2 command = Inr draft2"
  shows "draft_CheckoutFingerprint draft2 = draft_CheckoutFingerprint draft"
    and "ord_CheckoutID (draft_Order draft) = cmd_CheckoutID command"
    and "order_row_of draft2 = (order_row_of draft)\<lparr>or_id := ord_ID (draft_Order draft2),
      or_created_at := draft_OccurredAt draft2, or_updated_at := draft_OccurredAt draft2\<rparr>"
proof -
  let ?fp = "checkoutFingerprint digest (trim_command command)
             (sort (map product_key (cmd_Lines command))) (line_map (cmd_Lines command))"
  from prepare_order_Inr [OF assms(1)] obtain products t lines oid eid opid where
    ok: "lines_ok (cmd_Lines command)"
    and p: "price_lines (line_map (cmd_Lines command)) (index_products products) 0
           (sort (map product_key (cmd_Lines command))) = Inr t"
    and d: "draft = make_draft (trim_command command) oid eid opid lines t ?fp now" by metis
  from prepare_order_Inr [OF assms(2)] obtain products2 t2 lines2 oid2 eid2 opid2 where
    p2: "price_lines (line_map (cmd_Lines command)) (index_products products2) 0
           (sort (map product_key (cmd_Lines command))) = Inr t2"
    and d2: "draft2 = make_draft (trim_command command) oid2 eid2 opid2 lines2 t2 ?fp now2" by metis
  have "t2 = t" using p p2 by (simp add: price_lines_sum [OF ok])
  then show "draft_CheckoutFingerprint draft2 = draft_CheckoutFingerprint draft"
    "ord_CheckoutID (draft_Order draft) = cmd_CheckoutID command"
    "order_row_of draft2 = (order_row_of draft)\<lparr>or_id := ord_ID (draft_Order draft2),
      or_created_at := draft_OccurredAt draft2, or_updated_at := draft_OccurredAt draft2\<rparr>"
    by (simp_all add: d d2 make_draft_def order_row_of_def trim_command_def)
qed

text \<open>The parts of an order that a draft leaves open.\<close>

definition as_placed :: "Order \<Rightarrow> Order" where
  "as_placed order = order\<lparr>ord_CustomerName := [], ord_Status := OrderSubmitted, ord_RejectionCode := [],
     ord_Fulfillment := None, ord_UnavailableItems := [], ord_UpdatedAt := ord_CreatedAt order\<rparr>"

lemma draft_as_placed:
  assumes "prepare_order resolve ids digest now command = Inr draft"
    and "placed_row r = order_row_of draft" and "select_order db (or_id r) customer cashier = Some order"
    and "order_of db (or_id r) = Some r"
  shows "draft_Order draft = as_placed (order\<lparr>ord_Lines := ord_Lines (draft_Order draft)\<rparr>)"
proof -
  from assms(1) obtain lines t oid eid opid fp where
    d: "draft = make_draft (trim_command command) oid eid opid lines t fp now" by (rule prepare_order_Inr) blast
  from assms(3,4) obtain u f io where o: "order = order_of_rows r u f io" by (auto simp: select_order_Some)
  from assms(2) show ?thesis
    by (cases r) (simp add: o d make_draft_def placed_row_def order_row_of_def as_placed_def order_of_rows_def)
qed

lemma placed_replays:
  assumes "reachable db" and "prepare_order resolve ids digest now command = Inr draft"
    and "PlaceOrder fmt_time replies seen draft db = (Inr p, db1)" and "\<not> placed_Replayed p" and "later db1 db2"
    and "prepare_order resolve2 ids2 digest now2 command = Inr draft2"
    and "findCheckout seen2 (cmd_CheckoutID command) \<in> {None, findCheckout db2 (cmd_CheckoutID command)}"
    and "\<forall>n. replies2 n = Done"
  shows "\<exists>stored. PlaceOrder fmt_time2 replies2 seen2 draft2 db2 = (Inr \<lparr>placed_Order = stored, placed_Replayed = True\<rparr>, db2) \<and>
    loadOrder replies2 0 db2 (ord_ID (placed_Order p)) (cmd_CustomerID command) False = Inr stored \<and>
    as_placed stored = placed_Order p"
proof -
  have placed: "db1 = placed_db fmt_time draft db" "placed_Order p = draft_Order draft"
    using PlaceOrder_atomic_facts(2) [OF assms(3) refl assms(4)] by simp_all
  have "length (db_orders db1) \<noteq> length (db_orders db)" by (simp add: placed(1) placed_db_def)
  with PlaceOrder_atomic_facts(1) [OF assms(3)] have able: "placeable draft db" by auto
  note same = same_command_drafts [OF assms(2,6)]
  have r2: "reachable db2"
    using assms(5) reachable.step [OF assms(1) order_step.place [OF assms(3)]] by (rule later_reachable)
  have "placed_row (order_row_of draft) = order_row_of draft" by (simp add: placed_row_def order_row_of_def Let_def)
  moreover have "order_row_of draft \<in> set (db_orders db1)" by (simp add: placed(1) placed_db_def)
  ultimately have "order_row_of draft \<in> set (map placed_row (db_orders db1))" by force
  moreover obtain more where "map placed_row (db_orders db2) = map placed_row (db_orders db1) @ more"
    using later_placed [OF assms(5)] by blast
  ultimately have "order_row_of draft \<in> set (map placed_row (db_orders db2))" by simp
  then obtain r where r: "r \<in> set (db_orders db2)" "placed_row r = order_row_of draft" by auto
  have customer: "ord_CustomerID (draft_Order draft) = cmd_CustomerID command"
    using assms(2) by (rule prepare_order_Inr) (simp add: make_draft_def trim_command_def)
  have row: "or_id r = ord_ID (draft_Order draft)" "or_checkout_id r = cmd_CheckoutID command"
    "or_checkout_fingerprint r = draft_CheckoutFingerprint draft" "or_customer_id r = cmd_CustomerID command"
    using r(2) same(2) customer by (cases r; simp add: placed_row_def order_row_of_def Let_def)+
  have chk: "order_check (order_row_of draft2)"
    using able unfolding same(3) order_check_def placeable_def by (elim conjE, intro conjI) simp_all
  have d2: "ord_CheckoutID (draft_Order draft2) = or_checkout_id r" "ord_CustomerID (draft_Order draft2) = or_customer_id r"
    using same_command_drafts(2) [OF assms(6,2)] arg_cong [OF same(3), of or_customer_id] row(2,4) customer
    by (simp_all add: order_row_of_def Let_def)
  have seen: "findCheckout seen2 (or_checkout_id r) \<in> {None, findCheckout db2 (or_checkout_id r)}"
    using assms(7) row(2) by simp
  note idem = PlaceOrder_idempotent_facts [OF coherent_keys [OF reachable_coherent [OF r2]] r(1) d2(1) seen assms(8) chk]
  from idem(1) idem(2) [of fmt_time2] d2(2) same(1) row(3)
  obtain o' where sel: "select_order db2 (or_id r) (or_customer_id r) False = Some o'"
    and run: "PlaceOrder fmt_time2 replies2 seen2 draft2 db2 =
      (Inr \<lparr>placed_Order = o'\<lparr>ord_Lines := select_lines db2 (or_id r)\<rparr>, placed_Replayed = True\<rparr>, db2)" by auto
  have lines: "select_lines db2 (or_id r) = ord_Lines (draft_Order draft)"
    unfolding row(1) using assms(1) able prepare_order_totals_facts(7) [OF assms(2)] assms(5) [unfolded placed(1)]
    by (rule placed_lines)
  have "order_of db2 (or_id r) = Some r"
    using coherent_keys [OF reachable_coherent [OF r2]] r(1) by (rule order_of_mem)
  from draft_as_placed [OF assms(2) r(2) sel this, symmetric] run sel row(1,4) assms(8) placed(2) show ?thesis
    by (simp add: loadOrder_def stmt_def lines [unfolded row(1)])
qed

text \<open>
  C39: A checkout that was placed and is sent again, after anything else happened, with newly
  generated identifiers and whatever the catalog has become, stores nothing: no second order exists
  for the checkout. While the cart still has its prices the answer is the first order, as a replay and as
  the store has it now: with the identifier, customer, lines, prices, totals, address, notes and time
  it was placed with. The cart is priced first, so the repeated request is refused when the catalog
  changed (\<open>ErrCartChanged\<close>), cannot be read, or no identifier can be made. The database answers the
  repeated request, whose early lookup may have missed the order that another request was placing.
\<close>

theorem repeated_checkout_replays:
  assumes "reachable db"
    and "PlaceOrder_service resolve ids digest now (\<lambda>draft db. PlaceOrder fmt_time replies seen draft db) command db =
      (Inr p, db1)" and "\<not> placed_Replayed p"
    and "later db1 db2"
    and "findCheckout seen2 (cmd_CheckoutID command) \<in> {None, findCheckout db2 (cmd_CheckoutID command)}"
    and "\<forall>n. replies2 n = Done"
  shows "case prepare_order resolve2 ids2 digest now2 command of
      Inl e \<Rightarrow>
        PlaceOrder_service resolve2 ids2 digest now2 (\<lambda>draft db. PlaceOrder fmt_time2 replies2 seen2 draft db) command db2 =
          (Inl e, db2) \<and>
        (e = ErrCartChanged \<or> resolve2 (sort (map product_key (cmd_Lines command))) = Inl e \<or> (\<exists>n. ids2 n = None))
    | Inr _ \<Rightarrow> \<exists>stored.
        PlaceOrder_service resolve2 ids2 digest now2 (\<lambda>draft db. PlaceOrder fmt_time2 replies2 seen2 draft db) command db2 =
          (Inr \<lparr>placed_Order = stored, placed_Replayed = True\<rparr>, db2) \<and>
        loadOrder replies2 0 db2 (ord_ID (placed_Order p)) (cmd_CustomerID command) False = Inr stored \<and>
        as_placed stored = placed_Order p"
proof -
  from assms(2) obtain draft where prep: "prepare_order resolve ids digest now command = Inr draft"
    and place: "PlaceOrder fmt_time replies seen draft db = (Inr p, db1)"
    by (auto simp: PlaceOrder_service_def split: sum.splits)
  show ?thesis
  proof (cases "prepare_order resolve2 ids2 digest now2 command")
    case (Inl e)
    with prepared_again [OF prep Inl] show ?thesis by (simp add: PlaceOrder_service_def)
  next
    case (Inr draft2)
    from placed_replays [OF assms(1) prep place assms(3,4) Inr assms(5,6), of fmt_time2] Inr
    show ?thesis by (simp add: PlaceOrder_service_def)
  qed
qed

end
