(* ===== verification/Service_Samples.thy ===== *)
theory Service_Samples
  imports Order_Samples Order_Service
begin

text \<open>
  The worker and the service at the history of \<open>Order_Samples\<close>: the properties of \<open>Outbox_Worker\<close>,
  \<open>Worker_Store\<close> and \<open>Order_Service\<close> are instantiated on it.
\<close>

section \<open>The worker\<close>

definition tea_env :: "unit env" where
  "tea_env = \<lparr>env_parse_time = (\<lambda>_. Some 10), env_replies = (\<lambda>_ _. Done), env_busy = (\<lambda>_ _. False),
     env_token = (\<lambda>_ _. ''t1''), env_rank = (\<lambda>_ _. 0), env_dbnow = (\<lambda>_. 22), env_others = (\<lambda>_. []),
     env_remote = (\<lambda>_ r. (Inr (sample_decision InventoryCommitted []), r))\<rparr>"

definition tea_world :: "unit world" where
  "tea_world = \<lparr>w_db = db1, w_remote = (), w_notes = [], w_calls = 0\<rparr>"

theorem Run_returns_witness:
  "Run (store_worker tea_env sample_config) (\<lambda>_. 20) (\<lambda>_. Cancelled) tea_world \<noteq> None"
  using conjunct1 [OF Run_returns [of "store_worker tea_env sample_config" "\<lambda>_. 20" "\<lambda>_. Cancelled" tea_world]] by simp

lemma Run_cancelled: "\<exists>r w'. Run worker clock (\<lambda>_. Cancelled) w = Some (r, w')"
  unfolding Run_def by (subst run_loop.simps) (auto split: prod.splits sum.splits)

theorem worker_run_keeps_store_witness:
  "\<exists>r w'. Run (store_worker tea_env sample_config) (\<lambda>_. 20) (\<lambda>_. Cancelled) tea_world = Some (r, w') \<and>
     reachable (w_db w') \<and> later db1 (w_db w')"
proof -
  obtain r w' where run: "Run (store_worker tea_env sample_config) (\<lambda>_. 20) (\<lambda>_. Cancelled) tea_world = Some (r, w')"
    using Run_cancelled [of "store_worker tea_env sample_config" "\<lambda>_. 20" tea_world] by (elim exE)
  have "reachable (w_db tea_world)" using reachable_samples(2) by (simp add: tea_world_def)
  from worker_run_keeps_store [OF this run] run show ?thesis by (auto simp: tea_world_def)
qed

section \<open>Fulfilment\<close>

abbreviation tea_order :: string where "tea_order \<equiv> ''aaaaaaaa-0000-4000-8000-000000000001''"
abbreviation tea_cashier :: string where "tea_cashier \<equiv> ''bbbbbbbb-0000-4000-8000-000000000001''"

lemma tea_uuids: "validUUID tea_order" "validUUID tea_cashier"
  by (simp_all add: uuid_eval)

lemma tea_advanced: "\<exists>order db'. AdvanceFulfillment all_done tea_cashier tea_order FulfillmentDelivering 50 db_confirmed = (Inr order, db')"
proof -
  have user: "is_user db_confirmed tea_cashier"
    by (simp add: is_user_def db_confirmed_def applied_db_def sample_rows)
  show ?thesis
    using advance_fulfillment_spec_facts(4) [OF reachable_decided(2) all_done sample_fulfillment, of FulfillmentDelivering tea_cashier 50] user
    by (auto simp: new_fulfillment_def NextAction_def fulfillment_check_def user_or_null_def text_between_ascii byte_def)
qed

theorem advance_notifies_customer_witness:
  "\<exists>order db' note. Service_AdvanceFulfillment (Some (shop_queries all_done)) shop_notify 50 51 tea_cashier tea_order
      FulfillmentDelivering (db_confirmed, []) = (Inr order, (db', [note])) \<and> note_OrderID note = tea_order \<and>
    note_RecipientUserID note = ord_CustomerID order"
proof -
  obtain order db' where "AdvanceFulfillment all_done tea_cashier tea_order FulfillmentDelivering 50 db_confirmed = (Inr order, db')"
    using tea_advanced by blast
  then have run: "Service_AdvanceFulfillment (Some (shop_queries all_done)) shop_notify 50 51 tea_cashier tea_order
      FulfillmentDelivering (db_confirmed, []) = (Inr order, (db', [customer_note order FulfillmentDelivering 51]))"
    by (simp add: Service_AdvanceFulfillment_def shop_queries_def shop_notify_def tea_uuids)
  from advance_notifies_customer [OF reachable_decided(2) run] run show ?thesis by auto
qed

section \<open>A repeated checkout\<close>

definition hex_digest :: "fingerprintPayload \<Rightarrow> string" where
  "hex_digest p = replicate 64 CHR ''f''"

definition cake_ids :: "nat \<Rightarrow> string option" where
  "cake_ids n = Some (CHR ''c'' # replicate n CHR ''i'')"

definition cake_draft :: "int \<Rightarrow> OrderDraft" where
  "cake_draft now = make_draft (trim_command sample_command) ''c'' ''ci'' ''cii''
     [sample_line ''ciii'' ''cake'' ''Cake'' 9000 1, sample_line ''ciiii'' ''tea'' ''Tea'' 150 2] 9300
     (replicate 64 CHR ''f'') now"

lemma cake_built:
  "build_lines cake_ids 3 (line_map (cmd_Lines sample_command)) (index_products products) [''cake'', ''tea''] =
   Inr [sample_line ''ciii'' ''cake'' ''Cake'' 9000 1, sample_line ''ciiii'' ''tea'' ''Tea'' 150 2]"
  if "sample_resolve [''cake'', ''tea''] = Inr products"
  using that by (auto simp: sample_requested sample_resolve_def index_products_def Let_def cake_ids_def sample_line_def
     sample_trim max_int64_def wrap64_def numeral_3_eq_3)

lemma cake_prepared: "prepare_order sample_resolve cake_ids hex_digest now sample_command = Inr (cake_draft now)"
proof -
  obtain products where p: "sample_resolve [''cake'', ''tea''] = Inr products" by (simp add: sample_resolve_def)
  have i: "cake_ids 0 = Some ''c''" "cake_ids 1 = Some ''ci''" "cake_ids 2 = Some ''cii''"
    by (simp_all add: cake_ids_def numeral_2_eq_2)
  have f: "checkoutFingerprint hex_digest c ids m = replicate 64 CHR ''f''" for c ids m
    by (simp add: checkoutFingerprint_def hex_digest_def)
  show ?thesis
    unfolding prepare_order_def Let_def cmd_Lines_trim collect_lines_start
    by (simp only: sample_command_ok sample_sorted sample_lines_ok p sample_priced [OF p] cake_built [OF p]
       i f cake_draft_def if_True if_False option.case sum.case prod.case not_True_eq_False)
qed

definition cake_db :: order_db where
  "cake_db = empty_db [\<lparr>ur_id = ''11111111-1111-4111-8111-111111111111'', ur_name = ''Ann''\<rparr>]"

lemmas cake_rows = cake_draft_def make_draft_def sample_line_def trim_command_def Let_def

lemma cake_placeable: "placeable (cake_draft now) cake_db"
  unfolding placeable_def
proof (intro conjI)
  show "order_check (order_row_of (cake_draft now))"
    by (simp add: order_check_def order_row_of_def cake_rows sample_command_def sample_trim sample_text)
  show "\<forall>r\<in>set (line_rows (cake_draft now)). line_check r \<and> (\<forall>x\<in>set (db_lines cake_db). \<not> line_clash x r)"
    by (simp add: line_check_def line_rows_def cake_rows sample_text cake_db_def empty_db_def)
  show "audit_check (placed_audit (cake_draft now))"
    by (simp add: audit_check_def placed_audit_def cake_rows sample_command_def sample_text)
  show "is_user cake_db (ord_CustomerID (draft_Order (cake_draft now)))"
    by (simp add: is_user_def cake_db_def empty_db_def cake_rows sample_command_def)
qed (simp_all add: cake_db_def empty_db_def line_rows_def line_clash_def cake_rows)

lemma cake_placed:
  "PlaceOrder_service sample_resolve cake_ids hex_digest 7 (\<lambda>draft db. PlaceOrder stamp all_done cake_db draft db) sample_command cake_db =
    (Inr \<lparr>placed_Order = draft_Order (cake_draft 7), placed_Replayed = False\<rparr>, placed_db stamp (cake_draft 7) cake_db)"
proof -
  have "findCheckout cake_db x = None" for x by (simp add: findCheckout_def cake_db_def empty_db_def)
  from PlaceOrder_placeable [OF cake_placeable this all_done] show ?thesis
    by (simp add: PlaceOrder_service_def cake_prepared)
qed

theorem repeated_checkout_replays_witness:
  "\<exists>stored. PlaceOrder_service sample_resolve cake_ids hex_digest 9 (\<lambda>draft db. PlaceOrder stamp all_done cake_db draft db)
      sample_command (placed_db stamp (cake_draft 7) cake_db) =
    (Inr \<lparr>placed_Order = stored, placed_Replayed = True\<rparr>, placed_db stamp (cake_draft 7) cake_db) \<and> ord_ID stored = ''c''"
proof -
  have r: "reachable cake_db" unfolding cake_db_def by (rule reachable.start)
  have none: "findCheckout cake_db (cmd_CheckoutID sample_command) \<in>
      {None, findCheckout (placed_db stamp (cake_draft 7) cake_db) (cmd_CheckoutID sample_command)}"
    by (simp add: findCheckout_def cake_db_def empty_db_def)
  from repeated_checkout_replays [OF r cake_placed _ later.same none all_done, where ?fmt_time2.0 = stamp
      and ?resolve2.0 = sample_resolve and ?ids2.0 = cake_ids and ?now2.0 = 9]
  obtain stored where run: "PlaceOrder_service sample_resolve cake_ids hex_digest 9 (\<lambda>draft db. PlaceOrder stamp all_done cake_db draft db)
      sample_command (placed_db stamp (cake_draft 7) cake_db) =
    (Inr \<lparr>placed_Order = stored, placed_Replayed = True\<rparr>, placed_db stamp (cake_draft 7) cake_db)"
    and "as_placed stored = draft_Order (cake_draft 7)" by (auto simp: cake_prepared)
  then have "ord_ID (as_placed stored) = ''c''" by (simp add: cake_draft_def make_draft_def)
  with run show ?thesis by (auto simp: as_placed_def)
qed

end
