(* ===== verification/Order_Fakes.thy ===== *)
theory Order_Fakes
  imports Order_Domain Go_Text "HOL-Library.Word"
begin

text \<open>
  The in-process adapters of \<open>services/ordering/internal/ordering/adapters\<close>: the generator of
  identifiers (\<open>system/system.go\<close>), the inventory of development and tests
  (\<open>inventoryfake/committer.go\<close>) and its catalog (\<open>catalogfake/catalog.go\<close>). The contract of an
  inventory, one answer per operation that stands for ever, is a locale.
\<close>

unbundle bit_operations_syntax

section \<open>Identifiers\<close>

definition hex_digit :: "nat \<Rightarrow> char" where
  "hex_digit n = char_of (if n < 10 then 48 + n else 87 + n)"

definition hex_byte :: "8 word \<Rightarrow> string" where
  "hex_byte b = [hex_digit (unat b div 16), hex_digit (unat b mod 16)]"

definition hex_text :: "8 word list \<Rightarrow> string" where
  "hex_text bs = concat (map hex_byte bs)"

text \<open>The version and variant bits of a random UUID.\<close>

definition stamp_uuid :: "8 word list \<Rightarrow> 8 word list" where
  "stamp_uuid value = value[6 := (value ! 6 AND 15) OR 64, 8 := (value ! 8 AND 63) OR 128]"

definition format_uuid :: "8 word list \<Rightarrow> string" where
  "format_uuid value =
     hex_text (take 4 value) @ ''-'' @ hex_text (take 2 (drop 4 value)) @ ''-'' @
     hex_text (take 2 (drop 6 value)) @ ''-'' @ hex_text (take 2 (drop 8 value)) @ ''-'' @
     hex_text (take 6 (drop 10 value))"

text \<open>\<open>IDs.New\<close>: sixteen random bytes, or none when the source of randomness fails.\<close>

definition IDs_New :: "8 word list option \<Rightarrow> string option" where
  "IDs_New randomness =
     (case randomness of None \<Rightarrow> None | Some value \<Rightarrow> Some (format_uuid (stamp_uuid value)))"

text \<open>Reading the digits back.\<close>

definition digit_value :: "char \<Rightarrow> nat" where
  "digit_value c = (if byte c < 58 then byte c - 48 else byte c - 87)"

fun unhex :: "string \<Rightarrow> 8 word list" where
  "unhex (a # b # rest) = of_nat (digit_value a * 16 + digit_value b) # unhex rest"
| "unhex _ = []"

lemma byte_hex_digit: "n < 16 \<Longrightarrow> byte (hex_digit n) = (if n < 10 then 48 + n else 87 + n)"
  by (simp add: hex_digit_def byte_def)

lemma hex_digit_facts [simp]:
  assumes "n < 16"
  shows "is_hex (hex_digit n)" and "digit_value (hex_digit n) = n" and "hex_digit n \<noteq> CHR ''-''"
proof -
  show "is_hex (hex_digit n)" "digit_value (hex_digit n) = n"
    using assms by (auto simp: is_hex_def digit_value_def byte_hex_digit)
  then show "hex_digit n \<noteq> CHR ''-''" by (metis is_hex_dash)
qed

lemma unat_byte [simp]: "unat (b :: 8 word) div 16 < 16"
proof -
  have "unat b < 2 ^ LENGTH(8)" by (rule unsigned_less)
  then show ?thesis by (simp add: less_mult_imp_div_less)
qed

lemma unhex_byte [simp]: "unhex (hex_byte b @ rest) = b # unhex rest"
  by (simp add: hex_byte_def)

lemma hex_text_simps [simp]:
  "hex_text [] = []" "hex_text (b # bs) = hex_byte b @ hex_text bs"
  by (simp_all add: hex_text_def)

lemma length_hex_text [simp]: "length (hex_text bs) = 2 * length bs"
  by (induction bs) (simp_all add: hex_byte_def)

lemma hex_text_digits: "list_all is_hex (hex_text bs)" "filter (\<lambda>c. c \<noteq> CHR ''-'') (hex_text bs) = hex_text bs"
  by (induction bs) (simp_all add: hex_byte_def)

lemma unhex_text [simp]: "unhex (hex_text bs) = bs"
  by (induction bs) simp_all

lemma hex_text_append: "hex_text (xs @ ys) = hex_text xs @ hex_text ys"
  by (simp add: hex_text_def)

lemma sixteen_bytes:
  assumes "length (bs :: 8 word list) = 16"
  obtains b0 b1 b2 b3 b4 b5 b6 b7 b8 b9 b10 b11 b12 b13 b14 b15 where "bs = [b0, b1, b2, b3, b4, b5, b6, b7, b8, b9, b10, b11, b12, b13, b14, b15]"
proof (rule that)
  have "bs = map ((!) bs) [0..<16]" using map_nth [of bs] assms by simp
  also have "[0..<16] = [0, 1, 2, 3, 4, 5, 6, 7, 8, 9, 10, 11, 12, 13, 14, 15]" by (simp add: upt_rec)
  finally show "bs = [bs ! 0, bs ! 1, bs ! 2, bs ! 3, bs ! 4, bs ! 5, bs ! 6, bs ! 7, bs ! 8, bs ! 9, bs ! 10, bs ! 11, bs ! 12, bs ! 13, bs ! 14, bs ! 15]" by simp
qed

lemma format_uuid_digits:
  assumes "length bs = 16"
  shows "filter (\<lambda>c. c \<noteq> CHR ''-'') (format_uuid bs) = hex_text bs"
  using assms by (rule sixteen_bytes) (simp add: format_uuid_def hex_byte_def)

lemma format_uuid_valid:
  assumes "length bs = 16"
  shows "validUUID (format_uuid bs)"
  using assms
proof (rule sixteen_bytes)
  fix b0 b1 b2 b3 b4 b5 b6 b7 b8 b9 b10 b11 b12 b13 b14 b15 assume v: "bs = [b0, b1, b2, b3, b4, b5, b6, b7, b8, b9, b10, b11, b12, b13, b14, b15]"
  have "length (format_uuid bs) = 36" "format_uuid bs ! 8 = CHR ''-''" "format_uuid bs ! 13 = CHR ''-''"
    "format_uuid bs ! 18 = CHR ''-''" "format_uuid bs ! 23 = CHR ''-''"
    by (simp_all add: v format_uuid_def hex_byte_def)
  then show ?thesis using assms hex_text_digits(1) [of bs]
    by (simp add: validUUID_def format_uuid_digits hex_decodes_def)
qed

lemma unat_div16: "unat (b :: 8 word) div 16 = unat (drop_bit 4 b)"
  by (simp add: drop_bit_eq_div unat_div_distrib)

lemma version_digit: "unat ((b AND 15 :: 8 word) OR 64) div 16 = 4"
proof -
  have m: "(15::8 word) = mask 4" "(64::8 word) = 2 ^ 6" "(4::8 word) = 2 ^ 2" by (simp_all add: mask_eq_exp_minus_1)
  have "drop_bit 4 ((b AND 15) OR 64) = (4::8 word)"
    unfolding m by (rule bit_word_eqI) (auto simp: bit_simps)
  then show ?thesis unfolding unat_div16 by simp
qed
lemma two_bits: "(x AND 3 :: 8 word) \<in> {0,1,2,3}"
proof -
  have "x AND 3 = take_bit 2 x" by (simp add: take_bit_eq_mask mask_eq_exp_minus_1)
  then have "unat (x AND 3) < 2^2" using take_bit_nat_less_exp [of 2 "unat x"] by (simp add: unsigned_take_bit_eq)
  then have "unat (x AND 3) \<in> {0,1,2,3}" by auto
  then show ?thesis by (auto simp: word_unat_eq_iff)
qed
lemma variant_digit: "unat ((b AND 63 :: 8 word) OR 128) div 16 \<in> {8, 9, 10, 11}"
proof -
  have m: "(63::8 word) = mask 6" "(128::8 word) = 2 ^ 7" "(8::8 word) = 2 ^ 3" "(3::8 word) = mask 2" by (simp_all add: mask_eq_exp_minus_1)
  have "drop_bit 4 ((b AND 63) OR 128) = ((drop_bit 4 b AND 3) OR 8 :: 8 word)"
    unfolding m by (rule bit_word_eqI) (auto simp: bit_simps)
  then show ?thesis unfolding unat_div16 using two_bits [of "drop_bit 4 b"] by auto
qed

text \<open>
  C40: A generated identifier is one the application accepts, it carries version 4 and the
  variant of RFC 4122, and all its digits can be read back: apart from the six fixed bits it
  keeps the random bytes, so different randomness gives different identifiers.
\<close>

theorem generated_ids_valid:
  assumes "length bs = 16"
  shows "\<exists>s. IDs_New (Some bs) = Some s \<and> validUUID s \<and> s ! 14 = CHR ''4'' \<and>
    s ! 19 \<in> {CHR ''8'', CHR ''9'', CHR ''a'', CHR ''b''} \<and>
    unhex (filter (\<lambda>c. c \<noteq> CHR ''-'') s) = stamp_uuid bs"
  using assms
proof (rule sixteen_bytes)
  fix b0 b1 b2 b3 b4 b5 b6 b7 b8 b9 b10 b11 b12 b13 b14 b15 assume v: "bs = [b0, b1, b2, b3, b4, b5, b6, b7, b8, b9, b10, b11, b12, b13, b14, b15]"
  let ?s = "format_uuid (stamp_uuid bs)"
  have l: "length (stamp_uuid bs) = 16" using assms by (simp add: stamp_uuid_def)
  have six: "unat ((b6 AND 15) OR 64) div 16 = 4" and eight: "unat ((b8 AND 63) OR 128) div 16 \<in> {8, 9, 10, 11}"
    by (rule version_digit, rule variant_digit)
  have "?s ! 14 = hex_digit 4" "?s ! 19 = hex_digit (unat ((b8 AND 63) OR 128) div 16)"
    using six by (simp_all add: v stamp_uuid_def format_uuid_def hex_byte_def)
  moreover have "hex_digit 4 = CHR ''4''" "hex_digit 8 = CHR ''8''" "hex_digit 9 = CHR ''9''"
    "hex_digit 10 = CHR ''a''" "hex_digit 11 = CHR ''b''"
    by (simp_all add: hex_digit_def char_of_def bit_0)
  ultimately show ?thesis
    using format_uuid_valid [OF l] eight by (auto simp: IDs_New_def format_uuid_digits [OF l])
qed


theorem generated_ids_valid_witness:
  "\<exists>s. IDs_New (Some (replicate 16 255)) = Some s \<and> validUUID s \<and> s ! 14 = CHR ''4''"
  using generated_ids_valid [of "replicate 16 255", OF length_replicate] by blast

section \<open>The contract of an inventory\<close>

text \<open>
  \<open>commit\<close> decides an operation once: an answer belongs to the request's operation, and it
  stands whatever is committed after it.
\<close>

locale inventory =
  fixes commit :: "InventoryCommit \<Rightarrow> 's \<Rightarrow> (order_error + InventoryResult) \<times> 's"
    and ok :: "'s \<Rightarrow> bool"
  assumes commit_ok: "ok s \<Longrightarrow> commit request s = (r, s') \<Longrightarrow> ok s'"
    and answers: "ok s \<Longrightarrow> commit request s = (Inr result, s') \<Longrightarrow>
      res_OperationID result = com_OperationID request"
    and stands: "ok s \<Longrightarrow> commit request s = (Inr result, s') \<Longrightarrow> commit request s' = (Inr result, s')"
    and stable: "ok s \<Longrightarrow> commit request s = (Inr result, s) \<Longrightarrow> commit other s = (r, s') \<Longrightarrow>
      commit request s' = (Inr result, s')"
begin

fun run_commits :: "InventoryCommit list \<Rightarrow> 's \<Rightarrow> 's" where
  "run_commits [] s = s"
| "run_commits (request # rest) s = run_commits rest (snd (commit request s))"

lemma settled_stays:
  "ok s \<Longrightarrow> commit request s = (Inr result, s) \<Longrightarrow>
   commit request (run_commits others s) = (Inr result, run_commits others s)"
proof (induction others arbitrary: s)
  case (Cons other others)
  obtain r s' where c: "commit other s = (r, s')" by fastforce
  from Cons.IH [OF commit_ok [OF Cons.prems(1) c] stable [OF Cons.prems c]] c show ?case by simp
qed simp

lemma first_answer_stands:
  assumes "ok s" and "commit request s = (Inr result, s')"
  shows "commit request (run_commits others s') = (Inr result, run_commits others s')"
  using settled_stays [OF commit_ok [OF assms] stands [OF assms]] .

end

section \<open>The fake inventory\<close>

record FakeInventory =
  fake_results :: "string \<rightharpoonup> InventoryResult"
  fake_unavailable :: "string \<rightharpoonup> int"
  fake_nextError :: "order_error option"
  fake_ids :: nat

definition fake_new :: FakeInventory where
  "fake_new = \<lparr>fake_results = Map.empty, fake_unavailable = Map.empty, fake_nextError = None, fake_ids = 0\<rparr>"

definition SetUnavailable :: "string \<Rightarrow> int \<Rightarrow> FakeInventory \<Rightarrow> FakeInventory" where
  "SetUnavailable productID availableQuantity st =
     st\<lparr>fake_unavailable := (fake_unavailable st)(productID \<mapsto> availableQuantity)\<rparr>"

definition FailNext :: "order_error option \<Rightarrow> FakeInventory \<Rightarrow> FakeInventory" where
  "FailNext err st = st\<lparr>fake_nextError := err\<rparr>"

text \<open>The loop over the requested items: those with less than requested.\<close>

fun fake_shortages :: "(string \<rightharpoonup> int) \<Rightarrow> InventoryItem list \<Rightarrow> UnavailableItem list" where
  "fake_shortages unavailable [] = []"
| "fake_shortages unavailable (item # rest) =
     (case unavailable (it_ProductID item) of
        Some available \<Rightarrow>
          if available < it_Quantity item
          then \<lparr>un_OrderLineID = it_OrderLineID item, un_ProductID = it_ProductID item,
                un_RequestedQuantity = it_Quantity item, un_AvailableQuantity = available\<rparr>
               # fake_shortages unavailable rest
          else fake_shortages unavailable rest
      | None \<Rightarrow> fake_shortages unavailable rest)"

text \<open>\<open>ids n\<close> is the \<open>n\<close>-th generated identifier, \<open>clock n\<close> the time of the \<open>n\<close>-th decision.\<close>

definition Commit_fake ::
    "(nat \<Rightarrow> string option) \<Rightarrow> (nat \<Rightarrow> int) \<Rightarrow> InventoryCommit \<Rightarrow> FakeInventory \<Rightarrow>
     (order_error + InventoryResult) \<times> FakeInventory" where
  "Commit_fake ids clock request st =
     (case fake_results st (com_OperationID request) of
        Some existing \<Rightarrow> (Inr existing, st)
      | None \<Rightarrow>
          (case fake_nextError st of
             Some err \<Rightarrow> (Inl err, st\<lparr>fake_nextError := None\<rparr>)
           | None \<Rightarrow>
               (let n = fake_ids st; st1 = st\<lparr>fake_ids := Suc n\<rparr> in
                case ids n of
                  None \<Rightarrow> (Inl (Wrapped ''generate fake result event ID''), st1)
                | Some eventID \<Rightarrow>
                    let items = fake_shortages (fake_unavailable st) (com_Items request);
                        result = \<lparr>res_EventID = eventID, res_OperationID = com_OperationID request,
                          res_OrderID = com_OrderID request,
                          res_Status = (if items = [] then InventoryCommitted else InventoryItemsUnavailable),
                          res_OccurredAt = clock n, res_UnavailableItems = items\<rparr> in
                    (Inr result,
                     st1\<lparr>fake_results := (fake_results st)(com_OperationID request \<mapsto> result)\<rparr>))))"

definition fake_ok :: "FakeInventory \<Rightarrow> bool" where
  "fake_ok st \<longleftrightarrow> (\<forall>operation result. fake_results st operation = Some result \<longrightarrow> res_OperationID result = operation)"

lemma Commit_fake_Inr:
  "Commit_fake ids clock request st = (Inr result, st') \<Longrightarrow> fake_results st' (com_OperationID request) = Some result"
  by (auto simp: Commit_fake_def Let_def split: option.splits)

lemma Commit_fake_known:
  "fake_results st (com_OperationID request) = Some result \<Longrightarrow> Commit_fake ids clock request st = (Inr result, st)"
  by (simp add: Commit_fake_def)

lemma Commit_fake_keeps:
  "Commit_fake ids clock other st = (r, st') \<Longrightarrow> fake_results st operation = Some result \<Longrightarrow>
     fake_results st' operation = Some result"
  by (auto simp: Commit_fake_def Let_def split: option.splits)

interpretation fake: inventory "Commit_fake ids clock" fake_ok for ids clock
proof unfold_locales
  fix s s' request other result r
  show "fake_ok s'" if "fake_ok s" "Commit_fake ids clock request s = (r, s')"
    using that by (auto simp: fake_ok_def Commit_fake_def Let_def split: option.splits if_splits)
  show "res_OperationID result = com_OperationID request"
    if "fake_ok s" "Commit_fake ids clock request s = (Inr result, s')"
    using that by (auto simp: fake_ok_def Commit_fake_def Let_def split: option.splits)
  show "Commit_fake ids clock request s' = (Inr result, s')" if "Commit_fake ids clock request s = (Inr result, s')"
    using that by (intro Commit_fake_known) (rule Commit_fake_Inr)
  show "Commit_fake ids clock request s' = (Inr result, s')"
    if "Commit_fake ids clock request s = (Inr result, s)" "Commit_fake ids clock other s = (r, s')"
    using that Commit_fake_Inr by (intro Commit_fake_known) (blast intro: Commit_fake_keeps)
qed

section \<open>The fake catalog\<close>

definition catalog_new :: "ProductSnapshot list \<Rightarrow> (string \<rightharpoonup> ProductSnapshot)" where
  "catalog_new products = foldl (\<lambda>m product. m(snap_ProductID product \<mapsto> product)) Map.empty products"

definition catalog_set :: "ProductSnapshot \<Rightarrow> (string \<rightharpoonup> ProductSnapshot) \<Rightarrow> (string \<rightharpoonup> ProductSnapshot)" where
  "catalog_set product catalog = catalog(snap_ProductID product \<mapsto> product)"

definition ResolveCheckoutProducts_fake ::
    "(string \<rightharpoonup> ProductSnapshot) \<Rightarrow> string list \<Rightarrow> order_error + ProductSnapshot list" where
  "ResolveCheckoutProducts_fake catalog productIDs = Inr (List.map_filter catalog productIDs)"

end
