(* ===== verification/Identity_Domain.thy ===== *)
theory Identity_Domain
  imports Go_Text
begin

text \<open>
  The domain of the identity module: \<open>domain/identity.go\<close> and \<open>domain/registration.go\<close> under
  \<open>services/ordering/internal/identity\<close>. \<open>lower\<close> is \<open>strings.ToLower\<close>, whose Unicode case tables
  are a parameter. Times are nanoseconds; an empty identifier is the empty string.
\<close>

datatype Role = RoleCustomer | RoleCashier | RoleAdmin | RoleOther string

datatype AccountStatus = AccountActive | AccountDisabled | AccountOther string

datatype Provider = ProviderPassword | ProviderGoogle | ProviderApple | ProviderOther string

datatype OAuthPurpose = OAuthLogin | OAuthLink | PurposeOther string

datatype identity_error =
    IdInvalidInput | IdInvalidCredentials | IdUnauthenticated | IdForbidden | IdAccountDisabled | IdRefreshReuse
  | IdInvalidOAuthIntent | IdInvalidOAuthToken | IdIdentityLinkRequired | IdIdentityLinked | IdAdminAlreadyExists
  | IdAdminNotFound | IdCashierNotFound | IdEmailInUse | IdPasswordChangeRequired
  | IdInvalidRegistration | IdRegistrationRateLimited | IdRegistrationCooldown | IdEmailUnavailable
  | IdInvalidRegistrationName | IdInvalidRegistrationEmail | IdInvalidRegistrationPassword
  | IdOther string

definition Role_Valid :: "Role \<Rightarrow> bool" where
  "Role_Valid role \<longleftrightarrow> role = RoleCustomer \<or> role = RoleCashier \<or> role = RoleAdmin"

definition Provider_OAuth :: "Provider \<Rightarrow> bool" where
  "Provider_OAuth provider \<longleftrightarrow> provider = ProviderGoogle \<or> provider = ProviderApple"

record User =
  us_ID :: string
  us_Name :: string
  us_NormalizedEmail :: string
  us_Role :: Role
  us_Status :: AccountStatus
  us_PasswordChangeRequired :: bool

record Principal =
  pr_UserID :: string
  pr_Role :: Role
  pr_Status :: AccountStatus
  pr_FamilyID :: string
  pr_PasswordChangeRequired :: bool

record PasswordRecord =
  pw_User :: User
  pw_PasswordHash :: string

record NewSession =
  ns_UserID :: string
  ns_FamilyID :: string
  ns_ParentSessionID :: string
  ns_AccessTokenHash :: string
  ns_RefreshTokenHash :: string
  ns_AccessExpiresAt :: int
  ns_RefreshExpiresAt :: int

record SessionTokens =
  st_AccessToken :: string
  st_AccessTokenExpiresAt :: int
  st_RefreshToken :: string
  st_RefreshTokenExpiresAt :: int
  st_User :: User

record OAuthIntent =
  oi_ID :: string
  oi_Provider :: Provider
  oi_Purpose :: OAuthPurpose
  oi_BoundUserID :: string
  oi_NonceHash :: string
  oi_ExpiresAt :: int

record VerifiedIdentity =
  vi_Provider :: Provider
  vi_Subject :: string
  vi_Email :: string
  vi_EmailVerified :: bool
  vi_SuggestedName :: string

record AuditEntry =
  ae_Action :: string
  ae_ActorUserID :: string
  ae_Result :: string
  ae_OccurredAt :: int

record UserView =
  uv_User :: User
  uv_Providers :: "Provider list"
  uv_Audit :: "AuditEntry list"
  uv_Created :: bool
  uv_EmailVerified :: bool

record PendingRegistration =
  pn_ID :: string
  pn_Email :: string
  pn_Name :: string
  pn_PasswordHash :: string
  pn_CodeHash :: string
  pn_EmailRateKey :: string
  pn_Eligible :: bool
  pn_CreatedAt :: int
  pn_ExpiresAt :: int

section \<open>Text\<close>

text \<open>\<open>strings.Split\<close> with a separator of one byte.\<close>

fun split_on :: "char \<Rightarrow> string \<Rightarrow> string list" where
  "split_on c [] = [[]]"
| "split_on c (x # xs) =
     (if x = c then [] # split_on c xs
      else case split_on c xs of [] \<Rightarrow> [[x]] | part # parts \<Rightarrow> (x # part) # parts)"

lemma split_on_not_Nil [simp]: "split_on c xs \<noteq> []"
  by (cases xs) (auto split: list.splits)

lemma split_on_length: "length (split_on c xs) = Suc (count_list xs c)"
  by (induction xs) (auto split: list.splits)

lemma split_on_hd: "hd (split_on c xs) = takeWhile (\<lambda>x. x \<noteq> c) xs"
  by (induction xs) (auto split: list.splits)

lemma split_on_pair: "split_on c xs = [a, b] \<Longrightarrow> xs = a @ c # b \<and> c \<notin> set a \<and> c \<notin> set b"
proof (induction xs arbitrary: a)
  case (Cons x xs)
  have single: "split_on c ys = [b] \<Longrightarrow> ys = b \<and> c \<notin> set b" for ys b
    by (induction ys arbitrary: b) (auto split: if_splits list.splits)
  from Cons show ?case by (auto split: if_splits list.splits dest: single)
qed simp

definition NormalizeEmail :: "(string \<Rightarrow> string) \<Rightarrow> string \<Rightarrow> identity_error + string" where
  "NormalizeEmail lower value =
     (let normalized = lower (TrimSpace value); parts = split_on (CHR ''@'') normalized in
      if length parts \<noteq> 2 \<or> parts ! 0 = [] \<or> CHR ''.'' \<notin> set (parts ! 1) then Inl IdInvalidInput
      else if RuneCountInString normalized > 254 then Inl IdInvalidInput
      else Inr normalized)"

definition ValidatePassword :: "string \<Rightarrow> identity_error option" where
  "ValidatePassword value =
     (let length = RuneCountInString value in
      if length < 8 \<or> length > 128 then Some IdInvalidInput else None)"

text \<open>\<open>string([]rune(name)[:n])\<close>: a byte that is not valid UTF-8 comes back as U+FFFD.\<close>

definition rune_text :: "nat \<times> string \<Rightarrow> string" where
  "rune_text seg = (case seg of (r, bs) \<Rightarrow>
     if r = 65533 \<and> length bs = 1 then [char_of (239::nat), char_of (191::nat), char_of (189::nat)] else bs)"

definition take_runes :: "nat \<Rightarrow> string \<Rightarrow> string" where
  "take_runes n s = concat (map rune_text (take n (utf8_segs s)))"

definition DisplayName :: "string \<Rightarrow> string \<Rightarrow> string" where
  "DisplayName value normalizedEmail =
     (let name = TrimSpace value in
      if name \<noteq> [] then (if RuneCountInString name > 120 then take_runes 120 name else name)
      else split_on (CHR ''@'') normalizedEmail ! 0)"

lemma NormalizeEmail_Inr:
  assumes "NormalizeEmail lower value = Inr email"
  shows "email = lower (TrimSpace value) \<and> RuneCountInString email \<le> 254 \<and>
    (\<exists>local host. email = local @ CHR ''@'' # host \<and> local \<noteq> [] \<and> CHR ''@'' \<notin> set local \<and>
       CHR ''@'' \<notin> set host \<and> CHR ''.'' \<in> set host)"
proof -
  from assms have e: "email = lower (TrimSpace value)" "RuneCountInString email \<le> 254"
    and two: "length (split_on (CHR ''@'') email) = 2" "split_on (CHR ''@'') email ! 0 \<noteq> []"
      "CHR ''.'' \<in> set (split_on (CHR ''@'') email ! 1)"
    by (auto simp: NormalizeEmail_def Let_def split: if_splits)
  from two(1) obtain a b where ab: "split_on (CHR ''@'') email = [a, b]"
    by (auto simp: length_Suc_conv numeral_2_eq_2)
  with split_on_pair [OF ab] two(2,3) e show ?thesis by auto
qed

lemma ValidatePassword_None: "ValidatePassword value = None \<longleftrightarrow> 8 \<le> RuneCountInString value \<and> RuneCountInString value \<le> 128"
  by (auto simp: ValidatePassword_def Let_def)

end
