(* ===== verification/Identity_Store.thy ===== *)
theory Identity_Store
  imports Identity_Domain
begin

text \<open>
  The PostgreSQL store of the identity module (\<open>adapters/postgres/store.go\<close>): accounts, login
  identities, sessions with rotating refresh tokens, single sign-on intents. Every transaction
  locks the rows it decides on, so it acts on one state of the tables; \<open>replies n\<close> answers its
  \<open>n\<close>-th round trip. Columns that are never read are omitted.
\<close>

section \<open>Tables\<close>

record account_row =
  ac_id :: string
  ac_name :: string
  ac_email :: string
  ac_role :: Role
  ac_status :: AccountStatus
  ac_change_required :: bool
  ac_verified_at :: "int option"

record login_row =
  lg_user :: string
  lg_provider :: Provider
  lg_subject :: string
  lg_hash :: "string option"

record session_row =
  sn_id :: string
  sn_user :: string
  sn_family :: string
  sn_parent :: "string option"
  sn_access :: string
  sn_refresh :: string
  sn_access_expires :: int
  sn_refresh_expires :: int
  sn_consumed :: "int option"
  sn_revoked :: "int option"
  sn_reason :: "string option"
  sn_replaced :: "string option"
  sn_created :: int

record intent_row =
  in_id :: string
  in_provider :: Provider
  in_purpose :: OAuthPurpose
  in_bound :: "string option"
  in_nonce :: string
  in_expires :: int
  in_consumed :: "int option"
  in_created :: int

record identity_audit_row =
  ia_actor :: "string option"
  ia_action :: string
  ia_target_type :: string
  ia_target :: string
  ia_result :: "string option"
  ia_at :: int

record pending_row =
  pe_id :: string
  pe_email :: string
  pe_name :: string
  pe_hash :: "string option"
  pe_code :: string
  pe_rate_key :: string
  pe_eligible :: bool
  pe_attempts :: int
  pe_created :: int
  pe_expires :: int
  pe_sent :: int
  pe_consumed :: "int option"

record cashier_pending_row =
  cp_id :: string
  cp_actor :: string
  cp_cashier :: "string option"
  cp_was_created :: bool
  cp_email :: string
  cp_name :: string
  cp_hash :: string
  cp_code :: string
  cp_rate_key :: string
  cp_attempts :: int
  cp_created :: int
  cp_expires :: int
  cp_sent :: int
  cp_consumed :: "int option"

record bucket_row =
  bu_key :: string
  bu_window :: int
  bu_count :: int

record identity_db =
  id_accounts :: "account_row list"
  id_logins :: "login_row list"
  id_sessions :: "session_row list"
  id_intents :: "intent_row list"
  id_pending :: "pending_row list"
  id_cashier_pending :: "cashier_pending_row list"
  id_buckets :: "bucket_row list"
  id_audit :: "identity_audit_row list"

text \<open>What the database itself supplies to a transaction: \<open>now()\<close> and \<open>gen_random_uuid()\<close>.\<close>

record server =
  sv_now :: int
  sv_uuid :: "nat \<Rightarrow> string"

section \<open>Constraints\<close>

text \<open>\<open>lower(btrim(normalized_email))\<close> is the parameter \<open>pg_normal\<close>.\<close>

definition account_check :: "(string \<Rightarrow> string) \<Rightarrow> account_row \<Rightarrow> bool" where
  "account_check pg_normal a \<longleftrightarrow> pg_text (ac_name a) \<and> pg_text (ac_email a) \<and>
     text_between 1 120 (btrim (ac_name a)) \<and> pg_normal (ac_email a) = ac_email a \<and>
     Role_Valid (ac_role a) \<and> ac_status a \<in> {AccountActive, AccountDisabled}"

definition account_clash :: "account_row \<Rightarrow> account_row \<Rightarrow> bool" where
  "account_clash x a \<longleftrightarrow> ac_id x = ac_id a \<or> ac_email x = ac_email a"

definition login_check :: "login_row \<Rightarrow> bool" where
  "login_check l \<longleftrightarrow> lg_provider l \<in> {ProviderPassword, ProviderGoogle, ProviderApple} \<and> pg_text (lg_subject l) \<and>
     text_between 1 255 (lg_subject l) \<and> (lg_provider l = ProviderPassword \<longleftrightarrow> lg_hash l \<noteq> None)"

definition login_clash :: "login_row \<Rightarrow> login_row \<Rightarrow> bool" where
  "login_clash x l \<longleftrightarrow> lg_provider x = lg_provider l \<and> (lg_subject x = lg_subject l \<or> lg_user x = lg_user l)"

definition session_check :: "session_row \<Rightarrow> bool" where
  "session_check s \<longleftrightarrow> text_between 64 64 (sn_access s) \<and> text_between 64 64 (sn_refresh s) \<and>
     sn_created s < sn_access_expires s \<and> sn_created s < sn_refresh_expires s \<and>
     (\<forall>t. sn_revoked s = Some t \<longrightarrow> sn_created s \<le> t) \<and> (\<forall>t. sn_consumed s = Some t \<longrightarrow> sn_created s \<le> t) \<and>
     (sn_revoked s = None \<longleftrightarrow> sn_reason s = None)"

definition session_clash :: "session_row \<Rightarrow> session_row \<Rightarrow> bool" where
  "session_clash x s \<longleftrightarrow> sn_id x = sn_id s \<or> sn_access x = sn_access s \<or> sn_refresh x = sn_refresh s"

definition intent_check :: "intent_row \<Rightarrow> bool" where
  "intent_check i \<longleftrightarrow> Provider_OAuth (in_provider i) \<and> text_between 64 64 (in_nonce i) \<and>
     (in_purpose i = OAuthLogin \<and> in_bound i = None \<or> in_purpose i = OAuthLink \<and> in_bound i \<noteq> None) \<and>
     in_created i < in_expires i \<and> (\<forall>t. in_consumed i = Some t \<longrightarrow> in_created i \<le> t)"

definition has_account :: "identity_db \<Rightarrow> string \<Rightarrow> bool" where
  "has_account db userID \<longleftrightarrow> list_ex (\<lambda>a. ac_id a = userID) (id_accounts db)"

section \<open>Statements\<close>

definition user_of :: "account_row \<Rightarrow> User" where
  "user_of a = \<lparr>us_ID = ac_id a, us_Name = ac_name a, us_NormalizedEmail = ac_email a, us_Role = ac_role a,
     us_Status = ac_status a, us_PasswordChangeRequired = ac_change_required a\<rparr>"

text \<open>The queries that do not select \<open>password_change_required\<close> leave the field \<open>false\<close>.\<close>

definition short_user :: "account_row \<Rightarrow> User" where
  "short_user a = (user_of a)\<lparr>us_PasswordChangeRequired := False\<rparr>"

text \<open>\<open>role <> 'CASHIER' OR email_verified_at IS NOT NULL\<close>\<close>

definition may_log_in :: "account_row \<Rightarrow> bool" where
  "may_log_in a \<longleftrightarrow> ac_role a \<noteq> RoleCashier \<or> ac_verified_at a \<noteq> None"

definition account_of :: "identity_db \<Rightarrow> string \<Rightarrow> account_row option" where
  "account_of db userID = find (\<lambda>a. ac_id a = userID) (id_accounts db)"

definition userByIDForUpdate :: "reply \<Rightarrow> identity_db \<Rightarrow> string \<Rightarrow> identity_error + User" where
  "userByIDForUpdate r db userID =
     bindE (stmt (IdOther ''lock user'') r (Inr (account_of db userID))) (\<lambda>found.
       case found of None \<Rightarrow> Inl IdUnauthenticated | Some a \<Rightarrow> Inr (user_of a))"

text \<open>\<open>Inr None\<close> is \<open>pgx.ErrNoRows\<close>; the caller wraps a failure.\<close>

definition userByProviderSubject ::
    "reply \<Rightarrow> identity_db \<Rightarrow> Provider \<Rightarrow> string \<Rightarrow> dberr + User option" where
  "userByProviderSubject r db provider subject =
     exec r (Inr (case find (\<lambda>l. lg_provider l = provider \<and> lg_subject l = subject) (id_logins db) of
        None \<Rightarrow> None
      | Some l \<Rightarrow> map_option user_of (account_of db (lg_user l))))"

definition userByEmail :: "reply \<Rightarrow> identity_db \<Rightarrow> string \<Rightarrow> dberr + User option" where
  "userByEmail r db email =
     exec r (Inr (map_option short_user (find (\<lambda>a. ac_email a = email) (id_accounts db))))"

definition userByRole :: "reply \<Rightarrow> identity_db \<Rightarrow> Role \<Rightarrow> dberr + User option" where
  "userByRole r db role =
     exec r (Inr (map_option short_user (find (\<lambda>a. ac_role a = role) (id_accounts db))))"

text \<open>\<open>NULLIF($1, '')\<close>\<close>

definition nullif :: "string \<Rightarrow> string option" where
  "nullif s = (if s = [] then None else Some s)"

definition insertIdentityAudit ::
    "reply \<Rightarrow> string \<Rightarrow> string \<Rightarrow> string \<Rightarrow> string \<Rightarrow> int \<Rightarrow> identity_db \<Rightarrow> identity_error + identity_db" where
  "insertIdentityAudit r actorID action targetType targetID now db =
     stmt (IdOther ''insert identity audit record'') r
       (map_sum id (\<lambda>rows. db\<lparr>id_audit := rows\<rparr>)
         (insert_row (\<lambda>x. text_between 1 100 (ia_action x) \<and> text_between 1 100 (ia_target_type x) \<and>
              text_between 1 255 (ia_target x)) (\<lambda>_ _. False)
            (\<lambda>x. case ia_actor x of None \<Rightarrow> True | Some u \<Rightarrow> has_account db u)
            \<lparr>ia_actor = nullif actorID, ia_action = action, ia_target_type = targetType, ia_target = targetID,
             ia_result = Some ''success'', ia_at = now\<rparr> (id_audit db)))"

definition mapIdentityConflict :: "dberr \<Rightarrow> identity_error" where
  "mapIdentityConflict k = (if k = UniqueViolation then IdIdentityLinked else IdOther ''insert login identity'')"

definition insert_login :: "login_row \<Rightarrow> identity_db \<Rightarrow> dberr + identity_db" where
  "insert_login l db = map_sum id (\<lambda>rows. db\<lparr>id_logins := rows\<rparr>)
     (insert_row login_check login_clash (\<lambda>x. has_account db (lg_user x)) l (id_logins db))"

definition insert_account :: "(string \<Rightarrow> string) \<Rightarrow> account_row \<Rightarrow> identity_db \<Rightarrow> dberr + identity_db" where
  "insert_account pg_normal a db = map_sum id (\<lambda>rows. db\<lparr>id_accounts := rows\<rparr>)
     (insert_row (account_check pg_normal) account_clash (\<lambda>_. True) a (id_accounts db))"

section \<open>Sessions\<close>

text \<open>
  The row comes from a \<open>SELECT\<close> on the account, so nothing is inserted for an account that is
  missing or not verified.
\<close>

definition insertSession ::
    "server \<Rightarrow> reply \<Rightarrow> NewSession \<Rightarrow> identity_db \<Rightarrow> identity_error + string \<times> identity_db" where
  "insertSession sv r s db =
     (case account_of db (ns_UserID s) of
        None \<Rightarrow> bindE (stmt (IdOther ''insert session'') r (Inr ())) (\<lambda>_. Inl IdUnauthenticated)
      | Some a \<Rightarrow>
          if \<not> may_log_in a then bindE (stmt (IdOther ''insert session'') r (Inr ())) (\<lambda>_. Inl IdUnauthenticated)
          else stmt (IdOther ''insert session'') r
            (map_sum id (\<lambda>rows. (sv_uuid sv 0, db\<lparr>id_sessions := rows\<rparr>))
              (insert_row session_check session_clash
                 (\<lambda>x. case sn_parent x of None \<Rightarrow> True | Some p \<Rightarrow> list_ex (\<lambda>y. sn_id y = p) (id_sessions db))
                 \<lparr>sn_id = sv_uuid sv 0, sn_user = ac_id a,
                  sn_family = (if ns_FamilyID s = [] then sv_uuid sv 1 else ns_FamilyID s),
                  sn_parent = nullif (ns_ParentSessionID s), sn_access = ns_AccessTokenHash s,
                  sn_refresh = ns_RefreshTokenHash s, sn_access_expires = ns_AccessExpiresAt s,
                  sn_refresh_expires = ns_RefreshExpiresAt s, sn_consumed = None, sn_revoked = None,
                  sn_reason = None, sn_replaced = None, sn_created = sv_now sv\<rparr> (id_sessions db))))"

text \<open>\<open>COALESCE(revoked_at, GREATEST($2, created_at))\<close> and the reason beside it.\<close>

definition revoke :: "int \<Rightarrow> string \<Rightarrow> session_row \<Rightarrow> session_row" where
  "revoke now reason s =
     s\<lparr>sn_revoked := Some (case sn_revoked s of Some t \<Rightarrow> t | None \<Rightarrow> max now (sn_created s)),
       sn_reason := Some (case sn_reason s of Some w \<Rightarrow> w | None \<Rightarrow> reason)\<rparr>"

definition revoke_where ::
    "(session_row \<Rightarrow> bool) \<Rightarrow> int \<Rightarrow> string \<Rightarrow> identity_db \<Rightarrow> dberr + identity_db" where
  "revoke_where P now reason db =
     map_sum id (\<lambda>(rows, _). db\<lparr>id_sessions := rows\<rparr>) (update_rows session_check P (revoke now reason) (id_sessions db))"

definition revokeFamily ::
    "reply \<Rightarrow> string \<Rightarrow> string \<Rightarrow> int \<Rightarrow> identity_db \<Rightarrow> identity_error + identity_db" where
  "revokeFamily r familyID reason now db =
     stmt (IdOther ''revoke session family'') r (revoke_where (\<lambda>s. sn_family s = familyID) now reason db)"

definition FindPassword :: "reply \<Rightarrow> identity_db \<Rightarrow> string \<Rightarrow> identity_error + PasswordRecord" where
  "FindPassword r db email =
     bindE (stmt (IdOther ''query password identity'') r
       (Inr (case find (\<lambda>l. lg_provider l = ProviderPassword \<and> lg_subject l = email) (id_logins db) of
          None \<Rightarrow> None
        | Some l \<Rightarrow> map_option (\<lambda>a. (a, l)) (account_of db (lg_user l))))) (\<lambda>found.
       case found of
         None \<Rightarrow> Inl IdInvalidCredentials
       | Some (a, l) \<Rightarrow>
           if \<not> may_log_in a then Inl IdInvalidCredentials
           else Inr \<lparr>pw_User = user_of a, pw_PasswordHash = (case lg_hash l of None \<Rightarrow> [] | Some h \<Rightarrow> h)\<rparr>)"

text \<open>A statement outside a transaction: what a lost answer leaves is the new state.\<close>

definition autocommit ::
    "'e \<Rightarrow> reply \<Rightarrow> 'd \<Rightarrow> dberr + 'a \<times> 'd \<Rightarrow> ('e + 'a) \<times> 'd" where
  "autocommit e r db x =
     (case x of Inl _ \<Rightarrow> (Inl e, db) | Inr (v, db') \<Rightarrow> settle r db db' e v)"

definition set_password :: "(login_row \<Rightarrow> bool) \<Rightarrow> string \<Rightarrow> identity_db \<Rightarrow> dberr + nat \<times> identity_db" where
  "set_password P encoded db =
     map_sum id (\<lambda>(rows, n). (n, db\<lparr>id_logins := rows\<rparr>))
       (update_rows login_check P (\<lambda>l. l\<lparr>lg_hash := Some encoded\<rparr>) (id_logins db))"

definition UpdatePasswordHash :: "reply \<Rightarrow> string \<Rightarrow> string \<Rightarrow> identity_db \<Rightarrow> (identity_error + unit) \<times> identity_db" where
  "UpdatePasswordHash r userID encoded db =
     (case autocommit (IdOther ''update password identity'') r db
             (set_password (\<lambda>l. lg_user l = userID \<and> lg_provider l = ProviderPassword) encoded db) of
        (Inl e, db') \<Rightarrow> (Inl e, db')
      | (Inr n, db') \<Rightarrow> (if n \<noteq> 1 then Inl IdInvalidCredentials else Inr (), db'))"

definition CreateSession ::
    "server \<Rightarrow> (nat \<Rightarrow> reply) \<Rightarrow> NewSession \<Rightarrow> identity_db \<Rightarrow> (identity_error + User) \<times> identity_db" where
  "CreateSession sv replies s db =
     tx_run (replies 0) (IdOther ''begin session transaction'') replies db
       (bindE (userByIDForUpdate (replies 1) db (ns_UserID s)) (\<lambda>user.
        if us_Status user \<noteq> AccountActive then Inl IdAccountDisabled
        else bindE (insertSession sv (replies 2) s db) (\<lambda>(_, db1).
          Inr (Inr user, IdOther ''commit session transaction'', db1, 3))))"

definition AuthenticateAccess :: "reply \<Rightarrow> string \<Rightarrow> int \<Rightarrow> identity_db \<Rightarrow> identity_error + Principal" where
  "AuthenticateAccess r hash now db =
     bindE (stmt (IdOther ''query access session'') r
       (Inr (case find (\<lambda>s. sn_access s = hash) (id_sessions db) of
          None \<Rightarrow> None
        | Some s \<Rightarrow> map_option (\<lambda>a. (s, a)) (account_of db (sn_user s))))) (\<lambda>found.
       case found of
         None \<Rightarrow> Inl IdUnauthenticated
       | Some (s, a) \<Rightarrow>
           if \<not> (now < sn_access_expires s \<and> sn_revoked s = None \<and> may_log_in a) then Inl IdUnauthenticated
           else if ac_status a \<noteq> AccountActive then Inl IdAccountDisabled
           else Inr \<lparr>pr_UserID = ac_id a, pr_Role = ac_role a, pr_Status = ac_status a, pr_FamilyID = sn_family s,
                     pr_PasswordChangeRequired = ac_change_required a\<rparr>)"

definition consume :: "int \<Rightarrow> string \<Rightarrow> session_row \<Rightarrow> session_row" where
  "consume now replacementID s =
     s\<lparr>sn_consumed := Some (max now (sn_created s)), sn_revoked := Some (max now (sn_created s)),
       sn_reason := Some ''ROTATED'', sn_replaced := Some replacementID\<rparr>"

definition rotate_body ::
    "server \<Rightarrow> (nat \<Rightarrow> reply) \<Rightarrow> string \<Rightarrow> NewSession \<Rightarrow> int \<Rightarrow> identity_db \<Rightarrow>
     identity_error + (identity_error + User) \<times> identity_error \<times> identity_db \<times> nat" where
  "rotate_body sv replies presentedHash replacement now db =
     bindE (stmt (IdOther ''lock refresh session'') (replies 1)
       (Inr (case find (\<lambda>s. sn_refresh s = presentedHash) (id_sessions db) of
          None \<Rightarrow> None
        | Some s \<Rightarrow> map_option (\<lambda>a. (s, a)) (account_of db (sn_user s))))) (\<lambda>found.
       case found of
         None \<Rightarrow> Inl IdUnauthenticated
       | Some (s, a) \<Rightarrow>
           if sn_consumed s \<noteq> None
           then bindE (revokeFamily (replies 2) (sn_family s) ''REFRESH_REUSE'' now db) (\<lambda>db1.
                bindE (insertIdentityAudit (replies 3) (ac_id a) ''SESSION_REFRESH_REUSE_DETECTED'' ''SESSION_FAMILY''
                  (sn_family s) now db1) (\<lambda>db2.
                Inr (Inl IdRefreshReuse, IdOther ''commit replay revocation'', db2, 4)))
           else if sn_revoked s \<noteq> None \<or> \<not> now < sn_refresh_expires s then Inl IdUnauthenticated
           else if ac_status a \<noteq> AccountActive then Inl IdAccountDisabled
           else
             bindE (insertSession sv (replies 2) (replacement\<lparr>ns_UserID := ac_id a, ns_FamilyID := sn_family s,
                 ns_ParentSessionID := sn_id s\<rparr>) db) (\<lambda>(replacementID, db1).
             bindE (stmt (IdOther ''consume refresh session'') (replies 3)
                 (update_rows session_check (\<lambda>x. sn_id x = sn_id s) (consume now replacementID) (id_sessions db1))) (\<lambda>(rows, _).
             Inr (Inr (user_of a), IdOther ''commit refresh transaction'', db1\<lparr>id_sessions := rows\<rparr>, 4))))"

definition RotateRefresh ::
    "server \<Rightarrow> (nat \<Rightarrow> reply) \<Rightarrow> string \<Rightarrow> NewSession \<Rightarrow> int \<Rightarrow> identity_db \<Rightarrow> (identity_error + User) \<times> identity_db" where
  "RotateRefresh sv replies presentedHash replacement now db =
     tx_run (replies 0) (IdOther ''begin refresh transaction'') replies db
       (rotate_body sv replies presentedHash replacement now db)"

text \<open>One statement: the revocation and, when it touched a session, one audit record.\<close>

definition RevokeFamily ::
    "reply \<Rightarrow> string \<Rightarrow> string \<Rightarrow> int \<Rightarrow> identity_db \<Rightarrow> (identity_error + unit) \<times> identity_db" where
  "RevokeFamily r familyID reason now db =
     autocommit (IdOther ''revoke session family'') r db
       (bindE (revoke_where (\<lambda>s. sn_family s = familyID) now reason db) (\<lambda>db1.
          Inr ((), case find (\<lambda>s. sn_family s = familyID) (id_sessions db) of
             None \<Rightarrow> db1
           | Some s \<Rightarrow> db1\<lparr>id_audit := id_audit db1 @ [\<lparr>ia_actor = Some (sn_user s), ia_action = ''SESSION_FAMILY_REVOKED'',
               ia_target_type = ''SESSION_FAMILY'', ia_target = familyID, ia_result = None, ia_at = now\<rparr>]\<rparr>)))"

end
