(* ===== verification/Identity_Accounts.thy ===== *)
theory Identity_Accounts
  imports Identity_Store
begin

text \<open>
  The rest of the identity store: single sign-on intents, the account views, the administrator and
  the cashiers (\<open>adapters/postgres/store.go\<close> and \<open>cashiers.go\<close>). \<open>pg_normal\<close> is
  \<open>lower(btrim(...))\<close> in the database; the order of names and of simultaneous audit records
  (collation, record identifiers) are parameters.
\<close>

section \<open>Intents\<close>

definition CreateOAuthIntent ::
    "server \<Rightarrow> reply \<Rightarrow> OAuthIntent \<Rightarrow> identity_db \<Rightarrow> (identity_error + OAuthIntent) \<times> identity_db" where
  "CreateOAuthIntent sv r i db =
     autocommit (IdOther ''insert oauth intent'') r db
       (map_sum id (\<lambda>rows. (i\<lparr>oi_ID := sv_uuid sv 0\<rparr>, db\<lparr>id_intents := rows\<rparr>))
         (insert_row intent_check (\<lambda>x y. in_id x = in_id y)
            (\<lambda>x. case in_bound x of None \<Rightarrow> True | Some u \<Rightarrow> has_account db u)
            \<lparr>in_id = sv_uuid sv 0, in_provider = oi_Provider i, in_purpose = oi_Purpose i, in_bound = nullif (oi_BoundUserID i),
             in_nonce = oi_NonceHash i, in_expires = oi_ExpiresAt i, in_consumed = None, in_created = sv_now sv\<rparr>
            (id_intents db)))"

definition intent_of :: "intent_row \<Rightarrow> OAuthIntent" where
  "intent_of i = \<lparr>oi_ID = in_id i, oi_Provider = in_provider i, oi_Purpose = in_purpose i,
     oi_BoundUserID = (case in_bound i of None \<Rightarrow> [] | Some u \<Rightarrow> u), oi_NonceHash = in_nonce i, oi_ExpiresAt = in_expires i\<rparr>"

definition usable_intent :: "identity_db \<Rightarrow> string \<Rightarrow> int \<Rightarrow> intent_row option" where
  "usable_intent db intentID now =
     find (\<lambda>i. in_id i = intentID \<and> in_consumed i = None \<and> now < in_expires i) (id_intents db)"

definition FindOAuthIntent :: "reply \<Rightarrow> string \<Rightarrow> int \<Rightarrow> identity_db \<Rightarrow> identity_error + OAuthIntent" where
  "FindOAuthIntent r intentID now db =
     bindE (stmt (IdOther ''query oauth intent'') r (Inr (usable_intent db intentID now))) (\<lambda>found.
       case found of None \<Rightarrow> Inl IdInvalidOAuthIntent | Some i \<Rightarrow> Inr (intent_of i))"

definition lockIntent :: "reply \<Rightarrow> string \<Rightarrow> int \<Rightarrow> identity_db \<Rightarrow> identity_error + OAuthIntent" where
  "lockIntent r intentID now db =
     bindE (stmt (IdOther ''lock oauth intent'') r (Inr (usable_intent db intentID now))) (\<lambda>found.
       case found of None \<Rightarrow> Inl IdInvalidOAuthIntent | Some i \<Rightarrow> Inr (intent_of i))"

definition consumeIntent :: "reply \<Rightarrow> string \<Rightarrow> int \<Rightarrow> identity_db \<Rightarrow> identity_error + identity_db" where
  "consumeIntent r intentID now db =
     bindE (stmt (IdOther ''consume oauth intent'') r
       (update_rows intent_check (\<lambda>i. in_id i = intentID \<and> in_consumed i = None)
          (\<lambda>i. i\<lparr>in_consumed := Some (max now (in_created i))\<rparr>) (id_intents db))) (\<lambda>(rows, n).
       if n \<noteq> 1 then Inl IdInvalidOAuthIntent else Inr (db\<lparr>id_intents := rows\<rparr>))"

definition new_customer :: "server \<Rightarrow> string \<Rightarrow> string \<Rightarrow> account_row" where
  "new_customer sv name email = \<lparr>ac_id = sv_uuid sv 2, ac_name = name, ac_email = email, ac_role = RoleCustomer,
     ac_status = AccountActive, ac_change_required = False, ac_verified_at = None\<rparr>"

text \<open>The session and the consumed intent of a login, and the state to commit.\<close>

definition finish_login ::
    "server \<Rightarrow> (nat \<Rightarrow> reply) \<Rightarrow> nat \<Rightarrow> string \<Rightarrow> User \<Rightarrow> NewSession \<Rightarrow> int \<Rightarrow> identity_db \<Rightarrow>
     identity_error + (identity_error + User) \<times> identity_error \<times> identity_db \<times> nat" where
  "finish_login sv replies n intentID user session now db =
     (if us_Status user \<noteq> AccountActive then Inl IdAccountDisabled
      else bindE (insertSession sv (replies n) (session\<lparr>ns_UserID := us_ID user\<rparr>) db) (\<lambda>(_, db1).
           bindE (consumeIntent (replies (n + 1)) intentID now db1) (\<lambda>db2.
             Inr (Inr user, IdOther ''commit oauth login'', db2, n + 2))))"

definition oauth_login_body ::
    "(string \<Rightarrow> string) \<Rightarrow> server \<Rightarrow> (nat \<Rightarrow> reply) \<Rightarrow> string \<Rightarrow> VerifiedIdentity \<Rightarrow> NewSession \<Rightarrow> int \<Rightarrow> identity_db \<Rightarrow>
     identity_error + (identity_error + User) \<times> identity_error \<times> identity_db \<times> nat" where
  "oauth_login_body pg_normal sv replies intentID verified session now db =
     (case lockIntent (replies 1) intentID now db of
        Inl _ \<Rightarrow> Inl IdInvalidOAuthIntent
      | Inr intent \<Rightarrow>
          if oi_Purpose intent \<noteq> OAuthLogin \<or> oi_Provider intent \<noteq> vi_Provider verified then Inl IdInvalidOAuthIntent
          else
            (case userByProviderSubject (replies 2) db (vi_Provider verified) (vi_Subject verified) of
               Inl _ \<Rightarrow> Inl (IdOther ''resolve oauth identity'')
             | Inr (Some user) \<Rightarrow> finish_login sv replies 3 intentID user session now db
             | Inr None \<Rightarrow>
                 (case userByEmail (replies 3) db (vi_Email verified) of
                    Inl _ \<Rightarrow> Inl (IdOther ''check oauth email owner'')
                  | Inr (Some _) \<Rightarrow>
                      bindE (consumeIntent (replies 4) intentID now db) (\<lambda>db1.
                        Inr (Inl IdIdentityLinkRequired, IdOther ''commit link-required intent'', db1, 5))
                  | Inr None \<Rightarrow>
                      let a = new_customer sv (vi_SuggestedName verified) (vi_Email verified) in
                      bindE (stmt (IdOther ''create oauth customer'') (replies 4) (insert_account pg_normal a db)) (\<lambda>db1.
                        case exec (replies 5) (insert_login \<lparr>lg_user = ac_id a, lg_provider = vi_Provider verified,
                               lg_subject = vi_Subject verified, lg_hash = None\<rparr> db1) of
                          Inl k \<Rightarrow> Inl (mapIdentityConflict k)
                        | Inr db2 \<Rightarrow> finish_login sv replies 6 intentID (short_user a) session now db2))))"

definition CompleteOAuthLogin ::
    "(string \<Rightarrow> string) \<Rightarrow> server \<Rightarrow> (nat \<Rightarrow> reply) \<Rightarrow> string \<Rightarrow> VerifiedIdentity \<Rightarrow> NewSession \<Rightarrow> int \<Rightarrow> identity_db \<Rightarrow>
     (identity_error + User) \<times> identity_db" where
  "CompleteOAuthLogin pg_normal sv replies intentID verified session now db =
     tx_run (replies 0) (IdOther ''begin oauth login'') replies db
       (oauth_login_body pg_normal sv replies intentID verified session now db)"

definition CompleteOAuthLink ::
    "(nat \<Rightarrow> reply) \<Rightarrow> string \<Rightarrow> string \<Rightarrow> VerifiedIdentity \<Rightarrow> int \<Rightarrow> identity_db \<Rightarrow> (identity_error + unit) \<times> identity_db" where
  "CompleteOAuthLink replies intentID userID verified now db =
     tx_run (replies 0) (IdOther ''begin oauth link'') replies db
       (case lockIntent (replies 1) intentID now db of
          Inl _ \<Rightarrow> Inl IdInvalidOAuthIntent
        | Inr intent \<Rightarrow>
            if oi_Purpose intent \<noteq> OAuthLink \<or> oi_BoundUserID intent \<noteq> userID \<or> oi_Provider intent \<noteq> vi_Provider verified
            then Inl IdInvalidOAuthIntent
            else bindE (userByIDForUpdate (replies 2) db userID) (\<lambda>user.
              if us_Status user \<noteq> AccountActive then Inl IdAccountDisabled
              else case exec (replies 3) (insert_login \<lparr>lg_user = userID, lg_provider = vi_Provider verified,
                       lg_subject = vi_Subject verified, lg_hash = None\<rparr> db) of
                Inl k \<Rightarrow> Inl (mapIdentityConflict k)
              | Inr db1 \<Rightarrow>
                  bindE (consumeIntent (replies 4) intentID now db1) (\<lambda>db2.
                  bindE (insertIdentityAudit (replies 5) userID ''OAUTH_IDENTITY_LINKED'' ''USER'' userID now db2) (\<lambda>db3.
                    Inr (Inr (), IdOther ''commit oauth link'', db3, 6)))))"

section \<open>Views\<close>

definition provider_name :: "Provider \<Rightarrow> string" where
  "provider_name p = (case p of ProviderPassword \<Rightarrow> ''PASSWORD'' | ProviderGoogle \<Rightarrow> ''GOOGLE''
     | ProviderApple \<Rightarrow> ''APPLE'' | ProviderOther s \<Rightarrow> s)"

definition providers_of :: "identity_db \<Rightarrow> string \<Rightarrow> Provider list" where
  "providers_of db userID =
     sort_key provider_name (map lg_provider (filter (\<lambda>l. lg_user l = userID) (id_logins db)))"

definition UserView_store :: "(nat \<Rightarrow> reply) \<Rightarrow> identity_db \<Rightarrow> string \<Rightarrow> identity_error + UserView" where
  "UserView_store replies db userID =
     bindE (stmt (IdOther ''query current user'') (replies 0) (Inr (account_of db userID))) (\<lambda>found.
       case found of
         None \<Rightarrow> Inl IdUnauthenticated
       | Some a \<Rightarrow>
           bindE (stmt (IdOther ''query current providers'') (replies 1) (Inr (providers_of db userID))) (\<lambda>ps.
             Inr \<lparr>uv_User = user_of a, uv_Providers = ps, uv_Audit = [], uv_Created = False, uv_EmailVerified = False\<rparr>))"

definition cashier_view :: "identity_db \<Rightarrow> account_row \<Rightarrow> UserView" where
  "cashier_view db a = \<lparr>uv_User = user_of a, uv_Providers = providers_of db (ac_id a), uv_Audit = [], uv_Created = False,
     uv_EmailVerified = (ac_verified_at a \<noteq> None)\<rparr>"

text \<open>The empty status (\<open>AccountOther ''''\<close>) asks for all.\<close>

definition ListCashiers_store ::
    "(account_row \<Rightarrow> nat) \<Rightarrow> reply \<Rightarrow> identity_db \<Rightarrow> AccountStatus \<Rightarrow> identity_error + UserView list" where
  "ListCashiers_store rank r db status =
     stmt (IdOther ''list cashiers'') r (Inr (map (cashier_view db) (sort_key rank
       (filter (\<lambda>a. ac_role a = RoleCashier \<and> (status = AccountOther [] \<or> ac_status a = status)) (id_accounts db)))))"

definition audit_entry :: "identity_audit_row \<Rightarrow> AuditEntry" where
  "audit_entry x = \<lparr>ae_Action = ia_action x, ae_ActorUserID = (case ia_actor x of None \<Rightarrow> [] | Some u \<Rightarrow> u),
     ae_Result = (case ia_result x of None \<Rightarrow> ''success'' | Some s \<Rightarrow> s), ae_OccurredAt = ia_at x\<rparr>"

definition CashierView ::
    "(identity_audit_row \<Rightarrow> nat) \<Rightarrow> (nat \<Rightarrow> reply) \<Rightarrow> identity_db \<Rightarrow> string \<Rightarrow> identity_error + UserView" where
  "CashierView tie replies db cashierID =
     bindE (stmt (IdOther ''read cashier'') (replies 0)
       (Inr (find (\<lambda>a. ac_id a = cashierID \<and> ac_role a = RoleCashier) (id_accounts db)))) (\<lambda>found.
       case found of
         None \<Rightarrow> Inl IdCashierNotFound
       | Some a \<Rightarrow>
           bindE (stmt (IdOther ''read cashier providers'') (replies 1) (Inr (cashier_view db a))) (\<lambda>view.
           bindE (stmt (IdOther ''read cashier audit'') (replies 2)
             (Inr (take 20 (sort_key (\<lambda>x. (- ia_at x, tie x))
               (filter (\<lambda>x. ia_target_type x = ''USER'' \<and> ia_target x = cashierID) (id_audit db)))))) (\<lambda>audit.
             Inr (view\<lparr>uv_Audit := map audit_entry audit\<rparr>))))"

section \<open>Accounts\<close>

definition set_account ::
    "(string \<Rightarrow> string) \<Rightarrow> string \<Rightarrow> (account_row \<Rightarrow> account_row) \<Rightarrow> identity_db \<Rightarrow> dberr + nat \<times> identity_db" where
  "set_account pg_normal userID f db =
     map_sum id (\<lambda>(rows, n). (n, db\<lparr>id_accounts := rows\<rparr>))
       (update_rows (account_check pg_normal) (\<lambda>a. ac_id a = userID) f (id_accounts db))"

definition revokeManagedSessions ::
    "reply \<Rightarrow> string \<Rightarrow> string \<Rightarrow> int \<Rightarrow> identity_db \<Rightarrow> identity_error + identity_db" where
  "revokeManagedSessions r userID reason now db =
     stmt (IdOther ''revoke cashier sessions'') r
       (revoke_where (\<lambda>s. sn_user s = userID \<and> sn_revoked s = None) now reason db)"

definition BootstrapAdmin_store ::
    "(string \<Rightarrow> string) \<Rightarrow> server \<Rightarrow> (nat \<Rightarrow> reply) \<Rightarrow> string \<Rightarrow> string \<Rightarrow> string \<Rightarrow> int \<Rightarrow> identity_db \<Rightarrow>
     (identity_error + User) \<times> identity_db" where
  "BootstrapAdmin_store pg_normal sv replies name email hash now db =
     tx_run (replies 0) (IdOther ''begin admin bootstrap'') replies db
       (bindE (stmt (IdOther ''lock admin bootstrap'') (replies 1) (Inr ())) (\<lambda>_.
        case userByRole (replies 2) db RoleAdmin of
          Inl _ \<Rightarrow> Inl (IdOther ''check existing admin'')
        | Inr (Some user) \<Rightarrow>
            if us_NormalizedEmail user = email
            then Inr (Inr user, IdOther ''commit idempotent bootstrap'', db, 3) else Inl IdAdminAlreadyExists
        | Inr None \<Rightarrow>
            let a = (new_customer sv name email)\<lparr>ac_role := RoleAdmin\<rparr> in
            bindE (stmt (IdOther ''insert bootstrap admin'') (replies 3) (insert_account pg_normal a db)) (\<lambda>db1.
            bindE (stmt (IdOther ''insert admin password identity'') (replies 4)
              (insert_login \<lparr>lg_user = ac_id a, lg_provider = ProviderPassword, lg_subject = email, lg_hash = Some hash\<rparr> db1)) (\<lambda>db2.
            bindE (insertIdentityAudit (replies 5) (ac_id a) ''ADMIN_BOOTSTRAPPED'' ''USER'' (ac_id a) now db2) (\<lambda>db3.
              Inr (Inr (short_user a), IdOther ''commit admin bootstrap'', db3, 6))))))"

definition DisableUser_store ::
    "(string \<Rightarrow> string) \<Rightarrow> (nat \<Rightarrow> reply) \<Rightarrow> string \<Rightarrow> string \<Rightarrow> int \<Rightarrow> identity_db \<Rightarrow> (identity_error + unit) \<times> identity_db" where
  "DisableUser_store pg_normal replies actorID userID now db =
     tx_run (replies 0) (IdOther ''begin disable user'') replies db
       (bindE (stmt (IdOther ''disable user'') (replies 1)
          (set_account pg_normal userID (\<lambda>a. a\<lparr>ac_status := AccountDisabled\<rparr>) db)) (\<lambda>(n, db1).
        if n \<noteq> 1 then Inl IdInvalidInput
        else bindE (stmt (IdOther ''revoke disabled user sessions'') (replies 2)
               (revoke_where (\<lambda>s. sn_user s = userID) now ''ACCOUNT_DISABLED'' db1)) (\<lambda>db2.
             bindE (insertIdentityAudit (replies 3) actorID ''ACCOUNT_DISABLED'' ''USER'' userID now db2) (\<lambda>db3.
               Inr (Inr (), IdOther ''commit disable user'', db3, 4)))))"

text \<open>The transaction, then the view read after it, whose error is returned although the change is made.\<close>

definition cashier_locked :: "reply \<Rightarrow> identity_db \<Rightarrow> string \<Rightarrow> identity_error + User" where
  "cashier_locked r db cashierID =
     (case userByIDForUpdate r db cashierID of
        Inl e \<Rightarrow> Inl (if e = IdUnauthenticated then IdCashierNotFound else e)
      | Inr user \<Rightarrow> if us_Role user \<noteq> RoleCashier then Inl IdCashierNotFound else Inr user)"

definition then_view ::
    "(identity_audit_row \<Rightarrow> nat) \<Rightarrow> (nat \<Rightarrow> reply) \<Rightarrow> string \<Rightarrow> (identity_error + unit) \<times> identity_db \<Rightarrow>
     (identity_error + UserView) \<times> identity_db" where
  "then_view tie replies cashierID outcome =
     (case outcome of
        (Inl e, db) \<Rightarrow> (Inl e, db)
      | (Inr _, db) \<Rightarrow> (CashierView tie replies db cashierID, db))"

definition status_tx ::
    "(string \<Rightarrow> string) \<Rightarrow> (nat \<Rightarrow> reply) \<Rightarrow> string \<Rightarrow> string \<Rightarrow> AccountStatus \<Rightarrow> int \<Rightarrow> identity_db \<Rightarrow>
     (identity_error + unit) \<times> identity_db" where
  "status_tx pg_normal replies actorID cashierID target now db =
     tx_run (replies 0) (IdOther ''begin cashier status change'') replies db
       (bindE (cashier_locked (replies 1) db cashierID) (\<lambda>user.
        if us_Status user = target then Inr (Inr (), IdOther ''commit cashier status change'', db, 2)
        else bindE (stmt (IdOther ''update cashier status'') (replies 2)
               (set_account pg_normal cashierID (\<lambda>a. a\<lparr>ac_status := target\<rparr>) db)) (\<lambda>(_, db1).
             if target = AccountDisabled
             then bindE (revokeManagedSessions (replies 3) cashierID ''ACCOUNT_DISABLED'' now db1) (\<lambda>db2.
                  bindE (insertIdentityAudit (replies 4) actorID ''CASHIER_DISABLED'' ''USER'' cashierID now db2) (\<lambda>db3.
                    Inr (Inr (), IdOther ''commit cashier status change'', db3, 5)))
             else bindE (insertIdentityAudit (replies 3) actorID ''CASHIER_RESTORED'' ''USER'' cashierID now db1) (\<lambda>db3.
                    Inr (Inr (), IdOther ''commit cashier status change'', db3, 4)))))"

definition SetCashierStatus_store ::
    "(identity_audit_row \<Rightarrow> nat) \<Rightarrow> (string \<Rightarrow> string) \<Rightarrow> (nat \<Rightarrow> reply) \<Rightarrow> (nat \<Rightarrow> reply) \<Rightarrow> string \<Rightarrow> string \<Rightarrow> AccountStatus \<Rightarrow> int \<Rightarrow>
     identity_db \<Rightarrow> (identity_error + UserView) \<times> identity_db" where
  "SetCashierStatus_store tie pg_normal replies view_replies actorID cashierID target now db =
     then_view tie view_replies cashierID (status_tx pg_normal replies actorID cashierID target now db)"

definition reset_tx ::
    "(string \<Rightarrow> string) \<Rightarrow> (nat \<Rightarrow> reply) \<Rightarrow> string \<Rightarrow> string \<Rightarrow> string \<Rightarrow> int \<Rightarrow> identity_db \<Rightarrow>
     (identity_error + unit) \<times> identity_db" where
  "reset_tx pg_normal replies actorID cashierID hash now db =
     tx_run (replies 0) (IdOther ''begin cashier password reset'') replies db
       (bindE (cashier_locked (replies 1) db cashierID) (\<lambda>_.
        bindE (stmt (IdOther ''reset cashier password'') (replies 2)
          (set_password (\<lambda>l. lg_user l = cashierID \<and> lg_provider l = ProviderPassword) hash db)) (\<lambda>(n, db1).
        if n \<noteq> 1 then Inl IdInvalidInput
        else bindE (stmt (IdOther ''require cashier password change'') (replies 3)
               (set_account pg_normal cashierID (\<lambda>a. a\<lparr>ac_change_required := True\<rparr>) db1)) (\<lambda>(_, db2).
             bindE (revokeManagedSessions (replies 4) cashierID ''PASSWORD_RESET'' now db2) (\<lambda>db3.
             bindE (insertIdentityAudit (replies 5) actorID ''CASHIER_PASSWORD_RESET'' ''USER'' cashierID now db3) (\<lambda>db4.
               Inr (Inr (), IdOther ''commit cashier password reset'', db4, 6)))))))"

definition ResetCashierPassword_store ::
    "(identity_audit_row \<Rightarrow> nat) \<Rightarrow> (string \<Rightarrow> string) \<Rightarrow> (nat \<Rightarrow> reply) \<Rightarrow> (nat \<Rightarrow> reply) \<Rightarrow> string \<Rightarrow> string \<Rightarrow> string \<Rightarrow> int \<Rightarrow>
     identity_db \<Rightarrow> (identity_error + UserView) \<times> identity_db" where
  "ResetCashierPassword_store tie pg_normal replies view_replies actorID cashierID hash now db =
     then_view tie view_replies cashierID (reset_tx pg_normal replies actorID cashierID hash now db)"

definition ChangeOwnPassword_store ::
    "(string \<Rightarrow> string) \<Rightarrow> (nat \<Rightarrow> reply) \<Rightarrow> string \<Rightarrow> string \<Rightarrow> string \<Rightarrow> string \<Rightarrow> int \<Rightarrow> identity_db \<Rightarrow>
     (identity_error + unit) \<times> identity_db" where
  "ChangeOwnPassword_store pg_normal replies userID familyID oldHash newHash now db =
     tx_run (replies 0) (IdOther ''begin password change'') replies db
       (bindE (userByIDForUpdate (replies 1) db userID) (\<lambda>user.
        if us_Status user \<noteq> AccountActive then Inl IdAccountDisabled
        else bindE (stmt (IdOther ''change own password'') (replies 2)
               (set_password (\<lambda>l. lg_user l = userID \<and> lg_provider l = ProviderPassword \<and> lg_hash l = Some oldHash)
                  newHash db)) (\<lambda>(n, db1).
             if n \<noteq> 1 then Inl IdInvalidCredentials
             else bindE (stmt (IdOther ''clear password change requirement'') (replies 3)
                    (set_account pg_normal userID (\<lambda>a. a\<lparr>ac_change_required := False\<rparr>) db1)) (\<lambda>(_, db2).
                  bindE (stmt (IdOther ''revoke other password sessions'') (replies 4)
                    (revoke_where (\<lambda>s. sn_user s = userID \<and> sn_family s \<noteq> familyID \<and> sn_revoked s = None) now
                       ''PASSWORD_CHANGED'' db2)) (\<lambda>db3.
                  bindE (insertIdentityAudit (replies 5) userID ''PASSWORD_CHANGED'' ''USER'' userID now db3) (\<lambda>db4.
                    Inr (Inr (), IdOther ''commit'', db4, 6)))))))"

definition RecoverAdminPassword_store ::
    "(nat \<Rightarrow> reply) \<Rightarrow> string \<Rightarrow> string \<Rightarrow> int \<Rightarrow> identity_db \<Rightarrow> (identity_error + User) \<times> identity_db" where
  "RecoverAdminPassword_store replies email hash now db =
     tx_run (replies 0) (IdOther ''begin admin recovery'') replies db
       (bindE (stmt (IdOther ''find recovery admin'') (replies 1)
          (Inr (find (\<lambda>a. ac_email a = email \<and> ac_role a = RoleAdmin) (id_accounts db)))) (\<lambda>found.
        case found of
          None \<Rightarrow> Inl IdAdminNotFound
        | Some a \<Rightarrow>
            if ac_status a \<noteq> AccountActive then Inl IdAccountDisabled
            else bindE (stmt (IdOther ''replace admin password'') (replies 2)
                   (set_password (\<lambda>l. lg_user l = ac_id a \<and> lg_provider l = ProviderPassword) hash db)) (\<lambda>(n, db1).
                 if n \<noteq> 1 then Inl IdAdminNotFound
                 else bindE (revokeManagedSessions (replies 3) (ac_id a) ''ADMIN_RECOVERY'' now db1) (\<lambda>db2.
                      bindE (insertIdentityAudit (replies 4) [] ''ADMIN_PASSWORD_RECOVERED'' ''USER'' (ac_id a) now db2) (\<lambda>db3.
                        Inr (Inr (short_user a), IdOther ''commit admin recovery'', db3, 5))))))"

end
