(* ===== verification/Identity_Registration.thy ===== *)
theory Identity_Registration
  imports Identity_Accounts
begin

text \<open>
  Registration by an emailed code: \<open>adapters/postgres/registration.go\<close> and
  \<open>cashier_registration.go\<close> of the identity module. A code is stored as a keyed digest; each
  pending registration counts wrong codes, and hourly buckets count requests.
\<close>

definition registrationEmailHourlyLimit :: int where
  "registrationEmailHourlyLimit = 5"

definition registrationIPHourlyLimit :: int where
  "registrationIPHourlyLimit = 100"

definition minute :: int where
  "minute = 60 * 1000000000"

text \<open>\<open>now.Truncate(time.Hour)\<close>\<close>

definition hour_window :: "int \<Rightarrow> int" where
  "hour_window now = now - now mod (60 * minute)"

definition bucket_count :: "string \<Rightarrow> int \<Rightarrow> bucket_row list \<Rightarrow> int" where
  "bucket_count key window rows =
     (case find (\<lambda>b. bu_key b = key \<and> bu_window b = window) rows of None \<Rightarrow> 0 | Some b \<Rightarrow> bu_count b)"

definition bump :: "string \<Rightarrow> int \<Rightarrow> bucket_row list \<Rightarrow> bucket_row list" where
  "bump key window rows =
     (if list_ex (\<lambda>b. bu_key b = key \<and> bu_window b = window) rows
      then update_where (\<lambda>b. bu_key b = key \<and> bu_window b = window) (\<lambda>b. b\<lparr>bu_count := bu_count b + 1\<rparr>) rows
      else rows @ [\<lparr>bu_key = key, bu_window = window, bu_count = 1\<rparr>])"

text \<open>One turn of the loop: the upsert, which returns the count, and the check.\<close>

definition count_request :: "reply \<Rightarrow> string \<Rightarrow> int \<Rightarrow> int \<Rightarrow> identity_db \<Rightarrow> identity_error + identity_db" where
  "count_request r key maximum window db =
     bindE (stmt (IdOther ''count registration rate'') r (Inr (bump key window (id_buckets db)))) (\<lambda>rows.
       if bucket_count key window rows > maximum then Inl IdRegistrationRateLimited else Inr (db\<lparr>id_buckets := rows\<rparr>))"

definition registrationLimits ::
    "(nat \<Rightarrow> reply) \<Rightarrow> nat \<Rightarrow> string \<Rightarrow> string \<Rightarrow> int \<Rightarrow> identity_db \<Rightarrow> identity_error + identity_db" where
  "registrationLimits replies n emailKey ipKey now db =
     (let window = hour_window now in
      bindE (count_request (replies n) emailKey registrationEmailHourlyLimit window db) (\<lambda>db1.
        count_request (replies (n + 1)) ipKey registrationIPHourlyLimit window db1))"

section \<open>Customers\<close>

definition pending_check :: "pending_row \<Rightarrow> bool" where
  "pending_check p \<longleftrightarrow> pg_text (pe_id p) \<and> text_between 32 128 (pe_id p) \<and> pg_text (pe_name p) \<and>
     text_between 1 120 (btrim (pe_name p)) \<and> pg_text (pe_email p) \<and> text_between 64 64 (pe_code p) \<and>
     0 \<le> pe_attempts p \<and> pe_attempts p \<le> 5 \<and> (pe_eligible p \<longleftrightarrow> pe_hash p \<noteq> None) \<and> pe_created p < pe_expires p"

text \<open>\<open>INSERT ... ON CONFLICT (normalized_email) DO UPDATE\<close>; a clash of identifiers is an error.\<close>

definition store_pending :: "pending_row \<Rightarrow> identity_db \<Rightarrow> dberr + identity_db" where
  "store_pending p db =
     (if \<not> pending_check p then Inl OtherDb
      else if list_ex (\<lambda>x. pe_id x = pe_id p \<and> pe_email x \<noteq> pe_email p) (id_pending db) then Inl UniqueViolation
      else Inr (db\<lparr>id_pending :=
        (if list_ex (\<lambda>x. pe_email x = pe_email p) (id_pending db)
         then update_where (\<lambda>x. pe_email x = pe_email p) (\<lambda>_. p) (id_pending db) else id_pending db @ [p])\<rparr>))"

definition set_pending :: "string \<Rightarrow> (pending_row \<Rightarrow> pending_row) \<Rightarrow> identity_db \<Rightarrow> dberr + identity_db" where
  "set_pending rid f db =
     map_sum id (\<lambda>(rows, _). db\<lparr>id_pending := rows\<rparr>) (update_rows pending_check (\<lambda>p. pe_id p = rid) f (id_pending db))"

definition BeginRegistration ::
    "(nat \<Rightarrow> reply) \<Rightarrow> PendingRegistration \<Rightarrow> string \<Rightarrow> int \<Rightarrow> identity_db \<Rightarrow> (identity_error + bool) \<times> identity_db" where
  "BeginRegistration replies v ipKey now db =
     tx_run (replies 0) (IdOther ''begin registration'') replies db
       (bindE (registrationLimits replies 1 (pn_EmailRateKey v) ipKey now db) (\<lambda>db1.
        bindE (stmt (IdOther ''check registration owner'') (replies 3)
          (Inr (list_ex (\<lambda>a. ac_email a = pn_Email v) (id_accounts db1)))) (\<lambda>owned.
        bindE (stmt (IdOther ''store pending registration'') (replies 4)
          (store_pending \<lparr>pe_id = pn_ID v, pe_email = pn_Email v, pe_name = pn_Name v,
             pe_hash = (if owned then None else Some (pn_PasswordHash v)), pe_code = pn_CodeHash v,
             pe_rate_key = pn_EmailRateKey v, pe_eligible = (\<not> owned), pe_attempts = 0, pe_created = now,
             pe_expires = pn_ExpiresAt v, pe_sent = now, pe_consumed = None\<rparr> db1)) (\<lambda>db2.
          Inr (Inr (\<not> owned), IdOther ''commit registration'', db2, 5)))))"

definition find_pending :: "identity_db \<Rightarrow> string \<Rightarrow> pending_row option" where
  "find_pending db rid = find (\<lambda>p. pe_id p = rid) (id_pending db)"

definition ResendRegistration ::
    "(nat \<Rightarrow> reply) \<Rightarrow> string \<Rightarrow> string \<Rightarrow> string \<Rightarrow> int \<Rightarrow> int \<Rightarrow> identity_db \<Rightarrow>
     (identity_error + string \<times> bool) \<times> identity_db" where
  "ResendRegistration replies rid codeHash ipKey now expires db =
     tx_run (replies 0) (IdOther ''begin registration resend'') replies db
       (bindE (stmt (IdOther ''load registration resend'') (replies 1) (Inr (find_pending db rid))) (\<lambda>found.
        case found of
          None \<Rightarrow> Inl IdInvalidRegistration
        | Some p \<Rightarrow>
            if pe_consumed p \<noteq> None \<or> \<not> now < pe_expires p then Inl IdInvalidRegistration
            else if now - pe_sent p < minute then Inl IdRegistrationCooldown
            else bindE (registrationLimits replies 2 (pe_rate_key p) ipKey now db) (\<lambda>db1.
                 bindE (stmt (IdOther ''update registration code'') (replies 4)
                   (set_pending rid (\<lambda>x. x\<lparr>pe_code := codeHash, pe_expires := expires, pe_sent := now, pe_attempts := 0\<rparr>) db1)) (\<lambda>db2.
                   Inr (Inr (pe_email p, pe_eligible p), IdOther ''commit registration resend'', db2, 5)))))"

definition verify_body ::
    "(string \<Rightarrow> string) \<Rightarrow> server \<Rightarrow> (nat \<Rightarrow> reply) \<Rightarrow> string \<Rightarrow> string \<Rightarrow> int \<Rightarrow> identity_db \<Rightarrow>
     identity_error + (identity_error + User) \<times> identity_error \<times> identity_db \<times> nat" where
  "verify_body pg_normal sv replies rid codeHash now db =
     bindE (stmt (IdOther ''load registration verification'') (replies 1) (Inr (find_pending db rid))) (\<lambda>found.
        case found of
          None \<Rightarrow> Inl IdInvalidRegistration
        | Some p \<Rightarrow>
            if pe_consumed p \<noteq> None \<or> \<not> now < pe_expires p \<or> 5 \<le> pe_attempts p then Inl IdInvalidRegistration
            else if pe_code p \<noteq> codeHash \<or> \<not> pe_eligible p \<or> pe_hash p = None
            then bindE (stmt (IdOther ''count registration attempt'') (replies 2)
                   (set_pending rid (\<lambda>x. x\<lparr>pe_attempts := pe_attempts x + 1\<rparr>) db)) (\<lambda>db1.
                   Inr (Inl IdInvalidRegistration, IdOther ''commit registration attempt'', db1, 3))
            else
              let a = new_customer sv (pe_name p) (pe_email p) in
              case exec (replies 2) (insert_account pg_normal a db) of
                Inl k \<Rightarrow> Inl (if k = UniqueViolation then IdInvalidRegistration else IdOther ''create registered customer'')
              | Inr db1 \<Rightarrow>
                  bindE (stmt (IdOther ''create registered password identity'') (replies 3)
                    (insert_login \<lparr>lg_user = ac_id a, lg_provider = ProviderPassword, lg_subject = pe_email p,
                       lg_hash = pe_hash p\<rparr> db1)) (\<lambda>db2.
                  bindE (stmt (IdOther ''consume registration'') (replies 4)
                    (set_pending rid (\<lambda>x. x\<lparr>pe_consumed := Some now\<rparr>) db2)) (\<lambda>db3.
                    Inr (Inr (short_user a), IdOther ''commit registration verification'', db3, 5))))"

definition VerifyRegistration ::
    "(string \<Rightarrow> string) \<Rightarrow> server \<Rightarrow> (nat \<Rightarrow> reply) \<Rightarrow> string \<Rightarrow> string \<Rightarrow> int \<Rightarrow> identity_db \<Rightarrow>
     (identity_error + User) \<times> identity_db" where
  "VerifyRegistration pg_normal sv replies rid codeHash now db =
     tx_run (replies 0) (IdOther ''begin registration verification'') replies db
       (verify_body pg_normal sv replies rid codeHash now db)"

text \<open>Three statements outside a transaction; the first that fails ends the call.\<close>

definition delete_stmt ::
    "string \<Rightarrow> reply \<Rightarrow> (identity_db \<Rightarrow> identity_db) \<Rightarrow> identity_db \<Rightarrow> (identity_error + unit) \<times> identity_db" where
  "delete_stmt what r f db = settle r db (f db) (IdOther what) ()"

definition expired :: "int \<Rightarrow> int \<Rightarrow> int option \<Rightarrow> bool" where
  "expired now expires consumed \<longleftrightarrow> expires \<le> now \<or> (case consumed of None \<Rightarrow> False | Some t \<Rightarrow> t < now)"

definition DeleteExpiredRegistrations ::
    "(nat \<Rightarrow> reply) \<Rightarrow> int \<Rightarrow> identity_db \<Rightarrow> (identity_error + unit) \<times> identity_db" where
  "DeleteExpiredRegistrations replies now db =
     (case delete_stmt ''delete expired registrations'' (replies 0)
             (\<lambda>d. d\<lparr>id_pending := filter (\<lambda>p. \<not> expired now (pe_expires p) (pe_consumed p)) (id_pending d)\<rparr>) db of
        (Inl e, db1) \<Rightarrow> (Inl e, db1)
      | (Inr _, db1) \<Rightarrow>
          (case delete_stmt ''delete registration rate buckets'' (replies 1)
                  (\<lambda>d. d\<lparr>id_buckets := filter (\<lambda>b. \<not> bu_window b < now - 120 * minute) (id_buckets d)\<rparr>) db1 of
             (Inl e, db2) \<Rightarrow> (Inl e, db2)
           | (Inr _, db2) \<Rightarrow>
               delete_stmt ''delete expired cashier registrations'' (replies 2)
                 (\<lambda>d. d\<lparr>id_cashier_pending :=
                    filter (\<lambda>p. \<not> expired now (cp_expires p) (cp_consumed p)) (id_cashier_pending d)\<rparr>) db2))"

section \<open>Cashiers\<close>

definition cashier_pending_check :: "cashier_pending_row \<Rightarrow> bool" where
  "cashier_pending_check p \<longleftrightarrow> pg_text (cp_id p) \<and> text_between 32 128 (cp_id p) \<and> pg_text (cp_name p) \<and>
     text_between 1 120 (btrim (cp_name p)) \<and> pg_text (cp_email p) \<and> text_between 64 64 (cp_code p) \<and>
     0 \<le> cp_attempts p \<and> cp_attempts p \<le> 5 \<and> cp_created p < cp_expires p"

definition store_cashier_pending :: "cashier_pending_row \<Rightarrow> identity_db \<Rightarrow> dberr + identity_db" where
  "store_cashier_pending p db =
     (if \<not> cashier_pending_check p then Inl OtherDb
      else if list_ex (\<lambda>x. cp_id x = cp_id p \<and> cp_email x \<noteq> cp_email p) (id_cashier_pending db) then Inl UniqueViolation
      else if \<not> has_account db (cp_actor p) then Inl OtherDb
      else Inr (db\<lparr>id_cashier_pending :=
        (if list_ex (\<lambda>x. cp_email x = cp_email p) (id_cashier_pending db)
         then update_where (\<lambda>x. cp_email x = cp_email p) (\<lambda>_. p) (id_cashier_pending db)
         else id_cashier_pending db @ [p])\<rparr>))"

definition set_cashier_pending ::
    "string \<Rightarrow> (cashier_pending_row \<Rightarrow> cashier_pending_row) \<Rightarrow> identity_db \<Rightarrow> dberr + identity_db" where
  "set_cashier_pending rid f db =
     map_sum id (\<lambda>(rows, _). db\<lparr>id_cashier_pending := rows\<rparr>)
       (update_rows cashier_pending_check (\<lambda>p. cp_id p = rid) f (id_cashier_pending db))"

definition BeginCashierRegistration ::
    "(nat \<Rightarrow> reply) \<Rightarrow> PendingRegistration \<Rightarrow> string \<Rightarrow> string \<Rightarrow> int \<Rightarrow> identity_db \<Rightarrow> (identity_error + unit) \<times> identity_db" where
  "BeginCashierRegistration replies v actorID ipKey now db =
     tx_run (replies 0) (IdOther ''begin cashier registration'') replies db
       (bindE (registrationLimits replies 1 (pn_EmailRateKey v) ipKey now db) (\<lambda>db1.
        bindE (stmt (IdOther ''check cashier registration email'') (replies 3)
          (Inr (find (\<lambda>a. ac_email a = pn_Email v) (id_accounts db1)))) (\<lambda>found.
        if (case found of None \<Rightarrow> False | Some a \<Rightarrow> ac_role a \<noteq> RoleCashier \<or> ac_verified_at a \<noteq> None) then Inl IdEmailInUse
        else bindE (stmt (IdOther ''store pending cashier registration'') (replies 4)
          (store_cashier_pending \<lparr>cp_id = pn_ID v, cp_actor = actorID, cp_cashier = None, cp_was_created = False,
             cp_email = pn_Email v, cp_name = pn_Name v, cp_hash = pn_PasswordHash v, cp_code = pn_CodeHash v,
             cp_rate_key = pn_EmailRateKey v, cp_attempts = 0, cp_created = now, cp_expires = pn_ExpiresAt v,
             cp_sent = now, cp_consumed = None\<rparr> db1)) (\<lambda>db2.
          Inr (Inr (), IdOther ''commit'', db2, 5)))))"

definition find_cashier_pending :: "identity_db \<Rightarrow> string \<Rightarrow> string \<Rightarrow> cashier_pending_row option" where
  "find_cashier_pending db rid actorID = find (\<lambda>p. cp_id p = rid \<and> cp_actor p = actorID) (id_cashier_pending db)"

definition ResendCashierRegistration ::
    "(nat \<Rightarrow> reply) \<Rightarrow> string \<Rightarrow> string \<Rightarrow> string \<Rightarrow> string \<Rightarrow> int \<Rightarrow> int \<Rightarrow> identity_db \<Rightarrow>
     (identity_error + string) \<times> identity_db" where
  "ResendCashierRegistration replies actorID rid codeHash ipKey now expires db =
     tx_run (replies 0) (IdOther ''begin cashier code resend'') replies db
       (bindE (stmt (IdOther ''load cashier code resend'') (replies 1) (Inr (find_cashier_pending db rid actorID))) (\<lambda>found.
        case found of
          None \<Rightarrow> Inl IdInvalidRegistration
        | Some p \<Rightarrow>
            if cp_consumed p \<noteq> None \<or> \<not> now < cp_expires p then Inl IdInvalidRegistration
            else if now - cp_sent p < minute then Inl IdRegistrationCooldown
            else bindE (registrationLimits replies 2 (cp_rate_key p) ipKey now db) (\<lambda>db1.
                 bindE (stmt (IdOther ''update cashier code'') (replies 4)
                   (set_cashier_pending rid (\<lambda>x. x\<lparr>cp_code := codeHash, cp_expires := expires, cp_sent := now, cp_attempts := 0\<rparr>) db1)) (\<lambda>db2.
                   Inr (Inr (cp_email p), IdOther ''commit cashier code resend'', db2, 5)))))"

text \<open>The account that a verified code creates or unlocks: its identifier, whether it is new, the state.\<close>

definition verified_account ::
    "(string \<Rightarrow> string) \<Rightarrow> server \<Rightarrow> (nat \<Rightarrow> reply) \<Rightarrow> cashier_pending_row \<Rightarrow> int \<Rightarrow> identity_db \<Rightarrow>
     identity_error + string \<times> bool \<times> identity_db \<times> nat" where
  "verified_account pg_normal sv replies p now db =
     bindE (stmt (IdOther ''resolve cashier registration'') (replies 3)
       (Inr (find (\<lambda>a. ac_email a = cp_email p) (id_accounts db)))) (\<lambda>found.
     case found of
       Some a \<Rightarrow>
         if ac_role a \<noteq> RoleCashier \<or> ac_verified_at a \<noteq> None then Inl IdEmailInUse
         else bindE (stmt (IdOther ''verify existing cashier'') (replies 4)
                (set_account pg_normal (ac_id a)
                   (\<lambda>x. x\<lparr>ac_name := cp_name p, ac_change_required := True, ac_verified_at := Some now\<rparr>) db)) (\<lambda>(_, db1).
              bindE (stmt (IdOther ''replace existing cashier login'') (replies 5)
                (set_password (\<lambda>l. lg_user l = ac_id a \<and> lg_provider l = ProviderPassword) (cp_hash p) db1)) (\<lambda>(_, db2).
              bindE (revokeManagedSessions (replies 6) (ac_id a) ''EMAIL_VERIFIED_LOGIN_RESET'' now db2) (\<lambda>db3.
                Inr (ac_id a, False, db3, 7))))
     | None \<Rightarrow>
         let a = \<lparr>ac_id = sv_uuid sv 2, ac_name = cp_name p, ac_email = cp_email p, ac_role = RoleCashier,
           ac_status = AccountActive, ac_change_required = True, ac_verified_at = Some now\<rparr> in
         case exec (replies 4) (insert_account pg_normal a db) of
           Inl k \<Rightarrow> Inl (if k = UniqueViolation then IdEmailInUse else IdOther ''create verified cashier'')
         | Inr db1 \<Rightarrow>
             bindE (stmt (IdOther ''create verified cashier login'') (replies 5)
               (insert_login \<lparr>lg_user = ac_id a, lg_provider = ProviderPassword, lg_subject = cp_email p,
                  lg_hash = Some (cp_hash p)\<rparr> db1)) (\<lambda>db2.
               Inr (ac_id a, True, db2, 6)))"

text \<open>
  The answer before the view is read: the cashier and whether the account is new. A code that was
  already accepted answers from its row, and the transaction is rolled back.
\<close>

definition verify_cashier_tx ::
    "(string \<Rightarrow> string) \<Rightarrow> server \<Rightarrow> (nat \<Rightarrow> reply) \<Rightarrow> string \<Rightarrow> string \<Rightarrow> string \<Rightarrow> int \<Rightarrow> identity_db \<Rightarrow>
     (identity_error + string \<times> bool) \<times> identity_db" where
  "verify_cashier_tx pg_normal sv replies actorID rid codeHash now db =
     tx_run (replies 0) (IdOther ''begin cashier email verification'') replies db
       (bindE (stmt (IdOther ''load cashier email verification'') (replies 1) (Inr (find_cashier_pending db rid actorID))) (\<lambda>found.
        case found of
          None \<Rightarrow> Inl IdInvalidRegistration
        | Some p \<Rightarrow>
            if cp_consumed p \<noteq> None \<and> cp_cashier p \<noteq> None \<and> cp_code p = codeHash
            then Inr (Inr (the (cp_cashier p), cp_was_created p), IdOther ''release replayed cashier verification'', db, 2)
            else if cp_consumed p \<noteq> None \<or> \<not> now < cp_expires p \<or> 5 \<le> cp_attempts p then Inl IdInvalidRegistration
            else if cp_code p \<noteq> codeHash
            then bindE (stmt (IdOther ''count cashier code attempt'') (replies 2)
                   (set_cashier_pending rid (\<lambda>x. x\<lparr>cp_attempts := cp_attempts x + 1\<rparr>) db)) (\<lambda>db1.
                   Inr (Inl IdInvalidRegistration, IdOther ''commit cashier code attempt'', db1, 3))
            else
              bindE (stmt (IdOther ''lock cashier email'') (replies 2) (Inr ())) (\<lambda>_.
              bindE (verified_account pg_normal sv replies p now db) (\<lambda>(cashierID, created, db1, n).
              bindE (insertIdentityAudit (replies n) actorID ''CASHIER_EMAIL_VERIFIED'' ''USER'' cashierID now db1) (\<lambda>db2.
              bindE (stmt (IdOther ''consume cashier code'') (replies (n + 1))
                (set_cashier_pending rid (\<lambda>x. x\<lparr>cp_consumed := Some now, cp_cashier := Some cashierID, cp_was_created := created\<rparr>) db2)) (\<lambda>db3.
                Inr (Inr (cashierID, created), IdOther ''commit cashier email verification'', db3, n + 2)))))))"

definition VerifyCashierRegistration ::
    "(identity_audit_row \<Rightarrow> nat) \<Rightarrow> (string \<Rightarrow> string) \<Rightarrow> server \<Rightarrow> (nat \<Rightarrow> reply) \<Rightarrow> (nat \<Rightarrow> reply) \<Rightarrow> string \<Rightarrow> string \<Rightarrow> string \<Rightarrow>
     int \<Rightarrow> identity_db \<Rightarrow> (identity_error + UserView) \<times> identity_db" where
  "VerifyCashierRegistration tie pg_normal sv replies view_replies actorID rid codeHash now db =
     (case verify_cashier_tx pg_normal sv replies actorID rid codeHash now db of
        (Inl e, db') \<Rightarrow> (Inl e, db')
      | (Inr (cashierID, created), db') \<Rightarrow>
          (map_sum id (\<lambda>view. view\<lparr>uv_Created := created\<rparr>) (CashierView tie view_replies db' cashierID), db'))"

end
