(* ===== verification/Identity_Access.thy ===== *)
theory Identity_Access
  imports Identity_Registration
begin

text \<open>
  Who has access: the abstract moves that the operations of the identity store make on accounts and
  sessions, the invariant of these moves, and the proof that every operation of the store is a
  sequence of them. Every transaction is one step (\<open>identity_step\<close>), so a sequence of steps is any
  interleaving of requests.
\<close>

section \<open>Moves\<close>

definition live :: "session_row \<Rightarrow> bool" where
  "live s \<longleftrightarrow> sn_revoked s = None"

definition may_open :: "identity_db \<Rightarrow> string \<Rightarrow> bool" where
  "may_open db userID \<longleftrightarrow> (\<exists>a. account_of db userID = Some a \<and> ac_status a = AccountActive \<and> may_log_in a)"

definition shaped :: "session_row \<Rightarrow> bool" where
  "shaped s \<longleftrightarrow> validUUID (sn_family s) \<and> session_check s"

definition new_in :: "identity_db \<Rightarrow> session_row \<Rightarrow> bool" where
  "new_in db s \<longleftrightarrow> session_check s \<and> (\<forall>x \<in> set (id_sessions db). \<not> session_clash x s) \<and> sn_revoked s = None \<and> sn_consumed s = None \<and>
     may_open db (sn_user s)"

inductive access_move :: "identity_db \<Rightarrow> identity_db \<Rightarrow> bool" where
  keeps: "id_accounts db' = id_accounts db \<Longrightarrow> id_sessions db' = id_sessions db \<Longrightarrow> access_move db db'"
| joins: "\<forall>x \<in> set (id_accounts db). \<not> account_clash x a \<Longrightarrow>
    ac_role a = RoleAdmin \<longrightarrow> (\<forall>x \<in> set (id_accounts db). ac_role x \<noteq> RoleAdmin) \<Longrightarrow>
    id_accounts db' = id_accounts db @ [a] \<Longrightarrow> id_sessions db' = id_sessions db \<Longrightarrow> access_move db db'"
| opens: "new_in db s \<Longrightarrow> validUUID (sn_family s) \<Longrightarrow> \<forall>x \<in> set (id_sessions db). sn_family x \<noteq> sn_family s \<Longrightarrow>
    id_accounts db' = id_accounts db \<Longrightarrow> id_sessions db' = id_sessions db @ [s] \<Longrightarrow> access_move db db'"
| rotates: "s \<in> set (id_sessions db) \<Longrightarrow> live s \<Longrightarrow> new_in db child \<Longrightarrow> sn_family child = sn_family s \<Longrightarrow>
    sn_user child = sn_user s \<Longrightarrow> id_accounts db' = id_accounts db \<Longrightarrow>
    id_sessions db' = update_where (\<lambda>x. sn_id x = sn_id s) (consume now (sn_id child)) (id_sessions db @ [child]) \<Longrightarrow>
    access_move db db'"
| amends: "id_accounts db' = update_where (\<lambda>a. ac_id a = userID) f (id_accounts db) \<Longrightarrow>
    id_sessions db' = update_where P (revoke now reason) (id_sessions db) \<Longrightarrow>
    (\<And>a. ac_id (f a) = ac_id a \<and> ac_email (f a) = ac_email a \<and> ac_role (f a) = ac_role a \<and>
       (ac_verified_at a \<noteq> None \<longrightarrow> ac_verified_at (f a) \<noteq> None)) \<Longrightarrow>
    (\<And>a s. ac_status a = AccountActive \<Longrightarrow> ac_status (f a) \<noteq> AccountActive \<Longrightarrow> s \<in> set (id_sessions db) \<Longrightarrow>
       sn_user s = userID \<Longrightarrow> live s \<Longrightarrow> P s) \<Longrightarrow>
    access_move db db'"

section \<open>Steps\<close>

text \<open>
  Every operation with any arguments and answers. A session begins a family of its own, as
  \<open>makeSession\<close> asks, whose identifier the database has just generated.
\<close>

definition fresh_family :: "server \<Rightarrow> identity_db \<Rightarrow> bool" where
  "fresh_family sv db \<longleftrightarrow> validUUID (sv_uuid sv 1) \<and> (\<forall>s \<in> set (id_sessions db). sn_family s \<noteq> sv_uuid sv 1)"

inductive identity_step :: "(string \<Rightarrow> string) \<Rightarrow> identity_db \<Rightarrow> identity_db \<Rightarrow> bool" for pg_normal where
  update_hash: "UpdatePasswordHash r u encoded db = (x1, db') \<Longrightarrow> identity_step pg_normal db db'"
| create_session: "CreateSession sv replies s db = (x2, db') \<Longrightarrow> ns_FamilyID s = [] \<Longrightarrow> fresh_family sv db \<Longrightarrow>
    identity_step pg_normal db db'"
| rotate: "RotateRefresh sv replies presented s now db = (x2, db') \<Longrightarrow> identity_step pg_normal db db'"
| revoke_family: "RevokeFamily r fid reason now db = (x1, db') \<Longrightarrow> identity_step pg_normal db db'"
| create_intent: "CreateOAuthIntent sv r i db = (x3, db') \<Longrightarrow> identity_step pg_normal db db'"
| oauth_login: "CompleteOAuthLogin pg_normal sv replies iid v s now db = (x2, db') \<Longrightarrow> ns_FamilyID s = [] \<Longrightarrow>
    fresh_family sv db \<Longrightarrow> identity_step pg_normal db db'"
| oauth_link: "CompleteOAuthLink replies iid u v now db = (x1, db') \<Longrightarrow> identity_step pg_normal db db'"
| bootstrap: "BootstrapAdmin_store pg_normal sv replies name email hash now db = (x2, db') \<Longrightarrow> identity_step pg_normal db db'"
| disable: "DisableUser_store pg_normal replies actor u now db = (x1, db') \<Longrightarrow> identity_step pg_normal db db'"
| set_status: "status_tx pg_normal replies actor u target now db = (x1, db') \<Longrightarrow> identity_step pg_normal db db'"
| reset: "reset_tx pg_normal replies actor u hash now db = (x1, db') \<Longrightarrow> identity_step pg_normal db db'"
| change_own: "ChangeOwnPassword_store pg_normal replies u fid old new now db = (x1, db') \<Longrightarrow> identity_step pg_normal db db'"
| recover: "RecoverAdminPassword_store replies email hash now db = (x2, db') \<Longrightarrow> identity_step pg_normal db db'"
| begin_registration: "BeginRegistration replies v ip now db = (x4, db') \<Longrightarrow> identity_step pg_normal db db'"
| resend_registration: "ResendRegistration replies rid code ip now expires db = (x5, db') \<Longrightarrow> identity_step pg_normal db db'"
| verify_registration: "VerifyRegistration pg_normal sv replies rid code now db = (x2, db') \<Longrightarrow> identity_step pg_normal db db'"
| delete_expired: "DeleteExpiredRegistrations replies now db = (x1, db') \<Longrightarrow> identity_step pg_normal db db'"
| begin_cashier: "BeginCashierRegistration replies v actor ip now db = (x1, db') \<Longrightarrow> identity_step pg_normal db db'"
| resend_cashier: "ResendCashierRegistration replies actor rid code ip now expires db = (x6, db') \<Longrightarrow> identity_step pg_normal db db'"
| verify_cashier: "verify_cashier_tx pg_normal sv replies actor rid code now db = (x7, db') \<Longrightarrow> identity_step pg_normal db db'"

abbreviation identity_steps :: "(string \<Rightarrow> string) \<Rightarrow> identity_db \<Rightarrow> identity_db \<Rightarrow> bool" where
  "identity_steps pg_normal \<equiv> (identity_step pg_normal)\<^sup>*\<^sup>*"

section \<open>What a statement changes\<close>

named_theorems stmt_effects

lemma insert_login_Inr [stmt_effects]:
  "insert_login l db = Inr db' \<longleftrightarrow> login_check l \<and> (\<forall>x \<in> set (id_logins db). \<not> login_clash x l) \<and>
     has_account db (lg_user l) \<and> db' = db\<lparr>id_logins := id_logins db @ [l]\<rparr>"
  by (auto simp: insert_login_def insert_row_Inr)

lemma insert_account_Inr [stmt_effects]:
  "insert_account pg_normal a db = Inr db' \<longleftrightarrow> account_check pg_normal a \<and>
     (\<forall>x \<in> set (id_accounts db). \<not> account_clash x a) \<and> db' = db\<lparr>id_accounts := id_accounts db @ [a]\<rparr>"
  by (auto simp: insert_account_def insert_row_Inr)

lemma insertIdentityAudit_Inr [stmt_effects]:
  "insertIdentityAudit r actor action ttype target now db = Inr db' \<longleftrightarrow> r = Done \<and>
     text_between 1 100 action \<and> text_between 1 100 ttype \<and> text_between 1 255 target \<and>
     (actor = [] \<or> has_account db actor) \<and>
     db' = db\<lparr>id_audit := id_audit db @ [\<lparr>ia_actor = nullif actor, ia_action = action, ia_target_type = ttype,
       ia_target = target, ia_result = Some ''success'', ia_at = now\<rparr>]\<rparr>"
  by (auto simp: insertIdentityAudit_def insert_row_Inr nullif_def)

lemma revoke_where_Inr [stmt_effects]:
  "revoke_where P now reason db = Inr db' \<longleftrightarrow> (\<forall>s \<in> set (id_sessions db). P s \<longrightarrow> session_check (revoke now reason s)) \<and>
     db' = db\<lparr>id_sessions := update_where P (revoke now reason) (id_sessions db)\<rparr>"
  by (auto simp: revoke_where_def update_rows_Inr)

lemma revokeFamily_Inr [stmt_effects]:
  "revokeFamily r fid reason now db = Inr db' \<longleftrightarrow>
     r = Done \<and> revoke_where (\<lambda>s. sn_family s = fid) now reason db = Inr db'"
  by (simp add: revokeFamily_def)

lemma revokeManagedSessions_Inr [stmt_effects]:
  "revokeManagedSessions r u reason now db = Inr db' \<longleftrightarrow>
     r = Done \<and> revoke_where (\<lambda>s. sn_user s = u \<and> sn_revoked s = None) now reason db = Inr db'"
  by (simp add: revokeManagedSessions_def)

lemma set_password_Inr [stmt_effects]:
  "set_password P encoded db = Inr (n, db') \<longleftrightarrow>
     (\<forall>l \<in> set (id_logins db). P l \<longrightarrow> login_check (l\<lparr>lg_hash := Some encoded\<rparr>)) \<and> n = affected P (id_logins db) \<and>
     db' = db\<lparr>id_logins := update_where P (\<lambda>l. l\<lparr>lg_hash := Some encoded\<rparr>) (id_logins db)\<rparr>"
  by (auto simp: set_password_def update_rows_Inr)

lemma set_account_Inr [stmt_effects]:
  "set_account pg_normal u f db = Inr (n, db') \<longleftrightarrow>
     (\<forall>a \<in> set (id_accounts db). ac_id a = u \<longrightarrow> account_check pg_normal (f a)) \<and>
     n = affected (\<lambda>a. ac_id a = u) (id_accounts db) \<and>
     db' = db\<lparr>id_accounts := update_where (\<lambda>a. ac_id a = u) f (id_accounts db)\<rparr>"
  by (auto simp: set_account_def update_rows_Inr)

lemma consumeIntent_Inr [stmt_effects]:
  "consumeIntent r iid now db = Inr db' \<longleftrightarrow> r = Done \<and>
     affected (\<lambda>i. in_id i = iid \<and> in_consumed i = None) (id_intents db) = 1 \<and>
     (\<forall>i \<in> set (id_intents db). in_id i = iid \<and> in_consumed i = None \<longrightarrow>
        intent_check (i\<lparr>in_consumed := Some (max now (in_created i))\<rparr>)) \<and>
     db' = db\<lparr>id_intents := update_where (\<lambda>i. in_id i = iid \<and> in_consumed i = None)
       (\<lambda>i. i\<lparr>in_consumed := Some (max now (in_created i))\<rparr>) (id_intents db)\<rparr>"
  by (auto simp: consumeIntent_def bindE_Inr update_rows_Inr)

lemma count_request_Inr [stmt_effects]:
  "count_request r key maximum window db = Inr db' \<longleftrightarrow> r = Done \<and>
     bucket_count key window (bump key window (id_buckets db)) \<le> maximum \<and>
     db' = db\<lparr>id_buckets := bump key window (id_buckets db)\<rparr>"
  by (auto simp: count_request_def bindE_Inr)

definition opened_session :: "server \<Rightarrow> NewSession \<Rightarrow> session_row" where
  "opened_session sv s = \<lparr>sn_id = sv_uuid sv 0, sn_user = ns_UserID s,
     sn_family = (if ns_FamilyID s = [] then sv_uuid sv 1 else ns_FamilyID s),
     sn_parent = nullif (ns_ParentSessionID s), sn_access = ns_AccessTokenHash s, sn_refresh = ns_RefreshTokenHash s,
     sn_access_expires = ns_AccessExpiresAt s, sn_refresh_expires = ns_RefreshExpiresAt s, sn_consumed = None,
     sn_revoked = None, sn_reason = None, sn_replaced = None, sn_created = sv_now sv\<rparr>"

lemma account_of_Some: "account_of db u = Some a \<Longrightarrow> a \<in> set (id_accounts db) \<and> ac_id a = u"
  by (auto simp: account_of_def dest: find_SomeD)

lemma insertSession_Inr:
  "insertSession sv r s db = Inr (sid, db') \<longleftrightarrow> r = Done \<and> sid = sv_uuid sv 0 \<and>
     (\<exists>a. account_of db (ns_UserID s) = Some a \<and> may_log_in a) \<and> session_check (opened_session sv s) \<and>
     (\<forall>x \<in> set (id_sessions db). \<not> session_clash x (opened_session sv s)) \<and>
     (ns_ParentSessionID s = [] \<or> (\<exists>y \<in> set (id_sessions db). sn_id y = ns_ParentSessionID s)) \<and>
     db' = db\<lparr>id_sessions := id_sessions db @ [opened_session sv s]\<rparr>"
proof (cases "account_of db (ns_UserID s)")
  case None
  then show ?thesis by (simp add: insertSession_def bindE_Inr)
next
  case (Some a)
  note row = opened_session_def
  from account_of_Some [OF Some] have "ac_id a = ns_UserID s" by simp
  with Some show ?thesis
    by (cases "may_log_in a")
      (auto simp: insertSession_def bindE_Inr row nullif_def insert_row_Inr list_ex_iff split: if_splits)
qed

end
