(* ===== verification/Identity_Moves.thy ===== *)
theory Identity_Moves
  imports Identity_Access
begin

text \<open>Every operation of the identity store is a sequence of the abstract moves of \<open>Identity_Access\<close>.\<close>

abbreviation access_moves :: "identity_db \<Rightarrow> identity_db \<Rightarrow> bool" where
  "access_moves \<equiv> access_move\<^sup>*\<^sup>*"

definition same_access :: "identity_db \<Rightarrow> identity_db \<Rightarrow> bool" where
  "same_access db db' \<longleftrightarrow> id_accounts db' = id_accounts db \<and> id_sessions db' = id_sessions db"

lemma same_access_moves: "same_access db db' \<Longrightarrow> access_moves db db'"
  by (auto simp: same_access_def intro: access_move.keeps r_into_rtranclp)

lemma same_access_refl [simp]: "same_access db db"
  by (simp add: same_access_def)

section \<open>Operations that leave accounts and sessions alone\<close>

lemma registrationLimits_Inr:
  "registrationLimits replies n ek ik now db = Inr db' \<Longrightarrow> \<exists>rows. db' = db\<lparr>id_buckets := rows\<rparr>"
  by (fastforce simp: registrationLimits_def Let_def bindE_Inr stmt_effects)

lemma store_pending_Inr: "store_pending p db = Inr db' \<Longrightarrow> \<exists>rows. db' = db\<lparr>id_pending := rows\<rparr>"
  by (auto simp: store_pending_def split: if_splits)

lemma set_pending_Inr: "set_pending rid f db = Inr db' \<Longrightarrow> \<exists>rows. db' = db\<lparr>id_pending := rows\<rparr>"
  by (auto simp: set_pending_def)

lemma store_cashier_pending_Inr:
  "store_cashier_pending p db = Inr db' \<Longrightarrow> \<exists>rows. db' = db\<lparr>id_cashier_pending := rows\<rparr>"
  by (auto simp: store_cashier_pending_def split: if_splits)

lemma set_cashier_pending_Inr:
  "set_cashier_pending rid f db = Inr db' \<Longrightarrow> \<exists>rows. db' = db\<lparr>id_cashier_pending := rows\<rparr>"
  by (auto simp: set_cashier_pending_def)

lemmas pending_effects = registrationLimits_Inr store_pending_Inr set_pending_Inr store_cashier_pending_Inr
  set_cashier_pending_Inr

lemma settle_result:
  "settle r old new e v = (res, db') \<Longrightarrow> db' = old \<or> db' = new"
  by (cases r) auto

lemma UpdatePasswordHash_keeps: "UpdatePasswordHash r u encoded db = (res, db') \<Longrightarrow> same_access db db'"
  by (auto simp: UpdatePasswordHash_def autocommit_def same_access_def stmt_effects
      split: sum.splits prod.splits if_splits dest!: settle_result)

lemma CreateOAuthIntent_keeps: "CreateOAuthIntent sv r i db = (res, db') \<Longrightarrow> same_access db db'"
  by (auto simp: CreateOAuthIntent_def autocommit_def same_access_def
      split: sum.splits prod.splits dest!: settle_result)

lemma CompleteOAuthLink_keeps: "CompleteOAuthLink replies iid u v now db = (res, db') \<Longrightarrow> same_access db db'"
  unfolding CompleteOAuthLink_def
  by (drule tx_run_cases) (auto simp: bindE_Inr stmt_effects same_access_def split: sum.splits if_splits)

lemma BeginRegistration_keeps: "BeginRegistration replies v ip now db = (res, db') \<Longrightarrow> same_access db db'"
  unfolding BeginRegistration_def
  by (drule tx_run_cases) (auto simp: bindE_Inr same_access_def dest!: pending_effects)

lemma ResendRegistration_keeps:
  "ResendRegistration replies rid code ip now expires db = (res, db') \<Longrightarrow> same_access db db'"
  unfolding ResendRegistration_def
  by (drule tx_run_cases)
    (auto simp: bindE_Inr same_access_def split: option.splits if_splits dest!: pending_effects)

lemma BeginCashierRegistration_keeps:
  "BeginCashierRegistration replies v actor ip now db = (res, db') \<Longrightarrow> same_access db db'"
  unfolding BeginCashierRegistration_def
  by (drule tx_run_cases) (auto simp: bindE_Inr same_access_def split: if_splits dest!: pending_effects)

lemma ResendCashierRegistration_keeps:
  "ResendCashierRegistration replies actor rid code ip now expires db = (res, db') \<Longrightarrow> same_access db db'"
  unfolding ResendCashierRegistration_def
  by (drule tx_run_cases)
    (auto simp: bindE_Inr same_access_def split: option.splits if_splits dest!: pending_effects)

lemma DeleteExpiredRegistrations_keeps:
  "DeleteExpiredRegistrations replies now db = (res, db') \<Longrightarrow> same_access db db'"
  by (auto simp: DeleteExpiredRegistrations_def delete_stmt_def same_access_def
      split: sum.splits prod.splits dest!: settle_result)

section \<open>Sessions\<close>

lemma CreateSession_moves:
  assumes "CreateSession sv replies s db = (res, db')" and "ns_FamilyID s = []" and "fresh_family sv db"
  shows "access_moves db db'"
proof -
  from tx_run_cases [OF assms(1) [unfolded CreateSession_def]]
  consider "db' = db"
    | a where "account_of db (ns_UserID s) = Some a" "ac_status a = AccountActive" "may_log_in a"
        "\<forall>x \<in> set (id_sessions db). \<not> session_clash x (opened_session sv s)" "session_check (opened_session sv s)"
        "db' = db\<lparr>id_sessions := id_sessions db @ [opened_session sv s]\<rparr>"
    by (auto simp: bindE_Inr userByIDForUpdate_def insertSession_Inr user_of_def split: option.splits if_splits)
  then show ?thesis
  proof cases
    case 2
    then have "new_in db (opened_session sv s)"
      by (auto simp: new_in_def may_open_def opened_session_def)
    moreover have "\<forall>x \<in> set (id_sessions db). sn_family x \<noteq> sn_family (opened_session sv s)"
      using assms(2,3) by (auto simp: fresh_family_def opened_session_def)
    moreover have "validUUID (sn_family (opened_session sv s))"
      using assms(2,3) by (simp add: fresh_family_def opened_session_def)
    ultimately show ?thesis using 2(6) by (intro r_into_rtranclp access_move.opens) auto
  qed simp
qed

lemma live_of: "sn_revoked s = None \<Longrightarrow> live s"
  by (simp add: live_def)

lemma ends_move:
  assumes "id_accounts db' = id_accounts db"
    and "id_sessions db' = update_where P (revoke now reason) (id_sessions db)"
  shows "access_move db db'"
proof (rule access_move.amends [where userID = "[]" and f = "\<lambda>a. a"])
  show "id_accounts db' = update_where (\<lambda>a. ac_id a = []) (\<lambda>a. a) (id_accounts db)"
    using assms(1) by (simp add: update_where_def)
qed (use assms in auto)

lemma RevokeFamily_moves:
  assumes "RevokeFamily r fid reason now db = (res, db')"
  shows "access_moves db db'"
proof -
  from assms have "db' = db \<or> id_accounts db' = id_accounts db \<and>
      id_sessions db' = update_where (\<lambda>s. sn_family s = fid) (revoke now reason) (id_sessions db)"
    by (auto simp: RevokeFamily_def autocommit_def bindE_Inr stmt_effects
        split: sum.splits prod.splits option.splits dest!: settle_result)
  then show ?thesis by (auto intro: ends_move)
qed

definition child_of :: "server \<Rightarrow> NewSession \<Rightarrow> session_row \<Rightarrow> session_row" where
  "child_of sv replacement s =
     opened_session sv (replacement\<lparr>ns_UserID := sn_user s, ns_FamilyID := sn_family s, ns_ParentSessionID := sn_id s\<rparr>)"

text \<open>A refresh either rotates the session, or ends its family because the token was used before.\<close>

lemma rotate_body_Inr:
  assumes "rotate_body sv replies presented replacement now db = Inr (answer, ce, db', n)"
  obtains
    (reuse) s where "find (\<lambda>s. sn_refresh s = presented) (id_sessions db) = Some s" "sn_consumed s \<noteq> None"
      "answer = Inl IdRefreshReuse" "id_accounts db' = id_accounts db"
      "id_sessions db' = update_where (\<lambda>x. sn_family x = sn_family s) (revoke now ''REFRESH_REUSE'') (id_sessions db)"
  | (rotated) s a where "find (\<lambda>s. sn_refresh s = presented) (id_sessions db) = Some s" "sn_consumed s = None" "live s"
      "now < sn_refresh_expires s" "account_of db (sn_user s) = Some a" "ac_status a = AccountActive" "may_log_in a"
      "answer = Inr (user_of a)" "session_check (child_of sv replacement s)"
      "\<forall>x \<in> set (id_sessions db). \<not> session_clash x (child_of sv replacement s)"
      "id_accounts db' = id_accounts db"
      "id_sessions db' = update_where (\<lambda>x. sn_id x = sn_id s) (consume now (sv_uuid sv 0))
         (id_sessions db @ [child_of sv replacement s])"
proof -
  from assms obtain s a where s: "find (\<lambda>s. sn_refresh s = presented) (id_sessions db) = Some s"
    and a: "account_of db (sn_user s) = Some a"
    by (auto simp: rotate_body_def bindE_Inr split: option.splits)
  from account_of_Some [OF a] have aid: "ac_id a = sn_user s" by simp
  show thesis
  proof (cases "sn_consumed s = None")
    case False
    with assms s a show thesis
      by (auto simp: rotate_body_def bindE_Inr stmt_effects intro!: reuse [OF s])
  next
    case True
    with assms s a aid show thesis
      by (auto simp: rotate_body_def bindE_Inr insertSession_Inr update_rows_Inr child_of_def live_def
          split: if_splits intro!: rotated [OF s True _ _ a])
  qed
qed

lemma RotateRefresh_moves:
  assumes "RotateRefresh sv replies presented replacement now db = (res, db')"
    and "\<forall>s \<in> set (id_sessions db). sn_family s \<noteq> []"
  shows "access_moves db db'"
proof -
  from tx_run_cases [OF assms(1) [unfolded RotateRefresh_def]]
  consider "db' = db" | answer ce n where "rotate_body sv replies presented replacement now db = Inr (answer, ce, db', n)"
    by blast
  then show ?thesis
  proof cases
    case 2
    then show ?thesis
    proof (cases rule: rotate_body_Inr)
      case (reuse s)
      then show ?thesis by (blast intro: ends_move)
    next
      case (rotated s a)
      from rotated(1) have s: "s \<in> set (id_sessions db)" by (auto dest: find_SomeD)
      let ?child = "child_of sv replacement s"
      from s assms(2) have child: "sn_family ?child = sn_family s" "sn_user ?child = sn_user s" "sn_id ?child = sv_uuid sv 0"
        by (simp_all add: child_of_def opened_session_def)
      from rotated have "new_in db ?child"
        by (auto simp: new_in_def may_open_def child_of_def opened_session_def)
      with s child rotated have "access_move db db'"
        by (intro access_move.rotates [of s db ?child]) simp_all
      then show ?thesis by blast
    qed
  qed simp
qed

section \<open>Accounts\<close>

lemma joins_move:
  assumes "\<forall>x \<in> set (id_accounts db). \<not> account_clash x a"
    and "ac_role a = RoleAdmin \<Longrightarrow> \<forall>x \<in> set (id_accounts db). ac_role x \<noteq> RoleAdmin"
  shows "access_move db (db\<lparr>id_accounts := id_accounts db @ [a]\<rparr>)"
  by (rule access_move.joins [of _ a]) (use assms in auto)

lemma wrapped_Inr: "(case x of Inl k \<Rightarrow> Inl (g k) | Inr v \<Rightarrow> f v) = Inr y \<longleftrightarrow> (\<exists>v. x = Inr v \<and> f v = Inr y)"
  by (cases x) auto

lemma account_of_appended:
  assumes "\<forall>x \<in> set (id_accounts db). \<not> account_clash x a" and "id_accounts db' = id_accounts db @ [a]"
  shows "account_of db' (ac_id a) = Some a"
proof -
  from assms(1) have "find (\<lambda>x. ac_id x = ac_id a) (id_accounts db) = None"
    by (auto simp: find_None_iff account_clash_def)
  with assms(2) show ?thesis by (simp add: account_of_def find_append)
qed

lemma finish_login_Inr:
  assumes "finish_login sv replies n iid user session now db = Inr (answer, ce, db', m)"
  obtains db1 sid where "us_Status user = AccountActive" "answer = Inr user"
    "insertSession sv (replies n) (session\<lparr>ns_UserID := us_ID user\<rparr>) db = Inr (sid, db1)"
    "consumeIntent (replies (n + 1)) iid now db1 = Inr db'"
  using assms by (auto simp: finish_login_def bindE_Inr split: if_splits)

lemma finish_login_opens:
  assumes "finish_login sv replies n iid user session now db1 = Inr (answer, ce, db', m)"
    and "account_of db1 (us_ID user) = Some a" "us_Status user = ac_status a"
    and "ns_FamilyID session = []" "fresh_family sv db1"
  shows "access_moves db1 db'"
proof -
  let ?s = "opened_session sv (session\<lparr>ns_UserID := us_ID user\<rparr>)"
  from assms(1) obtain db2 sid where active: "us_Status user = AccountActive"
    and ins: "insertSession sv (replies n) (session\<lparr>ns_UserID := us_ID user\<rparr>) db1 = Inr (sid, db2)"
    and cons: "consumeIntent (replies (n + 1)) iid now db2 = Inr db'"
    by (rule finish_login_Inr)
  from ins assms(2) have check: "session_check ?s" and clash: "\<forall>x \<in> set (id_sessions db1). \<not> session_clash x ?s" and may: "may_log_in a"
    and db2: "db2 = db1\<lparr>id_sessions := id_sessions db1 @ [?s]\<rparr>"
    by (auto simp: insertSession_Inr)
  from check clash may assms(2,3) active have "new_in db1 ?s"
    by (auto simp: new_in_def may_open_def opened_session_def)
  moreover from cons db2 have "id_accounts db' = id_accounts db1" "id_sessions db' = id_sessions db1 @ [?s]"
    by (auto simp: consumeIntent_Inr)
  moreover from assms(4,5) have "validUUID (sn_family ?s)" "\<forall>x \<in> set (id_sessions db1). sn_family x \<noteq> sn_family ?s"
    by (auto simp: opened_session_def fresh_family_def)
  ultimately show ?thesis by (blast intro: access_move.opens)
qed

lemma userByProviderSubject_Inr:
  assumes "userByProviderSubject r db p subject = Inr (Some user)"
  shows "\<exists>a. account_of db (us_ID user) = Some a \<and> user = user_of a"
proof -
  from assms obtain l where l: "find (\<lambda>l. lg_provider l = p \<and> lg_subject l = subject) (id_logins db) = Some l"
    by (auto simp: userByProviderSubject_def split: option.splits)
  with assms have "map_option user_of (account_of db (lg_user l)) = Some user"
    by (simp add: userByProviderSubject_def)
  then obtain a where a: "account_of db (lg_user l) = Some a" "user = user_of a" by auto
  from a(1) have "ac_id a = lg_user l" by (simp add: account_of_Some)
  with a show ?thesis by (auto simp: user_of_def)
qed

text \<open>The three ways a sign-on ends with something to commit.\<close>

lemma oauth_login_body_Inr:
  assumes "oauth_login_body pg_normal sv replies iid v session now db = Inr (answer, ce, db', n)"
  obtains
    (known) user where "userByProviderSubject (replies 2) db (vi_Provider v) (vi_Subject v) = Inr (Some user)"
      "finish_login sv replies 3 iid user session now db = Inr (answer, ce, db', n)"
  | (linked) "consumeIntent (replies 4) iid now db = Inr db'" "answer = Inl IdIdentityLinkRequired"
  | (created) db1 db2 a where "a = new_customer sv (vi_SuggestedName v) (vi_Email v)"
      "insert_account pg_normal a db = Inr db1"
      "insert_login \<lparr>lg_user = ac_id a, lg_provider = vi_Provider v, lg_subject = vi_Subject v, lg_hash = None\<rparr> db1 = Inr db2"
      "finish_login sv replies 6 iid (short_user a) session now db2 = Inr (answer, ce, db', n)"
proof -
  from assms obtain found where
    found: "userByProviderSubject (replies 2) db (vi_Provider v) (vi_Subject v) = Inr found"
    by (auto simp: oauth_login_body_def split: sum.splits if_splits)
  show thesis
  proof (cases found)
    case (Some user)
    with assms found have "finish_login sv replies 3 iid user session now db = Inr (answer, ce, db', n)"
      by (simp add: oauth_login_body_def split: sum.splits if_splits)
    with found Some show thesis by (blast intro: known)
  next
    case None
    with assms found obtain owner where owner: "userByEmail (replies 3) db (vi_Email v) = Inr owner"
      by (auto simp: oauth_login_body_def split: sum.splits if_splits)
    show thesis
    proof (cases owner)
      case (Some user)
      with None assms found owner show thesis
        by (auto simp: oauth_login_body_def bindE_Inr split: sum.splits if_splits intro!: linked)
    next
      case None': None
      with None assms found owner obtain db1 db2 where
        "insert_account pg_normal (new_customer sv (vi_SuggestedName v) (vi_Email v)) db = Inr db1"
        "insert_login \<lparr>lg_user = ac_id (new_customer sv (vi_SuggestedName v) (vi_Email v)), lg_provider = vi_Provider v,
           lg_subject = vi_Subject v, lg_hash = None\<rparr> db1 = Inr db2"
        "finish_login sv replies 6 iid (short_user (new_customer sv (vi_SuggestedName v) (vi_Email v))) session now db2 =
           Inr (answer, ce, db', n)"
        by (auto simp: oauth_login_body_def bindE_Inr Let_def wrapped_Inr split: if_splits)
      then show thesis by (rule created [OF refl])
    qed
  qed
qed

lemma CompleteOAuthLogin_moves:
  assumes "CompleteOAuthLogin pg_normal sv replies iid v session now db = (res, db')"
    and "ns_FamilyID session = []" and "fresh_family sv db"
  shows "access_moves db db'"
proof -
  from tx_run_cases [OF assms(1) [unfolded CompleteOAuthLogin_def]]
  consider "db' = db" | answer ce n where "oauth_login_body pg_normal sv replies iid v session now db = Inr (answer, ce, db', n)"
    by blast
  then show ?thesis
  proof cases
    case 2
    then show ?thesis
    proof (cases rule: oauth_login_body_Inr)
      case (known user)
      from userByProviderSubject_Inr [OF known(1)] obtain a where "account_of db (us_ID user) = Some a" "user = user_of a"
        by blast
      with known(2) assms(2,3) show ?thesis by (intro finish_login_opens) (auto simp: user_of_def)
    next
      case linked
      then have "same_access db db'" by (auto simp: consumeIntent_Inr same_access_def)
      then show ?thesis by (rule same_access_moves)
    next
      case (created db1 db2 a)
      have role: "ac_role a \<noteq> RoleAdmin" by (simp add: created(1) new_customer_def)
      from created(2,3) have db2: "\<forall>x \<in> set (id_accounts db). \<not> account_clash x a"
        "id_accounts db2 = id_accounts db @ [a]" "id_sessions db2 = id_sessions db"
        by (auto simp: insert_account_Inr insert_login_Inr)
      then have "access_move db db2" by (intro access_move.joins [of _ a]) (use role in auto)
      moreover have "us_ID (short_user a) = ac_id a" "us_Status (short_user a) = ac_status a"
        by (simp_all add: short_user_def user_of_def)
      with account_of_appended [OF db2(1,2)] have "access_moves db2 db'"
        by (intro finish_login_opens [OF created(4)]) (use assms(2,3) db2(3) in \<open>auto simp: fresh_family_def\<close>)
      ultimately show ?thesis by (rule converse_rtranclp_into_rtranclp)
    qed
  qed simp
qed

section \<open>Administration\<close>

lemma new_customer_simps [simp]:
  "ac_id (new_customer sv name email) = sv_uuid sv 2" "ac_email (new_customer sv name email) = email"
  "ac_role (new_customer sv name email) = RoleCustomer" "ac_status (new_customer sv name email) = AccountActive"
  "ac_verified_at (new_customer sv name email) = None"
  by (simp_all add: new_customer_def)

lemma userByRole_None: "userByRole r db role = Inr None \<Longrightarrow> \<forall>x \<in> set (id_accounts db). ac_role x \<noteq> role"
  by (auto simp: userByRole_def find_None_iff)

lemma BootstrapAdmin_moves:
  assumes "BootstrapAdmin_store pg_normal sv replies name email hash now db = (res, db')"
  shows "access_moves db db'"
proof -
  let ?a = "(new_customer sv name email)\<lparr>ac_role := RoleAdmin\<rparr>"
  note tx = tx_run_cases [OF assms [unfolded BootstrapAdmin_store_def]]
  show ?thesis
  proof (cases "userByRole (replies 2) db RoleAdmin")
    case (Inl e)
    with tx have "db' = db" by (auto simp: bindE_Inr)
    then show ?thesis by simp
  next
    case found: (Inr admin)
    show ?thesis
    proof (cases admin)
      case (Some user)
      with found tx have "db' = db" by (auto simp: bindE_Inr split: if_splits)
      then show ?thesis by simp
    next
      case None
      with found tx have "db' = db \<or> (\<forall>x \<in> set (id_accounts db). \<not> account_clash x ?a) \<and>
          id_accounts db' = id_accounts db @ [?a] \<and> id_sessions db' = id_sessions db"
        by (auto simp: bindE_Inr stmt_effects Let_def)
      moreover have "\<forall>x \<in> set (id_accounts db). ac_role x \<noteq> RoleAdmin"
        using found None by (simp add: userByRole_None)
      ultimately show ?thesis by (auto intro: access_move.joins [of _ ?a])
    qed
  qed
qed

text \<open>A transaction that changes one account, its login and its sessions.\<close>

definition amended ::
    "identity_db \<Rightarrow> identity_db \<Rightarrow> string \<Rightarrow> (account_row \<Rightarrow> account_row) \<Rightarrow> (session_row \<Rightarrow> bool) \<Rightarrow> int \<Rightarrow> string \<Rightarrow> bool" where
  "amended db db' u f P now reason \<longleftrightarrow>
     id_accounts db' = update_where (\<lambda>a. ac_id a = u) f (id_accounts db) \<and>
     id_sessions db' = update_where P (revoke now reason) (id_sessions db)"

definition keeps_identity :: "(account_row \<Rightarrow> account_row) \<Rightarrow> bool" where
  "keeps_identity f \<longleftrightarrow> (\<forall>a. ac_id (f a) = ac_id a \<and> ac_email (f a) = ac_email a \<and> ac_role (f a) = ac_role a \<and>
     (ac_verified_at a \<noteq> None \<longrightarrow> ac_verified_at (f a) \<noteq> None))"

lemma amended_moves:
  assumes "amended db db' u f P now reason" and "keeps_identity f"
    and "\<And>a. ac_status (f a) = ac_status a \<or> ac_status (f a) = AccountActive \<or>
      (\<forall>s. sn_user s = u \<and> sn_revoked s = None \<longrightarrow> P s)"
  shows "access_moves db db'"
proof -
  have "access_move db db'"
    by (rule access_move.amends [where userID = u and f = f and P = P and now = now and reason = reason])
      (use assms in \<open>auto simp: amended_def keeps_identity_def live_def\<close>, metis)
  then show ?thesis by blast
qed

lemma update_none [simp]: "update_where (\<lambda>_. False) f rs = rs"
  by (simp add: update_where_def)

lemma update_id: "update_where P (\<lambda>r. r) rs = rs"
  by (simp add: update_where_def)

lemma DisableUser_amends:
  assumes "DisableUser_store pg_normal replies actor u now db = (res, db')"
  shows "db' = db \<or> amended db db' u (\<lambda>a. a\<lparr>ac_status := AccountDisabled\<rparr>) (\<lambda>s. sn_user s = u) now ''ACCOUNT_DISABLED''"
  using tx_run_cases [OF assms [unfolded DisableUser_store_def]]
  by (auto simp: bindE_Inr stmt_effects amended_def split: if_splits)

lemma cashier_locked_Inr:
  assumes "cashier_locked r db u = Inr user"
  shows "\<exists>a. account_of db u = Some a \<and> user = user_of a \<and> ac_role a = RoleCashier"
  using assms
  by (auto simp: cashier_locked_def userByIDForUpdate_def bindE_Inr user_of_def split: sum.splits option.splits if_splits)

lemma status_tx_amends:
  assumes "status_tx pg_normal replies actor u target now db = (res, db')"
  shows "db' = db \<or> (target = AccountActive \<or> target = AccountDisabled) \<and>
    amended db db' u (\<lambda>a. a\<lparr>ac_status := target\<rparr>)
      (\<lambda>s. target = AccountDisabled \<and> sn_user s = u \<and> sn_revoked s = None) now ''ACCOUNT_DISABLED''"
proof (cases "\<exists>user. cashier_locked (replies 1) db u = Inr user")
  case False
  with tx_run_cases [OF assms [unfolded status_tx_def]] show ?thesis by (auto simp: bindE_Inr)
next
  case True
  then obtain a where "a \<in> set (id_accounts db)" "ac_id a = u"
    by (auto dest!: cashier_locked_Inr account_of_Some)
  then have "target = AccountActive \<or> target = AccountDisabled"
    if "\<forall>a \<in> set (id_accounts db). ac_id a = u \<longrightarrow> account_check pg_normal (a\<lparr>ac_status := target\<rparr>)"
    using that by (auto simp: account_check_def)
  with tx_run_cases [OF assms [unfolded status_tx_def]] show ?thesis
    by (auto simp: bindE_Inr stmt_effects amended_def split: if_splits)
qed

lemma reset_tx_amends:
  assumes "reset_tx pg_normal replies actor u hash now db = (res, db')"
  shows "db' = db \<or> amended db db' u (\<lambda>a. a\<lparr>ac_change_required := True\<rparr>)
    (\<lambda>s. sn_user s = u \<and> sn_revoked s = None) now ''PASSWORD_RESET''"
  using tx_run_cases [OF assms [unfolded reset_tx_def]]
  by (auto simp: bindE_Inr stmt_effects amended_def split: if_splits)

lemma ChangeOwnPassword_amends:
  assumes "ChangeOwnPassword_store pg_normal replies u fid old new now db = (res, db')"
  shows "db' = db \<or> amended db db' u (\<lambda>a. a\<lparr>ac_change_required := False\<rparr>)
    (\<lambda>s. sn_user s = u \<and> sn_family s \<noteq> fid \<and> sn_revoked s = None) now ''PASSWORD_CHANGED''"
  using tx_run_cases [OF assms [unfolded ChangeOwnPassword_store_def]]
  by (auto simp: bindE_Inr stmt_effects amended_def split: if_splits)

lemma RecoverAdminPassword_amends:
  assumes "RecoverAdminPassword_store replies email hash now db = (res, db')"
  shows "db' = db \<or> (\<exists>u. amended db db' u (\<lambda>a. a) (\<lambda>s. sn_user s = u \<and> sn_revoked s = None) now ''ADMIN_RECOVERY'')"
  using tx_run_cases [OF assms [unfolded RecoverAdminPassword_store_def]]
  by (auto simp: bindE_Inr stmt_effects amended_def update_id split: option.splits if_splits)

section \<open>Registration\<close>

text \<open>A code that is looked up and is usable is either wrong, and counted, or makes the account.\<close>

lemma verify_body_Inr:
  assumes "verify_body pg_normal sv replies rid code now db = Inr (answer, ce, db', n)"
  obtains (wrong) p where "find_pending db rid = Some p" "pe_consumed p = None" "now < pe_expires p" "pe_attempts p < 5"
      "pe_code p \<noteq> code \<or> \<not> pe_eligible p \<or> pe_hash p = None" "answer = Inl IdInvalidRegistration"
      "set_pending rid (\<lambda>x. x\<lparr>pe_attempts := pe_attempts x + 1\<rparr>) db = Inr db'"
  | (right) p a db1 db2 where "find_pending db rid = Some p" "pe_consumed p = None" "now < pe_expires p" "pe_attempts p < 5"
      "pe_code p = code" "pe_eligible p" "a = new_customer sv (pe_name p) (pe_email p)"
      "answer = Inr (short_user a)" "insert_account pg_normal a db = Inr db1"
      "insert_login \<lparr>lg_user = ac_id a, lg_provider = ProviderPassword, lg_subject = pe_email p, lg_hash = pe_hash p\<rparr> db1 = Inr db2"
      "set_pending rid (\<lambda>x. x\<lparr>pe_consumed := Some now\<rparr>) db2 = Inr db'"
proof -
  from assms obtain p where p: "find_pending db rid = Some p" "pe_consumed p = None" "now < pe_expires p" "\<not> 5 \<le> pe_attempts p"
    by (auto simp: verify_body_def bindE_Inr split: option.splits if_splits)
  then have lt: "pe_attempts p < 5" by simp
  show thesis
  proof (cases "pe_code p \<noteq> code \<or> \<not> pe_eligible p \<or> pe_hash p = None")
    case True
    with assms p show thesis
      by (auto simp: verify_body_def bindE_Inr intro!: wrong [OF p(1-3) lt True])
  next
    case False
    with assms p have "\<exists>db1 db2. answer = Inr (short_user (new_customer sv (pe_name p) (pe_email p))) \<and>
        insert_account pg_normal (new_customer sv (pe_name p) (pe_email p)) db = Inr db1 \<and>
        insert_login \<lparr>lg_user = sv_uuid sv 2, lg_provider = ProviderPassword, lg_subject = pe_email p, lg_hash = pe_hash p\<rparr> db1 = Inr db2 \<and>
        set_pending rid (\<lambda>x. x\<lparr>pe_consumed := Some now\<rparr>) db2 = Inr db'"
      by (auto simp: verify_body_def bindE_Inr Let_def wrapped_Inr)
    with False show thesis by (elim exE conjE) (rule right [OF p(1-3) lt _ _ refl], auto)
  qed
qed

lemma VerifyRegistration_moves:
  assumes "VerifyRegistration pg_normal sv replies rid code now db = (res, db')"
  shows "access_moves db db'"
proof -
  from tx_run_cases [OF assms [unfolded VerifyRegistration_def]]
  consider "db' = db" | answer ce n where "verify_body pg_normal sv replies rid code now db = Inr (answer, ce, db', n)"
    by blast
  then show ?thesis
  proof cases
    case 2
    then show ?thesis
    proof (cases rule: verify_body_Inr)
      case wrong
      then have "same_access db db'" by (auto simp: same_access_def dest: set_pending_Inr)
      then show ?thesis by (rule same_access_moves)
    next
      case (right p a db1 db2)
      then have "\<forall>x \<in> set (id_accounts db). \<not> account_clash x a" "id_accounts db' = id_accounts db @ [a]"
        "id_sessions db' = id_sessions db"
        by (auto simp: stmt_effects dest!: set_pending_Inr)
      moreover from right(7) have "ac_role a \<noteq> RoleAdmin" by simp
      ultimately show ?thesis by (auto intro: access_move.joins [of _ a])
    qed
  qed simp
qed

text \<open>The account behind a cashier's code: unlocked with its sessions ended, or new.\<close>

definition unlocked :: "cashier_pending_row \<Rightarrow> int \<Rightarrow> account_row \<Rightarrow> account_row" where
  "unlocked p now = (\<lambda>x. x\<lparr>ac_name := cp_name p, ac_change_required := True, ac_verified_at := Some now\<rparr>)"

lemma verified_account_moves:
  assumes "verified_account pg_normal sv replies p now db = Inr (cid, created, db1, n)"
  shows "access_moves db db1"
proof (cases "find (\<lambda>a. ac_email a = cp_email p) (id_accounts db)")
  case (Some a)
  with assms have "amended db db1 (ac_id a) (unlocked p now) (\<lambda>s. sn_user s = ac_id a \<and> sn_revoked s = None) now
      ''EMAIL_VERIFIED_LOGIN_RESET''"
    by (auto simp: verified_account_def bindE_Inr stmt_effects amended_def unlocked_def split: if_splits)
  then show ?thesis by (rule amended_moves) (simp_all add: keeps_identity_def unlocked_def)
next
  case None
  let ?a = "\<lparr>ac_id = sv_uuid sv 2, ac_name = cp_name p, ac_email = cp_email p, ac_role = RoleCashier,
    ac_status = AccountActive, ac_change_required = True, ac_verified_at = Some now\<rparr>"
  from assms None have "\<forall>x \<in> set (id_accounts db). \<not> account_clash x ?a" "id_accounts db1 = id_accounts db @ [?a]"
    "id_sessions db1 = id_sessions db"
    by (auto simp: verified_account_def bindE_Inr stmt_effects Let_def wrapped_Inr)
  then show ?thesis by (intro r_into_rtranclp access_move.joins [of _ ?a]) simp_all
qed

lemma verify_cashier_moves:
  assumes "verify_cashier_tx pg_normal sv replies actor rid code now db = (res, db')"
  shows "access_moves db db'"
proof -
  from tx_run_cases [OF assms [unfolded verify_cashier_tx_def]]
  consider "same_access db db'" | p cid created db1 n where "verified_account pg_normal sv replies p now db = Inr (cid, created, db1, n)"
      "same_access db1 db'"
    by (auto simp: bindE_Inr stmt_effects same_access_def split: option.splits if_splits dest!: set_cashier_pending_Inr)
  then show ?thesis
  proof cases
    case 2
    from verified_account_moves [OF 2(1)] same_access_moves [OF 2(2)] show ?thesis by (rule rtranclp_trans)
  qed (rule same_access_moves)
qed

section \<open>Steps are moves\<close>

lemmas keeping_operations = UpdatePasswordHash_keeps CreateOAuthIntent_keeps CompleteOAuthLink_keeps
  BeginRegistration_keeps ResendRegistration_keeps BeginCashierRegistration_keeps
  ResendCashierRegistration_keeps DeleteExpiredRegistrations_keeps

lemmas amending_operations = DisableUser_amends status_tx_amends reset_tx_amends ChangeOwnPassword_amends

lemma step_moves:
  assumes "identity_step pg_normal db db'" and "\<forall>s \<in> set (id_sessions db). sn_family s \<noteq> []"
  shows "access_moves db db'"
  using assms
proof (induction rule: identity_step.induct)
  case (disable replies actor u now db x1 db')
  from DisableUser_amends [OF disable(1)] show ?case
    by (elim disjE) (simp, erule amended_moves, simp_all add: keeps_identity_def)
next
  case (set_status replies actor u target now db x1 db')
  from status_tx_amends [OF set_status(1)] show ?case
    by (elim disjE conjE) (simp, (erule amended_moves, auto simp: keeps_identity_def)+)
next
  case (reset replies actor u hash now db x1 db')
  from reset_tx_amends [OF reset(1)] show ?case
    by (elim disjE) (simp, erule amended_moves, simp_all add: keeps_identity_def)
next
  case (change_own replies u fid old new now db x1 db')
  from ChangeOwnPassword_amends [OF change_own(1)] show ?case
    by (elim disjE) (simp, erule amended_moves, simp_all add: keeps_identity_def)
next
  case (recover replies email hash now db x2 db')
  from RecoverAdminPassword_amends [OF recover(1)] show ?case
    by (elim disjE exE) (simp, erule amended_moves, simp_all add: keeps_identity_def)
qed (blast intro: same_access_moves CreateSession_moves RotateRefresh_moves RevokeFamily_moves
    CompleteOAuthLogin_moves BootstrapAdmin_moves VerifyRegistration_moves verify_cashier_moves
    dest: keeping_operations)+

section \<open>The invariant\<close>

definition access_ok :: "identity_db \<Rightarrow> bool" where
  "access_ok db \<longleftrightarrow> distinct (map ac_id (id_accounts db)) \<and> distinct (map ac_email (id_accounts db)) \<and>
     length (filter (\<lambda>a. ac_role a = RoleAdmin) (id_accounts db)) \<le> 1 \<and>
     distinct (map sn_id (id_sessions db)) \<and> distinct (map sn_access (id_sessions db)) \<and>
     distinct (map sn_refresh (id_sessions db)) \<and>
     (\<forall>s \<in> set (id_sessions db). shaped s \<and> (sn_consumed s \<noteq> None \<longrightarrow> \<not> live s) \<and>
        (live s \<longrightarrow> may_open db (sn_user s)) \<and>
        (\<forall>t \<in> set (id_sessions db). sn_family s = sn_family t \<longrightarrow> sn_user s = sn_user t \<and> (live s \<and> live t \<longrightarrow> s = t)))"

text \<open>What later moves keep of a session: its tokens, and that it ended.\<close>

definition aged :: "session_row \<Rightarrow> session_row \<Rightarrow> bool" where
  "aged s s' \<longleftrightarrow> sn_id s' = sn_id s \<and> sn_user s' = sn_user s \<and> sn_family s' = sn_family s \<and>
     sn_access s' = sn_access s \<and> sn_refresh s' = sn_refresh s \<and> (live s' \<longrightarrow> live s) \<and>
     (\<not> live s \<longrightarrow> sn_consumed s' = sn_consumed s)"

definition sessions_age :: "identity_db \<Rightarrow> identity_db \<Rightarrow> bool" where
  "sessions_age db db' \<longleftrightarrow> (\<forall>s \<in> set (id_sessions db). \<exists>s' \<in> set (id_sessions db'). aged s s') \<and>
     (\<forall>s' \<in> set (id_sessions db'). live s' \<longrightarrow>
        (\<exists>s \<in> set (id_sessions db). live s \<and> sn_family s = sn_family s') \<or>
        (\<forall>s \<in> set (id_sessions db). sn_family s \<noteq> sn_family s'))"

end
