(* ===== verification/Identity_Guarantees.thy ===== *)
theory Identity_Guarantees
  imports Identity_Moves
begin

text \<open>
  What the moves keep, and with it the guarantees of the identity store for any interleaving of
  requests: sessions, refresh tokens, the administrator, sign-on intents.
\<close>

section \<open>Moves keep the invariant\<close>

lemma revoke_simps [simp]:
  "sn_id (revoke now reason s) = sn_id s" "sn_user (revoke now reason s) = sn_user s"
  "sn_family (revoke now reason s) = sn_family s" "sn_access (revoke now reason s) = sn_access s"
  "sn_refresh (revoke now reason s) = sn_refresh s" "sn_consumed (revoke now reason s) = sn_consumed s"
  "\<not> live (revoke now reason s)"
  by (simp_all add: revoke_def live_def)

lemma revoke_shaped: "shaped s \<longrightarrow> shaped (revoke now reason s)"
  by (auto simp: shaped_def session_check_def revoke_def split: option.splits)

lemma consume_simps [simp]:
  "sn_id (consume now r s) = sn_id s" "sn_user (consume now r s) = sn_user s"
  "sn_family (consume now r s) = sn_family s" "sn_access (consume now r s) = sn_access s"
  "sn_refresh (consume now r s) = sn_refresh s" "sn_consumed (consume now r s) \<noteq> None" "\<not> live (consume now r s)"
  by (simp_all add: consume_def live_def)

lemma consume_shaped: "shaped s \<longrightarrow> shaped (consume now r s)"
  by (auto simp: shaped_def session_check_def consume_def)

lemma aged_refl [simp]: "aged s s"
  by (simp add: aged_def)

lemma aged_trans: "aged s t \<Longrightarrow> aged t u \<Longrightarrow> aged s u"
  by (auto simp: aged_def)

lemma may_open_iff: "may_open db u \<longleftrightarrow> (\<exists>a. account_of db u = Some a \<and> ac_status a = AccountActive \<and> may_log_in a)"
  by (simp add: may_open_def)

lemma may_open_same: "id_accounts db' = id_accounts db \<Longrightarrow> may_open db' u = may_open db u"
  by (simp add: may_open_def account_of_def)

lemma may_open_appended: "id_accounts db' = id_accounts db @ [a] \<Longrightarrow> may_open db u \<Longrightarrow> may_open db' u"
  by (auto simp: may_open_def account_of_def find_append)

lemma account_of_amended:
  assumes "id_accounts db' = update_where (\<lambda>a. ac_id a = userID) f (id_accounts db)" and "\<And>a. ac_id (f a) = ac_id a"
  shows "account_of db' u = map_option (\<lambda>a. if ac_id a = userID then f a else a) (account_of db u)"
  using assms by (simp add: account_of_def find_update_where)

text \<open>The part of the invariant on sessions, for a list of sessions and the accounts that may open one.\<close>

definition sessions_ok :: "(string \<Rightarrow> bool) \<Rightarrow> session_row list \<Rightarrow> bool" where
  "sessions_ok opens ss \<longleftrightarrow> distinct (map sn_id ss) \<and> distinct (map sn_access ss) \<and> distinct (map sn_refresh ss) \<and>
     (\<forall>s \<in> set ss. shaped s \<and> (sn_consumed s \<noteq> None \<longrightarrow> \<not> live s) \<and> (live s \<longrightarrow> opens (sn_user s)) \<and>
        (\<forall>t \<in> set ss. sn_family s = sn_family t \<longrightarrow> sn_user s = sn_user t \<and> (live s \<and> live t \<longrightarrow> s = t)))"

definition accounts_ok :: "account_row list \<Rightarrow> bool" where
  "accounts_ok as \<longleftrightarrow> distinct (map ac_id as) \<and> distinct (map ac_email as) \<and>
     length (filter (\<lambda>a. ac_role a = RoleAdmin) as) \<le> 1"

lemma access_ok_parts: "access_ok db \<longleftrightarrow> accounts_ok (id_accounts db) \<and> sessions_ok (may_open db) (id_sessions db)"
  by (simp add: access_ok_def accounts_ok_def sessions_ok_def)

lemma accounts_ok_joined:
  assumes "accounts_ok as" and "\<forall>x \<in> set as. \<not> account_clash x a"
    and "ac_role a = RoleAdmin \<longrightarrow> (\<forall>x \<in> set as. ac_role x \<noteq> RoleAdmin)"
  shows "accounts_ok (as @ [a])"
proof -
  have "filter (\<lambda>a. ac_role a = RoleAdmin) as = []" if "ac_role a = RoleAdmin"
    using that assms(3) by (simp add: filter_empty_conv)
  with assms(1,2) show ?thesis by (auto simp: accounts_ok_def account_clash_def)
qed

lemma accounts_ok_amended:
  assumes "accounts_ok as" and "\<And>a. ac_id (f a) = ac_id a \<and> ac_email (f a) = ac_email a \<and> ac_role (f a) = ac_role a"
  shows "accounts_ok (update_where P f as)"
proof -
  have "length (filter (\<lambda>a. ac_role a = RoleAdmin) (update_where P f as)) = length (filter (\<lambda>a. ac_role a = RoleAdmin) as)"
    using assms(2) by (induction as) auto
  with assms show ?thesis by (simp add: accounts_ok_def)
qed

lemma sessions_ok_row:
  "sessions_ok opens ss \<Longrightarrow> s \<in> set ss \<Longrightarrow>
     shaped s \<and> (sn_consumed s \<noteq> None \<longrightarrow> \<not> live s) \<and> (live s \<longrightarrow> opens (sn_user s))"
  by (unfold sessions_ok_def) blast

lemma sessions_ok_family:
  "sessions_ok opens ss \<Longrightarrow> s \<in> set ss \<Longrightarrow> t \<in> set ss \<Longrightarrow> sn_family s = sn_family t \<Longrightarrow>
     sn_user s = sn_user t \<and> (live s \<and> live t \<longrightarrow> s = t)"
  by (unfold sessions_ok_def) blast

lemma sessions_ok_keys:
  "sessions_ok opens ss \<Longrightarrow> distinct (map sn_id ss) \<and> distinct (map sn_access ss) \<and> distinct (map sn_refresh ss)"
  by (unfold sessions_ok_def) blast

text \<open>A new session keeps the invariant when its family has no live one.\<close>

lemma sessions_ok_opened:
  assumes "sessions_ok opens ss" and "\<forall>x \<in> set ss. \<not> session_clash x s" and "shaped s"
    and "sn_consumed s = None" and "opens (sn_user s)"
    and "\<forall>x \<in> set ss. sn_family x = sn_family s \<longrightarrow> sn_user x = sn_user s \<and> \<not> live x"
  shows "sessions_ok opens (ss @ [s])"
  unfolding sessions_ok_def
proof (intro conjI)
  from sessions_ok_keys [OF assms(1)] assms(2) show "distinct (map sn_id (ss @ [s]))" "distinct (map sn_access (ss @ [s]))"
    "distinct (map sn_refresh (ss @ [s]))"
    by (auto simp: session_clash_def)
  show "\<forall>x \<in> set (ss @ [s]). shaped x \<and> (sn_consumed x \<noteq> None \<longrightarrow> \<not> live x) \<and>
      (live x \<longrightarrow> opens (sn_user x)) \<and> (\<forall>t \<in> set (ss @ [s]). sn_family x = sn_family t \<longrightarrow>
         sn_user x = sn_user t \<and> (live x \<and> live t \<longrightarrow> x = t))"
  proof (intro ballI)
    fix x assume x: "x \<in> set (ss @ [s])"
    have "sn_user x = sn_user t \<and> (live x \<and> live t \<longrightarrow> x = t)"
      if "t \<in> set (ss @ [s])" and fam: "sn_family x = sn_family t" for t
    proof -
      from x that(1) consider "x \<in> set ss" "t \<in> set ss" | "x = s" "t \<in> set ss" | "x \<in> set ss" "t = s" | "x = s" "t = s"
        by auto
      then show ?thesis
      proof cases
        case 1
        with fam show ?thesis by (blast dest: sessions_ok_family [OF assms(1)])
      next
        case 2
        with fam bspec [OF assms(6) 2(2)] show ?thesis by simp
      next
        case 3
        with fam bspec [OF assms(6) 3(1)] show ?thesis by simp
      qed simp
    qed
    moreover have "shaped x \<and> (sn_consumed x \<noteq> None \<longrightarrow> \<not> live x) \<and> (live x \<longrightarrow> opens (sn_user x))"
      using x assms(3-5) sessions_ok_row [OF assms(1), of x] by auto
    ultimately show "shaped x \<and> (sn_consumed x \<noteq> None \<longrightarrow> \<not> live x) \<and> (live x \<longrightarrow> opens (sn_user x)) \<and>
        (\<forall>t \<in> set (ss @ [s]). sn_family x = sn_family t \<longrightarrow> sn_user x = sn_user t \<and> (live x \<and> live t \<longrightarrow> x = t))"
      by blast
  qed
qed

text \<open>Ending sessions keeps it, for any accounts that the live ones left still may open.\<close>

lemma sessions_ok_ended:
  assumes "sessions_ok opens ss"
    and "\<And>s. sn_id (f s) = sn_id s \<and> sn_user (f s) = sn_user s \<and> sn_family (f s) = sn_family s \<and> sn_access (f s) = sn_access s \<and>
      sn_refresh (f s) = sn_refresh s \<and> \<not> live (f s) \<and> (shaped s \<longrightarrow> shaped (f s))"
    and "\<And>s. s \<in> set ss \<Longrightarrow> \<not> P s \<Longrightarrow> live s \<Longrightarrow> opens (sn_user s) \<Longrightarrow> opens' (sn_user s)"
  shows "sessions_ok opens' (update_where P f ss)"
  unfolding sessions_ok_def
proof (intro conjI ballI)
  note same = assms(2)
  from sessions_ok_keys [OF assms(1)] show "distinct (map sn_id (update_where P f ss))"
    "distinct (map sn_access (update_where P f ss))" "distinct (map sn_refresh (update_where P f ss))"
    by (simp_all add: same)
next
  fix x assume "x \<in> set (update_where P f ss)"
  then obtain s where s: "s \<in> set ss" "x = (if P s then f s else s)" by (auto simp: set_update_where)
  note row = sessions_ok_row [OF assms(1) s(1)]
  show "shaped x" using row s(2) assms(2) [of s] by (simp split: if_splits)
  show "sn_consumed x \<noteq> None \<longrightarrow> \<not> live x" using row s(2) assms(2) [of s] by (simp split: if_splits)
  show "live x \<longrightarrow> opens' (sn_user x)" using row s assms(2) [of s] assms(3) [of s] by (simp split: if_splits)
  fix y assume "y \<in> set (update_where P f ss)"
  then obtain t where t: "t \<in> set ss" "y = (if P t then f t else t)" by (auto simp: set_update_where)
  from sessions_ok_family [OF assms(1) s(1) t(1)] s(2) t(2) assms(2) [of s] assms(2) [of t]
  show "sn_family x = sn_family y \<longrightarrow> sn_user x = sn_user y \<and> (live x \<and> live y \<longrightarrow> x = y)"
    by (simp split: if_splits)
qed

lemma access_move_ok:
  assumes "access_move db db'" and "access_ok db"
  shows "access_ok db'"
  using assms(1)
proof cases
  case keeps
  then have "may_open db' = may_open db" by (intro ext may_open_same)
  with keeps assms(2) show ?thesis by (simp add: access_ok_parts)
next
  case (joins a)
  from assms(2) have "sessions_ok (may_open db') (update_where (\<lambda>_. False) (revoke 0 []) (id_sessions db))"
    by (intro sessions_ok_ended [of "may_open db"]) (auto simp: access_ok_parts revoke_shaped may_open_appended [OF joins(3)])
  with joins assms(2) show ?thesis by (simp add: access_ok_parts accounts_ok_joined)
next
  case (opens s)
  then have "may_open db' = may_open db" by (intro ext may_open_same)
  with opens assms(2) show ?thesis
    by (simp add: access_ok_parts) (intro sessions_ok_opened, auto simp: new_in_def shaped_def)
next
  case (rotates s child now)
  have same: "may_open db' = may_open db" by (intro ext may_open_same) (fact rotates)
  let ?f = "consume now (sn_id child)" and ?P = "\<lambda>x. sn_id x = sn_id s"
  from assms(2) have ok: "sessions_ok (may_open db) (id_sessions db)" by (simp add: access_ok_parts)
  then have old: "sessions_ok (may_open db) (update_where ?P ?f (id_sessions db))"
    by (intro sessions_ok_ended [of "may_open db"]) (auto simp: consume_shaped)
  from rotates(1,3) have ne: "sn_id child \<noteq> sn_id s" by (auto simp: new_in_def session_clash_def)
  have "sessions_ok (may_open db) (update_where ?P ?f (id_sessions db) @ [child])"
  proof (rule sessions_ok_opened [OF old])
    show "\<forall>x \<in> set (update_where ?P ?f (id_sessions db)). \<not> session_clash x child"
      using rotates(3) by (auto simp: set_update_where new_in_def session_clash_def)
    show "shaped child" using sessions_ok_row [OF ok rotates(1)] rotates(3,4) by (simp add: shaped_def new_in_def)
    show "sn_consumed child = None" "may_open db (sn_user child)" using rotates(3) by (auto simp: new_in_def)
    show "\<forall>x \<in> set (update_where ?P ?f (id_sessions db)). sn_family x = sn_family child \<longrightarrow> sn_user x = sn_user child \<and> \<not> live x"
    proof (intro ballI impI)
      fix x assume "x \<in> set (update_where ?P ?f (id_sessions db))" and fam: "sn_family x = sn_family child"
      then obtain y where y: "y \<in> set (id_sessions db)" "x = (if ?P y then ?f y else y)" by (auto simp: set_update_where)
      with fam rotates(4) have "sn_family y = sn_family s" by (simp split: if_splits)
      from sessions_ok_family [OF ok y(1) rotates(1) this] y(2) rotates(2,5)
      show "sn_user x = sn_user child \<and> \<not> live x" by (auto split: if_splits)
    qed
  qed
  moreover have "update_where ?P ?f (id_sessions db @ [child]) = update_where ?P ?f (id_sessions db) @ [child]"
    using ne by (simp add: update_where_def)
  ultimately show ?thesis using rotates assms(2) same by (simp add: access_ok_parts)
next
  case (amends userID f P now reason)
  have acc: "account_of db' u = map_option (\<lambda>a. if ac_id a = userID then f a else a) (account_of db u)" for u
    by (rule account_of_amended [OF amends(1)]) (use amends(3) in blast)
  have "sessions_ok (may_open db') (id_sessions db')"
    unfolding amends(2)
  proof (rule sessions_ok_ended [of "may_open db"])
    fix s assume s: "s \<in> set (id_sessions db)" "\<not> P s" "live s" "may_open db (sn_user s)"
    then obtain a where a: "account_of db (sn_user s) = Some a" "ac_status a = AccountActive" "may_log_in a"
      by (auto simp: may_open_def)
    from account_of_Some [OF a(1)] have aid: "ac_id a = sn_user s" by simp
    show "may_open db' (sn_user s)"
    proof (cases "ac_id a = userID")
      case True
      with amends(4) [of a s] a(2) s aid have "ac_status (f a) = AccountActive" by auto
      moreover from amends(3) [of a] a(3) have "may_log_in (f a)" by (auto simp: may_log_in_def)
      ultimately show ?thesis using a(1) True by (simp add: may_open_def acc)
    qed (use a in \<open>simp add: may_open_def acc\<close>)
  qed (use assms(2) in \<open>simp_all add: access_ok_parts revoke_shaped\<close>)
  moreover have "accounts_ok (id_accounts db')"
    unfolding amends(1) by (rule accounts_ok_amended) (use assms(2) amends(3) in \<open>auto simp: access_ok_parts\<close>)
  ultimately show ?thesis by (simp add: access_ok_parts)
qed

section \<open>What moves never undo\<close>

lemma sessions_age_same: "id_sessions db' = id_sessions db \<Longrightarrow> sessions_age db db'"
  unfolding sessions_age_def by (auto intro: aged_refl)

lemma sessions_age_updated:
  assumes "id_sessions db' = update_where P f (id_sessions db)" and "\<And>s. s \<in> set (id_sessions db) \<Longrightarrow> P s \<Longrightarrow> aged s (f s)"
  shows "sessions_age db db'"
  unfolding sessions_age_def
proof (intro conjI ballI impI)
  fix s assume "s \<in> set (id_sessions db)"
  with assms have "aged s (if P s then f s else s)" "(if P s then f s else s) \<in> set (id_sessions db')"
    by (auto simp: set_update_where)
  then show "\<exists>s' \<in> set (id_sessions db'). aged s s'" by blast
next
  fix s' assume "s' \<in> set (id_sessions db')" "live s'"
  then obtain s where s: "s \<in> set (id_sessions db)" "s' = (if P s then f s else s)"
    by (auto simp: assms(1) set_update_where)
  with assms(2) \<open>live s'\<close> have "live s" "sn_family s = sn_family s'" by (auto simp: aged_def split: if_splits)
  with s show "(\<exists>s \<in> set (id_sessions db). live s \<and> sn_family s = sn_family s') \<or>
      (\<forall>s \<in> set (id_sessions db). sn_family s \<noteq> sn_family s')" by blast
qed

lemma sessions_age_trans:
  assumes "sessions_age db1 db2" and "sessions_age db2 db3"
  shows "sessions_age db1 db3"
  unfolding sessions_age_def
proof (intro conjI ballI impI)
  fix s assume "s \<in> set (id_sessions db1)"
  with assms show "\<exists>s' \<in> set (id_sessions db3). aged s s'"
    unfolding sessions_age_def by (meson aged_trans)
next
  fix s' assume s': "s' \<in> set (id_sessions db3)" "live s'"
  show "(\<exists>s \<in> set (id_sessions db1). live s \<and> sn_family s = sn_family s') \<or>
      (\<forall>s \<in> set (id_sessions db1). sn_family s \<noteq> sn_family s')"
  proof (cases "\<exists>t \<in> set (id_sessions db2). live t \<and> sn_family t = sn_family s'")
    case True
    then obtain t where "t \<in> set (id_sessions db2)" "live t" "sn_family t = sn_family s'" by blast
    with assms(1) show ?thesis unfolding sessions_age_def by metis
  next
    case False
    with assms(2) s' have "\<forall>t \<in> set (id_sessions db2). sn_family t \<noteq> sn_family s'"
      unfolding sessions_age_def by blast
    with assms(1) have "\<forall>s \<in> set (id_sessions db1). sn_family s \<noteq> sn_family s'"
      unfolding sessions_age_def aged_def by metis
    then show ?thesis ..
  qed
qed

definition accounts_keep :: "identity_db \<Rightarrow> identity_db \<Rightarrow> bool" where
  "accounts_keep db db' \<longleftrightarrow> (\<forall>u a. account_of db u = Some a \<longrightarrow>
     (\<exists>a'. account_of db' u = Some a' \<and> ac_email a' = ac_email a \<and> ac_role a' = ac_role a))"

lemma accounts_keep_same: "id_accounts db' = id_accounts db \<Longrightarrow> accounts_keep db db'"
  by (simp add: accounts_keep_def account_of_def)

lemma accounts_keep_trans: "accounts_keep db1 db2 \<Longrightarrow> accounts_keep db2 db3 \<Longrightarrow> accounts_keep db1 db3"
  unfolding accounts_keep_def by metis

lemma access_move_ages:
  assumes "access_move db db'" and "access_ok db"
  shows "sessions_age db db' \<and> accounts_keep db db'"
  using assms(1)
proof cases
  case keeps
  then show ?thesis by (simp add: sessions_age_same accounts_keep_same)
next
  case (joins a)
  then show ?thesis by (simp add: sessions_age_same accounts_keep_def account_of_def find_append)
next
  case (opens s)
  then have "sessions_age db db'" unfolding sessions_age_def by (auto intro: aged_refl)
  with opens show ?thesis by (simp add: accounts_keep_same)
next
  case (rotates s child now)
  from assms(2) have ok: "sessions_ok (may_open db) (id_sessions db)" by (simp add: access_ok_parts)
  have sess: "id_sessions db' = update_where (\<lambda>x. sn_id x = sn_id s) (consume now (sn_id child)) (id_sessions db) @ [child]"
    using rotates(1,3,7) by (auto simp: new_in_def session_clash_def update_where_def)
  have aged: "aged x (consume now (sn_id child) x)" if "x \<in> set (id_sessions db)" "sn_id x = sn_id s" for x
  proof -
    from that rotates(1) sessions_ok_keys [OF ok] have "x = s" by (auto dest: key_unique)
    with rotates(2) show ?thesis by (simp add: aged_def)
  qed
  let ?mid = "db\<lparr>id_sessions := update_where (\<lambda>x. sn_id x = sn_id s) (consume now (sn_id child)) (id_sessions db)\<rparr>"
  have mid: "sessions_age db ?mid" 
    by (rule sessions_age_updated [where P = "\<lambda>x. sn_id x = sn_id s" and f = "consume now (sn_id child)"]) (simp_all add: aged)
  have "sessions_age db db'"
    unfolding sessions_age_def
  proof (intro conjI ballI impI)
    fix x assume "x \<in> set (id_sessions db)"
    with mid sess show "\<exists>x' \<in> set (id_sessions db'). aged x x'" by (auto simp: sessions_age_def)
  next
    fix x' assume x': "x' \<in> set (id_sessions db')" "live x'"
    show "(\<exists>x \<in> set (id_sessions db). live x \<and> sn_family x = sn_family x') \<or>
        (\<forall>x \<in> set (id_sessions db). sn_family x \<noteq> sn_family x')"
    proof (cases "x' = child")
      case True
      with rotates(1,2,4) show ?thesis by (metis)
    next
      case False
      with x' sess have "x' \<in> set (id_sessions ?mid)" by auto
      with mid x'(2) show ?thesis unfolding sessions_age_def by blast
    qed
  qed
  with rotates show ?thesis by (simp add: accounts_keep_same)
next
  case (amends userID f P now reason)
  have "sessions_age db db'" by (rule sessions_age_updated [OF amends(2)]) (simp add: aged_def)
  moreover have "account_of db' u = map_option (\<lambda>a. if ac_id a = userID then f a else a) (account_of db u)" for u
    by (rule account_of_amended [OF amends(1)]) (use amends(3) in blast)
  with amends(3) have "accounts_keep db db'" by (auto simp: accounts_keep_def)
  ultimately show ?thesis ..
qed

lemma moves_facts:
  assumes "access_moves db db'" and "access_ok db"
  shows "access_ok db' \<and> sessions_age db db' \<and> accounts_keep db db'"
  using assms
proof (induction rule: rtranclp_induct)
  case base
  then show ?case by (simp add: sessions_age_same accounts_keep_same)
next
  case (step db1 db2)
  then have "access_ok db1" "sessions_age db db1" "accounts_keep db db1" by auto
  with access_move_ok [OF step(2)] access_move_ages [OF step(2)] show ?case
    by (blast intro: sessions_age_trans accounts_keep_trans)
qed

lemma access_ok_families: "access_ok db \<Longrightarrow> \<forall>s \<in> set (id_sessions db). sn_family s \<noteq> []"
  by (auto simp: access_ok_parts shaped_def dest!: sessions_ok_row)

lemma step_facts:
  "identity_step pg_normal db db' \<Longrightarrow> access_ok db \<Longrightarrow> access_ok db' \<and> sessions_age db db' \<and> accounts_keep db db'"
  by (rule moves_facts [OF step_moves]) (simp_all add: access_ok_families)

lemma steps_facts:
  assumes "identity_steps pg_normal db db'" and "access_ok db"
  shows "access_ok db' \<and> sessions_age db db' \<and> accounts_keep db db'"
  using assms
proof (induction rule: rtranclp_induct)
  case base
  then show ?case by (simp add: sessions_age_same accounts_keep_same)
next
  case (step db1 db2)
  then have "access_ok db1" "sessions_age db db1" "accounts_keep db db1" by auto
  with step_facts [OF step(2)] show ?case by (blast intro: sessions_age_trans accounts_keep_trans)
qed

section \<open>Sessions\<close>

definition empty_identity :: identity_db where
  "empty_identity = \<lparr>id_accounts = [], id_logins = [], id_sessions = [], id_intents = [], id_pending = [],
     id_cashier_pending = [], id_buckets = [], id_audit = []\<rparr>"

definition identity_reachable :: "(string \<Rightarrow> string) \<Rightarrow> identity_db \<Rightarrow> bool" where
  "identity_reachable pg_normal db \<longleftrightarrow> identity_steps pg_normal empty_identity db"

lemma access_ok_empty: "access_ok empty_identity"
  by (simp add: access_ok_def empty_identity_def)

lemma reachable_access: "identity_reachable pg_normal db \<Longrightarrow> access_ok db"
  unfolding identity_reachable_def by (drule steps_facts [OF _ access_ok_empty]) blast

lemma reachable_steps:
  "identity_reachable pg_normal db \<Longrightarrow> identity_steps pg_normal db db' \<Longrightarrow> identity_reachable pg_normal db'"
  by (auto simp: identity_reachable_def)

lemma reachable_step:
  "identity_reachable pg_normal db \<Longrightarrow> identity_step pg_normal db db' \<Longrightarrow> identity_reachable pg_normal db'"
  by (auto simp: identity_reachable_def)

text \<open>The tokens of a session that ended open nothing.\<close>

definition locked_out :: "identity_db \<Rightarrow> session_row \<Rightarrow> bool" where
  "locked_out db s \<longleftrightarrow> (\<forall>r now p. AuthenticateAccess r (sn_access s) now db \<noteq> Inr p) \<and>
     (\<forall>sv replies replacement now user. fst (RotateRefresh sv replies (sn_refresh s) replacement now db) \<noteq> Inr user)"

lemma find_token:
  assumes "access_ok db" and "s \<in> set (id_sessions db)"
  shows "find (\<lambda>x. sn_access x = sn_access s) (id_sessions db) = Some s"
    and "find (\<lambda>x. sn_refresh x = sn_refresh s) (id_sessions db) = Some s"
  using assms by (auto simp: access_ok_def intro: find_key_Some)

lemma AuthenticateAccess_Inr:
  assumes "AuthenticateAccess r hash now db = Inr p"
  shows "\<exists>s a. find (\<lambda>x. sn_access x = hash) (id_sessions db) = Some s \<and> account_of db (sn_user s) = Some a \<and>
    now < sn_access_expires s \<and> live s \<and> may_log_in a \<and> ac_status a = AccountActive \<and> r = Done \<and>
    p = \<lparr>pr_UserID = ac_id a, pr_Role = ac_role a, pr_Status = ac_status a, pr_FamilyID = sn_family s,
      pr_PasswordChangeRequired = ac_change_required a\<rparr>"
  using assms unfolding AuthenticateAccess_def bindE_Inr stmt_Inr
  by (auto simp: live_def split: option.splits if_splits)

lemma ended_locked_out:
  assumes "access_ok db" and "s \<in> set (id_sessions db)" and "\<not> live s"
  shows "locked_out db s"
proof -
  have "AuthenticateAccess r (sn_access s) now db \<noteq> Inr p" for r now p
    using find_token(1) [OF assms(1,2)] assms(3) by (auto dest!: AuthenticateAccess_Inr)
  moreover have "fst (RotateRefresh sv replies (sn_refresh s) replacement now db) \<noteq> Inr user" for sv replies replacement now user
  proof
    assume "fst (RotateRefresh sv replies (sn_refresh s) replacement now db) = Inr user"
    then obtain db' where "RotateRefresh sv replies (sn_refresh s) replacement now db = (Inr user, db')"
      by (cases "RotateRefresh sv replies (sn_refresh s) replacement now db") auto
    then obtain ce n where "rotate_body sv replies (sn_refresh s) replacement now db = Inr (Inr user, ce, db', n)"
      by (auto simp: RotateRefresh_def tx_run_Inr)
    then show False
      by (cases rule: rotate_body_Inr) (use find_token(2) [OF assms(1,2)] assms(3) in auto)
  qed
  ultimately show ?thesis by (simp add: locked_out_def)
qed

text \<open>A session that ended, or whose family ended, stays ended.\<close>

lemma locked_out_later:
  assumes "access_ok db" "identity_steps pg_normal db db'" and "s \<in> set (id_sessions db)"
    and "\<forall>t \<in> set (id_sessions db). sn_family t = sn_family s \<longrightarrow> \<not> live t"
    and "t' \<in> set (id_sessions db')" "sn_family t' = sn_family s"
  shows "locked_out db' t'"
proof -
  from steps_facts [OF assms(2,1)] have ok: "access_ok db'" and age: "sessions_age db db'" by auto
  from age assms(3-6) have "\<not> live t'" unfolding sessions_age_def by metis
  with ok assms(5) show ?thesis by (rule ended_locked_out)
qed

lemma later_session:
  assumes "access_ok db" "identity_steps pg_normal db db'" "s \<in> set (id_sessions db)" "\<not> live s"
  shows "locked_out db' s"
proof -
  from steps_facts [OF assms(2,1)] have ok: "access_ok db'" and age: "sessions_age db db'" by auto
  from age assms(3) obtain s' where s': "s' \<in> set (id_sessions db')" "aged s s'" unfolding sessions_age_def by blast
  with assms(4) have "locked_out db' s'" by (intro ended_locked_out [OF ok]) (auto simp: aged_def)
  with s'(2) show ?thesis by (simp add: locked_out_def aged_def)
qed

lemma rotated_sessions:
  assumes "RotateRefresh sv replies presented replacement now db = (Inr user, db1)"
  shows "\<exists>s s'. s \<in> set (id_sessions db) \<and> sn_refresh s = presented \<and> live s \<and>
    s' \<in> set (id_sessions db1) \<and> aged s s' \<and> sn_consumed s' \<noteq> None"
proof -
  from assms obtain ce n where "rotate_body sv replies presented replacement now db = Inr (Inr user, ce, db1, n)"
    by (auto simp: RotateRefresh_def tx_run_Inr)
  then show ?thesis
  proof (cases rule: rotate_body_Inr)
    case (rotated s a)
    then have s: "s \<in> set (id_sessions db)" "sn_refresh s = presented" by (auto dest: find_SomeD)
    let ?s = "consume now (sv_uuid sv 0) s"
    from s(1) rotated(12) have "?s \<in> set (id_sessions db1)" by (auto simp: set_update_where)
    moreover have "aged s ?s" using rotated(3) by (simp add: aged_def)
    ultimately show ?thesis using s rotated(3) by (intro exI [of _ s] exI [of _ ?s]) simp
  qed simp
qed

end
