(* ===== verification/Identity_Sessions.thy ===== *)
theory Identity_Sessions
  imports Identity_Guarantees
begin

text \<open>
  The guarantees on sessions for any interleaving of requests: a refresh token works once, one
  session of a family is live, access ends at once, and there is one administrator.
\<close>

lemma validUUID_ascii:
  assumes "validUUID s" and "c \<in> set s"
  shows "byte c < 128"
proof (cases "c = CHR ''-''")
  case False
  with assms have "is_hex c" by (auto simp: validUUID_def hex_decodes_def list_all_iff Let_def split: if_splits)
  then show ?thesis by (auto simp: is_hex_def)
qed (simp add: byte_def)

lemma validUUID_text:
  assumes "validUUID s"
  shows "text_between 1 255 s"
proof -
  have "\<forall>c \<in> set s. byte c < 128" using validUUID_ascii [OF assms] by blast
  with validUUID_length [OF assms] show ?thesis by (simp add: text_between_ascii)
qed

lemma session_row:
  assumes "access_ok db" and "s \<in> set (id_sessions db)"
  shows "shaped s \<and> (sn_consumed s \<noteq> None \<longrightarrow> \<not> live s) \<and> (live s \<longrightarrow> may_open db (sn_user s))"
  using assms by (simp add: access_ok_parts) (blast dest: sessions_ok_row)

lemma consumed_ended: "access_ok db \<Longrightarrow> s \<in> set (id_sessions db) \<Longrightarrow> sn_consumed s \<noteq> None \<Longrightarrow> \<not> live s"
  by (blast dest: session_row)

lemma live_account: "access_ok db \<Longrightarrow> s \<in> set (id_sessions db) \<Longrightarrow> live s \<Longrightarrow>
    \<exists>a. account_of db (sn_user s) = Some a \<and> ac_status a = AccountActive \<and> may_log_in a"
  by (drule (1) session_row) (simp add: may_open_def)

lemma aged_later: "sessions_age db db' \<Longrightarrow> s \<in> set (id_sessions db) \<Longrightarrow> \<exists>s' \<in> set (id_sessions db'). aged s s'"
  unfolding sessions_age_def by blast

lemma bindE_Inl: "bindE m f = Inl e \<longleftrightarrow> m = Inl e \<or> (\<exists>v. m = Inr v \<and> f v = Inl e)"
  by (cases m) auto

text \<open>What a reported reuse leaves behind.\<close>

lemma stmt_not_reuse [simp]: "stmt (IdOther what) r x \<noteq> Inl IdRefreshReuse"
  by (auto dest: stmt_Inl)

lemma statements_not_reuse [simp]:
  "revokeFamily r fid reason now db \<noteq> Inl IdRefreshReuse"
  "insertIdentityAudit r actor action ttype target now db \<noteq> Inl IdRefreshReuse"
  "insertSession sv r s db \<noteq> Inl IdRefreshReuse"
  by (simp_all add: revokeFamily_def insertIdentityAudit_def insertSession_def bindE_Inl split: option.split)

lemma rotate_body_not_reuse: "rotate_body sv replies presented replacement now db \<noteq> Inl IdRefreshReuse"
  by (simp add: rotate_body_def bindE_Inl split: option.split prod.split)

lemma rotate_commit_error: "rotate_body sv replies presented replacement now db = Inr (answer, ce, db', n) \<Longrightarrow> ce \<noteq> IdRefreshReuse"
  by (auto simp: rotate_body_def bindE_Inr split: option.splits if_splits)

lemma reuse_reported:
  assumes "RotateRefresh sv replies presented replacement now db = (Inl IdRefreshReuse, db')"
  shows "\<exists>s. find (\<lambda>s. sn_refresh s = presented) (id_sessions db) = Some s \<and>
    id_sessions db' = update_where (\<lambda>x. sn_family x = sn_family s) (revoke now ''REFRESH_REUSE'') (id_sessions db)"
proof (cases "rotate_body sv replies presented replacement now db")
  case (Inl e)
  with assms rotate_body_not_reuse [of sv replies presented replacement now db] show ?thesis
    by (simp add: RotateRefresh_def tx_run_def split: if_splits)
next
  case (Inr c)
  obtain answer ce db1 n where c: "c = (answer, ce, db1, n)" by (cases c)
  note body = Inr [unfolded c]
  with assms rotate_commit_error [OF body] have "answer = Inl IdRefreshReuse \<and> db1 = db'"
    by (auto simp: RotateRefresh_def tx_run_def split: if_splits reply.splits)
  with body show ?thesis by (cases rule: rotate_body_Inr) auto
qed

lemma revoke_where_Done:
  assumes "access_ok db"
  shows "revoke_where P now reason db = Inr (db\<lparr>id_sessions := update_where P (revoke now reason) (id_sessions db)\<rparr>)"
proof -
  have "session_check (revoke now reason s)" if "s \<in> set (id_sessions db)" for s
    using that assms revoke_shaped [of s now reason] by (auto simp: access_ok_parts shaped_def dest: sessions_ok_row)
  then show ?thesis by (simp add: revoke_where_Inr)
qed

lemma reuse_detected:
  assumes "access_ok db" and s: "s \<in> set (id_sessions db)" "sn_consumed s \<noteq> None"
    and a: "account_of db (sn_user s) = Some a" and "\<forall>n < 5. replies n = Done"
  shows "fst (RotateRefresh sv replies (sn_refresh s) replacement now db) = Inl IdRefreshReuse"
proof -
  note tok = find_token(2) [OF assms(1) s(1)]
  let ?db = "db\<lparr>id_sessions := update_where (\<lambda>x. sn_family x = sn_family s) (revoke now ''REFRESH_REUSE'') (id_sessions db)\<rparr>"
  from assms(5) have ok: "replies 0 = Done" "replies 1 = Done" "replies 2 = Done" "replies 3 = Done" "replies 4 = Done"
    by auto
  have rev: "revokeFamily (replies 2) (sn_family s) ''REFRESH_REUSE'' now db = Inr ?db"
    using ok by (simp add: revokeFamily_def revoke_where_Done [OF assms(1)])
  from account_of_Some [OF a] have acc: "has_account ?db (ac_id a)"
    by (auto simp: has_account_def list_ex_iff)
  have "validUUID (sn_family s)" using assms(1) s(1) by (auto simp: access_ok_parts shaped_def dest: sessions_ok_row)
  then have "text_between 1 255 (sn_family s)" by (rule validUUID_text)
  then obtain db2 where aud: "insertIdentityAudit (replies 3) (ac_id a) ''SESSION_REFRESH_REUSE_DETECTED'' ''SESSION_FAMILY'' (sn_family s) now ?db = Inr db2"
    using ok acc by (auto simp: insertIdentityAudit_Inr text_between_ascii byte_def)
  from tok s(2) a ok have "rotate_body sv replies (sn_refresh s) replacement now db =
      Inr (Inl IdRefreshReuse, IdOther ''commit replay revocation'', db2, 4)"
    by (simp add: rotate_body_def rev [unfolded ok] aud [unfolded ok])
  with ok show ?thesis by (simp add: RotateRefresh_def tx_run_def)
qed

text \<open>
  C7: a refresh token works once. When it has been exchanged, no later presentation succeeds,
  whatever happened in between and whatever it is given; with a working database the presentation is
  recognised as reuse, and when reuse is reported every session of the token's family is over: none
  of their access or refresh tokens, the newest included, opens anything ever again.
\<close>

theorem refresh_token_once:
  assumes reach: "identity_reachable pg_normal db"
    and first: "RotateRefresh sv replies presented replacement now db = (Inr user, db1)"
    and between: "identity_steps pg_normal db1 db2"
    and again: "RotateRefresh sv' replies' presented replacement' now' db2 = (res, db3)"
    and later: "identity_steps pg_normal db3 db4"
  shows "(\<exists>e. res = Inl e) \<and> ((\<forall>n < 5. replies' n = Done) \<longrightarrow> res = Inl IdRefreshReuse) \<and>
    (res = Inl IdRefreshReuse \<longrightarrow> (\<exists>s \<in> set (id_sessions db). sn_refresh s = presented \<and>
       (\<forall>t \<in> set (id_sessions db4). sn_family t = sn_family s \<longrightarrow> locked_out db4 t)))"
proof -
  note ok = reachable_access [OF reach]
  from rotated_sessions [OF first] obtain s s1 where s: "s \<in> set (id_sessions db)" "sn_refresh s = presented" "live s"
    and s1: "s1 \<in> set (id_sessions db1)" "aged s s1" "sn_consumed s1 \<noteq> None" by blast
  have step1: "identity_steps pg_normal db db1" using identity_step.rotate [OF first] by blast
  from steps_facts [OF step1 ok] have ok1: "access_ok db1" and acc1: "accounts_keep db db1" by auto
  from steps_facts [OF between ok1] have ok2: "access_ok db2" and age2: "sessions_age db1 db2"
    and acc2: "accounts_keep db1 db2" by auto
  have "\<not> live s1" using consumed_ended [OF ok1 s1(1,3)] .
  with aged_later [OF age2 s1(1)] s1(3) obtain s2 where s2: "s2 \<in> set (id_sessions db2)" "aged s1 s2" "sn_consumed s2 \<noteq> None"
    by (auto simp: aged_def)
  have same: "sn_refresh s2 = presented" "sn_family s2 = sn_family s" "sn_user s2 = sn_user s"
    using s(2) s1(2) s2(2) by (simp_all add: aged_def)
  from live_account [OF ok s(1,3)] obtain a where "account_of db (sn_user s) = Some a" by blast
  with accounts_keep_trans [OF acc1 acc2] same(3) obtain a2 where a2: "account_of db2 (sn_user s2) = Some a2"
    by (auto simp: accounts_keep_def)
  have ok3: "access_ok db3" using step_facts [OF identity_step.rotate [OF again] ok2] by blast
  note out = ended_locked_out [OF ok2 s2(1) consumed_ended [OF ok2 s2(1,3)]]
  have "\<exists>e. res = Inl e"
  proof (cases res)
    case (Inr x)
    with again same(1) have "fst (RotateRefresh sv' replies' (sn_refresh s2) replacement' now' db2) = Inr x" by simp
    with out show ?thesis unfolding locked_out_def by blast
  qed simp
  moreover have "res = Inl IdRefreshReuse" if "\<forall>n < 5. replies' n = Done"
    using reuse_detected [OF ok2 s2(1,3) a2 that, of sv' replacement' now'] same(1) again by simp
  moreover have "locked_out db4 t"
    if reuse: "res = Inl IdRefreshReuse" and t: "t \<in> set (id_sessions db4)" "sn_family t = sn_family s" for t
  proof -
    from reuse_reported again reuse obtain x where x: "find (\<lambda>s. sn_refresh s = presented) (id_sessions db2) = Some x"
      and sess: "id_sessions db3 = update_where (\<lambda>y. sn_family y = sn_family x) (revoke now' ''REFRESH_REUSE'') (id_sessions db2)"
      by blast
    from x find_token(2) [OF ok2 s2(1)] same(1) have [simp]: "x = s2" by simp
    have "\<forall>y \<in> set (id_sessions db3). sn_family y = sn_family s \<longrightarrow> \<not> live y"
      unfolding sess using same(2) by (auto simp: set_update_where)
    moreover have "revoke now' ''REFRESH_REUSE'' s2 \<in> set (id_sessions db3)"
      unfolding sess using s2(1) by (auto simp: set_update_where)
    ultimately show ?thesis
      by (intro locked_out_later [OF ok3 later _ _ t(1), of "revoke now' ''REFRESH_REUSE'' s2"]) (use t(2) same(2) in simp_all)
  qed
  ultimately show ?thesis using s(1,2) by blast
qed

text \<open>
  C13: in every reachable state a family of sessions has at most one that is not revoked, it belongs
  to an active account that may log in, its refresh token is unused, and no two sessions share a
  token.
\<close>

theorem one_live_session:
  assumes "identity_reachable pg_normal db" and "s \<in> set (id_sessions db)" "t \<in> set (id_sessions db)" and "live s"
  shows "(live t \<and> sn_family t = sn_family s \<longrightarrow> t = s) \<and> sn_consumed s = None \<and>
    (\<exists>a. account_of db (sn_user s) = Some a \<and> ac_status a = AccountActive \<and> may_log_in a) \<and>
    (sn_access t = sn_access s \<or> sn_refresh t = sn_refresh s \<longrightarrow> t = s)"
proof -
  note ok = reachable_access [OF assms(1)]
  then have ss: "sessions_ok (may_open db) (id_sessions db)" by (simp add: access_ok_parts)
  from sessions_ok_family [OF ss assms(3,2)] assms(4) have "live t \<and> sn_family t = sn_family s \<longrightarrow> t = s" by blast
  moreover from consumed_ended [OF ok assms(2)] assms(4) have "sn_consumed s = None" by blast
  moreover from sessions_ok_keys [OF ss] have "sn_access t = sn_access s \<or> sn_refresh t = sn_refresh s \<longrightarrow> t = s"
    using assms(2,3) by (blast dest: key_unique)
  ultimately show ?thesis using live_account [OF ok assms(2,4)] by blast
qed

section \<open>Access ends at once\<close>

text \<open>The operations that take access away from a user.\<close>

inductive shuts_out :: "(string \<Rightarrow> string) \<Rightarrow> string \<Rightarrow> identity_db \<Rightarrow> identity_db \<Rightarrow> bool" for pg_normal where
  disabled: "DisableUser_store pg_normal replies actor u now db = (Inr (), db') \<Longrightarrow> shuts_out pg_normal u db db'"
| suspended: "status_tx pg_normal replies actor u AccountDisabled now db = (Inr (), db') \<Longrightarrow> shuts_out pg_normal u db db'"
| reset: "reset_tx pg_normal replies actor u hash now db = (Inr (), db') \<Longrightarrow> shuts_out pg_normal u db db'"
| recovered: "RecoverAdminPassword_store replies email hash now db = (Inr user, db') \<Longrightarrow> us_ID user = u \<Longrightarrow>
    shuts_out pg_normal u db db'"

lemma shuts_out_step: "shuts_out pg_normal u db db' \<Longrightarrow> identity_step pg_normal db db'"
  by (cases rule: shuts_out.cases) (blast intro: identity_step.intros)+

lemma ended_all:
  "\<forall>s \<in> set ss. sn_user s = u \<and> sn_revoked s = None \<longrightarrow> P s \<Longrightarrow>
     \<forall>s \<in> set (update_where P (revoke now reason) ss). sn_user s = u \<longrightarrow> \<not> live s"
  by (auto simp: set_update_where live_def revoke_def)

lemma suspended_already:
  assumes "access_ok db" and "account_of db u = Some a" "ac_status a \<noteq> AccountActive"
    and "s \<in> set (id_sessions db)" "sn_user s = u"
  shows "\<not> live s"
  using live_account [OF assms(1,4)] assms(2,3,5) by auto

lemma shut_out_ended:
  assumes "shuts_out pg_normal u db db'" and "access_ok db"
  shows "\<forall>s \<in> set (id_sessions db'). sn_user s = u \<longrightarrow> \<not> live s"
  using assms(1)
proof cases
  case (disabled replies actor now)
  then have "id_sessions db' = update_where (\<lambda>s. sn_user s = u) (revoke now ''ACCOUNT_DISABLED'') (id_sessions db)"
    by (auto simp: DisableUser_store_def tx_run_Inr bindE_Inr stmt_effects split: if_splits)
  then show ?thesis by (simp only:) (rule ended_all, simp)
next
  case (suspended replies actor now)
  then obtain user where "cashier_locked (replies 1) db u = Inr user" and
    cs: "us_Status user = AccountDisabled \<and> db' = db \<or>
      id_sessions db' = update_where (\<lambda>s. sn_user s = u \<and> sn_revoked s = None) (revoke now ''ACCOUNT_DISABLED'') (id_sessions db)"
    by (auto simp: status_tx_def tx_run_Inr bindE_Inr stmt_effects split: if_splits)
  then obtain a where a: "account_of db u = Some a" "ac_status a = us_Status user"
    by (auto dest!: cashier_locked_Inr simp: user_of_def)
  from cs show ?thesis
  proof
    assume "us_Status user = AccountDisabled \<and> db' = db"
    with a suspended_already [OF assms(2) a(1)] show ?thesis by auto
  qed (simp only:, rule ended_all, simp)
next
  case (reset replies actor hash now)
  then have "id_sessions db' = update_where (\<lambda>s. sn_user s = u \<and> sn_revoked s = None) (revoke now ''PASSWORD_RESET'') (id_sessions db)"
    by (auto simp: reset_tx_def tx_run_Inr bindE_Inr stmt_effects split: if_splits)
  then show ?thesis by (simp only:) (rule ended_all, simp)
next
  case (recovered replies email hash now user)
  then have "id_sessions db' = update_where (\<lambda>s. sn_user s = u \<and> sn_revoked s = None) (revoke now ''ADMIN_RECOVERY'') (id_sessions db)"
    by (auto simp: RecoverAdminPassword_store_def tx_run_Inr bindE_Inr stmt_effects short_user_def user_of_def
        split: if_splits option.splits)
  then show ?thesis by (simp only:) (rule ended_all, simp)
qed

text \<open>
  C10: disabling an account, suspending a cashier, resetting a cashier's password and recovering the
  administrator's password take access away at once and for good: no access or refresh token that
  the user held before opens anything in any later state, not even when the account is restored.
\<close>

theorem access_ends_at_once:
  assumes "identity_reachable pg_normal db" and "shuts_out pg_normal u db db1" and "identity_steps pg_normal db1 db2"
    and "s \<in> set (id_sessions db)" "sn_user s = u"
  shows "locked_out db2 s"
proof -
  note ok = reachable_access [OF assms(1)]
  from step_facts [OF shuts_out_step [OF assms(2)] ok] have ok1: "access_ok db1" and age: "sessions_age db db1" by auto
  from aged_later [OF age assms(4)] obtain s1 where s1: "s1 \<in> set (id_sessions db1)" "aged s s1" by blast
  with shut_out_ended [OF assms(2) ok] assms(5) have "\<not> live s1" by (auto simp: aged_def)
  from later_session [OF ok1 assms(3) s1(1) this] s1(2) show ?thesis by (simp add: locked_out_def aged_def)
qed

section \<open>The administrator\<close>

lemma one_admin:
  assumes "access_ok db" "a \<in> set (id_accounts db)" "b \<in> set (id_accounts db)" "ac_role a = RoleAdmin" "ac_role b = RoleAdmin"
  shows "a = b"
proof -
  from assms have "{a, b} \<subseteq> set (filter (\<lambda>a. ac_role a = RoleAdmin) (id_accounts db))" by auto
  moreover have "length (filter (\<lambda>a. ac_role a = RoleAdmin) (id_accounts db)) \<le> 1" using assms(1) by (simp add: access_ok_def)
  ultimately show ?thesis
    by (cases "filter (\<lambda>a. ac_role a = RoleAdmin) (id_accounts db)") auto
qed

lemma account_of_member: "access_ok db \<Longrightarrow> a \<in> set (id_accounts db) \<Longrightarrow> account_of db (ac_id a) = Some a"
  by (simp add: account_of_def access_ok_def find_key_Some)

text \<open>
  C14: there is never more than one administrator. Once there is one it is the same account with the
  same address for ever, and a later bootstrap either fails or stores nothing and returns that
  account, which it does only for its own address.
\<close>

theorem single_administrator:
  assumes reach: "identity_reachable pg_normal db" and later: "identity_steps pg_normal db db'"
    and a: "a \<in> set (id_accounts db)" "ac_role a = RoleAdmin" and b: "b \<in> set (id_accounts db')" "ac_role b = RoleAdmin"
  shows "ac_id b = ac_id a \<and> ac_email b = ac_email a \<and>
    (\<forall>sv replies name email hash now user db''.
       BootstrapAdmin_store pg_normal sv replies name email hash now db' = (Inr user, db'') \<longrightarrow>
         user = short_user b \<and> email = ac_email a \<and> db'' = db')"
proof -
  note ok = reachable_access [OF reach]
  from steps_facts [OF later ok] have ok': "access_ok db'" and keep: "accounts_keep db db'" by auto
  from keep account_of_member [OF ok a(1)] a(2) obtain a' where
    a': "account_of db' (ac_id a) = Some a'" "ac_email a' = ac_email a" "ac_role a' = RoleAdmin"
    unfolding accounts_keep_def by metis
  from account_of_Some [OF a'(1)] have "a' \<in> set (id_accounts db')" "ac_id a' = ac_id a" by auto
  with one_admin [OF ok' _ b(1) _ b(2)] a' have same: "ac_id b = ac_id a" "ac_email b = ac_email a" by auto
  have "user = short_user b \<and> email = ac_email a \<and> db'' = db'"
    if "BootstrapAdmin_store pg_normal sv replies name email hash now db' = (Inr user, db'')"
    for sv replies name email hash now user db''
  proof -
    have "find (\<lambda>x. ac_role x = RoleAdmin) (id_accounts db') = Some b"
    proof (cases "find (\<lambda>x. ac_role x = RoleAdmin) (id_accounts db')")
      case None
      with b show ?thesis by (auto simp: find_None_iff)
    next
      case (Some c)
      with one_admin [OF ok' _ b(1) _ b(2)] find_SomeD [OF Some] show ?thesis by auto
    qed
    then have "userByRole (replies 2) db' RoleAdmin = Inr found \<Longrightarrow> found = Some (short_user b)" for found
      by (simp add: userByRole_def)
    with that same show ?thesis
      by (auto simp: BootstrapAdmin_store_def tx_run_Inr bindE_Inr short_user_def user_of_def
          split: sum.splits option.splits if_splits)
  qed
  with same show ?thesis by blast
qed

end
