(* ===== verification/Identity_Intents.thy ===== *)
theory Identity_Intents
  imports Identity_Sessions
begin

text \<open>Sign-on intents: which operations touch them, and that an intent is used at most once.\<close>

section \<open>Operations that leave the intents alone\<close>

definition same_intents :: "identity_db \<Rightarrow> identity_db \<Rightarrow> bool" where
  "same_intents db db' \<longleftrightarrow> id_intents db' = id_intents db"

lemma same_intents_refl [simp]: "same_intents db db"
  by (simp add: same_intents_def)

lemma insertSession_intents: "insertSession sv r s db = Inr (sid, db') \<Longrightarrow> id_intents db' = id_intents db"
  by (auto simp: insertSession_Inr)

lemma UpdatePasswordHash_intents: "UpdatePasswordHash r u encoded db = (res, db') \<Longrightarrow> same_intents db db'"
  by (auto simp: UpdatePasswordHash_def autocommit_def same_intents_def stmt_effects
      split: sum.splits prod.splits if_splits dest!: settle_result)

lemma CreateSession_intents: "CreateSession sv replies s db = (res, db') \<Longrightarrow> same_intents db db'"
  unfolding CreateSession_def
  by (drule tx_run_cases) (auto simp: bindE_Inr same_intents_def split: if_splits dest!: insertSession_intents)

lemma RotateRefresh_intents: "RotateRefresh sv replies presented s now db = (res, db') \<Longrightarrow> same_intents db db'"
  unfolding RotateRefresh_def
  by (drule tx_run_cases)
    (auto simp: rotate_body_def bindE_Inr stmt_effects same_intents_def split: option.splits if_splits dest!: insertSession_intents)

lemma RevokeFamily_intents: "RevokeFamily r fid reason now db = (res, db') \<Longrightarrow> same_intents db db'"
  by (auto simp: RevokeFamily_def autocommit_def bindE_Inr stmt_effects same_intents_def
      split: sum.splits prod.splits option.splits dest!: settle_result)

lemma BootstrapAdmin_intents:
  "BootstrapAdmin_store pg_normal sv replies name email hash now db = (res, db') \<Longrightarrow> same_intents db db'"
  unfolding BootstrapAdmin_store_def
  by (drule tx_run_cases)
    (auto simp: bindE_Inr stmt_effects Let_def wrapped_Inr same_intents_def split: option.splits if_splits)

lemma DisableUser_intents: "DisableUser_store pg_normal replies actor u now db = (res, db') \<Longrightarrow> same_intents db db'"
  unfolding DisableUser_store_def
  by (drule tx_run_cases) (auto simp: bindE_Inr stmt_effects same_intents_def split: if_splits)

lemma status_tx_intents: "status_tx pg_normal replies actor u target now db = (res, db') \<Longrightarrow> same_intents db db'"
  unfolding status_tx_def
  by (drule tx_run_cases) (auto simp: bindE_Inr stmt_effects same_intents_def split: if_splits)

lemma reset_tx_intents: "reset_tx pg_normal replies actor u hash now db = (res, db') \<Longrightarrow> same_intents db db'"
  unfolding reset_tx_def
  by (drule tx_run_cases) (auto simp: bindE_Inr stmt_effects same_intents_def split: if_splits)

lemma ChangeOwnPassword_intents:
  "ChangeOwnPassword_store pg_normal replies u fid old new now db = (res, db') \<Longrightarrow> same_intents db db'"
  unfolding ChangeOwnPassword_store_def
  by (drule tx_run_cases) (auto simp: bindE_Inr stmt_effects same_intents_def split: if_splits)

lemma RecoverAdminPassword_intents: "RecoverAdminPassword_store replies email hash now db = (res, db') \<Longrightarrow> same_intents db db'"
  unfolding RecoverAdminPassword_store_def
  by (drule tx_run_cases) (auto simp: bindE_Inr stmt_effects same_intents_def split: option.splits if_splits)

lemma BeginRegistration_intents: "BeginRegistration replies v ip now db = (res, db') \<Longrightarrow> same_intents db db'"
  unfolding BeginRegistration_def
  by (drule tx_run_cases) (auto simp: bindE_Inr same_intents_def dest!: pending_effects)

lemma ResendRegistration_intents: "ResendRegistration replies rid code ip now expires db = (res, db') \<Longrightarrow> same_intents db db'"
  unfolding ResendRegistration_def
  by (drule tx_run_cases)
    (auto simp: bindE_Inr same_intents_def split: option.splits if_splits dest!: pending_effects)

lemma VerifyRegistration_intents: "VerifyRegistration pg_normal sv replies rid code now db = (res, db') \<Longrightarrow> same_intents db db'"
  unfolding VerifyRegistration_def
  by (drule tx_run_cases)
    (auto simp: same_intents_def stmt_effects elim!: verify_body_Inr dest!: set_pending_Inr)

lemma DeleteExpiredRegistrations_intents: "DeleteExpiredRegistrations replies now db = (res, db') \<Longrightarrow> same_intents db db'"
  by (auto simp: DeleteExpiredRegistrations_def delete_stmt_def same_intents_def
      split: sum.splits prod.splits dest!: settle_result)

lemma BeginCashierRegistration_intents: "BeginCashierRegistration replies v actor ip now db = (res, db') \<Longrightarrow> same_intents db db'"
  unfolding BeginCashierRegistration_def
  by (drule tx_run_cases) (auto simp: bindE_Inr same_intents_def split: if_splits dest!: pending_effects)

lemma ResendCashierRegistration_intents:
  "ResendCashierRegistration replies actor rid code ip now expires db = (res, db') \<Longrightarrow> same_intents db db'"
  unfolding ResendCashierRegistration_def
  by (drule tx_run_cases)
    (auto simp: bindE_Inr same_intents_def split: option.splits if_splits dest!: pending_effects)

lemma verified_account_intents:
  "verified_account pg_normal sv replies p now db = Inr (cid, created, db', n) \<Longrightarrow> same_intents db db'"
  by (auto simp: verified_account_def bindE_Inr stmt_effects same_intents_def Let_def wrapped_Inr
      split: option.splits if_splits)

lemma verify_cashier_intents:
  "verify_cashier_tx pg_normal sv replies actor rid code now db = (res, db') \<Longrightarrow> same_intents db db'"
  unfolding verify_cashier_tx_def
  by (drule tx_run_cases)
    (auto simp: bindE_Inr stmt_effects same_intents_def split: option.splits if_splits
      dest!: set_cashier_pending_Inr verified_account_intents)

section \<open>Intents are consumed once\<close>

definition intents_keep :: "identity_db \<Rightarrow> identity_db \<Rightarrow> bool" where
  "intents_keep db db' \<longleftrightarrow> (distinct (map in_id (id_intents db)) \<longrightarrow> distinct (map in_id (id_intents db'))) \<and>
     (\<forall>i \<in> set (id_intents db). \<exists>i' \<in> set (id_intents db'). in_id i' = in_id i \<and> (in_consumed i \<noteq> None \<longrightarrow> in_consumed i' \<noteq> None))"

lemma intents_keep_same: "same_intents db db' \<Longrightarrow> intents_keep db db'"
  by (auto simp: intents_keep_def same_intents_def)

lemma intents_keep_trans: "intents_keep db1 db2 \<Longrightarrow> intents_keep db2 db3 \<Longrightarrow> intents_keep db1 db3"
  unfolding intents_keep_def by metis

lemma intents_keep_consumed:
  assumes "id_intents db' = update_where P (\<lambda>i. i\<lparr>in_consumed := Some (max now (in_created i))\<rparr>) (id_intents db)"
  shows "intents_keep db db'"
proof -
  have "\<exists>i' \<in> set (id_intents db'). in_id i' = in_id i \<and> (in_consumed i \<noteq> None \<longrightarrow> in_consumed i' \<noteq> None)"
    if "i \<in> set (id_intents db)" for i
    using that assms by (intro bexI [of _ "if P i then i\<lparr>in_consumed := Some (max now (in_created i))\<rparr> else i"])
      (auto simp: set_update_where)
  with assms show ?thesis by (simp add: intents_keep_def)
qed

lemma consumed_keep: "consumeIntent r iid now db = Inr db' \<Longrightarrow> intents_keep db db'"
  by (auto simp: consumeIntent_Inr intro: intents_keep_consumed)

lemma finish_login_keep:
  "finish_login sv replies n iid user session now db = Inr (answer, ce, db', m) \<Longrightarrow> intents_keep db db'"
  by (elim finish_login_Inr)
    (blast intro: intents_keep_trans intents_keep_same consumed_keep dest: insertSession_intents [folded same_intents_def])

lemma CompleteOAuthLogin_keep:
  assumes "CompleteOAuthLogin pg_normal sv replies iid v s now db = (res, db')"
  shows "intents_keep db db'"
proof -
  from tx_run_cases [OF assms [unfolded CompleteOAuthLogin_def]]
  consider "db' = db" | answer ce n where "oauth_login_body pg_normal sv replies iid v s now db = Inr (answer, ce, db', n)"
    by blast
  then show ?thesis
  proof cases
    case 2
    then show ?thesis
    proof (cases rule: oauth_login_body_Inr)
      case (created db1 db2 a)
      then have "same_intents db db2" by (auto simp: same_intents_def stmt_effects)
      with finish_login_keep [OF created(4)] show ?thesis by (blast intro: intents_keep_trans intents_keep_same)
    qed (blast intro: finish_login_keep consumed_keep)+
  qed (simp add: intents_keep_same)
qed

lemma CompleteOAuthLink_keep:
  assumes "CompleteOAuthLink replies iid u v now db = (res, db')"
  shows "intents_keep db db'"
  using tx_run_cases [OF assms [unfolded CompleteOAuthLink_def]]
  by (auto simp: bindE_Inr stmt_effects wrapped_Inr intents_keep_same split: sum.splits if_splits
      intro!: intents_keep_consumed)

lemma CreateOAuthIntent_keep:
  assumes "CreateOAuthIntent sv r i db = (res, db')"
  shows "intents_keep db db'"
proof -
  from assms have "db' = db \<or> (\<exists>x. id_intents db' = id_intents db @ [x] \<and> (\<forall>y \<in> set (id_intents db). in_id y \<noteq> in_id x))"
    by (auto simp: CreateOAuthIntent_def autocommit_def insert_row_def list_ex_iff
        split: sum.splits prod.splits if_splits dest!: settle_result)
  then show ?thesis by (auto simp: intents_keep_def) blast
qed

lemmas same_intents_operations = UpdatePasswordHash_intents CreateSession_intents RotateRefresh_intents
  RevokeFamily_intents BootstrapAdmin_intents DisableUser_intents status_tx_intents reset_tx_intents
  ChangeOwnPassword_intents RecoverAdminPassword_intents BeginRegistration_intents ResendRegistration_intents
  VerifyRegistration_intents DeleteExpiredRegistrations_intents BeginCashierRegistration_intents
  ResendCashierRegistration_intents verify_cashier_intents

lemma step_intents: "identity_step pg_normal db db' \<Longrightarrow> intents_keep db db'"
  by (cases rule: identity_step.cases)
    (blast intro: intents_keep_same CompleteOAuthLogin_keep CompleteOAuthLink_keep CreateOAuthIntent_keep
      dest: same_intents_operations)+

lemma steps_intents: "identity_steps pg_normal db db' \<Longrightarrow> intents_keep db db'"
  by (induction rule: rtranclp_induct) (auto intro: intents_keep_same intents_keep_trans dest: step_intents)

lemma reachable_intents: "identity_reachable pg_normal db \<Longrightarrow> distinct (map in_id (id_intents db))"
  using steps_intents [of pg_normal empty_identity db]
  by (auto simp: identity_reachable_def intents_keep_def empty_identity_def)

text \<open>The ways to use an intent up: a login, a login that must link first, and a link.\<close>

inductive uses_intent :: "(string \<Rightarrow> string) \<Rightarrow> string \<Rightarrow> identity_db \<Rightarrow> identity_db \<Rightarrow> bool" for pg_normal where
  logged_in: "CompleteOAuthLogin pg_normal sv replies iid v s now db = (Inr user, db') \<Longrightarrow> ns_FamilyID s = [] \<Longrightarrow>
    fresh_family sv db \<Longrightarrow> uses_intent pg_normal iid db db'"
| must_link: "CompleteOAuthLogin pg_normal sv replies iid v s now db = (Inl IdIdentityLinkRequired, db') \<Longrightarrow> ns_FamilyID s = [] \<Longrightarrow>
    fresh_family sv db \<Longrightarrow> uses_intent pg_normal iid db db'"
| linked: "CompleteOAuthLink replies iid u v now db = (Inr (), db') \<Longrightarrow> uses_intent pg_normal iid db db'"

lemma uses_intent_step: "uses_intent pg_normal iid db db' \<Longrightarrow> identity_step pg_normal db db'"
  by (cases rule: uses_intent.cases) (blast intro: identity_step.intros)+

lemma consumed_intent:
  assumes "consumeIntent r iid now db = Inr db'"
  shows "(\<exists>i \<in> set (id_intents db). in_id i = iid \<and> in_consumed i = None) \<and>
    (\<exists>i \<in> set (id_intents db'). in_id i = iid \<and> in_consumed i \<noteq> None)"
proof -
  from assms have one: "affected (\<lambda>i. in_id i = iid \<and> in_consumed i = None) (id_intents db) = 1"
    and db': "id_intents db' = update_where (\<lambda>i. in_id i = iid \<and> in_consumed i = None)
      (\<lambda>i. i\<lparr>in_consumed := Some (max now (in_created i))\<rparr>) (id_intents db)"
    by (auto simp: consumeIntent_Inr)
  from one have "affected (\<lambda>i. in_id i = iid \<and> in_consumed i = None) (id_intents db) \<noteq> 0" by simp
  then obtain i where i: "i \<in> set (id_intents db)" "in_id i = iid" "in_consumed i = None"
    unfolding affected_0 by blast
  then have "i\<lparr>in_consumed := Some (max now (in_created i))\<rparr> \<in> set (id_intents db')"
    unfolding db' set_update_where by (intro image_eqI [of _ _ i]) simp_all
  with i show ?thesis by (intro conjI bexI [of _ i] bexI [of _ "i\<lparr>in_consumed := Some (max now (in_created i))\<rparr>"]) simp_all
qed

definition consumes_intent :: "string \<Rightarrow> identity_db \<Rightarrow> identity_db \<Rightarrow> bool" where
  "consumes_intent iid db db' \<longleftrightarrow> (\<exists>i \<in> set (id_intents db). in_id i = iid \<and> in_consumed i = None) \<and>
     (\<exists>i \<in> set (id_intents db'). in_id i = iid \<and> in_consumed i \<noteq> None)"

lemma finish_login_consumes:
  assumes "finish_login sv replies n iid user session now db = Inr (answer, ce, db', m)"
  shows "consumes_intent iid db db'"
  using assms
proof (rule finish_login_Inr)
  fix db1 sid
  assume "insertSession sv (replies n) (session\<lparr>ns_UserID := us_ID user\<rparr>) db = Inr (sid, db1)"
    and "consumeIntent (replies (n + 1)) iid now db1 = Inr db'"
  with consumed_intent insertSession_intents show ?thesis unfolding consumes_intent_def by metis
qed

lemma login_body_consumes:
  assumes "oauth_login_body pg_normal sv replies iid v s now db = Inr (answer, ce, db', n)"
  shows "consumes_intent iid db db'"
  using assms
proof (cases rule: oauth_login_body_Inr)
  case (created db1 db2 a)
  then have "id_intents db2 = id_intents db" by (auto simp: stmt_effects)
  with finish_login_consumes [OF created(4)] show ?thesis by (simp add: consumes_intent_def)
next
  case linked
  then show ?thesis using consumed_intent by (simp add: consumes_intent_def)
qed (rule finish_login_consumes)

lemma not_link_required [simp]:
  "stmt (IdOther what) r x \<noteq> Inl IdIdentityLinkRequired"
  "insertSession sv r' s db \<noteq> Inl IdIdentityLinkRequired"
  "consumeIntent r iid now db \<noteq> Inl IdIdentityLinkRequired"
  "mapIdentityConflict k \<noteq> IdIdentityLinkRequired" "IdIdentityLinkRequired \<noteq> mapIdentityConflict k"
  by (auto simp: insertSession_def consumeIntent_def mapIdentityConflict_def bindE_Inl split: option.splits if_splits
      dest: stmt_Inl)

lemma finish_login_errors:
  "finish_login sv replies n iid user session now db \<noteq> Inl IdIdentityLinkRequired"
  "finish_login sv replies n iid user session now db \<noteq> Inr (answer, IdIdentityLinkRequired, db', m)"
  by (auto simp: finish_login_def bindE_Inl bindE_Inr split: if_splits)

lemma login_body_errors:
  "oauth_login_body pg_normal sv replies iid v s now db \<noteq> Inl IdIdentityLinkRequired"
  "oauth_login_body pg_normal sv replies iid v s now db \<noteq> Inr (answer, IdIdentityLinkRequired, db', n)"
  subgoal
    by (auto simp: oauth_login_body_def bindE_Inl finish_login_errors Let_def split: sum.splits option.splits if_splits)
  subgoal
    by (auto simp: oauth_login_body_def bindE_Inr wrapped_Inr finish_login_errors Let_def split: option.splits if_splits)
  done

lemma login_answers:
  assumes "CompleteOAuthLogin pg_normal sv replies iid v s now db = (answer, db')"
    and "(\<exists>user. answer = Inr user) \<or> answer = Inl IdIdentityLinkRequired"
  shows "consumes_intent iid db db'"
proof (cases "oauth_login_body pg_normal sv replies iid v s now db")
  case (Inl e)
  then have "e \<noteq> IdIdentityLinkRequired" using login_body_errors(1) by auto
  with Inl assms show ?thesis by (auto simp: CompleteOAuthLogin_def tx_run_def split: if_splits)
next
  case (Inr c)
  obtain a ce db1 n where c: "c = (a, ce, db1, n)" by (cases c)
  note body = Inr [unfolded c]
  then have "ce \<noteq> IdIdentityLinkRequired" using login_body_errors(2) by auto
  with assms body have "db1 = db'" by (auto simp: CompleteOAuthLogin_def tx_run_def split: if_splits reply.splits)
  with login_body_consumes [OF body] show ?thesis by simp
qed

lemma uses_consumes:
  assumes "uses_intent pg_normal iid db db'"
  shows "consumes_intent iid db db'"
  using assms
proof cases
  case (linked replies u v now)
  from linked obtain db1 db2 where "insert_login \<lparr>lg_user = u, lg_provider = vi_Provider v, lg_subject = vi_Subject v, lg_hash = None\<rparr> db = Inr db1"
    "consumeIntent (replies 4) iid now db1 = Inr db2"
    "insertIdentityAudit (replies 5) u ''OAUTH_IDENTITY_LINKED'' ''USER'' u now db2 = Inr db'"
    by (auto simp: CompleteOAuthLink_def tx_run_Inr bindE_Inr wrapped_Inr split: if_splits)
  then show ?thesis using consumed_intent [of "replies 4" iid now db1 db2]
    by (auto simp: consumes_intent_def insert_login_Inr insertIdentityAudit_Inr)
qed (blast intro: login_answers)+

text \<open>
  C12: a sign-on intent is used at most once. A login, a login that only finds out that the account
  must be linked, and a link each need an intent that nobody has used; afterwards, whatever else
  happens, the intent is not found, and neither a login nor a link with it succeeds or changes
  anything.
\<close>

theorem intent_used_once:
  assumes "identity_reachable pg_normal db" and "uses_intent pg_normal iid db db1" and "identity_steps pg_normal db1 db2"
  shows "(\<exists>i \<in> set (id_intents db). in_id i = iid \<and> in_consumed i = None) \<and>
    (\<forall>r now i. FindOAuthIntent r iid now db2 \<noteq> Inr i) \<and>
    (\<forall>sv replies v s now res db3. CompleteOAuthLogin pg_normal sv replies iid v s now db2 = (res, db3) \<longrightarrow>
       db3 = db2 \<and> (\<exists>e. res = Inl e)) \<and>
    (\<forall>replies u v now res db3. CompleteOAuthLink replies iid u v now db2 = (res, db3) \<longrightarrow> db3 = db2 \<and> (\<exists>e. res = Inl e))"
proof -
  from uses_consumes [OF assms(2)] obtain i i1 where i: "i \<in> set (id_intents db)" "in_id i = iid" "in_consumed i = None"
    and i1: "i1 \<in> set (id_intents db1)" "in_id i1 = iid" "in_consumed i1 \<noteq> None"
    unfolding consumes_intent_def by blast
  from steps_intents [OF assms(3)] i1 obtain i2 where i2: "i2 \<in> set (id_intents db2)" "in_id i2 = iid" "in_consumed i2 \<noteq> None"
    unfolding intents_keep_def by metis
  have "distinct (map in_id (id_intents db2))"
    using assms reachable_step [OF _ uses_intent_step] reachable_steps reachable_intents by metis
  then have "\<not> (in_id j = iid \<and> in_consumed j = None)" if "j \<in> set (id_intents db2)" for j
    using that i2 by (auto dest: key_unique)
  then have none: "usable_intent db2 iid now = None" for now
    by (auto simp: usable_intent_def find_None_iff)
  have "\<forall>r now i. FindOAuthIntent r iid now db2 \<noteq> Inr i"
    by (simp add: FindOAuthIntent_def none bindE_Inr)
  moreover have locked: "\<exists>e. lockIntent r iid now db2 = Inl e" for r now
    by (cases "lockIntent r iid now db2") (auto simp: lockIntent_def none bindE_Inr)
  have "db3 = db2 \<and> (\<exists>e. res = Inl e)" if "CompleteOAuthLogin pg_normal sv replies iid v s now db2 = (res, db3)"
    for sv replies v s now res db3
    using that locked [of "replies 1" now] by (auto simp: CompleteOAuthLogin_def oauth_login_body_def tx_run_def split: if_splits)
  moreover have "db3 = db2 \<and> (\<exists>e. res = Inl e)" if "CompleteOAuthLink replies iid u v now db2 = (res, db3)"
    for replies u v now res db3
    using that locked [of "replies 1" now] by (auto simp: CompleteOAuthLink_def tx_run_def split: if_splits)
  ultimately show ?thesis using i by blast
qed

end
