(* ===== verification/Identity_Codes.thy ===== *)
theory Identity_Codes
  imports Identity_Intents
begin

text \<open>
  How often a registration code can be guessed: from the moment a code is sent, requests guess in
  turn, and before each one others may do anything except to touch this registration.
\<close>

section \<open>Guessing\<close>

record guess =
  gu_code :: string
  gu_now :: int
  gu_server :: server
  gu_replies :: "nat \<Rightarrow> reply"
  gu_before :: "identity_db \<Rightarrow> identity_db"

definition keeps_registration :: "string \<Rightarrow> (identity_db \<Rightarrow> identity_db) \<Rightarrow> bool" where
  "keeps_registration rid f \<longleftrightarrow>
     (\<forall>db. filter (\<lambda>p. pe_id p = rid) (id_pending (f db)) = filter (\<lambda>p. pe_id p = rid) (id_pending db))"

text \<open>
  What a guess finds, answers and leaves. Any of its statements, or its commit, may fail, and a
  commit may take effect although it is answered with an error.
\<close>

record outcome =
  oc_before :: identity_db
  oc_answer :: "identity_error + User"
  oc_after :: identity_db

fun guesses :: "(string \<Rightarrow> string) \<Rightarrow> string \<Rightarrow> guess list \<Rightarrow> identity_db \<Rightarrow> outcome list" where
  "guesses pg_normal rid [] db = []"
| "guesses pg_normal rid (g # gs) db =
     (case VerifyRegistration pg_normal (gu_server g) (gu_replies g) rid (gu_code g) (gu_now g) (gu_before g db) of
        (answer, db') \<Rightarrow>
          \<lparr>oc_before = gu_before g db, oc_answer = answer, oc_after = db'\<rparr> # guesses pg_normal rid gs db')"

lemma length_guesses [simp]: "length (guesses pg_normal rid gs db) = length gs"
  by (induction gs arbitrary: db) (auto split: prod.splits)

text \<open>A guess makes an account when it says so, or when there is one more although it does not.\<close>

definition made_account :: "outcome \<Rightarrow> bool" where
  "made_account out \<longleftrightarrow> \<not> isl (oc_answer out) \<or> id_accounts (oc_after out) \<noteq> id_accounts (oc_before out)"

text \<open>A registration that still takes codes, with its code, expiry and count, and one that does not.\<close>

definition registration_rows :: "identity_db \<Rightarrow> string \<Rightarrow> pending_row list" where
  "registration_rows db rid = filter (\<lambda>p. pe_id p = rid) (id_pending db)"

definition awaiting :: "identity_db \<Rightarrow> string \<Rightarrow> string \<Rightarrow> int \<Rightarrow> nat \<Rightarrow> bool" where
  "awaiting db rid code expires n \<longleftrightarrow> (\<exists>p ps. registration_rows db rid = p # ps \<and> pe_consumed p = None \<and>
     pe_code p = code \<and> pe_expires p = expires \<and> (\<forall>q \<in> set (p # ps). pending_check q \<and> pe_attempts q = int n))"

definition exhausted :: "identity_db \<Rightarrow> string \<Rightarrow> bool" where
  "exhausted db rid \<longleftrightarrow> (\<forall>p ps. registration_rows db rid = p # ps \<longrightarrow> pe_consumed p \<noteq> None \<or> 5 \<le> pe_attempts p)"

lemma find_filter: "find P xs = (case filter P xs of [] \<Rightarrow> None | x # _ \<Rightarrow> Some x)"
  by (induction xs) auto

lemma find_pending_rows:
  "find_pending db rid = (case registration_rows db rid of [] \<Rightarrow> None | p # _ \<Rightarrow> Some p)"
  by (simp add: find_pending_def registration_rows_def find_filter)

lemma rows_kept [simp]: "keeps_registration rid f \<Longrightarrow> registration_rows (f db) rid = registration_rows db rid"
  by (simp add: keeps_registration_def registration_rows_def)

lemma filter_update_where:
  "(\<And>r. P (f r) = P r) \<Longrightarrow> filter P (update_where P f rs) = map f (filter P rs)"
  by (induction rs) auto

lemma set_pending_rows:
  assumes "set_pending rid f db = Inr db'" and "\<And>p. pe_id (f p) = pe_id p"
  shows "registration_rows db' rid = map f (registration_rows db rid) \<and> (\<forall>p \<in> set (registration_rows db' rid). pending_check p)"
proof -
  from assms(1) have "id_pending db' = update_where (\<lambda>p. pe_id p = rid) f (id_pending db)"
    and check: "\<forall>p \<in> set (id_pending db). pe_id p = rid \<longrightarrow> pending_check (f p)"
    by (auto simp: set_pending_def update_rows_Inr)
  then have "registration_rows db' rid = map f (registration_rows db rid)"
    by (simp add: registration_rows_def filter_update_where assms(2))
  with check show ?thesis by (auto simp: registration_rows_def)
qed

section \<open>One guess\<close>

lemma exhausted_guess:
  assumes "VerifyRegistration pg_normal sv replies rid code now db = (answer, db')" and "exhausted db rid"
  shows "(\<exists>e. answer = Inl e) \<and> db' = db"
proof -
  have "find_pending db rid = Some p \<Longrightarrow> pe_consumed p \<noteq> None \<or> 5 \<le> pe_attempts p" for p
    using assms(2) by (auto simp: find_pending_rows exhausted_def split: list.splits)
  then have "\<exists>e. verify_body pg_normal sv replies rid code now db = Inl e"
    by (cases "verify_body pg_normal sv replies rid code now db")
      (auto elim!: verify_body_Inr dest: leD)
  with assms(1) show ?thesis by (auto simp: VerifyRegistration_def tx_run_def split: if_splits)
qed

lemma awaiting_find:
  assumes "awaiting db rid right expires n"
  shows "\<exists>p. find_pending db rid = Some p \<and> pe_consumed p = None \<and> pe_code p = right \<and> pe_expires p = expires \<and>
    pe_attempts p = int n"
  using assms by (auto simp: awaiting_def find_pending_rows)

lemma awaiting_exhausted: "awaiting db rid right expires n \<Longrightarrow> 5 \<le> n \<Longrightarrow> exhausted db rid"
  by (auto simp: awaiting_def exhausted_def)

lemma awaiting_counted:
  assumes "awaiting db rid right expires n" and "n < 5"
  shows "\<exists>db'. set_pending rid (\<lambda>x. x\<lparr>pe_attempts := pe_attempts x + 1\<rparr>) db = Inr db' \<and> awaiting db' rid right expires (Suc n)"
proof -
  let ?f = "\<lambda>x. x\<lparr>pe_attempts := pe_attempts x + 1\<rparr>"
  from assms(1) obtain p ps where rows: "registration_rows db rid = p # ps" "pe_consumed p = None" "pe_code p = right"
    "pe_expires p = expires" and each: "\<forall>q \<in> set (p # ps). pending_check q \<and> pe_attempts q = int n"
    by (auto simp: awaiting_def)
  have check: "pending_check (?f q)" if "q \<in> set (id_pending db)" "pe_id q = rid" for q
  proof -
    from that have "q \<in> set (registration_rows db rid)" by (simp add: registration_rows_def)
    then have "q \<in> set (p # ps)" by (simp only: rows(1))
    with each assms(2) show ?thesis by (auto simp: pending_check_def)
  qed
  then obtain db' where db': "set_pending rid ?f db = Inr db'"
    by (auto simp: set_pending_def update_rows_def list_all_iff)
  from set_pending_rows [OF this] rows each have "awaiting db' rid right expires (Suc n)"
    unfolding awaiting_def by (intro exI [of _ "?f p"] exI [of _ "map ?f ps"]) auto
  with db' show ?thesis by blast
qed

lemma awaiting_consumed:
  assumes "awaiting db rid right expires n" and "id_pending db2 = id_pending db"
    and "set_pending rid (\<lambda>x. x\<lparr>pe_consumed := Some now\<rparr>) db2 = Inr db'"
  shows "exhausted db' rid"
  using set_pending_rows [OF assms(3)] assms(1,2)
  by (auto simp: awaiting_def exhausted_def registration_rows_def)

lemma wrong_code_guess:
  assumes "VerifyRegistration pg_normal sv replies rid code now db = (answer, db')"
    and "awaiting db rid right expires n" and "n < 5" and "code \<noteq> right" and "now < expires"
  shows "isl answer \<and> id_accounts db' = id_accounts db \<and>
    (db' = db \<and> answer \<noteq> Inl IdInvalidRegistration \<or> awaiting db' rid right expires (Suc n))"
proof -
  from awaiting_find [OF assms(2)] obtain p where p: "find_pending db rid = Some p" "pe_consumed p = None"
    "pe_code p = right" "pe_expires p = expires" "pe_attempts p = int n" by blast
  from awaiting_counted [OF assms(2,3)] obtain db1 where
    db1: "set_pending rid (\<lambda>x. x\<lparr>pe_attempts := pe_attempts x + 1\<rparr>) db = Inr db1" "awaiting db1 rid right expires (Suc n)"
    by blast
  have body: "verify_body pg_normal sv replies rid code now db =
      bindE (stmt (IdOther ''load registration verification'') (replies 1) (Inr (Some p))) (\<lambda>_.
      bindE (stmt (IdOther ''count registration attempt'') (replies 2) (Inr db1)) (\<lambda>db1.
        Inr (Inl IdInvalidRegistration, IdOther ''commit registration attempt'', db1, 3)))"
    using p db1(1) assms(3-5) by (simp add: verify_body_def stmt_def split: sum.splits reply.splits)
  have "id_accounts db1 = id_accounts db" using set_pending_Inr [OF db1(1)] by auto
  with assms(1) db1(2) show ?thesis
    unfolding VerifyRegistration_def tx_run_def body
    by (auto simp: stmt_def split: if_splits reply.splits sum.splits)
qed

lemma awaiting_guess:
  assumes "VerifyRegistration pg_normal sv replies rid code now db = (answer, db')"
    and "awaiting db rid right expires n" and "n < 5"
  shows "(\<not> isl answer \<or> id_accounts db' \<noteq> id_accounts db \<longrightarrow> code = right \<and> now < expires) \<and>
    (exhausted db' rid \<or> (\<exists>m. awaiting db' rid right expires m \<and> m \<le> 5 \<and>
       n + (if code \<noteq> right \<and> now < expires \<and> answer = Inl IdInvalidRegistration then 1 else 0) \<le> m))"
proof (cases "code \<noteq> right \<and> now < expires")
  case True
  with wrong_code_guess [OF assms] assms(2,3) show ?thesis by (auto intro: exI [of _ n] exI [of _ "Suc n"])
next
  case False
  from awaiting_find [OF assms(2)] obtain p where p: "find_pending db rid = Some p" "pe_consumed p = None"
    "pe_code p = right" "pe_expires p = expires" "pe_attempts p = int n" by blast
  from awaiting_counted [OF assms(2,3)] obtain db1 where
    db1: "set_pending rid (\<lambda>x. x\<lparr>pe_attempts := pe_attempts x + 1\<rparr>) db = Inr db1" "awaiting db1 rid right expires (Suc n)"
    by blast
  from tx_run_cases [OF assms(1) [unfolded VerifyRegistration_def]]
  consider "db' = db" "isl answer" | ans ce k where "verify_body pg_normal sv replies rid code now db = Inr (ans, ce, db', k)"
      "answer = ans \<or> isl answer"
    by fastforce
  then show ?thesis
  proof cases
    case 1
    with assms(2,3) False show ?thesis by (auto intro!: exI [of _ n])
  next
    case 2
    from 2(1) show ?thesis
    proof (cases rule: verify_body_Inr)
      case (wrong q)
      with db1 have "db' = db1" by simp
      moreover have "id_accounts db1 = id_accounts db" using set_pending_Inr [OF db1(1)] by auto
      ultimately show ?thesis using wrong 2(2) db1(2) assms(3) False by (auto intro!: exI [of _ "Suc n"])
    next
      case (right q a db2 db3)
      then have "id_pending db3 = id_pending db" by (auto simp: stmt_effects)
      with right p awaiting_consumed [OF assms(2), of db3 now db'] show ?thesis by auto
    qed
  qed
qed

section \<open>Any number of guesses\<close>

lemma exhausted_guesses:
  assumes "exhausted db rid" and "\<forall>g \<in> set gs. keeps_registration rid (gu_before g)" and "k < length gs"
  shows "\<not> made_account (guesses pg_normal rid gs db ! k)"
  using assms
proof (induction gs arbitrary: db k)
  case (Cons g gs)
  obtain answer db' where one: "VerifyRegistration pg_normal (gu_server g) (gu_replies g) rid (gu_code g) (gu_now g) (gu_before g db) = (answer, db')"
    by (cases "VerifyRegistration pg_normal (gu_server g) (gu_replies g) rid (gu_code g) (gu_now g) (gu_before g db)")
  from Cons.prems(1,2) have "exhausted (gu_before g db) rid" by (simp add: exhausted_def)
  from exhausted_guess [OF one this] have "\<exists>e. answer = Inl e" "db' = gu_before g db" "exhausted db' rid"
    using \<open>exhausted (gu_before g db) rid\<close> by auto
  with Cons one show ?case by (cases k) (auto simp: made_account_def)
qed simp

text \<open>A wrong guess that came in time and was answered: its request says that the code is invalid.\<close>

definition wrong_guess :: "string \<Rightarrow> int \<Rightarrow> guess \<times> outcome \<Rightarrow> bool" where
  "wrong_guess right expires = (\<lambda>(g, out). gu_code g \<noteq> right \<and> gu_now g < expires \<and> oc_answer out = Inl IdInvalidRegistration)"

lemma guesses_awaiting:
  assumes "awaiting db rid right expires n" "n \<le> 5" and "\<forall>g \<in> set gs. keeps_registration rid (gu_before g)"
    and "k < length gs" and "made_account (guesses pg_normal rid gs db ! k)"
  shows "n + length (filter (wrong_guess right expires) (take k (zip gs (guesses pg_normal rid gs db)))) < 5 \<and>
    gu_code (gs ! k) = right \<and> gu_now (gs ! k) < expires"
  using assms
proof (induction gs arbitrary: db n k)
  case (Cons g gs)
  let ?db = "gu_before g db"
  obtain answer db' where one: "VerifyRegistration pg_normal (gu_server g) (gu_replies g) rid (gu_code g) (gu_now g) ?db = (answer, db')"
    by (cases "VerifyRegistration pg_normal (gu_server g) (gu_replies g) rid (gu_code g) (gu_now g) ?db")
  from Cons.prems(1,3) have here: "awaiting ?db rid right expires n" by (simp add: awaiting_def)
  have lt: "n < 5"
  proof (rule ccontr)
    assume "\<not> n < 5"
    with awaiting_exhausted [OF Cons.prems(1)] have "exhausted db rid" by simp
    from exhausted_guesses [OF this Cons.prems(3,4), of pg_normal] Cons.prems(5) show False by blast
  qed
  note step = awaiting_guess [OF one here lt]
  show ?case
  proof (cases k)
    case 0
    with Cons.prems(5) one step lt show ?thesis by (simp add: made_account_def)
  next
    case (Suc j)
    with Cons.prems one have rest: "made_account (guesses pg_normal rid gs db' ! j)" "j < length gs"
      "\<forall>g \<in> set gs. keeps_registration rid (gu_before g)" by auto
    with exhausted_guesses [of db' rid gs j pg_normal] have "\<not> exhausted db' rid" by blast
    with step obtain m where m: "awaiting db' rid right expires m" "m \<le> 5"
      "n + (if gu_code g \<noteq> right \<and> gu_now g < expires \<and> answer = Inl IdInvalidRegistration then 1 else 0) \<le> m" by blast
    from Cons.IH [OF m(1,2) rest(3,2,1)] m(3) Suc one show ?thesis by (auto simp: wrong_guess_def split: if_splits)
  qed
qed simp

section \<open>A code that was sent\<close>

lemma begun_awaiting:
  assumes "BeginRegistration replies v ip now db = (Inr eligible, db')"
  shows "awaiting db' (pn_ID v) (pn_CodeHash v) (pn_ExpiresAt v) 0"
proof -
  let ?row = "\<lambda>owned. \<lparr>pe_id = pn_ID v, pe_email = pn_Email v, pe_name = pn_Name v,
    pe_hash = (if owned then None else Some (pn_PasswordHash v)), pe_code = pn_CodeHash v, pe_rate_key = pn_EmailRateKey v,
    pe_eligible = (\<not> owned), pe_attempts = 0, pe_created = now, pe_expires = pn_ExpiresAt v, pe_sent = now, pe_consumed = None\<rparr>"
  from assms have "\<exists>db1. store_pending (?row (\<not> eligible)) db1 = Inr db'"
    by (auto simp: BeginRegistration_def tx_run_Inr bindE_Inr)
  then obtain db1 where stored0: "store_pending (?row (\<not> eligible)) db1 = Inr db'" by blast
  define p where "p = ?row (\<not> eligible)"
  have p: "pe_id p = pn_ID v" "pe_code p = pn_CodeHash v" "pe_expires p = pn_ExpiresAt v" "pe_attempts p = 0" "pe_consumed p = None"
    by (simp_all add: p_def)
  from stored0 have stored: "store_pending p db1 = Inr db'" by (simp only: p_def)
  from stored have check: "pending_check p" and other: "\<forall>x \<in> set (id_pending db1). pe_id x = pe_id p \<longrightarrow> pe_email x = pe_email p"
    and rows: "id_pending db' = (if list_ex (\<lambda>x. pe_email x = pe_email p) (id_pending db1)
         then update_where (\<lambda>x. pe_email x = pe_email p) (\<lambda>_. p) (id_pending db1) else id_pending db1 @ [p])"
    by (auto simp: store_pending_def list_ex_iff split: if_splits)
  have mem: "p \<in> set (id_pending db')" unfolding rows by (auto simp: set_update_where list_ex_iff)
  have only: "q = p" if "q \<in> set (id_pending db')" "pe_id q = pe_id p" for q
  proof -
    from that(1) have "q = p \<or> q \<in> set (id_pending db1) \<and> pe_email q \<noteq> pe_email p"
      unfolding rows by (auto simp: set_update_where list_ex_iff split: if_splits)
    with other that(2) show ?thesis by blast
  qed
  have all: "q = p" if "q \<in> set (registration_rows db' (pn_ID v))" for q
    by (rule only) (use that p(1) in \<open>simp_all add: registration_rows_def\<close>)
  have "p \<in> set (registration_rows db' (pn_ID v))" using mem p(1) by (simp add: registration_rows_def)
  then obtain q ps where rows': "registration_rows db' (pn_ID v) = q # ps"
    by (cases "registration_rows db' (pn_ID v)") simp_all
  have "pending_check x \<and> pe_attempts x = int 0" if "x \<in> set (q # ps)" for x
    using all [of x] that check p(4) unfolding rows' by simp
  moreover have "q = p" by (rule all) (simp add: rows')
  ultimately show ?thesis using rows' p(2,3,5) unfolding awaiting_def by blast
qed

lemma resent_awaiting:
  assumes "ResendRegistration replies rid code ip now expires db = (Inr (email, eligible), db')"
  shows "awaiting db' rid code expires 0"
proof -
  let ?f = "\<lambda>x. x\<lparr>pe_code := code, pe_expires := expires, pe_sent := now, pe_attempts := 0\<rparr>"
  from assms obtain p db1 where p: "find_pending db rid = Some p" "pe_consumed p = None"
    and lim: "registrationLimits replies 2 (pe_rate_key p) ip now db = Inr db1" and set: "set_pending rid ?f db1 = Inr db'"
    by (auto simp: ResendRegistration_def tx_run_Inr bindE_Inr split: option.splits if_splits)
  from registrationLimits_Inr [OF lim] have "registration_rows db1 rid = registration_rows db rid"
    by (auto simp: registration_rows_def)
  with p(1) obtain ps where rows: "registration_rows db1 rid = p # ps"
    by (auto simp: find_pending_rows split: list.splits)
  from set_pending_rows [OF set] rows p(2) show ?thesis
    unfolding awaiting_def by (intro exI [of _ "?f p"] exI [of _ "map ?f ps"]) auto
qed

text \<open>
  C9: of the wrong guesses at a registration code that come before it expires, five are answered as
  wrong; then even the right code is refused until a new one is sent. However many guesses follow
  the sending of a code, whatever fails in them, and whatever others do between them to anything but
  this registration (which is not sent a new code), a guess that makes the account, even
  if its commit is answered with an error, is the code that was sent, comes before the code expires,
  and fewer than five earlier guesses were answered as wrong. A guess that ends in a failure of the
  database need not be counted, and is not answered as wrong.
\<close>

theorem code_guesses_bounded:
  assumes "BeginRegistration replies v ip now db = (Inr eligible, db0) \<and>
      rid = pn_ID v \<and> right = pn_CodeHash v \<and> expires = pn_ExpiresAt v \<or>
    ResendRegistration replies rid right ip now expires db = (Inr (email, eligible), db0)"
    and "\<forall>g \<in> set gs. keeps_registration rid (gu_before g)"
    and "k < length gs" and "made_account (guesses pg_normal rid gs db0 ! k)"
  shows "gu_code (gs ! k) = right \<and> gu_now (gs ! k) < expires \<and>
    length (filter (wrong_guess right expires) (take k (zip gs (guesses pg_normal rid gs db0)))) < 5"
proof -
  from assms(1) have "awaiting db0 rid right expires 0"
    using begun_awaiting [of replies v ip now db eligible db0]
      resent_awaiting [of replies rid right ip now expires db email eligible db0] by blast
  from guesses_awaiting [OF this _ assms(2-4)] show ?thesis by simp
qed

end
