(* ===== verification/Identity_Service.thy ===== *)
theory Identity_Service
  imports Identity_Registration
begin

text \<open>
  The application service of the identity module: \<open>application/service.go\<close>, \<open>cashiers.go\<close> and
  \<open>registration.go\<close>. One call gets its surroundings as a record \<open>identity_env\<close>: the password
  hasher, the token and code generators, the clock, the sign-on verifier, the digests, the answers
  of the database, and \<open>ev_others k\<close>, what other requests do to the store before the \<open>k\<close>-th store
  call of this one (\<open>k > 0\<close>). An error is the sentinel that \<open>errors.Is\<close> finds in it, or
  \<open>IdOther\<close> with its text. The log lines and the verification against the timing hash have no
  effect on the result.
\<close>

record Config =
  cf_AccessTokenLifetime :: int
  cf_RefreshTokenLifetime :: int
  cf_OAuthIntentLifetime :: int

record identity_env =
  ev_config :: Config
  ev_lower :: "string \<Rightarrow> string"
  ev_pg_normal :: "string \<Rightarrow> string"
  ev_parse_uuid :: "string \<Rightarrow> bool"
  ev_hashToken :: "string \<Rightarrow> string"
  ev_digest :: "string \<Rightarrow> string"
  ev_hash :: "string \<Rightarrow> identity_error + string"
  ev_verify :: "string \<Rightarrow> string \<Rightarrow> identity_error + bool \<times> bool"
  ev_token :: "nat \<Rightarrow> identity_error + string"
  ev_code :: "identity_error + string"
  ev_configured :: bool
  ev_oauth :: "Provider \<Rightarrow> string \<Rightarrow> string \<Rightarrow> identity_error + VerifiedIdentity"
  ev_now :: "nat \<Rightarrow> int"
  ev_replies :: "nat \<Rightarrow> nat \<Rightarrow> reply"
  ev_server :: "nat \<Rightarrow> server"
  ev_others :: "nat \<Rightarrow> identity_db \<Rightarrow> identity_db"
  ev_rank :: "account_row \<Rightarrow> nat"
  ev_tie :: "identity_audit_row \<Rightarrow> nat"

text \<open>\<open>fmt.Errorf("what: %w", err)\<close>\<close>

definition wrap :: "string \<Rightarrow> identity_error \<Rightarrow> identity_error" where
  "wrap what e = (case e of IdOther m \<Rightarrow> IdOther (what @ '': '' @ m) | _ \<Rightarrow> e)"

definition wrapE :: "string \<Rightarrow> identity_error + 'a \<Rightarrow> identity_error + 'a" where
  "wrapE what = map_sum (wrap what) id"

text \<open>The next store call, unless the last one failed; others may have moved the store meanwhile.\<close>

definition bindS ::
    "identity_env \<Rightarrow> nat \<Rightarrow> ('e + 'a) \<times> identity_db \<Rightarrow> ('a \<Rightarrow> identity_db \<Rightarrow> ('e + 'b) \<times> identity_db) \<Rightarrow>
     ('e + 'b) \<times> identity_db" where
  "bindS env k m f = (case m of (Inl e, db) \<Rightarrow> (Inl e, db) | (Inr v, db) \<Rightarrow> f v (ev_others env k db))"

definition no_user :: User where
  "no_user = \<lparr>us_ID = [], us_Name = [], us_NormalizedEmail = [], us_Role = RoleOther [], us_Status = AccountOther [],
     us_PasswordChangeRequired = False\<rparr>"

section \<open>Sessions\<close>

definition config_valid :: "Config \<Rightarrow> bool" where
  "config_valid config \<longleftrightarrow> \<not> (cf_AccessTokenLifetime config \<le> 0 \<or>
     cf_RefreshTokenLifetime config \<le> cf_AccessTokenLifetime config \<or> cf_OAuthIntentLifetime config \<le> 0)"

text \<open>What \<open>New\<close> keeps beside its arguments: the configuration and the timing hash.\<close>

definition New_service :: "identity_env \<Rightarrow> identity_error + Config \<times> string" where
  "New_service env =
     (if \<not> config_valid (ev_config env) then Inl (IdOther ''invalid identity application configuration'')
      else bindE (wrapE ''create login timing hash'' (ev_hash env ''b46 timing equalizer password'')) (\<lambda>dummyHash.
        Inr (ev_config env, dummyHash)))"

definition makeSession :: "identity_env \<Rightarrow> nat \<Rightarrow> string \<Rightarrow> identity_error + SessionTokens \<times> NewSession" where
  "makeSession env c userID =
     bindE (wrapE ''generate access token'' (ev_token env 0)) (\<lambda>access.
     bindE (wrapE ''generate refresh token'' (ev_token env 1)) (\<lambda>refresh.
       let now = ev_now env c;
           accessExpiry = now + cf_AccessTokenLifetime (ev_config env);
           refreshExpiry = now + cf_RefreshTokenLifetime (ev_config env) in
       Inr (\<lparr>st_AccessToken = access, st_AccessTokenExpiresAt = accessExpiry, st_RefreshToken = refresh,
             st_RefreshTokenExpiresAt = refreshExpiry, st_User = no_user\<rparr>,
            \<lparr>ns_UserID = userID, ns_FamilyID = [], ns_ParentSessionID = [], ns_AccessTokenHash = ev_hashToken env access,
             ns_RefreshTokenHash = ev_hashToken env refresh, ns_AccessExpiresAt = accessExpiry,
             ns_RefreshExpiresAt = refreshExpiry\<rparr>)))"

text \<open>\<open>makeSession\<close> and the \<open>k\<close>-th store call, whose error is wrapped.\<close>

definition open_session ::
    "identity_env \<Rightarrow> nat \<Rightarrow> string \<Rightarrow> string \<Rightarrow> identity_db \<Rightarrow> (identity_error + SessionTokens) \<times> identity_db" where
  "open_session env k what userID db =
     (case makeSession env 0 userID of
        Inl e \<Rightarrow> (Inl e, db)
      | Inr (plain, stored) \<Rightarrow>
          (case CreateSession (ev_server env k) (ev_replies env k) stored db of
             (Inl e, db1) \<Rightarrow> (Inl (wrap what e), db1)
           | (Inr user, db1) \<Rightarrow> (Inr (plain\<lparr>st_User := user\<rparr>), db1)))"

text \<open>The stored hash is replaced when its parameters are not the configured ones.\<close>

definition upgrade_hash ::
    "identity_env \<Rightarrow> string \<Rightarrow> string \<Rightarrow> bool \<Rightarrow> identity_db \<Rightarrow> (identity_error + unit) \<times> identity_db" where
  "upgrade_hash env userID password needsRehash db =
     (if \<not> needsRehash then (Inr (), db)
      else case ev_hash env password of
        Inl e \<Rightarrow> (Inl (wrap ''upgrade password hash'' e), db)
      | Inr replacement \<Rightarrow>
          (case UpdatePasswordHash (ev_replies env 1 0) userID replacement (ev_others env 1 db) of
             (Inl e, db1) \<Rightarrow> (Inl (wrap ''store upgraded password hash'' e), db1)
           | (Inr _, db1) \<Rightarrow> (Inr (), db1)))"

definition PasswordLogin ::
    "identity_env \<Rightarrow> string \<Rightarrow> string \<Rightarrow> identity_db \<Rightarrow> (identity_error + SessionTokens) \<times> identity_db" where
  "PasswordLogin env email password db =
     (case NormalizeEmail (ev_lower env) email of
        Inl _ \<Rightarrow> (Inl IdInvalidCredentials, db)
      | Inr normalizedEmail \<Rightarrow>
          if ValidatePassword password \<noteq> None then (Inl IdInvalidCredentials, db)
          else
            (case FindPassword (ev_replies env 0 0) db normalizedEmail of
               Inl e \<Rightarrow> (Inl (wrap ''find password identity'' e), db)
             | Inr record \<Rightarrow>
                 (case ev_verify env password (pw_PasswordHash record) of
                    Inl e \<Rightarrow> (Inl (wrap ''verify password'' e), db)
                  | Inr (matches, needsRehash) \<Rightarrow>
                      if \<not> matches then (Inl IdInvalidCredentials, db)
                      else if us_Status (pw_User record) = AccountDisabled then (Inl IdAccountDisabled, db)
                      else bindS env 2 (upgrade_hash env (us_ID (pw_User record)) password needsRehash db) (\<lambda>_ db1.
                        open_session env 2 ''create login session'' (us_ID (pw_User record)) db1))))"

definition Refresh ::
    "identity_env \<Rightarrow> string \<Rightarrow> identity_db \<Rightarrow> (identity_error + SessionTokens) \<times> identity_db" where
  "Refresh env refreshToken db =
     (if TrimSpace refreshToken = [] then (Inl IdUnauthenticated, db)
      else case makeSession env 0 [] of
        Inl e \<Rightarrow> (Inl e, db)
      | Inr (plain, replacement) \<Rightarrow>
          (case RotateRefresh (ev_server env 0) (ev_replies env 0) (ev_hashToken env refreshToken) replacement (ev_now env 1) db of
             (Inl e, db1) \<Rightarrow>
               (Inl (if e = IdRefreshReuse \<or> e = IdUnauthenticated \<or> e = IdAccountDisabled then IdUnauthenticated
                     else wrap ''rotate refresh session'' e), db1)
           | (Inr user, db1) \<Rightarrow> (Inr (plain\<lparr>st_User := user\<rparr>), db1)))"

definition Authenticate :: "identity_env \<Rightarrow> string \<Rightarrow> identity_db \<Rightarrow> identity_error + Principal" where
  "Authenticate env accessToken db =
     (if TrimSpace accessToken = [] then Inl IdUnauthenticated
      else case AuthenticateAccess (ev_replies env 0 0) (ev_hashToken env accessToken) (ev_now env 0) db of
        Inl e \<Rightarrow> Inl (if e = IdUnauthenticated \<or> e = IdAccountDisabled then IdUnauthenticated
                      else wrap ''authenticate access token'' e)
      | Inr caller \<Rightarrow> Inr caller)"

definition Logout :: "identity_env \<Rightarrow> string \<Rightarrow> identity_db \<Rightarrow> (identity_error + unit) \<times> identity_db" where
  "Logout env accessToken db =
     (case Authenticate env accessToken db of
        Inl e \<Rightarrow> (if e = IdUnauthenticated then Inr () else Inl e, db)
      | Inr caller \<Rightarrow>
          (case RevokeFamily (ev_replies env 1 0) (pr_FamilyID caller) ''LOGOUT'' (ev_now env 1) (ev_others env 1 db) of
             (res, db1) \<Rightarrow> (wrapE ''revoke logout family'' res, db1)))"

section \<open>Single sign-on\<close>

record OAuthStart =
  os_IntentID :: string
  os_Provider :: Provider
  os_Nonce :: string
  os_ExpiresAt :: int

definition beginOAuth ::
    "identity_env \<Rightarrow> Provider \<Rightarrow> OAuthPurpose \<Rightarrow> string \<Rightarrow> identity_db \<Rightarrow> (identity_error + OAuthStart) \<times> identity_db" where
  "beginOAuth env provider purpose boundUserID db =
     (if provider \<noteq> ProviderGoogle then (Inl IdInvalidInput, db)
      else case wrapE ''generate oauth nonce'' (ev_token env 0) of
        Inl e \<Rightarrow> (Inl e, db)
      | Inr nonce \<Rightarrow>
          (case CreateOAuthIntent (ev_server env 0) (ev_replies env 0 0)
                  \<lparr>oi_ID = [], oi_Provider = provider, oi_Purpose = purpose, oi_BoundUserID = boundUserID,
                   oi_NonceHash = ev_hashToken env nonce,
                   oi_ExpiresAt = ev_now env 0 + cf_OAuthIntentLifetime (ev_config env)\<rparr> db of
             (Inl e, db1) \<Rightarrow> (Inl (wrap ''create oauth intent'' e), db1)
           | (Inr intent, db1) \<Rightarrow> (Inr \<lparr>os_IntentID = oi_ID intent, os_Provider = provider, os_Nonce = nonce,
               os_ExpiresAt = oi_ExpiresAt intent\<rparr>, db1)))"

definition BeginOAuthLogin :: "identity_env \<Rightarrow> Provider \<Rightarrow> identity_db \<Rightarrow> (identity_error + OAuthStart) \<times> identity_db" where
  "BeginOAuthLogin env provider = beginOAuth env provider OAuthLogin []"

definition BeginOAuthLink ::
    "identity_env \<Rightarrow> Principal \<Rightarrow> Provider \<Rightarrow> identity_db \<Rightarrow> (identity_error + OAuthStart) \<times> identity_db" where
  "BeginOAuthLink env caller provider db =
     (if pr_PasswordChangeRequired caller then (Inl IdPasswordChangeRequired, db)
      else beginOAuth env provider OAuthLink (pr_UserID caller) db)"

definition normalizeVerifiedIdentity :: "(string \<Rightarrow> string) \<Rightarrow> VerifiedIdentity \<Rightarrow> identity_error + VerifiedIdentity" where
  "normalizeVerifiedIdentity lower v =
     (if \<not> Provider_OAuth (vi_Provider v) \<or> TrimSpace (vi_Subject v) = [] then Inl IdInvalidOAuthToken
      else case NormalizeEmail lower (vi_Email v) of
        Inl _ \<Rightarrow> Inl IdInvalidOAuthToken
      | Inr normalized \<Rightarrow> Inr (v\<lparr>vi_Email := normalized, vi_SuggestedName := DisplayName (vi_SuggestedName v) normalized\<rparr>))"

text \<open>The identity that a provider's token proves for an intent.\<close>

definition proven_identity :: "identity_env \<Rightarrow> OAuthIntent \<Rightarrow> string \<Rightarrow> identity_error + VerifiedIdentity" where
  "proven_identity env intent providerToken =
     (case ev_oauth env (oi_Provider intent) providerToken (oi_NonceHash intent) of
        Inl _ \<Rightarrow> Inl IdInvalidOAuthToken
      | Inr v \<Rightarrow> normalizeVerifiedIdentity (ev_lower env) v)"

definition Service_OAuthLogin ::
    "identity_env \<Rightarrow> string \<Rightarrow> string \<Rightarrow> identity_db \<Rightarrow> (identity_error + SessionTokens) \<times> identity_db" where
  "Service_OAuthLogin env intentID providerToken db =
     (case FindOAuthIntent (ev_replies env 0 0) intentID (ev_now env 0) db of
        Inl _ \<Rightarrow> (Inl IdInvalidOAuthIntent, db)
      | Inr intent \<Rightarrow>
          if oi_Purpose intent \<noteq> OAuthLogin \<or> oi_Provider intent \<noteq> ProviderGoogle then (Inl IdInvalidOAuthIntent, db)
          else case proven_identity env intent providerToken of
            Inl e \<Rightarrow> (Inl e, db)
          | Inr verified \<Rightarrow>
              if \<not> vi_EmailVerified verified then (Inl IdInvalidOAuthToken, db)
              else case makeSession env 1 [] of
                Inl e \<Rightarrow> (Inl e, db)
              | Inr (plain, stored) \<Rightarrow>
                  (case CompleteOAuthLogin (ev_pg_normal env) (ev_server env 1) (ev_replies env 1) (oi_ID intent) verified stored
                          (ev_now env 2) (ev_others env 1 db) of
                     (Inl e, db1) \<Rightarrow> (Inl e, db1)
                   | (Inr user, db1) \<Rightarrow> (Inr (plain\<lparr>st_User := user\<rparr>), db1)))"

definition LinkOAuth ::
    "identity_env \<Rightarrow> Principal \<Rightarrow> string \<Rightarrow> string \<Rightarrow> identity_db \<Rightarrow> (identity_error + unit) \<times> identity_db" where
  "LinkOAuth env caller intentID providerToken db =
     (if pr_PasswordChangeRequired caller then (Inl IdPasswordChangeRequired, db)
      else case FindOAuthIntent (ev_replies env 0 0) intentID (ev_now env 0) db of
        Inl _ \<Rightarrow> (Inl IdInvalidOAuthIntent, db)
      | Inr intent \<Rightarrow>
          if oi_Purpose intent \<noteq> OAuthLink \<or> oi_Provider intent \<noteq> ProviderGoogle \<or>
             oi_BoundUserID intent \<noteq> pr_UserID caller
          then (Inl IdInvalidOAuthIntent, db)
          else case proven_identity env intent providerToken of
            Inl e \<Rightarrow> (Inl IdInvalidOAuthToken, db)
          | Inr verified \<Rightarrow>
              CompleteOAuthLink (ev_replies env 1) (oi_ID intent) (pr_UserID caller) verified (ev_now env 1) (ev_others env 1 db))"

definition Me :: "identity_env \<Rightarrow> Principal \<Rightarrow> identity_db \<Rightarrow> identity_error + UserView" where
  "Me env caller db = UserView_store (ev_replies env 0) db (pr_UserID caller)"

section \<open>Administration\<close>

definition Authorize :: "Principal \<Rightarrow> Role \<Rightarrow> identity_error option" where
  "Authorize caller required =
     (if pr_Status caller \<noteq> AccountActive then Some IdUnauthenticated
      else if pr_PasswordChangeRequired caller then Some IdPasswordChangeRequired
      else if pr_Role caller \<noteq> required then Some IdForbidden
      else None)"

definition BootstrapAdmin ::
    "identity_env \<Rightarrow> string \<Rightarrow> string \<Rightarrow> string \<Rightarrow> identity_db \<Rightarrow> (identity_error + User) \<times> identity_db" where
  "BootstrapAdmin env name email password db =
     (case NormalizeEmail (ev_lower env) email of
        Inl _ \<Rightarrow> (Inl IdInvalidInput, db)
      | Inr normalized \<Rightarrow>
          if ValidatePassword password \<noteq> None then (Inl IdInvalidInput, db)
          else case ev_hash env password of
            Inl e \<Rightarrow> (Inl (wrap ''hash bootstrap password'' e), db)
          | Inr hash \<Rightarrow> BootstrapAdmin_store (ev_pg_normal env) (ev_server env 0) (ev_replies env 0)
              (DisplayName name normalized) normalized hash (ev_now env 0) db)"

definition RecoverAdminPassword ::
    "identity_env \<Rightarrow> string \<Rightarrow> string \<Rightarrow> identity_db \<Rightarrow> (identity_error + User) \<times> identity_db" where
  "RecoverAdminPassword env email password db =
     (case NormalizeEmail (ev_lower env) email of
        Inl _ \<Rightarrow> (Inl IdInvalidInput, db)
      | Inr normalized \<Rightarrow>
          if ValidatePassword password \<noteq> None then (Inl IdInvalidInput, db)
          else case ev_hash env password of
            Inl e \<Rightarrow> (Inl (wrap ''hash admin recovery password'' e), db)
          | Inr hash \<Rightarrow> RecoverAdminPassword_store (ev_replies env 0) normalized hash (ev_now env 0) db)"

definition DisableUser ::
    "identity_env \<Rightarrow> Principal \<Rightarrow> string \<Rightarrow> identity_db \<Rightarrow> (identity_error + unit) \<times> identity_db" where
  "DisableUser env actor userID db =
     (if pr_Role actor \<noteq> RoleAdmin then (Inl IdForbidden, db)
      else DisableUser_store (ev_pg_normal env) (ev_replies env 0) (pr_UserID actor) userID (ev_now env 0) db)"

definition ListCashiers :: "identity_env \<Rightarrow> Principal \<Rightarrow> AccountStatus \<Rightarrow> identity_db \<Rightarrow> identity_error + UserView list" where
  "ListCashiers env actor status db =
     (case Authorize actor RoleAdmin of
        Some e \<Rightarrow> Inl e
      | None \<Rightarrow>
          if status \<noteq> AccountOther [] \<and> status \<noteq> AccountActive \<and> status \<noteq> AccountDisabled then Inl IdInvalidInput
          else ListCashiers_store (ev_rank env) (ev_replies env 0 0) db status)"

definition Cashier :: "identity_env \<Rightarrow> Principal \<Rightarrow> string \<Rightarrow> identity_db \<Rightarrow> identity_error + UserView" where
  "Cashier env actor cashierID db =
     (case Authorize actor RoleAdmin of
        Some e \<Rightarrow> Inl e
      | None \<Rightarrow>
          if \<not> ev_parse_uuid env cashierID then Inl IdInvalidInput
          else CashierView (ev_tie env) (ev_replies env 0) db cashierID)"

definition SetCashierStatus ::
    "identity_env \<Rightarrow> Principal \<Rightarrow> string \<Rightarrow> AccountStatus \<Rightarrow> identity_db \<Rightarrow> (identity_error + UserView) \<times> identity_db" where
  "SetCashierStatus env actor cashierID target db =
     (case Authorize actor RoleAdmin of
        Some e \<Rightarrow> (Inl e, db)
      | None \<Rightarrow>
          if \<not> ev_parse_uuid env cashierID then (Inl IdInvalidInput, db)
          else if target \<noteq> AccountActive \<and> target \<noteq> AccountDisabled then (Inl IdInvalidInput, db)
          else SetCashierStatus_store (ev_tie env) (ev_pg_normal env) (ev_replies env 0) (ev_replies env 1)
                 (pr_UserID actor) cashierID target (ev_now env 0) db)"

definition ResetCashierPassword ::
    "identity_env \<Rightarrow> Principal \<Rightarrow> string \<Rightarrow> string \<Rightarrow> identity_db \<Rightarrow> (identity_error + UserView) \<times> identity_db" where
  "ResetCashierPassword env actor cashierID temporaryPassword db =
     (case Authorize actor RoleAdmin of
        Some e \<Rightarrow> (Inl e, db)
      | None \<Rightarrow>
          if \<not> ev_parse_uuid env cashierID \<or> ValidatePassword temporaryPassword \<noteq> None then (Inl IdInvalidInput, db)
          else case ev_hash env temporaryPassword of
            Inl e \<Rightarrow> (Inl (wrap ''hash temporary password'' e), db)
          | Inr hash \<Rightarrow> ResetCashierPassword_store (ev_tie env) (ev_pg_normal env) (ev_replies env 0) (ev_replies env 1)
              (pr_UserID actor) cashierID hash (ev_now env 0) db)"

definition ChangeOwnPassword ::
    "identity_env \<Rightarrow> Principal \<Rightarrow> string \<Rightarrow> string \<Rightarrow> identity_db \<Rightarrow> (identity_error + unit) \<times> identity_db" where
  "ChangeOwnPassword env actor currentPassword newPassword db =
     (if pr_Status actor \<noteq> AccountActive then (Inl IdUnauthenticated, db)
      else if ValidatePassword newPassword \<noteq> None \<or> currentPassword = newPassword then (Inl IdInvalidInput, db)
      else case UserView_store (ev_replies env 0) db (pr_UserID actor) of
        Inl e \<Rightarrow> (Inl e, db)
      | Inr view \<Rightarrow>
          let db1 = ev_others env 1 db in
          (case FindPassword (ev_replies env 1 0) db1 (us_NormalizedEmail (uv_User view)) of
             Inl e \<Rightarrow> (Inl (wrap ''read current password'' e), db1)
           | Inr record \<Rightarrow>
               (case ev_verify env currentPassword (pw_PasswordHash record) of
                  Inl e \<Rightarrow> (Inl (wrap ''verify current password'' e), db1)
                | Inr (matches, _) \<Rightarrow>
                    if \<not> matches then (Inl IdInvalidCredentials, db1)
                    else case ev_hash env newPassword of
                      Inl e \<Rightarrow> (Inl (wrap ''hash new password'' e), db1)
                    | Inr hash \<Rightarrow> ChangeOwnPassword_store (ev_pg_normal env) (ev_replies env 2) (pr_UserID actor)
                        (pr_FamilyID actor) (pw_PasswordHash record) hash (ev_now env 0) (ev_others env 2 db1))))"

end
