(* ===== verification/Identity_Signup.thy ===== *)
theory Identity_Signup
  imports Identity_Service
begin

text \<open>
  The registration service (\<open>application/registration.go\<close> of the identity module): an account is
  made only for who reads the mailbox of its address. A call that reaches the mailer answers with
  the message it hands over (\<open>None\<close> when the address is taken); the delivery error is only logged.
  \<open>ev_digest\<close> is \<open>digest\<close>, HMAC-SHA256 under the service's key in hexadecimal.
\<close>

definition registrationLifetime :: int where
  "registrationLifetime = 10 * minute"

record RegistrationStart =
  rs_ID :: string
  rs_ExpiresAt :: int

type_synonym message = "string \<times> string"

definition code_digest :: "identity_env \<Rightarrow> string \<Rightarrow> string \<Rightarrow> string" where
  "code_digest env rid code = ev_digest env (rid @ '':'' @ code)"

definition ip_key :: "identity_env \<Rightarrow> string \<Rightarrow> string" where
  "ip_key env clientIP = ''ip:'' @ ev_digest env clientIP"

text \<open>The checks, the hash, the identifier and the code: the registration to store and its code.\<close>

definition prepare_registration ::
    "identity_env \<Rightarrow> string \<Rightarrow> string \<Rightarrow> bool \<Rightarrow> string \<Rightarrow> string \<Rightarrow> string \<Rightarrow> identity_error + PendingRegistration \<times> string" where
  "prepare_registration env who what eligible name email password =
     (let trimmed = TrimSpace name in
      if RuneCountInString trimmed < 1 \<or> RuneCountInString trimmed > 120 then Inl IdInvalidRegistrationName
      else case NormalizeEmail (ev_lower env) email of
        Inl _ \<Rightarrow> Inl IdInvalidRegistrationEmail
      | Inr normalizedEmail \<Rightarrow>
          if ValidatePassword password \<noteq> None then Inl IdInvalidRegistrationPassword
          else if \<not> ev_configured env then Inl IdEmailUnavailable
          else bindE (wrapE (''hash '' @ who @ '' password'') (ev_hash env password)) (\<lambda>passwordHash.
               bindE (wrapE (''generate '' @ what @ '' ID'') (ev_token env 0)) (\<lambda>rid.
               bindE (wrapE (''generate '' @ what @ '' code'') (ev_code env)) (\<lambda>code.
                 let now = ev_now env 0 in
                 Inr (\<lparr>pn_ID = rid, pn_Email = normalizedEmail, pn_Name = trimmed, pn_PasswordHash = passwordHash,
                       pn_CodeHash = code_digest env rid code, pn_EmailRateKey = ''email:'' @ ev_digest env normalizedEmail,
                       pn_Eligible = eligible, pn_CreatedAt = now, pn_ExpiresAt = now + registrationLifetime\<rparr>, code)))))"

definition Begin ::
    "identity_env \<Rightarrow> string \<Rightarrow> string \<Rightarrow> string \<Rightarrow> string \<Rightarrow> identity_db \<Rightarrow>
     (identity_error + RegistrationStart \<times> message option) \<times> identity_db" where
  "Begin env name email password clientIP db =
     (case prepare_registration env ''registration'' ''registration'' True name email password of
        Inl e \<Rightarrow> (Inl e, db)
      | Inr (v, code) \<Rightarrow>
          (case BeginRegistration (ev_replies env 0) v (ip_key env clientIP) (ev_now env 0) db of
             (Inl e, db1) \<Rightarrow> (Inl e, db1)
           | (Inr eligible, db1) \<Rightarrow>
               (Inr (\<lparr>rs_ID = pn_ID v, rs_ExpiresAt = pn_ExpiresAt v\<rparr>, if eligible then Some (pn_Email v, code) else None), db1)))"

definition Resend ::
    "identity_env \<Rightarrow> string \<Rightarrow> string \<Rightarrow> identity_db \<Rightarrow> (identity_error + RegistrationStart \<times> message option) \<times> identity_db" where
  "Resend env rid clientIP db =
     (if \<not> ev_configured env then (Inl IdEmailUnavailable, db)
      else if TrimSpace rid = [] then (Inl IdInvalidRegistration, db)
      else case wrapE ''generate registration code'' (ev_code env) of
        Inl e \<Rightarrow> (Inl e, db)
      | Inr code \<Rightarrow>
          (let now = ev_now env 0; expires = now + registrationLifetime in
           case ResendRegistration (ev_replies env 0) rid (code_digest env rid code) (ip_key env clientIP) now expires db of
             (Inl e, db1) \<Rightarrow> (Inl e, db1)
           | (Inr (email, eligible), db1) \<Rightarrow>
               (Inr (\<lparr>rs_ID = rid, rs_ExpiresAt = expires\<rparr>, if eligible then Some (email, code) else None), db1)))"

text \<open>A digit is one byte, and the runes of any other text are not digits.\<close>

definition validRegistrationCode :: "string \<Rightarrow> string \<Rightarrow> bool" where
  "validRegistrationCode rid code \<longleftrightarrow>
     \<not> (TrimSpace rid = [] \<or> length code \<noteq> 6) \<and> list_all (\<lambda>(r, _). \<not> (r < 48 \<or> r > 57)) (utf8_segs code)"

definition Verify ::
    "identity_env \<Rightarrow> string \<Rightarrow> string \<Rightarrow> identity_db \<Rightarrow> (identity_error + SessionTokens) \<times> identity_db" where
  "Verify env rid code db =
     (if \<not> validRegistrationCode rid code then (Inl IdInvalidRegistration, db)
      else bindS env 1 (VerifyRegistration (ev_pg_normal env) (ev_server env 0) (ev_replies env 0) rid
             (code_digest env rid code) (ev_now env 0) db) (\<lambda>user db1.
        case makeSession env 1 (us_ID user) of
          Inl e \<Rightarrow> (Inl e, db1)
        | Inr (plain, stored) \<Rightarrow>
            (case CreateSession (ev_server env 1) (ev_replies env 1) stored db1 of
               (Inl e, db2) \<Rightarrow> (Inl (wrap ''create registration session'' e), db2)
             | (Inr created, db2) \<Rightarrow> (Inr (plain\<lparr>st_User := created\<rparr>), db2))))"

definition BeginCashier ::
    "identity_env \<Rightarrow> Principal \<Rightarrow> string \<Rightarrow> string \<Rightarrow> string \<Rightarrow> string \<Rightarrow> identity_db \<Rightarrow>
     (identity_error + RegistrationStart \<times> message option) \<times> identity_db" where
  "BeginCashier env actor name email temporaryPassword clientIP db =
     (case Authorize actor RoleAdmin of
        Some e \<Rightarrow> (Inl e, db)
      | None \<Rightarrow>
          (case prepare_registration env ''cashier'' ''cashier registration'' False name email temporaryPassword of
             Inl e \<Rightarrow> (Inl e, db)
           | Inr (v, code) \<Rightarrow>
               (case BeginCashierRegistration (ev_replies env 0) v (pr_UserID actor) (ip_key env clientIP) (ev_now env 0) db of
                  (Inl e, db1) \<Rightarrow> (Inl e, db1)
                | (Inr _, db1) \<Rightarrow>
                    (Inr (\<lparr>rs_ID = pn_ID v, rs_ExpiresAt = pn_ExpiresAt v\<rparr>, Some (pn_Email v, code)), db1))))"

definition ResendCashier ::
    "identity_env \<Rightarrow> Principal \<Rightarrow> string \<Rightarrow> string \<Rightarrow> identity_db \<Rightarrow>
     (identity_error + RegistrationStart \<times> message option) \<times> identity_db" where
  "ResendCashier env actor rid clientIP db =
     (case Authorize actor RoleAdmin of
        Some e \<Rightarrow> (Inl e, db)
      | None \<Rightarrow>
          if \<not> ev_configured env then (Inl IdEmailUnavailable, db)
          else if TrimSpace rid = [] then (Inl IdInvalidRegistration, db)
          else case wrapE ''generate cashier registration code'' (ev_code env) of
            Inl e \<Rightarrow> (Inl e, db)
          | Inr code \<Rightarrow>
              (let now = ev_now env 0; expires = now + registrationLifetime in
               case ResendCashierRegistration (ev_replies env 0) (pr_UserID actor) rid (code_digest env rid code)
                      (ip_key env clientIP) now expires db of
                 (Inl e, db1) \<Rightarrow> (Inl e, db1)
               | (Inr email, db1) \<Rightarrow> (Inr (\<lparr>rs_ID = rid, rs_ExpiresAt = expires\<rparr>, Some (email, code)), db1)))"

definition VerifyCashier ::
    "identity_env \<Rightarrow> Principal \<Rightarrow> string \<Rightarrow> string \<Rightarrow> identity_db \<Rightarrow> (identity_error + UserView) \<times> identity_db" where
  "VerifyCashier env actor rid code db =
     (case Authorize actor RoleAdmin of
        Some e \<Rightarrow> (Inl e, db)
      | None \<Rightarrow>
          if \<not> validRegistrationCode rid code then (Inl IdInvalidRegistration, db)
          else VerifyCashierRegistration (ev_tie env) (ev_pg_normal env) (ev_server env 0) (ev_replies env 0) (ev_replies env 1)
                 (pr_UserID actor) rid (code_digest env rid code) (ev_now env 0) db)"

definition Cleanup :: "identity_env \<Rightarrow> identity_db \<Rightarrow> (identity_error + unit) \<times> identity_db" where
  "Cleanup env db = DeleteExpiredRegistrations (ev_replies env 0) (ev_now env 0) db"

end
