(* ===== verification/Identity_Login.thy ===== *)
theory Identity_Login
  imports Identity_Codes Identity_Signup
begin

text \<open>What a login with a password needs and gives, through the service and the store.\<close>

section \<open>Credentials\<close>

text \<open>The password matches the stored hash of an account that may log in and is not disabled.\<close>

definition credentials :: "identity_env \<Rightarrow> identity_db \<Rightarrow> string \<Rightarrow> string \<Rightarrow> string \<Rightarrow> bool" where
  "credentials env db email password userID \<longleftrightarrow>
     ValidatePassword password = None \<and>
     (\<exists>address l a rehash. NormalizeEmail (ev_lower env) email = Inr address \<and>
        find (\<lambda>l. lg_provider l = ProviderPassword \<and> lg_subject l = address) (id_logins db) = Some l \<and>
        account_of db (lg_user l) = Some a \<and> ac_id a = userID \<and> may_log_in a \<and> ac_status a \<noteq> AccountDisabled \<and>
        ev_verify env password (case lg_hash l of None \<Rightarrow> [] | Some h \<Rightarrow> h) = Inr (True, rehash))"

lemma FindPassword_Inr:
  assumes "FindPassword r db address = Inr rec"
  shows "\<exists>l a. find (\<lambda>l. lg_provider l = ProviderPassword \<and> lg_subject l = address) (id_logins db) = Some l \<and>
    account_of db (lg_user l) = Some a \<and> may_log_in a \<and> pw_User rec = user_of a \<and>
    pw_PasswordHash rec = (case lg_hash l of None \<Rightarrow> [] | Some h \<Rightarrow> h)"
proof -
  from assms obtain a l where found: "(case find (\<lambda>l. lg_provider l = ProviderPassword \<and> lg_subject l = address) (id_logins db) of
      None \<Rightarrow> None | Some l \<Rightarrow> map_option (\<lambda>a. (a, l)) (account_of db (lg_user l))) = Some (a, l)"
    and rest: "may_log_in a" "rec = \<lparr>pw_User = user_of a, pw_PasswordHash = (case lg_hash l of None \<Rightarrow> [] | Some h \<Rightarrow> h)\<rparr>"
    by (auto simp: FindPassword_def bindE_Inr split: option.split_asm if_splits)
  from found have "find (\<lambda>l. lg_provider l = ProviderPassword \<and> lg_subject l = address) (id_logins db) = Some l"
    "account_of db (lg_user l) = Some a"
    by (auto split: option.split_asm)
  with rest show ?thesis by (intro exI [of _ l] exI [of _ a]) simp
qed

lemma CreateSession_Inr:
  assumes "CreateSession sv replies s db = (Inr user, db')"
  shows "\<exists>a. account_of db (ns_UserID s) = Some a \<and> ac_status a = AccountActive \<and> may_log_in a \<and> user = user_of a \<and>
    (\<forall>x \<in> set (id_sessions db). \<not> session_clash x (opened_session sv s)) \<and>
    db' = db\<lparr>id_sessions := id_sessions db @ [opened_session sv s]\<rparr>"
  using assms
  by (auto simp: CreateSession_def tx_run_Inr bindE_Inr userByIDForUpdate_def insertSession_Inr user_of_def
      split: option.splits if_splits)

text \<open>An access token that was just given out is accepted until it expires.\<close>

definition accepted_as :: "(string \<Rightarrow> string) \<Rightarrow> SessionTokens \<Rightarrow> identity_db \<Rightarrow> bool" where
  "accepted_as hash tokens db \<longleftrightarrow>
     (\<forall>env. ev_hashToken env = hash \<and> ev_replies env 0 0 = Done \<and> ev_now env 0 < st_AccessTokenExpiresAt tokens \<and>
        TrimSpace (st_AccessToken tokens) \<noteq> [] \<longrightarrow>
        (\<exists>p. Authenticate env (st_AccessToken tokens) db = Inr p \<and> pr_UserID p = us_ID (st_User tokens) \<and>
           pr_Role p = us_Role (st_User tokens)))"

lemma open_session_Inr:
  assumes "open_session env k what userID db = (Inr tokens, db')"
  shows "\<exists>a. account_of db userID = Some a \<and> ac_status a = AccountActive \<and> st_User tokens = user_of a \<and>
    accepted_as (ev_hashToken env) tokens db'"
proof -
  from assms obtain plain stored user where made: "makeSession env 0 userID = Inr (plain, stored)"
    and created: "CreateSession (ev_server env k) (ev_replies env k) stored db = (Inr user, db')"
    and tokens: "tokens = plain\<lparr>st_User := user\<rparr>"
    by (auto simp: open_session_def split: sum.splits prod.splits)
  let ?s = "opened_session (ev_server env k) stored"
  from made have stored: "ns_UserID stored = userID" "sn_access ?s = ev_hashToken env (st_AccessToken tokens)"
    "sn_access_expires ?s = st_AccessTokenExpiresAt tokens" "sn_user ?s = userID" "live ?s"
    by (auto simp: makeSession_def bindE_Inr Let_def tokens opened_session_def live_def)
  from CreateSession_Inr [OF created] stored(1) obtain a where
    a: "account_of db userID = Some a" "ac_status a = AccountActive" "may_log_in a" "user = user_of a"
    and fresh: "\<forall>x \<in> set (id_sessions db). \<not> session_clash x ?s"
    and db': "db' = db\<lparr>id_sessions := id_sessions db @ [?s]\<rparr>" by auto
  from fresh have "find (\<lambda>x. sn_access x = sn_access ?s) (id_sessions db) = None"
    by (auto simp: find_None_iff session_clash_def)
  then have found: "find (\<lambda>x. sn_access x = sn_access ?s) (id_sessions db') = Some ?s"
    by (simp add: db' find_append)
  have acc: "account_of db' userID = Some a" using a(1) by (simp add: db' account_of_def)
  have "accepted_as (ev_hashToken env) tokens db'"
    using found acc a stored
    by (auto simp: accepted_as_def Authenticate_def AuthenticateAccess_def tokens user_of_def live_def)
  with a tokens show ?thesis by (intro exI [of _ a]) simp
qed

text \<open>
  C11: a login with a password succeeds only with the credentials of an account that is active when
  the session is made, and gives an access token that opens the service for that account, with its
  role, until the token expires. Without credentials it fails and changes nothing.
\<close>

theorem password_login:
  "(PasswordLogin env email password db = (Inr tokens, db') \<longrightarrow>
      credentials env db email password (us_ID (st_User tokens)) \<and>
      us_Status (st_User tokens) = AccountActive \<and> accepted_as (ev_hashToken env) tokens db') \<and>
    ((\<nexists>u. credentials env db email password u) \<longrightarrow> (\<exists>e. PasswordLogin env email password db = (Inl e, db)))"
proof (intro conjI impI)
  assume "PasswordLogin env email password db = (Inr tokens, db')"
  then obtain address rec rehash db1 where
    address: "NormalizeEmail (ev_lower env) email = Inr address" "ValidatePassword password = None"
    and found: "FindPassword (ev_replies env 0 0) db address = Inr rec"
    and match: "ev_verify env password (pw_PasswordHash rec) = Inr (True, rehash)"
    and status: "us_Status (pw_User rec) \<noteq> AccountDisabled"
    and opened: "open_session env 2 ''create login session'' (us_ID (pw_User rec)) db1 = (Inr tokens, db')"
    by (auto simp: PasswordLogin_def bindS_def split: sum.split_asm prod.split_asm if_splits)
  from FindPassword_Inr [OF found] obtain l a where
    l: "find (\<lambda>l. lg_provider l = ProviderPassword \<and> lg_subject l = address) (id_logins db) = Some l"
      "account_of db (lg_user l) = Some a" "may_log_in a"
    and rec: "pw_User rec = user_of a" "pw_PasswordHash rec = (case lg_hash l of None \<Rightarrow> [] | Some h \<Rightarrow> h)" by blast
  from open_session_Inr [OF opened] obtain b where b: "account_of db1 (us_ID (pw_User rec)) = Some b"
    "ac_status b = AccountActive" "st_User tokens = user_of b" "accepted_as (ev_hashToken env) tokens db'" by blast
  have "us_ID (st_User tokens) = ac_id a"
    using account_of_Some [OF b(1)] b(3) rec(1) by (simp add: user_of_def)
  moreover have "credentials env db email password (ac_id a)"
    unfolding credentials_def using address l match rec status
    by (intro conjI exI [of _ address] exI [of _ l] exI [of _ a] exI [of _ rehash]) (simp_all add: user_of_def)
  ultimately show "credentials env db email password (us_ID (st_User tokens))" by simp
  from b show "us_Status (st_User tokens) = AccountActive" "accepted_as (ev_hashToken env) tokens db'"
    by (simp_all add: user_of_def)
next
  assume none: "\<nexists>u. credentials env db email password u"
  show "\<exists>e. PasswordLogin env email password db = (Inl e, db)"
  proof (cases "\<exists>address. NormalizeEmail (ev_lower env) email = Inr address \<and> ValidatePassword password = None")
    case False
    then show ?thesis by (auto simp: PasswordLogin_def split: sum.split)
  next
    case True
    then obtain address where address: "NormalizeEmail (ev_lower env) email = Inr address" "ValidatePassword password = None"
      by blast
    show ?thesis
    proof (cases "FindPassword (ev_replies env 0 0) db address")
      case (Inl e)
      with address show ?thesis by (simp add: PasswordLogin_def)
    next
      case (Inr rec)
      from FindPassword_Inr [OF Inr] obtain l a where
        l: "find (\<lambda>l. lg_provider l = ProviderPassword \<and> lg_subject l = address) (id_logins db) = Some l"
          "account_of db (lg_user l) = Some a" "may_log_in a"
        and rec: "pw_User rec = user_of a" "pw_PasswordHash rec = (case lg_hash l of None \<Rightarrow> [] | Some h \<Rightarrow> h)" by blast
      have "us_Status (pw_User rec) = AccountDisabled" if "ev_verify env password (pw_PasswordHash rec) = Inr (True, rehash)" for rehash
      proof (rule ccontr)
        assume "us_Status (pw_User rec) \<noteq> AccountDisabled"
        with address l rec that have "credentials env db email password (ac_id a)"
          unfolding credentials_def
          by (intro conjI exI [of _ address] exI [of _ l] exI [of _ a] exI [of _ rehash]) (simp_all add: user_of_def)
        with none show False by blast
      qed
      with address Inr show ?thesis
        by (auto simp: PasswordLogin_def split: sum.split prod.split)
    qed
  qed
qed

end
