(* ===== verification/Go_Http.thy ===== *)
theory Go_Http
  imports Go_Json
begin

text \<open>
  What the HTTP handlers use of the standard library: the parts of a request they read, the
  numbers in its query, the strict decoder over a body of limited size, and the JSON objects they
  answer with.
\<close>

section \<open>Requests\<close>

text \<open>
  \<open>hq_media\<close> is the media type that \<open>mime.ParseMediaType\<close> finds in the header \<open>Content-Type\<close>,
  \<open>hq_query\<close> is \<open>URL.Query().Get\<close> and \<open>hq_path\<close> is \<open>PathValue\<close>, both empty for an absent name.
  The body is the sequence of the values a decoder reads off it before \<open>http.MaxBytesReader\<close> stops
  it, which \<open>hq_cut\<close> says it does.
\<close>

record http_request =
  hq_authorization :: string
  hq_media :: "string option"
  hq_query :: "string \<Rightarrow> string"
  hq_path :: "string \<Rightarrow> string"
  hq_body :: json_input
  hq_cut :: bool

datatype body_error = TooLarge | Malformed

text \<open>The body has one value, which decodes, and then ends.\<close>

definition decode_body :: "(json \<Rightarrow> 'a option) \<Rightarrow> http_request \<Rightarrow> body_error + 'a" where
  "decode_body dec request =
     (case hq_body request of
        [] \<Rightarrow> Inl (if hq_cut request then TooLarge else Malformed)
      | v # rest \<Rightarrow>
          (case Option.bind v dec of
             None \<Rightarrow> Inl Malformed
           | Some a \<Rightarrow>
               if rest \<noteq> [] then Inl Malformed else if hq_cut request then Inl TooLarge else Inr a))"

text \<open>An uncut body is decoded as in \<open>DecodeStrict\<close>.\<close>

lemma decode_body_strict:
  "\<not> hq_cut request \<Longrightarrow> decode_body dec request = (case DecodeStrict dec (hq_body request) of None \<Rightarrow> Inl Malformed | Some a \<Rightarrow> Inr a)"
  by (auto simp: decode_body_def DecodeStrict_def split: list.splits option.splits)

lemma decode_body_Inr:
  "decode_body dec request = Inr a \<longleftrightarrow> \<not> hq_cut request \<and> (\<exists>v. hq_body request = [Some v] \<and> dec v = Some a)"
  by (auto simp: decode_body_def bind_eq_Some_conv split: list.splits option.splits if_splits)

section \<open>Numbers\<close>

text \<open>\<open>strconv.Atoi\<close> and \<open>strconv.ParseInt(s, 10, 64)\<close>.\<close>

definition digits_value :: "string \<Rightarrow> int" where
  "digits_value s = foldl (\<lambda>v c. 10 * v + (int (byte c) - 48)) 0 s"

definition Atoi :: "string \<Rightarrow> int option" where
  "Atoi s =
     (let negative = (s \<noteq> [] \<and> hd s = CHR ''-'');
          digits = (if s \<noteq> [] \<and> (hd s = CHR ''-'' \<or> hd s = CHR ''+'') then tl s else s);
          value = (if negative then - digits_value digits else digits_value digits) in
      if digits = [] \<or> \<not> list_all (\<lambda>c. 48 \<le> byte c \<and> byte c \<le> 57) digits \<or> \<not> in64 value then None else Some value)"

text \<open>\<open>%d\<close> and \<open>strconv.Itoa\<close>.\<close>

fun decimal :: "nat \<Rightarrow> string" where
  "decimal n = (if n < 10 then [char_of (48 + n)] else decimal (n div 10) @ [char_of (48 + n mod 10)])"

declare decimal.simps [simp del]

definition Itoa :: "int \<Rightarrow> string" where
  "Itoa i = (if i < 0 then CHR ''-'' # decimal (nat (- i)) else decimal (nat i))"

lemma decimal_digits: "\<forall>c \<in> set (decimal n). 48 \<le> byte c \<and> byte c \<le> 57"
proof (induction n rule: decimal.induct)
  case (1 n)
  then show ?case by (subst decimal.simps) (auto simp: byte_def)
qed

lemma decimal_not_Nil [simp]: "decimal n \<noteq> []"
  by (subst decimal.simps) simp

lemma digits_value_snoc: "digits_value (s @ [c]) = 10 * digits_value s + (int (byte c) - 48)"
  by (simp add: digits_value_def)

lemma digits_value_decimal: "digits_value (decimal n) = int n"
proof (induction n rule: decimal.induct)
  case (1 n)
  have digit: "byte (char_of (48 + d)) = 48 + d" if "d < 10" for d :: nat
    using that by (simp add: byte_def)
  show ?case
  proof (cases "n < 10")
    case True
    then show ?thesis using digit [of n] by (subst decimal.simps) (simp add: digits_value_def)
  next
    case False
    then have "digits_value (decimal n) = 10 * int (n div 10) + int (n mod 10)"
      using 1 digit [of "n mod 10"] by (subst decimal.simps) (simp add: digits_value_snoc)
    then show ?thesis by (simp add: zdiv_int zmod_int)
  qed
qed

text \<open>The text of a number reads back.\<close>

lemma Atoi_Itoa:
  assumes "0 \<le> i" and "in64 i"
  shows "Atoi (Itoa i) = Some i" "TrimSpace (Itoa i) = Itoa i" "Itoa i \<noteq> []"
proof -
  have digits: "\<forall>c \<in> set (decimal n). 48 \<le> byte c \<and> byte c \<le> 57" for n by (rule decimal_digits)
  have signs: "byte (CHR ''-'') = 45" "byte (CHR ''+'') = 43" by (simp_all add: byte_def)
  have "48 \<le> byte (hd (decimal n))" for n
    using digits [of n] hd_in_set [OF decimal_not_Nil, of n] by blast
  then have "hd (decimal n) \<noteq> c" if "byte c < 48" for n c using that by (metis not_le)
  then have "hd (decimal n) \<noteq> CHR ''-''" "hd (decimal n) \<noteq> CHR ''+''" for n by (simp_all add: signs)
  with digits assms show "Atoi (Itoa i) = Some i"
    by (simp add: Atoi_def Itoa_def digits_value_decimal list_all_iff)
  show "TrimSpace (Itoa i) = Itoa i"
    using assms(1) digits [of "nat i"] by (intro TrimSpace_plain) (auto simp: Itoa_def IsSpace_def)
  show "Itoa i \<noteq> []" using assms(1) by (simp add: Itoa_def)
qed

section \<open>Fields\<close>

definition bool_field :: "(bool \<Rightarrow> 'a \<Rightarrow> 'a) \<Rightarrow> json \<Rightarrow> 'a \<Rightarrow> 'a option" where
  "bool_field put v acc = (case v of JNull \<Rightarrow> Some acc | JBool b \<Rightarrow> Some (put b acc) | _ \<Rightarrow> None)"

lemma bool_field_JBool [simp]: "bool_field put (JBool b) acc = Some (put b acc)"
  by (simp add: bool_field_def)

lemma list_field_map:
  assumes "\<And>x. x \<in> set xs \<Longrightarrow> elem (enc x) = Some (f x)"
  shows "list_field elem put (JArr (map enc xs)) acc = Some (put (map f xs) acc)"
proof -
  have all: "list_all (\<lambda>y. elem y \<noteq> None) (map enc xs)"
    using assms by (auto simp: list_all_iff)
  have the_elems: "map (the \<circ> elem) (map enc xs) = map f xs"
    using assms by simp
  show ?thesis by (simp only: list_field_def json.simps the_elems all if_True)
qed

text \<open>\<open>strings.HasPrefix(header, "Bearer ")\<close> and what follows it.\<close>

definition bearer :: "string \<Rightarrow> string option" where
  "bearer header = (if take 7 header = ''Bearer '' then Some (drop 7 header) else None)"

lemma bearer_append [simp]: "bearer (''Bearer '' @ token) = Some token"
  by (simp add: bearer_def)

end
