(* ===== verification/Identity_Security.thy ===== *)
theory Identity_Security
  imports Identity_Signup Go_Http
begin

text \<open>
  The cryptographic adapters of the identity module (\<open>adapters/security\<close>): the password hash in the
  PHC string format (\<open>password.go\<close>), random tokens (\<open>token.go\<close>) and six-digit codes
  (\<open>registration_code.go\<close>). Byte slices are texts of bytes. \<open>idkey password salt t m p n\<close> stands for
  \<open>argon2.IDKey\<close> of golang.org/x/crypto; random bytes are arguments, \<open>None\<close> when the source of
  randomness fails.
\<close>

section \<open>Base64 without padding\<close>

text \<open>\<open>base64.RawStdEncoding\<close> and \<open>base64.RawURLEncoding\<close> differ in the digits 62 and 63.\<close>

definition digit64 :: "char \<times> char \<Rightarrow> nat \<Rightarrow> char" where
  "digit64 ends n = (if n < 26 then char_of (65 + n) else if n < 52 then char_of (71 + n)
     else if n < 62 then char_of (n - 4) else if n = 62 then fst ends else snd ends)"

definition std64 :: "char \<times> char" where
  "std64 = (CHR ''+'', CHR ''/'')"

definition url64 :: "char \<times> char" where
  "url64 = (CHR ''-'', CHR ''_'')"

definition value64 :: "char \<Rightarrow> nat option" where
  "value64 c = (if 65 \<le> byte c \<and> byte c \<le> 90 then Some (byte c - 65)
     else if 97 \<le> byte c \<and> byte c \<le> 122 then Some (byte c - 71)
     else if 48 \<le> byte c \<and> byte c \<le> 57 then Some (byte c + 4)
     else if c = CHR ''+'' then Some 62 else if c = CHR ''/'' then Some 63 else None)"

fun digits64 :: "nat list \<Rightarrow> nat list" where
  "digits64 [] = []"
| "digits64 [a] = [a div 4, a mod 4 * 16]"
| "digits64 [a, b] = [a div 4, a mod 4 * 16 + b div 16, b mod 16 * 4]"
| "digits64 (a # b # c # rest) =
     [a div 4, a mod 4 * 16 + b div 16, b mod 16 * 4 + c div 64, c mod 64] @ digits64 rest"

text \<open>A single digit at the end is an error; the bits left over at the end are ignored.\<close>

fun bytes64 :: "nat list \<Rightarrow> nat list option" where
  "bytes64 [] = Some []"
| "bytes64 [x] = None"
| "bytes64 [x, y] = Some [x * 4 + y div 16]"
| "bytes64 [x, y, z] = Some [x * 4 + y div 16, y mod 16 * 16 + z div 4]"
| "bytes64 (x # y # z # w # rest) =
     map_option (\<lambda>bs. [x * 4 + y div 16, y mod 16 * 16 + z div 4, z mod 4 * 64 + w] @ bs) (bytes64 rest)"

definition EncodeToString :: "char \<times> char \<Rightarrow> string \<Rightarrow> string" where
  "EncodeToString ends s = map (digit64 ends) (digits64 (map byte s))"

text \<open>The decoder skips line ends.\<close>

definition DecodeString :: "string \<Rightarrow> string option" where
  "DecodeString s =
     (case those (map value64 (filter (\<lambda>c. byte c \<noteq> 10 \<and> byte c \<noteq> 13) s)) of
        None \<Rightarrow> None
      | Some ds \<Rightarrow> map_option (map char_of) (bytes64 ds))"

section \<open>Numbers in text\<close>

text \<open>\<open>fmt.Sscanf\<close>: a literal rune, and an unsigned number of the given width after white space.\<close>

type_synonym runes = "(nat \<times> string) list"

fun skip_space :: "runes \<Rightarrow> runes option" where
  "skip_space [] = Some []"
| "skip_space ((r, bs) # rest) =
     (if r = 10 then None else if IsSpace r then skip_space rest else Some ((r, bs) # rest))"

definition is_digit :: "nat \<times> string \<Rightarrow> bool" where
  "is_digit x \<longleftrightarrow> 48 \<le> fst x \<and> fst x \<le> 57"

definition number :: "runes \<Rightarrow> nat" where
  "number ds = foldl (\<lambda>v (r, _). 10 * v + (r - 48)) 0 ds"

definition scan_uint :: "nat \<Rightarrow> runes \<Rightarrow> (nat \<times> runes) option" where
  "scan_uint bits input =
     (case skip_space input of
        None \<Rightarrow> None
      | Some rs \<Rightarrow>
          let ds = takeWhile is_digit rs in
          if ds = [] \<or> \<not> number ds < 2 ^ bits then None else Some (number ds, dropWhile is_digit rs))"

fun scan_literal :: "nat list \<Rightarrow> runes \<Rightarrow> runes option" where
  "scan_literal [] input = Some input"
| "scan_literal (c # cs) [] = None"
| "scan_literal (c # cs) ((r, bs) # rest) = (if r = c then scan_literal cs rest else None)"

section \<open>Passwords\<close>

definition argonVersion :: nat where
  "argonVersion = 19"

record Argon2id =
  ar_memoryKiB :: nat
  ar_iterations :: nat
  ar_parallelism :: nat
  ar_saltBytes :: nat
  ar_keyBytes :: nat

definition NewArgon2id :: "nat \<Rightarrow> nat \<Rightarrow> nat \<Rightarrow> Argon2id" where
  "NewArgon2id memoryKiB iterations parallelism =
     \<lparr>ar_memoryKiB = memoryKiB, ar_iterations = iterations, ar_parallelism = parallelism,
      ar_saltBytes = 16, ar_keyBytes = 32\<rparr>"

type_synonym key_function = "string \<Rightarrow> string \<Rightarrow> nat \<Rightarrow> nat \<Rightarrow> nat \<Rightarrow> nat \<Rightarrow> string"

definition Hash :: "key_function \<Rightarrow> Argon2id \<Rightarrow> string option \<Rightarrow> string \<Rightarrow> identity_error + string" where
  "Hash idkey hasher randomness password =
     (case ValidatePassword password of
        Some e \<Rightarrow> Inl e
      | None \<Rightarrow>
          (case randomness of
             None \<Rightarrow> Inl (IdOther ''generate password salt'')
           | Some salt \<Rightarrow>
               let key = idkey password salt (ar_iterations hasher) (ar_memoryKiB hasher) (ar_parallelism hasher) (ar_keyBytes hasher) in
               Inr (''$argon2id$v='' @ decimal argonVersion @ ''$m='' @ decimal (ar_memoryKiB hasher) @ '',t='' @
                 decimal (ar_iterations hasher) @ '',p='' @ decimal (ar_parallelism hasher) @ ''$'' @
                 EncodeToString std64 salt @ ''$'' @ EncodeToString std64 key)))"

record phcParameters =
  ph_memoryKiB :: nat
  ph_iterations :: nat
  ph_parallelism :: nat

text \<open>\<open>m=%d,t=%d,p=%d\<close>\<close>

definition scan_parameters :: "string \<Rightarrow> phcParameters option" where
  "scan_parameters s =
     Option.bind (scan_literal [109, 61] (utf8_segs s)) (\<lambda>r1.
     Option.bind (scan_uint 32 r1) (\<lambda>(memory, r2).
     Option.bind (scan_literal [44, 116, 61] r2) (\<lambda>r3.
     Option.bind (scan_uint 32 r3) (\<lambda>(iterations, r4).
     Option.bind (scan_literal [44, 112, 61] r4) (\<lambda>r5.
     Option.bind (scan_uint 8 r5) (\<lambda>(parallelism, _).
       Some \<lparr>ph_memoryKiB = memory, ph_iterations = iterations, ph_parallelism = parallelism\<rparr>))))))"

definition parsePHC :: "string \<Rightarrow> identity_error + phcParameters \<times> string \<times> string" where
  "parsePHC encoded =
     (let parts = split_on (CHR ''$'') encoded in
      if length parts \<noteq> 6 \<or> parts ! 0 \<noteq> [] \<or> parts ! 1 \<noteq> ''argon2id'' \<or> parts ! 2 \<noteq> ''v=19''
      then Inl (IdOther ''invalid Argon2id PHC string'')
      else case scan_parameters (parts ! 3) of
        None \<Rightarrow> Inl (IdOther ''invalid Argon2id parameters'')
      | Some ps \<Rightarrow>
          if ph_memoryKiB ps < 8 \<or> ph_iterations ps < 1 \<or> ph_parallelism ps < 1
          then Inl (IdOther ''unsafe Argon2id parameters'')
          else case DecodeString (parts ! 4) of
            None \<Rightarrow> Inl (IdOther ''invalid Argon2id salt'')
          | Some salt \<Rightarrow>
              if length salt < 16 then Inl (IdOther ''invalid Argon2id salt'')
              else case DecodeString (parts ! 5) of
                None \<Rightarrow> Inl (IdOther ''invalid Argon2id key'')
              | Some key \<Rightarrow>
                  if length key < 16 then Inl (IdOther ''invalid Argon2id key'') else Inr (ps, salt, key))"

definition Verify_password :: "key_function \<Rightarrow> Argon2id \<Rightarrow> string \<Rightarrow> string \<Rightarrow> identity_error + bool \<times> bool" where
  "Verify_password idkey hasher password encoded =
     bindE (parsePHC encoded) (\<lambda>(ps, salt, expected).
       let actual = idkey password salt (ph_iterations ps) (ph_memoryKiB ps) (ph_parallelism ps) (length expected mod 2 ^ 32) in
       Inr (actual = expected,
         ph_memoryKiB ps \<noteq> ar_memoryKiB hasher \<or> ph_iterations ps \<noteq> ar_iterations hasher \<or>
         ph_parallelism ps \<noteq> ar_parallelism hasher \<or> length expected mod 2 ^ 32 \<noteq> ar_keyBytes hasher))"

section \<open>Tokens and codes\<close>

definition RandomToken :: "string option \<Rightarrow> identity_error + string" where
  "RandomToken randomness =
     (case randomness of
        None \<Rightarrow> Inl (IdOther ''generate random token'')
      | Some bytes \<Rightarrow> Inr (EncodeToString url64 bytes))"

text \<open>\<open>%06d\<close> of a number below a million.\<close>

definition NewCode :: "nat option \<Rightarrow> identity_error + string" where
  "NewCode randomness =
     (case randomness of
        None \<Rightarrow> Inl (IdOther ''generate verification code'')
      | Some n \<Rightarrow> Inr (replicate (6 - length (decimal n)) (CHR ''0'') @ decimal n))"

section \<open>Round trips\<close>

lemma value_digit64: "n < 64 \<Longrightarrow> value64 (digit64 std64 n) = Some n"
  by (auto simp: value64_def digit64_def std64_def byte_def)

lemma digits64_less: "\<forall>b \<in> set bs. b < 256 \<Longrightarrow> \<forall>d \<in> set (digits64 bs). d < 64"
  by (induction bs rule: digits64.induct) auto

lemma bytes_digits64: "\<forall>b \<in> set bs. b < 256 \<Longrightarrow> bytes64 (digits64 bs) = Some bs"
proof (induction bs rule: digits64.induct)
  case (4 a b c rest)
  then have "a < 256" "b < 256" "c < 256" by auto
  then have "a div 4 * 4 + (a mod 4 * 16 + b div 16) div 16 = a"
    "(a mod 4 * 16 + b div 16) mod 16 * 16 + (b mod 16 * 4 + c div 64) div 4 = b"
    "(b mod 16 * 4 + c div 64) mod 4 * 64 + c mod 64 = c" by auto
  with 4 show ?case by simp
qed auto

lemma digit64_plain: "n < 64 \<Longrightarrow> byte (digit64 std64 n) \<noteq> 10 \<and> byte (digit64 std64 n) \<noteq> 13 \<and> byte (digit64 std64 n) \<noteq> 36"
  by (auto simp: digit64_def std64_def byte_def)

lemma those_map_Some: "\<forall>x \<in> set xs. f x = Some (g x) \<Longrightarrow> those (map f xs) = Some (map g xs)"
  by (induction xs) auto

lemma Decode_Encode [simp]: "DecodeString (EncodeToString std64 s) = Some s"
proof -
  let ?ds = "digits64 (map byte s)"
  have less: "\<forall>d \<in> set ?ds. d < 64" by (rule digits64_less) (auto simp: byte_less_256)
  then have "filter (\<lambda>c. byte c \<noteq> 10 \<and> byte c \<noteq> 13) (map (digit64 std64) ?ds) = map (digit64 std64) ?ds"
    by (intro filter_True) (auto simp: digit64_plain)
  moreover from less have "those (map (value64 \<circ> digit64 std64) ?ds) = Some (map id ?ds)"
    by (intro those_map_Some) (simp add: value_digit64)
  moreover have "bytes64 ?ds = Some (map byte s)" by (rule bytes_digits64) (auto simp: byte_less_256)
  moreover have "map (char_of \<circ> byte) s = s" by (rule map_idI) (simp add: byte_def)
  ultimately show ?thesis by (simp add: DecodeString_def EncodeToString_def)
qed

lemma Encode_no_dollar: "CHR ''$'' \<notin> set (EncodeToString std64 s)"
proof -
  have "\<forall>d \<in> set (digits64 (map byte s)). d < 64" by (rule digits64_less) (auto simp: byte_less_256)
  then have "\<forall>c \<in> set (EncodeToString std64 s). byte c \<noteq> 36"
    by (auto simp: EncodeToString_def digit64_plain)
  moreover have "byte (CHR ''$'') = 36" by (simp add: byte_def)
  ultimately show ?thesis by auto
qed

definition runes_of :: "string \<Rightarrow> runes" where
  "runes_of s = map (\<lambda>c. (byte c, [c])) s"

lemma runes_of_simps [simp]: "runes_of [] = []" "runes_of (c # s) = (byte c, [c]) # runes_of s"
  "runes_of (s @ t) = runes_of s @ runes_of t"
  by (simp_all add: runes_of_def)

lemma number_append: "number (rs @ [(r, bs)]) = 10 * number rs + (r - 48)"
  by (simp add: number_def)

lemma number_decimal [simp]: "number (runes_of (decimal n)) = n"
proof (induction n rule: decimal.induct)
  case (1 n)
  show ?case
  proof (cases "n < 10")
    case True
    then show ?thesis by (subst decimal.simps) (simp add: number_def runes_of_def byte_def)
  next
    case False
    have "decimal n = decimal (n div 10) @ [char_of (48 + n mod 10)]" using False by (subst decimal.simps) simp
    with 1 [OF False] show ?thesis by (simp add: number_append byte_def)
  qed
qed

lemma scan_decimal:
  assumes "n < 2 ^ bits" and "rest = [] \<or> \<not> is_digit (hd rest)"
  shows "scan_uint bits (runes_of (decimal n) @ rest) = Some (n, rest)"
proof -
  let ?ds = "runes_of (decimal n)"
  have digits: "\<forall>x \<in> set ?ds. is_digit x" using decimal_digits [of n] by (auto simp: runes_of_def is_digit_def)
  obtain x xs where ds: "?ds = x # xs" by (cases ?ds) (auto simp: runes_of_def)
  with digits have x: "is_digit x" by simp
  then have "fst x \<noteq> 10" "\<not> IsSpace (fst x)" by (auto simp: is_digit_def IsSpace_def)
  with ds have "skip_space (?ds @ rest) = Some (?ds @ rest)" by (cases x) simp
  moreover have "takeWhile is_digit (?ds @ rest) = ?ds" "dropWhile is_digit (?ds @ rest) = rest"
    using digits assms(2) by (cases rest; auto simp: takeWhile_append dropWhile_append)+
  ultimately show ?thesis using ds assms(1) number_decimal [of n] by (simp add: scan_uint_def Let_def)
qed

definition parameter_text :: "nat \<Rightarrow> nat \<Rightarrow> nat \<Rightarrow> string" where
  "parameter_text m t p = ''m='' @ decimal m @ '',t='' @ decimal t @ '',p='' @ decimal p"

lemma decimal_ascii: "c \<in> set (decimal n) \<Longrightarrow> byte c < 128 \<and> byte c \<noteq> 36"
  using decimal_digits [of n] by force

lemma scan_parameter_text:
  assumes "m < 2 ^ 32" "t < 2 ^ 32" "p < 2 ^ 8"
  shows "scan_parameters (parameter_text m t p) = Some \<lparr>ph_memoryKiB = m, ph_iterations = t, ph_parallelism = p\<rparr>"
proof -
  have "\<forall>c \<in> set (parameter_text m t p). byte c < 128"
    by (auto simp: parameter_text_def byte_def dest: decimal_ascii [unfolded byte_def])
  then have segs: "utf8_segs (parameter_text m t p) = runes_of (parameter_text m t p)"
    by (simp add: utf8_segs_ascii runes_of_def)
  let ?r5 = "runes_of (decimal p)"
  let ?r3 = "runes_of (decimal t) @ runes_of '',p='' @ ?r5"
  have shape: "runes_of (parameter_text m t p) = runes_of ''m='' @ runes_of (decimal m) @ runes_of '',t='' @ ?r3"
    by (simp add: parameter_text_def)
  have "scan_uint 32 (runes_of (decimal m) @ runes_of '',t='' @ ?r3) = Some (m, runes_of '',t='' @ ?r3)"
    by (rule scan_decimal [OF assms(1)]) (simp add: is_digit_def byte_def)
  moreover have "scan_uint 32 ?r3 = Some (t, runes_of '',p='' @ ?r5)"
    by (rule scan_decimal [OF assms(2)]) (simp add: is_digit_def byte_def)
  moreover have "scan_uint 8 ?r5 = Some (p, [])"
    using scan_decimal [OF assms(3), of "[]"] by simp
  ultimately show ?thesis by (simp add: scan_parameters_def segs shape byte_def)
qed

lemma split_on_none: "c \<notin> set s \<Longrightarrow> split_on c s = [s]"
  by (induction s) auto

lemma split_on_append: "c \<notin> set s \<Longrightarrow> split_on c (s @ c # t) = s # split_on c t"
  by (induction s) auto

definition phc_text :: "nat \<Rightarrow> nat \<Rightarrow> nat \<Rightarrow> string \<Rightarrow> string \<Rightarrow> string" where
  "phc_text m t p salt key = ''$argon2id$v='' @ decimal argonVersion @ ''$m='' @ decimal m @ '',t='' @ decimal t @
     '',p='' @ decimal p @ ''$'' @ EncodeToString std64 salt @ ''$'' @ EncodeToString std64 key"

lemma parse_phc_text:
  assumes "8 \<le> m" "m < 2 ^ 32" "1 \<le> t" "t < 2 ^ 32" "1 \<le> p" "p < 2 ^ 8" "16 \<le> length salt" "16 \<le> length key"
  shows "parsePHC (phc_text m t p salt key) =
    Inr (\<lparr>ph_memoryKiB = m, ph_iterations = t, ph_parallelism = p\<rparr>, salt, key)"
proof -
  have version: "decimal argonVersion = ''19''"
    by code_simp
  have none: "CHR ''$'' \<notin> set (decimal n)" for n
    using decimal_ascii [of "CHR ''$''" n] by (auto simp: byte_def)
  then have "CHR ''$'' \<notin> set (parameter_text m t p)" by (simp add: parameter_text_def)
  moreover have "phc_text m t p salt key = [] @ CHR ''$'' # (''argon2id'' @ CHR ''$'' # (''v=19'' @ CHR ''$'' # (parameter_text m t p @
      CHR ''$'' # (EncodeToString std64 salt @ CHR ''$'' # EncodeToString std64 key))))"
    by (simp add: phc_text_def parameter_text_def version)
  ultimately have "split_on (CHR ''$'') (phc_text m t p salt key) =
      [[], ''argon2id'', ''v=19'', parameter_text m t p, EncodeToString std64 salt, EncodeToString std64 key]"
    using Encode_no_dollar by (simp only: split_on_append split_on_none) (simp add: split_on_append split_on_none)
  with assms show ?thesis by (simp add: parsePHC_def Let_def scan_parameter_text)
qed

lemma password_hash_facts:
  assumes "Hash idkey hasher (Some salt) password = Inr encoded"
    and "length salt = ar_saltBytes hasher" "16 \<le> ar_saltBytes hasher" "16 \<le> ar_keyBytes hasher" "ar_keyBytes hasher < 2 ^ 32"
    and "8 \<le> ar_memoryKiB hasher" "ar_memoryKiB hasher < 2 ^ 32" "1 \<le> ar_iterations hasher" "ar_iterations hasher < 2 ^ 32"
    and "1 \<le> ar_parallelism hasher" "ar_parallelism hasher < 2 ^ 8"
    and "\<And>pw s t m p n. length (idkey pw s t m p n) = n"
  shows "Verify_password idkey hasher' attempt encoded =
    Inr (idkey attempt salt (ar_iterations hasher) (ar_memoryKiB hasher) (ar_parallelism hasher) (ar_keyBytes hasher) =
         idkey password salt (ar_iterations hasher) (ar_memoryKiB hasher) (ar_parallelism hasher) (ar_keyBytes hasher),
      ar_memoryKiB hasher \<noteq> ar_memoryKiB hasher' \<or> ar_iterations hasher \<noteq> ar_iterations hasher' \<or>
      ar_parallelism hasher \<noteq> ar_parallelism hasher' \<or> ar_keyBytes hasher \<noteq> ar_keyBytes hasher')"
proof -
  let ?key = "idkey password salt (ar_iterations hasher) (ar_memoryKiB hasher) (ar_parallelism hasher) (ar_keyBytes hasher)"
  from assms(1) have "encoded = phc_text (ar_memoryKiB hasher) (ar_iterations hasher) (ar_parallelism hasher) salt ?key"
    by (simp add: Hash_def phc_text_def Let_def split: option.splits)
  then have "parsePHC encoded = Inr (\<lparr>ph_memoryKiB = ar_memoryKiB hasher, ph_iterations = ar_iterations hasher,
      ph_parallelism = ar_parallelism hasher\<rparr>, salt, ?key)"
    using parse_phc_text [of "ar_memoryKiB hasher" "ar_iterations hasher" "ar_parallelism hasher" salt ?key] assms(2-12) by simp
  with assms(5) show ?thesis by (simp add: Verify_password_def Let_def assms(12))
qed

text \<open>
  C35: a password hash reads back. What \<open>Hash\<close> stores is accepted by \<open>Verify\<close> for exactly the
  passwords with the same key, the hashed one among them, and asks for a new hash exactly when the
  configured parameters are not the ones it was made with.
\<close>

theorem password_hash_roundtrip:
  assumes "Hash idkey hasher (Some salt) password = Inr encoded"
    and "length salt = ar_saltBytes hasher" "16 \<le> ar_saltBytes hasher" "16 \<le> ar_keyBytes hasher" "ar_keyBytes hasher < 2 ^ 32"
    and "8 \<le> ar_memoryKiB hasher" "ar_memoryKiB hasher < 2 ^ 32" "1 \<le> ar_iterations hasher" "ar_iterations hasher < 2 ^ 32"
    and "1 \<le> ar_parallelism hasher" "ar_parallelism hasher < 2 ^ 8"
    and "\<And>pw s t m p n. length (idkey pw s t m p n) = n"
  shows "Verify_password idkey hasher' attempt encoded =
    Inr (idkey attempt salt (ar_iterations hasher) (ar_memoryKiB hasher) (ar_parallelism hasher) (ar_keyBytes hasher) =
         idkey password salt (ar_iterations hasher) (ar_memoryKiB hasher) (ar_parallelism hasher) (ar_keyBytes hasher),
      ar_memoryKiB hasher \<noteq> ar_memoryKiB hasher' \<or> ar_iterations hasher \<noteq> ar_iterations hasher' \<or>
      ar_parallelism hasher \<noteq> ar_parallelism hasher' \<or> ar_keyBytes hasher \<noteq> ar_keyBytes hasher')"
  by (rule password_hash_facts [OF assms])

end
