(* ===== verification/Identity_Samples.thy ===== *)
theory Identity_Samples
  imports Identity_Login Identity_Security
begin

text \<open>Concrete runs of the identity module: each property at an input where its hypotheses hold.\<close>

section \<open>Identifiers and digests\<close>

definition uid :: "char \<Rightarrow> string" where
  "uid c = replicate 8 c @ ''-'' @ replicate 4 c @ ''-'' @ replicate 4 c @ ''-'' @ replicate 4 c @ ''-'' @ replicate 12 c"

definition digest64 :: "char \<Rightarrow> string" where
  "digest64 c = replicate 64 c"

definition sample_server :: "int \<Rightarrow> char \<Rightarrow> char \<Rightarrow> char \<Rightarrow> server" where
  "sample_server now a b c = \<lparr>sv_now = now, sv_uuid = (\<lambda>n. uid (if n = 0 then a else if n = 1 then b else c))\<rparr>"

lemma sample_server_simps [simp]:
  "sv_now (sample_server now a b c) = now" "sv_uuid (sample_server now a b c) 0 = uid a"
  "sv_uuid (sample_server now a b c) (Suc 0) = uid b" "sv_uuid (sample_server now a b c) 2 = uid c"
  by (simp_all add: sample_server_def)

lemma uid_eq [simp]: "uid c = uid d \<longleftrightarrow> c = d"
  by (auto simp: uid_def)

lemma uid_not_Nil [simp]: "uid c \<noteq> []" "[] \<noteq> uid c"
  by (simp_all add: uid_def)

lemma uid_text [simp]: "byte c < 128 \<Longrightarrow> text_between (Suc 0) 255 (uid c)"
  by (subst text_between_ascii) (auto simp: uid_def byte_def)

lemma uid_valid [simp]:
  assumes "is_hex c"
  shows "validUUID (uid c)"
proof -
  from assms have ne: "c \<noteq> CHR ''-''" by (metis is_hex_dash)
  have rep: "filter (\<lambda>c. c \<noteq> CHR ''-'') (replicate n c) = replicate n c" for n
    using ne by (induction n) auto
  have "filter (\<lambda>c. c \<noteq> CHR ''-'') (uid c) = replicate 32 c"
    by (simp add: uid_def rep flip: replicate_add)
  moreover have "length (uid c) = 36" "uid c ! 8 = CHR ''-''" "uid c ! 13 = CHR ''-''" "uid c ! 18 = CHR ''-''" "uid c ! 23 = CHR ''-''"
    by (simp_all add: uid_def nth_append)
  ultimately show ?thesis using assms by (simp add: validUUID_def hex_decodes_def list_all_iff)
qed

lemma digest64_text [simp]: "byte c < 128 \<Longrightarrow> text_between 64 64 (digest64 c)"
  by (subst text_between_ascii) (auto simp: digest64_def)

lemma digest64_length [simp]: "length (digest64 c) = 64"
  by (simp add: digest64_def)

lemma digest64_ascii [simp]: "byte c < 128 \<Longrightarrow> text_between 32 128 (digest64 c)" "byte c < 128 \<Longrightarrow> 0 < byte c \<Longrightarrow> pg_text (digest64 c)"
  by (subst text_between_ascii pg_text_ascii; auto simp: digest64_def byte_def)+

lemma digest64_eq [simp]: "digest64 c = digest64 d \<longleftrightarrow> c = d"
  by (auto simp: digest64_def)

lemma short_text [simp]:
  "\<forall>c \<in> set s. byte c < 128 \<Longrightarrow> lo \<le> length s \<Longrightarrow> length s \<le> hi \<Longrightarrow> text_between lo hi s"
  by (simp add: text_between_ascii)

definition answered :: "nat \<Rightarrow> reply" where
  "answered n = Done"

lemma answered [simp]: "answered n = Done"
  by (simp add: answered_def)

lemmas run_defs = empty_identity_def tx_run_def stmt_def userByRole_def insert_account_def insert_row_def Let_def account_check_def
  insert_login_def login_check_def insertIdentityAudit_def has_account_def nullif_def byte_def short_user_def user_of_def
  new_customer_def pg_text_ascii btrim_def Role_Valid_def

section \<open>An administrator with a session\<close>

definition admin_db :: identity_db where
  "admin_db = snd (BootstrapAdmin_store id (sample_server 1 (CHR ''1'') (CHR ''2'') (CHR ''3'')) answered ''A'' ''a@b.c'' ''h'' 1 empty_identity)"

definition admin_row :: account_row where
  "admin_row = \<lparr>ac_id = uid (CHR ''3''), ac_name = ''A'', ac_email = ''a@b.c'', ac_role = RoleAdmin, ac_status = AccountActive,
     ac_change_required = False, ac_verified_at = None\<rparr>"

lemma admin_bootstrapped:
  "BootstrapAdmin_store id (sample_server 1 (CHR ''1'') (CHR ''2'') (CHR ''3'')) answered ''A'' ''a@b.c'' ''h'' 1 empty_identity =
     (Inr (short_user admin_row), admin_db)"
  "id_accounts admin_db = [admin_row]" "id_sessions admin_db = []" "id_intents admin_db = []"
  "id_logins admin_db = [\<lparr>lg_user = uid (CHR ''3''), lg_provider = ProviderPassword, lg_subject = ''a@b.c'', lg_hash = Some ''h''\<rparr>]"
  by (simp_all add: admin_db_def BootstrapAdmin_store_def admin_row_def run_defs)

lemma reach_step:
  assumes "identity_reachable pg_normal db" and "identity_step pg_normal db db'"
  shows "identity_reachable pg_normal db'"
  using assms by (rule reachable_step)

lemma reachable_empty: "identity_reachable pg_normal empty_identity"
  by (simp add: identity_reachable_def)

lemma admin_reachable: "identity_reachable id admin_db"
  by (rule reach_step [OF reachable_empty identity_step.bootstrap [OF admin_bootstrapped(1)]])

definition first_session :: NewSession where
  "first_session = \<lparr>ns_UserID = uid (CHR ''3''), ns_FamilyID = [], ns_ParentSessionID = [], ns_AccessTokenHash = digest64 (CHR ''a''),
     ns_RefreshTokenHash = digest64 (CHR ''b''), ns_AccessExpiresAt = 100, ns_RefreshExpiresAt = 200\<rparr>"

definition first_row :: session_row where
  "first_row = opened_session (sample_server 10 (CHR ''4'') (CHR ''5'') (CHR ''6'')) first_session"

definition opened_db :: identity_db where
  "opened_db = snd (CreateSession (sample_server 10 (CHR ''4'') (CHR ''5'') (CHR ''6'')) answered first_session admin_db)"

lemma session_opened:
  "CreateSession (sample_server 10 (CHR ''4'') (CHR ''5'') (CHR ''6'')) answered first_session admin_db = (Inr (user_of admin_row), opened_db)"
  "id_accounts opened_db = [admin_row]" "id_sessions opened_db = [first_row]"
  by (simp_all add: opened_db_def CreateSession_def userByIDForUpdate_def insertSession_def session_check_def account_of_def
      may_log_in_def admin_bootstrapped admin_row_def first_session_def first_row_def opened_session_def run_defs)

lemma opened_step: "identity_step id admin_db opened_db"
proof (rule identity_step.create_session [OF session_opened(1)])
  show "fresh_family (sample_server 10 (CHR ''4'') (CHR ''5'') (CHR ''6'')) admin_db"
    by (simp add: fresh_family_def admin_bootstrapped is_hex_def byte_def)
qed (simp add: first_session_def)

lemma opened_reachable: "identity_reachable id opened_db"
  by (rule reach_step [OF admin_reachable opened_step])

definition next_session :: NewSession where
  "next_session = first_session\<lparr>ns_UserID := [], ns_AccessTokenHash := digest64 (CHR ''c''), ns_RefreshTokenHash := digest64 (CHR ''d'')\<rparr>"

definition rotated_db :: identity_db where
  "rotated_db = snd (RotateRefresh (sample_server 20 (CHR ''7'') (CHR ''8'') (CHR ''9'')) answered (digest64 (CHR ''b'')) next_session 20 opened_db)"

lemma session_rotated:
  "RotateRefresh (sample_server 20 (CHR ''7'') (CHR ''8'') (CHR ''9'')) answered (digest64 (CHR ''b'')) next_session 20 opened_db =
     (Inr (user_of admin_row), rotated_db)"
  by (simp add: rotated_db_def RotateRefresh_def rotate_body_def insertSession_def session_check_def account_of_def consume_def
      may_log_in_def session_opened admin_row_def first_session_def next_session_def first_row_def opened_session_def update_rows_def
      session_clash_def run_defs)

section \<open>Sessions\<close>

lemma refresh_token_once_witness:
  "fst (RotateRefresh (sample_server 30 (CHR ''a'') (CHR ''b'') (CHR ''c'')) answered (digest64 (CHR ''b'')) next_session 30 rotated_db) =
     Inl IdRefreshReuse"
  using refresh_token_once [OF opened_reachable session_rotated rtranclp.rtrancl_refl prod.collapse [symmetric] rtranclp.rtrancl_refl,
      of "sample_server 30 (CHR ''a'') (CHR ''b'') (CHR ''c'')" answered next_session 30]
  by simp

lemma one_live_session_witness:
  "sn_consumed first_row = None \<and> (\<exists>a. account_of opened_db (sn_user first_row) = Some a \<and> ac_status a = AccountActive \<and> may_log_in a)"
  using one_live_session [OF opened_reachable, of first_row first_row]
  by (simp add: session_opened admin_row_def live_def may_log_in_def account_of_def first_row_def opened_session_def first_session_def)

definition disabled_db :: identity_db where
  "disabled_db = snd (DisableUser_store id answered (uid (CHR ''3'')) (uid (CHR ''3'')) 40 opened_db)"

lemma admin_disabled:
  "DisableUser_store id answered (uid (CHR ''3'')) (uid (CHR ''3'')) 40 opened_db = (Inr (), disabled_db)"
  by (simp add: disabled_db_def DisableUser_store_def set_account_def update_rows_def revoke_where_def revoke_def session_check_def
      session_opened admin_row_def first_session_def first_row_def opened_session_def list_ex_iff run_defs)

lemma access_ends_at_once_witness: "locked_out disabled_db first_row"
proof (rule access_ends_at_once [OF opened_reachable shuts_out.disabled [OF admin_disabled] rtranclp.rtrancl_refl])
  show "first_row \<in> set (id_sessions opened_db)" by (simp add: session_opened)
  show "sn_user first_row = uid (CHR ''3'')" by (simp add: first_row_def opened_session_def first_session_def)
qed

lemma single_administrator_witness:
  "ac_id admin_row = uid (CHR ''3'') \<and>
   (BootstrapAdmin_store id (sample_server 50 (CHR ''a'') (CHR ''b'') (CHR ''c'')) answered ''B'' ''b@b.c'' ''g'' 50 opened_db =
      (Inr (short_user admin_row), opened_db)) = False"
proof -
  have "admin_row \<in> set (id_accounts admin_db)" "ac_role admin_row = RoleAdmin" "admin_row \<in> set (id_accounts opened_db)"
    by (simp_all add: admin_bootstrapped session_opened) (simp add: admin_row_def)
  moreover have "identity_steps id admin_db opened_db"
    by (rule r_into_rtranclp [of "identity_step id", OF opened_step])
  ultimately have "BootstrapAdmin_store id (sample_server 50 (CHR ''a'') (CHR ''b'') (CHR ''c'')) answered ''B'' ''b@b.c'' ''g'' 50 opened_db =
      (Inr (short_user admin_row), opened_db) \<Longrightarrow> ''b@b.c'' = ac_email admin_row"
    using single_administrator [OF admin_reachable, of opened_db admin_row admin_row] by blast
  then show ?thesis by (auto simp: admin_row_def)
qed

section \<open>Sign-on intents and codes\<close>

definition link_intent :: OAuthIntent where
  "link_intent = \<lparr>oi_ID = [], oi_Provider = ProviderGoogle, oi_Purpose = OAuthLink, oi_BoundUserID = uid (CHR ''3''),
     oi_NonceHash = digest64 (CHR ''e''), oi_ExpiresAt = 300\<rparr>"

definition intent_db :: identity_db where
  "intent_db = snd (CreateOAuthIntent (sample_server 60 (CHR ''7'') (CHR ''8'') (CHR ''9'')) Done link_intent admin_db)"

lemma intent_begun:
  "CreateOAuthIntent (sample_server 60 (CHR ''7'') (CHR ''8'') (CHR ''9'')) Done link_intent admin_db =
     (Inr (link_intent\<lparr>oi_ID := uid (CHR ''7'')\<rparr>), intent_db)"
  "id_accounts intent_db = [admin_row]" "id_logins intent_db = id_logins admin_db"
  "id_intents intent_db = [\<lparr>in_id = uid (CHR ''7''), in_provider = ProviderGoogle, in_purpose = OAuthLink,
     in_bound = Some (uid (CHR ''3'')), in_nonce = digest64 (CHR ''e''), in_expires = 300, in_consumed = None, in_created = 60\<rparr>]"
  by (simp_all add: intent_db_def CreateOAuthIntent_def intent_check_def Provider_OAuth_def autocommit_def link_intent_def
      admin_bootstrapped admin_row_def run_defs)

definition google :: VerifiedIdentity where
  "google = \<lparr>vi_Provider = ProviderGoogle, vi_Subject = ''sub'', vi_Email = ''a@b.c'', vi_EmailVerified = True,
     vi_SuggestedName = ''A''\<rparr>"

definition linked_db :: identity_db where
  "linked_db = snd (CompleteOAuthLink answered (uid (CHR ''7'')) (uid (CHR ''3'')) google 70 intent_db)"

lemma intent_linked:
  "CompleteOAuthLink answered (uid (CHR ''7'')) (uid (CHR ''3'')) google 70 intent_db = (Inr (), linked_db)"
  by (simp add: linked_db_def CompleteOAuthLink_def lockIntent_def usable_intent_def intent_of_def consumeIntent_def
      userByIDForUpdate_def account_of_def update_rows_def intent_check_def Provider_OAuth_def login_clash_def google_def list_ex_iff
      may_log_in_def intent_begun admin_bootstrapped admin_row_def run_defs)

lemma intent_used_once_witness:
  "fst (CompleteOAuthLink answered (uid (CHR ''7'')) (uid (CHR ''3'')) google 80 linked_db) \<noteq> Inr ()"
proof -
  have "identity_reachable id intent_db"
    by (rule reach_step [OF admin_reachable identity_step.create_intent [OF intent_begun(1)]])
  from intent_used_once [OF this uses_intent.linked [OF intent_linked] rtranclp.rtrancl_refl]
  have "\<exists>e. fst (CompleteOAuthLink answered (uid (CHR ''7'')) (uid (CHR ''3'')) google 80 linked_db) = Inl e"
    by (elim conjE) (drule spec, drule spec, drule spec, drule spec, drule spec, drule spec, erule impE, rule prod.collapse [symmetric], blast)
  then show ?thesis by auto
qed

definition sample_pending :: PendingRegistration where
  "sample_pending = \<lparr>pn_ID = digest64 (CHR ''r''), pn_Email = ''c@d.e'', pn_Name = ''C'', pn_PasswordHash = ''h'',
     pn_CodeHash = digest64 (CHR ''k''), pn_EmailRateKey = ''e'', pn_Eligible = True, pn_CreatedAt = 5, pn_ExpiresAt = 600\<rparr>"

definition pending_db :: identity_db where
  "pending_db = snd (BeginRegistration answered sample_pending ''i'' 5 empty_identity)"

lemma registration_begun:
  "BeginRegistration answered sample_pending ''i'' 5 empty_identity = (Inr True, pending_db)"
  by (simp add: pending_db_def BeginRegistration_def registrationLimits_def count_request_def bucket_count_def bump_def
      store_pending_def pending_check_def sample_pending_def registrationEmailHourlyLimit_def registrationIPHourlyLimit_def
      run_defs)

lemma pending_row:
  "id_pending pending_db = [\<lparr>pe_id = digest64 (CHR ''r''), pe_email = ''c@d.e'', pe_name = ''C'', pe_hash = Some ''h'',
     pe_code = digest64 (CHR ''k''), pe_rate_key = ''e'', pe_eligible = True, pe_attempts = 0, pe_created = 5, pe_expires = 600,
     pe_sent = 5, pe_consumed = None\<rparr>]"
  "id_accounts pending_db = []" "id_logins pending_db = []"
  by (simp_all add: pending_db_def BeginRegistration_def registrationLimits_def count_request_def bucket_count_def bump_def
      store_pending_def pending_check_def sample_pending_def registrationEmailHourlyLimit_def registrationIPHourlyLimit_def
      run_defs)

definition code_guess :: "char \<Rightarrow> int \<Rightarrow> (nat \<Rightarrow> reply) \<Rightarrow> guess" where
  "code_guess c now replies = \<lparr>gu_code = digest64 c, gu_now = now, gu_server = sample_server now (CHR ''1'') (CHR ''2'') (CHR ''3''),
     gu_replies = replies, gu_before = (\<lambda>db. db)\<rparr>"

text \<open>A wrong guess, one whose transaction cannot begin, and the right one, its commit lost.\<close>

definition sample_guesses :: "guess list" where
  "sample_guesses = [code_guess (CHR ''x'') 10 answered, code_guess (CHR ''x'') 15 (\<lambda>_. Refused OtherDb),
     code_guess (CHR ''k'') 20 (\<lambda>n. if n = 5 then Lost OtherDb else Done)]"

lemma code_guesses_bounded_witness:
  "gu_code (sample_guesses ! 2) = digest64 (CHR ''k'') \<and> gu_now (sample_guesses ! 2) < 600 \<and>
   length (filter (wrong_guess (digest64 (CHR ''k'')) 600)
     (take 2 (zip sample_guesses (guesses id (digest64 (CHR ''r'')) sample_guesses pending_db)))) < 5"
proof -
  have made: "made_account (guesses id (digest64 (CHR ''r'')) sample_guesses pending_db ! 2)"
    by (simp add: sample_guesses_def code_guess_def VerifyRegistration_def verify_body_def find_pending_def pending_row
        set_pending_def update_rows_def pending_check_def made_account_def run_defs)
  have "\<forall>g \<in> set sample_guesses. keeps_registration (digest64 (CHR ''r'')) (gu_before g)" "2 < length sample_guesses"
    by (simp_all add: sample_guesses_def code_guess_def keeps_registration_def)
  from code_guesses_bounded [OF disjI1 [OF conjI [OF registration_begun(1)]] this made, of "digest64 (CHR ''k'')" 600]
  show ?thesis by (simp add: sample_pending_def)
qed

section \<open>Signing in\<close>

definition sample_env :: identity_env where
  "sample_env = \<lparr>ev_config = \<lparr>cf_AccessTokenLifetime = 10, cf_RefreshTokenLifetime = 20, cf_OAuthIntentLifetime = 5\<rparr>,
     ev_lower = id, ev_pg_normal = id, ev_parse_uuid = validUUID, ev_hashToken = (\<lambda>t. digest64 (hd (t @ ''z''))),
     ev_digest = id, ev_hash = (\<lambda>p. Inr ''h''), ev_verify = (\<lambda>p h. Inr (p = ''correct horse 77'', False)),
     ev_token = (\<lambda>n. Inr (if n = 0 then ''a'' else ''b'')), ev_code = Inr ''000000'', ev_configured = False,
     ev_oauth = (\<lambda>p t n. Inl IdInvalidOAuthToken), ev_now = (\<lambda>_. 90), ev_replies = (\<lambda>_. answered),
     ev_server = (\<lambda>_. sample_server 90 (CHR ''4'') (CHR ''5'') (CHR ''6'')), ev_others = (\<lambda>_ db. db),
     ev_rank = (\<lambda>_. 0), ev_tie = (\<lambda>_. 0)\<rparr>"

lemma sample_env_simps [simp]:
  "ev_lower sample_env = id" "ev_replies sample_env n = answered" "ev_verify sample_env p h = Inr (p = ''correct horse 77'', False)"
  "ev_others sample_env n db = db" "ev_server sample_env n = sample_server 90 (CHR ''4'') (CHR ''5'') (CHR ''6'')"
  "ev_now sample_env n = 90" "ev_token sample_env n = Inr (if n = 0 then ''a'' else ''b'')"
  "ev_hashToken sample_env t = digest64 (hd (t @ ''z''))"
  "cf_AccessTokenLifetime (ev_config sample_env) = 10" "cf_RefreshTokenLifetime (ev_config sample_env) = 20"
  by (simp_all add: sample_env_def)

definition sample_tokens :: SessionTokens where
  "sample_tokens = \<lparr>st_AccessToken = ''a'', st_AccessTokenExpiresAt = 100, st_RefreshToken = ''b'', st_RefreshTokenExpiresAt = 110,
     st_User = user_of admin_row\<rparr>"

definition login_db :: identity_db where
  "login_db = snd (PasswordLogin sample_env ''a@b.c'' ''correct horse 77'' admin_db)"

lemma sample_credentials:
  "NormalizeEmail id ''a@b.c'' = Inr ''a@b.c''" "ValidatePassword ''correct horse 77'' = None"
  by (simp_all add: NormalizeEmail_def ValidatePassword_def TrimSpace_plain RuneCount_ascii byte_def Let_def IsSpace_def)

lemma logged_in:
  "PasswordLogin sample_env ''a@b.c'' ''correct horse 77'' admin_db = (Inr sample_tokens, login_db)"
  by (simp add: login_db_def PasswordLogin_def sample_credentials FindPassword_def account_of_def may_log_in_def upgrade_hash_def
      bindS_def open_session_def makeSession_def wrapE_def CreateSession_def userByIDForUpdate_def insertSession_def
      session_check_def admin_bootstrapped admin_row_def sample_tokens_def run_defs)

lemma password_login_witness:
  "credentials sample_env admin_db ''a@b.c'' ''correct horse 77'' (us_ID (user_of admin_row)) \<and>
   accepted_as (ev_hashToken sample_env) sample_tokens login_db"
  using password_login [of sample_env "''a@b.c''" "''correct horse 77''" admin_db sample_tokens login_db] logged_in
  by (simp add: sample_tokens_def)

section \<open>Password hashes\<close>

definition sample_key :: key_function where
  "sample_key pw s t m p n = replicate n (hd (pw @ s))"


definition sample_salt :: string where
  "sample_salt = replicate 16 (CHR ''s'')"

lemma password_hash_roundtrip_witness:
  "Verify_password sample_key (NewArgon2id 64 2 1) ''wrong horse 7777''
     (phc_text 64 1 1 sample_salt (sample_key ''correct horse 77'' sample_salt 1 64 1 32)) = Inr (False, True)"
proof -
  let ?hasher = "NewArgon2id 64 1 1"
  have hashed: "Hash sample_key ?hasher (Some sample_salt) ''correct horse 77'' =
      Inr (phc_text 64 1 1 sample_salt (sample_key ''correct horse 77'' sample_salt 1 64 1 32))"
    by (simp add: Hash_def NewArgon2id_def phc_text_def sample_credentials)
  have "length (sample_key pw s t m p n) = n" for pw s t m p n
    by (simp add: sample_key_def)
  from password_hash_roundtrip [OF hashed, of "NewArgon2id 64 2 1" "''wrong horse 7777''"] this show ?thesis
    by (simp add: NewArgon2id_def sample_salt_def sample_key_def)
qed

end
