(* ===== verification/Stock_Domain.thy ===== *)
theory Stock_Domain
  imports Go_Text "HOL-Library.Word" "HOL-Library.AList"
begin

text \<open>
  The domain of the inventory adapter: \<open>domain/commit.go\<close> and \<open>domain/catalog.go\<close> under
  \<open>services/inventory-adapter/internal/inventory\<close>. A \<open>uuid.UUID\<close> is its 128 bits; \<open>uuid.Nil\<close> is
  \<open>0\<close>. Its text form is a parameter \<open>text\<close> (\<open>UUID.String\<close> of \<open>github.com/google/uuid\<close>), like the
  digest of the canonical text (SHA-256 in hexadecimal) and the time format \<open>RFC3339Nano\<close>. A time is
  a number of nanoseconds, \<open>0\<close> the zero time.
\<close>

type_synonym uuid = "128 word"

datatype stock_error =
  InvalidInput string | OperationConflict | StoreUnavailable | InvalidCatalogQuery | InternalError

definition StockSchemaVersion :: string where
  "StockSchemaVersion = ''1.0''"

datatype ResultStatus = StatusCommitted | StatusItemsUnavailable | StatusOther string

record StockLine =
  ln_OrderLineID :: uuid
  ln_ProductID :: uuid
  ln_Quantity :: int

record CommitCommand =
  cc_SchemaVersion :: string
  cc_EventID :: uuid
  cc_OperationID :: uuid
  cc_OrderID :: uuid
  cc_OccurredAt :: int
  cc_Lines :: "StockLine list"

record Shortage =
  sh_OrderLineID :: uuid
  sh_ProductID :: uuid
  sh_RequestedQuantity :: int
  sh_AvailableQuantity :: int

record CommitResult =
  cr_SchemaVersion :: string
  cr_EventID :: uuid
  cr_OperationID :: uuid
  cr_OrderID :: uuid
  cr_Status :: ResultStatus
  cr_OccurredAt :: int
  cr_UnavailableItems :: "Shortage list"

section \<open>Validation of a command\<close>

text \<open>The loop over the lines with the sets of the identifiers seen.\<close>

fun validate_lines :: "uuid set \<Rightarrow> uuid set \<Rightarrow> StockLine list \<Rightarrow> stock_error option" where
  "validate_lines lineIDs productIDs [] = None"
| "validate_lines lineIDs productIDs (line # rest) =
     (if ln_OrderLineID line = 0 \<or> ln_ProductID line = 0
      then Some (InvalidInput ''line identifiers must be non-zero UUIDs'')
      else if ln_Quantity line < 1 \<or> ln_Quantity line > 100
      then Some (InvalidInput ''quantity must be between 1 and 100'')
      else if ln_OrderLineID line \<in> lineIDs then Some (InvalidInput ''duplicate order_line_id'')
      else if ln_ProductID line \<in> productIDs then Some (InvalidInput ''duplicate product_id'')
      else validate_lines (insert (ln_OrderLineID line) lineIDs) (insert (ln_ProductID line) productIDs) rest)"

definition Validate_command :: "CommitCommand \<Rightarrow> stock_error option" where
  "Validate_command command =
     (if cc_SchemaVersion command \<noteq> StockSchemaVersion then Some (InvalidInput ''unsupported schema_version'')
      else if cc_EventID command = 0 \<or> cc_OperationID command = 0 \<or> cc_OrderID command = 0
      then Some (InvalidInput ''event, operation, and order IDs must be non-zero UUIDs'')
      else if cc_OccurredAt command = 0 then Some (InvalidInput ''occurred_at is required'')
      else if length (cc_Lines command) < 1 \<or> length (cc_Lines command) > 100
      then Some (InvalidInput ''lines must contain 1 to 100 items'')
      else validate_lines {} {} (cc_Lines command))"

section \<open>Fingerprint\<close>

text \<open>What the canonical text is made of: the metadata and the lines sorted by line identifier.\<close>

record canonicalCommand =
  ca_SchemaVersion :: string
  ca_EventID :: uuid
  ca_OperationID :: uuid
  ca_OrderID :: uuid
  ca_OccurredAt :: string
  ca_Lines :: "(uuid \<times> uuid \<times> int) list"

definition canonical ::
    "(uuid \<Rightarrow> string) \<Rightarrow> (int \<Rightarrow> string) \<Rightarrow> CommitCommand \<Rightarrow> canonicalCommand" where
  "canonical text fmt_time command =
     \<lparr>ca_SchemaVersion = cc_SchemaVersion command, ca_EventID = cc_EventID command,
      ca_OperationID = cc_OperationID command, ca_OrderID = cc_OrderID command,
      ca_OccurredAt = fmt_time (cc_OccurredAt command),
      ca_Lines = map (\<lambda>line. (ln_OrderLineID line, ln_ProductID line, ln_Quantity line))
        (sort_key (\<lambda>line. text (ln_OrderLineID line)) (cc_Lines command))\<rparr>"

definition Fingerprint ::
    "(uuid \<Rightarrow> string) \<Rightarrow> (int \<Rightarrow> string) \<Rightarrow> (canonicalCommand \<Rightarrow> string) \<Rightarrow> CommitCommand \<Rightarrow> stock_error + string" where
  "Fingerprint text fmt_time digest command =
     (case Validate_command command of
        Some e \<Rightarrow> Inl e
      | None \<Rightarrow> Inr (digest (canonical text fmt_time command)))"

section \<open>Validation of a result\<close>

fun validate_shortages :: "uuid set \<Rightarrow> Shortage list \<Rightarrow> stock_error option" where
  "validate_shortages lineIDs [] = None"
| "validate_shortages lineIDs (item # rest) =
     (if sh_OrderLineID item = 0 \<or> sh_ProductID item = 0 \<or> sh_RequestedQuantity item < 1 \<or>
         sh_AvailableQuantity item < 0
      then Some (InvalidInput ''invalid unavailable item'')
      else if sh_OrderLineID item \<in> lineIDs
      then Some (InvalidInput ''duplicate unavailable order_line_id'')
      else validate_shortages (insert (sh_OrderLineID item) lineIDs) rest)"

definition Validate_result :: "CommitResult \<Rightarrow> stock_error option" where
  "Validate_result result =
     (if cr_SchemaVersion result \<noteq> StockSchemaVersion \<or> cr_EventID result = 0 \<or> cr_OperationID result = 0 \<or>
         cr_OrderID result = 0 \<or> cr_OccurredAt result = 0
      then Some (InvalidInput ''invalid inventory result metadata'')
      else case cr_Status result of
        StatusCommitted \<Rightarrow>
          (if length (cr_UnavailableItems result) \<noteq> 0
           then Some (InvalidInput ''committed result cannot contain unavailable items'') else None)
      | StatusItemsUnavailable \<Rightarrow>
          (if length (cr_UnavailableItems result) = 0
           then Some (InvalidInput ''unavailable result requires items'')
           else validate_shortages {} (cr_UnavailableItems result))
      | StatusOther _ \<Rightarrow> Some (InvalidInput ''invalid result status''))"

section \<open>Catalog queries and pages\<close>

record CatalogQuery =
  cq_Limit :: int
  cq_AfterID :: uuid

record CatalogProduct =
  cp_ProductID :: uuid
  cp_Name :: string
  cp_Description :: string
  cp_PriceCentavos :: int
  cp_CategoryID :: uuid
  cp_CategoryName :: string
  cp_Available :: bool
  cp_SourceUpdatedAt :: int

record CatalogPage =
  pg_Products :: "CatalogProduct list"
  pg_NextAfterID :: uuid

definition Validate_query :: "CatalogQuery \<Rightarrow> stock_error option" where
  "Validate_query query =
     (if cq_Limit query < 1 \<or> cq_Limit query > 100 then Some InvalidCatalogQuery else None)"

definition product_valid :: "CatalogProduct \<Rightarrow> bool" where
  "product_valid product \<longleftrightarrow>
     \<not> (cp_ProductID product = 0 \<or> cp_CategoryID product = 0 \<or> TrimSpace (cp_Name product) = [] \<or>
        TrimSpace (cp_CategoryName product) = [] \<or> cp_PriceCentavos product < 0 \<or>
        cp_SourceUpdatedAt product = 0)"

definition Validate_page :: "CatalogPage \<Rightarrow> stock_error option" where
  "Validate_page page =
     (if length (pg_Products page) > 100 then Some InvalidCatalogQuery
      else if list_all product_valid (pg_Products page) then None else Some InvalidCatalogQuery)"

section \<open>What validation means\<close>

definition line_valid :: "StockLine \<Rightarrow> bool" where
  "line_valid l \<longleftrightarrow> ln_OrderLineID l \<noteq> 0 \<and> ln_ProductID l \<noteq> 0 \<and> 1 \<le> ln_Quantity l \<and> ln_Quantity l \<le> 100"

lemma validate_lines_None:
  "validate_lines L P ls = None \<longleftrightarrow>
     (\<forall>l \<in> set ls. line_valid l) \<and> distinct (map ln_OrderLineID ls) \<and> distinct (map ln_ProductID ls) \<and>
     ln_OrderLineID ` set ls \<inter> L = {} \<and> ln_ProductID ` set ls \<inter> P = {}"
  by (induction L P ls rule: validate_lines.induct) (auto simp: line_valid_def)

lemma Validate_command_None:
  "Validate_command command = None \<longleftrightarrow>
     cc_SchemaVersion command = StockSchemaVersion \<and> cc_EventID command \<noteq> 0 \<and> cc_OperationID command \<noteq> 0 \<and>
     cc_OrderID command \<noteq> 0 \<and> cc_OccurredAt command \<noteq> 0 \<and>
     1 \<le> length (cc_Lines command) \<and> length (cc_Lines command) \<le> 100 \<and>
     (\<forall>l \<in> set (cc_Lines command). line_valid l) \<and> distinct (map ln_OrderLineID (cc_Lines command)) \<and>
     distinct (map ln_ProductID (cc_Lines command))"
  by (auto simp: Validate_command_def validate_lines_None Suc_le_eq)

lemma Validate_command_errors: "Validate_command command = Some e \<Longrightarrow> \<exists>msg. e = InvalidInput msg"
proof -
  have "validate_lines L P ls = Some e \<Longrightarrow> \<exists>msg. e = InvalidInput msg" for L P ls
    by (induction L P ls rule: validate_lines.induct) (auto split: if_splits)
  then show "Validate_command command = Some e \<Longrightarrow> \<exists>msg. e = InvalidInput msg"
    by (auto simp: Validate_command_def split: if_splits)
qed

definition shortage_valid :: "Shortage \<Rightarrow> bool" where
  "shortage_valid s \<longleftrightarrow> sh_OrderLineID s \<noteq> 0 \<and> sh_ProductID s \<noteq> 0 \<and> 1 \<le> sh_RequestedQuantity s \<and>
     0 \<le> sh_AvailableQuantity s"

lemma validate_shortages_None:
  "validate_shortages L ss = None \<longleftrightarrow>
     (\<forall>s \<in> set ss. shortage_valid s) \<and> distinct (map sh_OrderLineID ss) \<and> sh_OrderLineID ` set ss \<inter> L = {}"
  by (induction L ss rule: validate_shortages.induct) (auto simp: shortage_valid_def)

text \<open>
  C36: The fingerprint does not depend on the order of the lines, and with a collision-free
  digest two valid commands with one fingerprint are the same request: same identifiers, time
  and multiset of lines.
\<close>

theorem fingerprint_identifies_request:
  assumes "Fingerprint text fmt_time digest command1 = Inr fp1" and "Fingerprint text fmt_time digest command2 = Inr fp2"
    and "inj text" and "inj fmt_time"
    and "digest (canonical text fmt_time command1) = digest (canonical text fmt_time command2) \<Longrightarrow>
      canonical text fmt_time command1 = canonical text fmt_time command2"
  shows "fp1 = fp2 \<longleftrightarrow>
    cc_EventID command1 = cc_EventID command2 \<and> cc_OperationID command1 = cc_OperationID command2 \<and>
    cc_OrderID command1 = cc_OrderID command2 \<and> cc_OccurredAt command1 = cc_OccurredAt command2 \<and>
    mset (cc_Lines command1) = mset (cc_Lines command2)"
proof -
  let ?key = "\<lambda>line. text (ln_OrderLineID line)"
  let ?tuple = "\<lambda>line :: StockLine. (ln_OrderLineID line, ln_ProductID line, ln_Quantity line)"
  have valid: "Validate_command command1 = None" "Validate_command command2 = None"
    and fp: "fp1 = digest (canonical text fmt_time command1)" "fp2 = digest (canonical text fmt_time command2)"
    using assms(1,2) by (auto simp: Fingerprint_def split: option.splits)
  have keys: "distinct (map ?key (cc_Lines c))" if "Validate_command c = None" for c
    using that assms(3) by (auto simp: Validate_command_None distinct_map inj_on_def)
  have tuple: "inj ?tuple" by (auto intro!: injI StockLine.equality)
  have "mset (cc_Lines command1) = mset (cc_Lines command2)"
    if "map ?tuple (sort_key ?key (cc_Lines command1)) = map ?tuple (sort_key ?key (cc_Lines command2))"
  proof -
    have "sort_key ?key (cc_Lines command1) = sort_key ?key (cc_Lines command2)"
      using that tuple by (simp add: inj_map_eq_map)
    then show ?thesis by (metis mset_sort)
  qed
  moreover have "sort_key ?key (cc_Lines command1) = sort_key ?key (cc_Lines command2)"
    if m: "mset (cc_Lines command1) = mset (cc_Lines command2)"
    using m keys [OF valid(1)] by (intro sort_key_perm) (simp_all add: distinct_map)
  ultimately have "canonical text fmt_time command1 = canonical text fmt_time command2 \<longleftrightarrow>
    cc_EventID command1 = cc_EventID command2 \<and> cc_OperationID command1 = cc_OperationID command2 \<and>
    cc_OrderID command1 = cc_OrderID command2 \<and> cc_OccurredAt command1 = cc_OccurredAt command2 \<and>
    mset (cc_Lines command1) = mset (cc_Lines command2)"
    using valid assms(4) by (auto simp: canonical_def Validate_command_None dest: injD)
  then show ?thesis unfolding fp using assms(5) by metis
qed

end
