(* ===== verification/Stock_Store.thy ===== *)
theory Stock_Store
  imports Stock_Domain
begin

text \<open>
  The PostgreSQL store of the inventory adapter: \<open>adapters/postgres/store.go\<close> and \<open>catalog.go\<close>
  under \<open>services/inventory-adapter/internal/inventory\<close>, over the tables of the point of sale it
  reads and writes and its own receipts (\<open>migrations/00001_create_inventory_commit_receipts.sql\<close>).
  A commit runs at isolation level \<open>SERIALIZABLE\<close>, so it acts on one state of the tables, or
  fails. Go's map iteration orders are parameters of the run.
\<close>

section \<open>Tables\<close>

record item_row =
  im_id :: uuid
  im_name :: string
  im_description :: "string option"
  im_price :: int
  im_stock :: int
  im_active :: bool
  im_tracks :: bool
  im_composite :: bool
  im_category :: uuid
  im_created :: int
  im_updated :: "int option"

record category_row =
  ct_id :: uuid
  ct_name :: string

text \<open>A component's quantity is in thousandths, the column being \<open>numeric(18,3)\<close>.\<close>

record component_row =
  co_parent :: uuid
  co_component :: uuid
  co_quantity :: int

record movement_row =
  mv_id :: uuid
  mv_item :: uuid
  mv_type :: int
  mv_quantity :: int
  mv_notes :: string
  mv_actor :: uuid
  mv_at :: int

record receiptItem =
  ri_OrderLineID :: string
  ri_ProductID :: string
  ri_Quantity :: int

record receiptRequest =
  rq_SchemaVersion :: string
  rq_EventID :: string
  rq_OperationID :: string
  rq_OrderID :: string
  rq_OccurredAt :: string
  rq_Items :: "receiptItem list"

record receiptUnavailableItem =
  ru_OrderLineID :: string
  ru_ProductID :: string
  ru_RequestedQuantity :: int
  ru_AvailableQuantity :: int

record receiptResult =
  rr_SchemaVersion :: string
  rr_EventID :: string
  rr_OperationID :: string
  rr_OrderID :: string
  rr_Result :: ResultStatus
  rr_OccurredAt :: string
  rr_Items :: "receiptUnavailableItem list"

text \<open>The two JSON columns hold the structs that were marshalled into them.\<close>

record receipt_row =
  rc_operation_id :: uuid
  rc_request_event_id :: uuid
  rc_order_id :: uuid
  rc_fingerprint :: string
  rc_request :: receiptRequest
  rc_result_event_id :: uuid
  rc_status :: ResultStatus
  rc_result :: receiptResult
  rc_completed_at :: int

record stock_db =
  sd_items :: "item_row list"
  sd_categories :: "category_row list"
  sd_components :: "component_row list"
  sd_movements :: "movement_row list"
  sd_receipts :: "receipt_row list"

definition receipt_check :: "(uuid \<Rightarrow> string) \<Rightarrow> receipt_row \<Rightarrow> bool" where
  "receipt_check uuid_text r \<longleftrightarrow>
     rc_status r \<in> {StatusCommitted, StatusItemsUnavailable} \<and>
     length (rc_fingerprint r) = 64 \<and>
     list_all (\<lambda>c. is_hex c \<and> \<not> (65 \<le> byte c \<and> byte c \<le> 70)) (rc_fingerprint r) \<and>
     rq_SchemaVersion (rc_request r) = ''1.0'' \<and> rq_EventID (rc_request r) = uuid_text (rc_request_event_id r) \<and>
     rq_OperationID (rc_request r) = uuid_text (rc_operation_id r) \<and>
     rq_OrderID (rc_request r) = uuid_text (rc_order_id r) \<and>
     1 \<le> length (rq_Items (rc_request r)) \<and> length (rq_Items (rc_request r)) \<le> 100 \<and>
     rr_SchemaVersion (rc_result r) = ''1.0'' \<and> rr_EventID (rc_result r) = uuid_text (rc_result_event_id r) \<and>
     rr_OperationID (rc_result r) = uuid_text (rc_operation_id r) \<and>
     rr_OrderID (rc_result r) = uuid_text (rc_order_id r) \<and> rr_Result (rc_result r) = rc_status r \<and>
     (rc_status r = StatusCommitted \<longleftrightarrow> rr_Items (rc_result r) = [])"

definition receipt_clash :: "receipt_row \<Rightarrow> receipt_row \<Rightarrow> bool" where
  "receipt_clash x r \<longleftrightarrow> rc_operation_id x = rc_operation_id r \<or>
     rc_request_event_id x = rc_request_event_id r \<or> rc_result_event_id x = rc_result_event_id r"

section \<open>Errors and parameters\<close>

text \<open>
  The errors inside one attempt: a conflict of the receipt, an error of the database with its
  class, any other error. \<open>Commit\<close> and \<open>classifyStoreError\<close> look at no more than that.
\<close>

datatype attempt_error = Conflicting | Pg dberr | Internal

definition ask :: "reply \<Rightarrow> dberr + 'a \<Rightarrow> attempt_error + 'a" where
  "ask r x = map_sum Pg id (exec r x)"

record stockDemand =
  dm_Quantity :: int
  dm_DependentLine :: "uuid list"

text \<open>
  The text forms of identifiers and times (\<open>UUID.String\<close> and \<open>uuid.Parse\<close> of
  \<open>github.com/google/uuid\<close>, \<open>RFC3339Nano\<close>), and what one attempt takes from outside: the generated
  identifiers, the clock, the actor of the movements, and the order in which the components of
  a composite, the demands and the dependent lines of a demand are ranged over.
\<close>

record codec =
  cd_text :: "uuid \<Rightarrow> string"
  cd_parse :: "string \<Rightarrow> uuid option"
  cd_fmt :: "int \<Rightarrow> string"
  cd_parse_time :: "string \<Rightarrow> int option"

record stock_env =
  se_ids :: "nat \<Rightarrow> uuid"
  se_now :: int
  se_actor :: uuid
  se_parts :: "(uuid \<times> int) list \<Rightarrow> (uuid \<times> int) list"
  se_demands :: "(uuid \<times> stockDemand) list \<Rightarrow> (uuid \<times> stockDemand) list"
  se_lines :: "uuid list \<Rightarrow> uuid list"

section \<open>Receipts\<close>

definition requestToReceipt :: "codec \<Rightarrow> CommitCommand \<Rightarrow> receiptRequest" where
  "requestToReceipt cd command =
     \<lparr>rq_SchemaVersion = cc_SchemaVersion command, rq_EventID = cd_text cd (cc_EventID command),
      rq_OperationID = cd_text cd (cc_OperationID command), rq_OrderID = cd_text cd (cc_OrderID command),
      rq_OccurredAt = cd_fmt cd (cc_OccurredAt command),
      rq_Items = map (\<lambda>line. \<lparr>ri_OrderLineID = cd_text cd (ln_OrderLineID line),
        ri_ProductID = cd_text cd (ln_ProductID line), ri_Quantity = ln_Quantity line\<rparr>) (cc_Lines command)\<rparr>"

definition resultToReceipt :: "codec \<Rightarrow> CommitResult \<Rightarrow> receiptResult" where
  "resultToReceipt cd result =
     \<lparr>rr_SchemaVersion = cr_SchemaVersion result, rr_EventID = cd_text cd (cr_EventID result),
      rr_OperationID = cd_text cd (cr_OperationID result), rr_OrderID = cd_text cd (cr_OrderID result),
      rr_Result = cr_Status result, rr_OccurredAt = cd_fmt cd (cr_OccurredAt result),
      rr_Items = map (\<lambda>item. \<lparr>ru_OrderLineID = cd_text cd (sh_OrderLineID item),
        ru_ProductID = cd_text cd (sh_ProductID item), ru_RequestedQuantity = sh_RequestedQuantity item,
        ru_AvailableQuantity = sh_AvailableQuantity item\<rparr>) (cr_UnavailableItems result)\<rparr>"

fun decode_items :: "codec \<Rightarrow> receiptUnavailableItem list \<Rightarrow> Shortage list option" where
  "decode_items cd [] = Some []"
| "decode_items cd (item # rest) =
     (case (cd_parse cd (ru_OrderLineID item), cd_parse cd (ru_ProductID item)) of
        (Some lineID, Some productID) \<Rightarrow>
          map_option (Cons \<lparr>sh_OrderLineID = lineID, sh_ProductID = productID,
            sh_RequestedQuantity = ru_RequestedQuantity item, sh_AvailableQuantity = ru_AvailableQuantity item\<rparr>)
            (decode_items cd rest)
      | _ \<Rightarrow> None)"

definition decodeReceiptResult :: "codec \<Rightarrow> receiptResult \<Rightarrow> CommitResult option" where
  "decodeReceiptResult cd wire =
     (case (cd_parse cd (rr_EventID wire), cd_parse cd (rr_OperationID wire), cd_parse cd (rr_OrderID wire),
            cd_parse_time cd (rr_OccurredAt wire), decode_items cd (rr_Items wire)) of
        (Some eventID, Some operationID, Some orderID, Some occurredAt, Some items) \<Rightarrow>
          let result = \<lparr>cr_SchemaVersion = rr_SchemaVersion wire, cr_EventID = eventID,
            cr_OperationID = operationID, cr_OrderID = orderID, cr_Status = rr_Result wire,
            cr_OccurredAt = occurredAt, cr_UnavailableItems = items\<rparr> in
          if Validate_result result = None then Some result else None
      | _ \<Rightarrow> None)"

definition loadReceipt ::
    "codec \<Rightarrow> reply \<Rightarrow> stock_db \<Rightarrow> uuid \<Rightarrow> string \<Rightarrow> attempt_error + CommitResult option" where
  "loadReceipt cd r db operationID fingerprint =
     bindE (ask r (Inr (find (\<lambda>x. rc_operation_id x = operationID) (sd_receipts db)))) (\<lambda>row.
       case row of
         None \<Rightarrow> Inr None
       | Some row \<Rightarrow>
           if rc_fingerprint row \<noteq> fingerprint then Inl Conflicting
           else case decodeReceiptResult cd (rc_result row) of
             None \<Rightarrow> Inl Internal
           | Some result \<Rightarrow> Inr (Some result))"

definition insertReceipt ::
    "codec \<Rightarrow> reply \<Rightarrow> CommitCommand \<Rightarrow> string \<Rightarrow> CommitResult \<Rightarrow> stock_db \<Rightarrow> attempt_error + stock_db" where
  "insertReceipt cd r command fingerprint result db =
     ask r (map_sum id (\<lambda>rows. db\<lparr>sd_receipts := rows\<rparr>)
       (insert_row (receipt_check (cd_text cd)) receipt_clash (\<lambda>_. True)
          \<lparr>rc_operation_id = cc_OperationID command, rc_request_event_id = cc_EventID command,
           rc_order_id = cc_OrderID command, rc_fingerprint = fingerprint,
           rc_request = requestToReceipt cd command, rc_result_event_id = cr_EventID result,
           rc_status = cr_Status result, rc_result = resultToReceipt cd result,
           rc_completed_at = cr_OccurredAt result\<rparr> (sd_receipts db)))"

section \<open>Demand\<close>

record itemState =
  st_ID :: uuid
  st_Stock :: int
  st_Active :: bool
  st_TracksStock :: bool
  st_Composite :: bool

definition state_of_row :: "item_row \<Rightarrow> itemState" where
  "state_of_row r = \<lparr>st_ID = im_id r, st_Stock = im_stock r, st_Active = im_active r,
     st_TracksStock = im_tracks r, st_Composite = im_composite r\<rparr>"

text \<open>The map of the loaded items; nothing is asked for an empty list of identifiers.\<close>

definition loadItems :: "reply \<Rightarrow> stock_db \<Rightarrow> uuid list \<Rightarrow> attempt_error + (uuid \<rightharpoonup> itemState)" where
  "loadItems r db ids =
     (if ids = [] then Inr Map.empty
      else ask r (Inr (\<lambda>id. if id \<in> set ids
        then map_option state_of_row (find (\<lambda>x. im_id x = id) (sd_items db)) else None)))"

text \<open>\<open>CEIL(quantity * n)::integer\<close>, out of range beyond 32 bits.\<close>

definition part_quantity :: "int \<Rightarrow> int \<Rightarrow> dberr + int" where
  "part_quantity thousandths n =
     (let q = (thousandths * n + 999) div 1000 in if q > 2147483647 then Inl OtherDb else Inr q)"

fun sum_parts :: "int \<Rightarrow> component_row list \<Rightarrow> dberr + (uuid \<times> int) list" where
  "sum_parts n [] = Inr []"
| "sum_parts n (c # rest) =
     bindE (part_quantity (co_quantity c) n) (\<lambda>q.
     bindE (sum_parts n rest) (\<lambda>parts.
       Inr (AList.update (co_component c) (q + (case map_of parts (co_component c) of None \<Rightarrow> 0 | Some v \<Rightarrow> v)) parts)))"

definition loadCompositeDemand :: "reply \<Rightarrow> stock_db \<Rightarrow> uuid \<Rightarrow> int \<Rightarrow> attempt_error + (uuid \<times> int) list" where
  "loadCompositeDemand r db parentID orderedQuantity =
     ask r (sum_parts orderedQuantity (filter (\<lambda>c. co_parent c = parentID) (sd_components db)))"

definition addDemand ::
    "uuid \<Rightarrow> uuid \<Rightarrow> int \<Rightarrow> (uuid \<times> stockDemand) list \<Rightarrow> (uuid \<times> stockDemand) list" where
  "addDemand stockItemID lineID quantity demands =
     (let v = (case map_of demands stockItemID of
                 None \<Rightarrow> \<lparr>dm_Quantity = 0, dm_DependentLine = []\<rparr> | Some v \<Rightarrow> v) in
      AList.update stockItemID
        (v\<lparr>dm_Quantity := dm_Quantity v + quantity,
           dm_DependentLine := List.insert lineID (dm_DependentLine v)\<rparr>) demands)"

definition unavailableFor :: "StockLine \<Rightarrow> int \<Rightarrow> Shortage" where
  "unavailableFor line available =
     \<lparr>sh_OrderLineID = ln_OrderLineID line, sh_ProductID = ln_ProductID line,
      sh_RequestedQuantity = ln_Quantity line, sh_AvailableQuantity = (if available < 0 then 0 else available)\<rparr>"

record plan =
  pl_demands :: "(uuid \<times> stockDemand) list"
  pl_unavailable :: "(uuid \<times> Shortage) list"
  pl_composite :: "uuid list"
  pl_relevant :: "uuid list"

definition refuse_line :: "StockLine \<Rightarrow> int \<Rightarrow> plan \<Rightarrow> plan" where
  "refuse_line line available p =
     p\<lparr>pl_unavailable := AList.update (ln_OrderLineID line) (unavailableFor line available) (pl_unavailable p)\<rparr>"

text \<open>The first loop over the lines; \<open>n\<close> counts the round trips.\<close>

fun plan_lines ::
    "stock_env \<Rightarrow> (nat \<Rightarrow> reply) \<Rightarrow> stock_db \<Rightarrow> (uuid \<rightharpoonup> itemState) \<Rightarrow> nat \<Rightarrow> plan \<Rightarrow> StockLine list \<Rightarrow>
     attempt_error + plan \<times> nat" where
  "plan_lines env replies db initial n p [] = Inr (p, n)"
| "plan_lines env replies db initial n p (line # rest) =
     (case initial (ln_ProductID line) of
        None \<Rightarrow> plan_lines env replies db initial n (refuse_line line 0 p) rest
      | Some item \<Rightarrow>
          if \<not> st_Active item then plan_lines env replies db initial n (refuse_line line 0 p) rest
          else if \<not> st_TracksStock item then plan_lines env replies db initial n p rest
          else if \<not> st_Composite item
          then plan_lines env replies db initial n
                 (p\<lparr>pl_demands := addDemand (ln_ProductID line) (ln_OrderLineID line) (ln_Quantity line) (pl_demands p)\<rparr>)
                 rest
          else
            (let p1 = p\<lparr>pl_composite := List.insert (ln_OrderLineID line) (pl_composite p)\<rparr> in
             bindE (loadCompositeDemand (replies n) db (ln_ProductID line) (ln_Quantity line)) (\<lambda>components.
               if components = []
               then plan_lines env replies db initial (Suc n) (refuse_line line 0 p1) rest
               else plan_lines env replies db initial (Suc n)
                 (foldl (\<lambda>p (componentID, quantity).
                    p\<lparr>pl_relevant := List.insert componentID (pl_relevant p),
                      pl_demands := addDemand componentID (ln_OrderLineID line) quantity (pl_demands p)\<rparr>)
                    p1 (se_parts env components)) rest)))"

text \<open>The loop over the lines after the items are locked.\<close>

definition recheck_lines :: "(uuid \<rightharpoonup> itemState) \<Rightarrow> plan \<Rightarrow> StockLine list \<Rightarrow> plan" where
  "recheck_lines locked p lines =
     foldl (\<lambda>p line. case locked (ln_ProductID line) of
        None \<Rightarrow> refuse_line line 0 p
      | Some item \<Rightarrow> if \<not> st_Active item then refuse_line line 0 p else p) p lines"

definition zero_stock_line :: StockLine where
  "zero_stock_line = \<lparr>ln_OrderLineID = 0, ln_ProductID = 0, ln_Quantity = 0\<rparr>"

definition index_lines :: "StockLine list \<Rightarrow> (uuid \<rightharpoonup> StockLine)" where
  "index_lines lines = foldl (\<lambda>m line. m(ln_OrderLineID line \<mapsto> line)) Map.empty lines"

definition physical :: "itemState option \<Rightarrow> bool" where
  "physical item \<longleftrightarrow> (case item of None \<Rightarrow> False
     | Some i \<Rightarrow> st_Active i \<and> st_TracksStock i \<and> \<not> st_Composite i)"

text \<open>One step of the loop over the demands.\<close>

definition judge_demand ::
    "stock_env \<Rightarrow> (uuid \<rightharpoonup> itemState) \<Rightarrow> (uuid \<rightharpoonup> StockLine) \<Rightarrow> plan \<Rightarrow> uuid \<times> stockDemand \<Rightarrow> plan" where
  "judge_demand env locked linesByID p entry =
     (case entry of (stockItemID, demand) \<Rightarrow>
        let item = locked stockItemID;
            stock = (case item of None \<Rightarrow> 0 | Some i \<Rightarrow> st_Stock i);
            available = (if physical item \<and> stock > 0 then stock else 0) in
        if physical item \<and> stock \<ge> dm_Quantity demand then p
        else foldl (\<lambda>p lineID.
               let line = (case linesByID lineID of None \<Rightarrow> zero_stock_line | Some l \<Rightarrow> l);
                   lineAvailable = (if lineID \<in> set (pl_composite p) then 0 else available) in
               p\<lparr>pl_unavailable := AList.update lineID (unavailableFor line lineAvailable) (pl_unavailable p)\<rparr>)
             p (se_lines env (dm_DependentLine demand)))"

definition sortedUnavailable :: "codec \<Rightarrow> (uuid \<times> Shortage) list \<Rightarrow> Shortage list" where
  "sortedUnavailable cd values = sort_key (\<lambda>s. cd_text cd (sh_OrderLineID s)) (map snd values)"

definition sortedDemandIDs :: "codec \<Rightarrow> (uuid \<times> stockDemand) list \<Rightarrow> uuid list" where
  "sortedDemandIDs cd demands = sort_key (cd_text cd) (map fst demands)"

section \<open>Deduction\<close>

definition movement_for :: "codec \<Rightarrow> stock_env \<Rightarrow> CommitCommand \<Rightarrow> nat \<Rightarrow> uuid \<Rightarrow> int \<Rightarrow> movement_row" where
  "movement_for cd env command k stockItemID quantity =
     \<lparr>mv_id = se_ids env k, mv_item = stockItemID, mv_type = 1, mv_quantity = - quantity,
      mv_notes = ''B46 online order '' @ cd_text cd (cc_OrderID command) @ ''; operation '' @
        cd_text cd (cc_OperationID command),
      mv_actor = se_actor env, mv_at = se_now env\<rparr>"

text \<open>The \<open>UPDATE\<close> and the movement of each stock item; \<open>k\<close> counts the generated identifiers.\<close>

fun deduct_all ::
    "codec \<Rightarrow> stock_env \<Rightarrow> (nat \<Rightarrow> reply) \<Rightarrow> CommitCommand \<Rightarrow> (uuid \<times> stockDemand) list \<Rightarrow> nat \<Rightarrow> nat \<Rightarrow> uuid list \<Rightarrow>
     stock_db \<Rightarrow> attempt_error + stock_db \<times> nat" where
  "deduct_all cd env replies command demands n k [] db = Inr (db, n)"
| "deduct_all cd env replies command demands n k (stockItemID # rest) db =
     (let quantity = (case map_of demands stockItemID of None \<Rightarrow> 0 | Some d \<Rightarrow> dm_Quantity d);
          P = (\<lambda>r. im_id r = stockItemID \<and> im_active r \<and> im_tracks r \<and> \<not> im_composite r \<and>
                 quantity \<le> im_stock r) in
      bindE (ask (replies n) (update_rows (\<lambda>_. True) P
              (\<lambda>r. r\<lparr>im_stock := im_stock r - quantity, im_updated := Some (se_now env)\<rparr>) (sd_items db))) (\<lambda>(rows, tag).
        if tag \<noteq> 1 then Inl Internal
        else
          bindE (ask (replies (Suc n)) (insert_row (\<lambda>_. True) (\<lambda>x r. mv_id x = mv_id r)
                  (\<lambda>m. list_ex (\<lambda>i. im_id i = mv_item m) rows)
                  (movement_for cd env command k stockItemID quantity) (sd_movements db))) (\<lambda>movements.
            deduct_all cd env replies command demands (n + 2) (Suc k) rest
              (db\<lparr>sd_items := rows, sd_movements := movements\<rparr>))))"

section \<open>One attempt\<close>

text \<open>What the locked items decide: the plan with every line that cannot be served.\<close>

definition decide :: "stock_env \<Rightarrow> (uuid \<rightharpoonup> itemState) \<Rightarrow> CommitCommand \<Rightarrow> plan \<Rightarrow> plan" where
  "decide env locked command p =
     foldl (judge_demand env locked (index_lines (cc_Lines command)))
       (recheck_lines locked p (cc_Lines command)) (se_demands env (pl_demands p))"

definition result_of_plan :: "codec \<Rightarrow> stock_env \<Rightarrow> CommitCommand \<Rightarrow> plan \<Rightarrow> CommitResult" where
  "result_of_plan cd env command p =
     \<lparr>cr_SchemaVersion = StockSchemaVersion, cr_EventID = se_ids env 0,
      cr_OperationID = cc_OperationID command, cr_OrderID = cc_OrderID command,
      cr_Status = (if pl_unavailable p \<noteq> [] then StatusItemsUnavailable else StatusCommitted),
      cr_OccurredAt = se_now env,
      cr_UnavailableItems = (if pl_unavailable p \<noteq> [] then sortedUnavailable cd (pl_unavailable p) else [])\<rparr>"

text \<open>
  The body of the transaction: a replayed result with nothing to commit, or a new result with
  the state to commit and the number of the next round trip.
\<close>

definition commit_body ::
    "codec \<Rightarrow> stock_env \<Rightarrow> (nat \<Rightarrow> reply) \<Rightarrow> CommitCommand \<Rightarrow> string \<Rightarrow> stock_db \<Rightarrow>
     attempt_error + CommitResult \<times> (stock_db \<times> nat) option" where
  "commit_body cd env replies command fingerprint db =
     bindE (ask (replies 1) (Inr ())) (\<lambda>_.
     bindE (loadReceipt cd (replies 2) db (cc_OperationID command) fingerprint) (\<lambda>found.
       case found of
         Some replay \<Rightarrow> Inr (replay, None)
       | None \<Rightarrow>
           let requestedIDs = map ln_ProductID (cc_Lines command) in
           bindE (loadItems (replies 3) db requestedIDs) (\<lambda>initial.
           bindE (plan_lines env replies db initial 4
                    \<lparr>pl_demands = [], pl_unavailable = [], pl_composite = [], pl_relevant = remdups requestedIDs\<rparr>
                    (cc_Lines command)) (\<lambda>(p0, n).
           bindE (loadItems (replies n) db (pl_relevant p0)) (\<lambda>locked.
             let p = decide env locked command p0;
                 result = result_of_plan cd env command p in
             bindE (if pl_unavailable p \<noteq> [] then Inr (db, Suc n)
                    else deduct_all cd env replies command (pl_demands p0) (Suc n) 1
                           (sortedDemandIDs cd (pl_demands p0)) db) (\<lambda>(db1, m).
             bindE (insertReceipt cd (replies m) command fingerprint result db1) (\<lambda>db2.
               Inr (result, Some (db2, Suc m)))))))))"

definition commitOnce ::
    "codec \<Rightarrow> stock_env \<Rightarrow> (nat \<Rightarrow> reply) \<Rightarrow> CommitCommand \<Rightarrow> string \<Rightarrow> stock_db \<Rightarrow> (attempt_error + CommitResult) \<times> stock_db" where
  "commitOnce cd env replies command fingerprint db =
     (case ask (replies 0) (Inr ()) of
        Inl e \<Rightarrow> (Inl e, db)
      | Inr _ \<Rightarrow>
          (case commit_body cd env replies command fingerprint db of
             Inl e \<Rightarrow> (Inl e, db)
           | Inr (result, None) \<Rightarrow> (Inr result, db)
           | Inr (result, Some (db', n)) \<Rightarrow>
               (case replies n of
                  Done \<Rightarrow> (Inr result, db')
                | Refused k \<Rightarrow> (Inl (Pg k), db)
                | Lost k \<Rightarrow> (Inl (Pg k), db'))))"

section \<open>Commit with retries\<close>

definition maxSerializableTries :: nat where
  "maxSerializableTries = 3"

definition isSerializationFailure :: "attempt_error \<Rightarrow> bool" where
  "isSerializationFailure e \<longleftrightarrow> e = Pg Serialization"

definition classifyStoreError :: "attempt_error \<Rightarrow> stock_error" where
  "classifyStoreError e =
     (case e of
        Conflicting \<Rightarrow> OperationConflict
      | Pg UniqueViolation \<Rightarrow> OperationConflict
      | _ \<Rightarrow> StoreUnavailable)"

text \<open>
  The loop of \<open>Commit\<close>, with the number of tries left. \<open>env k\<close> and \<open>replies k\<close> belong to the
  \<open>k\<close>-th attempt of the call; \<open>meanwhile k\<close> is what other transactions do before it.
\<close>

fun commit_tries ::
    "codec \<Rightarrow> nat \<Rightarrow> nat \<Rightarrow> (nat \<Rightarrow> stock_env) \<Rightarrow> (nat \<Rightarrow> nat \<Rightarrow> reply) \<Rightarrow> (nat \<Rightarrow> stock_db \<Rightarrow> stock_db) \<Rightarrow> CommitCommand \<Rightarrow>
     string \<Rightarrow> stock_db \<Rightarrow> (stock_error + CommitResult) \<times> stock_db" where
  "commit_tries cd 0 k env replies meanwhile command fingerprint db = (Inl StoreUnavailable, db)"
| "commit_tries cd (Suc tries) k env replies meanwhile command fingerprint db =
     (case commitOnce cd (env k) (replies k) command fingerprint (meanwhile k db) of
        (Inr result, db') \<Rightarrow> (Inr result, db')
      | (Inl e, db') \<Rightarrow>
          if \<not> isSerializationFailure e then (Inl (classifyStoreError e), db')
          else commit_tries cd tries (Suc k) env replies meanwhile command fingerprint db')"

definition Commit_store ::
    "codec \<Rightarrow> (nat \<Rightarrow> stock_env) \<Rightarrow> (nat \<Rightarrow> nat \<Rightarrow> reply) \<Rightarrow> (nat \<Rightarrow> stock_db \<Rightarrow> stock_db) \<Rightarrow> CommitCommand \<Rightarrow> string \<Rightarrow>
     stock_db \<Rightarrow> (stock_error + CommitResult) \<times> stock_db" where
  "Commit_store cd env replies meanwhile command fingerprint db =
     commit_tries cd maxSerializableTries 0 env replies meanwhile command fingerprint db"

section \<open>The catalog\<close>

definition available_now :: "stock_db \<Rightarrow> item_row \<Rightarrow> bool" where
  "available_now db i =
     (if \<not> im_active i then False
      else if \<not> im_tracks i then True
      else if \<not> im_composite i then 0 < im_stock i
      else list_ex (\<lambda>c. co_parent c = im_id i) (sd_components db) \<and>
        \<not> list_ex (\<lambda>c. co_parent c = im_id i \<and>
            (case find (\<lambda>x. im_id x = co_component c) (sd_items db) of
               None \<Rightarrow> True
             | Some component \<Rightarrow> \<not> im_active component \<or>
                 (im_tracks component \<and> im_stock component < (co_quantity c + 999) div 1000)))
          (sd_components db))"

text \<open>The joined row of one item; an item without its category does not appear.\<close>

definition catalog_product :: "stock_db \<Rightarrow> item_row \<Rightarrow> CatalogProduct option" where
  "catalog_product db i =
     map_option (\<lambda>c. \<lparr>cp_ProductID = im_id i, cp_Name = im_name i,
         cp_Description = (case im_description i of None \<Rightarrow> [] | Some d \<Rightarrow> d), cp_PriceCentavos = im_price i,
         cp_CategoryID = ct_id c, cp_CategoryName = ct_name c, cp_Available = available_now db i,
         cp_SourceUpdatedAt = (case im_updated i of None \<Rightarrow> im_created i | Some t \<Rightarrow> t)\<rparr>)
       (find (\<lambda>c. ct_id c = im_category i) (sd_categories db))"

definition catalog_rows :: "stock_db \<Rightarrow> uuid \<Rightarrow> CatalogProduct list" where
  "catalog_rows db afterID =
     List.map_filter (catalog_product db) (sort_key im_id (filter (\<lambda>i. afterID < im_id i) (sd_items db)))"

definition Catalog_store :: "reply \<Rightarrow> stock_db \<Rightarrow> CatalogQuery \<Rightarrow> attempt_error + CatalogPage" where
  "Catalog_store r db query =
     bindE (ask r (Inr (take (nat (cq_Limit query) + 1) (catalog_rows db (cq_AfterID query))))) (\<lambda>products.
       Inr (if int (length products) > cq_Limit query
            then \<lparr>pg_Products = take (nat (cq_Limit query)) products,
                  pg_NextAfterID = cp_ProductID (last (take (nat (cq_Limit query)) products))\<rparr>
            else \<lparr>pg_Products = products, pg_NextAfterID = 0\<rparr>))"

end
