(* ===== verification/Stock_Ledger.thy ===== *)
theory Stock_Ledger
  imports Stock_Store
begin

text \<open>
  What a commit of the inventory adapter does to the tables, on every path: the stock it takes
  is the stock its movements record, it never takes what is not there, all of it happens or
  none, and the receipt makes it happen once.
\<close>

section \<open>Statements\<close>

lemma ask_Inr [simp]: "ask r x = Inr v \<longleftrightarrow> r = Done \<and> x = Inr v"
  by (cases r; cases x) (auto simp: ask_def)

lemma ask_Done: "ask Done (Inr v) = Inr v"
  by simp

lemma ask_Inl: "ask r x = Inl e \<Longrightarrow> \<exists>k. e = Pg k"
  by (cases r; cases x) (auto simp: ask_def)

section \<open>The effect of the deductions\<close>

definition demand_quantity :: "(uuid \<times> stockDemand) list \<Rightarrow> uuid \<Rightarrow> int" where
  "demand_quantity demands sid = (case map_of demands sid of None \<Rightarrow> 0 | Some d \<Rightarrow> dm_Quantity d)"

definition deducted :: "int \<Rightarrow> (uuid \<Rightarrow> int) \<Rightarrow> uuid list \<Rightarrow> item_row \<Rightarrow> item_row" where
  "deducted now quantity ids r =
     (if im_id r \<in> set ids then r\<lparr>im_stock := im_stock r - quantity (im_id r), im_updated := Some now\<rparr> else r)"

definition deductible :: "(uuid \<Rightarrow> int) \<Rightarrow> item_row \<Rightarrow> bool" where
  "deductible quantity r \<longleftrightarrow> im_active r \<and> im_tracks r \<and> \<not> im_composite r \<and> quantity (im_id r) \<le> im_stock r"

fun movements_for :: "codec \<Rightarrow> stock_env \<Rightarrow> CommitCommand \<Rightarrow> (uuid \<Rightarrow> int) \<Rightarrow> nat \<Rightarrow> uuid list \<Rightarrow> movement_row list" where
  "movements_for cd env command quantity k [] = []"
| "movements_for cd env command quantity k (sid # ids) =
     movement_for cd env command k sid (quantity sid) # movements_for cd env command quantity (Suc k) ids"

lemma deducted_Nil [simp]: "deducted now quantity [] = (\<lambda>r. r)"
  by (simp add: deducted_def fun_eq_iff)

lemma deduct_all_Inr:
  assumes "deduct_all cd env replies command demands n k ids db = Inr (db', m)"
    and "distinct ids" and "distinct (map im_id (sd_items db))"
  shows "sd_items db' = map (deducted (se_now env) (demand_quantity demands) ids) (sd_items db) \<and>
    sd_movements db' = sd_movements db @ movements_for cd env command (demand_quantity demands) k ids \<and>
    sd_receipts db' = sd_receipts db \<and> sd_components db' = sd_components db \<and> sd_categories db' = sd_categories db \<and>
    (\<forall>sid \<in> set ids. \<exists>r \<in> set (sd_items db). im_id r = sid \<and> deductible (demand_quantity demands) r) \<and>
    (\<forall>i < 2 * length ids. replies (n + i) = Done) \<and> m = n + 2 * length ids"
  using assms
proof (induction ids arbitrary: n k db)
  case (Cons sid ids)
  let ?q = "demand_quantity demands"
  let ?P = "\<lambda>r. im_id r = sid \<and> im_active r \<and> im_tracks r \<and> \<not> im_composite r \<and> ?q sid \<le> im_stock r"
  let ?f = "\<lambda>r. r\<lparr>im_stock := im_stock r - ?q sid, im_updated := Some (se_now env)\<rparr>"
  let ?mv = "movement_for cd env command k sid (?q sid)"
  define db1 where "db1 = db\<lparr>sd_items := update_where ?P ?f (sd_items db), sd_movements := sd_movements db @ [?mv]\<rparr>"
  from Cons.prems(1) have run: "deduct_all cd env replies command demands (n + 2) (Suc k) ids db1 = Inr (db', m)"
    and one: "affected ?P (sd_items db) = 1" and rep: "replies n = Done" "replies (Suc n) = Done"
    by (auto simp: demand_quantity_def [symmetric] Let_def bindE_Inr update_rows_Inr insert_row_Inr db1_def split: if_splits)
  have d1: "distinct (map im_id (sd_items db1))" using Cons.prems(3) by (simp add: db1_def)
  have d2: "distinct ids" "sid \<notin> set ids" using Cons.prems(2) by simp_all
  note IH = Cons.IH [OF run d2(1) d1]
  from one affected_0 [of ?P "sd_items db"] obtain r where r: "r \<in> set (sd_items db)" "?P r" by fastforce
  have only: "x = r" if "x \<in> set (sd_items db)" "im_id x = sid" for x
    using key_unique [OF Cons.prems(3) that(1) r(1)] that(2) r(2) by simp
  have "map (deducted (se_now env) ?q ids) (sd_items db1) = map (deducted (se_now env) ?q (sid # ids)) (sd_items db)"
    using only r(2) d2(2) by (auto simp: db1_def update_where_def deducted_def)
  moreover have "\<exists>r \<in> set (sd_items db). im_id r = x \<and> deductible ?q r" if "x \<in> set (sid # ids)" for x
  proof (cases "x = sid")
    case True
    with r show ?thesis by (auto simp: deductible_def)
  next
    case False
    with that IH obtain y where "y \<in> set (sd_items db1)" "im_id y = x" "deductible ?q y" by auto
    with False show ?thesis by (auto simp: db1_def set_update_where split: if_splits)
  qed
  moreover have "\<forall>i < 2 * length (sid # ids). replies (n + i) = Done"
  proof (intro allI impI)
    fix i assume i: "i < 2 * length (sid # ids)"
    show "replies (n + i) = Done"
    proof (cases i)
      case (Suc j)
      then show ?thesis using rep IH i by (cases j) (auto simp: less_Suc_eq_0_disj)
    qed (simp add: rep)
  qed
  ultimately show ?case using IH by (simp add: db1_def)
qed auto

section \<open>The effect of an attempt\<close>

definition items_at :: "stock_db \<Rightarrow> uuid list \<Rightarrow> (uuid \<rightharpoonup> itemState)" where
  "items_at db ids = (\<lambda>x. if x \<in> set ids then map_option state_of_row (find (\<lambda>r. im_id r = x) (sd_items db)) else None)"

lemma loadItems_Inr: "loadItems r db ids = Inr m \<longleftrightarrow> (ids \<noteq> [] \<longrightarrow> r = Done) \<and> m = items_at db ids"
  by (auto simp: loadItems_def items_at_def)

definition start_plan :: "StockLine list \<Rightarrow> plan" where
  "start_plan lines = \<lparr>pl_demands = [], pl_unavailable = [], pl_composite = [],
     pl_relevant = remdups (map ln_ProductID lines)\<rparr>"

text \<open>One step of the planning loop, and the loop, without the statements' answers.\<close>

definition needs_parts :: "(uuid \<rightharpoonup> itemState) \<Rightarrow> StockLine \<Rightarrow> bool" where
  "needs_parts initial line \<longleftrightarrow> (case initial (ln_ProductID line) of None \<Rightarrow> False
     | Some item \<Rightarrow> st_Active item \<and> st_TracksStock item \<and> st_Composite item)"

definition parts_of :: "stock_db \<Rightarrow> StockLine \<Rightarrow> dberr + (uuid \<times> int) list" where
  "parts_of db line = sum_parts (ln_Quantity line) (filter (\<lambda>c. co_parent c = ln_ProductID line) (sd_components db))"

definition add_part :: "StockLine \<Rightarrow> plan \<Rightarrow> uuid \<times> int \<Rightarrow> plan" where
  "add_part line p part = p\<lparr>pl_relevant := List.insert (fst part) (pl_relevant p),
     pl_demands := addDemand (fst part) (ln_OrderLineID line) (snd part) (pl_demands p)\<rparr>"

definition composite_step :: "stock_env \<Rightarrow> StockLine \<Rightarrow> plan \<Rightarrow> (uuid \<times> int) list \<Rightarrow> plan" where
  "composite_step env line p components =
     (let p1 = p\<lparr>pl_composite := List.insert (ln_OrderLineID line) (pl_composite p)\<rparr> in
      if components = [] then refuse_line line 0 p1 else foldl (add_part line) p1 (se_parts env components))"

definition plan_step :: "stock_env \<Rightarrow> stock_db \<Rightarrow> (uuid \<rightharpoonup> itemState) \<Rightarrow> plan \<Rightarrow> StockLine \<Rightarrow> plan option" where
  "plan_step env db initial p line =
     (case initial (ln_ProductID line) of
        None \<Rightarrow> Some (refuse_line line 0 p)
      | Some item \<Rightarrow>
          if \<not> st_Active item then Some (refuse_line line 0 p)
          else if \<not> st_TracksStock item then Some p
          else if \<not> st_Composite item
          then Some (p\<lparr>pl_demands := addDemand (ln_ProductID line) (ln_OrderLineID line) (ln_Quantity line) (pl_demands p)\<rparr>)
          else case parts_of db line of Inl _ \<Rightarrow> None | Inr components \<Rightarrow> Some (composite_step env line p components))"

fun plan_all :: "stock_env \<Rightarrow> stock_db \<Rightarrow> (uuid \<rightharpoonup> itemState) \<Rightarrow> plan \<Rightarrow> StockLine list \<Rightarrow> plan option" where
  "plan_all env db initial p [] = Some p"
| "plan_all env db initial p (line # rest) =
     (case plan_step env db initial p line of None \<Rightarrow> None | Some p1 \<Rightarrow> plan_all env db initial p1 rest)"

lemma plan_lines_step:
  "plan_lines env replies db initial n p (line # rest) = Inr r \<longleftrightarrow>
     (\<exists>p1. plan_step env db initial p line = Some p1 \<and> (needs_parts initial line \<longrightarrow> replies n = Done) \<and>
        plan_lines env replies db initial (if needs_parts initial line then Suc n else n) p1 rest = Inr r)"
proof (cases "needs_parts initial line")
  case True
  have f: "(\<lambda>p (componentID, quantity).
      p\<lparr>pl_relevant := List.insert componentID (pl_relevant p),
        pl_demands := addDemand componentID (ln_OrderLineID line) quantity (pl_demands p)\<rparr>) = add_part line"
    by (simp add: fun_eq_iff add_part_def split_def)
  from True obtain item where item: "initial (ln_ProductID line) = Some item" "st_Active item" "st_TracksStock item"
    "st_Composite item" by (auto simp: needs_parts_def split: option.splits)
  show ?thesis
    using True item
    by (cases "parts_of db line")
      (auto simp: plan_step_def Let_def bindE_Inr loadCompositeDemand_def parts_of_def composite_step_def f)
next
  case False
  then show ?thesis
    by (auto simp: plan_step_def needs_parts_def split: option.splits if_splits)
qed

lemma plan_lines_Inr:
  "plan_lines env replies db initial n p lines = Inr (p', m) \<longleftrightarrow>
     plan_all env db initial p lines = Some p' \<and> m = n + length (filter (needs_parts initial) lines) \<and>
     (\<forall>i < length (filter (needs_parts initial) lines). replies (n + i) = Done)"
proof (induction lines arbitrary: n p)
  case (Cons line lines)
  show ?case
    unfolding plan_lines_step
    by (cases "needs_parts initial line"; cases "plan_step env db initial p line")
      (auto simp: Cons.IH less_Suc_eq_0_disj All_less_Suc2)
qed auto

definition plan_of :: "stock_env \<Rightarrow> stock_db \<Rightarrow> StockLine list \<Rightarrow> plan option" where
  "plan_of env db lines = plan_all env db (items_at db (map ln_ProductID lines)) (start_plan lines) lines"

lemma distinct_addDemand: "distinct (map fst demands) \<Longrightarrow> distinct (map fst (addDemand sid lid q demands))"
  by (simp add: addDemand_def Let_def distinct_update)

lemma distinct_add_parts:
  "distinct (map fst (pl_demands p)) \<Longrightarrow> distinct (map fst (pl_demands (foldl (add_part line) p parts)))"
  by (induction parts arbitrary: p) (simp_all add: add_part_def distinct_addDemand)

lemma plan_step_distinct:
  "plan_step env db initial p line = Some p' \<Longrightarrow> distinct (map fst (pl_demands p)) \<Longrightarrow> distinct (map fst (pl_demands p'))"
  by (auto simp: plan_step_def refuse_line_def composite_step_def Let_def distinct_addDemand distinct_add_parts
      split: option.splits if_splits sum.splits)

lemma plan_all_distinct:
  "plan_all env db initial p lines = Some p' \<Longrightarrow> distinct (map fst (pl_demands p)) \<Longrightarrow> distinct (map fst (pl_demands p'))"
  by (induction lines arbitrary: p) (auto split: option.splits dest: plan_step_distinct)

text \<open>The verdict on a request: its plan, what is taken, the result and the state to commit.\<close>

definition verdict_plan :: "stock_env \<Rightarrow> stock_db \<Rightarrow> CommitCommand \<Rightarrow> plan \<Rightarrow> plan" where
  "verdict_plan env db command p0 = decide env (items_at db (pl_relevant p0)) command p0"

definition taken_ids :: "codec \<Rightarrow> stock_env \<Rightarrow> stock_db \<Rightarrow> CommitCommand \<Rightarrow> plan \<Rightarrow> uuid list" where
  "taken_ids cd env db command p0 =
     (if pl_unavailable (verdict_plan env db command p0) \<noteq> [] then [] else sortedDemandIDs cd (pl_demands p0))"

definition receipt_of :: "codec \<Rightarrow> CommitCommand \<Rightarrow> string \<Rightarrow> CommitResult \<Rightarrow> receipt_row" where
  "receipt_of cd command fingerprint result =
     \<lparr>rc_operation_id = cc_OperationID command, rc_request_event_id = cc_EventID command,
      rc_order_id = cc_OrderID command, rc_fingerprint = fingerprint,
      rc_request = requestToReceipt cd command, rc_result_event_id = cr_EventID result,
      rc_status = cr_Status result, rc_result = resultToReceipt cd result,
      rc_completed_at = cr_OccurredAt result\<rparr>"

definition committed_db ::
    "codec \<Rightarrow> stock_env \<Rightarrow> CommitCommand \<Rightarrow> string \<Rightarrow> plan \<Rightarrow> stock_db \<Rightarrow> stock_db" where
  "committed_db cd env command fingerprint p0 db =
     (let ids = taken_ids cd env db command p0; quantity = demand_quantity (pl_demands p0) in
      db\<lparr>sd_items := map (deducted (se_now env) quantity ids) (sd_items db),
         sd_movements := sd_movements db @ movements_for cd env command quantity 1 ids,
         sd_receipts := sd_receipts db @ [receipt_of cd command fingerprint
           (result_of_plan cd env command (verdict_plan env db command p0))]\<rparr>)"

definition found_receipt :: "stock_db \<Rightarrow> uuid \<Rightarrow> receipt_row option" where
  "found_receipt db operationID = find (\<lambda>x. rc_operation_id x = operationID) (sd_receipts db)"

text \<open>What had to hold for the new state.\<close>

definition committable :: "codec \<Rightarrow> stock_env \<Rightarrow> CommitCommand \<Rightarrow> string \<Rightarrow> plan \<Rightarrow> stock_db \<Rightarrow> bool" where
  "committable cd env command fingerprint p0 db \<longleftrightarrow>
     plan_of env db (cc_Lines command) = Some p0 \<and> found_receipt db (cc_OperationID command) = None \<and>
     (\<forall>sid \<in> set (taken_ids cd env db command p0).
        \<exists>r \<in> set (sd_items db). im_id r = sid \<and> deductible (demand_quantity (pl_demands p0)) r) \<and>
     receipt_check (cd_text cd) (receipt_of cd command fingerprint
       (result_of_plan cd env command (verdict_plan env db command p0))) \<and>
     (\<forall>x \<in> set (sd_receipts db). \<not> receipt_clash x (receipt_of cd command fingerprint
       (result_of_plan cd env command (verdict_plan env db command p0))))"

lemma loadReceipt_Inr:
  "loadReceipt cd r db operationID fingerprint = Inr found \<longleftrightarrow> r = Done \<and>
     (case found_receipt db operationID of
        None \<Rightarrow> found = None
      | Some row \<Rightarrow> rc_fingerprint row = fingerprint \<and>
          (\<exists>result. decodeReceiptResult cd (rc_result row) = Some result \<and> found = Some result))"
  by (auto simp: loadReceipt_def bindE_Inr found_receipt_def split: option.splits)

lemma insertReceipt_Inr:
  "insertReceipt cd r command fingerprint result db = Inr db' \<longleftrightarrow> r = Done \<and>
     receipt_check (cd_text cd) (receipt_of cd command fingerprint result) \<and>
     (\<forall>x \<in> set (sd_receipts db). \<not> receipt_clash x (receipt_of cd command fingerprint result)) \<and>
     db' = db\<lparr>sd_receipts := sd_receipts db @ [receipt_of cd command fingerprint result]\<rparr>"
  by (auto simp: insertReceipt_def receipt_of_def insert_row_Inr)

lemma commit_body_Inr:
  assumes "commit_body cd env replies command fingerprint db = Inr (result, committed)"
    and "distinct (map im_id (sd_items db))"
  shows "(\<exists>row. found_receipt db (cc_OperationID command) = Some row \<and> rc_fingerprint row = fingerprint \<and>
      decodeReceiptResult cd (rc_result row) = Some result \<and> committed = None) \<or>
    (\<exists>p0 n. committable cd env command fingerprint p0 db \<and>
      result = result_of_plan cd env command (verdict_plan env db command p0) \<and>
      committed = Some (committed_db cd env command fingerprint p0 db, n))"
proof -
  from assms(1) obtain found where load: "loadReceipt cd (replies 2) db (cc_OperationID command) fingerprint = Inr found"
    and rest: "(case found of Some replay \<Rightarrow> Inr (replay, None) | None \<Rightarrow>
           let requestedIDs = map ln_ProductID (cc_Lines command) in
           bindE (loadItems (replies 3) db requestedIDs) (\<lambda>initial.
           bindE (plan_lines env replies db initial 4 (start_plan (cc_Lines command)) (cc_Lines command)) (\<lambda>(p0, n).
           bindE (loadItems (replies n) db (pl_relevant p0)) (\<lambda>locked.
             let p = decide env locked command p0;
                 result = result_of_plan cd env command p in
             bindE (if pl_unavailable p \<noteq> [] then Inr (db, Suc n)
                    else deduct_all cd env replies command (pl_demands p0) (Suc n) 1
                           (sortedDemandIDs cd (pl_demands p0)) db) (\<lambda>(db1, m).
             bindE (insertReceipt cd (replies m) command fingerprint result db1) (\<lambda>db2.
               Inr (result, Some (db2, Suc m)))))))) = Inr (result, committed)"
    unfolding commit_body_def start_plan_def Let_def by (auto simp: bindE_Inr)
  show ?thesis
  proof (cases found)
    case (Some replay)
    with load rest show ?thesis by (auto simp: loadReceipt_Inr split: option.splits)
  next
    case None
    from rest None obtain initial p0 n locked db1 m db2 where
      load1: "loadItems (replies 3) db (map ln_ProductID (cc_Lines command)) = Inr initial"
      and plan: "plan_lines env replies db initial 4 (start_plan (cc_Lines command)) (cc_Lines command) = Inr (p0, n)"
      and load2: "loadItems (replies n) db (pl_relevant p0) = Inr locked"
      and ded: "(if pl_unavailable (decide env locked command p0) \<noteq> [] then Inr (db, Suc n)
        else deduct_all cd env replies command (pl_demands p0) (Suc n) 1 (sortedDemandIDs cd (pl_demands p0)) db) = Inr (db1, m)"
      and ins: "insertReceipt cd (replies m) command fingerprint
        (result_of_plan cd env command (decide env locked command p0)) db1 = Inr db2"
      and eqs: "result = result_of_plan cd env command (decide env locked command p0)" "committed = Some (db2, Suc m)"
      by (auto simp: bindE_Inr Let_def)
    have initial: "initial = items_at db (map ln_ProductID (cc_Lines command))"
      and locked: "decide env locked command p0 = verdict_plan env db command p0"
      using load1 load2 by (simp_all add: loadItems_Inr verdict_plan_def)
    note ded = ded [unfolded locked] and ins = ins [unfolded locked] and eqs = eqs [unfolded locked]
    have p0: "plan_of env db (cc_Lines command) = Some p0" using plan initial by (simp add: plan_lines_Inr plan_of_def)
    have "distinct (map fst (pl_demands p0))"
      using p0 plan_all_distinct unfolding plan_of_def by (fastforce simp: start_plan_def)
    then have dist: "distinct (sortedDemandIDs cd (pl_demands p0))" by (simp add: sortedDemandIDs_def)
    have none: "found_receipt db (cc_OperationID command) = None"
      using load None by (auto simp: loadReceipt_Inr split: option.splits)
    have db1: "db1 = db\<lparr>sd_items := map (deducted (se_now env) (demand_quantity (pl_demands p0))
           (taken_ids cd env db command p0)) (sd_items db),
         sd_movements := sd_movements db @ movements_for cd env command (demand_quantity (pl_demands p0)) 1
           (taken_ids cd env db command p0)\<rparr>"
      and ok: "\<forall>sid \<in> set (taken_ids cd env db command p0).
        \<exists>r \<in> set (sd_items db). im_id r = sid \<and> deductible (demand_quantity (pl_demands p0)) r"
      using ded deduct_all_Inr [OF _ dist assms(2), of cd env replies command "pl_demands p0" "Suc n" 1 db1 m]
      by (auto simp: taken_ids_def split: if_splits)
    with ins none p0 have "committable cd env command fingerprint p0 db"
      "db2 = committed_db cd env command fingerprint p0 db"
      by (auto simp: committable_def insertReceipt_Inr committed_db_def Let_def)
    with eqs show ?thesis by blast
  qed
qed

lemma commitOnce_effect:
  assumes "commitOnce cd env replies command fingerprint db = (res, db')" and "distinct (map im_id (sd_items db))"
  shows "(db' = db \<and> (\<exists>e. res = Inl e)) \<or>
    (\<exists>row result. found_receipt db (cc_OperationID command) = Some row \<and> rc_fingerprint row = fingerprint \<and>
       decodeReceiptResult cd (rc_result row) = Some result \<and> res = Inr result \<and> db' = db) \<or>
    (\<exists>p0. committable cd env command fingerprint p0 db \<and> db' = committed_db cd env command fingerprint p0 db \<and>
       (res = Inr (result_of_plan cd env command (verdict_plan env db command p0)) \<or> (\<exists>k. res = Inl (Pg k))))"
proof (cases "commit_body cd env replies command fingerprint db")
  case (Inl e)
  with assms(1) show ?thesis by (auto simp: commitOnce_def split: sum.splits)
next
  case (Inr c)
  obtain result committed where c: "c = (result, committed)" by (cases c)
  show ?thesis
    using assms(1) commit_body_Inr [OF Inr [unfolded c] assms(2)] Inr c
    by (auto simp: commitOnce_def split: sum.splits reply.splits)
qed

end
