(* ===== verification/Stock_Verdict.thy ===== *)
theory Stock_Verdict
  imports Stock_Ledger
begin

text \<open>
  The verdict on a request as the tables determine it: which stock a line needs, how much of a
  stock item the whole request demands, which lines can be served. The planning loops of
  \<open>Stock_Store\<close> compute exactly that, in whatever order Go ranges over its maps.
\<close>

section \<open>The specification\<close>

definition item_at :: "stock_db \<Rightarrow> uuid \<Rightarrow> itemState option" where
  "item_at db x = map_option state_of_row (find (\<lambda>r. im_id r = x) (sd_items db))"

definition composite_line :: "stock_db \<Rightarrow> StockLine \<Rightarrow> bool" where
  "composite_line db l = needs_parts (item_at db) l"

text \<open>The stock a line needs, item by item.\<close>

definition line_needs :: "stock_db \<Rightarrow> StockLine \<Rightarrow> uuid \<rightharpoonup> int" where
  "line_needs db l =
     (case item_at db (ln_ProductID l) of
        None \<Rightarrow> Map.empty
      | Some i \<Rightarrow>
          if \<not> st_Active i \<or> \<not> st_TracksStock i then Map.empty
          else if \<not> st_Composite i then [ln_ProductID l \<mapsto> ln_Quantity l]
          else case parts_of db l of Inl _ \<Rightarrow> Map.empty | Inr parts \<Rightarrow> map_of parts)"

text \<open>The line can be considered at all: its product is sold, and a composite has components.\<close>

definition offered :: "stock_db \<Rightarrow> StockLine \<Rightarrow> bool" where
  "offered db l \<longleftrightarrow> (case item_at db (ln_ProductID l) of None \<Rightarrow> False
     | Some i \<Rightarrow> st_Active i \<and> (st_TracksStock i \<and> st_Composite i \<longrightarrow> parts_of db l \<noteq> Inr []))"

definition demanded :: "stock_db \<Rightarrow> StockLine list \<Rightarrow> uuid \<Rightarrow> int" where
  "demanded db lines x = (\<Sum>l\<leftarrow>lines. case line_needs db l x of None \<Rightarrow> 0 | Some q \<Rightarrow> q)"

definition stock_at :: "stock_db \<Rightarrow> uuid \<Rightarrow> int" where
  "stock_at db x = (case item_at db x of None \<Rightarrow> 0 | Some i \<Rightarrow> st_Stock i)"

definition covered :: "stock_db \<Rightarrow> StockLine list \<Rightarrow> uuid \<Rightarrow> bool" where
  "covered db lines x \<longleftrightarrow> physical (item_at db x) \<and> demanded db lines x \<le> stock_at db x"

definition served :: "stock_db \<Rightarrow> StockLine list \<Rightarrow> StockLine \<Rightarrow> bool" where
  "served db lines l \<longleftrightarrow> offered db l \<and> (\<forall>x \<in> dom (line_needs db l). covered db lines x)"

text \<open>The quantity reported for a line that is not served.\<close>

definition shown :: "stock_db \<Rightarrow> StockLine \<Rightarrow> int" where
  "shown db l =
     (if offered db l \<and> \<not> composite_line db l \<and> physical (item_at db (ln_ProductID l)) \<and>
         0 < stock_at db (ln_ProductID l)
      then stock_at db (ln_ProductID l) else 0)"

section \<open>The components of a composite\<close>

lemma sum_parts_distinct: "sum_parts n cs = Inr parts \<Longrightarrow> distinct (map fst parts)"
  by (induction cs arbitrary: parts) (auto simp: bindE_Inr Let_def distinct_update)

text \<open>The parameters of an attempt only rearrange.\<close>

definition arranges :: "stock_env \<Rightarrow> bool" where
  "arranges env \<longleftrightarrow> (\<forall>xs. mset (se_parts env xs) = mset xs) \<and> (\<forall>xs. mset (se_demands env xs) = mset xs) \<and>
     (\<forall>xs. mset (se_lines env xs) = mset xs)"

lemma arranges_set:
  assumes "arranges env"
  shows "set (se_parts env xs) = set xs" and "set (se_demands env ys) = set ys" and "set (se_lines env zs) = set zs"
    and "distinct (map fst xs) \<Longrightarrow> distinct (map fst (se_parts env xs))"
    and "se_parts env xs = [] \<longleftrightarrow> xs = []"
proof -
  have m: "mset (se_parts env xs) = mset xs" "mset (se_demands env ys) = mset ys" "mset (se_lines env zs) = mset zs"
    using assms by (simp_all add: arranges_def)
  show "set (se_parts env xs) = set xs" "set (se_demands env ys) = set ys" "set (se_lines env zs) = set zs"
    by (rule mset_eq_setD [OF m(1)], rule mset_eq_setD [OF m(2)], rule mset_eq_setD [OF m(3)])
  show "distinct (map fst (se_parts env xs))" if "distinct (map fst xs)"
    using that m(1) by (metis mset_eq_imp_distinct_iff mset_map)
  show "se_parts env xs = [] \<longleftrightarrow> xs = []" using m(1) by (metis mset_zero_iff)
qed

section \<open>Demands\<close>

definition demand_after :: "uuid \<Rightarrow> int \<Rightarrow> stockDemand option \<Rightarrow> stockDemand" where
  "demand_after lid q d =
     (let v = (case d of None \<Rightarrow> \<lparr>dm_Quantity = 0, dm_DependentLine = []\<rparr> | Some v \<Rightarrow> v) in
      v\<lparr>dm_Quantity := dm_Quantity v + q, dm_DependentLine := List.insert lid (dm_DependentLine v)\<rparr>)"

lemma map_of_addDemand:
  "map_of (addDemand sid lid q demands) = (map_of demands)(sid \<mapsto> demand_after lid q (map_of demands sid))"
  by (simp add: addDemand_def demand_after_def Let_def update_conv' split: option.splits)

lemma foldl_add_part:
  "distinct (map fst parts) \<Longrightarrow>
     map_of (pl_demands (foldl (add_part l) p parts)) x =
       (case map_of parts x of None \<Rightarrow> map_of (pl_demands p) x
        | Some q \<Rightarrow> Some (demand_after (ln_OrderLineID l) q (map_of (pl_demands p) x))) \<and>
     pl_unavailable (foldl (add_part l) p parts) = pl_unavailable p \<and>
     pl_composite (foldl (add_part l) p parts) = pl_composite p \<and>
     set (pl_relevant (foldl (add_part l) p parts)) = set (pl_relevant p) \<union> fst ` set parts"
proof (induction parts arbitrary: p)
  case (Cons part parts)
  obtain sid q where part: "part = (sid, q)" by fastforce
  from Cons.prems have d: "distinct (map fst parts)" and "sid \<notin> fst ` set parts" by (auto simp: part)
  then have none: "map_of parts sid = None" by (simp add: map_of_eq_None_iff)
  show ?case
    using Cons.IH [OF d, of "add_part l p part"] none
    by (auto simp: part add_part_def map_of_addDemand split: option.splits)
qed simp

text \<open>The demands of a plan are those of the lines planned so far.\<close>

definition demands_of :: "stock_db \<Rightarrow> StockLine list \<Rightarrow> (uuid \<times> stockDemand) list \<Rightarrow> bool" where
  "demands_of db lines demands \<longleftrightarrow> distinct (map fst demands) \<and>
     (\<forall>x. case map_of demands x of
        None \<Rightarrow> \<forall>l \<in> set lines. line_needs db l x = None
      | Some d \<Rightarrow> (\<exists>l \<in> set lines. line_needs db l x \<noteq> None) \<and> dm_Quantity d = demanded db lines x \<and>
          set (dm_DependentLine d) = ln_OrderLineID ` {l \<in> set lines. line_needs db l x \<noteq> None})"

lemma demanded_append:
  "demanded db (lines @ [l]) x = demanded db lines x + (case line_needs db l x of None \<Rightarrow> 0 | Some q \<Rightarrow> q)"
  by (simp add: demanded_def)

lemma demanded_none: "\<forall>l \<in> set lines. line_needs db l x = None \<Longrightarrow> demanded db lines x = 0"
  unfolding demanded_def by (induction lines) auto

lemma demands_of_step:
  assumes "demands_of db lines demands" and "distinct (map fst demands')"
    and "\<And>x. map_of demands' x = (case line_needs db new x of None \<Rightarrow> map_of demands x
      | Some q \<Rightarrow> Some (demand_after (ln_OrderLineID new) q (map_of demands x)))"
  shows "demands_of db (lines @ [new]) demands'"
proof -
  have deps: "ln_OrderLineID ` {l \<in> set (lines @ [new]). line_needs db l x \<noteq> None} =
      (if line_needs db new x = None then {} else {ln_OrderLineID new}) \<union>
      ln_OrderLineID ` {l \<in> set lines. line_needs db l x \<noteq> None}" for x by auto
  have "case map_of demands' x of
        None \<Rightarrow> \<forall>l \<in> set (lines @ [new]). line_needs db l x = None
      | Some d \<Rightarrow> (\<exists>l \<in> set (lines @ [new]). line_needs db l x \<noteq> None) \<and>
          dm_Quantity d = demanded db (lines @ [new]) x \<and>
          set (dm_DependentLine d) = ln_OrderLineID ` {l \<in> set (lines @ [new]). line_needs db l x \<noteq> None}" for x
  proof -
    have old: "case map_of demands x of
        None \<Rightarrow> \<forall>l \<in> set lines. line_needs db l x = None
      | Some d \<Rightarrow> (\<exists>l \<in> set lines. line_needs db l x \<noteq> None) \<and> dm_Quantity d = demanded db lines x \<and>
          set (dm_DependentLine d) = ln_OrderLineID ` {l \<in> set lines. line_needs db l x \<noteq> None}"
      using assms(1) by (simp add: demands_of_def)
    show ?thesis
    proof (cases "line_needs db new x")
      case None
      with old show ?thesis
        unfolding assms(3) deps by (simp add: demanded_append split: option.splits)
    next
      case (Some q)
      show ?thesis
      proof (cases "map_of demands x")
        case None
        with old have none: "\<forall>l \<in> set lines. line_needs db l x = None" by simp
        with None Some none show ?thesis
          unfolding assms(3) deps by (auto simp: demanded_append demand_after_def demanded_none)
      next
        case d: (Some d)
        with old Some show ?thesis
          unfolding assms(3) deps by (simp add: demanded_append demand_after_def)
      qed
    qed
  qed
  with assms(2) show ?thesis unfolding demands_of_def by blast
qed

section \<open>Refused lines\<close>

definition refusal :: "stock_db \<Rightarrow> StockLine \<Rightarrow> Shortage" where
  "refusal db l = unavailableFor l (shown db l)"

text \<open>
  The map of refused lines holds the lines of \<open>K\<close>, each with the shortage that the tables
  determine for it.
\<close>

definition refuses :: "stock_db \<Rightarrow> StockLine set \<Rightarrow> (uuid \<times> Shortage) list \<Rightarrow> bool" where
  "refuses db K values \<longleftrightarrow> distinct (map fst values) \<and>
     set values = (\<lambda>l. (ln_OrderLineID l, refusal db l)) ` K"

lemma set_update_new: "k \<notin> fst ` set xs \<Longrightarrow> set (AList.update k v xs) = insert (k, v) (set xs)"
  by (induction xs) auto

lemma set_update_same: "(k, v) \<in> set xs \<Longrightarrow> distinct (map fst xs) \<Longrightarrow> AList.update k v xs = xs"
  by (induction xs) (auto simp: rev_image_eqI)

lemma refuses_update:
  assumes "refuses db K values" and "inj_on ln_OrderLineID (insert l K)"
  shows "refuses db (insert l K) (AList.update (ln_OrderLineID l) (refusal db l) values)"
proof (cases "l \<in> K")
  case True
  then have "(ln_OrderLineID l, refusal db l) \<in> set values" "distinct (map fst values)"
    using assms(1) by (auto simp: refuses_def)
  then show ?thesis using assms(1) True by (simp add: set_update_same insert_absorb)
next
  case False
  then have "ln_OrderLineID l \<notin> fst ` set values"
    using assms by (auto simp: refuses_def inj_on_def)
  then show ?thesis using assms(1) by (simp add: refuses_def set_update_new distinct_update)
qed

lemma refuses_empty [simp]: "refuses db K [] \<longleftrightarrow> K = {}"
  by (auto simp: refuses_def)

section \<open>Planning\<close>

definition planned :: "stock_db \<Rightarrow> StockLine list \<Rightarrow> plan \<Rightarrow> bool" where
  "planned db lines p \<longleftrightarrow> demands_of db lines (pl_demands p) \<and>
     refuses db {l \<in> set lines. \<not> offered db l} (pl_unavailable p) \<and>
     set (pl_composite p) = ln_OrderLineID ` {l \<in> set lines. composite_line db l} \<and>
     (\<forall>l \<in> set lines. \<forall>x. line_needs db l x \<noteq> None \<longrightarrow> x \<in> set (pl_relevant p))"

lemma refuse_zero: "\<not> offered db l \<Longrightarrow> unavailableFor l 0 = refusal db l"
  by (simp add: refusal_def shown_def)

lemma plan_step_planned:
  assumes "plan_step env db initial p new = Some p'" and "planned db lines p" and "arranges env"
    and "initial (ln_ProductID new) = item_at db (ln_ProductID new)"
    and "ln_ProductID new \<in> set (pl_relevant p)"
    and "distinct (map ln_OrderLineID (lines @ [new]))"
  shows "planned db (lines @ [new]) p' \<and> set (pl_relevant p) \<subseteq> set (pl_relevant p')"
proof -
  have inj: "inj_on ln_OrderLineID (insert new {l \<in> set lines. \<not> offered db l})"
  proof (rule inj_on_subset)
    show "inj_on ln_OrderLineID (set (lines @ [new]))" using assms(6) unfolding distinct_map by (rule conjunct2)
  qed auto
  note pl = assms(2) [unfolded planned_def]
  have un: "{l \<in> set (lines @ [new]). \<not> offered db l} =
      (if offered db new then {l \<in> set lines. \<not> offered db l} else insert new {l \<in> set lines. \<not> offered db l})"
    and co: "ln_OrderLineID ` {l \<in> set (lines @ [new]). composite_line db l} =
      (if composite_line db new then {ln_OrderLineID new} else {}) \<union> ln_OrderLineID ` {l \<in> set lines. composite_line db l}"
    by auto
  have keep: "{l. (l = new \<or> l \<in> set lines) \<and> \<not> offered db l} = {l \<in> set lines. \<not> offered db l}" if "offered db new"
    using that by auto
  have same: "demands_of db (lines @ [new]) (pl_demands p)" if "line_needs db new = Map.empty"
    using that pl by (intro demands_of_step [of db lines "pl_demands p"]) (auto simp: demands_of_def)
  have refuse: "refuses db {l \<in> set (lines @ [new]). \<not> offered db l} (pl_unavailable (refuse_line new 0 q))"
    if "\<not> offered db new" "pl_unavailable q = pl_unavailable p" for q
    using that pl refuses_update [OF _ inj, of db "pl_unavailable p"]
    unfolding un refuse_line_def by (simp add: refuse_zero [OF that(1)])
  show ?thesis
  proof (cases "item_at db (ln_ProductID new)")
    case None
    then have "\<not> offered db new" "line_needs db new = Map.empty" "\<not> composite_line db new"
      by (simp_all add: offered_def line_needs_def composite_line_def needs_parts_def)
    with None assms(1,4) pl same refuse [of p] show ?thesis
      by (auto simp: plan_step_def planned_def co refuse_line_def)
  next
    case (Some i)
    note i = Some
    consider (inactive) "\<not> st_Active i" | (untracked) "st_Active i" "\<not> st_TracksStock i"
      | (simple) "st_Active i" "st_TracksStock i" "\<not> st_Composite i"
      | (composite) "st_Active i" "st_TracksStock i" "st_Composite i" by blast
    then show ?thesis
    proof cases
      case inactive
      then have "\<not> offered db new" "line_needs db new = Map.empty" "\<not> composite_line db new"
        by (simp_all add: offered_def line_needs_def composite_line_def needs_parts_def i)
      with inactive i assms(1,4) pl same refuse [of p] show ?thesis
        by (auto simp: plan_step_def planned_def co refuse_line_def)
    next
      case untracked
      then have "offered db new" "line_needs db new = Map.empty" "\<not> composite_line db new"
        by (simp_all add: offered_def line_needs_def composite_line_def needs_parts_def i)
      with untracked i assms(1,4) pl same show ?thesis
        by (auto simp: plan_step_def planned_def co keep)
    next
      case simple
      then have f: "offered db new" "line_needs db new = [ln_ProductID new \<mapsto> ln_Quantity new]" "\<not> composite_line db new"
        by (simp_all add: offered_def line_needs_def composite_line_def needs_parts_def i)
      have p': "p' = p\<lparr>pl_demands := addDemand (ln_ProductID new) (ln_OrderLineID new) (ln_Quantity new) (pl_demands p)\<rparr>"
        using simple i assms(1,4) by (simp add: plan_step_def)
      have "demands_of db (lines @ [new]) (pl_demands p')"
        using pl by (intro demands_of_step [of db lines "pl_demands p"])
          (auto simp: p' f map_of_addDemand distinct_addDemand demands_of_def)
      with f pl assms(5) show ?thesis by (auto simp: p' planned_def co keep)
    next
      case composite
      then obtain parts where parts: "parts_of db new = Inr parts" and p': "p' = composite_step env new p parts"
        using i assms(1,4) by (auto simp: plan_step_def split: sum.splits)
      have c: "composite_line db new" using composite by (simp add: composite_line_def needs_parts_def i)
      have needs: "line_needs db new = map_of parts" using composite parts by (simp add: line_needs_def i)
      show ?thesis
      proof (cases "parts = []")
        case True
        then have "\<not> offered db new" using composite parts by (simp add: offered_def i)
        with True c needs pl same refuse show ?thesis
          by (auto simp: p' composite_step_def planned_def co refuse_line_def)
      next
        case False
        then have off: "offered db new" using composite parts by (simp add: offered_def i)
        let ?p1 = "p\<lparr>pl_composite := List.insert (ln_OrderLineID new) (pl_composite p)\<rparr>"
        have dist: "distinct (map fst parts)" using parts sum_parts_distinct by (auto simp: parts_of_def)
        have dist2: "distinct (map fst (se_parts env parts))" by (rule arranges_set(4) [OF assms(3) dist])
        have mp: "map_of (se_parts env parts) = map_of parts"
          using dist dist2 arranges_set(1) [OF assms(3)] by (intro map_of_inject_set [THEN iffD2]) simp_all
        note add = foldl_add_part [OF dist2, of new ?p1]
        have "demands_of db (lines @ [new]) (pl_demands p')"
          using pl False by (intro demands_of_step [of db lines "pl_demands p"])
            (auto simp: p' composite_step_def add mp needs demands_of_def intro!: distinct_add_parts
              split: option.splits)
        moreover have "x \<in> set (pl_relevant p')" if "line_needs db new x \<noteq> None" for x
          using that False arranges_set(1) [OF assms(3)]
          by (auto simp: p' composite_step_def add needs dest!: map_of_SomeD intro: rev_image_eqI)
        ultimately show ?thesis using pl False off c
          by (auto simp: p' composite_step_def add planned_def co keep)
      qed
    qed
  qed
qed

lemma plan_all_planned:
  assumes "plan_all env db initial p rest = Some p'" and "planned db lines p" and "arranges env"
    and "\<forall>l \<in> set rest. initial (ln_ProductID l) = item_at db (ln_ProductID l)"
    and "\<forall>l \<in> set rest. ln_ProductID l \<in> set (pl_relevant p)"
    and "distinct (map ln_OrderLineID (lines @ rest))"
  shows "planned db (lines @ rest) p' \<and> set (pl_relevant p) \<subseteq> set (pl_relevant p')"
  using assms
proof (induction rest arbitrary: p lines)
  case (Cons l rest)
  from Cons.prems(1) obtain p1 where step: "plan_step env db initial p l = Some p1"
    and rest: "plan_all env db initial p1 rest = Some p'" by (auto split: option.splits)
  have d: "distinct (map ln_OrderLineID (lines @ [l]))" using Cons.prems(6) by simp
  have one: "planned db (lines @ [l]) p1 \<and> set (pl_relevant p) \<subseteq> set (pl_relevant p1)"
    using plan_step_planned [OF step Cons.prems(2,3) _ _ d] Cons.prems(4,5) by simp
  have "planned db ((lines @ [l]) @ rest) p' \<and> set (pl_relevant p1) \<subseteq> set (pl_relevant p')"
    by (rule Cons.IH [OF rest _ Cons.prems(3)]) (use one Cons.prems in auto)
  with one show ?case by auto
qed simp

lemma plan_of_planned:
  assumes "plan_of env db lines = Some p" and "arranges env" and "distinct (map ln_OrderLineID lines)"
  shows "planned db lines p" and "ln_ProductID ` set lines \<subseteq> set (pl_relevant p)"
proof -
  have "planned db [] (start_plan lines)"
    by (simp add: planned_def start_plan_def demands_of_def)
  then have "planned db ([] @ lines) p \<and> set (pl_relevant (start_plan lines)) \<subseteq> set (pl_relevant p)"
    using assms(2,3) by (intro plan_all_planned [OF assms(1) [unfolded plan_of_def]])
      (auto simp: items_at_def item_at_def start_plan_def)
  then show "planned db lines p" "ln_ProductID ` set lines \<subseteq> set (pl_relevant p)" by (auto simp: start_plan_def)
qed

section \<open>The decision\<close>

text \<open>
  The items locked for the decision are those of the same state of the tables; the plan's
  identifiers cover every item the decision looks at.
\<close>

lemma index_lines_at:
  assumes "distinct (map ln_OrderLineID lines)"
  shows "l \<in> set lines \<Longrightarrow> index_lines lines (ln_OrderLineID l) = Some l"
proof -
  have fold: "foldl (\<lambda>m line. m(ln_OrderLineID line \<mapsto> line)) m lines k =
      (case map_of (map (\<lambda>l. (ln_OrderLineID l, l)) lines) k of Some l \<Rightarrow> Some l | None \<Rightarrow> m k)"
    if "distinct (map ln_OrderLineID lines)" for m lines k
    using that
  proof (induction lines arbitrary: m)
    case (Cons l lines)
    then have "map_of (map (\<lambda>l. (ln_OrderLineID l, l)) lines) (ln_OrderLineID l) = None"
      by (auto simp: map_of_eq_None_iff image_image)
    with Cons show ?case by (auto split: option.splits)
  qed simp
  have "distinct (map fst (map (\<lambda>l. (ln_OrderLineID l, l)) lines))" using assms by (simp add: comp_def)
  then have "l \<in> set lines \<Longrightarrow> map_of (map (\<lambda>l. (ln_OrderLineID l, l)) lines) (ln_OrderLineID l) = Some l"
    by (intro map_of_is_SomeI) auto
  with fold [OF assms] show "l \<in> set lines \<Longrightarrow> index_lines lines (ln_OrderLineID l) = Some l"
    by (simp add: index_lines_def)
qed

lemma recheck_refuses:
  assumes "refuses db K (pl_unavailable p)" and "{l \<in> set lines. \<not> offered db l} \<subseteq> K"
    and "inj_on ln_OrderLineID K" and "\<forall>l \<in> set lines. locked (ln_ProductID l) = item_at db (ln_ProductID l)"
  shows "recheck_lines locked p lines = p"
  using assms
proof (induction lines)
  case (Cons l lines)
  have r: "refuse_line l 0 p = p" if off: "\<not> offered db l"
  proof -
    have "l \<in> K" using off Cons.prems(2) by auto
    then have "AList.update (ln_OrderLineID l) (refusal db l) (pl_unavailable p) = pl_unavailable p"
      using Cons.prems(1) by (intro set_update_same) (auto simp: refuses_def)
    then show ?thesis by (simp add: refuse_line_def refuse_zero [OF off])
  qed
  have "locked (ln_ProductID l) = None \<Longrightarrow> \<not> offered db l"
    "locked (ln_ProductID l) = Some i \<Longrightarrow> \<not> st_Active i \<Longrightarrow> \<not> offered db l" for i
    using Cons.prems(4) by (auto simp: offered_def)
  with r Cons show ?case by (auto simp: recheck_lines_def split: option.splits)
qed (simp add: recheck_lines_def)

lemma needs_shown:
  assumes "line_needs db l x \<noteq> None"
  shows "offered db l" and "composite_line db l \<Longrightarrow> shown db l = 0"
    and "\<not> composite_line db l \<Longrightarrow>
      shown db l = (if physical (item_at db x) \<and> 0 < stock_at db x then stock_at db x else 0)"
proof -
  from assms obtain i where i: "item_at db (ln_ProductID l) = Some i" "st_Active i" "st_TracksStock i"
    by (auto simp: line_needs_def split: option.splits if_splits)
  show off: "offered db l"
    using assms i by (auto simp: line_needs_def offered_def split: sum.splits if_splits)
  show "composite_line db l \<Longrightarrow> shown db l = 0" by (simp add: shown_def)
  assume c: "\<not> composite_line db l"
  then have "\<not> st_Composite i" using i by (simp add: composite_line_def needs_parts_def)
  with assms i have "x = ln_ProductID l" by (auto simp: line_needs_def split: if_splits)
  with off c show "shown db l = (if physical (item_at db x) \<and> 0 < stock_at db x then stock_at db x else 0)"
    by (simp add: shown_def)
qed

lemma mark_lines:
  assumes "\<forall>lid \<in> set lids. \<exists>l \<in> set lines. lid = ln_OrderLineID l \<and> f lid = refusal db l"
    and "refuses db K (pl_unavailable p)" and "K \<subseteq> set lines" and "inj_on ln_OrderLineID (set lines)"
  shows "refuses db (K \<union> {l \<in> set lines. ln_OrderLineID l \<in> set lids}) (pl_unavailable
      (foldl (\<lambda>p lid. p\<lparr>pl_unavailable := AList.update lid (f lid) (pl_unavailable p)\<rparr>) p lids))"
  using assms
proof (induction lids arbitrary: p K)
  case (Cons lid lids)
  from Cons.prems(1) obtain l where l: "l \<in> set lines" "lid = ln_OrderLineID l" "f lid = refusal db l" by auto
  have step: "refuses db (insert l K) (pl_unavailable (p\<lparr>pl_unavailable := AList.update lid (f lid) (pl_unavailable p)\<rparr>))"
  proof -
    have "inj_on ln_OrderLineID (insert l K)"
      by (rule inj_on_subset [OF Cons.prems(4)]) (use l(1) Cons.prems(3) in auto)
    from refuses_update [OF Cons.prems(2) this] show ?thesis using l(2,3) by simp
  qed
  have "{m \<in> set lines. ln_OrderLineID m \<in> set (lid # lids)} = insert l {m \<in> set lines. ln_OrderLineID m \<in> set lids}"
    using l Cons.prems(4) by (auto simp: inj_on_def)
  then have eq: "K \<union> {m \<in> set lines. ln_OrderLineID m \<in> set (lid # lids)} =
      insert l K \<union> {m \<in> set lines. ln_OrderLineID m \<in> set lids}" by auto
  show ?case
    unfolding eq foldl_Cons by (rule Cons.IH [OF _ step]) (use Cons.prems l(1) in auto)
qed simp

lemma foldl_composite:
  "pl_composite (foldl (\<lambda>p lid. p\<lparr>pl_unavailable := g lid (pl_unavailable p)\<rparr>) p lids) = pl_composite p"
  by (induction lids arbitrary: p) simp_all

lemma mark_congruence:
  "foldl (\<lambda>p lid. p\<lparr>pl_unavailable := AList.update lid (h lid (pl_composite p)) (pl_unavailable p)\<rparr>) p lids =
   foldl (\<lambda>q lid. q\<lparr>pl_unavailable := AList.update lid (h lid (pl_composite p)) (pl_unavailable q)\<rparr>) p lids"
proof (induction lids arbitrary: p)
  case (Cons lid lids)
  show ?case using Cons.IH [of "p\<lparr>pl_unavailable := AList.update lid (h lid (pl_composite p)) (pl_unavailable p)\<rparr>"] by simp
qed simp

definition short_lines :: "stock_db \<Rightarrow> StockLine list \<Rightarrow> uuid \<times> stockDemand \<Rightarrow> StockLine set" where
  "short_lines db lines entry =
     (if physical (item_at db (fst entry)) \<and> dm_Quantity (snd entry) \<le> stock_at db (fst entry) then {}
      else {l \<in> set lines. line_needs db l (fst entry) \<noteq> None})"

lemma judge_demand_refuses:
  assumes "refuses db K (pl_unavailable p)" and "K \<subseteq> set lines" and "distinct (map ln_OrderLineID lines)"
    and "locked (fst entry) = item_at db (fst entry)" and "arranges env"
    and "set (dm_DependentLine (snd entry)) = ln_OrderLineID ` {l \<in> set lines. line_needs db l (fst entry) \<noteq> None}"
    and "set (pl_composite p) = ln_OrderLineID ` {l \<in> set lines. composite_line db l}"
  shows "refuses db (K \<union> short_lines db lines entry)
      (pl_unavailable (judge_demand env locked (index_lines lines) p entry)) \<and>
    pl_composite (judge_demand env locked (index_lines lines) p entry) = pl_composite p"
proof -
  obtain x d where e: "entry = (x, d)" by (cases entry)
  have inj: "inj_on ln_OrderLineID (set lines)" using assms(3) by (simp add: distinct_map)
  have lk: "locked x = item_at db x" using assms(4) by (simp add: e)
  have stock: "(case item_at db x of None \<Rightarrow> 0 | Some i \<Rightarrow> st_Stock i) = stock_at db x" by (simp add: stock_at_def)
  let ?avail = "if physical (item_at db x) \<and> 0 < stock_at db x then stock_at db x else 0"
  let ?f = "\<lambda>lid. unavailableFor (case index_lines lines lid of None \<Rightarrow> zero_stock_line | Some l \<Rightarrow> l)
    (if lid \<in> set (pl_composite p) then 0 else ?avail)"
  show ?thesis
  proof (cases "physical (item_at db x) \<and> dm_Quantity d \<le> stock_at db x")
    case True
    then show ?thesis using assms(1) unfolding judge_demand_def e by (simp add: lk stock short_lines_def)
  next
    case False
    have run: "judge_demand env locked (index_lines lines) p entry =
        foldl (\<lambda>q lid. q\<lparr>pl_unavailable := AList.update lid (?f lid) (pl_unavailable q)\<rparr>) p
          (se_lines env (dm_DependentLine d))"
      unfolding judge_demand_def e prod.case lk stock Let_def if_not_P [OF False]
      using mark_congruence [of "\<lambda>lid comp. unavailableFor
          (case index_lines lines lid of None \<Rightarrow> zero_stock_line | Some l \<Rightarrow> l) (if lid \<in> set comp then 0 else ?avail)" p]
      by simp
    have lids: "set (se_lines env (dm_DependentLine d)) = ln_OrderLineID ` {l \<in> set lines. line_needs db l x \<noteq> None}"
      using assms(6) arranges_set(3) [OF assms(5)] by (simp add: e)
    have val: "\<exists>l \<in> set lines. lid = ln_OrderLineID l \<and> ?f lid = refusal db l"
      if "lid \<in> set (se_lines env (dm_DependentLine d))" for lid
    proof -
      from that lids obtain l where l: "l \<in> set lines" "line_needs db l x \<noteq> None" "lid = ln_OrderLineID l" by auto
      have "lid \<in> set (pl_composite p) \<longleftrightarrow> composite_line db l"
        using assms(7) l inj by (auto simp: inj_on_def)
      then have "?f lid = refusal db l"
        using index_lines_at [OF assms(3) l(1)] needs_shown [OF l(2)] l(3)
        by (auto simp: refusal_def unavailableFor_def)
      with l show ?thesis by blast
    qed
    have "{l \<in> set lines. ln_OrderLineID l \<in> set (se_lines env (dm_DependentLine d))} =
        {l \<in> set lines. line_needs db l x \<noteq> None}"
      using lids inj by (auto simp: inj_on_def)
    then have "short_lines db lines entry =
        {l \<in> set lines. ln_OrderLineID l \<in> set (se_lines env (dm_DependentLine d))}"
      unfolding short_lines_def e fst_conv snd_conv if_not_P [OF False] by (rule sym)
    then have "refuses db (K \<union> short_lines db lines entry)
        (pl_unavailable (judge_demand env locked (index_lines lines) p entry))"
      unfolding run using mark_lines [where f = ?f, OF _ assms(1,2) inj] val by (simp only: ball_simps) blast
    moreover have "pl_composite (judge_demand env locked (index_lines lines) p entry) = pl_composite p"
      unfolding run by (rule foldl_composite [of "\<lambda>lid. AList.update lid (?f lid)"])
    ultimately show ?thesis by (rule conjI)
  qed
qed

lemma judge_all_refuses:
  assumes "refuses db K (pl_unavailable p)" and "K \<subseteq> set lines" and "distinct (map ln_OrderLineID lines)"
    and "\<forall>entry \<in> set es. locked (fst entry) = item_at db (fst entry) \<and>
      set (dm_DependentLine (snd entry)) = ln_OrderLineID ` {l \<in> set lines. line_needs db l (fst entry) \<noteq> None}"
    and "arranges env"
    and "set (pl_composite p) = ln_OrderLineID ` {l \<in> set lines. composite_line db l}"
  shows "refuses db (K \<union> \<Union> (short_lines db lines ` set es))
      (pl_unavailable (foldl (judge_demand env locked (index_lines lines)) p es))"
  using assms
proof (induction es arbitrary: p K)
  case (Cons entry es)
  from Cons.prems(4) have now: "locked (fst entry) = item_at db (fst entry)"
    "set (dm_DependentLine (snd entry)) = ln_OrderLineID ` {l \<in> set lines. line_needs db l (fst entry) \<noteq> None}"
    by simp_all
  note step = judge_demand_refuses [where locked = locked and entry = entry, OF Cons.prems(1-3) now(1) Cons.prems(5) now(2) Cons.prems(6)]
  have eq: "K \<union> \<Union> (short_lines db lines ` set (entry # es)) =
      K \<union> short_lines db lines entry \<union> \<Union> (short_lines db lines ` set es)" by auto
  have sub: "K \<union> short_lines db lines entry \<subseteq> set lines" using Cons.prems(2) by (auto simp: short_lines_def)
  show ?case
    unfolding eq foldl_Cons
    by (rule Cons.IH [OF conjunct1 [OF step] sub Cons.prems(3) _ Cons.prems(5)])
      (use Cons.prems(4,6) conjunct2 [OF step] in simp_all)
qed simp

lemma unserved_lines:
  assumes "demands_of db lines demands"
  shows "{l \<in> set lines. \<not> offered db l} \<union> \<Union> (short_lines db lines ` set demands) =
    {l \<in> set lines. \<not> served db lines l}"
proof -
  have entry: "short_lines db lines (x, d) = (if covered db lines x then {} else {l \<in> set lines. line_needs db l x \<noteq> None})"
    if "(x, d) \<in> set demands" for x d
  proof -
    have "map_of demands x = Some d" using that assms by (simp add: demands_of_def)
    then have "dm_Quantity d = demanded db lines x" using assms by (auto simp: demands_of_def split: option.splits)
    then show ?thesis by (simp add: short_lines_def covered_def)
  qed
  have known: "\<exists>d. (x, d) \<in> set demands" if "l \<in> set lines" "line_needs db l x \<noteq> None" for l x
  proof -
    have "map_of demands x \<noteq> None" using that assms by (fastforce simp: demands_of_def split: option.splits)
    then show ?thesis by (auto dest: map_of_SomeD)
  qed
  show ?thesis
  proof (rule set_eqI)
    fix l
    have "l \<in> \<Union> (short_lines db lines ` set demands) \<longleftrightarrow>
        l \<in> set lines \<and> (\<exists>x. line_needs db l x \<noteq> None \<and> \<not> covered db lines x)"
      using known by (fastforce simp: entry split: if_splits)
    then show "l \<in> {l \<in> set lines. \<not> offered db l} \<union> \<Union> (short_lines db lines ` set demands) \<longleftrightarrow>
        l \<in> {l \<in> set lines. \<not> served db lines l}"
      by (auto simp: served_def dom_def)
  qed
qed

text \<open>The plan of a request refuses the lines that the tables cannot serve, and no others.\<close>

lemma verdict_refuses:
  assumes "plan_of env db (cc_Lines command) = Some p0" and "arranges env"
    and "distinct (map ln_OrderLineID (cc_Lines command))"
  shows "refuses db {l \<in> set (cc_Lines command). \<not> served db (cc_Lines command) l}
      (pl_unavailable (verdict_plan env db command p0))"
proof -
  let ?lines = "cc_Lines command" and ?locked = "items_at db (pl_relevant p0)"
  note p = plan_of_planned [OF assms]
  have pl: "demands_of db ?lines (pl_demands p0)"
    "refuses db {l \<in> set ?lines. \<not> offered db l} (pl_unavailable p0)"
    "set (pl_composite p0) = ln_OrderLineID ` {l \<in> set ?lines. composite_line db l}"
    using p(1) by (simp_all add: planned_def)
  have inj: "inj_on ln_OrderLineID {l \<in> set ?lines. \<not> offered db l}"
    by (rule inj_on_subset [of _ "set ?lines"]) (use assms(3) in \<open>auto simp: distinct_map\<close>)
  have at: "?locked x = item_at db x" if "x \<in> set (pl_relevant p0)" for x
    using that by (simp add: items_at_def item_at_def)
  have re: "recheck_lines ?locked p0 ?lines = p0"
    by (rule recheck_refuses [OF pl(2) order_refl inj]) (use p(2) at in auto)
  have entries: "?locked (fst entry) = item_at db (fst entry) \<and>
      set (dm_DependentLine (snd entry)) = ln_OrderLineID ` {l \<in> set ?lines. line_needs db l (fst entry) \<noteq> None}"
    if "entry \<in> set (se_demands env (pl_demands p0))" for entry
  proof -
    obtain x d where e: "entry = (x, d)" by (cases entry)
    then have "map_of (pl_demands p0) x = Some d"
      using that pl(1) arranges_set(2) [OF assms(2)] by (simp add: demands_of_def)
    then have d: "\<exists>l \<in> set ?lines. line_needs db l x \<noteq> None"
      "set (dm_DependentLine d) = ln_OrderLineID ` {l \<in> set ?lines. line_needs db l x \<noteq> None}"
      using pl(1) unfolding demands_of_def by (auto dest!: spec [of _ x])
    then have "x \<in> set (pl_relevant p0)" using p(1) unfolding planned_def by blast
    with d at show ?thesis by (simp add: e)
  qed
  have "refuses db ({l \<in> set ?lines. \<not> offered db l} \<union> \<Union> (short_lines db ?lines ` set (se_demands env (pl_demands p0))))
      (pl_unavailable (verdict_plan env db command p0))"
    unfolding verdict_plan_def decide_def re
    by (rule judge_all_refuses [OF pl(2) _ assms(3) _ assms(2) pl(3)]) (use entries in auto)
  then show ?thesis
    unfolding arranges_set(2) [OF assms(2)] unserved_lines [OF pl(1)] .
qed

end
