(* ===== verification/Stock_Guarantees.thy ===== *)
theory Stock_Guarantees
  imports Stock_Verdict "HOL-Library.Sublist"
begin

text \<open>
  What the adapter's clients rely on: which requests are committed, what a commit takes and
  records, that no sequence of attempts by any number of adapter processes breaks the ledger,
  and that a request is decided once.
\<close>

section \<open>One decision\<close>

text \<open>A result that is not a replay.\<close>

lemma decision:
  assumes "commitOnce cd env replies command fp db = (Inr result, db')" and "distinct (map im_id (sd_items db))"
    and "found_receipt db (cc_OperationID command) = None"
  obtains p0 where "committable cd env command fp p0 db" "db' = committed_db cd env command fp p0 db"
    "result = result_of_plan cd env command (verdict_plan env db command p0)"
  using commitOnce_effect [OF assms(1,2)] assms(3) by auto

lemma refuses_sorted:
  assumes "refuses db {l \<in> set lines. P l} values" and "distinct (map ln_OrderLineID lines)" and "inj (cd_text cd)"
  shows "sortedUnavailable cd values =
    map (refusal db) (sort_key (\<lambda>l. cd_text cd (ln_OrderLineID l)) (filter P lines))"
proof -
  let ?pair = "\<lambda>l. (ln_OrderLineID l, refusal db l)"
  let ?key = "\<lambda>s. cd_text cd (sh_OrderLineID s)"
  have inj: "inj_on ?pair (set (filter P lines))"
    using assms(2) by (auto simp: distinct_map inj_on_def)
  have "distinct (filter P lines)" using assms(2) by (auto simp: distinct_map)
  with inj have d: "distinct (map ?pair (filter P lines))" by (simp add: distinct_map)
  have v: "distinct values" "set values = set (map ?pair (filter P lines))"
    using assms(1) by (auto simp: refuses_def distinct_map)
  have "mset values = mset (map ?pair (filter P lines))"
    using v(2) unfolding set_eq_iff_mset_eq_distinct [OF v(1) d] .
  then have "image_mset snd (mset values) = image_mset snd (mset (map ?pair (filter P lines)))"
    by (rule arg_cong)
  then have "mset (map snd values) = mset (map (refusal db) (filter P lines))"
    unfolding mset_map [symmetric] map_map comp_def snd_conv .
  moreover have "inj_on ?key (set (map snd values))"
  proof (rule inj_onI)
    fix s t assume st: "s \<in> set (map snd values)" "t \<in> set (map snd values)" "?key s = ?key t"
    then obtain l m where "l \<in> set lines" "m \<in> set lines" "s = refusal db l" "t = refusal db m"
      using assms(1) by (auto simp: refuses_def)
    moreover from this st(3) have "ln_OrderLineID l = ln_OrderLineID m"
      by (auto simp: refusal_def unavailableFor_def dest: injD [OF assms(3)])
    ultimately show "s = t" using key_unique [OF assms(2)] by blast
  qed
  ultimately have "sortedUnavailable cd values = sort_key ?key (map (refusal db) (filter P lines))"
    unfolding sortedUnavailable_def by (rule sort_key_perm)
  then show ?thesis by (simp add: sort_key_of_map refusal_def unavailableFor_def)
qed

definition refused :: "stock_db \<Rightarrow> StockLine list \<Rightarrow> StockLine list" where
  "refused db lines = filter (\<lambda>l. \<not> served db lines l) lines"

lemma refused_Nil: "refused db lines = [] \<longleftrightarrow> (\<forall>l \<in> set lines. served db lines l)"
  by (auto simp: refused_def filter_empty_conv)

lemma verdict_result:
  assumes "plan_of env db (cc_Lines command) = Some p0" and "arranges env" and "inj (cd_text cd)"
    and "Validate_command command = None"
  shows "cr_Status (result_of_plan cd env command (verdict_plan env db command p0)) =
      (if refused db (cc_Lines command) = [] then StatusCommitted else StatusItemsUnavailable)"
    and "cr_UnavailableItems (result_of_plan cd env command (verdict_plan env db command p0)) =
      map (refusal db) (sort_key (\<lambda>l. cd_text cd (ln_OrderLineID l)) (refused db (cc_Lines command)))"
    and "pl_unavailable (verdict_plan env db command p0) = [] \<longleftrightarrow> refused db (cc_Lines command) = []"
proof -
  have d: "distinct (map ln_OrderLineID (cc_Lines command))" using assms(4) by (simp add: Validate_command_None)
  note r = verdict_refuses [OF assms(1,2) d]
  have "set (pl_unavailable (verdict_plan env db command p0)) =
      (\<lambda>l. (ln_OrderLineID l, refusal db l)) ` set (refused db (cc_Lines command))"
    using r by (simp add: refuses_def refused_def)
  then show e: "pl_unavailable (verdict_plan env db command p0) = [] \<longleftrightarrow> refused db (cc_Lines command) = []"
  proof -
    assume a: "set (pl_unavailable (verdict_plan env db command p0)) =
      (\<lambda>l. (ln_OrderLineID l, refusal db l)) ` set (refused db (cc_Lines command))"
    have "set (pl_unavailable (verdict_plan env db command p0)) = {} \<longleftrightarrow> set (refused db (cc_Lines command)) = {}"
      unfolding a by (rule image_is_empty)
    then show ?thesis by (simp only: set_empty)
  qed
  then show "cr_Status (result_of_plan cd env command (verdict_plan env db command p0)) =
      (if refused db (cc_Lines command) = [] then StatusCommitted else StatusItemsUnavailable)"
    by (simp add: result_of_plan_def)
  show "cr_UnavailableItems (result_of_plan cd env command (verdict_plan env db command p0)) =
      map (refusal db) (sort_key (\<lambda>l. cd_text cd (ln_OrderLineID l)) (refused db (cc_Lines command)))"
    using refuses_sorted [OF r d assms(3)] e by (simp add: result_of_plan_def refused_def)
qed

lemma refusal_valid: "line_valid l \<Longrightarrow> shortage_valid (refusal db l)"
  by (simp add: line_valid_def shortage_valid_def refusal_def unavailableFor_def)

lemma verdict_valid:
  assumes "plan_of env db (cc_Lines command) = Some p0" and "arranges env" and "inj (cd_text cd)"
    and "Validate_command command = None" and "se_ids env 0 \<noteq> 0" and "se_now env \<noteq> 0"
  shows "Validate_result (result_of_plan cd env command (verdict_plan env db command p0)) = None"
proof -
  note v = verdict_result [OF assms(1-4)]
  let ?sorted = "sort_key (\<lambda>l. cd_text cd (ln_OrderLineID l)) (refused db (cc_Lines command))"
  have sub: "set (refused db (cc_Lines command)) \<subseteq> set (cc_Lines command)" by (auto simp: refused_def)
  have "distinct (map ln_OrderLineID (refused db (cc_Lines command)))"
    using assms(4) by (auto simp: refused_def Validate_command_None distinct_map inj_on_def)
  then have "distinct (map ln_OrderLineID ?sorted)" by (simp add: distinct_map)
  moreover have "sh_OrderLineID \<circ> refusal db = ln_OrderLineID"
    by (simp add: fun_eq_iff refusal_def unavailableFor_def)
  ultimately have "validate_shortages {} (map (refusal db) ?sorted) = None"
    using sub assms(4) by (auto simp: validate_shortages_None Validate_command_None intro!: refusal_valid)
  then show ?thesis
    using assms(4-6) v by (simp add: Validate_result_def result_of_plan_def Validate_command_None)
qed

text \<open>
  C29: A request that is decided is committed exactly when every line can be served from the
  tables: its product is active, and each stock item it needs (itself or the components of a
  composite) is active, tracked, not itself a composite, and holds what all lines of the request
  together need of it. Otherwise the result lists exactly the lines that cannot be served, sorted
  by line identifier, with what is available; and the result always passes the validation that
  the adapter and its caller apply.
\<close>

theorem commit_decides_by_stock:
  assumes "commitOnce cd env replies command fp db = (Inr result, db')" and "distinct (map im_id (sd_items db))"
    and "found_receipt db (cc_OperationID command) = None" and "Validate_command command = None"
    and "arranges env" and "inj (cd_text cd)" and "se_ids env 0 \<noteq> 0" and "se_now env \<noteq> 0"
  shows "(cr_Status result = StatusCommitted \<longleftrightarrow> (\<forall>l \<in> set (cc_Lines command). served db (cc_Lines command) l)) \<and>
    cr_UnavailableItems result = map (refusal db) (sort_key (\<lambda>l. cd_text cd (ln_OrderLineID l))
      (filter (\<lambda>l. \<not> served db (cc_Lines command) l) (cc_Lines command))) \<and>
    cr_OperationID result = cc_OperationID command \<and> cr_OrderID result = cc_OrderID command \<and>
    Validate_result result = None"
proof -
  obtain p0 where p0: "committable cd env command fp p0 db"
    and r: "result = result_of_plan cd env command (verdict_plan env db command p0)"
    by (rule decision [OF assms(1-3)])
  then have plan: "plan_of env db (cc_Lines command) = Some p0" by (simp add: committable_def)
  note v = verdict_result [OF plan assms(5,6,4)]
  have "cr_Status result = StatusCommitted \<longleftrightarrow> (\<forall>l \<in> set (cc_Lines command). served db (cc_Lines command) l)"
    unfolding r v(1) by (simp add: refused_Nil)
  moreover have "Validate_result result = None" unfolding r by (rule verdict_valid [OF plan assms(5,6,4,7,8)])
  ultimately show ?thesis unfolding r v(2) by (simp add: refused_def result_of_plan_def)
qed

section \<open>The ledger\<close>

definition taken :: "codec \<Rightarrow> stock_env \<Rightarrow> stock_db \<Rightarrow> CommitCommand \<Rightarrow> plan \<Rightarrow> uuid \<Rightarrow> int" where
  "taken cd env db command p0 x =
     (if x \<in> set (taken_ids cd env db command p0) then demand_quantity (pl_demands p0) x else 0)"

text \<open>What the movements of an item add up to.\<close>

definition net_movement :: "stock_db \<Rightarrow> uuid \<Rightarrow> int" where
  "net_movement db x = (\<Sum>m\<leftarrow>sd_movements db. if mv_item m = x then mv_quantity m else 0)"

lemma deducted_id [simp]: "im_id (deducted now q ids r) = im_id r"
  by (simp add: deducted_def)

lemma find_deducted:
  "find (\<lambda>r. im_id r = x) (map (deducted now q ids) rows) =
     map_option (deducted now q ids) (find (\<lambda>r. im_id r = x) rows)"
  by (induction rows) auto

lemma find_item: "find (\<lambda>r. im_id r = x) rows = Some r \<Longrightarrow> im_id r = x"
  by (auto dest: find_SomeD)

lemma movements_sum:
  "distinct ids \<Longrightarrow> (\<Sum>m\<leftarrow>movements_for cd env command q k ids. if mv_item m = x then mv_quantity m else 0) =
     - (if x \<in> set ids then q x else 0)"
  by (induction ids arbitrary: k) (auto simp: movement_for_def)

lemma taken_ids_distinct:
  assumes "plan_of env db lines = Some p0"
  shows "distinct (taken_ids cd env db command p0)"
proof -
  have "distinct (map fst (pl_demands p0))"
    using assms plan_all_distinct unfolding plan_of_def by (fastforce simp: start_plan_def)
  then show ?thesis by (simp add: taken_ids_def sortedDemandIDs_def)
qed

lemma committed_stock:
  assumes "committable cd env command fp p0 db" and "distinct (map im_id (sd_items db))"
  shows "stock_at (committed_db cd env command fp p0 db) x = stock_at db x - taken cd env db command p0 x"
    and "net_movement (committed_db cd env command fp p0 db) x = net_movement db x - taken cd env db command p0 x"
    and "taken cd env db command p0 x \<noteq> 0 \<Longrightarrow>
      physical (item_at db x) \<and> taken cd env db command p0 x \<le> stock_at db x"
proof -
  let ?db = "committed_db cd env command fp p0 db" and ?ids = "taken_ids cd env db command p0"
  let ?q = "demand_quantity (pl_demands p0)"
  have found: "\<exists>r. find (\<lambda>r. im_id r = x) (sd_items db) = Some r \<and> deductible ?q r" if x: "x \<in> set ?ids"
  proof -
    obtain r where r: "r \<in> set (sd_items db)" "im_id r = x" "deductible ?q r"
      using x assms(1) by (auto simp: committable_def)
    from find_key_Some [OF assms(2) r(1)] r show ?thesis by auto
  qed
  show "stock_at ?db x = stock_at db x - taken cd env db command p0 x"
  proof (cases "find (\<lambda>r. im_id r = x) (sd_items db)")
    case None
    with found have "x \<notin> set ?ids" by auto
    with None show ?thesis
      by (simp add: stock_at_def item_at_def committed_db_def Let_def find_deducted taken_def)
  next
    case (Some r)
    with find_item have "im_id r = x" by blast
    with Some show ?thesis
      by (simp add: stock_at_def item_at_def committed_db_def Let_def find_deducted taken_def deducted_def state_of_row_def)
  qed
  have "plan_of env db (cc_Lines command) = Some p0" using assms(1) by (simp add: committable_def)
  from taken_ids_distinct [OF this]
  show "net_movement ?db x = net_movement db x - taken cd env db command p0 x"
    by (simp add: net_movement_def committed_db_def Let_def movements_sum taken_def)
  assume "taken cd env db command p0 x \<noteq> 0"
  then have "x \<in> set ?ids" by (auto simp: taken_def split: if_splits)
  moreover from found [OF this] obtain r where "find (\<lambda>r. im_id r = x) (sd_items db) = Some r" "deductible ?q r" by blast
  moreover from this(1) have "im_id r = x" by (rule find_item)
  ultimately show "physical (item_at db x) \<and> taken cd env db command p0 x \<le> stock_at db x"
    by (auto simp: taken_def deductible_def physical_def item_at_def stock_at_def state_of_row_def)
qed

lemma demand_quantity_demanded:
  assumes "demands_of db lines demands"
  shows "demand_quantity demands x = demanded db lines x"
proof -
  have "case map_of demands x of None \<Rightarrow> \<forall>l \<in> set lines. line_needs db l x = None
      | Some d \<Rightarrow> dm_Quantity d = demanded db lines x"
    using conjunct2 [OF assms [unfolded demands_of_def], THEN spec, of x] by (simp split: option.splits)
  then show ?thesis by (auto simp: demand_quantity_def demanded_none split: option.splits)
qed

lemma taken_demanded:
  assumes "plan_of env db (cc_Lines command) = Some p0" and "arranges env" and "inj (cd_text cd)"
    and "Validate_command command = None"
  shows "taken cd env db command p0 x = (if refused db (cc_Lines command) = [] then demanded db (cc_Lines command) x else 0)"
proof -
  have d: "distinct (map ln_OrderLineID (cc_Lines command))" using assms(4) by (simp add: Validate_command_None)
  have dem: "demands_of db (cc_Lines command) (pl_demands p0)"
    using plan_of_planned(1) [OF assms(1,2) d] by (simp add: planned_def)
  have "demand_quantity (pl_demands p0) x = 0" if "x \<notin> fst ` set (pl_demands p0)"
    using that by (auto simp: demand_quantity_def map_of_eq_None_iff [symmetric])
  then show ?thesis
    using verdict_result(3) [OF assms]
    by (auto simp: taken_def taken_ids_def sortedDemandIDs_def demand_quantity_demanded [OF dem] rev_image_eqI)
qed

text \<open>
  What a decision does to the stock, as a function of the stock alone: all that the lines need,
  or nothing.
\<close>

definition reserve :: "stock_db \<Rightarrow> StockLine list \<Rightarrow> (uuid \<Rightarrow> int) \<Rightarrow> uuid \<Rightarrow> int" where
  "reserve db lines stock = (if refused db lines = [] then (\<lambda>x. stock x - demanded db lines x) else stock)"

text \<open>
  C30: A decision refines an all-or-nothing reservation of stock. When every line can be served
  each stock item loses exactly what the lines together need of it, otherwise nothing changes;
  the movements record the same quantities; and no item goes below zero that was not below it.
\<close>

theorem commit_refines_reservation:
  assumes "commitOnce cd env replies command fp db = (Inr result, db')" and "distinct (map im_id (sd_items db))"
    and "found_receipt db (cc_OperationID command) = None" and "Validate_command command = None"
    and "arranges env" and "inj (cd_text cd)"
  shows "stock_at db' = reserve db (cc_Lines command) (stock_at db) \<and>
    (\<forall>x. stock_at db' x - net_movement db' x = stock_at db x - net_movement db x) \<and>
    (\<forall>x. 0 \<le> stock_at db x \<longrightarrow> 0 \<le> stock_at db' x) \<and>
    (cr_Status result = StatusCommitted \<longleftrightarrow> refused db (cc_Lines command) = [])"
proof -
  obtain p0 where p0: "committable cd env command fp p0 db" and db': "db' = committed_db cd env command fp p0 db"
    and r: "result = result_of_plan cd env command (verdict_plan env db command p0)"
    by (rule decision [OF assms(1-3)])
  then have plan: "plan_of env db (cc_Lines command) = Some p0" by (simp add: committable_def)
  note c = committed_stock [OF p0 assms(2), folded db'] and t = taken_demanded [OF plan assms(5,6,4)]
  have "stock_at db' = reserve db (cc_Lines command) (stock_at db)"
    by (simp add: fun_eq_iff c(1) t reserve_def)
  moreover have "0 \<le> stock_at db' x" if "0 \<le> stock_at db x" for x
    using that c(1,3) [of x] by fastforce
  moreover have "stock_at db' x - net_movement db' x = stock_at db x - net_movement db x" for x by (simp add: c(1,2))
  ultimately show ?thesis
    using verdict_result(1) [OF plan assms(5,6,4)] unfolding r by simp
qed

section \<open>Any number of attempts\<close>

text \<open>
  The states that attempts lead to: any commands, answers, clocks and identifiers, by any number
  of processes in any order (each attempt is serializable, so they follow one another).
\<close>

inductive attempts :: "codec \<Rightarrow> stock_db \<Rightarrow> stock_db \<Rightarrow> bool" for cd where
  none: "attempts cd db db"
| attempt: "attempts cd db0 db \<Longrightarrow> commitOnce cd env replies command fp db = (res, db') \<Longrightarrow> attempts cd db0 db'"

definition stock_wf :: "stock_db \<Rightarrow> bool" where
  "stock_wf db \<longleftrightarrow> distinct (map im_id (sd_items db)) \<and> distinct (map rc_operation_id (sd_receipts db))"

text \<open>An item without the two columns that a deduction writes.\<close>

definition frozen :: "item_row \<Rightarrow> item_row" where
  "frozen r = r\<lparr>im_stock := 0, im_updated := None\<rparr>"

lemma frozen_deducted: "frozen (deducted now q ids r) = frozen r"
  by (simp add: frozen_def deducted_def)

lemma stock_wf_same:
  assumes "map frozen (sd_items db') = map frozen (sd_items db)"
  shows "map im_id (sd_items db') = map im_id (sd_items db)"
proof -
  have "map im_id (map frozen xs) = map im_id xs" for xs by (simp add: frozen_def)
  with assms show ?thesis by metis
qed

definition ledger_step :: "stock_db \<Rightarrow> stock_db \<Rightarrow> bool" where
  "ledger_step db db' \<longleftrightarrow>
     (\<forall>x. stock_at db' x - net_movement db' x = stock_at db x - net_movement db x) \<and>
     (\<forall>x. stock_at db' x \<noteq> stock_at db x \<longrightarrow> 0 \<le> stock_at db' x) \<and>
     map frozen (sd_items db') = map frozen (sd_items db) \<and>
     prefix (sd_movements db) (sd_movements db') \<and> prefix (sd_receipts db) (sd_receipts db') \<and>
     sd_components db' = sd_components db \<and> sd_categories db' = sd_categories db"

lemma ledger_refl [simp]: "ledger_step db db"
  by (simp add: ledger_step_def)

lemma ledger_trans: "ledger_step db1 db2 \<Longrightarrow> ledger_step db2 db3 \<Longrightarrow> ledger_step db1 db3"
  unfolding ledger_step_def by (metis prefix_order.trans)

lemma committed_step:
  assumes "committable cd env command fp p0 db" and "stock_wf db"
  shows "ledger_step db (committed_db cd env command fp p0 db)" and "stock_wf (committed_db cd env command fp p0 db)"
proof -
  let ?db = "committed_db cd env command fp p0 db"
  have d: "distinct (map im_id (sd_items db))" using assms(2) by (simp add: stock_wf_def)
  note c = committed_stock [OF assms(1) d]
  have "0 \<le> stock_at ?db x" if "stock_at ?db x \<noteq> stock_at db x" for x
    using that c(1,3) [of x] by auto
  moreover have "map frozen (sd_items ?db) = map frozen (sd_items db)"
    by (simp add: committed_db_def Let_def frozen_deducted)
  moreover have "stock_at ?db x - net_movement ?db x = stock_at db x - net_movement db x" for x by (simp add: c(1,2))
  ultimately show l: "ledger_step db ?db"
    unfolding ledger_step_def by (simp add: committed_db_def Let_def)
  have "\<forall>x \<in> set (sd_receipts db). rc_operation_id x \<noteq> cc_OperationID command"
    using assms(1) by (simp add: committable_def receipt_clash_def receipt_of_def)
  then have "distinct (map rc_operation_id (sd_receipts ?db))"
    using assms(2) by (auto simp: committed_db_def Let_def stock_wf_def receipt_of_def)
  moreover have "map im_id (sd_items ?db) = map im_id (sd_items db)"
    by (rule stock_wf_same) (use l in \<open>simp add: ledger_step_def\<close>)
  ultimately show "stock_wf ?db" using assms(2) by (simp add: stock_wf_def)
qed

lemma attempt_step:
  assumes "commitOnce cd env replies command fp db = (res, db')" and "stock_wf db"
  shows "ledger_step db db' \<and> stock_wf db'"
proof -
  have "distinct (map im_id (sd_items db))" using assms(2) by (simp add: stock_wf_def)
  from commitOnce_effect [OF assms(1) this] consider "db' = db"
    | p0 where "committable cd env command fp p0 db" "db' = committed_db cd env command fp p0 db" by blast
  then show ?thesis
    by cases (use assms(2) committed_step in simp_all)
qed

lemma attempts_step:
  assumes "attempts cd db db'" and "stock_wf db"
  shows "ledger_step db db' \<and> stock_wf db'"
  using assms by (induction rule: attempts.induct) (auto dest: attempt_step intro: ledger_trans)

text \<open>
  C31: The stock ledger. Whatever attempts are made by whatever processes, with whatever failures:
  for every item, stock minus recorded movements never changes; an item whose stock changed is
  not oversold; no other column of an item changes, movements and receipts are only appended, no
  operation gets a second receipt, and categories and components stay as they are: that is every
  table of the database, so nothing but stock, movements and receipts changes.
\<close>

theorem stock_ledger:
  assumes "attempts cd db db'" and "stock_wf db"
  shows "(\<forall>x. stock_at db' x - net_movement db' x = stock_at db x - net_movement db x) \<and>
     (\<forall>x. stock_at db' x \<noteq> stock_at db x \<longrightarrow> 0 \<le> stock_at db' x) \<and>
     map frozen (sd_items db') = map frozen (sd_items db) \<and>
     prefix (sd_movements db) (sd_movements db') \<and> prefix (sd_receipts db) (sd_receipts db') \<and>
     sd_components db' = sd_components db \<and> sd_categories db' = sd_categories db \<and>
     stock_wf db'"
  using attempts_step [OF assms] by (simp add: ledger_step_def)

section \<open>Receipts\<close>

definition codec_ok :: "codec \<Rightarrow> bool" where
  "codec_ok cd \<longleftrightarrow> (\<forall>u. cd_parse cd (cd_text cd u) = Some u)"

lemma codec_ok_inj: "codec_ok cd \<Longrightarrow> inj (cd_text cd)"
  unfolding codec_ok_def by (rule injI) (metis option.inject)

lemma decode_items_text:
  assumes "codec_ok cd"
  shows "decode_items cd (map (\<lambda>item. \<lparr>ru_OrderLineID = cd_text cd (sh_OrderLineID item),
      ru_ProductID = cd_text cd (sh_ProductID item), ru_RequestedQuantity = sh_RequestedQuantity item,
      ru_AvailableQuantity = sh_AvailableQuantity item\<rparr>) items) = Some items"
  using assms by (induction items) (simp_all add: codec_ok_def)

lemma receipt_roundtrip_facts:
  assumes "codec_ok cd" and "cd_parse_time cd (cd_fmt cd (cr_OccurredAt result)) = Some (cr_OccurredAt result)"
    and "Validate_result result = None"
  shows "decodeReceiptResult cd (resultToReceipt cd result) = Some result"
proof -
  have "\<forall>u. cd_parse cd (cd_text cd u) = Some u" using assms(1) by (simp add: codec_ok_def)
  moreover obtain v e opid oid st t items where "result = \<lparr>cr_SchemaVersion = v, cr_EventID = e,
      cr_OperationID = opid, cr_OrderID = oid, cr_Status = st, cr_OccurredAt = t, cr_UnavailableItems = items\<rparr>"
    by (cases result)
  ultimately show ?thesis
    using assms(2,3) decode_items_text [OF assms(1), of items]
    by (simp add: decodeReceiptResult_def resultToReceipt_def Let_def)
qed

text \<open>
  The result that a receipt stores reads back as the same result, provided the text of an
  identifier and of the time of the result parse back: every valid result survives the JSON form.
\<close>

theorem receipt_roundtrip:
  assumes "codec_ok cd" and "cd_parse_time cd (cd_fmt cd (cr_OccurredAt result)) = Some (cr_OccurredAt result)"
    and "Validate_result result = None"
  shows "decodeReceiptResult cd (resultToReceipt cd result) = Some result"
  by (rule receipt_roundtrip_facts [OF assms])

text \<open>The tables hold the result of the operation.\<close>

definition decided :: "codec \<Rightarrow> CommitCommand \<Rightarrow> string \<Rightarrow> CommitResult \<Rightarrow> stock_db \<Rightarrow> bool" where
  "decided cd command fp result db \<longleftrightarrow>
     (\<exists>row. found_receipt db (cc_OperationID command) = Some row \<and> rc_fingerprint row = fp \<and>
        decodeReceiptResult cd (rc_result row) = Some result)"

lemma attempt_decides:
  assumes "commitOnce cd env replies command fp db = (Inr result, db')" and "stock_wf db" and "codec_ok cd"
    and "Validate_command command = None" and "arranges env" and "se_ids env 0 \<noteq> 0" and "se_now env \<noteq> 0"
    and "cd_parse_time cd (cd_fmt cd (se_now env)) = Some (se_now env)"
  shows "decided cd command fp result db'"
proof (cases "found_receipt db (cc_OperationID command)")
  case None
  have d: "distinct (map im_id (sd_items db))" using assms(2) by (simp add: stock_wf_def)
  obtain p0 where p0: "committable cd env command fp p0 db" and db': "db' = committed_db cd env command fp p0 db"
    and r: "result = result_of_plan cd env command (verdict_plan env db command p0)"
    by (rule decision [OF assms(1) d None])
  then have plan: "plan_of env db (cc_Lines command) = Some p0" by (simp add: committable_def)
  have "Validate_result result = None"
    unfolding r by (rule verdict_valid [OF plan assms(5) codec_ok_inj [OF assms(3)] assms(4,6,7)])
  moreover have "cr_OccurredAt result = se_now env" by (simp add: r result_of_plan_def)
  ultimately have "decodeReceiptResult cd (resultToReceipt cd result) = Some result"
    using receipt_roundtrip_facts [OF assms(3)] assms(8) by simp
  then show ?thesis
    using None by (simp add: decided_def found_receipt_def db' committed_db_def Let_def row_simps receipt_of_def r)
next
  case (Some row)
  have d: "distinct (map im_id (sd_items db))" using assms(2) by (simp add: stock_wf_def)
  from commitOnce_effect [OF assms(1) d] Some show ?thesis
    by (auto simp: decided_def committable_def)
qed

lemma found_receipt_prefix:
  assumes "prefix (sd_receipts db) (sd_receipts db')" and "found_receipt db x = Some row"
  shows "found_receipt db' x = Some row"
  using assms by (auto simp: prefix_def found_receipt_def row_simps)

lemma decided_step:
  assumes "decided cd command fp result db" and "ledger_step db db'"
  shows "decided cd command fp result db'"
  using assms by (auto simp: decided_def ledger_step_def intro: found_receipt_prefix)

lemma decided_attempt:
  assumes "decided cd command fp result db" and "stock_wf db"
    and "commitOnce cd env replies command' fp' db = (res, db')" and "cc_OperationID command' = cc_OperationID command"
  shows "db' = db \<and> (fp' = fp \<and> res = Inr result \<or> fp' \<noteq> fp \<and> res = Inl Conflicting \<or> (\<exists>k. res = Inl (Pg k)))"
proof -
  from assms(1) obtain row where row: "found_receipt db (cc_OperationID command') = Some row" "rc_fingerprint row = fp"
    "decodeReceiptResult cd (rc_result row) = Some result" by (auto simp: decided_def assms(4))
  have d: "distinct (map im_id (sd_items db))" using assms(2) by (simp add: stock_wf_def)
  have load: "loadReceipt cd r db (cc_OperationID command') fp' =
      (case exec r (Inr ()) of Inl k \<Rightarrow> Inl (Pg k) | Inr _ \<Rightarrow> if fp \<noteq> fp' then Inl Conflicting else Inr (Some result))" for r
    using row by (cases r) (simp_all add: loadReceipt_def ask_def found_receipt_def)
  show ?thesis
    using assms(3) unfolding commitOnce_def commit_body_def load
    by (cases "replies 0"; cases "replies 1"; cases "replies 2") (auto simp: ask_def split: if_splits)
qed

lemma decided_undisturbed:
  assumes "decided cd command fp result db" and "cc_OperationID command' = cc_OperationID command"
    and "replies 0 = Done" and "replies 1 = Done" and "replies 2 = Done"
  shows "commitOnce cd env replies command' fp' db = (if fp' = fp then Inr result else Inl Conflicting, db)"
proof -
  from assms(1) obtain row where row: "found_receipt db (cc_OperationID command') = Some row" "rc_fingerprint row = fp"
    "decodeReceiptResult cd (rc_result row) = Some result" by (auto simp: decided_def assms(2))
  then show ?thesis
    using assms(3-5) by (auto simp: commitOnce_def commit_body_def loadReceipt_def ask_def found_receipt_def)
qed

text \<open>
  C32: A request is decided once. After a process got a result, and after any further attempts of
  any processes, an attempt with the same request changes nothing and, unless the database fails,
  returns that result; with another request under the same operation it changes nothing and fails.
\<close>

theorem decided_once:
  assumes "commitOnce cd env replies command fp db = (Inr result, db1)" and "stock_wf db" and "codec_ok cd"
    and "Validate_command command = None" and "arranges env" and "se_ids env 0 \<noteq> 0" and "se_now env \<noteq> 0"
    and "cd_parse_time cd (cd_fmt cd (se_now env)) = Some (se_now env)"
    and "attempts cd db1 db2" and "cc_OperationID command' = cc_OperationID command"
    and "commitOnce cd env' replies' command' fp' db2 = (res, db3)"
  shows "db3 = db2 \<and> (fp' = fp \<and> res = Inr result \<or> fp' \<noteq> fp \<and> res = Inl Conflicting \<or> (\<exists>k. res = Inl (Pg k))) \<and>
    (replies' 0 = Done \<and> replies' 1 = Done \<and> replies' 2 = Done \<longrightarrow>
      res = (if fp' = fp then Inr result else Inl Conflicting))"
proof -
  have wf: "stock_wf db1" using attempt_step [OF assms(1,2)] by simp
  have later: "ledger_step db1 db2" "stock_wf db2" using attempts_step [OF assms(9) wf] by simp_all
  have "decided cd command fp result db2" by (rule decided_step [OF attempt_decides [OF assms(1-8)] later(1)])
  from decided_attempt [OF this later(2) assms(11,10)] decided_undisturbed [OF this assms(10), of replies' env' fp'] assms(11)
  show ?thesis by auto
qed

end
