(* ===== verification/Stock_Commit.thy ===== *)
theory Stock_Commit
  imports Stock_Guarantees
begin

text \<open>
  \<open>Store.Commit\<close> with its retries: an undisturbed attempt always completes, only serialization
  failures are retried, at most three attempts are made, and what the call returns is what the
  tables hold.
\<close>

section \<open>An undisturbed attempt\<close>

lemma deduct_all_Done:
  assumes "distinct ids" and "distinct (map im_id (sd_items db))"
    and "\<forall>sid \<in> set ids. \<exists>r \<in> set (sd_items db). im_id r = sid \<and> deductible (demand_quantity demands) r"
    and "\<forall>i < length ids. se_ids env (k + i) \<notin> mv_id ` set (sd_movements db)"
    and "inj_on (\<lambda>i. se_ids env (k + i)) {..< length ids}"
  shows "\<exists>db' m. deduct_all cd env (\<lambda>_. Done) command demands n k ids db = Inr (db', m)"
  using assms
proof (induction ids arbitrary: n k db)
  case (Cons sid ids)
  let ?q = "demand_quantity demands"
  let ?P = "\<lambda>r. im_id r = sid \<and> (im_active r \<and> im_tracks r \<and> \<not> im_composite r \<and> ?q sid \<le> im_stock r)"
  let ?f = "\<lambda>r. r\<lparr>im_stock := im_stock r - ?q sid, im_updated := Some (se_now env)\<rparr>"
  let ?mv = "movement_for cd env command k sid (?q sid)"
  define db1 where "db1 = db\<lparr>sd_items := update_where ?P ?f (sd_items db), sd_movements := sd_movements db @ [?mv]\<rparr>"
  obtain r where r: "r \<in> set (sd_items db)" "im_id r = sid" "deductible ?q r" using Cons.prems(3) by auto
  have "find (\<lambda>r. im_id r = sid) (sd_items db) = Some r" using find_key_Some [OF Cons.prems(2) r(1)] r(2) by simp
  then have one: "affected ?P (sd_items db) = 1"
    using r(2,3) unfolding affected_key [OF Cons.prems(2)] by (simp add: deductible_def)
  have fresh: "\<forall>x \<in> set (sd_movements db). mv_id x \<noteq> mv_id ?mv"
    using Cons.prems(4) by (force simp: movement_for_def)
  have ref: "\<exists>x \<in> set (update_where ?P ?f (sd_items db)). im_id x = mv_item ?mv"
  proof -
    have "map im_id (update_where ?P ?f (sd_items db)) = map im_id (sd_items db)" by simp
    then have "im_id ` set (update_where ?P ?f (sd_items db)) = im_id ` set (sd_items db)"
      unfolding set_map [symmetric] by (rule arg_cong)
    moreover have "sid \<in> im_id ` set (sd_items db)" using r(1,2) by blast
    ultimately have "sid \<in> im_id ` set (update_where ?P ?f (sd_items db))" by simp
    then show ?thesis unfolding movement_for_def movement_row.simps by blast
  qed
  have d1: "distinct (map im_id (sd_items db1))" using Cons.prems(2) by (simp add: db1_def)
  have d2: "distinct ids" "sid \<notin> set ids" using Cons.prems(1) by simp_all
  have "\<exists>x \<in> set (sd_items db1). im_id x = y \<and> deductible ?q x" if y: "y \<in> set ids" for y
  proof -
    from Cons.prems(3) y obtain x where x: "x \<in> set (sd_items db)" "im_id x = y" "deductible ?q x" by auto
    with d2(2) y have "x \<in> set (sd_items db1)" by (force simp: db1_def set_update_where)
    with x show ?thesis by blast
  qed
  moreover have "se_ids env (Suc k + i) \<notin> mv_id ` set (sd_movements db1)" if i: "i < length ids" for i
  proof -
    have "se_ids env (k + Suc i) \<noteq> se_ids env (k + 0)"
      using inj_onD [OF Cons.prems(5), of "Suc i" 0] i by auto
    with Cons.prems(4) [THEN spec, of "Suc i"] i show ?thesis by (simp add: db1_def movement_for_def)
  qed
  moreover have "inj_on (\<lambda>i. se_ids env (Suc k + i)) {..< length ids}"
  proof (rule inj_onI)
    fix i j assume "i \<in> {..< length ids}" "j \<in> {..< length ids}" "se_ids env (Suc k + i) = se_ids env (Suc k + j)"
    then show "i = j" using inj_onD [OF Cons.prems(5), of "Suc i" "Suc j"] by simp
  qed
  ultimately obtain db' m where run: "deduct_all cd env (\<lambda>_. Done) command demands (n + 2) (Suc k) ids db1 = Inr (db', m)"
    using Cons.IH [OF d2(1) d1, of "Suc k" "n + 2"] by blast
  have upd: "update_rows (\<lambda>_. True) ?P ?f (sd_items db) = Inr (update_where ?P ?f (sd_items db), 1)"
    unfolding update_rows_Inr using one by simp
  have ins: "insert_row (\<lambda>_. True) (\<lambda>x r. mv_id x = mv_id r)
      (\<lambda>m. list_ex (\<lambda>i. im_id i = mv_item m) (update_where ?P ?f (sd_items db))) ?mv (sd_movements db) =
      Inr (sd_movements db @ [?mv])"
    unfolding insert_row_Inr using fresh ref by (simp add: list_ex_iff)
  have "deduct_all cd env (\<lambda>_. Done) command demands n k (sid # ids) db = Inr (db', m)"
    unfolding deduct_all.simps Let_def demand_quantity_def [symmetric] ask_Done upd bindE_simps prod.case
    using run by (simp add: ins ask_Done db1_def del: ask_Inr)
  then show ?case by blast
qed simp

text \<open>
  What the tables and the run must provide: new identifiers (one for the result and at most one
  for each item), component quantities that fit the
  32 bits of \<open>CEIL(...)::integer\<close> for the largest order, and a fingerprint of the stored form.
\<close>

definition parts_fit :: "stock_db \<Rightarrow> bool" where
  "parts_fit db \<longleftrightarrow> (\<forall>c \<in> set (sd_components db). 0 \<le> co_quantity c \<and> co_quantity c \<le> 21474836470)"

definition fresh_run :: "stock_env \<Rightarrow> CommitCommand \<Rightarrow> stock_db \<Rightarrow> bool" where
  "fresh_run env command db \<longleftrightarrow> inj_on (se_ids env) {.. length (sd_items db)} \<and>
     (\<forall>k \<le> length (sd_items db). se_ids env k \<notin> mv_id ` set (sd_movements db)) \<and>
     se_ids env 0 \<notin> rc_result_event_id ` set (sd_receipts db) \<and>
     cc_EventID command \<notin> rc_request_event_id ` set (sd_receipts db) \<and>
     cc_OperationID command \<notin> rc_operation_id ` set (sd_receipts db)"

definition digest_shape :: "string \<Rightarrow> bool" where
  "digest_shape fp \<longleftrightarrow> length fp = 64 \<and> list_all (\<lambda>c. is_hex c \<and> \<not> (65 \<le> byte c \<and> byte c \<le> 70)) fp"

lemma sum_parts_fit:
  assumes "\<forall>c \<in> set cs. 0 \<le> co_quantity c \<and> co_quantity c \<le> 21474836470" and "0 \<le> n" and "n \<le> 100"
  shows "\<exists>parts. sum_parts n cs = Inr parts"
  using assms(1)
proof (induction cs)
  case (Cons c cs)
  have "co_quantity c * n \<le> 21474836470 * 100" using Cons.prems assms(2,3) by (intro mult_mono) auto
  then have "(co_quantity c * n + 999) div 1000 \<le> 2147483647" by linarith
  with Cons show ?case by (auto simp: part_quantity_def Let_def)
qed simp

lemma plan_of_fit:
  assumes "parts_fit db" and "Validate_command command = None"
  shows "\<exists>p0. plan_of env db (cc_Lines command) = Some p0"
proof -
  have "\<exists>p'. plan_all env db initial p lines = Some p'" if "\<forall>l \<in> set lines. line_valid l" for initial p lines
    using that
  proof (induction lines arbitrary: p)
    case (Cons l lines)
    have "\<exists>parts. parts_of db l = Inr parts"
      unfolding parts_of_def by (rule sum_parts_fit) (use assms(1) Cons.prems in \<open>auto simp: parts_fit_def line_valid_def\<close>)
    then have "\<exists>p1. plan_step env db initial p l = Some p1"
      by (auto simp: plan_step_def split: option.splits)
    with Cons show ?case by fastforce
  qed simp
  then show ?thesis using assms(2) by (simp add: plan_of_def Validate_command_None)
qed

lemma receipt_of_check:
  assumes "plan_of env db (cc_Lines command) = Some p0" and "arranges env" and "codec_ok cd"
    and "Validate_command command = None" and "digest_shape fp"
  shows "receipt_check (cd_text cd) (receipt_of cd command fp
    (result_of_plan cd env command (verdict_plan env db command p0)))"
proof -
  note v = verdict_result [OF assms(1,2) codec_ok_inj [OF assms(3)] assms(4)]
  have "refused db (cc_Lines command) = [] \<longleftrightarrow>
      sort_key (\<lambda>l. cd_text cd (ln_OrderLineID l)) (refused db (cc_Lines command)) = []"
    by (metis set_empty set_sort)
  with v assms(4,5) show ?thesis
    by (simp add: receipt_check_def receipt_of_def requestToReceipt_def resultToReceipt_def digest_shape_def
      Validate_command_None StockSchemaVersion_def result_of_plan_def)
qed

lemma undisturbed_body:
  assumes "plan_of env db (cc_Lines command) = Some p0" and "stock_wf db" and "arranges env" and "codec_ok cd"
    and "Validate_command command = None" and "digest_shape fp" and "fresh_run env command db"
  shows "\<exists>result db' n. commit_body cd env (\<lambda>_. Done) command fp db = Inr (result, Some (db', n))"
proof -
  let ?v = "verdict_plan env db command p0"
  let ?result = "result_of_plan cd env command ?v"
  have wf: "distinct (map im_id (sd_items db))" using assms(2) by (simp add: stock_wf_def)
  have inj: "inj (cd_text cd)" by (rule codec_ok_inj [OF assms(4)])
  note v = verdict_result [OF assms(1,3) inj assms(5)]
  have none: "found_receipt db (cc_OperationID command) = None"
    using assms(7) unfolding fresh_run_def found_receipt_def find_None_image by blast
  have load: "loadReceipt cd Done db (cc_OperationID command) fp = Inr None"
    unfolding loadReceipt_Inr using none by simp
  obtain n where plan: "plan_lines env (\<lambda>_. Done) db (items_at db (map ln_ProductID (cc_Lines command))) 4
      (start_plan (cc_Lines command)) (cc_Lines command) = Inr (p0, n)"
    using assms(1) unfolding plan_of_def by (fastforce simp: plan_lines_Inr)
  have items: "loadItems Done db ids = Inr (items_at db ids)" for ids by (simp add: loadItems_Inr)
  have ded: "\<exists>db1 m. (if pl_unavailable ?v \<noteq> [] then Inr (db, Suc n)
      else deduct_all cd env (\<lambda>_. Done) command (pl_demands p0) (Suc n) 1 (sortedDemandIDs cd (pl_demands p0)) db) =
      Inr (db1, m) \<and> sd_receipts db1 = sd_receipts db"
  proof (cases "pl_unavailable ?v = []")
    case True
    then have ids: "taken_ids cd env db command p0 = sortedDemandIDs cd (pl_demands p0)" by (simp add: taken_ids_def)
    have dist: "distinct (sortedDemandIDs cd (pl_demands p0))"
      using taken_ids_distinct [OF assms(1), of cd command] unfolding ids .
    have d: "distinct (map ln_OrderLineID (cc_Lines command))" using assms(5) by (simp add: Validate_command_None)
    have dem: "demands_of db (cc_Lines command) (pl_demands p0)"
      using plan_of_planned(1) [OF assms(1,3) d] by (simp add: planned_def)
    have stocked: "\<exists>r \<in> set (sd_items db). im_id r = sid \<and> deductible (demand_quantity (pl_demands p0)) r"
      if sid: "sid \<in> set (sortedDemandIDs cd (pl_demands p0))" for sid
    proof -
      from sid obtain dm where "map_of (pl_demands p0) sid = Some dm"
        using dem by (auto simp: sortedDemandIDs_def demands_of_def)
      then obtain l where "l \<in> set (cc_Lines command)" "line_needs db l sid \<noteq> None"
        using conjunct2 [OF dem [unfolded demands_of_def], THEN spec, of sid] by auto
      then have "covered db (cc_Lines command) sid"
        using True v(3) by (auto simp: refused_Nil served_def)
      then show ?thesis
        by (auto simp: covered_def physical_def item_at_def stock_at_def state_of_row_def deductible_def
            demand_quantity_demanded [OF dem] dest!: find_SomeD split: option.splits)
    qed
    then have "set (sortedDemandIDs cd (pl_demands p0)) \<subseteq> set (map im_id (sd_items db))" by fastforce
    with dist have len: "length (sortedDemandIDs cd (pl_demands p0)) \<le> length (sd_items db)"
      by (metis card_length card_mono distinct_card length_map List.finite_set order_trans)
    have "inj_on (\<lambda>i. se_ids env (1 + i)) {..< length (sortedDemandIDs cd (pl_demands p0))}"
    proof (rule inj_onI)
      fix i j assume "i \<in> {..< length (sortedDemandIDs cd (pl_demands p0))}"
        "j \<in> {..< length (sortedDemandIDs cd (pl_demands p0))}" "se_ids env (1 + i) = se_ids env (1 + j)"
      with len assms(7) show "i = j" by (auto simp: fresh_run_def dest: inj_onD)
    qed
    with stocked have "\<exists>db1 m. deduct_all cd env (\<lambda>_. Done) command (pl_demands p0) (Suc n) 1
        (sortedDemandIDs cd (pl_demands p0)) db = Inr (db1, m)"
      using assms(7) len by (intro deduct_all_Done [OF dist wf]) (auto simp: fresh_run_def)
    with True deduct_all_Inr [OF _ dist wf] show ?thesis by fastforce
  qed simp
  then obtain db1 m where ded: "(if pl_unavailable ?v \<noteq> [] then Inr (db, Suc n)
      else deduct_all cd env (\<lambda>_. Done) command (pl_demands p0) (Suc n) 1 (sortedDemandIDs cd (pl_demands p0)) db) =
      Inr (db1, m)" and same: "sd_receipts db1 = sd_receipts db" by blast
  have "receipt_check (cd_text cd) (receipt_of cd command fp ?result)" by (rule receipt_of_check [OF assms(1,3,4,5,6)])
  moreover have "\<forall>x \<in> set (sd_receipts db). \<not> receipt_clash x (receipt_of cd command fp ?result)"
    using assms(7) unfolding fresh_run_def receipt_clash_def
    by (simp add: receipt_of_def result_of_plan_def image_iff) metis
  ultimately obtain db2 where "insertReceipt cd Done command fp ?result db1 = Inr db2"
    by (auto simp: insertReceipt_Inr same)
  then have "commit_body cd env (\<lambda>_. Done) command fp db = Inr (?result, Some (db2, Suc m))"
    using plan ded
    unfolding commit_body_def load ask_Done bindE_simps option.case Let_def items start_plan_def [symmetric]
    by (simp add: verdict_plan_def)
  then show ?thesis by blast
qed

lemma undisturbed_attempt:
  assumes "parts_fit db" and "stock_wf db" and "arranges env" and "codec_ok cd"
    and "Validate_command command = None" and "digest_shape fp" and "fresh_run env command db"
  shows "\<exists>result db'. commitOnce cd env (\<lambda>_. Done) command fp db = (Inr result, db')"
proof -
  obtain p0 where "plan_of env db (cc_Lines command) = Some p0" using plan_of_fit [OF assms(1,5)] by blast
  from undisturbed_body [OF this assms(2-7)] show ?thesis by (auto simp: commitOnce_def ask_def)
qed

section \<open>Retries\<close>

definition last_try :: "(attempt_error + CommitResult) \<Rightarrow> bool" where
  "last_try res \<longleftrightarrow> (case res of Inl e \<Rightarrow> \<not> isSerializationFailure e | Inr _ \<Rightarrow> True)"

definition verdict :: "(attempt_error + CommitResult) \<Rightarrow> stock_error + CommitResult" where
  "verdict res = (case res of Inl e \<Rightarrow> Inl (classifyStoreError e) | Inr r \<Rightarrow> Inr r)"

text \<open>The state before and after the \<open>j\<close>-th attempt, had all of them been made.\<close>

primrec try_state ::
    "codec \<Rightarrow> (nat \<Rightarrow> stock_env) \<Rightarrow> (nat \<Rightarrow> nat \<Rightarrow> reply) \<Rightarrow> (nat \<Rightarrow> stock_db \<Rightarrow> stock_db) \<Rightarrow> CommitCommand \<Rightarrow> string \<Rightarrow>
     nat \<Rightarrow> stock_db \<Rightarrow> nat \<Rightarrow> (attempt_error + CommitResult) \<times> stock_db" where
  "try_state cd env replies meanwhile command fp k db 0 =
     commitOnce cd (env k) (replies k) command fp (meanwhile k db)"
| "try_state cd env replies meanwhile command fp k db (Suc j) =
     commitOnce cd (env (k + Suc j)) (replies (k + Suc j)) command fp
       (meanwhile (k + Suc j) (snd (try_state cd env replies meanwhile command fp k db j)))"

lemma try_state_shift:
  "try_state cd env replies meanwhile command fp k db (Suc j) =
     try_state cd env replies meanwhile command fp (Suc k) (snd (try_state cd env replies meanwhile command fp k db 0)) j"
  by (induction j) simp_all

lemma commit_tries_first:
  assumes "j < n" and "\<forall>i < j. \<not> last_try (fst (try_state cd env replies meanwhile command fp k db i))"
    and "last_try (fst (try_state cd env replies meanwhile command fp k db j))"
  shows "commit_tries cd n k env replies meanwhile command fp db =
    map_prod verdict id (try_state cd env replies meanwhile command fp k db j)"
  using assms
proof (induction n arbitrary: j k db)
  case (Suc n)
  obtain res db1 where one: "commitOnce cd (env k) (replies k) command fp (meanwhile k db) = (res, db1)" by fastforce
  show ?case
  proof (cases j)
    case 0
    with Suc.prems(3) one show ?thesis
      by (cases res) (simp_all add: last_try_def verdict_def)
  next
    case (Suc i)
    have "\<not> last_try res" using Suc.prems(2) one Suc by (auto dest: spec [of _ 0])
    then obtain e where e: "res = Inl e" "isSerializationFailure e" by (cases res) (auto simp: last_try_def)
    have "commit_tries cd n (Suc k) env replies meanwhile command fp db1 =
        map_prod verdict id (try_state cd env replies meanwhile command fp (Suc k) db1 i)"
    proof (rule Suc.IH)
      show "i < n" using Suc.prems(1) Suc by simp
      show "\<forall>i' < i. \<not> last_try (fst (try_state cd env replies meanwhile command fp (Suc k) db1 i'))"
        using Suc.prems(2) Suc one try_state_shift [of cd env replies meanwhile command fp k db]
        by (metis Suc_less_eq snd_conv try_state.simps(1))
      show "last_try (fst (try_state cd env replies meanwhile command fp (Suc k) db1 i))"
        using Suc.prems(3) one unfolding Suc try_state_shift by simp
    qed
    then show ?thesis using one e unfolding Suc try_state_shift by (simp add: id_def)
  qed
qed simp

lemma commit_tries_none:
  assumes "\<forall>i < n. \<not> last_try (fst (try_state cd env replies meanwhile command fp k db i))"
  shows "fst (commit_tries cd n k env replies meanwhile command fp db) = Inl StoreUnavailable"
  using assms
proof (induction n arbitrary: k db)
  case (Suc n)
  obtain res db1 where one: "commitOnce cd (env k) (replies k) command fp (meanwhile k db) = (res, db1)" by fastforce
  have "\<not> last_try res" using Suc.prems one by (auto dest: spec [of _ 0])
  then obtain e where e: "res = Inl e" "isSerializationFailure e" by (cases res) (auto simp: last_try_def)
  have "fst (commit_tries cd n (Suc k) env replies meanwhile command fp db1) = Inl StoreUnavailable"
  proof (rule Suc.IH)
    show "\<forall>i < n. \<not> last_try (fst (try_state cd env replies meanwhile command fp (Suc k) db1 i))"
      using Suc.prems one try_state_shift [of cd env replies meanwhile command fp k db]
      by (metis Suc_less_eq snd_conv try_state.simps(1))
  qed
  then show ?case using one e by simp
qed simp

text \<open>
  The store makes at most three attempts. It goes on to the next one exactly after a
  serialization failure; the first attempt that ends otherwise decides the answer and the state
  (its result, or its error classified for the service), and when all three meet serialization
  failures the answer is that the store is unavailable.
\<close>

theorem commit_makes_three_tries:
  shows "(\<forall>j < 3. (\<forall>i < j. \<not> last_try (fst (try_state cd env replies meanwhile command fp 0 db i))) \<and>
      last_try (fst (try_state cd env replies meanwhile command fp 0 db j)) \<longrightarrow>
      Commit_store cd env replies meanwhile command fp db =
        map_prod verdict id (try_state cd env replies meanwhile command fp 0 db j)) \<and>
    ((\<forall>i < 3. \<not> last_try (fst (try_state cd env replies meanwhile command fp 0 db i))) \<longrightarrow>
      fst (Commit_store cd env replies meanwhile command fp db) = Inl StoreUnavailable)"
  unfolding Commit_store_def maxSerializableTries_def
  using commit_tries_first [of _ 3 cd env replies meanwhile command fp 0 db]
    commit_tries_none [of 3 cd env replies meanwhile command fp 0 db] by blast

definition before_try ::
    "codec \<Rightarrow> (nat \<Rightarrow> stock_env) \<Rightarrow> (nat \<Rightarrow> nat \<Rightarrow> reply) \<Rightarrow> (nat \<Rightarrow> stock_db \<Rightarrow> stock_db) \<Rightarrow> CommitCommand \<Rightarrow> string \<Rightarrow>
     stock_db \<Rightarrow> nat \<Rightarrow> stock_db" where
  "before_try cd env replies meanwhile command fp db j =
     (case j of 0 \<Rightarrow> meanwhile 0 db
      | Suc i \<Rightarrow> meanwhile (Suc i) (snd (try_state cd env replies meanwhile command fp 0 db i)))"

lemma try_state_before:
  "try_state cd env replies meanwhile command fp 0 db j =
     commitOnce cd (env j) (replies j) command fp (before_try cd env replies meanwhile command fp db j)"
  by (cases j) (simp_all add: before_try_def)

text \<open>
  C33: A commit completes. If one of the three attempts is not disturbed (after at most two
  serialization failures), the tables are well formed, the component quantities fit the integer
  type and the identifiers are new, then the call returns a result, not an error; and without
  interference from others the new operation is committed exactly when the stock allows it.
\<close>

theorem commit_completes:
  assumes "j < 3" and "\<forall>i < j. \<not> last_try (fst (try_state cd env replies meanwhile command fp 0 db i))"
    and "replies j = (\<lambda>_. Done)" and "stock_wf (before_try cd env replies meanwhile command fp db j)"
    and "parts_fit (before_try cd env replies meanwhile command fp db j)"
    and "fresh_run (env j) command (before_try cd env replies meanwhile command fp db j)"
    and "arranges (env j)" and "codec_ok cd" and "Validate_command command = None" and "digest_shape fp"
  shows "\<exists>result db'. Commit_store cd env replies meanwhile command fp db = (Inr result, db') \<and>
    (cr_Status result = StatusCommitted \<longleftrightarrow>
      refused (before_try cd env replies meanwhile command fp db j) (cc_Lines command) = [])"
proof -
  let ?db = "before_try cd env replies meanwhile command fp db j"
  obtain result db' where run: "commitOnce cd (env j) (\<lambda>_. Done) command fp ?db = (Inr result, db')"
    using undisturbed_attempt [OF assms(5,4,7-10,6)] by blast
  have this_try: "try_state cd env replies meanwhile command fp 0 db j = (Inr result, db')"
    unfolding try_state_before assms(3) run ..
  have wf: "distinct (map im_id (sd_items ?db))" using assms(4) by (simp add: stock_wf_def)
  have none: "found_receipt ?db (cc_OperationID command) = None"
    using assms(6) unfolding fresh_run_def found_receipt_def find_None_image by blast
  obtain p0 where "committable cd (env j) command fp p0 ?db"
    and r: "result = result_of_plan cd (env j) command (verdict_plan (env j) ?db command p0)"
    by (rule decision [OF run wf none])
  then have "plan_of (env j) ?db (cc_Lines command) = Some p0" by (simp add: committable_def)
  from verdict_result(1) [OF this assms(7) codec_ok_inj [OF assms(8)] assms(9)]
  have "cr_Status result = StatusCommitted \<longleftrightarrow> refused ?db (cc_Lines command) = []" by (simp add: r)
  moreover have "Commit_store cd env replies meanwhile command fp db = (Inr result, db')"
    unfolding Commit_store_def maxSerializableTries_def
    using commit_tries_first [OF assms(1,2)] by (simp add: this_try last_try_def verdict_def)
  ultimately show ?thesis by blast
qed

section \<open>Go's map order\<close>

text \<open>Two runs of an attempt that differ only in the order in which Go ranges over its maps.\<close>

definition same_run :: "stock_env \<Rightarrow> stock_env \<Rightarrow> bool" where
  "same_run env1 env2 \<longleftrightarrow> se_ids env1 = se_ids env2 \<and> se_now env1 = se_now env2 \<and> se_actor env1 = se_actor env2"

lemma demand_ids_unique:
  assumes "demands_of db lines demands1" and "demands_of db lines demands2" and "inj (cd_text cd)"
  shows "sortedDemandIDs cd demands1 = sortedDemandIDs cd demands2"
proof -
  have ids: "set (map fst d) = {x. \<exists>l \<in> set lines. line_needs db l x \<noteq> None}" if d: "demands_of db lines d" for d
  proof (rule set_eqI)
    fix x
    have "x \<in> set (map fst d) \<longleftrightarrow> map_of d x \<noteq> None" by (simp add: map_of_eq_None_iff)
    also have "\<dots> \<longleftrightarrow> (\<exists>l \<in> set lines. line_needs db l x \<noteq> None)"
      using conjunct2 [OF d [unfolded demands_of_def], THEN spec, of x] by (auto split: option.splits)
    finally show "x \<in> set (map fst d) \<longleftrightarrow> x \<in> {x. \<exists>l \<in> set lines. line_needs db l x \<noteq> None}" by simp
  qed
  have d: "distinct (map fst demands1)" "distinct (map fst demands2)"
    using assms(1,2) by (simp_all add: demands_of_def)
  have "set (map fst demands1) = set (map fst demands2)"
    unfolding ids [OF assms(1)] ids [OF assms(2)] ..
  then have "mset (map fst demands1) = mset (map fst demands2)"
    unfolding set_eq_iff_mset_eq_distinct [OF d] .
  then show ?thesis unfolding sortedDemandIDs_def
    by (rule sort_key_perm) (rule inj_on_subset [OF assms(3) subset_UNIV])
qed

lemma movements_same_run:
  "same_run env1 env2 \<Longrightarrow> movements_for cd env1 command q k ids = movements_for cd env2 command q k ids"
  by (induction ids arbitrary: k) (simp_all add: movement_for_def same_run_def)

text \<open>
  C34: The outcome does not depend on the order in which Go ranges over the components, the
  demands and their lines: two runs that both reach a decision on one state, with the same clock
  and generated identifiers, return the same result and leave the same tables.
\<close>

theorem commit_ignores_map_order:
  assumes "commitOnce cd env1 replies1 command fp db = (Inr result1, db1)"
    and "commitOnce cd env2 replies2 command fp db = (Inr result2, db2)"
    and "same_run env1 env2" and "arranges env1" and "arranges env2" and "stock_wf db" and "inj (cd_text cd)"
    and "Validate_command command = None"
  shows "result1 = result2 \<and> db1 = db2"
proof (cases "found_receipt db (cc_OperationID command)")
  case None
  have wf: "distinct (map im_id (sd_items db))" using assms(6) by (simp add: stock_wf_def)
  have d: "distinct (map ln_OrderLineID (cc_Lines command))" using assms(8) by (simp add: Validate_command_None)
  obtain p1 where c1: "committable cd env1 command fp p1 db" "db1 = committed_db cd env1 command fp p1 db"
    "result1 = result_of_plan cd env1 command (verdict_plan env1 db command p1)"
    by (rule decision [OF assms(1) wf None])
  obtain p2 where c2: "committable cd env2 command fp p2 db" "db2 = committed_db cd env2 command fp p2 db"
    "result2 = result_of_plan cd env2 command (verdict_plan env2 db command p2)"
    by (rule decision [OF assms(2) wf None])
  have plan: "plan_of env1 db (cc_Lines command) = Some p1" "plan_of env2 db (cc_Lines command) = Some p2"
    using c1(1) c2(1) by (simp_all add: committable_def)
  note v1 = verdict_result [OF plan(1) assms(4,7,8)] and v2 = verdict_result [OF plan(2) assms(5,7,8)]
  have result: "result1 = result2"
  proof (rule CommitResult.equality)
    show "cr_Status result1 = cr_Status result2" "cr_UnavailableItems result1 = cr_UnavailableItems result2"
      unfolding c1(3) c2(3) v1(1,2) v2(1,2) by (rule refl)+
  qed (use assms(3) in \<open>simp_all add: c1(3) c2(3) result_of_plan_def same_run_def\<close>)
  have dem: "demands_of db (cc_Lines command) (pl_demands p1)" "demands_of db (cc_Lines command) (pl_demands p2)"
    using plan_of_planned(1) [OF plan(1) assms(4) d] plan_of_planned(1) [OF plan(2) assms(5) d]
    by (simp_all add: planned_def)
  have q: "demand_quantity (pl_demands p1) = demand_quantity (pl_demands p2)"
    by (simp add: fun_eq_iff demand_quantity_demanded [OF dem(1)] demand_quantity_demanded [OF dem(2)])
  have ids: "taken_ids cd env1 db command p1 = taken_ids cd env2 db command p2"
    using v1(3) v2(3) demand_ids_unique [OF dem assms(7)] by (simp add: taken_ids_def)
  have "db1 = db2"
    unfolding c1(2) c2(2) committed_db_def Let_def q ids movements_same_run [OF assms(3)]
    using result [unfolded c1(3) c2(3)] assms(3) by (simp add: same_run_def)
  with result show ?thesis by simp
next
  case (Some row)
  have wf: "distinct (map im_id (sd_items db))" using assms(6) by (simp add: stock_wf_def)
  from commitOnce_effect [OF assms(1) wf] commitOnce_effect [OF assms(2) wf] Some show ?thesis
    by (auto simp: committable_def)
qed

end
