(* ===== verification/Stock_Transport.thy ===== *)
theory Stock_Transport
  imports Stock_Store Go_Http
begin

text \<open>
  The inventory adapter from its store to the wire: the application service
  (\<open>application/service.go\<close>), the wire types and their conversions (\<open>transport/types.go\<close> and
  \<open>mapping.go\<close>) and the handlers (\<open>transport/http.go\<close>) under
  \<open>services/inventory-adapter/internal/inventory\<close>. A handler answers with a status and a JSON
  value. SHA-256 of the token is a parameter, like the codec of identifiers and times.
\<close>

section \<open>The application service\<close>

definition Service_Commit ::
    "codec \<Rightarrow> (canonicalCommand \<Rightarrow> string) \<Rightarrow> (nat \<Rightarrow> stock_env) \<Rightarrow> (nat \<Rightarrow> nat \<Rightarrow> reply) \<Rightarrow> (nat \<Rightarrow> stock_db \<Rightarrow> stock_db) \<Rightarrow>
     CommitCommand \<Rightarrow> stock_db \<Rightarrow> (stock_error + CommitResult) \<times> stock_db" where
  "Service_Commit cd digest env replies meanwhile command db =
     (case Fingerprint (cd_text cd) (cd_fmt cd) digest command of
        Inl e \<Rightarrow> (Inl e, db)
      | Inr fingerprint \<Rightarrow>
          (case Commit_store cd env replies meanwhile command fingerprint db of
             (Inl e, db') \<Rightarrow> (Inl e, db')
           | (Inr result, db') \<Rightarrow>
               (if Validate_result result \<noteq> None then Inl StoreUnavailable
                else if cr_OperationID result \<noteq> cc_OperationID command \<or> cr_OrderID result \<noteq> cc_OrderID command
                then Inl StoreUnavailable
                else Inr result, db')))"

text \<open>The error of the store is wrapped; no sentinel but its own is found in it.\<close>

definition Service_Catalog :: "reply \<Rightarrow> stock_db \<Rightarrow> CatalogQuery \<Rightarrow> stock_error + CatalogPage" where
  "Service_Catalog r db query =
     (case Validate_query query of
        Some e \<Rightarrow> Inl e
      | None \<Rightarrow>
          (case Catalog_store r db query of
             Inl _ \<Rightarrow> Inl StoreUnavailable
           | Inr page \<Rightarrow> if Validate_page page \<noteq> None then Inl StoreUnavailable else Inr page))"

section \<open>Wire types\<close>

record itemRequest =
  iq_OrderLineID :: string
  iq_ProductID :: string
  iq_Quantity :: int

record commitRequest =
  wq_SchemaVersion :: string
  wq_EventID :: string
  wq_OperationID :: string
  wq_OrderID :: string
  wq_OccurredAt :: string
  wq_Items :: "itemRequest list"

record unavailableItem =
  ux_OrderLineID :: string
  ux_ProductID :: string
  ux_RequestedQuantity :: int
  ux_AvailableQuantity :: int

record commitResponse =
  cs_SchemaVersion :: string
  cs_EventID :: string
  cs_OperationID :: string
  cs_OrderID :: string
  cs_Result :: string
  cs_OccurredAt :: string
  cs_Items :: "unavailableItem list"

record catalogProductResponse =
  ps_ProductID :: string
  ps_Name :: string
  ps_Description :: string
  ps_PriceCentavos :: int
  ps_CategoryID :: string
  ps_CategoryName :: string
  ps_Available :: bool
  ps_SourceUpdatedAt :: string

record catalogPageResponse =
  pp_Products :: "catalogProductResponse list"
  pp_NextAfterID :: string

subsection \<open>Reading a request\<close>

definition item_request_fields :: "itemRequest field list" where
  "item_request_fields =
     [(''order_line_id'', string_field (\<lambda>s. iq_OrderLineID_update (\<lambda>_. s))),
      (''product_id'', string_field (\<lambda>s. iq_ProductID_update (\<lambda>_. s))),
      (''quantity'', int_field (\<lambda>i. iq_Quantity_update (\<lambda>_. i)))]"

definition zero_item_request :: itemRequest where
  "zero_item_request = \<lparr>iq_OrderLineID = [], iq_ProductID = [], iq_Quantity = 0\<rparr>"

definition commit_request_fields :: "commitRequest field list" where
  "commit_request_fields =
     [(''schema_version'', string_field (\<lambda>s. wq_SchemaVersion_update (\<lambda>_. s))),
      (''event_id'', string_field (\<lambda>s. wq_EventID_update (\<lambda>_. s))),
      (''operation_id'', string_field (\<lambda>s. wq_OperationID_update (\<lambda>_. s))),
      (''order_id'', string_field (\<lambda>s. wq_OrderID_update (\<lambda>_. s))),
      (''occurred_at'', string_field (\<lambda>s. wq_OccurredAt_update (\<lambda>_. s))),
      (''items'', list_field (decode_struct True item_request_fields zero_item_request)
                    (\<lambda>items. wq_Items_update (\<lambda>_. items)))]"

definition zero_commit_request :: commitRequest where
  "zero_commit_request = \<lparr>wq_SchemaVersion = [], wq_EventID = [], wq_OperationID = [], wq_OrderID = [],
     wq_OccurredAt = [], wq_Items = []\<rparr>"

definition decode_commit_request :: "json \<Rightarrow> commitRequest option" where
  "decode_commit_request = decode_struct True commit_request_fields zero_commit_request"

subsection \<open>Writing an answer\<close>

definition unavailable_json :: "unavailableItem \<Rightarrow> json" where
  "unavailable_json x = JObj [(''order_line_id'', JStr (ux_OrderLineID x)), (''product_id'', JStr (ux_ProductID x)),
     (''requested_quantity'', JInt (ux_RequestedQuantity x)), (''available_quantity'', JInt (ux_AvailableQuantity x))]"

text \<open>\<open>items\<close> has the option \<open>omitempty\<close>.\<close>

definition response_json :: "commitResponse \<Rightarrow> json" where
  "response_json r = JObj ([(''schema_version'', JStr (cs_SchemaVersion r)), (''event_id'', JStr (cs_EventID r)),
     (''operation_id'', JStr (cs_OperationID r)), (''order_id'', JStr (cs_OrderID r)), (''result'', JStr (cs_Result r)),
     (''occurred_at'', JStr (cs_OccurredAt r))] @
     (if cs_Items r = [] then [] else [(''items'', JArr (map unavailable_json (cs_Items r)))]))"

definition product_json :: "catalogProductResponse \<Rightarrow> json" where
  "product_json p = JObj [(''product_id'', JStr (ps_ProductID p)), (''name'', JStr (ps_Name p)),
     (''description'', JStr (ps_Description p)), (''price_centavos'', JInt (ps_PriceCentavos p)),
     (''category_id'', JStr (ps_CategoryID p)), (''category_name'', JStr (ps_CategoryName p)),
     (''available'', JBool (ps_Available p)), (''source_updated_at'', JStr (ps_SourceUpdatedAt p))]"

definition page_json :: "catalogPageResponse \<Rightarrow> json" where
  "page_json p = JObj [(''products'', JArr (map product_json (pp_Products p))), (''next_after_id'', JStr (pp_NextAfterID p))]"

section \<open>Conversions\<close>

fun lines_to_domain :: "codec \<Rightarrow> itemRequest list \<Rightarrow> StockLine list option" where
  "lines_to_domain cd [] = Some []"
| "lines_to_domain cd (item # items) =
     (case (cd_parse cd (iq_OrderLineID item), cd_parse cd (iq_ProductID item)) of
        (Some lineID, Some productID) \<Rightarrow>
          map_option (\<lambda>ls. \<lparr>ln_OrderLineID = lineID, ln_ProductID = productID, ln_Quantity = iq_Quantity item\<rparr> # ls)
            (lines_to_domain cd items)
      | _ \<Rightarrow> None)"

text \<open>Every failure is answered in the same way, so the result is an option.\<close>

definition requestToDomain :: "codec \<Rightarrow> commitRequest \<Rightarrow> CommitCommand option" where
  "requestToDomain cd wire =
     (case (cd_parse cd (wq_EventID wire), cd_parse cd (wq_OperationID wire), cd_parse cd (wq_OrderID wire),
            cd_parse_time cd (wq_OccurredAt wire), lines_to_domain cd (wq_Items wire)) of
        (Some eventID, Some operationID, Some orderID, Some occurredAt, Some lines) \<Rightarrow>
          let command = \<lparr>cc_SchemaVersion = wq_SchemaVersion wire, cc_EventID = eventID, cc_OperationID = operationID,
            cc_OrderID = orderID, cc_OccurredAt = occurredAt, cc_Lines = lines\<rparr> in
          if Validate_command command \<noteq> None then None else Some command
      | _ \<Rightarrow> None)"

definition status_text :: "ResultStatus \<Rightarrow> string" where
  "status_text s = (case s of StatusCommitted \<Rightarrow> ''COMMITTED'' | StatusItemsUnavailable \<Rightarrow> ''ITEMS_UNAVAILABLE'' | StatusOther t \<Rightarrow> t)"

definition resultFromDomain :: "codec \<Rightarrow> CommitResult \<Rightarrow> commitResponse" where
  "resultFromDomain cd r =
     \<lparr>cs_SchemaVersion = cr_SchemaVersion r, cs_EventID = cd_text cd (cr_EventID r),
      cs_OperationID = cd_text cd (cr_OperationID r), cs_OrderID = cd_text cd (cr_OrderID r),
      cs_Result = status_text (cr_Status r), cs_OccurredAt = cd_fmt cd (cr_OccurredAt r),
      cs_Items = map (\<lambda>item. \<lparr>ux_OrderLineID = cd_text cd (sh_OrderLineID item), ux_ProductID = cd_text cd (sh_ProductID item),
        ux_RequestedQuantity = sh_RequestedQuantity item, ux_AvailableQuantity = sh_AvailableQuantity item\<rparr>) (cr_UnavailableItems r)\<rparr>"

definition catalogFromDomain :: "codec \<Rightarrow> CatalogPage \<Rightarrow> catalogPageResponse" where
  "catalogFromDomain cd page =
     \<lparr>pp_Products = map (\<lambda>p. \<lparr>ps_ProductID = cd_text cd (cp_ProductID p), ps_Name = cp_Name p,
        ps_Description = cp_Description p, ps_PriceCentavos = cp_PriceCentavos p, ps_CategoryID = cd_text cd (cp_CategoryID p),
        ps_CategoryName = cp_CategoryName p, ps_Available = cp_Available p,
        ps_SourceUpdatedAt = cd_fmt cd (cp_SourceUpdatedAt p)\<rparr>) (pg_Products page),
      pp_NextAfterID = (if pg_NextAfterID page \<noteq> 0 then cd_text cd (pg_NextAfterID page) else [])\<rparr>"

section \<open>Handlers\<close>

record 'd stock_routes =
  rt_sha256 :: "string \<Rightarrow> 'd"
  rt_tokenDigest :: 'd

definition authorized :: "'d stock_routes \<Rightarrow> http_request \<Rightarrow> bool" where
  "authorized routes request =
     (case bearer (hq_authorization request) of
        None \<Rightarrow> False
      | Some presented \<Rightarrow> rt_tokenDigest routes = rt_sha256 routes presented)"

definition error_json :: "string \<Rightarrow> json" where
  "error_json code = JObj [(''code'', JStr code)]"

definition commit_route ::
    "'d stock_routes \<Rightarrow> codec \<Rightarrow> (canonicalCommand \<Rightarrow> string) \<Rightarrow> (nat \<Rightarrow> stock_env) \<Rightarrow> (nat \<Rightarrow> nat \<Rightarrow> reply) \<Rightarrow>
     (nat \<Rightarrow> stock_db \<Rightarrow> stock_db) \<Rightarrow> http_request \<Rightarrow> stock_db \<Rightarrow> (int \<times> json) \<times> stock_db" where
  "commit_route routes cd digest env replies meanwhile request db =
     (if \<not> authorized routes request then ((401, error_json ''UNAUTHORIZED''), db)
      else if hq_media request \<noteq> Some ''application/json'' then ((415, error_json ''CONTENT_TYPE_REQUIRED''), db)
      else case decode_body decode_commit_request request of
        Inl TooLarge \<Rightarrow> ((413, error_json ''REQUEST_TOO_LARGE''), db)
      | Inl Malformed \<Rightarrow> ((400, error_json ''INVALID_REQUEST''), db)
      | Inr wire \<Rightarrow>
          (case requestToDomain cd wire of
             None \<Rightarrow> ((400, error_json ''INVALID_REQUEST''), db)
           | Some command \<Rightarrow>
               (case Service_Commit cd digest env replies meanwhile command db of
                  (Inl OperationConflict, db') \<Rightarrow> ((409, error_json ''OPERATION_CONFLICT''), db')
                | (Inl StoreUnavailable, db') \<Rightarrow> ((503, error_json ''STORE_UNAVAILABLE''), db')
                | (Inl _, db') \<Rightarrow> ((500, error_json ''INTERNAL_ERROR''), db')
                | (Inr result, db') \<Rightarrow> ((200, response_json (resultFromDomain cd result)), db'))))"

text \<open>\<open>limit\<close> and \<open>after_id\<close> of the query; \<open>None\<close> stands for a value that does not parse.\<close>

definition catalog_query :: "codec \<Rightarrow> http_request \<Rightarrow> CatalogQuery option" where
  "catalog_query cd request =
     (let raw_limit = TrimSpace (hq_query request ''limit''); raw_after = TrimSpace (hq_query request ''after_id'') in
      case (if raw_limit = [] then Some 100 else Atoi raw_limit, if raw_after = [] then Some 0 else cd_parse cd raw_after) of
        (Some limit, Some afterID) \<Rightarrow> Some \<lparr>cq_Limit = limit, cq_AfterID = afterID\<rparr>
      | _ \<Rightarrow> None)"

definition products_route :: "'d stock_routes \<Rightarrow> codec \<Rightarrow> reply \<Rightarrow> http_request \<Rightarrow> stock_db \<Rightarrow> int \<times> json" where
  "products_route routes cd r request db =
     (if \<not> authorized routes request then (401, error_json ''UNAUTHORIZED'')
      else case catalog_query cd request of
        None \<Rightarrow> (400, error_json ''INVALID_REQUEST'')
      | Some query \<Rightarrow>
          (case Service_Catalog r db query of
             Inl InvalidCatalogQuery \<Rightarrow> (400, error_json ''INVALID_REQUEST'')
           | Inl _ \<Rightarrow> (503, error_json ''STORE_UNAVAILABLE'')
           | Inr page \<Rightarrow> (200, page_json (catalogFromDomain cd page))))"

end
