(* ===== verification/Inventory_Link.thy ===== *)
theory Inventory_Link
  imports Stock_Commit Stock_Transport Inventory_Wire
begin

text \<open>
  The two services connected: Ordering's HTTP committer (\<open>Inventory_Wire\<close>) talks to the handler of
  the inventory adapter (\<open>Stock_Transport\<close>) over a request and a response that arrive. Both use
  the same text forms of identifiers and times, so the codec is shared.
\<close>

section \<open>The connection\<close>

definition item_request_json :: "ItemRequest \<Rightarrow> json" where
  "item_request_json i = JObj [(''order_line_id'', JStr (wi_OrderLineID i)), (''product_id'', JStr (wi_ProductID i)),
     (''quantity'', JInt (wi_Quantity i))]"

definition request_json :: "CommitRequested \<Rightarrow> json" where
  "request_json r = JObj [(''schema_version'', JStr (wr_SchemaVersion r)), (''event_id'', JStr (wr_EventID r)),
     (''operation_id'', JStr (wr_OperationID r)), (''order_id'', JStr (wr_OrderID r)),
     (''occurred_at'', JStr (wr_OccurredAt r)), (''items'', JArr (map item_request_json (wr_Items r)))]"

text \<open>The headers and the body that \<open>Committer.Commit\<close> sends.\<close>

definition posted :: "string \<Rightarrow> CommitRequested \<Rightarrow> http_request" where
  "posted token wire = \<lparr>hq_authorization = ''Bearer '' @ token, hq_media = Some ''application/json'', hq_query = (\<lambda>_. []),
     hq_path = (\<lambda>_. []), hq_body = [Some (request_json wire)], hq_cut = False\<rparr>"

text \<open>\<open>bytes\<close> is the size of the encoded answer.\<close>

definition adapter_link ::
    "'d stock_routes \<Rightarrow> codec \<Rightarrow> (canonicalCommand \<Rightarrow> string) \<Rightarrow> (nat \<Rightarrow> stock_env) \<Rightarrow> (nat \<Rightarrow> nat \<Rightarrow> reply) \<Rightarrow>
     (nat \<Rightarrow> stock_db \<Rightarrow> stock_db) \<Rightarrow> string \<Rightarrow> (json \<Rightarrow> nat) \<Rightarrow> string \<Rightarrow> CommitRequested \<Rightarrow> stock_db \<Rightarrow> http_reply \<times> stock_db" where
  "adapter_link routes cd digest env replies meanwhile token bytes operationID wire db =
     (case commit_route routes cd digest env replies meanwhile (posted token wire) db of
        ((status, body), db') \<Rightarrow> (Response status (bytes body) [Some body], db'))"

text \<open>The work of an order as Ordering stores it, and the result as Ordering reads it.\<close>

definition work_of :: "codec \<Rightarrow> CommitCommand \<Rightarrow> InventoryCommit" where
  "work_of cd command =
     \<lparr>com_EventID = cd_text cd (cc_EventID command), com_OperationID = cd_text cd (cc_OperationID command),
      com_OrderID = cd_text cd (cc_OrderID command), com_OccurredAt = cc_OccurredAt command,
      com_Items = map (\<lambda>l. \<lparr>it_OrderLineID = cd_text cd (ln_OrderLineID l), it_ProductID = cd_text cd (ln_ProductID l),
        it_Quantity = ln_Quantity l\<rparr>) (cc_Lines command)\<rparr>"

definition order_item :: "codec \<Rightarrow> Shortage \<Rightarrow> UnavailableItem" where
  "order_item cd s = \<lparr>un_OrderLineID = cd_text cd (sh_OrderLineID s), un_ProductID = cd_text cd (sh_ProductID s),
     un_RequestedQuantity = sh_RequestedQuantity s, un_AvailableQuantity = sh_AvailableQuantity s\<rparr>"

definition order_result :: "codec \<Rightarrow> CommitResult \<Rightarrow> InventoryResult" where
  "order_result cd r =
     \<lparr>res_EventID = cd_text cd (cr_EventID r), res_OperationID = cd_text cd (cr_OperationID r),
      res_OrderID = cd_text cd (cr_OrderID r),
      res_Status = (if cr_Status r = StatusCommitted then InventoryCommitted else InventoryItemsUnavailable),
      res_OccurredAt = cr_OccurredAt r, res_UnavailableItems = map (order_item cd) (cr_UnavailableItems r)\<rparr>"

section \<open>The request arrives\<close>

lemmas wire_fields = find_field_def fold_name_ascii byte_def fold_rune_def

lemma read_item_request:
  "in64 (wi_Quantity i) \<Longrightarrow> decode_struct True item_request_fields zero_item_request (item_request_json i) =
     Some \<lparr>iq_OrderLineID = wi_OrderLineID i, iq_ProductID = wi_ProductID i, iq_Quantity = wi_Quantity i\<rparr>"
  by (simp add: item_request_fields_def zero_item_request_def item_request_json_def wire_fields)

definition as_read :: "CommitRequested \<Rightarrow> commitRequest" where
  "as_read r = \<lparr>wq_SchemaVersion = wr_SchemaVersion r, wq_EventID = wr_EventID r, wq_OperationID = wr_OperationID r,
     wq_OrderID = wr_OrderID r, wq_OccurredAt = wr_OccurredAt r,
     wq_Items = map (\<lambda>i. \<lparr>iq_OrderLineID = wi_OrderLineID i, iq_ProductID = wi_ProductID i, iq_Quantity = wi_Quantity i\<rparr>) (wr_Items r)\<rparr>"

lemma read_request:
  assumes "\<forall>i \<in> set (wr_Items r). in64 (wi_Quantity i)"
  shows "decode_commit_request (request_json r) = Some (as_read r)"
proof -
  have "list_field (decode_struct True item_request_fields zero_item_request) put (JArr (map item_request_json (wr_Items r))) acc =
      Some (put (map (\<lambda>i. \<lparr>iq_OrderLineID = wi_OrderLineID i, iq_ProductID = wi_ProductID i, iq_Quantity = wi_Quantity i\<rparr>) (wr_Items r)) acc)"
    for put :: "itemRequest list \<Rightarrow> commitRequest \<Rightarrow> commitRequest" and acc
    using assms by (intro list_field_map) (simp add: read_item_request)
  then show ?thesis
    by (simp add: decode_commit_request_def commit_request_fields_def zero_commit_request_def request_json_def as_read_def wire_fields)
qed

lemma lines_arrive:
  assumes "codec_ok cd"
  shows "lines_to_domain cd (map (\<lambda>l. \<lparr>iq_OrderLineID = cd_text cd (ln_OrderLineID l), iq_ProductID = cd_text cd (ln_ProductID l),
    iq_Quantity = ln_Quantity l\<rparr>) ls) = Some ls"
  using assms by (induction ls) (simp_all add: codec_ok_def)

lemma schema_versions: "SchemaVersion = StockSchemaVersion"
  by (simp add: SchemaVersion_def StockSchemaVersion_def)

lemma request_arrives:
  assumes "codec_ok cd" and "Validate_command command = None"
    and "cd_parse_time cd (cd_fmt cd (cc_OccurredAt command)) = Some (cc_OccurredAt command)"
  shows "decode_body decode_commit_request (posted token (commit_request (cd_fmt cd) (work_of cd command))) =
      Inr (as_read (commit_request (cd_fmt cd) (work_of cd command)))"
    and "requestToDomain cd (as_read (commit_request (cd_fmt cd) (work_of cd command))) = Some command"
proof -
  have q: "\<forall>l \<in> set (cc_Lines command). in64 (ln_Quantity l)"
    using assms(2) by (auto simp: Validate_command_None line_valid_def in64_def max_int64_def)
  then have "decode_commit_request (request_json (commit_request (cd_fmt cd) (work_of cd command))) =
      Some (as_read (commit_request (cd_fmt cd) (work_of cd command)))"
    by (intro read_request) (auto simp: commit_request_def work_of_def)
  then show "decode_body decode_commit_request (posted token (commit_request (cd_fmt cd) (work_of cd command))) =
      Inr (as_read (commit_request (cd_fmt cd) (work_of cd command)))"
    by (simp add: decode_body_Inr posted_def)
  have "cc_SchemaVersion command = SchemaVersion"
    using assms(2) by (simp add: Validate_command_None schema_versions)
  then have same: "\<lparr>cc_SchemaVersion = SchemaVersion, cc_EventID = cc_EventID command, cc_OperationID = cc_OperationID command,
      cc_OrderID = cc_OrderID command, cc_OccurredAt = cc_OccurredAt command, cc_Lines = cc_Lines command\<rparr> = command"
    by (cases command) simp
  have "lines_to_domain cd (wq_Items (as_read (commit_request (cd_fmt cd) (work_of cd command)))) = Some (cc_Lines command)"
    using lines_arrive [OF assms(1), of "cc_Lines command"] by (simp add: as_read_def commit_request_def work_of_def comp_def)
  then show "requestToDomain cd (as_read (commit_request (cd_fmt cd) (work_of cd command))) = Some command"
    using assms same by (simp add: requestToDomain_def codec_ok_def as_read_def commit_request_def work_of_def Let_def)
qed

section \<open>The answer arrives\<close>

definition matches_request :: "CommitCommand \<Rightarrow> CommitResult \<Rightarrow> bool" where
  "matches_request command r \<longleftrightarrow> cr_OperationID r = cc_OperationID command \<and> cr_OrderID r = cc_OrderID command \<and>
     (\<forall>s \<in> set (cr_UnavailableItems r). \<exists>l \<in> set (cc_Lines command). ln_OrderLineID l = sh_OrderLineID s \<and>
        ln_ProductID l = sh_ProductID s \<and> ln_Quantity l = sh_RequestedQuantity s \<and> in64 (sh_AvailableQuantity s))"

lemma read_envelope:
  "Unmarshal decode_envelope [Some (response_json r)] = Some (cs_Result r)"
  by (simp add: Unmarshal_def decode_envelope_def response_json_def wire_fields)

lemma read_committed:
  "cs_Items r = [] \<Longrightarrow> DecodeStrict decode_committed [Some (response_json r)] =
     Some \<lparr>wc_SchemaVersion = cs_SchemaVersion r, wc_EventID = cs_EventID r, wc_OperationID = cs_OperationID r,
       wc_OrderID = cs_OrderID r, wc_Result = cs_Result r, wc_OccurredAt = cs_OccurredAt r\<rparr>"
  by (simp add: DecodeStrict_def decode_committed_def committed_fields_def zero_committed_def response_json_def wire_fields)

lemma read_item:
  "in64 (ux_RequestedQuantity x) \<Longrightarrow> in64 (ux_AvailableQuantity x) \<Longrightarrow>
   decode_struct True wire_item_fields zero_wire_item (unavailable_json x) =
     Some \<lparr>wu_OrderLineID = ux_OrderLineID x, wu_ProductID = ux_ProductID x, wu_RequestedQuantity = ux_RequestedQuantity x,
       wu_AvailableQuantity = ux_AvailableQuantity x\<rparr>"
  by (simp add: wire_item_fields_def zero_wire_item_def unavailable_json_def wire_fields)

lemma read_unavailable:
  assumes "\<forall>x \<in> set (cs_Items r). in64 (ux_RequestedQuantity x) \<and> in64 (ux_AvailableQuantity x)" and "cs_Items r \<noteq> []"
  shows "DecodeStrict decode_unavailable [Some (response_json r)] =
     Some \<lparr>wx_SchemaVersion = cs_SchemaVersion r, wx_EventID = cs_EventID r, wx_OperationID = cs_OperationID r,
       wx_OrderID = cs_OrderID r, wx_Result = cs_Result r, wx_OccurredAt = cs_OccurredAt r,
       wx_Items = map (\<lambda>x. \<lparr>wu_OrderLineID = ux_OrderLineID x, wu_ProductID = ux_ProductID x,
         wu_RequestedQuantity = ux_RequestedQuantity x, wu_AvailableQuantity = ux_AvailableQuantity x\<rparr>) (cs_Items r)\<rparr>"
proof -
  have "list_field (decode_struct True wire_item_fields zero_wire_item) put (JArr (map unavailable_json (cs_Items r))) acc =
      Some (put (map (\<lambda>x. \<lparr>wu_OrderLineID = ux_OrderLineID x, wu_ProductID = ux_ProductID x,
         wu_RequestedQuantity = ux_RequestedQuantity x, wu_AvailableQuantity = ux_AvailableQuantity x\<rparr>) (cs_Items r)) acc)"
    for put :: "WireUnavailableItem list \<Rightarrow> ItemsUnavailable \<Rightarrow> ItemsUnavailable" and acc
    using assms(1) by (intro list_field_map) (simp add: read_item)
  then show ?thesis
    using assms(2) by (simp add: DecodeStrict_def decode_unavailable_def unavailable_fields_def zero_unavailable_def response_json_def wire_fields)
qed

text \<open>The committer indexes the lines by their identifiers, which are distinct.\<close>

lemma index_items_snoc: "index_items (items @ [i]) = (index_items items)(it_OrderLineID i \<mapsto> i)"
  by (simp add: index_items_def)

lemma index_items_member:
  "distinct (map it_OrderLineID items) \<Longrightarrow> i \<in> set items \<Longrightarrow> index_items items (it_OrderLineID i) = Some i"
proof (induction items rule: rev_induct)
  case (snoc x xs)
  then show ?case by (cases "i = x") (auto simp: index_items_snoc image_iff)
qed simp

lemma check_unavailable_holds:
  assumes "distinct (map it_OrderLineID items)"
    and "\<forall>u \<in> set us. 0 \<le> un_AvailableQuantity u \<and> (\<exists>i \<in> set items. it_OrderLineID i = un_OrderLineID u \<and>
       it_ProductID i = un_ProductID u \<and> it_Quantity i = un_RequestedQuantity u)"
    and "distinct (map un_OrderLineID us)" and "un_OrderLineID ` set us \<inter> seen = {}"
  shows "check_unavailable (index_items items) seen us"
  using assms(2-4)
proof (induction us arbitrary: seen)
  case (Cons u us)
  then obtain i where i: "i \<in> set items" "it_OrderLineID i = un_OrderLineID u" "it_ProductID i = un_ProductID u"
    "it_Quantity i = un_RequestedQuantity u" by auto
  from index_items_member [OF assms(1) i(1)] i have "index_items items (un_OrderLineID u) = Some i" by simp
  moreover have "check_unavailable (index_items items) (insert (un_OrderLineID u) seen) us"
    using Cons.prems by (intro Cons.IH) auto
  ultimately show ?case using i Cons.prems by auto
qed simp

lemma work_items:
  assumes "codec_ok cd" and "Validate_command command = None"
  shows "distinct (map it_OrderLineID (com_Items (work_of cd command)))"
  using assms codec_ok_inj [OF assms(1)]
  by (auto simp: work_of_def Validate_command_None distinct_map inj_on_def dest: injD)

lemma answer_arrives:
  assumes "codec_ok cd" and "Validate_command command = None" and "Validate_result r = None" and "matches_request command r"
    and "cd_parse_time cd (cd_fmt cd (cr_OccurredAt r)) = Some (cr_OccurredAt r)"
  shows "decodeResult (cd_parse cd) (cd_parse_time cd) [Some (response_json (resultFromDomain cd r))] (work_of cd command) =
    Inr (order_result cd r)"
proof -
  let ?wire = "resultFromDomain cd r" and ?us = "map (order_item cd) (cr_UnavailableItems r)"
  have valid: "cr_SchemaVersion r = SchemaVersion" "(cr_Status r = StatusCommitted \<and> cr_UnavailableItems r = []) \<or>
      (cr_Status r = StatusItemsUnavailable \<and> cr_UnavailableItems r \<noteq> [] \<and> validate_shortages {} (cr_UnavailableItems r) = None)"
    using assms(3) by (auto simp: Validate_result_def schema_versions split: ResultStatus.splits if_splits)
  have ids: "cd_text cd (cr_OperationID r) = com_OperationID (work_of cd command)" "cd_text cd (cr_OrderID r) = com_OrderID (work_of cd command)"
    using assms(4) by (simp_all add: matches_request_def work_of_def)
  have parse: "cd_parse cd (cd_text cd u) = Some u" for u using assms(1) by (simp add: codec_ok_def)
  from valid(2) show ?thesis
  proof
    assume c: "cr_Status r = StatusCommitted \<and> cr_UnavailableItems r = []"
    then show ?thesis
      using read_committed [of ?wire] valid(1) ids parse assms(5)
      by (simp add: decodeResult_def read_envelope resultFromDomain_def status_text_def result_status_def validateResult_def order_result_def)
  next
    assume u: "cr_Status r = StatusItemsUnavailable \<and> cr_UnavailableItems r \<noteq> [] \<and> validate_shortages {} (cr_UnavailableItems r) = None"
    have inj: "inj (cd_text cd)" by (rule codec_ok_inj [OF assms(1)])
    have lines: "\<forall>l \<in> set (cc_Lines command). in64 (ln_Quantity l)"
      using assms(2) by (auto simp: Validate_command_None line_valid_def in64_def max_int64_def)
    have items: "\<forall>s \<in> set (cr_UnavailableItems r). 0 \<le> sh_AvailableQuantity s \<and> in64 (sh_AvailableQuantity s) \<and>
        in64 (sh_RequestedQuantity s) \<and> (\<exists>l \<in> set (cc_Lines command). ln_OrderLineID l = sh_OrderLineID s \<and>
        ln_ProductID l = sh_ProductID s \<and> ln_Quantity l = sh_RequestedQuantity s)"
      using u assms(4) lines unfolding matches_request_def validate_shortages_None shortage_valid_def by metis
    have "check_unavailable (index_items (com_Items (work_of cd command))) {} ?us"
    proof (rule check_unavailable_holds [OF work_items [OF assms(1,2)]])
      show "distinct (map un_OrderLineID ?us)"
        using u inj by (auto simp: validate_shortages_None order_item_def comp_def distinct_map inj_on_def dest: injD)
      have "\<exists>i \<in> set (com_Items (work_of cd command)). it_OrderLineID i = cd_text cd (sh_OrderLineID s) \<and>
          it_ProductID i = cd_text cd (sh_ProductID s) \<and> it_Quantity i = sh_RequestedQuantity s"
        if "s \<in> set (cr_UnavailableItems r)" for s
        using bspec [OF items that] by (force simp: work_of_def)
      then show "\<forall>u \<in> set ?us. 0 \<le> un_AvailableQuantity u \<and> (\<exists>i \<in> set (com_Items (work_of cd command)).
          it_OrderLineID i = un_OrderLineID u \<and> it_ProductID i = un_ProductID u \<and> it_Quantity i = un_RequestedQuantity u)"
        using items by (simp add: order_item_def)
    qed simp
    moreover have "\<forall>x \<in> set (cs_Items ?wire). in64 (ux_RequestedQuantity x) \<and> in64 (ux_AvailableQuantity x)"
      using items by (auto simp: resultFromDomain_def)
    ultimately show ?thesis
      using read_unavailable [of ?wire] u valid(1) ids parse assms(5)
      by (simp add: decodeResult_def read_envelope resultFromDomain_def status_text_def result_status_def validateResult_def order_result_def
          order_item_def [abs_def] unavailable_of_wire_def comp_def)
  qed
qed

end
