(* ===== verification/Stock_Samples.thy ===== *)
theory Stock_Samples
  imports Stock_Commit
begin

text \<open>
  A small state of the point of sale and one request, at which the properties of the inventory
  adapter apply: a product held in stock, a bundle of two of it, an untracked product.
\<close>

definition sample_codec :: codec where
  "sample_codec = \<lparr>cd_text = (\<lambda>u. replicate (unat u) CHR ''x''), cd_parse = (\<lambda>s. Some (of_nat (length s))),
     cd_fmt = (\<lambda>t. replicate (nat t) CHR ''x''), cd_parse_time = (\<lambda>s. Some (int (length s)))\<rparr>"

definition sample_run :: stock_env where
  "sample_run = \<lparr>se_ids = (\<lambda>k. of_nat (100 + k)), se_now = 7, se_actor = 9, se_parts = (\<lambda>xs. xs),
     se_demands = (\<lambda>xs. xs), se_lines = (\<lambda>xs. xs)\<rparr>"

text \<open>The same run with every map ranged over backwards.\<close>

definition reversed_run :: stock_env where
  "reversed_run = sample_run\<lparr>se_parts := rev, se_demands := rev, se_lines := rev\<rparr>"

definition sample_item :: "uuid \<Rightarrow> int \<Rightarrow> bool \<Rightarrow> bool \<Rightarrow> item_row" where
  "sample_item x stock tracks composite = \<lparr>im_id = x, im_name = ''product'', im_description = None, im_price = 100,
     im_stock = stock, im_active = True, im_tracks = tracks, im_composite = composite, im_category = 50,
     im_created = 1, im_updated = None\<rparr>"

definition sample_stock :: stock_db where
  "sample_stock = \<lparr>sd_items = [sample_item 1 5 True False, sample_item 2 0 True True, sample_item 3 0 False False],
     sd_categories = [\<lparr>ct_id = 50, ct_name = ''coffee''\<rparr>],
     sd_components = [\<lparr>co_parent = 2, co_component = 1, co_quantity = 2000\<rparr>],
     sd_movements = [], sd_receipts = []\<rparr>"

definition sample_request :: "int \<Rightarrow> CommitCommand" where
  "sample_request n = \<lparr>cc_SchemaVersion = ''1.0'', cc_EventID = 21, cc_OperationID = 22, cc_OrderID = 23, cc_OccurredAt = 6,
     cc_Lines = [\<lparr>ln_OrderLineID = 12, ln_ProductID = 1, ln_Quantity = n\<rparr>,
       \<lparr>ln_OrderLineID = 11, ln_ProductID = 2, ln_Quantity = 1\<rparr>,
       \<lparr>ln_OrderLineID = 13, ln_ProductID = 3, ln_Quantity = 1\<rparr>]\<rparr>"

definition stock_digest :: string where
  "stock_digest = replicate 64 CHR ''a''"

lemmas stock_samples = sample_codec_def sample_run_def reversed_run_def sample_item_def sample_stock_def sample_request_def
  stock_digest_def

lemma sample_codec_ok: "codec_ok sample_codec"
  by (simp add: codec_ok_def sample_codec_def)

lemma sample_arranges: "arranges sample_run" "arranges reversed_run"
  by (simp_all add: arranges_def sample_run_def reversed_run_def)

lemma sample_valid: "n \<in> {1..100} \<Longrightarrow> Validate_command (sample_request n) = None"
  by (simp add: Validate_command_None sample_request_def StockSchemaVersion_def line_valid_def)

lemma sample_wf: "stock_wf sample_stock" "parts_fit sample_stock"
  by (simp_all add: stock_wf_def parts_fit_def sample_stock_def sample_item_def)

lemma sample_fresh: "fresh_run sample_run (sample_request n) sample_stock" "fresh_run reversed_run (sample_request n) sample_stock"
proof -
  have "inj_on (\<lambda>k. of_nat (100 + k) :: uuid) {..Suc (Suc (Suc 0))}"
    by (rule inj_onI) (auto simp: word_of_nat_eq_iff take_bit_nat_eq_self)
  then show "fresh_run sample_run (sample_request n) sample_stock" "fresh_run reversed_run (sample_request n) sample_stock"
    by (simp_all add: fresh_run_def sample_run_def reversed_run_def sample_stock_def)
qed

lemma sample_shape: "digest_shape stock_digest"
  by code_simp

definition sample_committed :: CommitResult where
  "sample_committed = \<lparr>cr_SchemaVersion = ''1.0'', cr_EventID = 100, cr_OperationID = 22, cr_OrderID = 23,
     cr_Status = StatusCommitted, cr_OccurredAt = 7, cr_UnavailableItems = []\<rparr>"

text \<open>The stored state of the request for two.\<close>

definition sample_receipt :: receipt_row where
  "sample_receipt = receipt_of sample_codec (sample_request 2) stock_digest sample_committed"

definition stock_after :: stock_db where
  "stock_after = sample_stock\<lparr>
     sd_items := [(sample_item 1 1 True False)\<lparr>im_updated := Some 7\<rparr>, sample_item 2 0 True True, sample_item 3 0 False False],
     sd_movements := [movement_for sample_codec sample_run (sample_request 2) 1 1 4],
     sd_receipts := [sample_receipt]\<rparr>"

lemma stock_commit_run:
  "commitOnce sample_codec sample_run (\<lambda>_. Done) (sample_request 2) stock_digest sample_stock = (Inr sample_committed, stock_after)"
  by code_simp

lemma sample_clock: "cd_parse_time sample_codec (cd_fmt sample_codec (se_now sample_run)) = Some (se_now sample_run)"
  "se_ids sample_run 0 \<noteq> 0" "se_now sample_run \<noteq> 0"
  by (simp_all add: sample_codec_def sample_run_def)

lemma sample_none: "found_receipt sample_stock x = None"
  by (simp add: found_receipt_def sample_stock_def)

lemma sample_items: "distinct (map im_id (sd_items sample_stock))"
  using sample_wf(1) by (simp add: stock_wf_def)

lemma sample_valid_2: "Validate_command (sample_request 2) = None"
  by (rule sample_valid) simp

lemma sample_inj: "inj (cd_text sample_codec)"
  by (rule codec_ok_inj [OF sample_codec_ok])

theorem commit_decides_by_stock_witness:
  "cr_Status sample_committed = StatusCommitted \<and>
    list_all (served sample_stock (cc_Lines (sample_request 2))) (cc_Lines (sample_request 2)) \<and>
    Validate_result sample_committed = None"
  using commit_decides_by_stock [OF stock_commit_run sample_items sample_none sample_valid_2 sample_arranges(1) sample_inj
      sample_clock(2,3)]
  by (simp add: list_all_iff sample_committed_def)

theorem commit_refines_reservation_witness:
  "stock_at stock_after = reserve sample_stock (cc_Lines (sample_request 2)) (stock_at sample_stock) \<and>
    stock_at stock_after 1 = 1"
proof -
  have "stock_at stock_after 1 = 1"
    by (simp add: stock_at_def item_at_def stock_after_def sample_item_def state_of_row_def)
  with commit_refines_reservation [OF stock_commit_run sample_items sample_none sample_valid_2 sample_arranges(1) sample_inj]
  show ?thesis by blast
qed

lemma sample_attempts: "attempts sample_codec sample_stock stock_after"
  by (rule attempts.attempt [OF attempts.none stock_commit_run])

theorem stock_ledger_witness:
  "stock_at stock_after 1 - net_movement stock_after 1 = 5 \<and> stock_wf stock_after"
proof -
  have "stock_at sample_stock 1 = 5" "net_movement sample_stock 1 = 0"
    by (simp_all add: stock_at_def item_at_def net_movement_def sample_stock_def sample_item_def state_of_row_def)
  with stock_ledger [OF sample_attempts sample_wf(1)] show ?thesis by simp
qed

definition sample_short :: CommitResult where
  "sample_short = \<lparr>cr_SchemaVersion = ''1.0'', cr_EventID = 100, cr_OperationID = 22, cr_OrderID = 23,
     cr_Status = StatusItemsUnavailable, cr_OccurredAt = 7, cr_UnavailableItems =
       [\<lparr>sh_OrderLineID = 11, sh_ProductID = 2, sh_RequestedQuantity = 1, sh_AvailableQuantity = 0\<rparr>,
        \<lparr>sh_OrderLineID = 12, sh_ProductID = 1, sh_RequestedQuantity = 4, sh_AvailableQuantity = 5\<rparr>]\<rparr>"

theorem receipt_roundtrip_witness:
  "decodeReceiptResult sample_codec (resultToReceipt sample_codec sample_short) = Some sample_short"
  by (rule receipt_roundtrip [OF sample_codec_ok])
    (simp_all add: sample_codec_def sample_short_def Validate_result_def StockSchemaVersion_def)

theorem decided_once_witness:
  "commitOnce sample_codec reversed_run (\<lambda>_. Done) (sample_request 2) stock_digest stock_after =
    (Inr sample_committed, stock_after)"
proof -
  let ?again = "commitOnce sample_codec reversed_run (\<lambda>_. Done) (sample_request 2) stock_digest stock_after"
  have "?again = (fst ?again, snd ?again)" by simp
  from decided_once [OF stock_commit_run sample_wf(1) sample_codec_ok sample_valid_2 sample_arranges(1) sample_clock(2,3,1)
      attempts.none refl this]
  show ?thesis by (metis prod.collapse)
qed

text \<open>A first attempt that meets a serialization failure, then undisturbed ones.\<close>

definition second_time :: "nat \<Rightarrow> nat \<Rightarrow> reply" where
  "second_time k = (if k = 0 then (\<lambda>_. Refused Serialization) else (\<lambda>_. Done))"

lemma first_fails:
  "try_state sample_codec (\<lambda>_. sample_run) second_time (\<lambda>_ db. db) (sample_request 2) stock_digest 0 sample_stock 0 =
    (Inl (Pg Serialization), sample_stock)"
  by (simp add: second_time_def commitOnce_def ask_def)

lemma before_second:
  "before_try sample_codec (\<lambda>_. sample_run) second_time (\<lambda>_ db. db) (sample_request 2) stock_digest sample_stock 1 = sample_stock"
  using first_fails by (simp add: before_try_def del: try_state.simps)

lemma second_succeeds:
  "try_state sample_codec (\<lambda>_. sample_run) second_time (\<lambda>_ db. db) (sample_request 2) stock_digest 0 sample_stock 1 =
    (Inr sample_committed, stock_after)"
  unfolding try_state_before before_second by (simp add: second_time_def stock_commit_run)

theorem commit_makes_three_tries_witness:
  "Commit_store sample_codec (\<lambda>_. sample_run) second_time (\<lambda>_ db. db) (sample_request 2) stock_digest sample_stock =
    (Inr sample_committed, stock_after)"
  using conjunct1 [OF commit_makes_three_tries [of sample_codec "\<lambda>_. sample_run" second_time "\<lambda>_ db. db" "sample_request 2"
      stock_digest sample_stock], THEN spec, of 1] first_fails second_succeeds
  by (simp add: last_try_def isSerializationFailure_def verdict_def del: try_state.simps)

theorem commit_completes_witness:
  "\<exists>result db'. Commit_store sample_codec (\<lambda>_. sample_run) second_time (\<lambda>_ db. db) (sample_request 2) stock_digest
      sample_stock = (Inr result, db') \<and>
    (cr_Status result = StatusCommitted \<longleftrightarrow> refused sample_stock (cc_Lines (sample_request 2)) = [])"
  using commit_completes [of 1 sample_codec "\<lambda>_. sample_run" second_time "\<lambda>_ db. db" "sample_request 2" stock_digest
      sample_stock, unfolded before_second] first_fails sample_wf sample_fresh(1) sample_arranges(1) sample_codec_ok
      sample_valid_2 sample_shape
  by (simp add: last_try_def isSerializationFailure_def second_time_def del: try_state.simps)

theorem commit_ignores_map_order_witness:
  "commitOnce sample_codec reversed_run (\<lambda>_. Done) (sample_request 2) stock_digest sample_stock =
    (Inr sample_committed, stock_after)"
proof -
  obtain result db' where run: "commitOnce sample_codec reversed_run (\<lambda>_. Done) (sample_request 2) stock_digest sample_stock =
      (Inr result, db')"
    using undisturbed_attempt [OF sample_wf(2,1) sample_arranges(2) sample_codec_ok sample_valid_2 sample_shape sample_fresh(2)]
    by blast
  have "same_run sample_run reversed_run" by (simp add: same_run_def reversed_run_def)
  from commit_ignores_map_order [OF stock_commit_run run this sample_arranges sample_wf(1) sample_inj sample_valid_2] run
  show ?thesis by simp
qed

definition time_text :: "int \<Rightarrow> string" where
  "time_text t = (if 0 \<le> t then replicate (nat t) CHR ''x'' else CHR ''-'' # replicate (nat (- t)) CHR ''x'')"

lemma inj_time_text: "inj time_text"
proof (rule injI)
  fix s t assume e: "time_text s = time_text t"
  show "s = t"
  proof (cases "0 \<le> s \<longleftrightarrow> 0 \<le> t")
    case True
    with arg_cong [OF e, of length] show ?thesis by (auto simp: time_text_def split: if_splits)
  next
    case False
    with arg_cong [OF e, of hd] arg_cong [OF e, of length] show ?thesis
      by (cases "nat s"; cases "nat t") (auto simp: time_text_def split: if_splits)
  qed
qed

definition backwards :: CommitCommand where
  "backwards = sample_request 2\<lparr>cc_Lines := rev (cc_Lines (sample_request 2))\<rparr>"

theorem fingerprint_identifies_request_witness:
  "mset (cc_Lines (sample_request 2)) = mset (cc_Lines backwards)"
proof -
  let ?digest = "\<lambda>c. ca_OccurredAt c"
  have v: "Validate_command backwards = None"
    by (simp add: backwards_def Validate_command_None sample_request_def StockSchemaVersion_def line_valid_def)
  have fp: "Fingerprint (cd_text sample_codec) time_text ?digest (sample_request 2) = Inr (time_text 6)"
    "Fingerprint (cd_text sample_codec) time_text ?digest backwards = Inr (time_text 6)"
    using sample_valid_2 v by (simp_all add: Fingerprint_def canonical_def backwards_def sample_request_def)
  have "canonical (cd_text sample_codec) time_text (sample_request 2) = canonical (cd_text sample_codec) time_text backwards"
    by code_simp
  then show ?thesis using fingerprint_identifies_request [OF fp sample_inj inj_time_text] by blast
qed

end
