(* ===== verification/Inventory_Agreement.thy ===== *)
theory Inventory_Agreement
  imports Inventory_Link Stock_Samples
begin

text \<open>
  The services agree on their contract: whatever the adapter decides about an order, Ordering reads
  as just that decision. A stored result that is sent again answers the request for which it was
  made, since every receipt comes from a commit of the service.
\<close>

section \<open>Where receipts come from\<close>

text \<open>The stock of an item is a 64-bit column.\<close>

definition stock_typed :: "stock_db \<Rightarrow> bool" where
  "stock_typed db \<longleftrightarrow> (\<forall>i \<in> set (sd_items db). in64 (im_stock i))"

definition time_ok :: "codec \<Rightarrow> int \<Rightarrow> bool" where
  "time_ok cd t \<longleftrightarrow> cd_parse_time cd (cd_fmt cd t) = Some t"

definition fingerprint_of :: "codec \<Rightarrow> (canonicalCommand \<Rightarrow> string) \<Rightarrow> CommitCommand \<Rightarrow> string" where
  "fingerprint_of cd digest command = digest (canonical (cd_text cd) (cd_fmt cd) command)"

text \<open>
  What can happen to the tables: attempts of the service, by any number of processes, and anything
  the point of sale does, which writes no receipts.
\<close>

inductive adapters :: "codec \<Rightarrow> (canonicalCommand \<Rightarrow> string) \<Rightarrow> stock_db \<Rightarrow> stock_db \<Rightarrow> bool" for cd digest db0 where
  start: "sd_receipts db0 = [] \<Longrightarrow> stock_wf db0 \<Longrightarrow> adapters cd digest db0 db0"
| commits: "adapters cd digest db0 db \<Longrightarrow> Validate_command command = None \<Longrightarrow> arranges env \<Longrightarrow> time_ok cd (se_now env) \<Longrightarrow>
    stock_typed db \<Longrightarrow> commitOnce cd env replies command (fingerprint_of cd digest command) db = (res, db') \<Longrightarrow>
    adapters cd digest db0 db'"
| sells: "adapters cd digest db0 db \<Longrightarrow> sd_receipts db' = sd_receipts db \<Longrightarrow> stock_wf db' \<Longrightarrow> adapters cd digest db0 db'"

definition answer_ok :: "codec \<Rightarrow> CommitCommand \<Rightarrow> CommitResult \<Rightarrow> bool" where
  "answer_ok cd command r \<longleftrightarrow> matches_request command r \<and> time_ok cd (cr_OccurredAt r)"

text \<open>Every receipt for this request holds an answer to it.\<close>

definition genuine_receipts :: "codec \<Rightarrow> (canonicalCommand \<Rightarrow> string) \<Rightarrow> CommitCommand \<Rightarrow> stock_db \<Rightarrow> bool" where
  "genuine_receipts cd digest command db \<longleftrightarrow>
     (\<forall>row \<in> set (sd_receipts db). rc_operation_id row = cc_OperationID command \<and>
        rc_fingerprint row = fingerprint_of cd digest command \<longrightarrow>
        (\<forall>r. decodeReceiptResult cd (rc_result row) = Some r \<longrightarrow> answer_ok cd command r))"

text \<open>No other request has the same fingerprint.\<close>

definition no_collision :: "codec \<Rightarrow> (canonicalCommand \<Rightarrow> string) \<Rightarrow> CommitCommand \<Rightarrow> bool" where
  "no_collision cd digest command \<longleftrightarrow>
     (\<forall>other. Validate_command other = None \<and> fingerprint_of cd digest other = fingerprint_of cd digest command \<longrightarrow>
        canonical (cd_text cd) (cd_fmt cd) other = canonical (cd_text cd) (cd_fmt cd) command)"

lemma canonical_matches:
  assumes "canonical text fmt other = canonical text fmt command" and "matches_request other r"
  shows "matches_request command r"
proof -
  let ?tuple = "\<lambda>line. (ln_OrderLineID line, ln_ProductID line, ln_Quantity line)"
  have "set (ca_Lines (canonical text fmt c)) = ?tuple ` set (cc_Lines c)" for c
    by (simp add: canonical_def)
  with assms(1) have lines: "?tuple ` set (cc_Lines other) = ?tuple ` set (cc_Lines command)" by metis
  have ids: "cc_OperationID other = cc_OperationID command" "cc_OrderID other = cc_OrderID command"
    using assms(1) by (simp_all add: canonical_def)
  have "\<exists>m \<in> set (cc_Lines command). ?tuple m = ?tuple l" if "l \<in> set (cc_Lines other)" for l
    using that lines by (metis (no_types, lifting) imageE imageI)
  then show ?thesis
    using assms(2) ids unfolding matches_request_def by (metis (no_types, lifting) prod.inject)
qed

section \<open>A new answer\<close>

lemma stock_at_in64: "stock_typed db \<Longrightarrow> in64 (stock_at db x)"
  by (auto simp: stock_at_def item_at_def stock_typed_def state_of_row_def in64_def max_int64_def find_Some_iff
      split: option.splits)

lemma plan_answers:
  assumes "plan_of env db (cc_Lines command) = Some p0" and "arranges env" and "inj (cd_text cd)"
    and "Validate_command command = None" and "stock_typed db"
  shows "matches_request command (result_of_plan cd env command (verdict_plan env db command p0))"
proof -
  have "in64 (sh_AvailableQuantity (refusal db l))" for l
    using stock_at_in64 [OF assms(5)] by (simp add: refusal_def unavailableFor_def shown_def in64_def max_int64_def)
  then show ?thesis
    using verdict_result(2) [OF assms(1-4)]
    by (auto simp: matches_request_def refused_def result_of_plan_def refusal_def unavailableFor_def)
qed

lemma decode_stored:
  assumes "codec_ok cd" and "time_ok cd (cr_OccurredAt result)" and "decodeReceiptResult cd (resultToReceipt cd result) = Some r"
  shows "r = result"
proof -
  obtain v e opid oid st t items where "result = \<lparr>cr_SchemaVersion = v, cr_EventID = e,
      cr_OperationID = opid, cr_OrderID = oid, cr_Status = st, cr_OccurredAt = t, cr_UnavailableItems = items\<rparr>"
    by (cases result)
  moreover have "\<forall>u. cd_parse cd (cd_text cd u) = Some u" using assms(1) by (simp add: codec_ok_def)
  ultimately show ?thesis
    using assms(2,3) decode_items_text [OF assms(1), of items]
    by (simp add: decodeReceiptResult_def resultToReceipt_def Let_def time_ok_def split: if_splits)
qed

lemma committed_genuine:
  assumes "committable cd env other (fingerprint_of cd digest other) p0 db" and "genuine_receipts cd digest command db"
    and "codec_ok cd" and "arranges env" and "time_ok cd (se_now env)" and "Validate_command other = None" and "stock_typed db"
    and "no_collision cd digest command"
  shows "genuine_receipts cd digest command (committed_db cd env other (fingerprint_of cd digest other) p0 db)"
proof -
  let ?r = "result_of_plan cd env other (verdict_plan env db other p0)"
  have plan: "plan_of env db (cc_Lines other) = Some p0" using assms(1) by (simp add: committable_def)
  have t: "time_ok cd (cr_OccurredAt ?r)" using assms(5) by (simp add: result_of_plan_def)
  have "answer_ok cd command r"
    if fp: "fingerprint_of cd digest other = fingerprint_of cd digest command"
      and r: "decodeReceiptResult cd (resultToReceipt cd ?r) = Some r" for r
  proof -
    have "canonical (cd_text cd) (cd_fmt cd) other = canonical (cd_text cd) (cd_fmt cd) command"
      using assms(6,8) fp by (auto simp: no_collision_def)
    moreover have "matches_request other ?r"
      by (rule plan_answers [OF plan assms(4) codec_ok_inj [OF assms(3)] assms(6,7)])
    ultimately show ?thesis
      unfolding decode_stored [OF assms(3) t r] answer_ok_def using t by (auto intro: canonical_matches)
  qed
  then show ?thesis
    using assms(2) by (auto simp: genuine_receipts_def committed_db_def Let_def receipt_of_def)
qed

lemma adapters_wf: "adapters cd digest db0 db \<Longrightarrow> stock_wf db"
  by (induction rule: adapters.induct) (auto dest: attempt_step)

lemma adapters_genuine:
  assumes "adapters cd digest db0 db" and "codec_ok cd" and "no_collision cd digest command"
  shows "genuine_receipts cd digest command db"
  using assms
proof (induction rule: adapters.induct)
  case (commits db other env replies res db')
  have "distinct (map im_id (sd_items db))"
    using adapters_wf [OF commits.hyps(1)] by (simp add: stock_wf_def)
  from commitOnce_effect [OF commits.hyps(6) this] show ?case
    using commits committed_genuine by blast
qed (simp_all add: genuine_receipts_def)

lemma commit_answers:
  assumes "commitOnce cd env replies command (fingerprint_of cd digest command) db = (Inr r, db')"
    and "adapters cd digest db0 db" and "codec_ok cd" and "no_collision cd digest command"
    and "arranges env" and "time_ok cd (se_now env)" and "Validate_command command = None" and "stock_typed db"
  shows "answer_ok cd command r"
proof -
  have "distinct (map im_id (sd_items db))" using adapters_wf [OF assms(2)] by (simp add: stock_wf_def)
  from commitOnce_effect [OF assms(1) this] consider
      row where "found_receipt db (cc_OperationID command) = Some row" "rc_fingerprint row = fingerprint_of cd digest command"
        "decodeReceiptResult cd (rc_result row) = Some r"
    | p0 where "plan_of env db (cc_Lines command) = Some p0" "r = result_of_plan cd env command (verdict_plan env db command p0)"
    by (auto simp: committable_def)
  then show ?thesis
  proof cases
    case 1
    then have "row \<in> set (sd_receipts db)" "rc_operation_id row = cc_OperationID command"
      by (auto simp: found_receipt_def find_Some_iff)
    with 1 adapters_genuine [OF assms(2-4)] show ?thesis unfolding genuine_receipts_def by blast
  next
    case 2
    with plan_answers [OF 2(1) assms(5) codec_ok_inj [OF assms(3)] assms(7,8)] assms(6)
    show ?thesis by (simp add: answer_ok_def result_of_plan_def)
  qed
qed

lemma commit_tries_result:
  assumes "commit_tries cd n k env replies meanwhile command fp db = (Inr r, db')"
  shows "\<exists>j < n. fst (try_state cd env replies meanwhile command fp k db j) = Inr r"
  using assms
proof (induction n arbitrary: k db)
  case (Suc n)
  obtain res db1 where one: "commitOnce cd (env k) (replies k) command fp (meanwhile k db) = (res, db1)" by fastforce
  show ?case
  proof (cases res)
    case (Inl e)
    with Suc.prems one have "commit_tries cd n (Suc k) env replies meanwhile command fp db1 = (Inr r, db')"
      by (auto split: if_splits)
    from Suc.IH [OF this] obtain j where "j < n" "fst (try_state cd env replies meanwhile command fp (Suc k) db1 j) = Inr r" by blast
    then show ?thesis
      using one by (intro exI [of _ "Suc j"]) (simp only: try_state_shift, simp)
  next
    case (Inr x)
    with Suc.prems one show ?thesis by (intro exI [of _ 0]) simp
  qed
qed simp

section \<open>Both services\<close>

definition as_ordering_reads :: "codec \<Rightarrow> stock_error + CommitResult \<Rightarrow> order_error + InventoryResult" where
  "as_ordering_reads cd answer =
     (case answer of
        Inr result \<Rightarrow> Inr (order_result cd result)
      | Inl OperationConflict \<Rightarrow> Inl (Coded CodeOperationConflict)
      | Inl _ \<Rightarrow> Inl (Coded CodeServerError))"

definition link_answer :: "codec \<Rightarrow> stock_error + CommitResult \<Rightarrow> int \<times> json" where
  "link_answer cd answer =
     (case answer of
        Inr result \<Rightarrow> (200, response_json (resultFromDomain cd result))
      | Inl OperationConflict \<Rightarrow> (409, error_json ''OPERATION_CONFLICT'')
      | Inl StoreUnavailable \<Rightarrow> (503, error_json ''STORE_UNAVAILABLE'')
      | Inl _ \<Rightarrow> (500, error_json ''INTERNAL_ERROR''))"

lemma commit_route_posted:
  assumes "codec_ok cd" and "Validate_command command = None" and "time_ok cd (cc_OccurredAt command)"
    and "rt_tokenDigest routes = rt_sha256 routes token"
  shows "commit_route routes cd digest env replies meanwhile (posted token (commit_request (cd_fmt cd) (work_of cd command))) db =
    map_prod (link_answer cd) id (Service_Commit cd digest env replies meanwhile command db)"
proof -
  let ?wire = "posted token (commit_request (cd_fmt cd) (work_of cd command))"
  have auth: "authorized routes ?wire" using assms(4) by (simp add: authorized_def posted_def bearer_def)
  have media: "hq_media ?wire = Some ''application/json''" by (simp add: posted_def)
  note arrives = request_arrives [OF assms(1,2) assms(3) [unfolded time_ok_def]]
  obtain answer db' where run: "Service_Commit cd digest env replies meanwhile command db = (answer, db')" by fastforce
  show ?thesis
    unfolding commit_route_def
    by (simp add: auth media arrives run) (auto simp: link_answer_def split: sum.splits stock_error.splits)
qed

lemma read_link_answer:
  assumes "codec_ok cd" and "Validate_command command = None" and "bytes (snd (link_answer cd answer)) \<le> maxResponseBytes"
    and "\<And>r. answer = Inr r \<Longrightarrow> Validate_result r = None \<and> answer_ok cd command r"
  shows "read_reply (cd_parse cd) (cd_parse_time cd) maxResponseBytes (work_of cd command)
      (case link_answer cd answer of (status, body) \<Rightarrow> Response status (bytes body) [Some body]) = as_ordering_reads cd answer"
proof (cases answer)
  case (Inl e)
  with assms(3) show ?thesis
    by (cases e) (simp_all add: link_answer_def read_reply_def statusError_def as_ordering_reads_def)
next
  case (Inr r)
  with assms(3,4) answer_arrives [OF assms(1,2), of r] show ?thesis
    by (simp add: link_answer_def read_reply_def as_ordering_reads_def answer_ok_def time_ok_def)
qed

text \<open>
  C1: the services agree. When the committer of Ordering is connected to the adapter (same token,
  a request and an answer within the limits of size), Ordering's outcome of every valid request is
  exactly the adapter's: its decision with the same status, identifiers, time and unavailable items,
  or the class of its error. No decision is refused as an invalid response, also when it was made by
  an earlier attempt and is read back from its receipt, whatever other adapters and the point of
  sale have done in between.
\<close>

theorem committer_meets_adapter:
  assumes "codec_ok cd" and "Validate_command command = None" and "time_ok cd (cc_OccurredAt command)"
    and "no_collision cd digest command" and "rt_tokenDigest routes = rt_sha256 routes token"
    and "\<forall>k < 3. arranges (env k) \<and> time_ok cd (se_now (env k))"
    and "\<forall>k < 3. adapters cd digest db0 (before_try cd env replies meanwhile command (fingerprint_of cd digest command) db k) \<and>
      stock_typed (before_try cd env replies meanwhile command (fingerprint_of cd digest command) db k)"
    and "bytes (snd (link_answer cd (fst (Service_Commit cd digest env replies meanwhile command db)))) \<le> maxResponseBytes"
  shows "Commit_http (cd_fmt cd) (cd_parse cd) (cd_parse_time cd) maxResponseBytes
      (adapter_link routes cd digest env replies meanwhile token bytes) (work_of cd command) db =
    map_prod (as_ordering_reads cd) id (Service_Commit cd digest env replies meanwhile command db)"
proof -
  obtain answer db' where run: "Service_Commit cd digest env replies meanwhile command db = (answer, db')" by fastforce
  have "Validate_result r = None \<and> answer_ok cd command r" if "answer = Inr r" for r
  proof -
    from run that assms(2) have store: "Commit_store cd env replies meanwhile command (fingerprint_of cd digest command) db = (Inr r, db')"
      and valid: "Validate_result r = None"
      by (auto simp: Service_Commit_def Fingerprint_def fingerprint_of_def split: sum.splits prod.splits if_splits)
    from commit_tries_result [OF store [unfolded Commit_store_def maxSerializableTries_def]] obtain j where
      "j < 3" "fst (try_state cd env replies meanwhile command (fingerprint_of cd digest command) 0 db j) = Inr r" by blast
    with assms(1,2,4,6,7) valid show ?thesis
      by (auto simp: try_state_before intro: commit_answers [OF prod_eqI])
  qed
  moreover obtain status body where answered: "link_answer cd answer = (status, body)" by fastforce
  ultimately have "read_reply (cd_parse cd) (cd_parse_time cd) maxResponseBytes (work_of cd command)
      (Response status (bytes body) [Some body]) = as_ordering_reads cd answer"
    using read_link_answer [OF assms(1,2), of bytes answer maxResponseBytes] assms(8) run by simp
  then show ?thesis
    by (simp add: Commit_http_def adapter_link_def commit_route_posted [OF assms(1-3,5)] run answered)
qed

section \<open>A request for two\<close>

definition chosen_digest :: "canonicalCommand \<Rightarrow> string" where
  "chosen_digest c = (if c = canonical (cd_text sample_codec) (cd_fmt sample_codec) (sample_request 2) then stock_digest else [])"

definition open_routes :: "string stock_routes" where
  "open_routes = \<lparr>rt_sha256 = id, rt_tokenDigest = ''secret''\<rparr>"

lemma chosen_fingerprint: "fingerprint_of sample_codec chosen_digest (sample_request 2) = stock_digest"
  by (simp add: fingerprint_of_def chosen_digest_def)

lemma chosen_no_collision: "no_collision sample_codec chosen_digest (sample_request 2)"
  by (auto simp: no_collision_def fingerprint_of_def chosen_digest_def stock_digest_def)

lemma sample_times: "0 \<le> t \<Longrightarrow> time_ok sample_codec t"
  by (simp add: time_ok_def sample_codec_def)

lemma sample_typed: "stock_typed sample_stock" "stock_typed stock_after"
  by (simp_all add: stock_typed_def sample_stock_def stock_after_def sample_item_def in64_def max_int64_def)

lemma sample_replay:
  "commitOnce sample_codec sample_run (\<lambda>_. Done) (sample_request 2) stock_digest stock_after = (Inr sample_committed, stock_after)"
  by code_simp

lemma sample_states:
  "k < 3 \<Longrightarrow> before_try sample_codec (\<lambda>_. sample_run) (\<lambda>_ _. Done) (\<lambda>_ db. db) (sample_request 2) stock_digest sample_stock k \<in>
     {sample_stock, stock_after}"
  by (auto simp: before_try_def stock_commit_run sample_replay less_Suc_eq numeral_3_eq_3 split: nat.split)

lemma sample_adapters: "adapters sample_codec chosen_digest sample_stock sample_stock" "adapters sample_codec chosen_digest sample_stock stock_after"
proof -
  show start: "adapters sample_codec chosen_digest sample_stock sample_stock"
    using sample_wf(1) by (intro adapters.start) (simp_all add: sample_stock_def)
  show "adapters sample_codec chosen_digest sample_stock stock_after"
    by (rule adapters.commits [OF start sample_valid_2 sample_arranges(1) sample_times sample_typed(1),
          unfolded chosen_fingerprint, OF _ stock_commit_run]) (simp add: sample_run_def)
qed

lemma committer_meets_adapter_witness:
  "Commit_http (cd_fmt sample_codec) (cd_parse sample_codec) (cd_parse_time sample_codec) 1000
     (adapter_link open_routes sample_codec chosen_digest (\<lambda>_. sample_run) (\<lambda>_ _. Done) (\<lambda>_ db. db) ''secret'' (\<lambda>_. 400))
     (work_of sample_codec (sample_request 2)) sample_stock =
   (Inr (order_result sample_codec sample_committed), stock_after)"
proof -
  have "Service_Commit sample_codec chosen_digest (\<lambda>_. sample_run) (\<lambda>_ _. Done) (\<lambda>_ db. db) (sample_request 2) sample_stock =
      (Inr sample_committed, stock_after)"
    using sample_valid_2
    by (simp add: Service_Commit_def Fingerprint_def Commit_store_def maxSerializableTries_def numeral_3_eq_3
        chosen_fingerprint [unfolded fingerprint_of_def] stock_commit_run)
       (simp add: Validate_result_def sample_committed_def sample_request_def StockSchemaVersion_def)
  moreover have "\<forall>k < 3. adapters sample_codec chosen_digest sample_stock (before_try sample_codec (\<lambda>_. sample_run) (\<lambda>_ _. Done)
        (\<lambda>_ db. db) (sample_request 2) (fingerprint_of sample_codec chosen_digest (sample_request 2)) sample_stock k) \<and>
      stock_typed (before_try sample_codec (\<lambda>_. sample_run) (\<lambda>_ _. Done)
        (\<lambda>_ db. db) (sample_request 2) (fingerprint_of sample_codec chosen_digest (sample_request 2)) sample_stock k)"
    using sample_states sample_adapters sample_typed unfolding chosen_fingerprint by (metis insertE singletonD)
  ultimately show ?thesis
    using committer_meets_adapter [OF sample_codec_ok sample_valid_2 _ chosen_no_collision, of open_routes "''secret''" "\<lambda>_. sample_run"
        sample_stock "\<lambda>_ _. Done" "\<lambda>_ db. db" sample_stock "\<lambda>_. 400" 1000] sample_arranges(1)
    by (simp add: open_routes_def sample_times sample_run_def [THEN arg_cong, of se_now] as_ordering_reads_def)
       (simp add: sample_request_def sample_times)
qed

end
