(* ===== verification/Product_Catalog.thy ===== *)
theory Product_Catalog
  imports Order_Domain
begin

text \<open>
  The catalog module of Ordering: \<open>domain/product.go\<close>, \<open>adapters/postgres/store.go\<close> and
  \<open>application/service.go\<close> under \<open>services/ordering/internal/catalog\<close>, and the resolver of
  \<open>cmd/api/catalog.go\<close> that checkout uses. The store keeps numbered snapshots of the products of
  the point of sale. \<open>canon\<close> stands for PostgreSQL's reading of a text as a \<open>uuid\<close>, as the text it
  gives back for it; \<open>parse_uuid\<close> for \<open>uuid.Parse\<close> of \<open>github.com/google/uuid\<close>.
\<close>

section \<open>Products\<close>

datatype catalog_error = CatInvalidInput | CatUnavailable | CatSnapshotExpired | CatOther string

record Product =
  pd_ID :: string
  pd_Name :: string
  pd_Description :: string
  pd_PriceCentavos :: int
  pd_CategoryID :: string
  pd_CategoryName :: string
  pd_ImageURL :: string
  pd_Available :: bool
  pd_SourceUpdatedAt :: int
  pd_Revision :: int

record Page =
  pa_Products :: "Product list"
  pa_SnapshotRevision :: int
  pa_NextAfterID :: string

definition Validate_product :: "(string \<Rightarrow> 'u option) \<Rightarrow> Product \<Rightarrow> catalog_error option" where
  "Validate_product parse_uuid p =
     (if TrimSpace (pd_ID p) = [] \<or> TrimSpace (pd_Name p) = [] \<or> TrimSpace (pd_CategoryID p) = [] \<or>
         TrimSpace (pd_CategoryName p) = [] \<or> pd_PriceCentavos p < 0 \<or> pd_SourceUpdatedAt p = 0
      then Some CatInvalidInput
      else if parse_uuid (pd_ID p) = None then Some CatInvalidInput
      else if parse_uuid (pd_CategoryID p) = None then Some CatInvalidInput else None)"

section \<open>The store\<close>

record product_row =
  pw_id :: string
  pw_name :: string
  pw_description :: string
  pw_price :: int
  pw_category :: string
  pw_category_name :: string
  pw_image :: "string option"
  pw_available :: bool
  pw_source_updated :: int
  pw_revision :: int

text \<open>The only row of \<open>catalog_sync_state\<close>, which the migration inserts, and \<open>catalog_products\<close>.\<close>

record catalog_db =
  cd_revision :: int
  cd_completed :: "int option"
  cd_products :: "product_row list"

definition empty_catalog :: catalog_db where
  "empty_catalog = \<lparr>cd_revision = 0, cd_completed = None, cd_products = []\<rparr>"

definition product_check :: "product_row \<Rightarrow> bool" where
  "product_check r \<longleftrightarrow> pg_text (pw_name r) \<and> text_between 1 200 (btrim (pw_name r)) \<and> pg_text (pw_description r) \<and>
     text_between 0 2000 (pw_description r) \<and> 0 \<le> pw_price r \<and> pg_text (pw_category_name r) \<and>
     text_between 1 200 (btrim (pw_category_name r)) \<and> 0 < pw_revision r"

definition product_clash :: "product_row \<Rightarrow> product_row \<Rightarrow> bool" where
  "product_clash x r \<longleftrightarrow> pw_revision x = pw_revision r \<and> pw_id x = pw_id r"

text \<open>The image of the newest row of the product.\<close>

definition last_image :: "string \<Rightarrow> product_row list \<Rightarrow> string option" where
  "last_image productID rows =
     (case rev (sort_key pw_revision (filter (\<lambda>r. pw_id r = productID) rows)) of [] \<Rightarrow> None | r # _ \<Rightarrow> pw_image r)"

definition insert_product ::
    "(string \<Rightarrow> string option) \<Rightarrow> int \<Rightarrow> Product \<Rightarrow> product_row list \<Rightarrow> dberr + product_row list" where
  "insert_product canon revision p rows =
     (case (canon (pd_ID p), canon (pd_CategoryID p)) of
        (Some productID, Some categoryID) \<Rightarrow>
          insert_row product_check product_clash (\<lambda>_. True)
            \<lparr>pw_id = productID, pw_name = pd_Name p, pw_description = pd_Description p, pw_price = pd_PriceCentavos p,
             pw_category = categoryID, pw_category_name = pd_CategoryName p, pw_image = last_image productID rows,
             pw_available = pd_Available p, pw_source_updated = pd_SourceUpdatedAt p, pw_revision = revision\<rparr> rows
      | _ \<Rightarrow> Inl OtherDb)"

text \<open>The loop over the products; \<open>n\<close> is the next round trip.\<close>

fun insert_products ::
    "(string \<Rightarrow> 'u option) \<Rightarrow> (string \<Rightarrow> string option) \<Rightarrow> (nat \<Rightarrow> reply) \<Rightarrow> nat \<Rightarrow> int \<Rightarrow> Product list \<Rightarrow> product_row list \<Rightarrow>
     catalog_error + product_row list \<times> nat" where
  "insert_products parse_uuid canon replies n revision [] rows = Inr (rows, n)"
| "insert_products parse_uuid canon replies n revision (p # ps) rows =
     (case Validate_product parse_uuid p of
        Some e \<Rightarrow> Inl e
      | None \<Rightarrow>
          bindE (stmt (CatOther ''insert catalog product'') (replies n) (insert_product canon revision p rows)) (\<lambda>rows'.
            insert_products parse_uuid canon replies (Suc n) revision ps rows'))"

text \<open>The products of the last snapshot that the new one lacks stay as unavailable ones.\<close>

definition retained :: "int \<Rightarrow> product_row list \<Rightarrow> product_row list" where
  "retained revision rows =
     map (\<lambda>r. r\<lparr>pw_available := False, pw_revision := revision\<rparr>)
       (filter (\<lambda>r. pw_revision r = revision - 1 \<and>
          \<not> list_ex (\<lambda>x. pw_revision x = revision \<and> pw_id x = pw_id r) rows) rows)"

definition ReplaceSnapshot ::
    "(string \<Rightarrow> 'u option) \<Rightarrow> (string \<Rightarrow> string option) \<Rightarrow> (nat \<Rightarrow> reply) \<Rightarrow> Product list \<Rightarrow> int \<Rightarrow> catalog_db \<Rightarrow>
     (catalog_error + unit) \<times> catalog_db" where
  "ReplaceSnapshot parse_uuid canon replies products now db =
     tx_run (replies 0) (CatOther ''begin catalog snapshot'') replies db
       (let revision = cd_revision db + 1 in
        bindE (stmt (CatOther ''reserve catalog revision'') (replies 1) (if in64 revision then Inr () else Inl OtherDb)) (\<lambda>_.
        bindE (insert_products parse_uuid canon replies 2 revision products (cd_products db)) (\<lambda>(rows, n).
        bindE (stmt (CatOther ''retain missing catalog products as unavailable'') (replies n) (Inr (rows @ retained revision rows))) (\<lambda>kept.
        bindE (stmt (CatOther ''prune catalog snapshots'') (replies (n + 1))
          (Inr (filter (\<lambda>r. \<not> pw_revision r < revision - 1) kept))) (\<lambda>pruned.
        bindE (stmt (CatOther ''complete catalog snapshot'') (replies (n + 2)) (Inr ())) (\<lambda>_.
          Inr (Inr (), CatOther ''commit'', \<lparr>cd_revision = revision, cd_completed = Some now, cd_products = pruned\<rparr>, n + 3)))))))"

definition product_of :: "product_row \<Rightarrow> Product" where
  "product_of r = \<lparr>pd_ID = pw_id r, pd_Name = pw_name r, pd_Description = pw_description r, pd_PriceCentavos = pw_price r,
     pd_CategoryID = pw_category r, pd_CategoryName = pw_category_name r,
     pd_ImageURL = (case pw_image r of None \<Rightarrow> [] | Some u \<Rightarrow> u), pd_Available = pw_available r,
     pd_SourceUpdatedAt = pw_source_updated r, pd_Revision = pw_revision r\<rparr>"

text \<open>The rows of a snapshot after a product, in the order of their identifiers.\<close>

definition snapshot_rows :: "int \<Rightarrow> string \<Rightarrow> catalog_db \<Rightarrow> product_row list" where
  "snapshot_rows snapshot after db =
     sort_key pw_id (filter (\<lambda>r. pw_revision r = snapshot \<and> (after = [] \<or> after < pw_id r)) (cd_products db))"

text \<open>
  Up to three statements outside a transaction: \<open>seen k\<close> is the store as the \<open>k\<close>-th one finds it.
\<close>

definition Products_store ::
    "(string \<Rightarrow> string option) \<Rightarrow> (nat \<Rightarrow> reply) \<Rightarrow> (nat \<Rightarrow> catalog_db) \<Rightarrow> int \<Rightarrow> string \<Rightarrow> int \<Rightarrow> catalog_error + Page" where
  "Products_store canon replies seen limit afterID snapshot0 =
     bindE (if snapshot0 = 0 then stmt (CatOther ''read catalog revision'') (replies 0) (Inr (cd_revision (seen 0))) else Inr snapshot0) (\<lambda>snapshot.
     bindE (stmt (CatOther ''check catalog snapshot'') (replies 1)
       (Inr (list_ex (\<lambda>r. pw_revision r = snapshot) (cd_products (seen 1))))) (\<lambda>exists.
     if \<not> exists then Inl CatSnapshotExpired
     else bindE (stmt (CatOther ''list catalog products'') (replies 2)
       (case (if afterID = [] then Some [] else canon afterID) of
          None \<Rightarrow> Inl OtherDb
        | Some after \<Rightarrow> Inr (map product_of (take (nat limit + 1) (snapshot_rows snapshot after (seen 2)))))) (\<lambda>products.
       Inr (if int (length products) > limit
            then \<lparr>pa_Products = take (nat limit) products, pa_SnapshotRevision = snapshot,
                  pa_NextAfterID = pd_ID (last (take (nat limit) products))\<rparr>
            else \<lparr>pa_Products = products, pa_SnapshotRevision = snapshot, pa_NextAfterID = []\<rparr>))))"

definition Resolve_store ::
    "(string \<Rightarrow> string option) \<Rightarrow> reply \<Rightarrow> catalog_db \<Rightarrow> string list \<Rightarrow> catalog_error + Product list" where
  "Resolve_store canon r db productIDs =
     (if productIDs = [] then Inr []
      else stmt (CatOther ''resolve catalog products'') r
        (if list_ex (\<lambda>v. canon v = None) productIDs then Inl OtherDb
         else Inr (map product_of (sort_key pw_id (filter (\<lambda>x. pw_revision x = cd_revision db \<and>
                list_ex (\<lambda>v. canon v = Some (pw_id x)) productIDs) (cd_products db))))))"

text \<open>The resolver of checkout; an error of the catalog keeps its text.\<close>

definition ResolveCheckoutProducts ::
    "(string \<Rightarrow> string option) \<Rightarrow> reply \<Rightarrow> catalog_db \<Rightarrow> string list \<Rightarrow> order_error + ProductSnapshot list" where
  "ResolveCheckoutProducts canon r db productIDs =
     (case Resolve_store canon r db productIDs of
        Inl e \<Rightarrow> Inl (Wrapped (case e of CatOther what \<Rightarrow> what | CatInvalidInput \<Rightarrow> ''invalid catalog input''
          | CatUnavailable \<Rightarrow> ''catalog unavailable'' | CatSnapshotExpired \<Rightarrow> ''catalog snapshot expired''))
      | Inr products \<Rightarrow>
          Inr (map (\<lambda>p. \<lparr>snap_ProductID = pd_ID p, snap_Name = pd_Name p, snap_UnitPriceCentavos = pd_PriceCentavos p,
            snap_Orderable = pd_Available p\<rparr>) products))"

end
