(* ===== verification/Catalog_Sync.thy ===== *)
theory Catalog_Sync
  imports Product_Catalog
begin

text \<open>
  The catalog service (\<open>application/service.go\<close> of the catalog module). \<open>Sync\<close> asks the source page
  by page until a page has no cursor, which a source could put off for ever: the loop is a partial
  function whose value is \<open>None\<close> when it does not end. \<open>source k\<close> answers the \<open>k\<close>-th request of one
  run.
\<close>

definition syncPageSize :: int where
  "syncPageSize = 100"

type_synonym source = "nat \<Rightarrow> int \<Rightarrow> string \<Rightarrow> catalog_error + Page"

text \<open>The loop over the products of a page: the identifiers seen and the products so far.\<close>

fun collect_page ::
    "(string \<Rightarrow> 'u option) \<Rightarrow> Product list \<Rightarrow> string set \<times> Product list \<Rightarrow> catalog_error + string set \<times> Product list" where
  "collect_page parse_uuid [] acc = Inr acc"
| "collect_page parse_uuid (p # ps) (seen, products) =
     (if Validate_product parse_uuid p \<noteq> None then Inl CatInvalidInput
      else if pd_ID p \<in> seen then Inl CatUnavailable
      else collect_page parse_uuid ps (insert (pd_ID p) seen, products @ [p]))"

partial_function (option) read_source ::
    "(string \<Rightarrow> 'u option) \<Rightarrow> source \<Rightarrow> nat \<Rightarrow> string \<Rightarrow> string set \<Rightarrow> string set \<times> Product list \<Rightarrow>
     (catalog_error + Product list) option" where
  "read_source parse_uuid source k afterID cursors acc =
     (case source k syncPageSize afterID of
        Inl e \<Rightarrow> Some (Inl e)
      | Inr page \<Rightarrow>
          (case collect_page parse_uuid (pa_Products page) acc of
             Inl e \<Rightarrow> Some (Inl e)
           | Inr acc' \<Rightarrow>
               if pa_NextAfterID page = [] then Some (Inr (snd acc'))
               else if pa_NextAfterID page \<in> cursors \<or> pa_NextAfterID page = afterID then Some (Inl CatUnavailable)
               else read_source parse_uuid source (Suc k) (pa_NextAfterID page) (insert (pa_NextAfterID page) cursors) acc'))"

definition Sync ::
    "(string \<Rightarrow> 'u option) \<Rightarrow> (string \<Rightarrow> string option) \<Rightarrow> source \<Rightarrow> (nat \<Rightarrow> reply) \<Rightarrow> int \<Rightarrow> catalog_db \<Rightarrow>
     ((catalog_error + unit) \<times> catalog_db) option" where
  "Sync parse_uuid canon source replies now db =
     map_option (\<lambda>read. case read of
         Inl e \<Rightarrow> (Inl e, db)
       | Inr products \<Rightarrow> ReplaceSnapshot parse_uuid canon replies products now db)
       (read_source parse_uuid source 0 [] {} ({}, []))"

definition Service_Products ::
    "(string \<Rightarrow> string option) \<Rightarrow> (nat \<Rightarrow> reply) \<Rightarrow> (nat \<Rightarrow> catalog_db) \<Rightarrow> int \<Rightarrow> string \<Rightarrow> int \<Rightarrow> catalog_error + Page" where
  "Service_Products canon replies seen limit afterID revision =
     (if limit < 1 \<or> limit > 100 \<or> revision < 0 then Inl CatInvalidInput
      else Products_store canon replies seen limit afterID revision)"

section \<open>The loops that synchronise\<close>

text \<open>
  What the \<open>select\<close> of a ticker loop finds, one event after another. \<open>None\<close>: the loop is still
  waiting when the events end, or a run does not end.
\<close>

datatype tick = Cancelled | Ticked

fun ticker_loop ::
    "('s \<Rightarrow> ((catalog_error + unit) \<times> 's) option) \<Rightarrow> bool \<Rightarrow> tick list \<Rightarrow> 's \<Rightarrow> ((catalog_error + unit) \<times> 's) option" where
  "ticker_loop sync stops [] st = None"
| "ticker_loop sync stops (Cancelled # ticks) st = Some (Inr (), st)"
| "ticker_loop sync stops (Ticked # ticks) st =
     (case sync st of
        None \<Rightarrow> None
      | Some (Inl e, st') \<Rightarrow> if stops then Some (Inl e, st') else ticker_loop sync stops ticks st'
      | Some (Inr _, st') \<Rightarrow> ticker_loop sync stops ticks st')"

text \<open>\<open>Service.Run\<close> ends with the first error, \<open>runCatalogSync\<close> of \<open>cmd/api/catalog.go\<close> logs it and goes on.\<close>

definition Run_catalog ::
    "('s \<Rightarrow> ((catalog_error + unit) \<times> 's) option) \<Rightarrow> int \<Rightarrow> tick list \<Rightarrow> 's \<Rightarrow> ((catalog_error + unit) \<times> 's) option" where
  "Run_catalog sync interval ticks st =
     (if interval \<le> 0 then Some (Inl CatInvalidInput, st) else ticker_loop sync True ticks st)"

definition runCatalogSync ::
    "('s \<Rightarrow> ((catalog_error + unit) \<times> 's) option) \<Rightarrow> tick list \<Rightarrow> 's \<Rightarrow> ((catalog_error + unit) \<times> 's) option" where
  "runCatalogSync sync ticks st = ticker_loop sync False ticks st"

section \<open>The source in the process\<close>

text \<open>\<open>adapters/sourcefake\<close>: the products sorted by identifier; \<open>start\<close> is what \<open>sort.Search\<close> finds in them.\<close>

definition New_fake :: "Product list \<Rightarrow> Product list" where
  "New_fake products = sort_key pd_ID products"

definition Products_fake :: "Product list \<Rightarrow> source" where
  "Products_fake products k limit afterID =
     (let rest = dropWhile (\<lambda>p. \<not> afterID < pd_ID p) products; here = take (nat limit) rest in
      Inr \<lparr>pa_Products = here, pa_SnapshotRevision = 0,
           pa_NextAfterID = (if length here < length rest \<and> here \<noteq> [] then pd_ID (last here) else [])\<rparr>)"

section \<open>Sources that page in order\<close>

text \<open>
  A source serves a list when each page is the next products of the list after the cursor, a page
  that is not the last is full, and its cursor is the last product on it.
\<close>

definition serves :: "source \<Rightarrow> Product list \<Rightarrow> bool" where
  "serves source products \<longleftrightarrow> (\<forall>k front rest. products = front @ rest \<longrightarrow>
     (\<exists>page. source k syncPageSize (if front = [] then [] else pd_ID (last front)) = Inr page \<and>
        pa_Products page = take 100 rest \<and>
        pa_NextAfterID page = (if 100 < length rest then pd_ID (last (take 100 rest)) else [])))"

lemma collect_page_all:
  assumes "\<forall>p \<in> set ps. Validate_product parse_uuid p = None" and "distinct (map pd_ID ps)" and "pd_ID ` set ps \<inter> seen = {}"
  shows "collect_page parse_uuid ps (seen, products) = Inr (seen \<union> pd_ID ` set ps, products @ ps)"
  using assms by (induction ps arbitrary: seen products) auto

lemma Validate_product_None:
  "Validate_product parse_uuid p = None \<longleftrightarrow> TrimSpace (pd_ID p) \<noteq> [] \<and> TrimSpace (pd_Name p) \<noteq> [] \<and>
     TrimSpace (pd_CategoryID p) \<noteq> [] \<and> TrimSpace (pd_CategoryName p) \<noteq> [] \<and> 0 \<le> pd_PriceCentavos p \<and>
     pd_SourceUpdatedAt p \<noteq> 0 \<and> parse_uuid (pd_ID p) \<noteq> None \<and> parse_uuid (pd_CategoryID p) \<noteq> None"
  by (auto simp: Validate_product_def)

lemma TrimSpace_Nil [simp]: "TrimSpace [] = []"
  by (rule TrimSpace_plain) simp

lemma read_source_from:
  assumes "serves source products" and "\<forall>p \<in> set products. Validate_product parse_uuid p = None" and "distinct (map pd_ID products)"
    and "products = front @ rest" and "cursors \<subseteq> pd_ID ` set front"
    and "afterID = (if front = [] then [] else pd_ID (last front))"
  shows "read_source parse_uuid source k afterID cursors (pd_ID ` set front, front) = Some (Inr products)"
  using assms(4-6)
proof (induction "length rest" arbitrary: k afterID cursors front rest rule: less_induct)
  case less
  let ?here = "take 100 rest"
  from assms(1) less.prems(1,3) obtain page where page: "source k syncPageSize afterID = Inr page" "pa_Products page = ?here"
    "pa_NextAfterID page = (if 100 < length rest then pd_ID (last ?here) else [])"
    using assms(1) [unfolded serves_def, THEN spec, of k, THEN spec, of front, THEN spec, of rest] by auto
  have rest: "rest = ?here @ drop 100 rest" by simp
  have dist: "distinct (map pd_ID front @ map pd_ID ?here @ map pd_ID (drop 100 rest))"
    using assms(3) less.prems(1) by (simp flip: map_append)
  have "collect_page parse_uuid (pa_Products page) (pd_ID ` set front, front) =
      Inr (pd_ID ` set front \<union> pd_ID ` set ?here, front @ ?here)"
    unfolding page(2)
  proof (rule collect_page_all)
    show "\<forall>p \<in> set ?here. Validate_product parse_uuid p = None"
      using assms(2) less.prems(1) by (auto dest: in_set_takeD)
  qed (use dist in auto)
  then have collected: "collect_page parse_uuid (pa_Products page) (pd_ID ` set front, front) =
      Inr (pd_ID ` set (front @ ?here), front @ ?here)" by (simp add: image_Un)
  show ?case
  proof (cases "100 < length rest")
    case False
    then show ?thesis
      using page collected less.prems(1) by (subst read_source.simps) simp
  next
    case True
    then have here: "?here \<noteq> []" "last ?here \<in> set ?here" by (auto intro: last_in_set)
    let ?cursor = "pd_ID (last ?here)"
    have "last ?here \<in> set products" using here(2) less.prems(1) by (auto dest: in_set_takeD)
    then have nonempty: "?cursor \<noteq> []" using assms(2) by (auto simp: Validate_product_None)
    have new: "?cursor \<notin> pd_ID ` set front" using here(2) dist by auto
    then have "?cursor \<notin> cursors" using less.prems(2) by blast
    moreover have "?cursor \<noteq> afterID"
      using new nonempty less.prems(3) by (auto split: if_splits dest: last_in_set)
    moreover have "read_source parse_uuid source (Suc k) ?cursor (insert ?cursor cursors) (pd_ID ` set (front @ ?here), front @ ?here) =
        Some (Inr products)"
    proof (rule less.hyps [of "drop 100 rest"])
      show "products = (front @ ?here) @ drop 100 rest" using less.prems(1) by simp
      show "insert ?cursor cursors \<subseteq> pd_ID ` set (front @ ?here)" using less.prems(2) here(2) by auto
    qed (use True here in \<open>simp_all add: last_append\<close>)
    ultimately show ?thesis
      using page collected True nonempty by (subst read_source.simps) simp
  qed
qed

lemma read_source_all:
  assumes "serves source products" and "\<forall>p \<in> set products. Validate_product parse_uuid p = None" and "distinct (map pd_ID products)"
  shows "read_source parse_uuid source 0 [] {} ({}, []) = Some (Inr products)"
  using read_source_from [OF assms, of "[]" products "{}" "[]" 0] by simp

end
