(* ===== verification/Catalog_Guarantees.thy ===== *)
theory Catalog_Guarantees
  imports Catalog_Sync
begin

text \<open>
  What the snapshots of the catalog promise: the two newest ones are kept whole, no product is lost
  from one to the next, and a customer who walks the pages of a snapshot meets each of its products
  once, also when a new snapshot is published on the way.
\<close>

section \<open>What a publication does\<close>

definition published :: "(string \<Rightarrow> string option) \<Rightarrow> int \<Rightarrow> Product \<Rightarrow> product_row \<Rightarrow> bool" where
  "published canon revision p r \<longleftrightarrow> canon (pd_ID p) = Some (pw_id r) \<and> canon (pd_CategoryID p) = Some (pw_category r) \<and>
     pw_name r = pd_Name p \<and> pw_description r = pd_Description p \<and> pw_price r = pd_PriceCentavos p \<and>
     pw_category_name r = pd_CategoryName p \<and> pw_available r = pd_Available p \<and>
     pw_source_updated r = pd_SourceUpdatedAt p \<and> pw_revision r = revision \<and> product_check r"

abbreviation row_key :: "product_row \<Rightarrow> int \<times> string" where
  "row_key r \<equiv> (pw_revision r, pw_id r)"

lemma insert_product_effect:
  assumes "insert_product canon revision p rows = Inr rows'"
  shows "\<exists>r. rows' = rows @ [r] \<and> published canon revision p r \<and> (\<forall>x \<in> set rows. \<not> product_clash x r)"
proof -
  from assms obtain i c where ids: "canon (pd_ID p) = Some i" "canon (pd_CategoryID p) = Some c"
    by (auto simp: insert_product_def split: option.splits)
  let ?r = "\<lparr>pw_id = i, pw_name = pd_Name p, pw_description = pd_Description p, pw_price = pd_PriceCentavos p,
     pw_category = c, pw_category_name = pd_CategoryName p, pw_image = last_image i rows,
     pw_available = pd_Available p, pw_source_updated = pd_SourceUpdatedAt p, pw_revision = revision\<rparr>"
  from assms ids have "rows' = rows @ [?r]" "product_check ?r" "\<forall>x \<in> set rows. \<not> product_clash x ?r"
    by (auto simp: insert_product_def insert_row_Inr)
  with ids show ?thesis by (intro exI [of _ ?r]) (simp add: published_def)
qed

lemma insert_products_effect:
  assumes "insert_products parse_uuid canon replies n revision products rows = Inr (rows', m)" and "distinct (map row_key rows)"
  shows "\<exists>new. rows' = rows @ new \<and> list_all2 (published canon revision) products new \<and> distinct (map row_key rows')"
  using assms
proof (induction products arbitrary: rows n)
  case (Cons p ps)
  from Cons.prems(1) obtain rows1 where one: "insert_product canon revision p rows = Inr rows1"
    and rest: "insert_products parse_uuid canon replies (Suc n) revision ps rows1 = Inr (rows', m)"
    by (auto simp: bindE_Inr split: option.splits)
  from insert_product_effect [OF one] obtain r where
    r: "rows1 = rows @ [r]" "published canon revision p r" "\<forall>x \<in> set rows. \<not> product_clash x r" by blast
  then have "distinct (map row_key rows1)"
    using Cons.prems(2) by (auto simp: product_clash_def published_def)
  from Cons.IH [OF rest this] r show ?case
    by (metis (no_types, lifting) append.assoc append_Cons append_Nil list_all2_Cons)
qed simp

definition catalog_ok :: "catalog_db \<Rightarrow> bool" where
  "catalog_ok db \<longleftrightarrow> 0 \<le> cd_revision db \<and> distinct (map row_key (cd_products db)) \<and>
     (\<forall>r \<in> set (cd_products db). product_check r \<and> (pw_revision r = cd_revision db \<or> pw_revision r = cd_revision db - 1)) \<and>
     (\<forall>r \<in> set (cd_products db). \<exists>x \<in> set (cd_products db). pw_revision x = cd_revision db \<and> pw_id x = pw_id r)"

text \<open>What the rows are after a publication: the new ones, the retained ones, the last snapshot.\<close>

definition publishes ::
    "(string \<Rightarrow> string option) \<Rightarrow> Product list \<Rightarrow> catalog_db \<Rightarrow> catalog_db \<Rightarrow> bool" where
  "publishes canon products db db' \<longleftrightarrow> (\<exists>new. list_all2 (published canon (cd_revision db + 1)) products new \<and>
     distinct (map row_key (cd_products db @ new)) \<and> cd_revision db' = cd_revision db + 1 \<and>
     cd_products db' = filter (\<lambda>r. pw_revision r = cd_revision db) (cd_products db) @ new @
       map (\<lambda>r. r\<lparr>pw_available := False, pw_revision := cd_revision db + 1\<rparr>)
         (filter (\<lambda>r. pw_revision r = cd_revision db \<and> pw_id r \<notin> pw_id ` set new) (cd_products db)))"

lemma new_rows:
  "list_all2 (published canon revision) products new \<Longrightarrow> r \<in> set new \<Longrightarrow> pw_revision r = revision \<and> product_check r"
  by (auto simp: list_all2_conv_all_nth in_set_conv_nth published_def)

lemma ReplaceSnapshot_effect:
  assumes "ReplaceSnapshot parse_uuid canon replies products now db = (res, db')" and "catalog_ok db"
  shows "db' = db \<and> (\<exists>e. res = Inl e) \<or> publishes canon products db db'"
proof -
  let ?rev = "cd_revision db + 1"
  have ok: "distinct (map row_key (cd_products db))" "\<forall>r \<in> set (cd_products db). pw_revision r \<le> cd_revision db"
    using assms(2) by (auto simp: catalog_ok_def)
  have "publishes canon products db \<lparr>cd_revision = ?rev, cd_completed = Some now, cd_products =
      filter (\<lambda>r. \<not> pw_revision r < ?rev - 1) (rows @ retained ?rev rows)\<rparr>"
    if run: "insert_products parse_uuid canon replies 2 ?rev products (cd_products db) = Inr (rows, n)" for rows n
  proof -
    from insert_products_effect [OF run ok(1)] obtain new where new: "rows = cd_products db @ new"
      "list_all2 (published canon ?rev) products new" "distinct (map row_key rows)" by blast
    have revs: "pw_revision r = ?rev" if "r \<in> set new" for r using new_rows [OF new(2) that] by simp
    have old: "filter (\<lambda>r. \<not> pw_revision r < cd_revision db) (cd_products db) = filter (\<lambda>r. pw_revision r = cd_revision db) (cd_products db)"
      using ok(2) by (intro filter_cong) auto
    have none: "filter (\<lambda>r. pw_revision r = cd_revision db \<and> P r) new = []" for P using revs by (auto simp: filter_empty_conv)
    have "list_ex (\<lambda>x. pw_revision x = ?rev \<and> pw_id x = i) rows \<longleftrightarrow> i \<in> pw_id ` set new" for i
      using ok(2) revs by (force simp: new(1) list_ex_iff)
    then have "retained ?rev rows = map (\<lambda>r. r\<lparr>pw_available := False, pw_revision := ?rev\<rparr>)
         (filter (\<lambda>r. pw_revision r = cd_revision db \<and> pw_id r \<notin> pw_id ` set new) (cd_products db))"
      by (simp add: retained_def new(1) none)
    moreover have "filter (\<lambda>r. \<not> pw_revision r < cd_revision db) new = new" using revs by (simp add: filter_id_conv)
    ultimately show ?thesis
      using new old by (auto simp: publishes_def filter_map comp_def)
  qed
  then show ?thesis
    using assms(1) by (auto simp: ReplaceSnapshot_def Let_def dest!: tx_run_cases simp: bindE_Inr)
qed

section \<open>Any number of publications\<close>

definition rows_of :: "int \<Rightarrow> catalog_db \<Rightarrow> product_row list" where
  "rows_of s db = filter (\<lambda>r. pw_revision r = s) (cd_products db)"

lemma publishes_rows:
  assumes "publishes canon products db db'" and "catalog_ok db" and "s \<le> cd_revision db"
  shows "rows_of s db' = (if s = cd_revision db then rows_of s db else [])"
proof -
  from assms(1) obtain new where new: "list_all2 (published canon (cd_revision db + 1)) products new"
    "cd_products db' = filter (\<lambda>r. pw_revision r = cd_revision db) (cd_products db) @ new @
       map (\<lambda>r. r\<lparr>pw_available := False, pw_revision := cd_revision db + 1\<rparr>)
         (filter (\<lambda>r. pw_revision r = cd_revision db \<and> pw_id r \<notin> pw_id ` set new) (cd_products db))"
    unfolding publishes_def by blast
  have "filter (\<lambda>r. pw_revision r = s) new = []"
    using new_rows [OF new(1)] assms(3) by (fastforce simp: filter_empty_conv)
  then show ?thesis
    using assms(3) by (auto simp: rows_of_def new(2) filter_map comp_def filter_empty_conv intro!: filter_cong)
qed

lemma publishes_ok:
  assumes "publishes canon products db db'" and "catalog_ok db"
  shows "catalog_ok db'"
proof -
  let ?rev = "cd_revision db + 1" and ?last = "filter (\<lambda>r. pw_revision r = cd_revision db) (cd_products db)"
  from assms(1) obtain new where new: "list_all2 (published canon ?rev) products new" "distinct (map row_key (cd_products db @ new))"
    "cd_revision db' = ?rev"
    "cd_products db' = ?last @ new @ map (\<lambda>r. r\<lparr>pw_available := False, pw_revision := ?rev\<rparr>)
         (filter (\<lambda>r. pw_revision r = cd_revision db \<and> pw_id r \<notin> pw_id ` set new) (cd_products db))"
    unfolding publishes_def by blast
  let ?kept = "filter (\<lambda>r. pw_revision r = cd_revision db \<and> pw_id r \<notin> pw_id ` set new) (cd_products db)"
  note revs = new_rows [OF new(1)]
  have d: "distinct (map row_key (cd_products db))" "distinct (map row_key new)" using new(2) by simp_all
  have "distinct (map row_key ?last)" "distinct (map row_key ?kept)" using d(1) by (simp_all add: distinct_map_filter)
  moreover have "distinct (map (\<lambda>r. (?rev, pw_id r)) ?kept)"
  proof -
    have "map row_key ?kept = map (\<lambda>r. (cd_revision db, pw_id r)) ?kept" by simp
    with calculation(2) have "distinct (map (\<lambda>r. (cd_revision db, pw_id r)) ?kept)" by metis
    then show ?thesis by (simp add: distinct_map inj_on_def)
  qed
  ultimately have "distinct (map row_key (cd_products db'))"
    using revs d(2) by (auto simp: new(4) comp_def) (metis imageI)
  moreover have "product_check r \<and> (pw_revision r = ?rev \<or> pw_revision r = cd_revision db)" if "r \<in> set (cd_products db')" for r
    using that assms(2) revs by (auto simp: new(4) catalog_ok_def product_check_def)
  moreover have "\<exists>x \<in> set (cd_products db'). pw_revision x = ?rev \<and> pw_id x = pw_id r" if "r \<in> set (cd_products db')" for r
  proof (cases "pw_id r \<in> pw_id ` set new")
    case True
    then obtain x where "x \<in> set new" "pw_id x = pw_id r" by auto
    with revs [of x] show ?thesis by (intro bexI [of _ x]) (simp_all add: new(4))
  next
    case False
    with that obtain x where "x \<in> set ?kept" "pw_id x = pw_id r" by (auto simp: new(4))
    then show ?thesis
      by (intro bexI [of _ "x\<lparr>pw_available := False, pw_revision := ?rev\<rparr>"]) (auto simp: new(4))
  qed
  ultimately show ?thesis using assms(2) by (simp add: catalog_ok_def new(3))
qed

inductive catalog_later :: "(string \<Rightarrow> 'u option) \<Rightarrow> (string \<Rightarrow> string option) \<Rightarrow> catalog_db \<Rightarrow> catalog_db \<Rightarrow> bool"
  for parse_uuid canon db where
  catalog_same: "catalog_later parse_uuid canon db db"
| catalog_published: "catalog_later parse_uuid canon db db1 \<Longrightarrow>
    ReplaceSnapshot parse_uuid canon replies products now db1 = (res, db2) \<Longrightarrow> catalog_later parse_uuid canon db db2"

lemma empty_catalog_ok: "catalog_ok empty_catalog"
  by (simp add: catalog_ok_def empty_catalog_def)

lemma later_catalog:
  assumes "catalog_later parse_uuid canon db db'" and "catalog_ok db" and "s \<le> cd_revision db"
  shows "catalog_ok db' \<and> cd_revision db \<le> cd_revision db' \<and>
    rows_of s db' = (if cd_revision db' \<le> s + 1 then rows_of s db else [])"
  using assms
proof (induction rule: catalog_later.induct)
  case catalog_same
  then have "rows_of s db = []" if "s + 1 < cd_revision db"
    using that by (auto simp: rows_of_def filter_empty_conv catalog_ok_def)
  with catalog_same show ?case by simp
next
  case (catalog_published db1 replies products now res db2)
  then have ok: "catalog_ok db1" and le: "cd_revision db \<le> cd_revision db1"
    and rows: "rows_of s db1 = (if cd_revision db1 \<le> s + 1 then rows_of s db else [])" by auto
  from ReplaceSnapshot_effect [OF catalog_published.hyps(2) ok] show ?case
  proof
    assume p: "publishes canon products db1 db2"
    then have "cd_revision db2 = cd_revision db1 + 1" by (auto simp: publishes_def)
    with publishes_rows [OF p ok, of s] publishes_ok [OF p ok] le rows catalog_published.prems(2) show ?thesis by auto
  qed (use ok le rows in auto)
qed

lemma reachable_catalog: "catalog_later parse_uuid canon empty_catalog db \<Longrightarrow> catalog_ok db"
  using later_catalog [of parse_uuid canon empty_catalog db 0] empty_catalog_ok by (simp add: empty_catalog_def)

section \<open>Walking the pages\<close>

lemma snapshot_rows_of: "snapshot_rows s after db = sort_key pw_id (filter (\<lambda>r. after = [] \<or> after < pw_id r) (rows_of s db))"
  by (simp add: snapshot_rows_def rows_of_def conj_commute)

lemma product_of_id [simp]: "pd_ID (product_of r) = pw_id r"
  by (simp add: product_of_def)

text \<open>The rest of a list that is sorted by distinct keys, after one of its elements.\<close>

lemma after_key:
  fixes key :: "'a \<Rightarrow> 'b :: linorder"
  assumes "sorted (map key (front @ x # rest))" and "distinct (map key (front @ x # rest))"
  shows "filter (\<lambda>y. key x < key y) (front @ x # rest) = rest"
proof -
  have "\<not> key x < key y" if "y \<in> set front" for y
    using assms(1) that by (auto simp: sorted_append not_less)
  moreover have "key x < key y" if "y \<in> set rest" for y
  proof -
    have "key x \<le> key y" using assms(1) that by (auto simp: sorted_append)
    moreover have "key x \<noteq> key y" using assms(2) that by force
    ultimately show ?thesis by simp
  qed
  ultimately show ?thesis by (auto simp: filter_empty_conv filter_id_conv)
qed


lemma sorted_distinct_rows:
  assumes "catalog_ok db"
  shows "sorted (map pw_id (snapshot_rows s [] db))" "distinct (map pw_id (snapshot_rows s [] db))"
proof -
  have "distinct (map row_key (rows_of s db))"
    using assms by (simp add: rows_of_def catalog_ok_def distinct_map_filter)
  moreover have "map row_key (rows_of s db) = map (\<lambda>r. (s, pw_id r)) (rows_of s db)" by (simp add: rows_of_def)
  ultimately have "distinct (map (\<lambda>r. (s, pw_id r)) (rows_of s db))" by metis
  then have "distinct (map pw_id (rows_of s db))" by (simp add: distinct_map inj_on_def)
  then show "distinct (map pw_id (snapshot_rows s [] db))" by (simp add: snapshot_rows_of distinct_map)
qed (simp add: snapshot_rows_of)

lemma rows_after:
  assumes "catalog_ok db" and "map product_of (snapshot_rows s [] db) = front @ rest" and "front \<noteq> []" and "pd_ID (last front) \<noteq> []"
  shows "map product_of (snapshot_rows s (pd_ID (last front)) db) = rest"
proof -
  from assms(2) obtain front' rest' where split: "snapshot_rows s [] db = front' @ rest'" "front = map product_of front'" "rest = map product_of rest'"
    unfolding map_eq_append_conv by blast
  with assms(3) obtain ys x where front': "front' = ys @ [x]" by (cases front' rule: rev_cases) auto
  note sd = sorted_distinct_rows [OF assms(1), of s]
  have "snapshot_rows s (pw_id x) db = filter (\<lambda>r. pw_id x < pw_id r) (snapshot_rows s [] db)"
    using assms(4) by (simp add: snapshot_rows_of filter_sort split(2) front')
  also have "\<dots> = rest'"
    using after_key [of pw_id ys x rest'] sd by (simp add: split(1) front')
  finally show ?thesis by (simp add: split(2,3) front')
qed

text \<open>
  C37: a customer can walk the pages of a snapshot. While the snapshot is one of the two newest, each
  page is the next products of the snapshot after the cursor, in the order of their identifiers, and
  has a cursor exactly when products are left, whatever snapshots are published between the requests
  and between the statements of one request; so the walk meets every product of the snapshot once.
  A snapshot that is older is refused as expired.
\<close>

theorem catalog_pages_walk:
  assumes "catalog_later parse_uuid canon empty_catalog db" and "\<forall>k. catalog_later parse_uuid canon db (seen k)"
    and "1 \<le> snapshot" "snapshot \<le> cd_revision db" and "1 \<le> limit" "limit \<le> 100"
    and "map product_of (snapshot_rows snapshot [] db) = front @ rest" and "front @ rest \<noteq> []"
    and "\<forall>p \<in> set front. pd_ID p \<noteq> [] \<and> canon (pd_ID p) = Some (pd_ID p)"
  shows "Service_Products canon (\<lambda>_. Done) seen limit (if front = [] then [] else pd_ID (last front)) snapshot =
    (if snapshot + 1 < cd_revision (seen 1) then Inl CatSnapshotExpired
     else if snapshot + 1 < cd_revision (seen 2) then Inr \<lparr>pa_Products = [], pa_SnapshotRevision = snapshot, pa_NextAfterID = []\<rparr>
     else Inr \<lparr>pa_Products = take (nat limit) rest, pa_SnapshotRevision = snapshot,
       pa_NextAfterID = (if nat limit < length rest then pd_ID (last (take (nat limit) rest)) else [])\<rparr>)"
proof -
  have ok: "catalog_ok db" by (rule reachable_catalog [OF assms(1)])
  let ?after = "if front = [] then [] else pd_ID (last front)"
  have later: "rows_of snapshot (seen k) = (if cd_revision (seen k) \<le> snapshot + 1 then rows_of snapshot db else [])" for k
    using later_catalog [OF _ ok assms(4)] assms(2) by blast
  have "snapshot_rows snapshot [] db \<noteq> []" using assms(7,8) by auto
  then have some: "rows_of snapshot db \<noteq> []" by (auto simp: snapshot_rows_of)
  have "list_ex (\<lambda>r. pw_revision r = snapshot) (cd_products d) \<longleftrightarrow> rows_of snapshot d \<noteq> []" for d
    by (auto simp: rows_of_def list_ex_iff filter_empty_conv)
  then have exists: "list_ex (\<lambda>r. pw_revision r = snapshot) (cd_products (seen 1)) \<longleftrightarrow> \<not> snapshot + 1 < cd_revision (seen 1)"
    using later some by (simp add: not_less)
  have cast: "(if ?after = [] then Some [] else canon ?after) = Some ?after"
    using assms(9) by (auto dest: last_in_set)
  have list: "map product_of (snapshot_rows snapshot ?after (seen 2)) = (if snapshot + 1 < cd_revision (seen 2) then [] else rest)"
  proof (cases "snapshot + 1 < cd_revision (seen 2)")
    case False
    then have "snapshot_rows snapshot x (seen 2) = snapshot_rows snapshot x db" for x
      using later by (simp add: snapshot_rows_of)
    with False rows_after [OF ok assms(7)] assms(7,9) show ?thesis by (auto dest: last_in_set)
  qed (use later in \<open>simp add: snapshot_rows_of\<close>)
  have "Service_Products canon (\<lambda>_. Done) seen limit ?after snapshot =
      (if snapshot + 1 < cd_revision (seen 1) then Inl CatSnapshotExpired
       else let products = take (nat limit + 1) (if snapshot + 1 < cd_revision (seen 2) then [] else rest) in
         Inr (if int (length products) > limit
              then \<lparr>pa_Products = take (nat limit) products, pa_SnapshotRevision = snapshot,
                    pa_NextAfterID = pd_ID (last (take (nat limit) products))\<rparr>
              else \<lparr>pa_Products = products, pa_SnapshotRevision = snapshot, pa_NextAfterID = []\<rparr>))"
    using assms(3,5,6) exists by (simp add: Service_Products_def Products_store_def cast take_map [symmetric] list Let_def)
  also have "\<dots> = (if snapshot + 1 < cd_revision (seen 1) then Inl CatSnapshotExpired
     else if snapshot + 1 < cd_revision (seen 2) then Inr \<lparr>pa_Products = [], pa_SnapshotRevision = snapshot, pa_NextAfterID = []\<rparr>
     else Inr \<lparr>pa_Products = take (nat limit) rest, pa_SnapshotRevision = snapshot,
       pa_NextAfterID = (if nat limit < length rest then pd_ID (last (take (nat limit) rest)) else [])\<rparr>)"
    using assms(5) by (auto simp: Let_def min_def)
  finally show ?thesis .
qed

end
