(* ===== verification/Catalog_Source.thy ===== *)
theory Catalog_Source
  imports Catalog_Guarantees Inventory_Wire Stock_Transport
begin

text \<open>
  The source of the catalog over HTTP (\<open>adapters/inventoryhttp/source.go\<close> of the catalog module),
  and its connection to the handler of the inventory adapter. The transport answers the \<open>k\<close>-th
  request of a run, which carries the query parameters \<open>limit\<close> and \<open>after_id\<close>.
\<close>

section \<open>The HTTP source\<close>

record wire_product =
  wp_ProductID :: string
  wp_Name :: string
  wp_Description :: string
  wp_PriceCentavos :: int
  wp_CategoryID :: string
  wp_CategoryName :: string
  wp_Available :: bool
  wp_SourceUpdatedAt :: string

record wire_page =
  wg_Products :: "wire_product list"
  wg_NextAfterID :: string

definition zero_wire_product :: wire_product where
  "zero_wire_product = \<lparr>wp_ProductID = [], wp_Name = [], wp_Description = [], wp_PriceCentavos = 0, wp_CategoryID = [],
     wp_CategoryName = [], wp_Available = False, wp_SourceUpdatedAt = []\<rparr>"

definition wire_product_fields :: "wire_product field list" where
  "wire_product_fields =
     [(''product_id'', string_field (\<lambda>s. wp_ProductID_update (\<lambda>_. s))),
      (''name'', string_field (\<lambda>s. wp_Name_update (\<lambda>_. s))),
      (''description'', string_field (\<lambda>s. wp_Description_update (\<lambda>_. s))),
      (''price_centavos'', int_field (\<lambda>i. wp_PriceCentavos_update (\<lambda>_. i))),
      (''category_id'', string_field (\<lambda>s. wp_CategoryID_update (\<lambda>_. s))),
      (''category_name'', string_field (\<lambda>s. wp_CategoryName_update (\<lambda>_. s))),
      (''available'', bool_field (\<lambda>b. wp_Available_update (\<lambda>_. b))),
      (''source_updated_at'', string_field (\<lambda>s. wp_SourceUpdatedAt_update (\<lambda>_. s)))]"

definition wire_page_fields :: "wire_page field list" where
  "wire_page_fields =
     [(''products'', list_field (decode_struct True wire_product_fields zero_wire_product)
         (\<lambda>ps. wg_Products_update (\<lambda>_. ps))),
      (''next_after_id'', string_field (\<lambda>s. wg_NextAfterID_update (\<lambda>_. s)))]"

definition decode_page :: "json \<Rightarrow> wire_page option" where
  "decode_page = decode_struct True wire_page_fields \<lparr>wg_Products = [], wg_NextAfterID = []\<rparr>"

text \<open>The loop over the products of the page; every failure is \<open>ErrUnavailable\<close>.\<close>

fun products_of_wire ::
    "(string \<Rightarrow> 'u option) \<Rightarrow> (string \<Rightarrow> int option) \<Rightarrow> wire_product list \<Rightarrow> catalog_error + Product list" where
  "products_of_wire parse_uuid parse_time [] = Inr []"
| "products_of_wire parse_uuid parse_time (v # vs) =
     (case parse_time (wp_SourceUpdatedAt v) of
        None \<Rightarrow> Inl CatUnavailable
      | Some updatedAt \<Rightarrow>
          let product = \<lparr>pd_ID = wp_ProductID v, pd_Name = wp_Name v, pd_Description = wp_Description v,
            pd_PriceCentavos = wp_PriceCentavos v, pd_CategoryID = wp_CategoryID v, pd_CategoryName = wp_CategoryName v,
            pd_ImageURL = [], pd_Available = wp_Available v, pd_SourceUpdatedAt = updatedAt, pd_Revision = 0\<rparr> in
          if Validate_product parse_uuid product \<noteq> None then Inl CatUnavailable
          else bindE (products_of_wire parse_uuid parse_time vs) (\<lambda>ps. Inr (product # ps)))"

definition Products_http ::
    "(string \<Rightarrow> 'u option) \<Rightarrow> (string \<Rightarrow> int option) \<Rightarrow> nat \<Rightarrow> (nat \<Rightarrow> string \<Rightarrow> string \<Rightarrow> http_reply) \<Rightarrow> source" where
  "Products_http parse_uuid parse_time maxResponseBytes transport k limit afterID =
     (case transport k (Itoa limit) afterID of
        Response status bytes body \<Rightarrow>
          if bytes > maxResponseBytes \<or> status \<noteq> 200 then Inl CatUnavailable
          else
            (case DecodeStrict decode_page body of
               None \<Rightarrow> Inl CatUnavailable
             | Some wire \<Rightarrow>
                 bindE (products_of_wire parse_uuid parse_time (wg_Products wire)) (\<lambda>products.
                   Inr \<lparr>pa_Products = products, pa_SnapshotRevision = 0, pa_NextAfterID = wg_NextAfterID wire\<rparr>))
      | _ \<Rightarrow> Inl CatUnavailable)"

section \<open>The adapter as a source\<close>

definition products_request :: "string \<Rightarrow> string \<Rightarrow> string \<Rightarrow> http_request" where
  "products_request token limit afterID = \<lparr>hq_authorization = ''Bearer '' @ token, hq_media = None,
     hq_query = (\<lambda>name. if name = ''limit'' then limit else if name = ''after_id'' then afterID else []),
     hq_path = (\<lambda>_. []), hq_body = [], hq_cut = False\<rparr>"

definition products_link ::
    "'d stock_routes \<Rightarrow> codec \<Rightarrow> string \<Rightarrow> (json \<Rightarrow> nat) \<Rightarrow> stock_db \<Rightarrow> nat \<Rightarrow> string \<Rightarrow> string \<Rightarrow> http_reply" where
  "products_link routes cd token bytes db k limit afterID =
     (case products_route routes cd Done (products_request token limit afterID) db of
        (status, body) \<Rightarrow> Response status (bytes body) [Some body])"

text \<open>A product of the adapter as Ordering reads it.\<close>

definition read_product :: "codec \<Rightarrow> CatalogProduct \<Rightarrow> Product" where
  "read_product cd p = \<lparr>pd_ID = cd_text cd (cp_ProductID p), pd_Name = cp_Name p, pd_Description = cp_Description p,
     pd_PriceCentavos = cp_PriceCentavos p, pd_CategoryID = cd_text cd (cp_CategoryID p), pd_CategoryName = cp_CategoryName p,
     pd_ImageURL = [], pd_Available = cp_Available p, pd_SourceUpdatedAt = cp_SourceUpdatedAt p, pd_Revision = 0\<rparr>"

text \<open>What a product of the point of sale has to be to travel.\<close>

definition travels :: "codec \<Rightarrow> CatalogProduct \<Rightarrow> bool" where
  "travels cd p \<longleftrightarrow> product_valid p \<and> in64 (cp_PriceCentavos p) \<and>
     cd_parse_time cd (cd_fmt cd (cp_SourceUpdatedAt p)) = Some (cp_SourceUpdatedAt p)"

text \<open>The text of an identifier is not blank and has no spaces around it.\<close>

definition text_ok :: "codec \<Rightarrow> bool" where
  "text_ok cd \<longleftrightarrow> (\<forall>u. cd_parse cd (cd_text cd u) = Some u \<and> cd_text cd u \<noteq> [] \<and> TrimSpace (cd_text cd u) = cd_text cd u)"

lemma read_wire_product:
  assumes "in64 (ps_PriceCentavos p)"
  shows "decode_struct True wire_product_fields zero_wire_product (product_json p) =
    Some \<lparr>wp_ProductID = ps_ProductID p, wp_Name = ps_Name p, wp_Description = ps_Description p,
      wp_PriceCentavos = ps_PriceCentavos p, wp_CategoryID = ps_CategoryID p, wp_CategoryName = ps_CategoryName p,
      wp_Available = ps_Available p, wp_SourceUpdatedAt = ps_SourceUpdatedAt p\<rparr>"
  using assms
  by (simp add: product_json_def wire_product_fields_def zero_wire_product_def find_field_def fold_name_ascii byte_def fold_rune_def)

lemma read_wire_page:
  assumes "\<forall>p \<in> set (pp_Products page). in64 (ps_PriceCentavos p)"
  shows "DecodeStrict decode_page [Some (page_json page)] =
    Some \<lparr>wg_Products = map (\<lambda>p. \<lparr>wp_ProductID = ps_ProductID p, wp_Name = ps_Name p, wp_Description = ps_Description p,
      wp_PriceCentavos = ps_PriceCentavos p, wp_CategoryID = ps_CategoryID p, wp_CategoryName = ps_CategoryName p,
      wp_Available = ps_Available p, wp_SourceUpdatedAt = ps_SourceUpdatedAt p\<rparr>) (pp_Products page),
      wg_NextAfterID = pp_NextAfterID page\<rparr>"
proof -
  have "list_field (decode_struct True wire_product_fields zero_wire_product) put (JArr (map product_json (pp_Products page))) acc =
      Some (put (map (\<lambda>p. \<lparr>wp_ProductID = ps_ProductID p, wp_Name = ps_Name p, wp_Description = ps_Description p,
      wp_PriceCentavos = ps_PriceCentavos p, wp_CategoryID = ps_CategoryID p, wp_CategoryName = ps_CategoryName p,
      wp_Available = ps_Available p, wp_SourceUpdatedAt = ps_SourceUpdatedAt p\<rparr>) (pp_Products page)) acc)"
    for put :: "wire_product list \<Rightarrow> wire_page \<Rightarrow> wire_page" and acc
    using assms by (intro list_field_map) (simp add: read_wire_product)
  then show ?thesis
    by (simp add: DecodeStrict_def decode_page_def wire_page_fields_def page_json_def find_field_def fold_name_ascii byte_def fold_rune_def)
qed

lemma read_product_valid:
  assumes "text_ok cd" and "travels cd p"
  shows "Validate_product (cd_parse cd) (read_product cd p) = None"
  using assms by (auto simp: Validate_product_None read_product_def travels_def product_valid_def text_ok_def)

lemma products_arrive:
  assumes "text_ok cd" and "\<forall>p \<in> set ps. travels cd p"
  shows "products_of_wire (cd_parse cd) (cd_parse_time cd) (map (\<lambda>p. \<lparr>wp_ProductID = ps_ProductID p, wp_Name = ps_Name p,
      wp_Description = ps_Description p, wp_PriceCentavos = ps_PriceCentavos p, wp_CategoryID = ps_CategoryID p,
      wp_CategoryName = ps_CategoryName p, wp_Available = ps_Available p, wp_SourceUpdatedAt = ps_SourceUpdatedAt p\<rparr>)
      (pp_Products (catalogFromDomain cd \<lparr>pg_Products = ps, pg_NextAfterID = next\<rparr>))) = Inr (map (read_product cd) ps)"
  using assms(2)
proof (induction ps)
  case (Cons p ps)
  then show ?case
    using read_product_valid [OF assms(1), of p]
    by (simp add: catalogFromDomain_def travels_def read_product_def Let_def)
qed (simp add: catalogFromDomain_def)

section \<open>The adapter serves its catalog\<close>

lemma map_filter_filter:
  assumes "\<And>x y. f x = Some y \<Longrightarrow> P x = Q y"
  shows "List.map_filter f (filter P xs) = filter Q (List.map_filter f xs)"
  using assms by (induction xs) (auto simp: List.map_filter_simps split: option.splits)

definition all_rows :: "stock_db \<Rightarrow> CatalogProduct list" where
  "all_rows db = List.map_filter (catalog_product db) (sort_key im_id (sd_items db))"

lemma catalog_rows_all: "catalog_rows db a = filter (\<lambda>p. a < cp_ProductID p) (all_rows db)"
  unfolding catalog_rows_def all_rows_def filter_sort [symmetric]
  by (rule map_filter_filter) (auto simp: catalog_product_def)

lemma map_filter_sorted:
  "sorted (map im_id xs) \<and> distinct (map im_id xs) \<Longrightarrow>
   sorted (map cp_ProductID (List.map_filter (catalog_product db) xs)) \<and>
   distinct (map cp_ProductID (List.map_filter (catalog_product db) xs)) \<and>
   cp_ProductID ` set (List.map_filter (catalog_product db) xs) \<subseteq> im_id ` set xs"
  by (induction xs) (auto simp: List.map_filter_simps catalog_product_def split: option.splits)

lemma all_rows_sorted:
  assumes "distinct (map im_id (sd_items db))"
  shows "sorted (map cp_ProductID (all_rows db))" "distinct (map cp_ProductID (all_rows db))"
proof -
  have "distinct (map im_id (sort_key im_id (sd_items db)))"
    using assms by (simp add: distinct_map)
  with map_filter_sorted [of "sort_key im_id (sd_items db)" db]
  show "sorted (map cp_ProductID (all_rows db))" "distinct (map cp_ProductID (all_rows db))"
    by (simp_all add: all_rows_def)
qed

lemma catalog_rows_sorted:
  assumes "distinct (map im_id (sd_items db))"
  shows "sorted (map cp_ProductID (catalog_rows db a))" "distinct (map cp_ProductID (catalog_rows db a))"
  using all_rows_sorted [OF assms] by (simp_all add: catalog_rows_all sorted_filter distinct_map_filter)

lemma catalog_rows_rest:
  assumes "distinct (map im_id (sd_items db))" and "catalog_rows db 0 = front @ rest" and "front \<noteq> []"
  shows "catalog_rows db (cp_ProductID (last front)) = rest"
proof -
  from assms(3) obtain ys x where front: "front = ys @ [x]" by (cases front rule: rev_cases) auto
  have "catalog_rows db (cp_ProductID x) = filter (\<lambda>p. cp_ProductID x < cp_ProductID p) (catalog_rows db 0)"
    by (auto simp: catalog_rows_all intro!: filter_cong) (metis word_gt_0 word_not_simps(1) le_less_trans word_zero_le)
  also have "\<dots> = rest"
    using after_key [of cp_ProductID ys x rest] catalog_rows_sorted [OF assms(1), of 0] by (simp add: assms(2) front)
  finally show ?thesis by (simp add: front)
qed

lemma limit_100: "Itoa 100 = ''100''" "Atoi ''100'' = Some 100" "TrimSpace ''100'' = ''100''"
proof -
  show "Itoa 100 = ''100''" by code_simp
  show "Atoi ''100'' = Some 100" by code_simp
  show "TrimSpace ''100'' = ''100''" by (rule TrimSpace_plain) (simp add: byte_def IsSpace_def)
qed

text \<open>What the adapter answers to the request after a product.\<close>

lemma products_route_page:
  assumes "text_ok cd" and "rt_tokenDigest routes = rt_sha256 routes token" and "\<forall>p \<in> set (catalog_rows db 0). travels cd p"
    and "distinct (map im_id (sd_items db))" and "catalog_rows db 0 = front @ rest"
    and "after = (if front = [] then [] else cd_text cd (cp_ProductID (last front)))"
  shows "products_route routes cd Done (products_request token (Itoa syncPageSize) after) db =
    (200, page_json (catalogFromDomain cd \<lparr>pg_Products = take 100 rest,
       pg_NextAfterID = (if 100 < length rest then cp_ProductID (last (take 100 rest)) else 0)\<rparr>))"
proof -
  let ?after = "if front = [] then 0 else cp_ProductID (last front)"
  let ?request = "products_request token (Itoa syncPageSize) after"
  have auth: "authorized routes ?request" using assms(2) by (simp add: authorized_def products_request_def bearer_def)
  have query: "catalog_query cd ?request = Some \<lparr>cq_Limit = 100, cq_AfterID = ?after\<rparr>"
    using assms(1,6) by (auto simp: catalog_query_def products_request_def syncPageSize_def limit_100 text_ok_def)
  have rows: "catalog_rows db ?after = rest"
    using catalog_rows_rest [OF assms(4,5)] assms(5) by auto
  have valid: "\<forall>p \<in> set rest. product_valid p" using assms(3,5) by (auto simp: travels_def)
  then have "\<forall>p \<in> set (take 100 rest). product_valid p" by (blast dest: in_set_takeD)
  then have "Service_Catalog Done db \<lparr>cq_Limit = 100, cq_AfterID = ?after\<rparr> = Inr \<lparr>pg_Products = take 100 rest,
      pg_NextAfterID = (if 100 < length rest then cp_ProductID (last (take 100 rest)) else 0)\<rparr>"
    unfolding Service_Catalog_def Catalog_store_def rows CatalogQuery.simps
    by (auto simp: Validate_query_def Validate_page_def ask_def list_all_iff min_def)
  then show ?thesis by (simp add: products_route_def auth query)
qed

text \<open>What Ordering reads when it is connected to the adapter.\<close>

lemma adapter_serves:
  assumes "text_ok cd" and "rt_tokenDigest routes = rt_sha256 routes token" and "\<forall>p \<in> set (catalog_rows db 0). travels cd p"
    and "distinct (map im_id (sd_items db))"
    and "\<forall>after. bytes (snd (products_route routes cd Done (products_request token (Itoa syncPageSize) after) db)) \<le> maxResponseBytes"
  shows "serves (Products_http (cd_parse cd) (cd_parse_time cd) maxResponseBytes (products_link routes cd token bytes db))
    (map (read_product cd) (catalog_rows db 0))"
  unfolding serves_def
proof (intro allI impI)
  fix k front rest
  assume "map (read_product cd) (catalog_rows db 0) = front @ rest"
  then obtain front' rest' where split: "catalog_rows db 0 = front' @ rest'" "front = map (read_product cd) front'"
    "rest = map (read_product cd) rest'" unfolding map_eq_append_conv by blast
  let ?after = "if front = [] then [] else pd_ID (last front)"
  let ?next = "if 100 < length rest' then cp_ProductID (last (take 100 rest')) else 0"
  let ?page = "catalogFromDomain cd \<lparr>pg_Products = take 100 rest', pg_NextAfterID = ?next\<rparr>"
  have after: "?after = (if front' = [] then [] else cd_text cd (cp_ProductID (last front')))"
    by (simp add: split(2) last_map read_product_def)
  note answer = products_route_page [OF assms(1-4) split(1) after]
  have small: "bytes (page_json ?page) \<le> maxResponseBytes"
    using assms(5) [THEN spec, of ?after] unfolding answer by simp
  have here: "\<forall>p \<in> set (take 100 rest'). travels cd p"
    using assms(3) split(1) by (auto dest: in_set_takeD)
  then have "\<forall>p \<in> set (pp_Products ?page). in64 (ps_PriceCentavos p)"
    by (auto simp: catalogFromDomain_def travels_def)
  note wire = read_wire_page [OF this]
  have "Products_http (cd_parse cd) (cd_parse_time cd) maxResponseBytes (products_link routes cd token bytes db) k syncPageSize ?after =
      Inr \<lparr>pa_Products = map (read_product cd) (take 100 rest'), pa_SnapshotRevision = 0, pa_NextAfterID = pp_NextAfterID ?page\<rparr>"
    unfolding Products_http_def products_link_def answer
    using small products_arrive [OF assms(1) here, of ?next] by (simp add: wire)
  moreover have "pp_NextAfterID ?page = (if 100 < length rest then pd_ID (last (take 100 rest)) else [])"
  proof (cases "100 < length rest'")
    case True
    then have "last (take 100 rest') \<in> set (take 100 rest')" "take 100 rest' \<noteq> []" by (auto intro!: last_in_set)
    with here have "cp_ProductID (last (take 100 rest')) \<noteq> 0" by (auto simp: travels_def product_valid_def)
    with True \<open>take 100 rest' \<noteq> []\<close> show ?thesis
      by (simp add: catalogFromDomain_def split(3) take_map last_map read_product_def)
  qed (simp add: catalogFromDomain_def split(3))
  ultimately show "\<exists>page. Products_http (cd_parse cd) (cd_parse_time cd) maxResponseBytes (products_link routes cd token bytes db) k
      syncPageSize ?after = Inr page \<and> pa_Products page = take 100 rest \<and>
      pa_NextAfterID page = (if 100 < length rest then pd_ID (last (take 100 rest)) else [])"
    by (simp add: split(3) take_map)
qed

end
