(* ===== verification/Catalog_Agreement.thy ===== *)
theory Catalog_Agreement
  imports Catalog_Source Stock_Samples
begin

text \<open>
  The catalog of the point of sale on its whole way to checkout: the adapter pages it out, the
  catalog service of Ordering collects the pages, the store publishes them as a snapshot, the
  resolver of checkout reads it.
\<close>

section \<open>A publication that succeeds\<close>

text \<open>What the columns take: the identifiers in the form that PostgreSQL gives back, texts that fit.\<close>

definition storable :: "(string \<Rightarrow> string option) \<Rightarrow> Product \<Rightarrow> bool" where
  "storable canon p \<longleftrightarrow> canon (pd_ID p) = Some (pd_ID p) \<and> canon (pd_CategoryID p) = Some (pd_CategoryID p) \<and>
     pg_text (pd_Name p) \<and> text_between 1 200 (btrim (pd_Name p)) \<and> pg_text (pd_Description p) \<and>
     text_between 0 2000 (pd_Description p) \<and> pg_text (pd_CategoryName p) \<and> text_between 1 200 (btrim (pd_CategoryName p))"

lemma insert_products_succeed:
  assumes "\<forall>p \<in> set products. Validate_product parse_uuid p = None \<and> storable canon p" and "distinct (map pd_ID products)"
    and "\<forall>r \<in> set rows. pw_revision r = revision \<longrightarrow> pw_id r \<notin> pd_ID ` set products" and "0 < revision"
  shows "\<exists>rows'. insert_products parse_uuid canon (\<lambda>_. Done) n revision products rows = Inr (rows', n + length products)"
  using assms(1-3)
proof (induction products arbitrary: n rows)
  case (Cons p ps)
  let ?r = "\<lparr>pw_id = pd_ID p, pw_name = pd_Name p, pw_description = pd_Description p, pw_price = pd_PriceCentavos p,
     pw_category = pd_CategoryID p, pw_category_name = pd_CategoryName p, pw_image = last_image (pd_ID p) rows,
     pw_available = pd_Available p, pw_source_updated = pd_SourceUpdatedAt p, pw_revision = revision\<rparr>"
  have "product_check ?r" using Cons.prems(1) assms(4) by (simp add: storable_def product_check_def Validate_product_None)
  moreover have "\<not> product_clash x ?r" if "x \<in> set rows" for x using Cons.prems(3) that by (auto simp: product_clash_def)
  ultimately have "insert_product canon revision p rows = Inr (rows @ [?r])"
    using Cons.prems(1) by (simp add: insert_product_def storable_def insert_row_Inr)
  moreover have "\<exists>rows'. insert_products parse_uuid canon (\<lambda>_. Done) (Suc n) revision ps (rows @ [?r]) =
      Inr (rows', Suc n + length ps)"
    using Cons.prems by (intro Cons.IH) auto
  ultimately show ?case using Cons.prems(1) by simp
qed simp

lemma ReplaceSnapshot_succeeds:
  assumes "catalog_ok db" and "in64 (cd_revision db + 1)"
    and "\<forall>p \<in> set products. Validate_product parse_uuid p = None \<and> storable canon p" and "distinct (map pd_ID products)"
  shows "\<exists>db'. ReplaceSnapshot parse_uuid canon (\<lambda>_. Done) products now db = (Inr (), db') \<and> publishes canon products db db'"
proof -
  have none: "\<forall>r \<in> set (cd_products db). pw_revision r = cd_revision db + 1 \<longrightarrow> pw_id r \<notin> pd_ID ` set products"
    using assms(1) by (auto simp: catalog_ok_def)
  have "0 < cd_revision db + 1" using assms(1) by (simp add: catalog_ok_def)
  from insert_products_succeed [OF assms(3,4) none this, of 2] obtain rows where
    "insert_products parse_uuid canon (\<lambda>_. Done) 2 (cd_revision db + 1) products (cd_products db) = Inr (rows, 2 + length products)"
    by blast
  then obtain db' where run: "ReplaceSnapshot parse_uuid canon (\<lambda>_. Done) products now db = (Inr (), db')"
    using assms(2) by (simp add: ReplaceSnapshot_def Let_def tx_run_def)
  with ReplaceSnapshot_effect [OF run assms(1)] show ?thesis by auto
qed

section \<open>What checkout sees of it\<close>

definition snapshot_of :: "Product \<Rightarrow> ProductSnapshot" where
  "snapshot_of p = \<lparr>snap_ProductID = pd_ID p, snap_Name = pd_Name p, snap_UnitPriceCentavos = pd_PriceCentavos p,
     snap_Orderable = pd_Available p\<rparr>"

lemma published_snapshots:
  assumes "list_all2 (published canon revision) products new" and "\<forall>p \<in> set products. canon (pd_ID p) = Some (pd_ID p)"
  shows "map (snapshot_of \<circ> product_of) (filter (\<lambda>r. pw_id r = v \<and> pw_available r) new) =
    map snapshot_of (filter (\<lambda>p. pd_ID p = v \<and> pd_Available p) products)"
  using assms by (induction rule: list_all2_induct) (auto simp: published_def snapshot_of_def product_of_def)

lemma resolve_published:
  assumes "publishes canon products db db'" and "\<forall>p \<in> set products. canon (pd_ID p) = Some (pd_ID p)" and "canon v = Some v"
  shows "\<exists>snaps. ResolveCheckoutProducts canon Done db' [v] = Inr snaps \<and>
    filter snap_Orderable snaps = map snapshot_of (filter (\<lambda>p. pd_ID p = v \<and> pd_Available p) products)"
proof -
  from assms(1) obtain new where new: "list_all2 (published canon (cd_revision db + 1)) products new"
    "cd_revision db' = cd_revision db + 1"
    "cd_products db' = filter (\<lambda>r. pw_revision r = cd_revision db) (cd_products db) @ new @
       map (\<lambda>r. r\<lparr>pw_available := False, pw_revision := cd_revision db + 1\<rparr>)
         (filter (\<lambda>r. pw_revision r = cd_revision db \<and> pw_id r \<notin> pw_id ` set new) (cd_products db))"
    unfolding publishes_def by blast
  let ?rows = "sort_key pw_id (filter (\<lambda>x. pw_revision x = cd_revision db + 1 \<and> v = pw_id x) (cd_products db'))"
  let ?here = "filter (\<lambda>r. pw_id r = v \<and> pw_available r)"
  have "filter pw_available ?rows = sort_key pw_id (filter (\<lambda>r. pw_revision r = cd_revision db + 1 \<and> pw_id r = v \<and> pw_available r) (cd_products db'))"
    by (auto simp: filter_sort intro!: arg_cong [where f = "sort_key pw_id"] filter_cong)
  also have "filter (\<lambda>r. pw_revision r = cd_revision db + 1 \<and> pw_id r = v \<and> pw_available r) (cd_products db') = ?here new"
  proof -
    have "filter (\<lambda>r. pw_revision r = cd_revision db + 1 \<and> pw_id r = v \<and> pw_available r) new = ?here new"
      using new_rows [OF new(1)] by (intro filter_cong) auto
    then show ?thesis by (simp add: new(3) filter_map comp_def)
  qed
  also have "sort_key pw_id (?here new) = ?here new"
  proof (rule sort_key_id_if_sorted)
    have "map pw_id (?here new) = replicate (length (?here new)) v" by (intro replicate_eqI) auto
    then show "sorted (map pw_id (?here new))" by simp
  qed
  finally have avail: "filter pw_available ?rows = ?here new" .
  have "ResolveCheckoutProducts canon Done db' [v] = Inr (map (snapshot_of \<circ> product_of) ?rows)"
    using assms(3) by (simp add: ResolveCheckoutProducts_def Resolve_store_def new(2) snapshot_of_def comp_def)
  moreover have "filter snap_Orderable (map (snapshot_of \<circ> product_of) ?rows) = map (snapshot_of \<circ> product_of) (filter pw_available ?rows)"
    by (simp add: filter_map comp_def snapshot_of_def product_of_def)
  ultimately show ?thesis
    using published_snapshots [OF new(1) assms(2), of v] avail by auto
qed

text \<open>
  C2: the catalog of the point of sale reaches checkout. When the catalog service is connected to the
  adapter (same token, answers within the limit of size, products that the columns take), a
  synchronisation ends and succeeds; and then, for every product identifier, what checkout finds
  orderable under it is exactly the product that the adapter has available under it, with the name
  and the price of the point of sale, however many pages the catalog has and whatever the last
  snapshot held.
\<close>

theorem sync_publishes_adapter_catalog:
  assumes "text_ok cd" and "rt_tokenDigest routes = rt_sha256 routes token" and "\<forall>p \<in> set (catalog_rows db 0). travels cd p"
    and "distinct (map im_id (sd_items db))"
    and "\<forall>after. bytes (snd (products_route routes cd Done (products_request token (Itoa syncPageSize) after) db)) \<le> maxResponseBytes"
    and "catalog_later (cd_parse cd) canon empty_catalog odb" and "in64 (cd_revision odb + 1)"
    and "\<forall>u. canon (cd_text cd u) = Some (cd_text cd u)" and "\<forall>p \<in> set (catalog_rows db 0). storable canon (read_product cd p)"
  shows "\<exists>odb'. Sync (cd_parse cd) canon
      (Products_http (cd_parse cd) (cd_parse_time cd) maxResponseBytes (products_link routes cd token bytes db)) (\<lambda>_. Done) now odb =
      Some (Inr (), odb') \<and>
    (\<forall>u. \<exists>snaps. ResolveCheckoutProducts canon Done odb' [cd_text cd u] = Inr snaps \<and>
       filter snap_Orderable snaps = map (\<lambda>p. snapshot_of (read_product cd p))
         (filter (\<lambda>p. cp_ProductID p = u \<and> cp_Available p) (catalog_rows db 0)))"
proof -
  let ?products = "map (read_product cd) (catalog_rows db 0)"
  have inj: "cd_text cd x = cd_text cd y \<longleftrightarrow> x = y" for x y using assms(1) by (metis text_ok_def option.inject)
  have "map pd_ID ?products = map (cd_text cd) (map cp_ProductID (catalog_rows db 0))" by (simp add: read_product_def)
  moreover have "distinct (map (cd_text cd) (map cp_ProductID (catalog_rows db 0)))"
    using catalog_rows_sorted(2) [OF assms(4), of 0] unfolding distinct_map [of "cd_text cd"] by (auto intro: inj_onI simp: inj)
  ultimately have dist: "distinct (map pd_ID ?products)" by metis
  have valid: "\<forall>p \<in> set ?products. Validate_product (cd_parse cd) p = None \<and> storable canon p"
    using read_product_valid [OF assms(1)] assms(3,9) by auto
  from ReplaceSnapshot_succeeds [OF reachable_catalog [OF assms(6)] assms(7) valid dist] obtain odb' where
    run: "ReplaceSnapshot (cd_parse cd) canon (\<lambda>_. Done) ?products now odb = (Inr (), odb')" "publishes canon ?products odb odb'"
    by blast
  have "read_source (cd_parse cd) (Products_http (cd_parse cd) (cd_parse_time cd) maxResponseBytes (products_link routes cd token bytes db))
      0 [] {} ({}, []) = Some (Inr ?products)"
    using valid dist by (intro read_source_all adapter_serves assms(1-5)) blast
  then have "Sync (cd_parse cd) canon (Products_http (cd_parse cd) (cd_parse_time cd) maxResponseBytes (products_link routes cd token bytes db))
      (\<lambda>_. Done) now odb = Some (Inr (), odb')"
    by (simp add: Sync_def run(1))
  moreover have "\<exists>snaps. ResolveCheckoutProducts canon Done odb' [cd_text cd u] = Inr snaps \<and>
       filter snap_Orderable snaps = map (\<lambda>p. snapshot_of (read_product cd p))
         (filter (\<lambda>p. cp_ProductID p = u \<and> cp_Available p) (catalog_rows db 0))" for u
  proof -
    have "filter (\<lambda>p. pd_ID p = cd_text cd u \<and> pd_Available p) ?products =
        map (read_product cd) (filter (\<lambda>p. cp_ProductID p = u \<and> cp_Available p) (catalog_rows db 0))"
      by (simp add: filter_map comp_def read_product_def inj)
    with resolve_published [OF run(2), of "cd_text cd u"] valid assms(8) show ?thesis
      by (auto simp: storable_def comp_def)
  qed
  ultimately show ?thesis by blast
qed

end
