(* ===== verification/Catalog_Samples.thy ===== *)
theory Catalog_Samples
  imports Catalog_Agreement
begin

text \<open>
  Two small catalogs at which the properties of the catalog module apply: one that is published
  twice, and the stock of \<open>Stock_Samples\<close> on its way to checkout.
\<close>

section \<open>Two publications\<close>

definition sample_product :: "string \<Rightarrow> Product" where
  "sample_product i = \<lparr>pd_ID = i, pd_Name = ''coffee'', pd_Description = [], pd_PriceCentavos = 100, pd_CategoryID = ''c'',
     pd_CategoryName = ''drinks'', pd_ImageURL = [], pd_Available = True, pd_SourceUpdatedAt = 5, pd_Revision = 0\<rparr>"

definition sample_product_row :: "string \<Rightarrow> int \<Rightarrow> bool \<Rightarrow> product_row" where
  "sample_product_row i revision available = \<lparr>pw_id = i, pw_name = ''coffee'', pw_description = [], pw_price = 100,
     pw_category = ''c'', pw_category_name = ''drinks'', pw_image = None, pw_available = available, pw_source_updated = 5,
     pw_revision = revision\<rparr>"

definition catalog_one :: catalog_db where
  "catalog_one = \<lparr>cd_revision = 1, cd_completed = Some 7, cd_products = [sample_product_row ''a'' 1 True, sample_product_row ''b'' 1 True]\<rparr>"

definition catalog_two :: catalog_db where
  "catalog_two = \<lparr>cd_revision = 2, cd_completed = Some 8, cd_products = [sample_product_row ''a'' 1 True, sample_product_row ''b'' 1 True,
     sample_product_row ''a'' 2 True, sample_product_row ''b'' 2 False]\<rparr>"

lemma sample_plain: "TrimSpace ''a'' = ''a''" "TrimSpace ''b'' = ''b''" "TrimSpace ''c'' = ''c''" "TrimSpace ''coffee'' = ''coffee''"
  "TrimSpace ''drinks'' = ''drinks''" "TrimSpace ''product'' = ''product''"
  by (rule TrimSpace_plain, simp add: byte_def IsSpace_def)+

lemma sample_texts: "pg_text ''coffee''" "pg_text ''drinks''" "pg_text ''product''" "pg_text []"
  "text_between (Suc 0) 200 (btrim ''coffee'')" "text_between (Suc 0) 200 (btrim ''drinks'')" "text_between (Suc 0) 200 (btrim ''product'')"
  "text_between 0 2000 []"
  by (simp_all add: pg_text_ascii text_between_ascii byte_def btrim_def)

lemma sample_product_valid: "i \<in> {''a'', ''b''} \<Longrightarrow> Validate_product Some (sample_product i) = None"
  by (auto simp: Validate_product_None sample_product_def sample_plain)

lemma sample_row_check: "0 < revision \<Longrightarrow> product_check (sample_product_row i revision available)"
  by (simp add: product_check_def sample_product_row_def sample_texts)

lemma first_publication:
  "ReplaceSnapshot Some Some (\<lambda>_. Done) [sample_product ''a'', sample_product ''b''] 7 empty_catalog = (Inr (), catalog_one)"
proof -
  have rows: "insert_product Some 1 (sample_product ''a'') [] = Inr [sample_product_row ''a'' 1 True]"
    "insert_product Some 1 (sample_product ''b'') [sample_product_row ''a'' 1 True] =
       Inr [sample_product_row ''a'' 1 True, sample_product_row ''b'' 1 True]"
    using sample_row_check [of 1]
    by (simp_all add: insert_product_def sample_product_def sample_product_row_def insert_row_def last_image_def product_clash_def)
  show ?thesis
    using rows sample_product_valid
    by (simp add: ReplaceSnapshot_def tx_run_def empty_catalog_def in64_def max_int64_def catalog_one_def retained_def sample_product_row_def numeral_2_eq_2)
qed

lemma second_publication:
  "ReplaceSnapshot Some Some (\<lambda>_. Done) [sample_product ''a''] 8 catalog_one = (Inr (), catalog_two)"
proof -
  have rows: "insert_product Some 2 (sample_product ''a'') (cd_products catalog_one) =
      Inr (cd_products catalog_one @ [sample_product_row ''a'' 2 True])"
    using sample_row_check [of 2]
    by (simp add: insert_product_def sample_product_def sample_product_row_def insert_row_def last_image_def product_clash_def catalog_one_def)
  show ?thesis
    using rows sample_product_valid
    by (simp add: ReplaceSnapshot_def tx_run_def in64_def max_int64_def catalog_two_def retained_def catalog_one_def sample_product_row_def numeral_2_eq_2)
qed

lemma sample_catalogs: "catalog_later Some Some empty_catalog catalog_one" "catalog_later Some Some catalog_one catalog_one"
  "catalog_later Some Some catalog_one catalog_two"
  by (rule catalog_later.intros first_publication second_publication)+

lemma catalog_pages_walk_witness:
  "Service_Products Some (\<lambda>_. Done) (\<lambda>k. if k = 2 then catalog_two else catalog_one) 1 ''a'' 1 =
     Inr \<lparr>pa_Products = [product_of (sample_product_row ''b'' 1 True)], pa_SnapshotRevision = 1, pa_NextAfterID = []\<rparr>"
proof -
  have "map product_of (snapshot_rows 1 [] catalog_one) =
      [product_of (sample_product_row ''a'' 1 True)] @ [product_of (sample_product_row ''b'' 1 True)]"
    by (simp add: snapshot_rows_def catalog_one_def sample_product_row_def)
  with sample_catalogs show ?thesis
    using catalog_pages_walk [of Some Some catalog_one "\<lambda>k. if k = 2 then catalog_two else catalog_one" 1 1
        "[product_of (sample_product_row ''a'' 1 True)]" "[product_of (sample_product_row ''b'' 1 True)]"]
    by (simp add: catalog_one_def catalog_two_def sample_product_row_def)
qed

section \<open>From the stock to checkout\<close>

text \<open>A text form of identifiers that is never empty.\<close>

definition text_codec :: codec where
  "text_codec = sample_codec\<lparr>cd_text := (\<lambda>u. replicate (Suc (unat u)) CHR ''x''), cd_parse := (\<lambda>s. Some (of_nat (length s - 1)))\<rparr>"

definition catalog_routes :: "string stock_routes" where
  "catalog_routes = \<lparr>rt_sha256 = id, rt_tokenDigest = ''secret''\<rparr>"

lemma text_codec_ok: "text_ok text_codec"
proof -
  have "TrimSpace (replicate (Suc n) CHR ''x'') = replicate (Suc n) CHR ''x''" for n
    by (rule TrimSpace_plain) (auto simp: byte_def IsSpace_def)
  then show ?thesis by (simp add: text_ok_def text_codec_def sample_codec_def del: replicate.simps)
qed

definition sample_catalog_product :: "uuid \<Rightarrow> CatalogProduct" where
  "sample_catalog_product u = \<lparr>cp_ProductID = u, cp_Name = ''product'', cp_Description = [], cp_PriceCentavos = 100,
     cp_CategoryID = 50, cp_CategoryName = ''coffee'', cp_Available = True, cp_SourceUpdatedAt = 1\<rparr>"

lemma sample_catalog: "catalog_rows sample_stock 0 = map sample_catalog_product [1, 2, 3]"
  by code_simp

lemma sample_travels: "travels text_codec (sample_catalog_product u)" if "u \<noteq> 0"
  using that by (simp add: travels_def product_valid_def sample_catalog_product_def sample_plain in64_def max_int64_def text_codec_def sample_codec_def)

lemma sync_publishes_adapter_catalog_witness:
  "\<exists>db. Sync (cd_parse text_codec) Some (Products_http (cd_parse text_codec) (cd_parse_time text_codec) 1000
       (products_link catalog_routes text_codec ''secret'' (\<lambda>_. 400) sample_stock)) (\<lambda>_. Done) 9 empty_catalog = Some (Inr (), db) \<and>
     (\<exists>snaps. ResolveCheckoutProducts Some Done db [''xxx''] = Inr snaps \<and> filter snap_Orderable snaps =
       [\<lparr>snap_ProductID = ''xxx'', snap_Name = ''product'', snap_UnitPriceCentavos = 100, snap_Orderable = True\<rparr>])"
proof -
  have storable: "storable Some (read_product text_codec (sample_catalog_product u))" for u
    by (simp add: storable_def read_product_def sample_catalog_product_def sample_texts)
  have xxx: "cd_text text_codec 2 = ''xxx''" by code_simp
  have rows: "\<forall>p \<in> set (catalog_rows sample_stock 0). travels text_codec p"
    "\<forall>p \<in> set (catalog_rows sample_stock 0). storable Some (read_product text_codec p)"
    unfolding sample_catalog using storable sample_travels by simp_all
  have later: "catalog_later (cd_parse text_codec) Some empty_catalog empty_catalog" by (rule catalog_later.catalog_same)
  have token: "rt_tokenDigest catalog_routes = rt_sha256 catalog_routes ''secret''" by (simp add: catalog_routes_def)
  have revision: "in64 (cd_revision empty_catalog + 1)" by (simp add: empty_catalog_def in64_def max_int64_def)
  from sync_publishes_adapter_catalog [OF text_codec_ok token rows(1) sample_items _ later revision _ rows(2), of "\<lambda>_. 400" 1000 9]
  obtain db where db: "Sync (cd_parse text_codec) Some (Products_http (cd_parse text_codec) (cd_parse_time text_codec) 1000
       (products_link catalog_routes text_codec ''secret'' (\<lambda>_. 400) sample_stock)) (\<lambda>_. Done) 9 empty_catalog = Some (Inr (), db)"
    "\<forall>u. \<exists>snaps. ResolveCheckoutProducts Some Done db [cd_text text_codec u] = Inr snaps \<and>
       filter snap_Orderable snaps = map (\<lambda>p. snapshot_of (read_product text_codec p))
         (filter (\<lambda>p. cp_ProductID p = u \<and> cp_Available p) (catalog_rows sample_stock 0))"
    by auto
  have "map (\<lambda>p. snapshot_of (read_product text_codec p)) (filter (\<lambda>p. cp_ProductID p = 2 \<and> cp_Available p) (catalog_rows sample_stock 0)) =
      [\<lparr>snap_ProductID = ''xxx'', snap_Name = ''product'', snap_UnitPriceCentavos = 100, snap_Orderable = True\<rparr>]"
    unfolding sample_catalog by (simp add: sample_catalog_product_def snapshot_of_def read_product_def xxx)
  with db(1) db(2) [THEN spec, of 2] show ?thesis by (simp add: xxx)
qed

end
