(* ===== verification/Api_Http.thy ===== *)
theory Api_Http
  imports Go_Http Order_Fakes Identity_Signup
begin

text \<open>
  What every route of the ordering API shares: the envelope of the answers
  (\<open>platform/httpserver/response.go\<close>), the correlation identifier (\<open>middleware.go\<close>), the decoder
  of the bodies, and the authentication and the roles of \<open>identity/transport/http.go\<close>. A handler
  hands its answer to the interface \<open>Responder\<close>, which \<open>JSONResponder\<close> implements; a JSON object
  that the code builds as a Go map is written with its keys in the order of the source.
\<close>

section \<open>Answers\<close>

datatype response = Success int json | Failure int string string

record answer =
  an_headers :: "(string \<times> string) list"
  an_response :: response

definition plain_answer :: "response \<Rightarrow> answer" where
  "plain_answer r = \<lparr>an_headers = [], an_response = r\<rparr>"

text \<open>\<open>JSONResponder\<close>: the status and the envelope, with the correlation identifier of the request.\<close>

definition meta_json :: "string \<Rightarrow> string \<times> json" where
  "meta_json correlationID = (''meta'', JObj [(''request_id'', JStr correlationID)])"

definition JSONResponder :: "string \<Rightarrow> response \<Rightarrow> int \<times> json" where
  "JSONResponder correlationID r =
     (case r of
        Success status data \<Rightarrow> (status, JObj [(''data'', data), meta_json correlationID])
      | Failure status code message \<Rightarrow>
          (status, JObj [(''error'', JObj [(''code'', JStr code), (''message'', JStr message)]), meta_json correlationID]))"

text \<open>The status of an answer.\<close>

definition status_of :: "answer \<Rightarrow> int" where
  "status_of a = (case an_response a of Success status _ \<Rightarrow> status | Failure status _ _ \<Rightarrow> status)"

lemma status_of_simps [simp]:
  "status_of (plain_answer (Success s d)) = s" "status_of (plain_answer (Failure s c m)) = s"
  by (simp_all add: status_of_def plain_answer_def)

text \<open>A call of a service turned into an answer.\<close>

definition answer_with :: "('e \<Rightarrow> answer) \<Rightarrow> ('a \<Rightarrow> answer) \<Rightarrow> ('e + 'a) \<times> 's \<Rightarrow> answer \<times> 's" where
  "answer_with failed ok call = (case call of (Inl e, st) \<Rightarrow> (failed e, st) | (Inr v, st) \<Rightarrow> (ok v, st))"

lemma answer_with_simps [simp]:
  "answer_with failed ok (Inl e, st) = (failed e, st)" "answer_with failed ok (Inr v, st) = (ok v, st)"
  by (simp_all add: answer_with_def)

lemma snd_answer_with [simp]: "snd (answer_with failed ok call) = snd call"
  by (simp add: answer_with_def split: prod.split sum.split)

section \<open>The correlation identifier\<close>

definition validCorrelationID :: "string \<Rightarrow> bool" where
  "validCorrelationID value \<longleftrightarrow> \<not> (length value < 1 \<or> length value > 128) \<and>
     list_all (\<lambda>(r, _). (97 \<le> r \<and> r \<le> 122) \<or> (65 \<le> r \<and> r \<le> 90) \<or> (48 \<le> r \<and> r \<le> 57) \<or> r = 45 \<or> r = 95 \<or> r = 46)
       (utf8_segs value)"

text \<open>Sixteen random bytes, or the text of the time when the source of randomness fails.\<close>

definition newCorrelationID :: "8 word list option \<Rightarrow> string \<Rightarrow> string" where
  "newCorrelationID randomness now_text =
     (case randomness of
        None \<Rightarrow> take 32 (hex_text (map (\<lambda>c. word_of_nat (byte c)) now_text))
      | Some value \<Rightarrow> hex_text value)"

text \<open>\<open>withCorrelation\<close>: the identifier that the request runs under, which the answer also carries.\<close>

definition withCorrelation :: "8 word list option \<Rightarrow> string \<Rightarrow> string \<Rightarrow> string" where
  "withCorrelation randomness now_text header =
     (let correlationID = TrimSpace header in
      if \<not> validCorrelationID correlationID then newCorrelationID randomness now_text else correlationID)"

section \<open>Bodies and tokens\<close>

definition decodeJSON :: "(json \<Rightarrow> 'a option) \<Rightarrow> http_request \<Rightarrow> 'a option" where
  "decodeJSON dec request = (case decode_body dec request of Inl _ \<Rightarrow> None | Inr a \<Rightarrow> Some a)"

text \<open>\<open>strings.Fields\<close>: the words of a text, with the word read so far.\<close>

fun fields_of :: "(nat \<times> string) list \<Rightarrow> string \<Rightarrow> string list" where
  "fields_of [] word = (if word = [] then [] else [word])"
| "fields_of ((r, bs) # segs) word =
     (if IsSpace r then (if word = [] then [] else [word]) @ fields_of segs [] else fields_of segs (word @ bs))"

definition Fields :: "string \<Rightarrow> string list" where
  "Fields s = fields_of (utf8_segs s) []"

text \<open>\<open>strings.EqualFold\<close> against the name, whose letters fold to no others.\<close>

definition bearerToken :: "string \<Rightarrow> string option" where
  "bearerToken header =
     (case Fields header of
        [scheme, token] \<Rightarrow> if fold_name scheme \<noteq> fold_name ''Bearer'' \<or> token = [] then None else Some token
      | _ \<Rightarrow> None)"

section \<open>Errors of the identity module\<close>

definition identity_response :: "identity_error \<Rightarrow> response" where
  "identity_response e =
     (case e of
        IdInvalidInput \<Rightarrow> Failure 400 ''INVALID_REQUEST'' ''The request is invalid.''
      | IdInvalidCredentials \<Rightarrow> Failure 401 ''INVALID_CREDENTIALS'' ''The email or password is incorrect.''
      | IdInvalidOAuthToken \<Rightarrow> Failure 401 ''INVALID_OAUTH_CREDENTIAL'' ''The provider credential is invalid.''
      | IdInvalidOAuthIntent \<Rightarrow> Failure 400 ''INVALID_OAUTH_INTENT'' ''The sign-in request is invalid or expired.''
      | IdIdentityLinkRequired \<Rightarrow>
          Failure 409 ''IDENTITY_LINK_REQUIRED'' ''Sign in to the existing account before connecting this provider.''
      | IdIdentityLinked \<Rightarrow> Failure 409 ''IDENTITY_ALREADY_LINKED'' ''This provider identity is already connected.''
      | IdAccountDisabled \<Rightarrow> Failure 403 ''ACCOUNT_DISABLED'' ''This account is disabled.''
      | IdPasswordChangeRequired \<Rightarrow> Failure 403 ''PASSWORD_CHANGE_REQUIRED'' ''Set a new password before continuing.''
      | IdCashierNotFound \<Rightarrow> Failure 404 ''CASHIER_NOT_FOUND'' ''Cashier account not found.''
      | IdEmailInUse \<Rightarrow> Failure 409 ''EMAIL_IN_USE'' ''This email already belongs to another account.''
      | IdUnauthenticated \<Rightarrow> Failure 401 ''UNAUTHENTICATED'' ''Authentication is required.''
      | IdForbidden \<Rightarrow> Failure 403 ''FORBIDDEN'' ''This account cannot perform that action.''
      | _ \<Rightarrow> Failure 500 ''INTERNAL_ERROR'' ''An unexpected error occurred.'')"

definition identity_fail :: "identity_error \<Rightarrow> answer" where
  "identity_fail e = plain_answer (identity_response e)"

section \<open>Authentication and roles\<close>

type_synonym 's handler = "http_request \<Rightarrow> Principal \<Rightarrow> 's \<Rightarrow> answer \<times> 's"

text \<open>\<open>authenticate\<close> is \<open>Service.Authenticate\<close> on the store as the request finds it.\<close>

definition authenticated ::
    "(string \<Rightarrow> identity_error + Principal) \<Rightarrow> 's handler \<Rightarrow> http_request \<Rightarrow> 's \<Rightarrow> answer \<times> 's" where
  "authenticated authenticate next request st =
     (case bearerToken (hq_authorization request) of
        None \<Rightarrow> (identity_fail IdUnauthenticated, st)
      | Some token \<Rightarrow>
          (case authenticate token of
             Inl e \<Rightarrow> (identity_fail e, st)
           | Inr caller \<Rightarrow> next request caller st))"

definition RequireRole ::
    "(string \<Rightarrow> identity_error + Principal) \<Rightarrow> Role \<Rightarrow> 's handler \<Rightarrow> http_request \<Rightarrow> 's \<Rightarrow> answer \<times> 's" where
  "RequireRole authenticate role next =
     authenticated authenticate (\<lambda>request caller st.
       case Authorize caller role of
         Some e \<Rightarrow> (identity_fail e, st)
       | None \<Rightarrow> next request caller st)"

lemma Authorize_None:
  "Authorize caller role = None \<longleftrightarrow> pr_Status caller = AccountActive \<and> \<not> pr_PasswordChangeRequired caller \<and> pr_Role caller = role"
  by (auto simp: Authorize_def)

lemma identity_fail_status: "400 \<le> status_of (identity_fail e)"
  by (cases e) (simp_all add: identity_fail_def identity_response_def)

text \<open>A request either is refused with nothing changed, or runs the handler for its caller.\<close>

lemma RequireRole_cases:
  obtains (refused) e where "RequireRole authenticate role next request st = (identity_fail e, st)"
  | (allowed) token caller where "bearerToken (hq_authorization request) = Some token" "authenticate token = Inr caller"
      "pr_Status caller = AccountActive" "\<not> pr_PasswordChangeRequired caller" "pr_Role caller = role"
      "RequireRole authenticate role next request st = next request caller st"
proof (cases "bearerToken (hq_authorization request)")
  case None
  then show ?thesis by (intro refused) (simp add: RequireRole_def authenticated_def)
next
  case (Some token)
  show ?thesis
  proof (cases "authenticate token")
    case (Inl e)
    with Some show ?thesis by (intro refused) (simp add: RequireRole_def authenticated_def)
  next
    case (Inr caller)
    show ?thesis
    proof (cases "Authorize caller role")
      case None
      with Some Inr have "RequireRole authenticate role next request st = next request caller st"
        by (simp add: RequireRole_def authenticated_def)
      with Some Inr None [unfolded Authorize_None] show ?thesis by (intro allowed [of token caller]) simp_all
    qed (use Some Inr in \<open>auto intro!: refused simp: RequireRole_def authenticated_def\<close>)
  qed
qed

end
