(* ===== verification/Api_Identity.thy ===== *)
theory Api_Identity
  imports Api_Http
begin

text \<open>
  The handlers of the identity module: \<open>http.go\<close>, \<open>registration_http.go\<close>, \<open>cashiers_http.go\<close> and
  \<open>cashier_registration_http.go\<close> under \<open>identity/transport\<close>. Their state is the store and the
  messages handed to the mailer. A request makes up to three calls of the services, each with its
  own surroundings; others may move the store between them. \<open>clientIP\<close> is the host of the remote
  address; \<open>ic_time\<close> writes a time as \<open>time.Time\<close> does in JSON.
\<close>

section \<open>Surroundings\<close>

type_synonym identity_state = "identity_db \<times> message list"

record identity_calls =
  ic_auth :: identity_env
  ic_main :: identity_env
  ic_view :: identity_env
  ic_between :: "identity_db \<Rightarrow> identity_db"
  ic_clientIP :: string
  ic_time :: "int \<Rightarrow> string"

text \<open>A call on the store, and one that also hands over a message.\<close>

definition on_store :: "(identity_db \<Rightarrow> 'r \<times> identity_db) \<Rightarrow> identity_state \<Rightarrow> 'r \<times> identity_state" where
  "on_store call st = (case call (fst st) of (res, db) \<Rightarrow> (res, (db, snd st)))"

definition on_mail ::
    "(identity_db \<Rightarrow> ('e + 'a \<times> message option) \<times> identity_db) \<Rightarrow> identity_state \<Rightarrow> ('e + 'a) \<times> identity_state" where
  "on_mail call st =
     (case call (fst st) of
        (Inl e, db) \<Rightarrow> (Inl e, (db, snd st))
      | (Inr (v, mail), db) \<Rightarrow> (Inr v, (db, snd st @ (case mail of None \<Rightarrow> [] | Some m \<Rightarrow> [m]))))"

section \<open>Bodies\<close>

record passwordLoginRequest =
  plr_Email :: string
  plr_Password :: string

definition decode_login :: "json \<Rightarrow> passwordLoginRequest option" where
  "decode_login = decode_struct True
     [(''email'', string_field (\<lambda>s. plr_Email_update (\<lambda>_. s))), (''password'', string_field (\<lambda>s. plr_Password_update (\<lambda>_. s)))]
     \<lparr>plr_Email = [], plr_Password = []\<rparr>"

record oauthCompleteRequest =
  ocr_IntentID :: string
  ocr_IdentityToken :: string

definition decode_complete :: "json \<Rightarrow> oauthCompleteRequest option" where
  "decode_complete = decode_struct True
     [(''intent_id'', string_field (\<lambda>s. ocr_IntentID_update (\<lambda>_. s))),
      (''identity_token'', string_field (\<lambda>s. ocr_IdentityToken_update (\<lambda>_. s)))]
     \<lparr>ocr_IntentID = [], ocr_IdentityToken = []\<rparr>"

record beginRegistrationRequest =
  brr_Name :: string
  brr_Email :: string
  brr_Password :: string

definition decode_begin :: "json \<Rightarrow> beginRegistrationRequest option" where
  "decode_begin = decode_struct True
     [(''name'', string_field (\<lambda>s. brr_Name_update (\<lambda>_. s))), (''email'', string_field (\<lambda>s. brr_Email_update (\<lambda>_. s))),
      (''password'', string_field (\<lambda>s. brr_Password_update (\<lambda>_. s)))]
     \<lparr>brr_Name = [], brr_Email = [], brr_Password = []\<rparr>"

record registrationCodeRequest =
  rcr_RegistrationID :: string
  rcr_Code :: string

definition decode_code :: "json \<Rightarrow> registrationCodeRequest option" where
  "decode_code = decode_struct True
     [(''registration_id'', string_field (\<lambda>s. rcr_RegistrationID_update (\<lambda>_. s))), (''code'', string_field (\<lambda>s. rcr_Code_update (\<lambda>_. s)))]
     \<lparr>rcr_RegistrationID = [], rcr_Code = []\<rparr>"

record changePasswordRequest =
  cpr_CurrentPassword :: string
  cpr_NewPassword :: string

definition decode_change :: "json \<Rightarrow> changePasswordRequest option" where
  "decode_change = decode_struct True
     [(''current_password'', string_field (\<lambda>s. cpr_CurrentPassword_update (\<lambda>_. s))),
      (''new_password'', string_field (\<lambda>s. cpr_NewPassword_update (\<lambda>_. s)))]
     \<lparr>cpr_CurrentPassword = [], cpr_NewPassword = []\<rparr>"

text \<open>The bodies with one text: the field named.\<close>

definition decode_one :: "string \<Rightarrow> json \<Rightarrow> string option" where
  "decode_one name = decode_struct True [(name, string_field (\<lambda>s _. s))] []"

definition provider_of :: "string \<Rightarrow> Provider" where
  "provider_of s = (if s = ''PASSWORD'' then ProviderPassword else if s = ''GOOGLE'' then ProviderGoogle
     else if s = ''APPLE'' then ProviderApple else ProviderOther s)"

definition account_status_of :: "string \<Rightarrow> AccountStatus" where
  "account_status_of s = (if s = ''ACTIVE'' then AccountActive else if s = ''DISABLED'' then AccountDisabled else AccountOther s)"

definition account_status_name :: "AccountStatus \<Rightarrow> string" where
  "account_status_name s = (case s of AccountActive \<Rightarrow> ''ACTIVE'' | AccountDisabled \<Rightarrow> ''DISABLED'' | AccountOther t \<Rightarrow> t)"

definition role_name :: "Role \<Rightarrow> string" where
  "role_name r = (case r of RoleCustomer \<Rightarrow> ''CUSTOMER'' | RoleCashier \<Rightarrow> ''CASHIER'' | RoleAdmin \<Rightarrow> ''ADMIN'' | RoleOther t \<Rightarrow> t)"

section \<open>Responses\<close>

definition userResponse :: "User \<Rightarrow> (string \<times> json) list" where
  "userResponse u = [(''user_id'', JStr (us_ID u)), (''name'', JStr (us_Name u)), (''email'', JStr (us_NormalizedEmail u)),
     (''role'', JStr (role_name (us_Role u))), (''status'', JStr (account_status_name (us_Status u))),
     (''password_change_required'', JBool (us_PasswordChangeRequired u))]"

definition sessionResponse :: "(int \<Rightarrow> string) \<Rightarrow> SessionTokens \<Rightarrow> json" where
  "sessionResponse time v = JObj [(''access_token'', JStr (st_AccessToken v)),
     (''access_token_expires_at'', JStr (time (st_AccessTokenExpiresAt v))),
     (''refresh_token'', JStr (st_RefreshToken v)), (''refresh_token_expires_at'', JStr (time (st_RefreshTokenExpiresAt v))),
     (''user'', JObj (userResponse (st_User v)))]"

text \<open>A nil slice of providers is written as \<open>null\<close>.\<close>

definition userViewResponse :: "UserView \<Rightarrow> (string \<times> json) list" where
  "userViewResponse v = userResponse (uv_User v) @
     [(''connected_providers'', if uv_Providers v = [] then JNull else JArr (map (\<lambda>p. JStr (provider_name p)) (uv_Providers v)))]"

definition cashierResponse :: "(int \<Rightarrow> string) \<Rightarrow> UserView \<Rightarrow> json" where
  "cashierResponse time v = JObj (userViewResponse v @
     [(''created'', JBool (uv_Created v)), (''email_verified'', JBool (uv_EmailVerified v)),
      (''audit'', JArr (map (\<lambda>a. JObj [(''action'', JStr (ae_Action a)), (''actor_user_id'', JStr (ae_ActorUserID a)),
         (''result'', JStr (ae_Result a)), (''occurred_at'', JStr (time (ae_OccurredAt a)))]) (uv_Audit v)))])"

definition oauth_start_json :: "(int \<Rightarrow> string) \<Rightarrow> OAuthStart \<Rightarrow> json" where
  "oauth_start_json time v = JObj [(''intent_id'', JStr (os_IntentID v)), (''provider'', JStr (provider_name (os_Provider v))),
     (''nonce'', JStr (os_Nonce v)), (''expires_at'', JStr (time (os_ExpiresAt v)))]"

definition registration_start_json :: "(int \<Rightarrow> string) \<Rightarrow> RegistrationStart \<Rightarrow> json" where
  "registration_start_json time v = JObj [(''registration_id'', JStr (rs_ID v)), (''expires_at'', JStr (time (rs_ExpiresAt v)))]"

abbreviation ok_answer :: "int \<Rightarrow> ('a \<Rightarrow> json) \<Rightarrow> 'a \<Rightarrow> answer" where
  "ok_answer status encode v \<equiv> plain_answer (Success status (encode v))"

abbreviation status_answer :: "string \<Rightarrow> unit \<Rightarrow> answer" where
  "status_answer text _ \<equiv> plain_answer (Success 200 (JObj [(''status'', JStr text)]))"

section \<open>Sessions and sign-on\<close>

text \<open>A handler that reads a body first.\<close>

definition with_body ::
    "(json \<Rightarrow> 'b option) \<Rightarrow> answer \<Rightarrow> ('b \<Rightarrow> 's \<Rightarrow> answer \<times> 's) \<Rightarrow> http_request \<Rightarrow> 's \<Rightarrow> answer \<times> 's" where
  "with_body dec invalid run request st = (case decodeJSON dec request of None \<Rightarrow> (invalid, st) | Some body \<Rightarrow> run body st)"

definition passwordLogin :: "identity_calls \<Rightarrow> http_request \<Rightarrow> identity_state \<Rightarrow> answer \<times> identity_state" where
  "passwordLogin calls = with_body decode_login (identity_fail IdInvalidInput) (\<lambda>body st.
     answer_with identity_fail (ok_answer 200 (sessionResponse (ic_time calls)))
       (on_store (PasswordLogin (ic_main calls) (plr_Email body) (plr_Password body)) st))"

definition oauthLoginIntent :: "identity_calls \<Rightarrow> http_request \<Rightarrow> identity_state \<Rightarrow> answer \<times> identity_state" where
  "oauthLoginIntent calls = with_body (decode_one ''provider'') (identity_fail IdInvalidInput) (\<lambda>provider st.
     answer_with identity_fail (ok_answer 201 (oauth_start_json (ic_time calls)))
       (on_store (BeginOAuthLogin (ic_main calls) (provider_of provider)) st))"

definition oauthLogin :: "identity_calls \<Rightarrow> http_request \<Rightarrow> identity_state \<Rightarrow> answer \<times> identity_state" where
  "oauthLogin calls = with_body decode_complete (identity_fail IdInvalidInput) (\<lambda>body st.
     answer_with identity_fail (ok_answer 200 (sessionResponse (ic_time calls)))
       (on_store (Service_OAuthLogin (ic_main calls) (ocr_IntentID body) (ocr_IdentityToken body)) st))"

definition refresh_handler :: "identity_calls \<Rightarrow> http_request \<Rightarrow> identity_state \<Rightarrow> answer \<times> identity_state" where
  "refresh_handler calls = with_body (decode_one ''refresh_token'') (identity_fail IdUnauthenticated) (\<lambda>refreshToken st.
     answer_with identity_fail (ok_answer 200 (sessionResponse (ic_time calls)))
       (on_store (Refresh (ic_main calls) refreshToken) st))"

definition logout_handler :: "identity_calls \<Rightarrow> http_request \<Rightarrow> identity_state \<Rightarrow> answer \<times> identity_state" where
  "logout_handler calls request st =
     (case bearerToken (hq_authorization request) of
        None \<Rightarrow> (identity_fail IdUnauthenticated, st)
      | Some token \<Rightarrow> answer_with identity_fail (status_answer ''logged_out'') (on_store (Logout (ic_main calls) token) st))"

definition me_handler :: "identity_calls \<Rightarrow> identity_state handler" where
  "me_handler calls request caller st =
     answer_with identity_fail (ok_answer 200 (\<lambda>v. JObj (userViewResponse v))) (Me (ic_main calls) caller (fst st), st)"

definition oauthLinkIntent :: "identity_calls \<Rightarrow> identity_state handler" where
  "oauthLinkIntent calls request caller = with_body (decode_one ''provider'') (identity_fail IdInvalidInput) (\<lambda>provider st.
     answer_with identity_fail (ok_answer 201 (oauth_start_json (ic_time calls)))
       (on_store (BeginOAuthLink (ic_main calls) caller (provider_of provider)) st)) request"

definition oauthLink :: "identity_calls \<Rightarrow> identity_state handler" where
  "oauthLink calls request caller = with_body decode_complete (identity_fail IdInvalidInput) (\<lambda>body st.
     answer_with identity_fail (status_answer ''linked'')
       (on_store (LinkOAuth (ic_main calls) caller (ocr_IntentID body) (ocr_IdentityToken body)) st)) request"

section \<open>Administration\<close>

definition listCashiers :: "identity_calls \<Rightarrow> identity_state handler" where
  "listCashiers calls request actor st =
     answer_with identity_fail
       (ok_answer 200 (\<lambda>views. JObj [(''cashiers'', JArr (map (cashierResponse (ic_time calls)) views))]))
       (ListCashiers (ic_main calls) actor (account_status_of (hq_query request ''status'')) (fst st), st)"

definition cashier_handler :: "identity_calls \<Rightarrow> identity_state handler" where
  "cashier_handler calls request actor st =
     answer_with identity_fail (ok_answer 200 (cashierResponse (ic_time calls)))
       (Cashier (ic_main calls) actor (hq_path request ''cashier_id'') (fst st), st)"

definition setCashierStatus :: "identity_calls \<Rightarrow> identity_state handler" where
  "setCashierStatus calls request actor = with_body (decode_one ''status'') (identity_fail IdInvalidInput) (\<lambda>status st.
     answer_with identity_fail (ok_answer 200 (cashierResponse (ic_time calls)))
       (on_store (SetCashierStatus (ic_main calls) actor (hq_path request ''cashier_id'') (account_status_of status)) st)) request"

definition resetCashierPassword :: "identity_calls \<Rightarrow> identity_state handler" where
  "resetCashierPassword calls request actor = with_body (decode_one ''temporary_password'') (identity_fail IdInvalidInput)
     (\<lambda>temporaryPassword st.
        answer_with identity_fail (ok_answer 200 (cashierResponse (ic_time calls)))
          (on_store (ResetCashierPassword (ic_main calls) actor (hq_path request ''cashier_id'') temporaryPassword) st)) request"

definition changePassword :: "identity_calls \<Rightarrow> identity_state handler" where
  "changePassword calls request actor = with_body decode_change (identity_fail IdInvalidInput) (\<lambda>body st.
     (case on_store (ChangeOwnPassword (ic_main calls) actor (cpr_CurrentPassword body) (cpr_NewPassword body)) st of
        (Inl e, st1) \<Rightarrow> (identity_fail e, st1)
      | (Inr _, st1) \<Rightarrow>
          (let st2 = (ic_between calls (fst st1), snd st1) in
           answer_with identity_fail (ok_answer 200 (\<lambda>v. JObj (userViewResponse v))) (Me (ic_view calls) actor (fst st2), st2)))) request"

section \<open>Registration\<close>

definition registration_fail :: "identity_error \<Rightarrow> answer" where
  "registration_fail e =
     (case e of
        IdInvalidRegistrationName \<Rightarrow> plain_answer (Failure 400 ''INVALID_REQUEST'' ''Enter your name (up to 120 characters).'')
      | IdInvalidRegistrationEmail \<Rightarrow>
          plain_answer (Failure 400 ''INVALID_REQUEST'' ''Enter a valid email address, such as name@example.com.'')
      | IdInvalidRegistrationPassword \<Rightarrow> plain_answer (Failure 400 ''INVALID_REQUEST'' ''Use a password with 8 to 128 characters.'')
      | IdInvalidInput \<Rightarrow> plain_answer (Failure 400 ''INVALID_REQUEST'' ''The request is invalid.'')
      | IdInvalidRegistration \<Rightarrow>
          plain_answer (Failure 400 ''INVALID_REGISTRATION'' ''The code is invalid or expired. Request a new code.'')
      | IdRegistrationRateLimited \<Rightarrow>
          \<lparr>an_headers = [(''Retry-After'', ''60'')], an_response = Failure 429 ''REGISTRATION_RATE_LIMITED'' ''Please wait before trying again.''\<rparr>
      | IdRegistrationCooldown \<Rightarrow>
          \<lparr>an_headers = [(''Retry-After'', ''60'')], an_response = Failure 429 ''REGISTRATION_RATE_LIMITED'' ''Please wait before trying again.''\<rparr>
      | IdEmailUnavailable \<Rightarrow>
          plain_answer (Failure 503 ''EMAIL_UNAVAILABLE'' ''We could not send the email right now. Please try again.'')
      | _ \<Rightarrow> plain_answer (Failure 500 ''INTERNAL_ERROR'' ''An unexpected error occurred.''))"

definition registration_begin :: "identity_calls \<Rightarrow> http_request \<Rightarrow> identity_state \<Rightarrow> answer \<times> identity_state" where
  "registration_begin calls = with_body decode_begin (registration_fail IdInvalidInput) (\<lambda>body st.
     answer_with registration_fail (ok_answer 202 (registration_start_json (ic_time calls)))
       (on_mail (Begin (ic_main calls) (brr_Name body) (brr_Email body) (brr_Password body) (ic_clientIP calls)) st))"

definition registration_resend :: "identity_calls \<Rightarrow> http_request \<Rightarrow> identity_state \<Rightarrow> answer \<times> identity_state" where
  "registration_resend calls = with_body (decode_one ''registration_id'') (registration_fail IdInvalidInput) (\<lambda>rid st.
     answer_with registration_fail (ok_answer 202 (registration_start_json (ic_time calls)))
       (on_mail (Resend (ic_main calls) rid (ic_clientIP calls)) st))"

definition registration_verify :: "identity_calls \<Rightarrow> http_request \<Rightarrow> identity_state \<Rightarrow> answer \<times> identity_state" where
  "registration_verify calls = with_body decode_code (registration_fail IdInvalidInput) (\<lambda>body st.
     answer_with registration_fail (ok_answer 200 (sessionResponse (ic_time calls)))
       (on_store (Verify (ic_main calls) (rcr_RegistrationID body) (rcr_Code body)) st))"

definition cashier_registration_fail :: "identity_error \<Rightarrow> answer" where
  "cashier_registration_fail e =
     (if e = IdEmailInUse \<or> e = IdForbidden \<or> e = IdUnauthenticated \<or> e = IdPasswordChangeRequired then identity_fail e
      else registration_fail e)"

definition cashier_begin :: "identity_calls \<Rightarrow> identity_state handler" where
  "cashier_begin calls request actor = with_body decode_begin (identity_fail IdInvalidInput) (\<lambda>body st.
     answer_with cashier_registration_fail (ok_answer 202 (registration_start_json (ic_time calls)))
       (on_mail (BeginCashier (ic_main calls) actor (brr_Name body) (brr_Email body) (brr_Password body) (ic_clientIP calls)) st)) request"

definition cashier_resend :: "identity_calls \<Rightarrow> identity_state handler" where
  "cashier_resend calls request actor = with_body (decode_one ''registration_id'') (identity_fail IdInvalidInput) (\<lambda>rid st.
     answer_with cashier_registration_fail (ok_answer 202 (registration_start_json (ic_time calls)))
       (on_mail (ResendCashier (ic_main calls) actor rid (ic_clientIP calls)) st)) request"

definition cashier_verify :: "identity_calls \<Rightarrow> identity_state handler" where
  "cashier_verify calls request actor = with_body decode_code (identity_fail IdInvalidInput) (\<lambda>body st.
     answer_with cashier_registration_fail (ok_answer 200 (cashierResponse (ic_time calls)))
       (on_store (VerifyCashier (ic_main calls) actor (rcr_RegistrationID body) (rcr_Code body)) st)) request"

end
