(* ===== verification/Api_Orders.thy ===== *)
theory Api_Orders
  imports Api_Http Order_Service Catalog_Sync
begin

text \<open>
  The handlers of the ordering module (\<open>ordering/transport/http.go\<close>) over the order service, and of
  the catalog module (\<open>catalog/transport/http.go\<close>) over the catalog service. \<open>oc_upper\<close> is
  \<open>strings.ToUpper\<close>, \<open>oc_time\<close> writes a time as \<open>time.Time\<close> does in JSON.
\<close>

section \<open>Requests\<close>

record placeOrderLineRequest =
  pl_ProductID :: string
  pl_Quantity :: int
  pl_ExpectedUnitPriceCentavos :: int

record placeOrderRequest =
  po_CheckoutID :: string
  po_Lines :: "placeOrderLineRequest list"
  po_DeliveryAddress :: string
  po_DeliveryNotes :: string

definition decode_order_line :: "json \<Rightarrow> placeOrderLineRequest option" where
  "decode_order_line = decode_struct True
     [(''product_id'', string_field (\<lambda>s. pl_ProductID_update (\<lambda>_. s))), (''quantity'', int_field (\<lambda>i. pl_Quantity_update (\<lambda>_. i))),
      (''expected_unit_price_centavos'', int_field (\<lambda>i. pl_ExpectedUnitPriceCentavos_update (\<lambda>_. i)))]
     \<lparr>pl_ProductID = [], pl_Quantity = 0, pl_ExpectedUnitPriceCentavos = 0\<rparr>"

definition decode_order :: "json \<Rightarrow> placeOrderRequest option" where
  "decode_order = decode_struct True
     [(''checkout_id'', string_field (\<lambda>s. po_CheckoutID_update (\<lambda>_. s))),
      (''lines'', list_field decode_order_line (\<lambda>ls. po_Lines_update (\<lambda>_. ls))),
      (''delivery_address'', string_field (\<lambda>s. po_DeliveryAddress_update (\<lambda>_. s))),
      (''delivery_notes'', string_field (\<lambda>s. po_DeliveryNotes_update (\<lambda>_. s)))]
     \<lparr>po_CheckoutID = [], po_Lines = [], po_DeliveryAddress = [], po_DeliveryNotes = []\<rparr>"

definition order_command :: "Principal \<Rightarrow> placeOrderRequest \<Rightarrow> PlaceOrderCommand" where
  "order_command caller body =
     \<lparr>cmd_CustomerID = pr_UserID caller, cmd_CheckoutID = po_CheckoutID body,
      cmd_Lines = map (\<lambda>l. \<lparr>req_ProductID = pl_ProductID l, req_Quantity = pl_Quantity l,
        req_ExpectedUnitPriceCentavos = pl_ExpectedUnitPriceCentavos l\<rparr>) (po_Lines body),
      cmd_DeliveryAddress = po_DeliveryAddress body, cmd_DeliveryNotes = po_DeliveryNotes body\<rparr>"

definition fulfillment_status_of :: "string \<Rightarrow> FulfillmentStatus" where
  "fulfillment_status_of s = (if s = ''PREPARING'' then FulfillmentPreparing else if s = ''DELIVERING'' then FulfillmentDelivering
     else if s = ''DELIVERED'' then FulfillmentDelivered else FulfillmentOther s)"

definition decode_fulfillment :: "json \<Rightarrow> FulfillmentStatus option" where
  "decode_fulfillment = decode_struct True
     [(''status'', string_field (\<lambda>s _. fulfillment_status_of s))] (FulfillmentOther [])"

text \<open>The limit of a listing: \<open>None\<close> when it is not a number from 1 to 100.\<close>

definition listLimit :: "http_request \<Rightarrow> int option" where
  "listLimit request =
     (let raw = TrimSpace (hq_query request ''limit'') in
      if raw = [] then Some 20
      else case Atoi raw of
        None \<Rightarrow> None
      | Some limit \<Rightarrow> if limit \<ge> 1 \<and> limit \<le> 100 then Some limit else None)"

section \<open>Responses\<close>

definition customer_state_name :: "CustomerStateT \<Rightarrow> string" where
  "customer_state_name s = (case s of CustomerPreparing \<Rightarrow> ''PREPARING'' | CustomerOnTheWay \<Rightarrow> ''ON_THE_WAY''
     | CustomerDelivered \<Rightarrow> ''DELIVERED'' | CustomerRejected \<Rightarrow> ''REJECTED'')"

definition orderLinesResponse :: "OrderLine list \<Rightarrow> json" where
  "orderLinesResponse lines = JArr (map (\<lambda>l. JObj [(''order_line_id'', JStr (line_ID l)), (''product_id'', JStr (line_ProductID l)),
     (''product_name'', JStr (line_ProductName l)), (''unit_price_centavos'', JInt (line_UnitPriceCentavos l)),
     (''quantity'', JInt (line_Quantity l)), (''line_total_centavos'', JInt (line_LineTotalCentavos l))]) lines)"

text \<open>The error of \<open>CustomerState\<close> is dropped, which leaves the empty state.\<close>

definition customerOrderResponse :: "(int \<Rightarrow> string) \<Rightarrow> Order \<Rightarrow> json" where
  "customerOrderResponse time order =
     (let state = CustomerState order in
      JObj ([(''order_id'', JStr (ord_ID order)), (''checkout_id'', JStr (ord_CheckoutID order)),
        (''status'', JStr (case state of Inl _ \<Rightarrow> [] | Inr s \<Rightarrow> customer_state_name s)),
        (''subtotal_centavos'', JInt (ord_SubtotalCentavos order)), (''delivery_fee_centavos'', JInt (ord_DeliveryFeeCentavos order)),
        (''total_centavos'', JInt (ord_TotalCentavos order)), (''delivery_address'', JStr (ord_DeliveryAddress order)),
        (''delivery_notes'', JStr (ord_DeliveryNotes order)), (''lines'', orderLinesResponse (ord_Lines order)),
        (''created_at'', JStr (time (ord_CreatedAt order))), (''updated_at'', JStr (time (ord_UpdatedAt order)))] @
        (if state = Inr CustomerRejected
         then [(''rejection'', JObj [(''reason'', JStr RejectionItemsUnavailable),
                (''unavailable_items'', JArr (map (\<lambda>item. JObj [(''product_id'', JStr (un_ProductID item)),
                   (''reason'', JStr ''OUT_OF_STOCK''), (''available'', JBool False)]) (ord_UnavailableItems order)))])]
         else [])))"

definition cashierOrderResponse :: "(int \<Rightarrow> string) \<Rightarrow> Order \<Rightarrow> json" where
  "cashierOrderResponse time order =
     JObj ([(''order_id'', JStr (ord_ID order)),
        (''customer'', JObj [(''customer_id'', JStr (ord_CustomerID order)), (''name'', JStr (ord_CustomerName order))]),
        (''subtotal_centavos'', JInt (ord_SubtotalCentavos order)), (''delivery_fee_centavos'', JInt (ord_DeliveryFeeCentavos order)),
        (''total_centavos'', JInt (ord_TotalCentavos order)), (''delivery_address'', JStr (ord_DeliveryAddress order)),
        (''delivery_notes'', JStr (ord_DeliveryNotes order)), (''lines'', orderLinesResponse (ord_Lines order)),
        (''created_at'', JStr (time (ord_CreatedAt order)))] @
        (case ord_Fulfillment order of
           None \<Rightarrow> []
         | Some f \<Rightarrow>
             (let next = NextAction (ful_Status f) in
              [(''status'', JStr (fulfillment_name (ful_Status f))), (''unread'', JBool (ful_Unread f)),
               (''next_action'', if next = FulfillmentOther [] then JNull else JStr (fulfillment_name next))])))"

definition listResponse :: "(Order \<Rightarrow> json) \<Rightarrow> Order list \<Rightarrow> int \<Rightarrow> json" where
  "listResponse encode orders limit =
     (let next = (if int (length orders) = limit \<and> 0 < length orders then ord_ID (last orders) else []) in
      JObj [(''orders'', JArr (map encode orders)), (''next_after_id'', JStr next)])"

definition order_fail :: "order_error \<Rightarrow> answer" where
  "order_fail e = plain_answer
     (case e of
        ErrInvalidInput \<Rightarrow> Failure 400 ''INVALID_REQUEST'' ''The request is invalid.''
      | ErrCartChanged \<Rightarrow> Failure 409 ''CART_CHANGED'' ''The cart changed. Review it and try again.''
      | ErrCheckoutConflict \<Rightarrow> Failure 409 ''CONFLICT'' ''The checkout identifier was already used.''
      | ErrInvalidTransition \<Rightarrow> Failure 409 ''INVALID_TRANSITION'' ''The order cannot move to that status.''
      | ErrNotFound \<Rightarrow> Failure 404 ''NOT_FOUND'' ''The order was not found.''
      | _ \<Rightarrow> Failure 500 ''INTERNAL_ERROR'' ''An unexpected error occurred.'')"

section \<open>Handlers of the ordering module\<close>

text \<open>The surroundings of one request: the service with its store, the clock, the identifiers.\<close>

record order_calls =
  oc_replies :: "nat \<Rightarrow> reply"
  oc_seen :: order_db
  oc_resolve :: "string list \<Rightarrow> order_error + ProductSnapshot list"
  oc_ids :: "nat \<Rightarrow> string option"
  oc_digest :: "fingerprintPayload \<Rightarrow> string"
  oc_now1 :: int
  oc_now2 :: int
  oc_upper :: "string \<Rightarrow> string"
  oc_time :: "int \<Rightarrow> string"

text \<open>\<open>oc_seen\<close> is the store as the transaction of a checkout reads it.\<close>

definition shop_place :: "order_calls \<Rightarrow> OrderDraft \<Rightarrow> shop \<Rightarrow> (order_error + PlaceOrderResult) \<times> shop" where
  "shop_place calls draft st =
     (case PlaceOrder (oc_time calls) (oc_replies calls) (oc_seen calls) draft (fst st) of (res, db) \<Rightarrow> (res, (db, snd st)))"

definition placeOrder :: "order_calls \<Rightarrow> shop handler" where
  "placeOrder calls request caller st =
     (case decodeJSON decode_order request of
        None \<Rightarrow> (order_fail ErrInvalidInput, st)
      | Some body \<Rightarrow>
          answer_with order_fail
            (\<lambda>result. \<lparr>an_headers = [(''Location'', ''/v1/orders/'' @ ord_ID (placed_Order result))],
               an_response = Success (if placed_Replayed result then 200 else 202) (customerOrderResponse (oc_time calls) (placed_Order result))\<rparr>)
            (PlaceOrder_service (oc_resolve calls) (oc_ids calls) (oc_digest calls) (oc_now1 calls) (shop_place calls)
               (order_command caller body) st))"

definition customerOrder :: "order_calls \<Rightarrow> shop handler" where
  "customerOrder calls request caller st =
     answer_with order_fail (\<lambda>order. plain_answer (Success 200 (customerOrderResponse (oc_time calls) order)))
       (Service_CustomerOrder (Some (shop_queries (oc_replies calls))) (pr_UserID caller) (hq_path request ''order_id'') st, st)"

definition customerOrders :: "order_calls \<Rightarrow> shop handler" where
  "customerOrders calls request caller st =
     (case listLimit request of
        None \<Rightarrow> (order_fail ErrInvalidInput, st)
      | Some limit \<Rightarrow>
          answer_with order_fail
            (\<lambda>orders. plain_answer (Success 200 (listResponse (customerOrderResponse (oc_time calls)) orders limit)))
            (Service_CustomerOrders (Some (shop_queries (oc_replies calls))) (pr_UserID caller) limit (hq_query request ''after_id'') st, st))"

definition cashierOrder :: "order_calls \<Rightarrow> shop handler" where
  "cashierOrder calls request caller st =
     answer_with order_fail (\<lambda>order. plain_answer (Success 200 (cashierOrderResponse (oc_time calls) order)))
       (Service_CashierOrder (Some (shop_queries (oc_replies calls))) (hq_path request ''order_id'') st, st)"

definition cashierOrders :: "order_calls \<Rightarrow> shop handler" where
  "cashierOrders calls request caller st =
     (case listLimit request of
        None \<Rightarrow> (order_fail ErrInvalidInput, st)
      | Some limit \<Rightarrow>
          (let status = fulfillment_status_of (oc_upper calls (TrimSpace (hq_query request ''status''))) in
           answer_with order_fail
             (\<lambda>orders. plain_answer (Success 200 (listResponse (cashierOrderResponse (oc_time calls)) orders limit)))
             (Service_CashierOrders (Some (shop_queries (oc_replies calls))) status limit (hq_query request ''after_id'') st, st)))"

definition markCashierRead :: "order_calls \<Rightarrow> shop handler" where
  "markCashierRead calls request caller st =
     answer_with order_fail (\<lambda>order. plain_answer (Success 200 (cashierOrderResponse (oc_time calls) order)))
       (Service_MarkCashierRead (Some (shop_queries (oc_replies calls))) (oc_now1 calls) (pr_UserID caller) (hq_path request ''order_id'') st)"

definition advanceFulfillment :: "order_calls \<Rightarrow> shop handler" where
  "advanceFulfillment calls request caller st =
     (case decodeJSON decode_fulfillment request of
        None \<Rightarrow> (order_fail ErrInvalidInput, st)
      | Some target \<Rightarrow>
          answer_with order_fail (\<lambda>order. plain_answer (Success 200 (cashierOrderResponse (oc_time calls) order)))
            (Service_AdvanceFulfillment (Some (shop_queries (oc_replies calls))) shop_notify (oc_now1 calls) (oc_now2 calls)
               (pr_UserID caller) (hq_path request ''order_id'') target st))"

section \<open>The handler of the catalog module\<close>

definition positiveInteger :: "string \<Rightarrow> int \<Rightarrow> int \<Rightarrow> int option" where
  "positiveInteger raw fallback maximum =
     (if TrimSpace raw = [] then Some fallback
      else case Atoi (TrimSpace raw) of
        None \<Rightarrow> None
      | Some value \<Rightarrow> if value \<ge> 1 \<and> value \<le> maximum then Some value else None)"

definition nonNegativeInteger :: "string \<Rightarrow> int option" where
  "nonNegativeInteger raw =
     (if TrimSpace raw = [] then Some 0
      else case Atoi (TrimSpace raw) of
        None \<Rightarrow> None
      | Some value \<Rightarrow> if value \<ge> 0 then Some value else None)"

definition catalog_fail :: "catalog_error \<Rightarrow> answer" where
  "catalog_fail e = plain_answer
     (case e of
        CatInvalidInput \<Rightarrow> Failure 400 ''INVALID_REQUEST'' ''The request is invalid.''
      | CatSnapshotExpired \<Rightarrow> Failure 409 ''CATALOG_SNAPSHOT_EXPIRED'' ''Reload the product catalog and try again.''
      | CatUnavailable \<Rightarrow> Failure 503 ''CATALOG_UNAVAILABLE'' ''The product catalog is temporarily unavailable.''
      | CatOther _ \<Rightarrow> Failure 500 ''INTERNAL_ERROR'' ''An unexpected error occurred.'')"

definition page_response :: "Page \<Rightarrow> json" where
  "page_response page = JObj [(''products'', JArr (map (\<lambda>p. JObj [(''product_id'', JStr (pd_ID p)), (''name'', JStr (pd_Name p)),
       (''description'', JStr (pd_Description p)), (''price_centavos'', JInt (pd_PriceCentavos p)),
       (''category_id'', JStr (pd_CategoryID p)), (''category_name'', JStr (pd_CategoryName p)),
       (''image_url'', if pd_ImageURL p \<noteq> [] then JStr (pd_ImageURL p) else JNull), (''available'', JBool (pd_Available p))])
       (pa_Products page))),
     (''snapshot_revision'', JInt (pa_SnapshotRevision page)), (''after_id'', JStr (pa_NextAfterID page)),
     (''has_more'', JBool (pa_NextAfterID page \<noteq> []))]"

text \<open>\<open>seen k\<close> is the catalog as the \<open>k\<close>-th statement of the request finds it.\<close>

definition products_handler ::
    "(string \<Rightarrow> 'u option) \<Rightarrow> (string \<Rightarrow> string option) \<Rightarrow> (nat \<Rightarrow> reply) \<Rightarrow> (nat \<Rightarrow> catalog_db) \<Rightarrow> 's handler" where
  "products_handler parse_uuid canon replies seen request caller st =
     (case positiveInteger (hq_query request ''limit'') 20 100 of
        None \<Rightarrow> (catalog_fail CatInvalidInput, st)
      | Some limit \<Rightarrow>
          (let afterID = TrimSpace (hq_query request ''after_id'') in
           if afterID \<noteq> [] \<and> parse_uuid afterID = None then (catalog_fail CatInvalidInput, st)
           else case nonNegativeInteger (hq_query request ''snapshot_revision'') of
             None \<Rightarrow> (catalog_fail CatInvalidInput, st)
           | Some revision \<Rightarrow>
               answer_with catalog_fail (\<lambda>page. plain_answer (Success 200 (page_response page)))
                 (Service_Products canon replies seen limit afterID revision, st)))"

end
