(* ===== verification/Api_Routes.thy ===== *)
theory Api_Routes
  imports Api_Identity Api_Orders
begin

text \<open>
  The whole API of the ordering service: the patterns that the modules register, the guard of each
  route, and the handler that \<open>platform/httpserver/server.go\<close> builds of them. A path is the list of
  its segments, as the multiplexer of \<open>net/http\<close> matches them once the path is clean; a pattern
  for \<open>GET\<close> also takes \<open>HEAD\<close>.
\<close>

section \<open>Routes\<close>

datatype route =
    R_live | R_ready
  | R_password_login | R_oauth_login_intent | R_oauth_login | R_refresh | R_logout
  | R_me | R_oauth_link_intent | R_oauth_link | R_change_password
  | R_list_cashiers | R_cashier | R_set_cashier_status | R_reset_cashier_password
  | R_registration_begin | R_registration_resend | R_registration_verify
  | R_cashier_begin | R_cashier_resend | R_cashier_verify
  | R_place_order | R_customer_orders | R_customer_order
  | R_cashier_orders | R_cashier_order | R_mark_cashier_read | R_advance_fulfillment
  | R_products

datatype segment = Lit string | Wild string

text \<open>Who may use a route: everyone, who is signed in, or who has exactly this role.\<close>

datatype guard = Public | Signed_in | Needs Role

type_synonym registrations = "(string \<times> segment list \<times> guard \<times> route) list"

text \<open>The \<open>Register\<close> function of every module: the pattern, the wrapper of the handler, and the handler.\<close>

definition health_routes :: registrations where
  "health_routes =
     [(''GET'', [Lit ''v1'', Lit ''health'', Lit ''live''], Public, R_live),
      (''GET'', [Lit ''v1'', Lit ''health'', Lit ''ready''], Public, R_ready)]"

definition identity_routes :: registrations where
  "identity_routes =
     [(''POST'', [Lit ''v1'', Lit ''auth'', Lit ''password'', Lit ''login''], Public, R_password_login),
      (''POST'', [Lit ''v1'', Lit ''auth'', Lit ''oauth'', Lit ''intents''], Public, R_oauth_login_intent),
      (''POST'', [Lit ''v1'', Lit ''auth'', Lit ''oauth'', Lit ''login''], Public, R_oauth_login),
      (''POST'', [Lit ''v1'', Lit ''auth'', Lit ''refresh''], Public, R_refresh),
      (''POST'', [Lit ''v1'', Lit ''auth'', Lit ''logout''], Public, R_logout),
      (''GET'', [Lit ''v1'', Lit ''me''], Signed_in, R_me),
      (''POST'', [Lit ''v1'', Lit ''me'', Lit ''oauth-link-intents''], Signed_in, R_oauth_link_intent),
      (''POST'', [Lit ''v1'', Lit ''me'', Lit ''oauth-identities''], Signed_in, R_oauth_link),
      (''POST'', [Lit ''v1'', Lit ''me'', Lit ''password''], Signed_in, R_change_password),
      (''GET'', [Lit ''v1'', Lit ''admin'', Lit ''cashiers''], Needs RoleAdmin, R_list_cashiers),
      (''GET'', [Lit ''v1'', Lit ''admin'', Lit ''cashiers'', Wild ''cashier_id''], Needs RoleAdmin, R_cashier),
      (''PUT'', [Lit ''v1'', Lit ''admin'', Lit ''cashiers'', Wild ''cashier_id'', Lit ''status''], Needs RoleAdmin, R_set_cashier_status),
      (''POST'', [Lit ''v1'', Lit ''admin'', Lit ''cashiers'', Wild ''cashier_id'', Lit ''password-reset''], Needs RoleAdmin, R_reset_cashier_password)]"

definition registration_routes :: registrations where
  "registration_routes =
     [(''POST'', [Lit ''v1'', Lit ''auth'', Lit ''password'', Lit ''registrations''], Public, R_registration_begin),
      (''POST'', [Lit ''v1'', Lit ''auth'', Lit ''password'', Lit ''registrations'', Lit ''resend''], Public, R_registration_resend),
      (''POST'', [Lit ''v1'', Lit ''auth'', Lit ''password'', Lit ''registrations'', Lit ''verify''], Public, R_registration_verify)]"

definition cashier_registration_routes :: registrations where
  "cashier_registration_routes =
     [(''POST'', [Lit ''v1'', Lit ''admin'', Lit ''cashiers'', Lit ''registrations''], Needs RoleAdmin, R_cashier_begin),
      (''POST'', [Lit ''v1'', Lit ''admin'', Lit ''cashiers'', Lit ''registrations'', Lit ''resend''], Needs RoleAdmin, R_cashier_resend),
      (''POST'', [Lit ''v1'', Lit ''admin'', Lit ''cashiers'', Lit ''registrations'', Lit ''verify''], Needs RoleAdmin, R_cashier_verify)]"

definition catalog_routes :: registrations where
  "catalog_routes =
     [(''GET'', [Lit ''v1'', Lit ''products''], Needs RoleCustomer, R_products)]"

definition ordering_routes :: registrations where
  "ordering_routes =
     [(''POST'', [Lit ''v1'', Lit ''orders''], Needs RoleCustomer, R_place_order),
      (''GET'', [Lit ''v1'', Lit ''orders''], Needs RoleCustomer, R_customer_orders),
      (''GET'', [Lit ''v1'', Lit ''orders'', Wild ''order_id''], Needs RoleCustomer, R_customer_order),
      (''GET'', [Lit ''v1'', Lit ''staff'', Lit ''orders''], Needs RoleCashier, R_cashier_orders),
      (''GET'', [Lit ''v1'', Lit ''staff'', Lit ''orders'', Wild ''order_id''], Needs RoleCashier, R_cashier_order),
      (''POST'', [Lit ''v1'', Lit ''staff'', Lit ''orders'', Wild ''order_id'', Lit ''read''], Needs RoleCashier, R_mark_cashier_read),
      (''PATCH'', [Lit ''v1'', Lit ''staff'', Lit ''orders'', Wild ''order_id'', Lit ''status''], Needs RoleCashier, R_advance_fulfillment)]"

text \<open>The registrations in the order in which \<open>NewHandler\<close> and \<open>cmd/api/main.go\<close> make them.\<close>

definition route_table :: registrations where
  "route_table = health_routes @ identity_routes @ registration_routes @ cashier_registration_routes @ catalog_routes @ ordering_routes"

lemmas route_table_simps = route_table_def health_routes_def identity_routes_def registration_routes_def
  cashier_registration_routes_def catalog_routes_def ordering_routes_def

text \<open>The guard under which a handler is registered.\<close>

fun guard_in :: "registrations \<Rightarrow> route \<Rightarrow> guard" where
  "guard_in [] r = Public"
| "guard_in ((m, pattern, g, r') # table) r = (if r = r' then g else guard_in table r)"

definition guard_of :: "route \<Rightarrow> guard" where
  "guard_of r = guard_in route_table r"

fun match_path :: "segment list \<Rightarrow> string list \<Rightarrow> (string \<times> string) list option" where
  "match_path [] [] = Some []"
| "match_path (Lit l # ps) (s # ss) = (if l = s then match_path ps ss else None)"
| "match_path (Wild w # ps) (s # ss) = (if s = [] then None else map_option ((#) (w, s)) (match_path ps ss))"
| "match_path _ _ = None"

definition match_method :: "string \<Rightarrow> string \<Rightarrow> bool" where
  "match_method m method \<longleftrightarrow> m = method \<or> m = ''GET'' \<and> method = ''HEAD''"

fun find_route :: "registrations \<Rightarrow> string \<Rightarrow> string list \<Rightarrow> (route \<times> (string \<times> string) list) option" where
  "find_route [] method path = None"
| "find_route ((m, pattern, g, r) # table) method path =
     (case (if match_method m method then match_path pattern path else None) of
        Some vars \<Rightarrow> Some (r, vars)
      | None \<Rightarrow> find_route table method path)"

section \<open>The handler\<close>

text \<open>The state of the service, and the surroundings of one request.\<close>

record api =
  ap_identity :: identity_state
  ap_shop :: shop

record 'u api_calls =
  cl_identity :: identity_calls
  cl_orders :: order_calls
  cl_between :: "api \<Rightarrow> api"
  cl_parse_uuid :: "string \<Rightarrow> 'u option"
  cl_canon :: "string \<Rightarrow> string option"
  cl_replies :: "nat \<Rightarrow> reply"
  cl_catalog :: "nat \<Rightarrow> catalog_db"
  cl_ready :: bool
  cl_random :: "8 word list option"
  cl_now_text :: string

definition on_identity :: "(identity_state \<Rightarrow> answer \<times> identity_state) \<Rightarrow> api \<Rightarrow> answer \<times> api" where
  "on_identity f st = (case f (ap_identity st) of (a, i) \<Rightarrow> (a, st\<lparr>ap_identity := i\<rparr>))"

definition on_shop :: "(shop \<Rightarrow> answer \<times> shop) \<Rightarrow> api \<Rightarrow> answer \<times> api" where
  "on_shop f st = (case f (ap_shop st) of (a, s) \<Rightarrow> (a, st\<lparr>ap_shop := s\<rparr>))"

text \<open>\<open>health/live\<close> and \<open>health/ready\<close>.\<close>

definition health :: "string \<Rightarrow> response" where
  "health status = Success 200 (JObj [(''service'', JStr ''ordering''), (''status'', JStr status)])"

fun public_route :: "'u api_calls \<Rightarrow> route \<Rightarrow> http_request \<Rightarrow> api \<Rightarrow> answer \<times> api" where
  "public_route calls R_live request st = (plain_answer (health ''ok''), st)"
| "public_route calls R_ready request st =
     (plain_answer (if cl_ready calls then health ''ready'' else Failure 503 ''SERVICE_UNAVAILABLE'' ''The service is not ready.''), st)"
| "public_route calls R_password_login request st = on_identity (passwordLogin (cl_identity calls) request) st"
| "public_route calls R_oauth_login_intent request st = on_identity (oauthLoginIntent (cl_identity calls) request) st"
| "public_route calls R_oauth_login request st = on_identity (oauthLogin (cl_identity calls) request) st"
| "public_route calls R_refresh request st = on_identity (refresh_handler (cl_identity calls) request) st"
| "public_route calls R_logout request st = on_identity (logout_handler (cl_identity calls) request) st"
| "public_route calls R_registration_begin request st = on_identity (registration_begin (cl_identity calls) request) st"
| "public_route calls R_registration_resend request st = on_identity (registration_resend (cl_identity calls) request) st"
| "public_route calls R_registration_verify request st = on_identity (registration_verify (cl_identity calls) request) st"
| "public_route calls _ request st = (identity_fail IdUnauthenticated, st)"

fun caller_route :: "'u api_calls \<Rightarrow> route \<Rightarrow> api handler" where
  "caller_route calls R_me request caller st = on_identity (me_handler (cl_identity calls) request caller) st"
| "caller_route calls R_oauth_link_intent request caller st = on_identity (oauthLinkIntent (cl_identity calls) request caller) st"
| "caller_route calls R_oauth_link request caller st = on_identity (oauthLink (cl_identity calls) request caller) st"
| "caller_route calls R_change_password request caller st = on_identity (changePassword (cl_identity calls) request caller) st"
| "caller_route calls R_list_cashiers request caller st = on_identity (listCashiers (cl_identity calls) request caller) st"
| "caller_route calls R_cashier request caller st = on_identity (cashier_handler (cl_identity calls) request caller) st"
| "caller_route calls R_set_cashier_status request caller st = on_identity (setCashierStatus (cl_identity calls) request caller) st"
| "caller_route calls R_reset_cashier_password request caller st = on_identity (resetCashierPassword (cl_identity calls) request caller) st"
| "caller_route calls R_cashier_begin request caller st = on_identity (cashier_begin (cl_identity calls) request caller) st"
| "caller_route calls R_cashier_resend request caller st = on_identity (cashier_resend (cl_identity calls) request caller) st"
| "caller_route calls R_cashier_verify request caller st = on_identity (cashier_verify (cl_identity calls) request caller) st"
| "caller_route calls R_place_order request caller st = on_shop (placeOrder (cl_orders calls) request caller) st"
| "caller_route calls R_customer_orders request caller st = on_shop (customerOrders (cl_orders calls) request caller) st"
| "caller_route calls R_customer_order request caller st = on_shop (customerOrder (cl_orders calls) request caller) st"
| "caller_route calls R_cashier_orders request caller st = on_shop (cashierOrders (cl_orders calls) request caller) st"
| "caller_route calls R_cashier_order request caller st = on_shop (cashierOrder (cl_orders calls) request caller) st"
| "caller_route calls R_mark_cashier_read request caller st = on_shop (markCashierRead (cl_orders calls) request caller) st"
| "caller_route calls R_advance_fulfillment request caller st = on_shop (advanceFulfillment (cl_orders calls) request caller) st"
| "caller_route calls R_products request caller st =
     products_handler (cl_parse_uuid calls) (cl_canon calls) (cl_replies calls) (cl_catalog calls) request caller st"
| "caller_route calls _ request caller st = (identity_fail IdUnauthenticated, st)"

text \<open>Other requests may move the state between the check of the token and the handler.\<close>

definition serve :: "'u api_calls \<Rightarrow> route \<Rightarrow> http_request \<Rightarrow> api \<Rightarrow> answer \<times> api" where
  "serve calls r request st =
     (let authenticate = (\<lambda>token. Authenticate (ic_auth (cl_identity calls)) token (fst (ap_identity st)));
          handler = (\<lambda>request caller st. caller_route calls r request caller (cl_between calls st)) in
      case guard_of r of
        Public \<Rightarrow> public_route calls r request st
      | Signed_in \<Rightarrow> authenticated authenticate handler request st
      | Needs role \<Rightarrow> RequireRole authenticate role handler request st)"

text \<open>The answer on the wire: the status, the headers and the body.\<close>

definition api_handler ::
    "'u api_calls \<Rightarrow> string \<Rightarrow> string list \<Rightarrow> string \<Rightarrow> http_request \<Rightarrow> api \<Rightarrow> (int \<times> (string \<times> string) list \<times> json) \<times> api" where
  "api_handler calls method path correlation request st =
     (let rid = withCorrelation (cl_random calls) (cl_now_text calls) correlation in
      case (case find_route route_table method path of
              None \<Rightarrow> (plain_answer (Failure 404 ''NOT_FOUND'' ''The requested resource was not found.''), st)
            | Some (r, vars) \<Rightarrow>
                serve calls r (request\<lparr>hq_path := \<lambda>name. case map_of vars name of None \<Rightarrow> [] | Some v \<Rightarrow> v\<rparr>) st) of
        (a, st') \<Rightarrow>
          (case JSONResponder rid (an_response a) of
             (status, body) \<Rightarrow> ((status, (''X-Correlation-ID'', rid) # an_headers a, body), st')))"

end
