(* ===== verification/Api_Guarantees.thy ===== *)
theory Api_Guarantees
  imports Api_Routes Identity_Guarantees
begin

text \<open>
  What the API promises to its users as a whole: a route with a role serves only who presents the
  token of a live session of an active account with that role, and an answer shows a customer no
  order but their own.
\<close>

section \<open>Routing\<close>

text \<open>No request matches two patterns, so the first match is the one of the multiplexer.\<close>

definition may_meet :: "segment \<Rightarrow> segment \<Rightarrow> bool" where
  "may_meet p q = (case p of Wild _ \<Rightarrow> True | Lit l \<Rightarrow> (case q of Wild _ \<Rightarrow> True | Lit m \<Rightarrow> l = m))"

definition takes :: "segment \<Rightarrow> string \<Rightarrow> bool" where
  "takes p s = (case p of Wild _ \<Rightarrow> s \<noteq> [] | Lit l \<Rightarrow> l = s)"

lemma match_path_takes: "match_path ps path \<noteq> None \<longleftrightarrow> list_all2 takes ps path"
proof (induction ps arbitrary: path)
  case Nil
  show ?case by (cases path) auto
next
  case (Cons p ps)
  then show ?case by (cases path; cases p) (auto simp: takes_def)
qed

lemma match_compatible:
  assumes "match_path ps path \<noteq> None" and "match_path qs path \<noteq> None"
  shows "list_all2 may_meet ps qs"
proof -
  have "list_all2 (\<lambda>s q. takes q s) path qs" using assms(2) unfolding match_path_takes by (simp add: list.rel_flip [of takes, unfolded conversep_iff [abs_def], symmetric])
  with assms(1) [unfolded match_path_takes] show ?thesis
    by (rule list_all2_trans [rotated]) (auto simp: takes_def may_meet_def split: segment.splits)
qed

fun separate :: "registrations \<Rightarrow> bool" where
  "separate [] = True"
| "separate ((m, ps, g, r) # table) = (list_all (\<lambda>(m', qs, g', r'). m \<noteq> m' \<or> \<not> list_all2 may_meet ps qs) table \<and> separate table)"

lemma routes_separate: "separate route_table"
  by (simp add: route_table_simps may_meet_def)

lemma find_route_first:
  assumes "find_route table method path = Some (r, vars)"
  shows "\<exists>m ps g. (m, ps, g, r) \<in> set table \<and> match_method m method \<and> match_path ps path = Some vars"
  using assms
proof (induction table)
  case (Cons entry table)
  obtain m ps g r' where entry: "entry = (m, ps, g, r')" by (cases entry) auto
  show ?case
  proof (cases "if match_method m method then match_path ps path else None")
    case None
    with Cons obtain m' qs g' where "(m', qs, g', r) \<in> set table" "match_method m' method" "match_path qs path = Some vars"
      by (auto simp: entry)
    then show ?thesis by auto
  next
    case (Some vars')
    with Cons.prems have "r' = r" "vars' = vars" by (simp_all add: entry)
    with Some show ?thesis by (auto simp: entry split: if_splits)
  qed
qed simp

lemma find_route_only:
  assumes "separate table" and "\<forall>(m, _) \<in> set table. m \<noteq> ''HEAD''"
    and "(m, ps, g, r) \<in> set table" "match_method m method" "match_path ps path = Some vars"
  shows "find_route table method path = Some (r, vars)"
  using assms
proof (induction table)
  case (Cons entry table)
  obtain m' qs g' r' where entry: "entry = (m', qs, g', r')" by (cases entry) auto
  show ?case
  proof (cases "(m, ps, g, r) = (m', qs, g', r')")
    case True
    with Cons.prems(4,5) show ?thesis by (simp add: entry)
  next
    case False
    with Cons.prems(3) have mem: "(m, ps, g, r) \<in> set table" by (auto simp: entry)
    have "\<not> (match_method m' method \<and> match_path qs path \<noteq> None)"
    proof
      assume "match_method m' method \<and> match_path qs path \<noteq> None"
      then have "list_all2 may_meet qs ps" "m' = m"
        using match_compatible [of qs path ps] Cons.prems(2,4,5) mem by (auto simp: match_method_def entry)
      with Cons.prems(1) mem show False by (auto simp: entry list_all_iff)
    qed
    then have "(if match_method m' method then match_path qs path else None) = None" by auto
    with Cons.IH [OF _ _ mem Cons.prems(4,5)] Cons.prems(1,2) show ?thesis by (simp add: entry)
  qed
qed simp

section \<open>Roles\<close>

text \<open>Who a token belongs to, by the store: the account of its session.\<close>

definition signed_in_as :: "identity_env \<Rightarrow> identity_db \<Rightarrow> string \<Rightarrow> account_row \<Rightarrow> bool" where
  "signed_in_as env db token a \<longleftrightarrow> (\<exists>s. find (\<lambda>x. sn_access x = ev_hashToken env token) (id_sessions db) = Some s \<and>
     live s \<and> ev_now env 0 < sn_access_expires s \<and> account_of db (sn_user s) = Some a \<and> ac_status a = AccountActive \<and> may_log_in a)"

lemma Authenticate_account:
  assumes "Authenticate env token db = Inr caller"
  shows "\<exists>a. signed_in_as env db token a \<and> pr_UserID caller = ac_id a \<and> pr_Role caller = ac_role a \<and>
    pr_PasswordChangeRequired caller = ac_change_required a"
proof -
  from assms have "AuthenticateAccess (ev_replies env 0 0) (ev_hashToken env token) (ev_now env 0) db = Inr caller"
    by (auto simp: Authenticate_def split: if_splits sum.splits)
  from AuthenticateAccess_Inr [OF this] show ?thesis by (auto simp: signed_in_as_def)
qed

lemma serve_role:
  assumes "guard_of r = Needs role" and "serve calls r request st = (a, st')"
  obtains (refused) e where "a = identity_fail e" "st' = st"
  | (allowed) token caller account where "bearerToken (hq_authorization request) = Some token"
      "signed_in_as (ic_auth (cl_identity calls)) (fst (ap_identity st)) token account" "ac_role account = role"
      "\<not> ac_change_required account" "pr_UserID caller = ac_id account"
      "caller_route calls r request caller (cl_between calls st) = (a, st')"
proof -
  let ?authenticate = "\<lambda>token. Authenticate (ic_auth (cl_identity calls)) token (fst (ap_identity st))"
  let ?handler = "\<lambda>request caller st. caller_route calls r request caller (cl_between calls st)"
  have run: "RequireRole ?authenticate role ?handler request st = (a, st')"
    using assms by (simp add: serve_def Let_def)
  show ?thesis
  proof (cases ?authenticate role ?handler request st rule: RequireRole_cases)
    case (refused e)
    with run show ?thesis by (intro that(1) [of e]) simp_all
  next
    case (allowed token caller)
    with run Authenticate_account [OF allowed(2)] show ?thesis by (auto intro: that(2))
  qed
qed

text \<open>The role that a part of the API is for, by the second segment of the path.\<close>

definition area_role :: "string \<Rightarrow> Role option" where
  "area_role area = (if area = ''admin'' then Some RoleAdmin else if area = ''staff'' then Some RoleCashier
     else if area = ''orders'' \<or> area = ''products'' then Some RoleCustomer else None)"

definition area_guarded :: "string \<times> segment list \<times> guard \<times> route \<Rightarrow> bool" where
  "area_guarded entry = (case entry of (m, pattern, g, r) \<Rightarrow>
     (case pattern of
        Lit v # Lit area # rest \<Rightarrow> area_role area = None \<or> guard_of r = Needs (the (area_role area))
      | _ \<Rightarrow> False))"

lemma routes_guarded: "list_all area_guarded route_table"
  by (simp add: route_table_simps guard_of_def area_guarded_def area_role_def)

lemma area_guard:
  assumes "find_route route_table method (''v1'' # area # rest) = Some (r, vars)" and "area_role area = Some role"
  shows "guard_of r = Needs role"
proof -
  from find_route_first [OF assms(1)] obtain m ps g where "(m, ps, g, r) \<in> set route_table"
    and match: "match_path ps (''v1'' # area # rest) = Some vars" by blast
  with routes_guarded have "area_guarded (m, ps, g, r)" by (simp add: list_all_iff)
  with match assms(2) show ?thesis
    by (auto simp: area_guarded_def split: list.splits segment.splits if_splits)
qed

text \<open>
  C5: the parts of the API are closed to everyone else. Whatever a request below \<open>/v1/admin\<close>,
  \<open>/v1/staff\<close>, \<open>/v1/orders\<close> or \<open>/v1/products\<close> is, either it is answered with an error and nothing
  at all changes, or it carries the token of a session that is neither revoked nor expired, of an
  active account that is an administrator, a cashier or a customer, as the part asks, and that does
  not have to change its password first.
\<close>

theorem api_needs_role:
  assumes "area_role area = Some role"
    and "api_handler calls method (''v1'' # area # rest) correlation request st = ((status, headers, body), st')"
  shows "(st' = st \<and> 400 \<le> status) \<or>
    (\<exists>token account. bearerToken (hq_authorization request) = Some token \<and>
       signed_in_as (ic_auth (cl_identity calls)) (fst (ap_identity st)) token account \<and> ac_role account = role \<and>
       \<not> ac_change_required account)"
proof (cases "find_route route_table method (''v1'' # area # rest)")
  case None
  with assms(2) show ?thesis by (auto simp: api_handler_def Let_def JSONResponder_def plain_answer_def)
next
  case (Some found)
  obtain r vars where found: "found = (r, vars)" by (cases found)
  let ?request = "request\<lparr>hq_path := \<lambda>name. case map_of vars name of None \<Rightarrow> [] | Some v \<Rightarrow> v\<rparr>"
  obtain a where run: "serve calls r ?request st = (a, st')" "status = fst (JSONResponder (withCorrelation (cl_random calls) (cl_now_text calls) correlation) (an_response a))"
    using assms(2) Some by (auto simp: api_handler_def found Let_def split: prod.splits)
  show ?thesis
  proof (cases rule: serve_role [OF area_guard [OF Some [unfolded found] assms(1)] run(1)])
    case (1 e)
    moreover have "fst (JSONResponder rid (an_response a)) = status_of a" for rid
      by (simp add: JSONResponder_def status_of_def split: response.splits)
    ultimately show ?thesis using run(2) identity_fail_status [of e] by simp
  next
    case (2 token caller account)
    then show ?thesis by auto
  qed
qed

section \<open>Whose orders\<close>

lemma loaded_owner:
  assumes "loadOrder replies n db oid cust cashier = Inr order" and "cust \<noteq> []"
  shows "ord_CustomerID order = cust"
  using assms unfolding loadOrder_Inr select_order_Some by (auto simp: order_of_rows_def)

lemma loaded_owners:
  assumes "loadOrders replies n db ids cust cashier = Inr orders" and "cust \<noteq> []"
  shows "\<forall>order \<in> set orders. ord_CustomerID order = cust"
  using assms by (induction ids arbitrary: n orders) (auto split: sum.splits dest: loaded_owner)

lemma placed_owner:
  assumes "PlaceOrder fmt_time replies seen draft db = (Inr result, db')" and "ord_CustomerID (draft_Order draft) \<noteq> []"
  shows "ord_CustomerID (placed_Order result) = ord_CustomerID (draft_Order draft)"
proof -
  have conflict: "ord_CustomerID (placed_Order result) = ord_CustomerID (draft_Order draft)"
    if "checkoutAfterConflict replies n draft db = Inr result" for n
  proof -
    from that obtain oid where "loadOrder replies (n + 1) db oid (ord_CustomerID (draft_Order draft)) False = Inr (placed_Order result)"
      by (auto simp: checkoutAfterConflict_def split: sum.splits option.splits if_splits)
    then show ?thesis using assms(2) by (rule loaded_owner)
  qed
  show ?thesis
    using assms conflict unfolding PlaceOrder_def Let_def
    by (auto split: if_splits sum.splits option.splits dberr.splits dest: loaded_owner)
qed

lemma place_service_owner:
  assumes "PlaceOrder_service resolve ids digest now (shop_place calls) command st = (Inr result, st')"
  shows "ord_CustomerID (placed_Order result) = cmd_CustomerID command"
proof -
  from assms obtain draft where draft: "prepare_order resolve ids digest now command = Inr draft"
    and placed: "shop_place calls draft st = (Inr result, st')"
    by (auto simp: PlaceOrder_service_def split: sum.splits)
  have "ord_CustomerID (draft_Order draft) = cmd_CustomerID command \<and> validUUID (cmd_CustomerID command)"
    by (rule prepare_order_Inr [OF draft]) (simp add: make_draft_def trim_command_def command_ok_def)
  moreover from this have "cmd_CustomerID command \<noteq> []" by auto
  ultimately show ?thesis
    using placed placed_owner by (auto simp: shop_place_def split: prod.splits)
qed

lemma order_fail_status: "400 \<le> status_of (order_fail e)"
  by (cases e) (simp_all add: order_fail_def)

text \<open>What an answer shows: the orders in it, one by one or as a page.\<close>

definition shows_orders :: "(int \<Rightarrow> string) \<Rightarrow> answer \<Rightarrow> Order list \<Rightarrow> bool" where
  "shows_orders time a orders \<longleftrightarrow>
     (\<exists>status order. orders = [order] \<and> an_response a = Success status (customerOrderResponse time order)) \<or>
     (\<exists>status limit. an_response a = Success status (listResponse (customerOrderResponse time) orders limit))"

lemma customer_routes_show_own:
  assumes "r \<in> {R_place_order, R_customer_orders, R_customer_order}"
    and "caller_route calls r request caller st = (a, st')"
  shows "400 \<le> status_of a \<or> (\<exists>orders. shows_orders (oc_time (cl_orders calls)) a orders \<and>
    (\<forall>order \<in> set orders. ord_CustomerID order = pr_UserID caller))"
proof -
  let ?calls = "cl_orders calls" and ?goal = "\<lambda>a. 400 \<le> status_of a \<or> (\<exists>orders. shows_orders (oc_time (cl_orders calls)) a orders \<and>
    (\<forall>order \<in> set orders. ord_CustomerID order = pr_UserID caller))"
  have failed: "?goal (order_fail e)" for e by (simp add: order_fail_status)
  have one: "?goal \<lparr>an_headers = hs, an_response = Success status (customerOrderResponse (oc_time ?calls) order)\<rparr>"
    if "ord_CustomerID order = pr_UserID caller" for hs status order
    using that by (intro disjI2 exI [of _ "[order]"]) (simp add: shows_orders_def)
  have placed: "?goal a" if run: "placeOrder ?calls request caller s = (a, s')" for s s'
  proof (cases "decodeJSON decode_order request")
    case None
    with run failed show ?thesis by (auto simp: placeOrder_def)
  next
    case (Some body)
    obtain res s1 where call: "PlaceOrder_service (oc_resolve ?calls) (oc_ids ?calls) (oc_digest ?calls) (oc_now1 ?calls) (shop_place ?calls)
       (order_command caller body) s = (res, s1)" by (rule prod.exhaust)
    show ?thesis
    proof (cases res)
      case (Inl e)
      with run Some call failed [of e] show ?thesis by (simp add: placeOrder_def)
    next
      case (Inr result)
      with place_service_owner [OF call [unfolded Inr]] run Some call one show ?thesis
        by (auto simp: placeOrder_def order_command_def)
    qed
  qed
  have found: "?goal a" if run: "customerOrder ?calls request caller s = (a, s')" for s s'
  proof (cases "Service_CustomerOrder (Some (shop_queries (oc_replies ?calls))) (pr_UserID caller) (hq_path request ''order_id'') s")
    case (Inl e)
    with run failed [of e] show ?thesis by (simp add: customerOrder_def)
  next
    case (Inr order)
    then have "loadOrder (oc_replies ?calls) 0 (fst s) (hq_path request ''order_id'') (pr_UserID caller) False = Inr order"
      "pr_UserID caller \<noteq> []"
      by (auto simp: Service_CustomerOrder_def shop_queries_def CustomerOrder_def split: if_splits)
    then have "ord_CustomerID order = pr_UserID caller" by (rule loaded_owner)
    from one [OF this] run Inr show ?thesis by (auto simp: customerOrder_def plain_answer_def)
  qed
  have listed: "?goal a" if run: "customerOrders ?calls request caller s = (a, s')" for s s'
  proof (cases "\<exists>limit orders. a = plain_answer (Success 200 (listResponse (customerOrderResponse (oc_time ?calls)) orders limit)) \<and>
      Service_CustomerOrders (Some (shop_queries (oc_replies ?calls))) (pr_UserID caller) limit (hq_query request ''after_id'') s = Inr orders")
    case True
    then obtain limit orders where a: "a = plain_answer (Success 200 (listResponse (customerOrderResponse (oc_time ?calls)) orders limit))"
      and "Service_CustomerOrders (Some (shop_queries (oc_replies ?calls))) (pr_UserID caller) limit (hq_query request ''after_id'') s = Inr orders"
      by blast
    then have "\<forall>order \<in> set orders. ord_CustomerID order = pr_UserID caller"
      by (auto simp: Service_CustomerOrders_def shop_queries_def CustomerOrders_def split: if_splits sum.splits dest: loaded_owners)
    then show ?thesis by (auto simp: a shows_orders_def plain_answer_def)
  next
    case False
    with run obtain e where "a = order_fail e"
      by (auto simp: customerOrders_def answer_with_def split: option.splits sum.splits)
    then show ?thesis using failed by simp
  qed
  from assms consider s' where "placeOrder ?calls request caller (ap_shop st) = (a, s')"
    | s' where "customerOrders ?calls request caller (ap_shop st) = (a, s')"
    | s' where "customerOrder ?calls request caller (ap_shop st) = (a, s')"
    by (auto simp: on_shop_def split: prod.splits)
  then show ?thesis by cases (erule placed listed found)+
qed

text \<open>
  C6: customers see their own orders only. When a request to place, list or look up orders is not
  answered with an error, the orders in the answer all belong to the account whose session the
  token of the request opened; this also holds when a checkout is replayed, whatever other requests
  did in between.
\<close>

theorem customers_see_own_orders:
  assumes "r \<in> {R_place_order, R_customer_orders, R_customer_order}"
    and "serve calls r request st = (a, st')" and "status_of a < 400"
  shows "\<exists>token account orders. bearerToken (hq_authorization request) = Some token \<and>
    signed_in_as (ic_auth (cl_identity calls)) (fst (ap_identity st)) token account \<and> ac_role account = RoleCustomer \<and>
    shows_orders (oc_time (cl_orders calls)) a orders \<and> (\<forall>order \<in> set orders. ord_CustomerID order = ac_id account)"
proof -
  have guard: "guard_of r = Needs RoleCustomer" using assms(1) by (auto simp: guard_of_def route_table_simps)
  show ?thesis
  proof (cases rule: serve_role [OF guard assms(2)])
    case (1 e)
    with assms(3) identity_fail_status [of e] show ?thesis by simp
  next
    case (2 token caller account)
    with customer_routes_show_own [OF assms(1) 2(6)] assms(3) show ?thesis by auto
  qed
qed

end
