(* ===== verification/Api_Listing.thy ===== *)
theory Api_Listing
  imports Api_Routes
begin

text \<open>
  A customer who follows the cursors of \<open>GET /v1/orders\<close>. The client knows only the answers: it asks
  with the cursor of the last page until an answer has none.
\<close>

section \<open>The client\<close>

text \<open>The orders and the cursor in the data of an answer.\<close>

definition page_of :: "answer \<Rightarrow> (json list \<times> string) option" where
  "page_of a =
     (case an_response a of
        Success _ (JObj kvs) \<Rightarrow>
          (case (map_of kvs ''orders'', map_of kvs ''next_after_id'') of
             (Some (JArr orders), Some (JStr next)) \<Rightarrow> Some (orders, next)
           | _ \<Rightarrow> None)
      | _ \<Rightarrow> None)"

fun follow :: "nat \<Rightarrow> (string \<Rightarrow> answer) \<Rightarrow> string \<Rightarrow> json list option" where
  "follow 0 ask after = None"
| "follow (Suc n) ask after =
     (case page_of (ask after) of
        None \<Rightarrow> None
      | Some (orders, next) \<Rightarrow> if next = [] then Some orders else map_option ((@) orders) (follow n ask next))"

definition list_request :: "http_request \<Rightarrow> int \<Rightarrow> string \<Rightarrow> http_request" where
  "list_request request limit after =
     request\<lparr>hq_query := (\<lambda>name. if name = ''limit'' then Itoa limit else if name = ''after_id'' then after else [])\<rparr>"

section \<open>One page\<close>

lemma page_of_list:
  "page_of (plain_answer (Success status (listResponse encode orders limit))) =
     Some (map encode orders, if int (length orders) = limit \<and> 0 < length orders then ord_ID (last orders) else [])"
  by (simp add: page_of_def plain_answer_def listResponse_def Let_def)

text \<open>The order that is loaded for a row.\<close>

definition stored_order :: "order_db \<Rightarrow> string \<Rightarrow> Order" where
  "stored_order db oid = (case loadOrder (\<lambda>_. Done) 0 db oid [] False of Inr order \<Rightarrow> order | Inl _ \<Rightarrow> undefined)"

lemma loads_stored:
  assumes "keys_ok db" and "r \<in> set (db_orders db)" and "or_customer_id r = cust"
  shows "loadOrder (\<lambda>_. Done) n db (or_id r) cust False = Inr (stored_order db (or_id r))"
    and "ord_ID (stored_order db (or_id r)) = or_id r"
proof -
  from assms(1,2) obtain u where u: "find (\<lambda>u. ur_id u = or_customer_id r) (db_users db) = Some u"
    using find_user [of db "or_customer_id r"] by (auto simp: keys_ok_def)
  let ?order = "(order_of_rows r u (fulfillment_of db (or_id r)) (operation_of db (or_id r)))\<lparr>ord_Lines := select_lines db (or_id r)\<rparr>"
  have "loadOrder (\<lambda>_. Done) k db (or_id r) c False = Inr ?order" if "c = [] \<or> c = cust" for k c
    using that assms order_of_mem [OF assms(1,2)] u by (intro iffD2 [OF loadOrder_Inr]) (auto simp: select_order_Some)
  then have "loadOrder (\<lambda>_. Done) n db (or_id r) cust False = Inr ?order" "stored_order db (or_id r) = ?order"
    by (simp_all add: stored_order_def)
  then show "loadOrder (\<lambda>_. Done) n db (or_id r) cust False = Inr (stored_order db (or_id r))"
    "ord_ID (stored_order db (or_id r)) = or_id r"
    by (simp_all add: order_of_rows_def)
qed

lemma loads_all:
  assumes "keys_ok db" and "set ids \<subseteq> or_id ` {r \<in> set (db_orders db). or_customer_id r = cust}"
  shows "loadOrders (\<lambda>_. Done) n db ids cust False = Inr (map (stored_order db) ids)"
  using assms(2) by (induction ids arbitrary: n) (auto simp: loads_stored(1) [OF assms(1)])

lemma stored_id:
  "keys_ok db \<Longrightarrow> oid \<in> or_id ` {r \<in> set (db_orders db). or_customer_id r = cust} \<Longrightarrow> ord_ID (stored_order db oid) = oid"
  using loads_stored(2) by blast

text \<open>The answer to the request after the \<open>k\<close>-th order of the listing.\<close>

definition quiet :: "order_calls \<Rightarrow> bool" where
  "quiet calls \<longleftrightarrow> oc_replies calls = (\<lambda>_. Done)"

lemma listing_page:
  assumes "reachable (fst st)" and "\<forall>r \<in> set (db_orders (fst st)). validUUID (or_id r)" and "quiet calls"
    and "1 \<le> limit" "limit \<le> 100" and "validUUID (pr_UserID caller)"
    and "customer_listing (fst st) (pr_UserID caller) = front @ rest" and "after = (if front = [] then [] else last front)"
  shows "page_of (fst (customerOrders calls (list_request request limit after) caller st)) =
    Some (map (\<lambda>oid. customerOrderResponse (oc_time calls) (stored_order (fst st) oid)) (take (nat limit) rest),
      if nat limit \<le> length rest then last (take (nat limit) rest) else [])"
proof -
  let ?cust = "pr_UserID caller" and ?here = "take (nat limit) rest"
  note facts = customer_pages_partition_facts [OF assms(1), where customerID = ?cust]
  have keys: "keys_ok (fst st)" by (rule coherent_keys [OF reachable_coherent [OF assms(1)]])
  have ids: "set (front @ rest) = or_id ` {r \<in> set (db_orders (fst st)). or_customer_id r = ?cust}"
    using facts(3) assms(7) by metis
  have valid: "validUUID oid" if "oid \<in> set (front @ rest)" for oid
    using that assms(2) unfolding ids by auto
  then have after_ok: "after = [] \<or> validUUID after" using assms(8) by simp
  have page: "customer_page (fst st) ?cust (nat limit) after = ?here"
  proof (cases "front = []")
    case True
    then show ?thesis using facts(1) assms(7,8) by simp
  next
    case False
    then have "customer_listing (fst st) ?cust ! (length front - 1) = last front" "length front - 1 < length (front @ rest)"
      "drop (Suc (length front - 1)) (front @ rest) = rest"
      by (simp_all add: assms(7) last_conv_nth nth_append less_imp_diff_less trans_less_add1)
    moreover have "last front \<noteq> []" using False valid [of "last front"] by auto
    ultimately show ?thesis using facts(2) [where k = "length front - 1" and limit = "nat limit"] False assms(7,8) by metis
  qed
  have here: "set ?here \<subseteq> or_id ` {r \<in> set (db_orders (fst st)). or_customer_id r = ?cust}"
    using ids by (auto dest: in_set_takeD)
  have loaded: "CustomerOrders (oc_replies calls) (fst st) ?cust (nat limit) after = Inr (map (stored_order (fst st)) ?here)"
    using assms(3) by (simp add: CustomerOrders_def quiet_def page loads_all [OF keys here])
  have size: "listLimit (list_request request limit after) = Some limit"
    using Atoi_Itoa [of limit] assms(4,5) by (simp add: listLimit_def list_request_def in64_def max_int64_def)
  have "customerOrders calls (list_request request limit after) caller st =
      (plain_answer (Success 200 (listResponse (customerOrderResponse (oc_time calls)) (map (stored_order (fst st)) ?here) limit)), st)"
  proof -
    have guard: "\<not> (after \<noteq> [] \<and> \<not> validUUID after)" using after_ok by blast
    have "hq_query (list_request request limit after) ''after_id'' = after" by (simp add: list_request_def)
    with assms(4-6) loaded have "Service_CustomerOrders (Some (shop_queries (oc_replies calls))) ?cust limit
        (hq_query (list_request request limit after) ''after_id'') st = Inr (map (stored_order (fst st)) ?here)"
      by (simp only: Service_CustomerOrders_def option.case, subst if_not_P) (use guard in \<open>auto simp: shop_queries_def\<close>)
    then show ?thesis by (simp add: customerOrders_def size)
  qed
  moreover have "ord_ID (last (map (stored_order (fst st)) ?here)) = last ?here" if "?here \<noteq> []"
  proof -
    have "last ?here \<in> or_id ` {r \<in> set (db_orders (fst st)). or_customer_id r = ?cust}"
      using here last_in_set [OF that] by blast
    from stored_id [OF keys this] show ?thesis by (simp only: last_map [OF that])
  qed
  moreover have "int (length ?here) = limit \<and> 0 < length ?here \<longleftrightarrow> nat limit \<le> length rest"
    using assms(4) by (auto simp: min_def)
  moreover have "?here \<noteq> []" if "nat limit \<le> length rest" using that assms(4) by auto
  ultimately show ?thesis by (simp add: page_of_list comp_def)
qed

lemma follow_from:
  assumes "reachable (fst st)" and "\<forall>r \<in> set (db_orders (fst st)). validUUID (or_id r)" and "quiet calls"
    and "1 \<le> limit" "limit \<le> 100" and "validUUID (pr_UserID caller)"
    and "customer_listing (fst st) (pr_UserID caller) = front @ rest" and "length rest < n"
  shows "follow n (\<lambda>after. fst (customerOrders calls (list_request request limit after) caller st))
      (if front = [] then [] else last front) =
    Some (map (\<lambda>oid. customerOrderResponse (oc_time calls) (stored_order (fst st) oid)) rest)"
  using assms(7,8)
proof (induction n arbitrary: front rest)
  case (Suc n)
  let ?here = "take (nat limit) rest"
  note page = listing_page [OF assms(1-6) Suc.prems(1) refl, of request]
  show ?case
  proof (cases "nat limit \<le> length rest")
    case False
    then show ?thesis by (simp add: page)
  next
    case True
    then have here: "?here \<noteq> []" using assms(4) by auto
    have "last ?here \<in> set (front @ rest)" using last_in_set [OF here] by (auto dest: in_set_takeD)
    also have "set (front @ rest) = or_id ` {r \<in> set (db_orders (fst st)). or_customer_id r = pr_UserID caller}"
      using customer_pages_partition_facts(3) [OF assms(1)] Suc.prems(1) by metis
    finally have "validUUID (last ?here)" using assms(2) by auto
    then have "last ?here \<noteq> []" by auto
    moreover have "follow n (\<lambda>after. fst (customerOrders calls (list_request request limit after) caller st)) (last ?here) =
        Some (map (\<lambda>oid. customerOrderResponse (oc_time calls) (stored_order (fst st) oid)) (drop (nat limit) rest))"
      using Suc.IH [of "front @ ?here" "drop (nat limit) rest"] Suc.prems assms(4) here True by (simp add: last_append)
    ultimately show ?thesis using True by (simp add: page flip: map_append)
  qed
qed simp

text \<open>
  C17: following the cursors lists every order. A customer who starts \<open>GET /v1/orders\<close> without a
  cursor, with any limit from 1 to 100, and asks again with the cursor of each answer until there is
  none, comes to an end and has received all of their orders, newest first, each exactly once.
\<close>

theorem following_cursors_lists_all:
  assumes "reachable (fst st)" and "\<forall>r \<in> set (db_orders (fst st)). validUUID (or_id r)" and "quiet calls"
    and "1 \<le> limit" "limit \<le> 100" and "validUUID (pr_UserID caller)"
    and "length (customer_listing (fst st) (pr_UserID caller)) < n"
  shows "follow n (\<lambda>after. fst (customerOrders calls (list_request request limit after) caller st)) [] =
    Some (map (\<lambda>oid. customerOrderResponse (oc_time calls) (stored_order (fst st) oid)) (customer_listing (fst st) (pr_UserID caller)))"
  using follow_from [OF assms(1-6), of "[]"] assms(7) by simp

end
