(* ===== verification/Api_Samples.thy ===== *)
theory Api_Samples
  imports Api_Guarantees Api_Listing Identity_Samples Service_Samples
begin

text \<open>
  A customer with one order, at whose requests the properties of the API apply.
\<close>

abbreviation ann :: string where "ann \<equiv> ''cccccccc-0000-4000-8000-000000000001''"

definition ann_row :: account_row where
  "ann_row = \<lparr>ac_id = ann, ac_name = ''Ann'', ac_email = ''ann@b.c'', ac_role = RoleCustomer, ac_status = AccountActive,
     ac_change_required = False, ac_verified_at = None\<rparr>"

definition ann_session :: session_row where
  "ann_session = \<lparr>sn_id = uid (CHR ''4''), sn_user = ann, sn_family = uid (CHR ''5''), sn_parent = None, sn_access = digest64 (CHR ''a''),
     sn_refresh = digest64 (CHR ''b''), sn_access_expires = 100, sn_refresh_expires = 200, sn_consumed = None, sn_revoked = None,
     sn_reason = None, sn_replaced = None, sn_created = 10\<rparr>"

definition ann_db :: identity_db where
  "ann_db = empty_identity\<lparr>id_accounts := [ann_row], id_sessions := [ann_session]\<rparr>"

definition ann_state :: api where
  "ann_state = \<lparr>ap_identity = (ann_db, []), ap_shop = (db1, [])\<rparr>"

definition sample_order_calls :: order_calls where
  "sample_order_calls = \<lparr>oc_replies = (\<lambda>_. Done), oc_seen = db1, oc_resolve = (\<lambda>_. Inr []), oc_ids = (\<lambda>_. None), oc_digest = (\<lambda>_. []),
     oc_now1 = 90, oc_now2 = 91, oc_upper = id, oc_time = stamp\<rparr>"

definition sample_calls :: "string api_calls" where
  "sample_calls = \<lparr>cl_identity = \<lparr>ic_auth = sample_env, ic_main = sample_env, ic_view = sample_env, ic_between = id,
       ic_clientIP = ''10.0.0.1'', ic_time = stamp\<rparr>,
     cl_orders = sample_order_calls, cl_between = id, cl_parse_uuid = Some, cl_canon = Some, cl_replies = (\<lambda>_. Done),
     cl_catalog = (\<lambda>_. empty_catalog), cl_ready = True, cl_random = None, cl_now_text = []\<rparr>"

definition get_request :: "string \<Rightarrow> http_request" where
  "get_request authorization = \<lparr>hq_authorization = authorization, hq_media = None, hq_query = (\<lambda>_. []), hq_path = (\<lambda>_. tea_order),
     hq_body = [], hq_cut = False\<rparr>"

lemma sample_bearer: "bearerToken [] = None" "bearerToken ''Bearer a'' = Some ''a''"
proof -
  have "Fields ''Bearer a'' = [''Bearer'', ''a'']"
    using utf8_segs_ascii [of "''Bearer a''"] by (simp add: Fields_def byte_def IsSpace_def)
  then show "bearerToken ''Bearer a'' = Some ''a''" by (simp add: bearerToken_def)
qed (simp add: bearerToken_def Fields_def)

lemma ann_valid: "validUUID ann"
  by code_simp

lemma ann_authenticated:
  "Authenticate sample_env ''a'' ann_db =
     Inr \<lparr>pr_UserID = ann, pr_Role = RoleCustomer, pr_Status = AccountActive, pr_FamilyID = uid (CHR ''5''), pr_PasswordChangeRequired = False\<rparr>"
proof -
  have "TrimSpace ''a'' = ''a''" by (rule TrimSpace_plain) (simp add: byte_def IsSpace_def)
  then show ?thesis
    by (simp add: Authenticate_def AuthenticateAccess_def ann_db_def ann_session_def ann_row_def account_of_def may_log_in_def live_def empty_identity_def)
qed

lemma api_needs_role_witness:
  "snd (api_handler sample_calls ''GET'' [''v1'', ''staff'', ''orders''] [] (get_request []) ann_state) = ann_state \<and>
   400 \<le> fst (fst (api_handler sample_calls ''GET'' [''v1'', ''staff'', ''orders''] [] (get_request []) ann_state))"
proof -
  have area: "area_role ''staff'' = Some RoleCashier" by (simp add: area_role_def)
  obtain status headers body st' where run: "api_handler sample_calls ''GET'' [''v1'', ''staff'', ''orders''] [] (get_request []) ann_state =
      ((status, headers, body), st')" by (metis surj_pair)
  have "bearerToken (hq_authorization (get_request [])) = None" by (simp add: get_request_def sample_bearer)
  with api_needs_role [OF area run] run show ?thesis by simp
qed

lemma ann_order:
  "Service_CustomerOrder (Some (shop_queries (\<lambda>_. Done))) ann tea_order (db1, []) = Inr (stored_order db1 tea_order)"
proof -
  have "keys_ok db1" by (rule coherent_keys [OF reachable_coherent [OF reachable_samples(2)]])
  moreover have "order_row_of store_draft \<in> set (db_orders db1)" "or_customer_id (order_row_of store_draft) = ann"
    "or_id (order_row_of store_draft) = tea_order"
    by (simp_all add: db1_def placed_db_def order_row_of_def store_draft_def Let_def)
  ultimately have "loadOrder (\<lambda>_. Done) 0 db1 tea_order ann False = Inr (stored_order db1 tea_order)"
    using loads_stored(1) [of db1 "order_row_of store_draft" ann 0] by simp
  then show ?thesis
    using ann_valid tea_uuids(1) by (simp add: Service_CustomerOrder_def shop_queries_def CustomerOrder_def)
qed

lemma customers_see_own_orders_witness:
  "\<exists>a token account orders. fst (serve sample_calls R_customer_order (get_request ''Bearer a'') ann_state) = a \<and> status_of a = 200 \<and>
     signed_in_as sample_env ann_db token account \<and> shows_orders stamp a orders \<and>
     list_all (\<lambda>order. ord_CustomerID order = ac_id account) orders"
proof -
  let ?a = "plain_answer (Success 200 (customerOrderResponse stamp (stored_order db1 tea_order)))"
  have "serve sample_calls R_customer_order (get_request ''Bearer a'') ann_state = (?a, ann_state)"
    using ann_authenticated ann_order
    by (simp add: serve_def guard_of_def route_table_simps RequireRole_def authenticated_def get_request_def sample_bearer sample_calls_def ann_state_def
        Authorize_def customerOrder_def sample_order_calls_def on_shop_def)
  with customers_see_own_orders [OF _ this] show ?thesis
    by (auto simp: sample_calls_def sample_order_calls_def ann_state_def list_all_iff)
qed

lemma following_cursors_lists_all_witness:
  "follow 2 (\<lambda>after. fst (customerOrders sample_order_calls (list_request (get_request []) 1 after)
       \<lparr>pr_UserID = ann, pr_Role = RoleCustomer, pr_Status = AccountActive, pr_FamilyID = [], pr_PasswordChangeRequired = False\<rparr> (db1, []))) [] =
     Some [customerOrderResponse stamp (stored_order db1 tea_order)]"
proof -
  have listing: "customer_listing db1 ann = [tea_order]"
    by (simp add: customer_listing_def newest_first_def db1_def placed_db_def db0_def empty_db_def order_row_of_def store_draft_def Let_def)
  have "\<forall>r \<in> set (db_orders db1). validUUID (or_id r)"
    using tea_uuids(1) by (simp add: db1_def placed_db_def db0_def empty_db_def order_row_of_def store_draft_def Let_def)
  then show ?thesis
    using following_cursors_lists_all [of "(db1, [])" sample_order_calls 1
        "\<lparr>pr_UserID = ann, pr_Role = RoleCustomer, pr_Status = AccountActive, pr_FamilyID = [], pr_PasswordChangeRequired = False\<rparr>" 2 "get_request []"]
      reachable_samples(2) ann_valid
    by (simp add: listing quiet_def sample_order_calls_def)
qed

end
