(* ===== verification/Oauth_Verifier.thy ===== *)
theory Oauth_Verifier
  imports Identity_Service Go_Http
begin

text \<open>
  The verifier of provider tokens (\<open>identity/adapters/oauth/verifier.go\<close>). \<open>oidc issuer audience raw\<close>
  stands for \<open>IDTokenVerifier.Verify\<close> of \<open>go-oidc\<close> with the keys of the provider: the token when its
  signature, its audience and its expiry are good (the check of the issuer is switched off there).
  \<open>sha256_hex\<close> is the hexadecimal SHA-256 digest.
\<close>

record id_token =
  it_Issuer :: string
  it_Subject :: string
  it_Nonce :: string
  it_Claims :: json

record providerVerifier =
  pv_issuer :: string
  pv_allowedIssuers :: "string set"
  pv_audiences :: "string list"

definition googleIssuer :: string where
  "googleIssuer = ''https://accounts.google.com''"

definition appleIssuer :: string where
  "appleIssuer = ''https://appleid.apple.com''"

text \<open>\<open>newWithKeySets\<close>: one verifier for each audience of a provider.\<close>

definition newProviderVerifier :: "string \<Rightarrow> string list \<Rightarrow> string list \<Rightarrow> providerVerifier" where
  "newProviderVerifier issuer audiences allowedIssuers =
     \<lparr>pv_issuer = issuer, pv_allowedIssuers = set allowedIssuers, pv_audiences = audiences\<rparr>"

definition providers :: "string list \<Rightarrow> string list \<Rightarrow> Provider \<Rightarrow> providerVerifier option" where
  "providers googleClientIDs appleClientIDs provider =
     (case provider of
        ProviderGoogle \<Rightarrow> Some (newProviderVerifier googleIssuer googleClientIDs [googleIssuer, ''accounts.google.com''])
      | ProviderApple \<Rightarrow> Some (newProviderVerifier appleIssuer appleClientIDs [appleIssuer])
      | _ \<Rightarrow> None)"

text \<open>The decoder of \<open>email_verified\<close>: a boolean, \<open>null\<close> for false, or a text that spells one.\<close>

definition verifiedBool :: "json \<Rightarrow> bool option" where
  "verifiedBool v =
     (case v of
        JNull \<Rightarrow> Some False
      | JBool b \<Rightarrow> Some b
      | JStr text \<Rightarrow>
          if fold_name text = fold_name ''true'' then Some True
          else if fold_name text = fold_name ''false'' then Some False
          else None
      | _ \<Rightarrow> None)"

record id_claims =
  cl_Email :: string
  cl_EmailVerified :: bool
  cl_Name :: string

definition decode_claims :: "json \<Rightarrow> id_claims option" where
  "decode_claims = decode_struct False
     [(''email'', string_field (\<lambda>s. cl_Email_update (\<lambda>_. s))),
      (''email_verified'', (\<lambda>v acc. map_option (\<lambda>b. acc\<lparr>cl_EmailVerified := b\<rparr>) (verifiedBool v))),
      (''name'', string_field (\<lambda>s. cl_Name_update (\<lambda>_. s)))]
     \<lparr>cl_Email = [], cl_EmailVerified = False, cl_Name = []\<rparr>"

definition nonceMatches :: "(string \<Rightarrow> string) \<Rightarrow> string \<Rightarrow> string \<Rightarrow> bool" where
  "nonceMatches sha256_hex actual expectedHash \<longleftrightarrow> sha256_hex actual = expectedHash"

text \<open>The first verifier that accepts the token.\<close>

fun first_verified :: "(string \<Rightarrow> id_token option) \<Rightarrow> string list \<Rightarrow> id_token option" where
  "first_verified oidc [] = None"
| "first_verified oidc (audience # rest) =
     (case oidc audience of Some token \<Rightarrow> Some token | None \<Rightarrow> first_verified oidc rest)"

definition Verify_oauth ::
    "(string \<Rightarrow> string \<Rightarrow> string \<Rightarrow> id_token option) \<Rightarrow> (string \<Rightarrow> string) \<Rightarrow> (Provider \<Rightarrow> providerVerifier option) \<Rightarrow>
     Provider \<Rightarrow> string \<Rightarrow> string \<Rightarrow> identity_error + VerifiedIdentity" where
  "Verify_oauth oidc sha256_hex registry provider rawToken expectedNonceHash =
     (case registry provider of
        None \<Rightarrow> Inl IdInvalidOAuthToken
      | Some configured \<Rightarrow>
          if pv_audiences configured = [] \<or> TrimSpace rawToken = [] then Inl IdInvalidOAuthToken
          else case first_verified (\<lambda>audience. oidc (pv_issuer configured) audience rawToken) (pv_audiences configured) of
            None \<Rightarrow> Inl IdInvalidOAuthToken
          | Some token \<Rightarrow>
              if it_Issuer token \<notin> pv_allowedIssuers configured then Inl IdInvalidOAuthToken
              else if TrimSpace (it_Subject token) = [] \<or> \<not> nonceMatches sha256_hex (it_Nonce token) expectedNonceHash
              then Inl IdInvalidOAuthToken
              else case decode_claims (it_Claims token) of
                None \<Rightarrow> Inl IdInvalidOAuthToken
              | Some claims \<Rightarrow>
                  Inr \<lparr>vi_Provider = provider, vi_Subject = it_Subject token, vi_Email = cl_Email claims,
                    vi_EmailVerified = cl_EmailVerified claims, vi_SuggestedName = cl_Name claims\<rparr>)"

section \<open>What a sign-on proves\<close>

lemma first_verified_Some:
  "first_verified oidc audiences = Some token \<Longrightarrow> \<exists>audience \<in> set audiences. oidc audience = Some token"
  by (induction audiences) (auto split: option.splits)

text \<open>A token of Google for one of our clients, made for the sign-on that has this nonce.\<close>

definition google_token ::
    "(string \<Rightarrow> string \<Rightarrow> string \<Rightarrow> id_token option) \<Rightarrow> (string \<Rightarrow> string) \<Rightarrow> string list \<Rightarrow> string \<Rightarrow> string \<Rightarrow> id_token \<Rightarrow> bool" where
  "google_token oidc sha256_hex clientIDs rawToken nonceHash token \<longleftrightarrow>
     (\<exists>audience \<in> set clientIDs. oidc googleIssuer audience rawToken = Some token) \<and>
     it_Issuer token \<in> {googleIssuer, ''accounts.google.com''} \<and> TrimSpace (it_Subject token) \<noteq> [] \<and>
     sha256_hex (it_Nonce token) = nonceHash"

lemma Verify_google:
  assumes "Verify_oauth oidc sha256_hex (providers clientIDs appleIDs) ProviderGoogle rawToken nonceHash = Inr v"
  shows "\<exists>token claims. google_token oidc sha256_hex clientIDs rawToken nonceHash token \<and> decode_claims (it_Claims token) = Some claims \<and>
    vi_Provider v = ProviderGoogle \<and> vi_Subject v = it_Subject token \<and> vi_Email v = cl_Email claims \<and> vi_EmailVerified v = cl_EmailVerified claims"
  using assms
  by (auto simp: Verify_oauth_def providers_def newProviderVerifier_def google_token_def nonceMatches_def
      split: if_splits option.splits dest!: first_verified_Some)

end
