(* ===== verification/Oauth_Guarantees.thy ===== *)
theory Oauth_Guarantees
  imports Oauth_Verifier Identity_Moves Identity_Samples
begin

text \<open>What a single sign-on proves, from the token of the provider to the account it opens.\<close>

text \<open>The account of a provider's subject.\<close>

definition belongs_to :: "identity_db \<Rightarrow> Provider \<Rightarrow> string \<Rightarrow> string \<Rightarrow> bool" where
  "belongs_to db provider subject userID \<longleftrightarrow>
     (\<exists>l \<in> set (id_logins db). lg_provider l = provider \<and> lg_subject l = subject \<and> lg_user l = userID)"

text \<open>
  What a sign-on of a provider's subject with an email address does to the store, as its transaction
  finds it: it opens one session, of the account that the subject is linked to already, with the
  accounts and the logins as they are; or, when the subject is linked to no account and no
  account has the address, of a new customer with the address, who is linked to the subject.
\<close>

definition new_login :: "Provider \<Rightarrow> string \<Rightarrow> string \<Rightarrow> login_row" where
  "new_login provider subject userID =
     \<lparr>lg_user = userID, lg_provider = provider, lg_subject = subject, lg_hash = None\<rparr>"

definition joins_as :: "identity_db \<Rightarrow> identity_db \<Rightarrow> Provider \<Rightarrow> string \<Rightarrow> string \<Rightarrow> string \<Rightarrow> bool" where
  "joins_as db db' provider subject email userID \<longleftrightarrow>
     (\<exists>a. ac_id a = userID \<and> ac_email a = email \<and> ac_role a = RoleCustomer \<and> id_accounts db' = id_accounts db @ [a]) \<and>
     id_logins db' = id_logins db @ [new_login provider subject userID] \<and>
     (\<forall>x \<in> set (id_accounts db). ac_id x \<noteq> userID \<and> ac_email x \<noteq> email) \<and>
     (\<forall>u. \<not> belongs_to db provider subject u)"

definition signs_on :: "identity_db \<Rightarrow> identity_db \<Rightarrow> Provider \<Rightarrow> string \<Rightarrow> string \<Rightarrow> string \<Rightarrow> bool" where
  "signs_on db db' provider subject email userID \<longleftrightarrow>
     belongs_to db provider subject userID \<and> id_accounts db' = id_accounts db \<and> id_logins db' = id_logins db \<or>
     joins_as db db' provider subject email userID"

definition opens_for :: "identity_db \<Rightarrow> identity_db \<Rightarrow> string \<Rightarrow> string \<Rightarrow> bool" where
  "opens_for db db' userID access \<longleftrightarrow>
     (\<exists>s. id_sessions db' = id_sessions db @ [s] \<and> sn_user s = userID \<and> sn_access s = access)"

lemma finish_login_opens_for:
  assumes "finish_login sv replies n iid user session now db = Inr (Inr user', ce, db', m)"
  shows "user' = user \<and> id_accounts db' = id_accounts db \<and> id_logins db' = id_logins db \<and>
    opens_for db db' (us_ID user) (ns_AccessTokenHash session)"
  by (rule finish_login_Inr [OF assms])
    (auto simp: opens_for_def opened_session_def insertSession_Inr consumeIntent_Inr)

lemma oauth_login_signs_on:
  assumes "CompleteOAuthLogin pg_normal sv replies iid v session now db = (Inr user, db')"
  shows "signs_on db db' (vi_Provider v) (vi_Subject v) (vi_Email v) (us_ID user) \<and>
    opens_for db db' (us_ID user) (ns_AccessTokenHash session)"
proof -
  from assms obtain ce n where body: "oauth_login_body pg_normal sv replies iid v session now db = Inr (Inr user, ce, db', n)"
    by (auto simp: CompleteOAuthLogin_def tx_run_Inr)
  then show ?thesis
  proof (cases rule: oauth_login_body_Inr)
    case (known u)
    from known(1) obtain l where l: "find (\<lambda>l. lg_provider l = vi_Provider v \<and> lg_subject l = vi_Subject v) (id_logins db) = Some l"
      and u: "map_option user_of (account_of db (lg_user l)) = Some u"
      by (auto simp: userByProviderSubject_def split: option.splits)
    from u have "us_ID u = lg_user l" by (auto simp: account_of_Some user_of_def)
    moreover from l have "l \<in> set (id_logins db)" "lg_provider l = vi_Provider v" "lg_subject l = vi_Subject v"
      by (auto dest: find_SomeD)
    ultimately have "belongs_to db (vi_Provider v) (vi_Subject v) (us_ID u)" by (auto simp: belongs_to_def)
    with finish_login_opens_for [OF known(2)] show ?thesis by (simp add: signs_on_def)
  next
    case (created db1 db2 a)
    note done' = finish_login_opens_for [OF created(4)]
    have a: "us_ID (short_user a) = ac_id a" by (simp add: short_user_def user_of_def)
    from created(1) have row: "ac_email a = vi_Email v" "ac_role a = RoleCustomer" by (simp_all add: new_customer_def)
    from created(2) have made: "id_accounts db1 = id_accounts db @ [a]" "id_logins db1 = id_logins db" "id_sessions db1 = id_sessions db"
      and fresh: "\<forall>x \<in> set (id_accounts db). ac_id x \<noteq> ac_id a \<and> ac_email x \<noteq> ac_email a"
      by (auto simp: insert_account_Inr account_clash_def)
    from created(3) made have "id_accounts db2 = id_accounts db @ [a]" "id_sessions db2 = id_sessions db"
        "id_logins db2 = id_logins db @ [new_login (vi_Provider v) (vi_Subject v) (ac_id a)]"
      and "\<forall>u. \<not> belongs_to db (vi_Provider v) (vi_Subject v) u"
      by (auto simp: insert_login_Inr new_login_def belongs_to_def login_clash_def)
    with done' a row fresh show ?thesis by (auto simp: signs_on_def joins_as_def opens_for_def)
  qed simp
qed

text \<open>
  C16: what a sign-on with Google proves. A sign-on that succeeds was made with a token that the keys
  of Google verify for one of our client identifiers, issued by Google, that carries the nonce of
  an unused intent to sign on and a verified email address. With the store as its transaction finds
  it, it opens one session, the one of the tokens it returns: of the account that the subject
  of that token is linked to already, no account and no link being changed; or of a new customer
  with the verified address, linked to the subject, when neither the subject is linked to an
  account nor the address belongs to one. So an account that only has the same address is
  never linked or opened.
\<close>

theorem google_login_proves_identity:
  assumes "ev_oauth env = Verify_oauth oidc sha256_hex (providers clientIDs appleIDs)"
    and "Service_OAuthLogin env intentID rawToken db = (Inr tokens, db')"
  shows "\<exists>i token claims email. usable_intent db intentID (ev_now env 0) = Some i \<and> in_purpose i = OAuthLogin \<and>
    google_token oidc sha256_hex clientIDs rawToken (in_nonce i) token \<and>
    decode_claims (it_Claims token) = Some claims \<and> cl_EmailVerified claims \<and>
    NormalizeEmail (ev_lower env) (cl_Email claims) = Inr email \<and>
    signs_on (ev_others env 1 db) db' ProviderGoogle (it_Subject token) email (us_ID (st_User tokens)) \<and>
    opens_for (ev_others env 1 db) db' (us_ID (st_User tokens)) (ev_hashToken env (st_AccessToken tokens))"
proof -
  from assms(2) obtain intent verified plain stored user where
    found: "FindOAuthIntent (ev_replies env 0 0) intentID (ev_now env 0) db = Inr intent"
    and kind: "oi_Purpose intent = OAuthLogin" "oi_Provider intent = ProviderGoogle"
    and proven: "proven_identity env intent rawToken = Inr verified" "vi_EmailVerified verified"
    and session: "makeSession env 1 [] = Inr (plain, stored)"
    and done': "CompleteOAuthLogin (ev_pg_normal env) (ev_server env 1) (ev_replies env 1) (oi_ID intent) verified stored
        (ev_now env 2) (ev_others env 1 db) = (Inr user, db')" "tokens = plain\<lparr>st_User := user\<rparr>"
    by (auto simp: Service_OAuthLogin_def split: sum.splits if_splits prod.splits)
  from session have hash: "ns_AccessTokenHash stored = ev_hashToken env (st_AccessToken tokens)"
    by (auto simp: makeSession_def bindE_Inr Let_def done'(2))
  from found obtain i where i: "usable_intent db intentID (ev_now env 0) = Some i" "intent = intent_of i"
    by (auto simp: FindOAuthIntent_def bindE_Inr split: option.splits)
  from proven(1) obtain v where v: "ev_oauth env (oi_Provider intent) rawToken (oi_NonceHash intent) = Inr v"
    and norm: "normalizeVerifiedIdentity (ev_lower env) v = Inr verified"
    by (auto simp: proven_identity_def split: sum.splits)
  from norm have same: "vi_Provider verified = vi_Provider v" "vi_Subject verified = vi_Subject v" "vi_EmailVerified verified = vi_EmailVerified v"
    "NormalizeEmail (ev_lower env) (vi_Email v) = Inr (vi_Email verified)"
    by (auto simp: normalizeVerifiedIdentity_def split: if_splits sum.splits)
  have "in_provider i = ProviderGoogle" using kind(2) by (simp add: i(2) intent_of_def)
  with v have "Verify_oauth oidc sha256_hex (providers clientIDs appleIDs) ProviderGoogle rawToken (in_nonce i) = Inr v"
    by (simp add: assms(1) i(2) intent_of_def)
  from Verify_google [OF this] obtain token claims where
    token: "google_token oidc sha256_hex clientIDs rawToken (in_nonce i) token" "decode_claims (it_Claims token) = Some claims"
      "vi_Provider v = ProviderGoogle" "vi_Subject v = it_Subject token" "vi_EmailVerified v = cl_EmailVerified claims"
      "vi_Email v = cl_Email claims" by blast
  have "signs_on (ev_others env 1 db) db' ProviderGoogle (it_Subject token) (vi_Email verified) (us_ID (st_User tokens))"
    "opens_for (ev_others env 1 db) db' (us_ID (st_User tokens)) (ev_hashToken env (st_AccessToken tokens))"
    using oauth_login_signs_on [OF done'(1)] hash by (simp_all add: same(1,2) token(3,4) done'(2))
  moreover have "NormalizeEmail (ev_lower env) (cl_Email claims) = Inr (vi_Email verified)" "cl_EmailVerified claims"
    using same(3,4) token(5,6) proven(2) by simp_all
  ultimately show ?thesis using i kind token(1,2) by (auto simp: intent_of_def)
qed

section \<open>A sign-on\<close>

definition signon_intent :: intent_row where
  "signon_intent = \<lparr>in_id = uid (CHR ''7''), in_provider = ProviderGoogle, in_purpose = OAuthLogin, in_bound = None,
     in_nonce = digest64 (CHR ''n''), in_expires = 95, in_consumed = None, in_created = 80\<rparr>"

definition bea_row :: account_row where
  "bea_row = \<lparr>ac_id = uid (CHR ''1''), ac_name = ''Bea'', ac_email = ''b@b.c'', ac_role = RoleCustomer, ac_status = AccountActive,
     ac_change_required = False, ac_verified_at = None\<rparr>"

definition signon_db :: identity_db where
  "signon_db = empty_identity\<lparr>id_accounts := [bea_row], id_intents := [signon_intent],
     id_logins := [\<lparr>lg_user = uid (CHR ''1''), lg_provider = ProviderGoogle, lg_subject = ''s'', lg_hash = None\<rparr>]\<rparr>"

definition bea_token :: id_token where
  "bea_token = \<lparr>it_Issuer = googleIssuer, it_Subject = ''s'', it_Nonce = ''n'',
     it_Claims = JObj [(''email'', JStr ''b@b.c''), (''email_verified'', JBool True)]\<rparr>"

definition sample_oidc :: "string \<Rightarrow> string \<Rightarrow> string \<Rightarrow> id_token option" where
  "sample_oidc issuer audience raw = (if raw = ''t'' \<and> audience = ''client'' \<and> issuer = googleIssuer then Some bea_token else None)"

definition signon_env :: identity_env where
  "signon_env = sample_env\<lparr>ev_oauth := Verify_oauth sample_oidc (\<lambda>n. digest64 (hd (n @ ''z''))) (providers [''other'', ''client''] [])\<rparr>"

lemma signon_claims: "decode_claims (it_Claims bea_token) = Some \<lparr>cl_Email = ''b@b.c'', cl_EmailVerified = True, cl_Name = []\<rparr>"
  by (simp add: bea_token_def decode_claims_def find_field_def fold_name_ascii byte_def fold_rune_def verifiedBool_def)

lemma signon_texts: "TrimSpace ''t'' = ''t''" "TrimSpace ''s'' = ''s''" "NormalizeEmail id ''b@b.c'' = Inr ''b@b.c''"
  by (simp_all add: NormalizeEmail_def TrimSpace_plain RuneCount_ascii byte_def Let_def IsSpace_def)

lemma bea_token_simps: "it_Issuer bea_token = googleIssuer" "it_Subject bea_token = ''s''" "it_Nonce bea_token = ''n''"
  by (simp_all add: bea_token_def)

lemma signon_env_simps:
  "ev_lower signon_env = id" "ev_replies signon_env n = answered" "ev_others signon_env n db = db"
  "ev_server signon_env n = sample_server 90 (CHR ''4'') (CHR ''5'') (CHR ''6'')" "ev_now signon_env n = 90"
  "ev_token signon_env n = Inr (if n = 0 then ''a'' else ''b'')" "ev_hashToken signon_env t = digest64 (hd (t @ ''z''))"
  "ev_pg_normal signon_env = id" "ev_config signon_env = ev_config sample_env"
  "ev_oauth signon_env = Verify_oauth sample_oidc (\<lambda>n. digest64 (hd (n @ ''z''))) (providers [''other'', ''client''] [])"
  by (simp_all add: signon_env_def sample_env_def)

lemma signon_proven:
  "\<exists>name. proven_identity signon_env (intent_of signon_intent) ''t'' = Inr \<lparr>vi_Provider = ProviderGoogle, vi_Subject = ''s'',
     vi_Email = ''b@b.c'', vi_EmailVerified = True, vi_SuggestedName = name\<rparr>"
  by (simp add: proven_identity_def signon_intent_def intent_of_def signon_env_simps Verify_oauth_def providers_def
      newProviderVerifier_def sample_oidc_def signon_claims signon_texts nonceMatches_def bea_token_simps
      normalizeVerifiedIdentity_def Provider_OAuth_def)

lemma signed_on: "\<exists>tokens db'. Service_OAuthLogin signon_env (uid (CHR ''7'')) ''t'' signon_db = (Inr tokens, db')"
proof -
  obtain name where proven: "proven_identity signon_env (intent_of signon_intent) ''t'' = Inr \<lparr>vi_Provider = ProviderGoogle,
      vi_Subject = ''s'', vi_Email = ''b@b.c'', vi_EmailVerified = True, vi_SuggestedName = name\<rparr>"
    using signon_proven by blast
  have found: "usable_intent signon_db (uid (CHR ''7'')) 90 = Some signon_intent"
    by (simp add: usable_intent_def signon_db_def signon_intent_def)
  show ?thesis
    by (simp add: Service_OAuthLogin_def FindOAuthIntent_def signon_env_simps found proven)
       (simp add: signon_intent_def intent_of_def makeSession_def wrapE_def signon_env_simps sample_env_simps
      CompleteOAuthLogin_def oauth_login_body_def lockIntent_def userByProviderSubject_def account_of_def finish_login_def bea_row_def
      insertSession_def session_check_def consumeIntent_def update_rows_def affected_def intent_check_def may_log_in_def
      opened_session_def found signon_db_def usable_intent_def Provider_OAuth_def run_defs)
qed

lemma google_login_proves_identity_witness:
  "\<exists>tokens db. Service_OAuthLogin signon_env (uid (CHR ''7'')) ''t'' signon_db = (Inr tokens, db) \<and>
     (\<exists>subject email. signs_on signon_db db ProviderGoogle subject email (us_ID (st_User tokens)))"
proof -
  from signed_on obtain tokens db where run: "Service_OAuthLogin signon_env (uid (CHR ''7'')) ''t'' signon_db = (Inr tokens, db)" by blast
  from google_login_proves_identity [OF signon_env_simps(10) run, unfolded signon_env_simps(3)] run show ?thesis by blast
qed

end
