(* ===== verification/Go_Duration.thy ===== *)
theory Go_Duration
  imports Go_Http
begin

text \<open>
  What the configuration uses of the standard library: durations as text (\<open>time.ParseDuration\<close> and
  \<open>Duration.String\<close>), \<open>strconv.ParseBool\<close>, \<open>net.JoinHostPort\<close> and the levels of \<open>log/slog\<close>. A
  duration is a number of nanoseconds.
\<close>

section \<open>Units\<close>

definition Nanosecond :: int where "Nanosecond = 1"
definition Microsecond :: int where "Microsecond = 1000 * Nanosecond"
definition Millisecond :: int where "Millisecond = 1000 * Microsecond"
definition Second :: int where "Second = 1000 * Millisecond"
definition Minute :: int where "Minute = 60 * Second"
definition Hour :: int where "Hour = 60 * Minute"

lemmas duration_units = Nanosecond_def Microsecond_def Millisecond_def Second_def Minute_def Hour_def

text \<open>The two letters that UTF-8 texts use for micro.\<close>

definition micro_sign :: string where
  "micro_sign = [char_of (194 :: nat), char_of (181 :: nat)]"

definition greek_mu :: string where
  "greek_mu = [char_of (206 :: nat), char_of (188 :: nat)]"

definition unit_of :: "string \<Rightarrow> int option" where
  "unit_of u =
     (if u = ''ns'' then Some Nanosecond
      else if u = ''us'' \<or> u = micro_sign @ ''s'' \<or> u = greek_mu @ ''s'' then Some Microsecond
      else if u = ''ms'' then Some Millisecond else if u = ''s'' then Some Second
      else if u = ''m'' then Some Minute else if u = ''h'' then Some Hour else None)"

section \<open>Parsing\<close>

definition is_digit :: "char \<Rightarrow> bool" where
  "is_digit c \<longleftrightarrow> 48 \<le> byte c \<and> byte c \<le> 57"

text \<open>\<open>leadingInt\<close>, whose check for an overflow on the way is one of the whole number.\<close>

definition leadingInt :: "string \<Rightarrow> (int \<times> string) option" where
  "leadingInt s =
     (let v = digits_value (takeWhile is_digit s) in
      if v > 2 ^ 63 then None else Some (v, dropWhile is_digit s))"

text \<open>\<open>leadingFraction\<close>: the digits up to an overflow, and the power of ten they are divided by.\<close>

fun leadingFraction :: "string \<Rightarrow> int \<Rightarrow> int \<Rightarrow> bool \<Rightarrow> int \<times> int \<times> string" where
  "leadingFraction [] x scale overflow = (x, scale, [])"
| "leadingFraction (c # s) x scale overflow =
     (if \<not> is_digit c then (x, scale, c # s)
      else if overflow \<or> x > (2 ^ 63 - 1) div 10 \<or> x * 10 + (int (byte c) - 48) > 2 ^ 63 then leadingFraction s x scale True
      else leadingFraction s (x * 10 + (int (byte c) - 48)) (scale * 10) False)"

lemma leadingFraction_shorter: "length (snd (snd (leadingFraction s x scale overflow))) \<le> length s"
  by (induction s x scale overflow rule: leadingFraction.induct) auto

text \<open>
  One number with its unit: its value and the rest of the text. \<open>scaled f unit scale\<close> is the product
  \<open>float64(f) * (float64(unit) / scale)\<close> of floating point numbers, cut to a whole number.
\<close>

definition duration_unit :: "(int \<Rightarrow> int \<Rightarrow> int \<Rightarrow> int) \<Rightarrow> string \<Rightarrow> (int \<times> string) option" where
  "duration_unit scaled s =
     (if \<not> (s \<noteq> [] \<and> (hd s = CHR ''.'' \<or> is_digit (hd s))) then None
      else case leadingInt s of
        None \<Rightarrow> None
      | Some (v, s1) \<Rightarrow>
          (let pre = (length s1 \<noteq> length s) in
           case (if s1 \<noteq> [] \<and> hd s1 = CHR ''.''
                 then case leadingFraction (tl s1) 0 1 False of (f, scale, s2) \<Rightarrow> (f, scale, length s2 \<noteq> length (tl s1), s2)
                 else (0, 1, False, s1)) of
             (f, scale, post, s2) \<Rightarrow>
               if \<not> pre \<and> \<not> post then None
               else (let u = takeWhile (\<lambda>c. \<not> (c = CHR ''.'' \<or> is_digit c)) s2;
                         rest = dropWhile (\<lambda>c. \<not> (c = CHR ''.'' \<or> is_digit c)) s2 in
                     if u = [] then None
                     else case unit_of u of
                       None \<Rightarrow> None
                     | Some unit \<Rightarrow>
                         if v > 2 ^ 63 div unit then None
                         else if f > 0 then
                           (let w = (v * unit + scaled f unit scale) mod 2 ^ 64 in if w > 2 ^ 63 then None else Some (w, rest))
                         else Some (v * unit, rest))))"

lemma dropWhile_takeWhile_shorter: "takeWhile P s \<noteq> [] \<Longrightarrow> length (dropWhile P s) < length s"
  by (cases s) (auto simp: length_dropWhile_le less_Suc_eq_le split: if_splits)

lemma duration_unit_shorter:
  assumes "duration_unit scaled s = Some (v, rest)"
  shows "length rest < length s"
proof -
  let ?letter = "\<lambda>c. \<not> (c = CHR ''.'' \<or> is_digit c)"
  from assms obtain w s1 where s1: "leadingInt s = Some (w, s1)"
    by (auto simp: duration_unit_def split: if_splits option.splits prod.splits)
  then have "length s1 \<le> length s"
    by (auto simp: leadingInt_def Let_def length_dropWhile_le split: if_splits)
  moreover obtain s2 where "rest = dropWhile ?letter s2" "takeWhile ?letter s2 \<noteq> []" and "length s2 \<le> length s1"
  proof (cases "s1 \<noteq> [] \<and> hd s1 = CHR ''.''")
    case True
    obtain f scale s2 where s2: "leadingFraction (tl s1) 0 1 False = (f, scale, s2)" by (rule prod_cases3)
    have "length s2 \<le> length s1" using leadingFraction_shorter [of "tl s1" 0 1 False] by (simp add: s2)
    with True s1 s2 assms that show ?thesis
      by (auto simp: duration_unit_def Let_def split: if_splits option.splits)
  next
    case False
    with s1 assms that show ?thesis
      by (auto simp: duration_unit_def Let_def split: if_splits option.splits)
  qed
  ultimately show ?thesis using dropWhile_takeWhile_shorter [of ?letter s2] by simp
qed

function duration_units :: "(int \<Rightarrow> int \<Rightarrow> int \<Rightarrow> int) \<Rightarrow> int \<Rightarrow> string \<Rightarrow> int option" where
  "duration_units scaled d s =
     (if s = [] then Some d
      else case duration_unit scaled s of
        None \<Rightarrow> None
      | Some (v, rest) \<Rightarrow>
          (let d' = (d + v) mod 2 ^ 64 in if d' > 2 ^ 63 then None else duration_units scaled d' rest))"
  by pat_completeness auto
termination
  by (relation "measure (\<lambda>(_, _, s). length s)") (auto dest: duration_unit_shorter)

declare duration_units.simps [simp del]

definition ParseDuration :: "(int \<Rightarrow> int \<Rightarrow> int \<Rightarrow> int) \<Rightarrow> string \<Rightarrow> int option" where
  "ParseDuration scaled text =
     (let negative = (text \<noteq> [] \<and> hd text = CHR ''-'');
          s = (if text \<noteq> [] \<and> (hd text = CHR ''-'' \<or> hd text = CHR ''+'') then tl text else text) in
      if s = ''0'' then Some 0
      else if s = [] then None
      else case duration_units scaled 0 s of
        None \<Rightarrow> None
      | Some d \<Rightarrow> if negative then Some (- d) else if d > 2 ^ 63 - 1 then None else Some d)"

section \<open>Printing\<close>

text \<open>\<open>fmtFrac\<close>: the decimals without the zeros at their end.\<close>

definition fraction_text :: "nat \<Rightarrow> nat \<Rightarrow> string" where
  "fraction_text v precision =
     (let digits = decimal v; padded = replicate (precision - length digits) (CHR ''0'') @ digits;
          kept = rev (dropWhile (\<lambda>c. c = CHR ''0'') (rev padded)) in
      if v = 0 then [] else CHR ''.'' # kept)"

definition duration_text :: "nat \<Rightarrow> string" where
  "duration_text u =
     (if u < 10 ^ 9 then
        (if u = 0 then ''0s''
         else if u < 10 ^ 3 then decimal u @ ''ns''
         else if u < 10 ^ 6 then decimal (u div 10 ^ 3) @ fraction_text (u mod 10 ^ 3) 3 @ micro_sign @ ''s''
         else decimal (u div 10 ^ 6) @ fraction_text (u mod 10 ^ 6) 6 @ ''ms'')
      else
        (let s = u div 10 ^ 9; m = s div 60; h = m div 60;
             seconds = decimal (s mod 60) @ fraction_text (u mod 10 ^ 9) 9 @ ''s'' in
         if m = 0 then seconds
         else if h = 0 then decimal (m mod 60) @ ''m'' @ seconds
         else decimal h @ ''h'' @ decimal (m mod 60) @ ''m'' @ seconds))"

definition Duration_String :: "int \<Rightarrow> string" where
  "Duration_String d = (if d < 0 then CHR ''-'' # duration_text (nat (- d)) else duration_text (nat d))"

section \<open>Other texts\<close>

definition ParseBool :: "string \<Rightarrow> bool option" where
  "ParseBool s =
     (if s \<in> {''1'', ''t'', ''T'', ''TRUE'', ''true'', ''True''} then Some True
      else if s \<in> {''0'', ''f'', ''F'', ''FALSE'', ''false'', ''False''} then Some False
      else None)"

definition JoinHostPort :: "string \<Rightarrow> string \<Rightarrow> string" where
  "JoinHostPort host port = (if CHR '':'' \<in> set host then ''['' @ host @ '']:'' @ port else host @ '':'' @ port)"

text \<open>\<open>Level.UnmarshalText\<close>: a name, and an offset to it.\<close>

definition level_of :: "(string \<Rightarrow> string) \<Rightarrow> string \<Rightarrow> int option" where
  "level_of upper s =
     (let name = takeWhile (\<lambda>c. c \<noteq> CHR ''+'' \<and> c \<noteq> CHR ''-'') s;
          offset = dropWhile (\<lambda>c. c \<noteq> CHR ''+'' \<and> c \<noteq> CHR ''-'') s;
          level = (if upper name = ''DEBUG'' then Some (-4) else if upper name = ''INFO'' then Some 0
            else if upper name = ''WARN'' then Some 4 else if upper name = ''ERROR'' then Some 8 else None) in
      case (if offset = [] then Some 0 else Atoi offset) of
        None \<Rightarrow> None
      | Some n \<Rightarrow> map_option (\<lambda>l. wrap64 (l + n)) level)"

section \<open>Evaluation\<close>

lemma digit_chars:
  "char_of (48 :: nat) = CHR ''0''" "char_of (49 :: nat) = CHR ''1''" "char_of (50 :: nat) = CHR ''2''" "char_of (51 :: nat) = CHR ''3''"
  "char_of (52 :: nat) = CHR ''4''" "char_of (53 :: nat) = CHR ''5''" "char_of (54 :: nat) = CHR ''6''" "char_of (55 :: nat) = CHR ''7''"
  "char_of (56 :: nat) = CHR ''8''" "char_of (57 :: nat) = CHR ''9''"
  by (simp_all add: char_of_def bit_0)

lemmas duration_eval = ParseDuration_def duration_units.simps duration_unit_def leadingInt_def unit_of_def is_digit_def byte_def
  digits_value_def micro_sign_def greek_mu_def Duration_String_def duration_text_def fraction_text_def decimal.simps digit_chars
  duration_units Let_def

lemma ParseDuration_String_examples:
  "ParseDuration scaled (Duration_String (500 * Millisecond)) = Some (500 * Millisecond)"
  "ParseDuration scaled (Duration_String (30 * 24 * Hour)) = Some (30 * 24 * Hour)"
  by (simp_all add: duration_eval)

end
