(* ===== verification/Platform_Config.thy ===== *)
theory Platform_Config
  imports Go_Duration Identity_Security Identity_Service Outbox_Worker
begin

text \<open>
  The configuration of the ordering process (\<open>platform/config/config.go\<close>): \<open>Load\<close> reads the
  environment and refuses unsafe or malformed settings. \<open>Load\<close> is one function in the code; here it
  is the sequence of its paragraphs, each of which reads its variables in the order of the source
  and adds its settings to the configuration.
\<close>

section \<open>The environment\<close>

text \<open>
  \<open>ce_env\<close> is \<open>os.Getenv\<close>, which is empty for an absent name; \<open>ce_url\<close> is \<open>url.Parse\<close> with the scheme
  and the host it finds, \<open>ce_lower\<close> and \<open>ce_upper\<close> are \<open>strings.ToLower\<close> and \<open>strings.ToUpper\<close>, and
  \<open>ce_scaled\<close> is the floating point product of \<open>time.ParseDuration\<close>.
\<close>

record config_env =
  ce_env :: "string \<Rightarrow> string"
  ce_url :: "string \<Rightarrow> (string \<times> string) option"
  ce_lower :: "string \<Rightarrow> string"
  ce_upper :: "string \<Rightarrow> string"
  ce_scaled :: "int \<Rightarrow> int \<Rightarrow> int \<Rightarrow> int"

record process_config =
  pc_Environment :: string
  pc_HTTPAddress :: string
  pc_DatabaseURL :: string
  pc_LogLevel :: int
  pc_HTTPReadTimeout :: int
  pc_HTTPWriteTimeout :: int
  pc_HTTPIdleTimeout :: int
  pc_ShutdownTimeout :: int
  pc_DatabaseHealthTimeout :: int
  pc_MaxRequestBodyBytes :: int
  pc_AccessTokenLifetime :: int
  pc_RefreshTokenLifetime :: int
  pc_OAuthIntentLifetime :: int
  pc_ArgonMemoryKiB :: nat
  pc_ArgonIterations :: nat
  pc_ArgonParallelism :: nat
  pc_GoogleClientIDs :: "string list"
  pc_AppleClientIDs :: "string list"
  pc_RegistrationCodeKey :: string
  pc_SMTPHost :: string
  pc_SMTPPort :: int
  pc_SMTPFrom :: string
  pc_SMTPUsername :: string
  pc_SMTPPassword :: string
  pc_SMTPAllowInsecureLocal :: bool
  pc_OutboxPollInterval :: int
  pc_OutboxBatchSize :: int
  pc_OutboxLeaseTimeout :: int
  pc_OutboxRetryBase :: int
  pc_OutboxRetryMax :: int
  pc_InventoryAdapterMode :: string
  pc_InventoryAdapterURL :: string
  pc_InventoryAdapterToken :: string
  pc_InventoryAdapterTimeout :: int
  pc_InventoryMaxResponseBodyBytes :: int
  pc_CatalogSyncInterval :: int

section \<open>Defaults and bounds\<close>

definition defaultHTTPPort :: string where "defaultHTTPPort = ''8080''"
definition defaultMaxRequestBodyBytes :: int where "defaultMaxRequestBodyBytes = 1048576"
definition minimumMaxRequestBodyBytes :: int where "minimumMaxRequestBodyBytes = 1024"
definition maximumMaxRequestBodyBytes :: int where "maximumMaxRequestBodyBytes = 10485760"
definition minimumOperationalTimeout :: int where "minimumOperationalTimeout = 100 * Millisecond"
definition maximumOperationalTimeout :: int where "maximumOperationalTimeout = 5 * Minute"
definition defaultAccessTokenLifetime :: int where "defaultAccessTokenLifetime = 15 * Minute"
definition defaultRefreshTokenLifetime :: int where "defaultRefreshTokenLifetime = 30 * 24 * Hour"
definition defaultOAuthIntentLifetime :: int where "defaultOAuthIntentLifetime = 10 * Minute"
definition defaultArgonMemoryKiB :: int where "defaultArgonMemoryKiB = 19 * 1024"
definition defaultArgonIterations :: int where "defaultArgonIterations = 2"
definition defaultArgonParallelism :: int where "defaultArgonParallelism = 1"
definition defaultOutboxPollInterval :: int where "defaultOutboxPollInterval = 500 * Millisecond"
definition defaultOutboxBatchSize :: int where "defaultOutboxBatchSize = 10"
definition defaultOutboxLeaseTimeout :: int where "defaultOutboxLeaseTimeout = 30 * Second"
definition defaultOutboxRetryBase :: int where "defaultOutboxRetryBase = Second"
definition defaultOutboxRetryMax :: int where "defaultOutboxRetryMax = Minute"
definition defaultInventoryTimeout :: int where "defaultInventoryTimeout = 5 * Second"
definition defaultInventoryBodyBytes :: int where "defaultInventoryBodyBytes = 256 * 1024"
definition defaultCatalogSyncInterval :: int where "defaultCatalogSyncInterval = 30 * Second"

lemmas config_constants = defaultHTTPPort_def defaultMaxRequestBodyBytes_def minimumMaxRequestBodyBytes_def
  maximumMaxRequestBodyBytes_def minimumOperationalTimeout_def maximumOperationalTimeout_def defaultAccessTokenLifetime_def
  defaultRefreshTokenLifetime_def defaultOAuthIntentLifetime_def defaultArgonMemoryKiB_def defaultArgonIterations_def
  defaultArgonParallelism_def defaultOutboxPollInterval_def defaultOutboxBatchSize_def defaultOutboxLeaseTimeout_def
  defaultOutboxRetryBase_def defaultOutboxRetryMax_def defaultInventoryTimeout_def defaultInventoryBodyBytes_def
  defaultCatalogSyncInterval_def

section \<open>Readers of one variable\<close>

definition envOrDefault :: "config_env \<Rightarrow> string \<Rightarrow> string \<Rightarrow> string" where
  "envOrDefault ce key fallback = (let value = TrimSpace (ce_env ce key) in if value \<noteq> [] then value else fallback)"

definition boundedDuration :: "config_env \<Rightarrow> string \<Rightarrow> int \<Rightarrow> int \<Rightarrow> int \<Rightarrow> string + int" where
  "boundedDuration ce key fallback minimum maximum =
     (let failed = Inl (key @ '' must be a duration from '' @ Duration_String minimum @ '' to '' @ Duration_String maximum) in
      case ParseDuration (ce_scaled ce) (envOrDefault ce key (Duration_String fallback)) of
        None \<Rightarrow> failed
      | Some parsed \<Rightarrow> if parsed < minimum \<or> parsed > maximum then failed else Inr parsed)"

definition duration_setting :: "config_env \<Rightarrow> string \<Rightarrow> int \<Rightarrow> string + int" where
  "duration_setting ce key fallback = boundedDuration ce key fallback minimumOperationalTimeout maximumOperationalTimeout"

definition identityDuration :: "config_env \<Rightarrow> string \<Rightarrow> int \<Rightarrow> string + int" where
  "identityDuration ce key fallback =
     (let failed = Inl (key @ '' must be a duration from 1m to 24h'') in
      case ParseDuration (ce_scaled ce) (envOrDefault ce key (Duration_String fallback)) of
        None \<Rightarrow> failed
      | Some parsed \<Rightarrow> if parsed < Minute \<or> parsed > 24 * Hour then failed else Inr parsed)"

definition longDuration :: "config_env \<Rightarrow> string \<Rightarrow> int \<Rightarrow> string + int" where
  "longDuration ce key fallback =
     (let failed = Inl (key @ '' must be a duration from 1h to 8760h'') in
      case ParseDuration (ce_scaled ce) (envOrDefault ce key (Duration_String fallback)) of
        None \<Rightarrow> failed
      | Some parsed \<Rightarrow> if parsed < Hour \<or> parsed > 365 * 24 * Hour then failed else Inr parsed)"

text \<open>The words between the commas, without repetitions and without empty ones.\<close>

fun keep_new :: "string list \<Rightarrow> string set \<Rightarrow> string list" where
  "keep_new [] seen = []"
| "keep_new (candidate # rest) seen =
     (let value = TrimSpace candidate in
      if value = [] \<or> value \<in> seen then keep_new rest seen else value # keep_new rest (insert value seen))"

definition commaSeparated :: "config_env \<Rightarrow> string \<Rightarrow> string list" where
  "commaSeparated ce key =
     (let raw = TrimSpace (ce_env ce key) in if raw = [] then [] else keep_new (split_on (CHR '','') raw) {})"

definition integer_setting :: "config_env \<Rightarrow> string \<Rightarrow> int \<Rightarrow> string + int" where
  "integer_setting ce key fallback =
     (case Atoi (envOrDefault ce key (Itoa fallback)) of
        None \<Rightarrow> Inl (key @ '' must be an integer'')
      | Some parsed \<Rightarrow> Inr parsed)"

definition parseLogLevel :: "config_env \<Rightarrow> string \<Rightarrow> string + int" where
  "parseLogLevel ce value =
     (let failed = Inl ''LOG_LEVEL must be debug, info, warn, or error''; value = ce_lower ce value in
      if value \<notin> {''debug'', ''info'', ''warn'', ''error''} then failed
      else case level_of (ce_upper ce) value of None \<Rightarrow> failed | Some level \<Rightarrow> Inr level)"

definition parseEnvironment :: "config_env \<Rightarrow> string \<Rightarrow> string + string" where
  "parseEnvironment ce value =
     (let value = ce_lower ce value in
      if value \<in> {''development'', ''test'', ''staging'', ''production''} then Inr value
      else Inl ''APP_ENV must be development, test, staging, or production'')"

text \<open>
  \<open>value, err := integer(key, fallback)\<close> and the bounds after it, which share one message.
\<close>

definition bounded_integer :: "config_env \<Rightarrow> string \<Rightarrow> int \<Rightarrow> int \<Rightarrow> int \<Rightarrow> string \<Rightarrow> string + int" where
  "bounded_integer ce key fallback minimum maximum message =
     (case integer_setting ce key fallback of
        Inl e \<Rightarrow> Inl message
      | Inr value \<Rightarrow> if value < minimum \<or> value > maximum then Inl message else Inr value)"

text \<open>\<open>if condition { return Config{}, errors.New(message) }\<close>\<close>

definition refuse :: "bool \<Rightarrow> string \<Rightarrow> string + unit" where
  "refuse condition message = (if condition then Inl message else Inr ())"

section \<open>Loading\<close>

definition load_server :: "config_env \<Rightarrow> process_config \<Rightarrow> string + process_config" where
  "load_server ce cfg =
     bindE (parseEnvironment ce (envOrDefault ce ''APP_ENV'' ''development'')) (\<lambda>environment.
     let databaseURL = TrimSpace (ce_env ce ''DATABASE_URL'') in
     bindE (refuse (databaseURL = []) ''DATABASE_URL is required'') (\<lambda>_.
     bindE (refuse (case ce_url ce databaseURL of
         None \<Rightarrow> True
       | Some (scheme, host) \<Rightarrow> scheme \<noteq> ''postgres'' \<and> scheme \<noteq> ''postgresql'' \<or> host = []) ''DATABASE_URL must be a valid postgres URL'') (\<lambda>_.
     let host = envOrDefault ce ''HTTP_HOST'' ''0.0.0.0''; port = envOrDefault ce ''HTTP_PORT'' defaultHTTPPort in
     bindE (refuse (case Atoi port of None \<Rightarrow> True | Some portNumber \<Rightarrow> portNumber < 1 \<or> portNumber > 65535)
         ''HTTP_PORT must be an integer from 1 to 65535'') (\<lambda>_.
     bindE (parseLogLevel ce (envOrDefault ce ''LOG_LEVEL'' ''info'')) (\<lambda>logLevel.
     bindE (duration_setting ce ''HTTP_READ_TIMEOUT'' (10 * Second)) (\<lambda>readTimeout.
     bindE (duration_setting ce ''HTTP_WRITE_TIMEOUT'' (15 * Second)) (\<lambda>writeTimeout.
     bindE (duration_setting ce ''HTTP_IDLE_TIMEOUT'' (60 * Second)) (\<lambda>idleTimeout.
     bindE (duration_setting ce ''SHUTDOWN_TIMEOUT'' (10 * Second)) (\<lambda>shutdownTimeout.
     bindE (duration_setting ce ''DATABASE_HEALTH_TIMEOUT'' (2 * Second)) (\<lambda>databaseHealthTimeout.
     bindE (bounded_integer ce ''MAX_REQUEST_BODY_BYTES'' defaultMaxRequestBodyBytes minimumMaxRequestBodyBytes maximumMaxRequestBodyBytes
         (''MAX_REQUEST_BODY_BYTES must be an integer from '' @ Itoa minimumMaxRequestBodyBytes @ '' to '' @ Itoa maximumMaxRequestBodyBytes)) (\<lambda>maxBodyBytes.
     Inr (cfg\<lparr>pc_Environment := environment, pc_HTTPAddress := JoinHostPort host port, pc_DatabaseURL := databaseURL,
       pc_LogLevel := logLevel, pc_HTTPReadTimeout := readTimeout, pc_HTTPWriteTimeout := writeTimeout,
       pc_HTTPIdleTimeout := idleTimeout, pc_ShutdownTimeout := shutdownTimeout, pc_DatabaseHealthTimeout := databaseHealthTimeout,
       pc_MaxRequestBodyBytes := maxBodyBytes\<rparr>))))))))))))"

definition load_identity :: "config_env \<Rightarrow> process_config \<Rightarrow> string + process_config" where
  "load_identity ce cfg =
     bindE (identityDuration ce ''ACCESS_TOKEN_LIFETIME'' defaultAccessTokenLifetime) (\<lambda>accessLifetime.
     bindE (longDuration ce ''REFRESH_TOKEN_LIFETIME'' defaultRefreshTokenLifetime) (\<lambda>refreshLifetime.
     bindE (identityDuration ce ''OAUTH_INTENT_LIFETIME'' defaultOAuthIntentLifetime) (\<lambda>oauthIntentLifetime.
     bindE (refuse (refreshLifetime \<le> accessLifetime) ''REFRESH_TOKEN_LIFETIME must be longer than ACCESS_TOKEN_LIFETIME'') (\<lambda>_.
     bindE (bounded_integer ce ''ARGON2_MEMORY_KIB'' defaultArgonMemoryKiB (19 * 1024) (1024 * 1024)
         ''ARGON2_MEMORY_KIB must be from 19456 to 1048576'') (\<lambda>argonMemory.
     bindE (bounded_integer ce ''ARGON2_ITERATIONS'' defaultArgonIterations 2 20 ''ARGON2_ITERATIONS must be from 2 to 20'') (\<lambda>argonIterations.
     bindE (bounded_integer ce ''ARGON2_PARALLELISM'' defaultArgonParallelism 1 16 ''ARGON2_PARALLELISM must be from 1 to 16'') (\<lambda>argonParallelism.
     let googleClientIDs = commaSeparated ce ''GOOGLE_CLIENT_IDS''; appleClientIDs = commaSeparated ce ''APPLE_CLIENT_IDS'' in
     bindE (refuse (pc_Environment cfg = ''production'' \<and> length googleClientIDs = 0) ''GOOGLE_CLIENT_IDS is required in production'') (\<lambda>_.
     Inr (cfg\<lparr>pc_AccessTokenLifetime := accessLifetime, pc_RefreshTokenLifetime := refreshLifetime,
       pc_OAuthIntentLifetime := oauthIntentLifetime, pc_ArgonMemoryKiB := nat (argonMemory mod 2 ^ 32),
       pc_ArgonIterations := nat (argonIterations mod 2 ^ 32), pc_ArgonParallelism := nat (argonParallelism mod 2 ^ 8),
       pc_GoogleClientIDs := googleClientIDs, pc_AppleClientIDs := appleClientIDs\<rparr>)))))))))"

definition load_mail :: "config_env \<Rightarrow> process_config \<Rightarrow> string + process_config" where
  "load_mail ce cfg =
     (let registrationCodeKey = ce_env ce ''REGISTRATION_CODE_KEY''; smtpHost = TrimSpace (ce_env ce ''SMTP_HOST'');
          production = (pc_Environment cfg = ''production'') in
     bindE (bounded_integer ce ''SMTP_PORT'' 587 1 65535 ''SMTP_PORT must be from 1 to 65535'') (\<lambda>smtpPort.
     let smtpFrom = TrimSpace (ce_env ce ''SMTP_FROM''); smtpUsername = TrimSpace (ce_env ce ''SMTP_USERNAME'');
         smtpPassword = ce_env ce ''SMTP_PASSWORD'' in
     bindE (case ParseBool (envOrDefault ce ''SMTP_ALLOW_INSECURE_LOCAL'' ''false'') of
         None \<Rightarrow> Inl ''SMTP_ALLOW_INSECURE_LOCAL must be true or false'' | Some b \<Rightarrow> Inr b) (\<lambda>allowInsecureSMTP.
     bindE (refuse (allowInsecureSMTP \<and> production) ''insecure SMTP is forbidden in production'') (\<lambda>_.
     bindE (refuse (production \<and> length registrationCodeKey < 32) ''REGISTRATION_CODE_KEY must contain at least 32 bytes in production'') (\<lambda>_.
     bindE (refuse (production \<and> (smtpHost = [] \<or> smtpFrom = [] \<or> smtpUsername = [] \<or> smtpPassword = []))
         ''SMTP_HOST, SMTP_FROM, SMTP_USERNAME, and SMTP_PASSWORD are required in production'') (\<lambda>_.
     Inr (cfg\<lparr>pc_RegistrationCodeKey := registrationCodeKey, pc_SMTPHost := smtpHost, pc_SMTPPort := smtpPort,
       pc_SMTPFrom := smtpFrom, pc_SMTPUsername := smtpUsername, pc_SMTPPassword := smtpPassword,
       pc_SMTPAllowInsecureLocal := allowInsecureSMTP\<rparr>)))))))"

definition load_outbox :: "config_env \<Rightarrow> process_config \<Rightarrow> string + process_config" where
  "load_outbox ce cfg =
     bindE (boundedDuration ce ''OUTBOX_POLL_INTERVAL'' defaultOutboxPollInterval (50 * Millisecond) Minute) (\<lambda>outboxPollInterval.
     bindE (bounded_integer ce ''OUTBOX_BATCH_SIZE'' defaultOutboxBatchSize 1 100 ''OUTBOX_BATCH_SIZE must be from 1 to 100'') (\<lambda>outboxBatchSize.
     bindE (boundedDuration ce ''OUTBOX_LEASE_TIMEOUT'' defaultOutboxLeaseTimeout (100 * Millisecond) (10 * Minute)) (\<lambda>outboxLeaseTimeout.
     bindE (refuse (outboxLeaseTimeout \<le> outboxPollInterval) ''OUTBOX_LEASE_TIMEOUT must be longer than OUTBOX_POLL_INTERVAL'') (\<lambda>_.
     bindE (boundedDuration ce ''OUTBOX_RETRY_BASE'' defaultOutboxRetryBase (100 * Millisecond) (10 * Minute)) (\<lambda>outboxRetryBase.
     bindE (boundedDuration ce ''OUTBOX_RETRY_MAX'' defaultOutboxRetryMax (100 * Millisecond) Hour) (\<lambda>outboxRetryMax.
     bindE (refuse (outboxRetryMax < outboxRetryBase) ''OUTBOX_RETRY_MAX must not be shorter than OUTBOX_RETRY_BASE'') (\<lambda>_.
     Inr (cfg\<lparr>pc_OutboxPollInterval := outboxPollInterval, pc_OutboxBatchSize := outboxBatchSize,
       pc_OutboxLeaseTimeout := outboxLeaseTimeout, pc_OutboxRetryBase := outboxRetryBase, pc_OutboxRetryMax := outboxRetryMax\<rparr>))))))))"

definition load_inventory :: "config_env \<Rightarrow> process_config \<Rightarrow> string + process_config" where
  "load_inventory ce cfg =
     (let production = (pc_Environment cfg = ''production'');
          inventoryMode = ce_upper ce (envOrDefault ce ''INVENTORY_ADAPTER_MODE'' ''FAKE'') in
     bindE (refuse (inventoryMode \<noteq> ''FAKE'' \<and> inventoryMode \<noteq> ''HTTP'') ''INVENTORY_ADAPTER_MODE must be FAKE or HTTP'') (\<lambda>_.
     bindE (refuse (production \<and> inventoryMode \<noteq> ''HTTP'') ''INVENTORY_ADAPTER_MODE must be HTTP in production'') (\<lambda>_.
     let inventoryURL = TrimSpace (ce_env ce ''INVENTORY_ADAPTER_URL''); inventoryToken = ce_env ce ''INVENTORY_ADAPTER_TOKEN'' in
     bindE (if inventoryMode = ''HTTP'' then
         bindE (case ce_url ce inventoryURL of
             None \<Rightarrow> Inl ''INVENTORY_ADAPTER_URL must be an absolute HTTP(S) URL in HTTP mode''
           | Some (scheme, host) \<Rightarrow>
               if host = [] \<or> scheme \<noteq> ''http'' \<and> scheme \<noteq> ''https''
               then Inl ''INVENTORY_ADAPTER_URL must be an absolute HTTP(S) URL in HTTP mode'' else Inr scheme) (\<lambda>scheme.
         bindE (refuse (production \<and> scheme \<noteq> ''https'') ''INVENTORY_ADAPTER_URL must use HTTPS in production'') (\<lambda>_.
         refuse (length inventoryToken < 32) ''INVENTORY_ADAPTER_TOKEN must contain at least 32 bytes in HTTP mode''))
       else Inr ()) (\<lambda>_.
     bindE (boundedDuration ce ''INVENTORY_ADAPTER_TIMEOUT'' defaultInventoryTimeout (100 * Millisecond) (pc_OutboxLeaseTimeout cfg)) (\<lambda>inventoryTimeout.
     bindE (bounded_integer ce ''INVENTORY_MAX_RESPONSE_BODY_BYTES'' defaultInventoryBodyBytes 1024 (1024 * 1024)
         ''INVENTORY_MAX_RESPONSE_BODY_BYTES must be from 1024 to 1048576'') (\<lambda>inventoryBodyBytes.
     bindE (boundedDuration ce ''CATALOG_SYNC_INTERVAL'' defaultCatalogSyncInterval (5 * Second) Hour) (\<lambda>catalogSyncInterval.
     Inr (cfg\<lparr>pc_InventoryAdapterMode := inventoryMode, pc_InventoryAdapterURL := inventoryURL,
       pc_InventoryAdapterToken := inventoryToken, pc_InventoryAdapterTimeout := inventoryTimeout,
       pc_InventoryMaxResponseBodyBytes := inventoryBodyBytes, pc_CatalogSyncInterval := catalogSyncInterval\<rparr>))))))))"

text \<open>\<open>Config{}\<close>\<close>

definition no_config :: process_config where
  "no_config = \<lparr>pc_Environment = [], pc_HTTPAddress = [], pc_DatabaseURL = [], pc_LogLevel = 0, pc_HTTPReadTimeout = 0,
     pc_HTTPWriteTimeout = 0, pc_HTTPIdleTimeout = 0, pc_ShutdownTimeout = 0, pc_DatabaseHealthTimeout = 0, pc_MaxRequestBodyBytes = 0,
     pc_AccessTokenLifetime = 0, pc_RefreshTokenLifetime = 0, pc_OAuthIntentLifetime = 0, pc_ArgonMemoryKiB = 0, pc_ArgonIterations = 0,
     pc_ArgonParallelism = 0, pc_GoogleClientIDs = [], pc_AppleClientIDs = [], pc_RegistrationCodeKey = [], pc_SMTPHost = [],
     pc_SMTPPort = 0, pc_SMTPFrom = [], pc_SMTPUsername = [], pc_SMTPPassword = [], pc_SMTPAllowInsecureLocal = False,
     pc_OutboxPollInterval = 0, pc_OutboxBatchSize = 0, pc_OutboxLeaseTimeout = 0, pc_OutboxRetryBase = 0, pc_OutboxRetryMax = 0,
     pc_InventoryAdapterMode = [], pc_InventoryAdapterURL = [], pc_InventoryAdapterToken = [], pc_InventoryAdapterTimeout = 0,
     pc_InventoryMaxResponseBodyBytes = 0, pc_CatalogSyncInterval = 0\<rparr>"

definition Load :: "config_env \<Rightarrow> string + process_config" where
  "Load ce =
     bindE (load_server ce no_config) (\<lambda>cfg. bindE (load_identity ce cfg) (\<lambda>cfg. bindE (load_mail ce cfg) (\<lambda>cfg.
     bindE (load_outbox ce cfg) (load_inventory ce))))"

end
