(* ===== verification/Mail_Sender.thy ===== *)
theory Mail_Sender
  imports Go_Http
begin

text \<open>
  The delivery of registration codes (\<open>identity/adapters/smtp\<close>): the client of one submission and
  the queue in front of it. A submission is the sequence of its steps with the mail server, each of
  which succeeds or fails; \<open>parse_address\<close> is \<open>mail.ParseAddress\<close> with the name and the address
  that it finds. Deadlines are failures of the steps.
\<close>

section \<open>The sender\<close>

record Sender =
  sd_host :: string
  sd_port :: int
  sd_from :: string
  sd_username :: string
  sd_password :: string
  sd_allowInsecureLocal :: bool

definition validAddress :: "(string \<Rightarrow> (string \<times> string) option) \<Rightarrow> string \<Rightarrow> bool" where
  "validAddress parse_address value =
     (if CHR 0x0D \<in> set value \<or> CHR 0x0A \<in> set value then False
      else case parse_address value of None \<Rightarrow> False | Some (name, address) \<Rightarrow> address = value \<and> name = [])"

definition New_sender ::
    "(string \<Rightarrow> (string \<times> string) option) \<Rightarrow> string \<Rightarrow> int \<Rightarrow> string \<Rightarrow> string \<Rightarrow> string \<Rightarrow> bool \<Rightarrow> string + Sender" where
  "New_sender parse_address host port from username password allowInsecureLocal =
     (if host = [] \<or> port < 1 \<or> port > 65535 \<or> \<not> validAddress parse_address from then Inl ''invalid SMTP configuration''
      else if allowInsecureLocal \<and> host \<noteq> ''127.0.0.1'' \<and> host \<noteq> ''localhost'' \<and> host \<noteq> ''::1''
      then Inl ''insecure SMTP is restricted to loopback''
      else if \<not> allowInsecureLocal \<and> (username = [] \<or> password = []) then Inl ''SMTP submission requires credentials''
      else Inr \<lparr>sd_host = host, sd_port = port, sd_from = from, sd_username = username, sd_password = password,
        sd_allowInsecureLocal = allowInsecureLocal\<rparr>)"

text \<open>The steps of a submission. \<open>Deadline\<close> and \<open>Greeting\<close> send nothing.\<close>

datatype smtp_step = Dial string | Deadline | Greeting | StartTLS string | PlainAuth string string
  | MailFrom string | RcptTo string | DataStart | DataText string | DataEnd | Quit

definition verification_message :: "string \<Rightarrow> string \<Rightarrow> string \<Rightarrow> string" where
  "verification_message from email code =
     (let crlf = [CHR 0x0D, CHR 0x0A] in
      ''From: '' @ from @ crlf @ ''To: '' @ email @ crlf @ ''Subject: Your B46 verification code'' @ crlf @
      ''MIME-Version: 1.0'' @ crlf @ ''Content-Type: text/plain; charset=UTF-8'' @ crlf @ crlf @
      ''Your B46 verification code is '' @ code @ ''. It expires in 10 minutes.'' @ crlf)"

text \<open>Each step with the words its error is wrapped in.\<close>

definition submission :: "(string \<Rightarrow> int \<Rightarrow> string) \<Rightarrow> Sender \<Rightarrow> string \<Rightarrow> string \<Rightarrow> (smtp_step \<times> string) list" where
  "submission join sender email code =
     [(Dial (join (sd_host sender) (sd_port sender)), ''connect SMTP: ''), (Deadline, []), (Greeting, ''start SMTP: '')] @
     (if sd_allowInsecureLocal sender then []
      else [(StartTLS (sd_host sender), ''secure SMTP: ''),
            (PlainAuth (sd_username sender) (sd_password sender), ''authenticate SMTP: '')]) @
     [(MailFrom (sd_from sender), ''set SMTP sender: ''), (RcptTo email, ''set SMTP recipient: ''),
      (DataStart, ''write SMTP message: ''), (DataText (verification_message (sd_from sender) email code), ''send SMTP message: ''),
      (DataEnd, ''finish SMTP message: ''), (Quit, ''finish SMTP submission: '')]"

text \<open>
  The steps one after the other up to the first that fails, which the answers of the server decide.
  When the text cannot be written its writer is closed nevertheless, whatever that answers.
\<close>

definition closing :: "smtp_step \<Rightarrow> smtp_step list" where
  "closing step = (case step of DataText m \<Rightarrow> [DataEnd] | _ \<Rightarrow> [])"

lemma closing_simps [simp]:
  "closing (DataText m) = [DataEnd]" "closing (Dial d) = []" "closing Deadline = []" "closing Greeting = []"
  "closing (StartTLS h) = []" "closing (PlainAuth u p) = []" "closing (MailFrom f) = []" "closing (RcptTo r) = []"
  "closing DataStart = []" "closing DataEnd = []" "closing Quit = []"
  by (simp_all add: closing_def)

fun run_steps :: "(smtp_step \<Rightarrow> string option) \<Rightarrow> (smtp_step \<times> string) list \<Rightarrow> smtp_step list \<times> (string + unit)" where
  "run_steps failure [] = ([], Inr ())"
| "run_steps failure ((step, what) # rest) =
     (case failure step of
        Some e \<Rightarrow> (step # closing step, Inl (what @ e))
      | None \<Rightarrow> (case run_steps failure rest of (trace, res) \<Rightarrow> (step # trace, res)))"

definition SendCode ::
    "(string \<Rightarrow> (string \<times> string) option) \<Rightarrow> (string \<Rightarrow> int \<Rightarrow> string) \<Rightarrow> (smtp_step \<Rightarrow> string option) \<Rightarrow> Sender \<Rightarrow> string \<Rightarrow> string \<Rightarrow>
     smtp_step list \<times> (string + unit)" where
  "SendCode parse_address join failure sender email code =
     (if \<not> validAddress parse_address email \<or> length code \<noteq> 6 then ([], Inl ''invalid verification message'')
      else if \<not> list_all (\<lambda>(digit, _). 48 \<le> digit \<and> digit \<le> 57) (utf8_segs code) then ([], Inl ''invalid verification code'')
      else run_steps failure (submission join sender email code))"

section \<open>The queue\<close>

type_synonym delivery = "string \<times> string"

record Queue =
  qu_jobs :: "delivery list"
  qu_capacity :: nat

definition NewQueue :: "bool \<Rightarrow> nat \<Rightarrow> string + Queue" where
  "NewQueue configured capacity =
     (if \<not> configured \<or> capacity < 1 then Inl ''invalid registration mail queue configuration''
      else Inr \<lparr>qu_jobs = [], qu_capacity = capacity\<rparr>)"

text \<open>
  The \<open>select\<close> of \<open>Queue.SendCode\<close> takes any case that is ready, and the default when none is;
  \<open>choice\<close> is what it takes.
\<close>

datatype send_case = Caller_done | Queue_stopped | Enqueue | Queue_full

definition ready_case :: "bool \<Rightarrow> bool \<Rightarrow> Queue \<Rightarrow> send_case \<Rightarrow> bool" where
  "ready_case caller_done stopped q c =
     (case c of
        Caller_done \<Rightarrow> caller_done
      | Queue_stopped \<Rightarrow> stopped
      | Enqueue \<Rightarrow> length (qu_jobs q) < qu_capacity q
      | Queue_full \<Rightarrow> \<not> caller_done \<and> \<not> stopped \<and> \<not> length (qu_jobs q) < qu_capacity q)"

definition Queue_SendCode :: "send_case \<Rightarrow> string \<Rightarrow> string \<Rightarrow> Queue \<Rightarrow> (string + unit) \<times> Queue" where
  "Queue_SendCode choice email code q =
     (case choice of
        Caller_done \<Rightarrow> (Inl ''context canceled'', q)
      | Queue_stopped \<Rightarrow> (Inl ''registration mail queue stopped'', q)
      | Enqueue \<Rightarrow> (Inr (), q\<lparr>qu_jobs := qu_jobs q @ [(email, code)]\<rparr>)
      | Queue_full \<Rightarrow> (Inl ''registration mail queue full'', q))"

text \<open>One round of \<open>run\<close> in a queue that is not stopped: the next message is handed to the sender.\<close>

definition queue_round :: "Queue \<Rightarrow> delivery option \<times> Queue" where
  "queue_round q = (case qu_jobs q of [] \<Rightarrow> (None, q) | m # rest \<Rightarrow> (Some m, q\<lparr>qu_jobs := rest\<rparr>))"

text \<open>What the registrations and the goroutine do to the queue, in some order.\<close>

datatype queue_event = Offered send_case bool bool string string | Round

fun queue_run :: "queue_event list \<Rightarrow> Queue \<Rightarrow> delivery list \<times> delivery list \<times> Queue" where
  "queue_run [] q = ([], [], q)"
| "queue_run (Round # es) q =
     (case queue_round q of (m, q1) \<Rightarrow> (case queue_run es q1 of (taken, handed, q2) \<Rightarrow>
        (taken, (case m of None \<Rightarrow> handed | Some d \<Rightarrow> d # handed), q2)))"
| "queue_run (Offered choice caller_done stopped email code # es) q =
     (if ready_case caller_done stopped q choice then
        (case Queue_SendCode choice email code q of (res, q1) \<Rightarrow> (case queue_run es q1 of (taken, handed, q2) \<Rightarrow>
           ((case res of Inr _ \<Rightarrow> (email, code) # taken | Inl _ \<Rightarrow> taken), handed, q2)))
      else queue_run es q)"

section \<open>What leaves the process\<close>

text \<open>The end of a text comes right after it, so a trace is a beginning of the steps.\<close>

fun ends_texts :: "smtp_step list \<Rightarrow> bool" where
  "ends_texts [] \<longleftrightarrow> True"
| "ends_texts (step # rest) \<longleftrightarrow> take (length (closing step)) rest = closing step \<and> ends_texts rest"

lemma submission_ends_texts: "ends_texts (map fst (submission join sender email code))"
  by (simp add: submission_def)

lemma run_steps_prefix:
  "run_steps failure steps = (trace, res) \<Longrightarrow> ends_texts (map fst steps) \<Longrightarrow> trace = take (length trace) (map fst steps)"
proof (induction failure steps arbitrary: trace res rule: run_steps.induct)
  case (2 failure step what rest)
  show ?case
  proof (cases "failure step")
    case None
    with 2 show ?thesis by (auto split: prod.splits)
  next
    case (Some e)
    with 2 show ?thesis by auto
  qed
qed simp

lemma run_steps_done:
  "run_steps failure steps = (trace, Inr u) \<Longrightarrow> trace = map fst steps \<and> (\<forall>s \<in> set trace. failure s = None)"
  by (induction failure steps arbitrary: trace rule: run_steps.induct) (auto split: option.splits prod.splits)

text \<open>Every step but the last one of a trace succeeded, or is a text whose writer was closed.\<close>

lemma run_steps_before:
  "run_steps failure steps = (trace, res) \<Longrightarrow> \<forall>s \<in> set (butlast trace). failure s = None \<or> closing s \<noteq> []"
proof (induction failure steps arbitrary: trace res rule: run_steps.induct)
  case (2 failure step what rest)
  show ?case
  proof (cases "failure step")
    case None
    with "2.prems" obtain more where more: "run_steps failure rest = (more, res)" "trace = step # more"
      by (auto split: prod.splits)
    from "2.IH" [OF None more(1)] None show ?thesis unfolding more(2) by simp
  next
    case (Some e)
    then have "trace = step # closing step" using "2.prems" by simp
    moreover have "closing step = [] \<or> closing step = [DataEnd]" by (cases step) simp_all
    ultimately show ?thesis by auto
  qed
qed simp

text \<open>What must not be read on the way: the code and the password of the sender.\<close>

definition is_secret :: "smtp_step \<Rightarrow> bool" where
  "is_secret step = (case step of DataText m \<Rightarrow> True | PlainAuth u p \<Rightarrow> True | _ \<Rightarrow> False)"

lemma is_secret_simps [simp]:
  "is_secret (DataText m)" "is_secret (PlainAuth u p)" "\<not> is_secret (Dial d)" "\<not> is_secret Deadline" "\<not> is_secret Greeting"
  "\<not> is_secret (StartTLS h)" "\<not> is_secret (MailFrom f)" "\<not> is_secret (RcptTo r)" "\<not> is_secret DataStart" "\<not> is_secret DataEnd" "\<not> is_secret Quit"
  by (simp_all add: is_secret_def)

lemma after_separator:
  assumes "before @ x # rest = pre @ sep # post" and "\<forall>p \<in> set pre. \<not> P p" and "\<not> P sep" and "P x"
  shows "sep \<in> set before"
  using assms
proof (induction pre arbitrary: before)
  case Nil
  then show ?case by (cases before) auto
next
  case (Cons p pre)
  then show ?case by (cases before) auto
qed

lemma secret_after_tls:
  assumes "before @ secret # after = take n (map fst (submission join sender email code))" and "is_secret secret"
    and "\<not> sd_allowInsecureLocal sender"
  shows "StartTLS (sd_host sender) \<in> set before"
proof -
  let ?steps = "map fst (submission join sender email code)"
  have "before @ secret # (after @ drop n ?steps) = ?steps"
    using arg_cong [OF assms(1), of "\<lambda>xs. xs @ drop n ?steps"] by simp
  moreover have "?steps = [Dial (join (sd_host sender) (sd_port sender)), Deadline, Greeting] @ StartTLS (sd_host sender) #
      tl (drop 3 ?steps)"
    using assms(3) by (simp add: submission_def)
  ultimately have "before @ secret # (after @ drop n ?steps) =
      [Dial (join (sd_host sender) (sd_port sender)), Deadline, Greeting] @ StartTLS (sd_host sender) # tl (drop 3 ?steps)"
    by (rule trans)
  then show ?thesis by (rule after_separator [where P = is_secret]) (use assms(2) in simp_all)
qed

lemma submission_addressee: "RcptTo a \<in> set (map fst (submission join sender email code)) \<Longrightarrow> a = email"
  by (auto simp: submission_def split: if_splits)

text \<open>
  C18: secrets travel over TLS. When a sender that \<open>New\<close> made tells a mail server a code or its own
  password, TLS was negotiated before for the configured host, unless the sender is the one of a
  development setting, which only speaks to the loopback interface; and the code goes to the address
  it was made for, which has no line break.
\<close>

theorem codes_travel_over_tls:
  assumes "New_sender parse_address host port from username password insecure = Inr sender"
    and "SendCode parse_address join failure sender email code = (before @ secret # after, res)" and "is_secret secret"
  shows "((StartTLS host \<in> set before \<and> failure (StartTLS host) = None) \<or> (insecure \<and> host \<in> {''127.0.0.1'', ''localhost'', ''::1''})) \<and>
    set before \<inter> range RcptTo \<subseteq> {RcptTo email} \<and> CHR 0x0A \<notin> set email"
proof -
  let ?trace = "before @ secret # after"
  have sender: "sd_host sender = host" "sd_allowInsecureLocal sender = insecure"
    "insecure \<Longrightarrow> host \<in> {''127.0.0.1'', ''localhost'', ''::1''}"
    using assms(1) by (auto simp: New_sender_def split: if_splits)
  from assms(2) have run: "run_steps failure (submission join sender email code) = (?trace, res)"
    and "validAddress parse_address email"
    by (auto simp: SendCode_def split: if_splits)
  then have address: "CHR 0x0A \<notin> set email" by (auto simp: validAddress_def split: if_splits)
  have taken: "?trace = take (length ?trace) (map fst (submission join sender email code))"
    by (rule run_steps_prefix [OF run submission_ends_texts])
  have "set ?trace \<subseteq> set (map fst (submission join sender email code))"
    by (subst taken) (rule set_take_subset)
  then have "set before \<inter> range RcptTo \<subseteq> {RcptTo email}" using submission_addressee by fastforce
  moreover have "StartTLS host \<in> set before \<and> failure (StartTLS host) = None" if "\<not> insecure"
  proof -
    have "StartTLS host \<in> set before"
      using secret_after_tls [OF taken assms(3)] that by (simp add: sender)
    then show ?thesis using run_steps_before [OF run] by (auto simp: butlast_append)
  qed
  ultimately show ?thesis using sender(3) address by blast
qed

definition sample_sender :: Sender where
  "sample_sender = \<lparr>sd_host = ''mx'', sd_port = 587, sd_from = ''b'', sd_username = ''u'', sd_password = ''p'', sd_allowInsecureLocal = False\<rparr>"

definition refuse_password :: "smtp_step \<Rightarrow> string option" where
  "refuse_password step = (case step of PlainAuth u p \<Rightarrow> Some ''no'' | _ \<Rightarrow> None)"

theorem codes_travel_over_tls_witness:
  "StartTLS ''mx'' \<in> set (butlast (fst (SendCode (\<lambda>a. Some ([], a)) (\<lambda>host port. host) refuse_password sample_sender ''a'' ''123456'')))"
proof -
  have new: "New_sender (\<lambda>a. Some ([], a)) ''mx'' 587 ''b'' ''u'' ''p'' False = Inr sample_sender"
    by (simp add: New_sender_def validAddress_def sample_sender_def)
  have code: "list_all (\<lambda>(digit, _). 48 \<le> digit \<and> digit \<le> 57) (utf8_segs ''123456'')"
    using utf8_segs_ascii [of "''123456''"] by (simp add: byte_def)
  have sent: "SendCode (\<lambda>a. Some ([], a)) (\<lambda>host port. host) refuse_password sample_sender ''a'' ''123456'' =
      ([Dial ''mx'', Deadline, Greeting, StartTLS ''mx''] @ PlainAuth ''u'' ''p'' # [], Inl (''authenticate SMTP: '' @ ''no''))"
    using code by (simp add: SendCode_def submission_def validAddress_def sample_sender_def refuse_password_def)
  from codes_travel_over_tls [OF new sent] show ?thesis by (simp add: sent butlast_append)
qed

section \<open>The order of the queue\<close>

text \<open>
  Messages leave the queue in the order in which they were accepted, each once, and the queue never
  holds more than its capacity.
\<close>

theorem mail_queue_is_fifo:
  assumes "queue_run es q = (taken, handed, q')" and "length (qu_jobs q) \<le> qu_capacity q"
  shows "qu_jobs q @ taken = handed @ qu_jobs q' \<and> length (qu_jobs q') \<le> qu_capacity q'"
  using assms
proof (induction es q arbitrary: taken handed q' rule: queue_run.induct)
  case (2 es q)
  then show ?case by (auto simp: queue_round_def split: prod.splits list.splits)
next
  case (3 choice caller_done stopped email code es q)
  then show ?case
    by (cases choice) (auto simp: Queue_SendCode_def ready_case_def split: prod.splits if_splits)
qed auto

end
