(* ===== verification/Process_Start.thy ===== *)
theory Process_Start
  imports Platform_Config Mail_Sender
begin

text \<open>
  How a loaded configuration becomes a running process (\<open>cmd/api/main.go\<close>): the settings that each
  component gets, and the constructors in the order of \<open>run\<close>, any of which may stop the start. The
  connection to the database, the listener and the goroutines come after it.
\<close>

section \<open>What the components get\<close>

definition identity_config :: "process_config \<Rightarrow> Config" where
  "identity_config cfg = \<lparr>cf_AccessTokenLifetime = pc_AccessTokenLifetime cfg, cf_RefreshTokenLifetime = pc_RefreshTokenLifetime cfg,
     cf_OAuthIntentLifetime = pc_OAuthIntentLifetime cfg\<rparr>"

definition configured_hasher :: "process_config \<Rightarrow> Argon2id" where
  "configured_hasher cfg = NewArgon2id (pc_ArgonMemoryKiB cfg) (pc_ArgonIterations cfg) (pc_ArgonParallelism cfg)"

definition worker_config :: "process_config \<Rightarrow> WorkerConfig" where
  "worker_config cfg = \<lparr>cfg_PollInterval = pc_OutboxPollInterval cfg, cfg_BatchSize = nat (pc_OutboxBatchSize cfg),
     cfg_LeaseTimeout = pc_OutboxLeaseTimeout cfg, cfg_RetryBase = pc_OutboxRetryBase cfg, cfg_RetryMax = pc_OutboxRetryMax cfg\<rparr>"

section \<open>Constructors\<close>

text \<open>
  The surroundings of a start: the identity service apart from what is configured, Argon2id with the
  salt it draws, the randomness of a key, the address parser, \<open>url.Parse\<close> and \<open>url.JoinPath\<close> of
  the parsed address, and whether the first synchronisation of the catalog succeeds.
\<close>

record start_env =
  sa_identity :: identity_env
  sa_idkey :: key_function
  sa_salt :: "string option"
  sa_randomness :: "string option"
  sa_parse_address :: "string \<Rightarrow> (string \<times> string) option"
  sa_url :: "string \<Rightarrow> (string \<times> string) option"
  sa_join_path :: "string \<Rightarrow> string list \<Rightarrow> string option"
  sa_synced :: bool

datatype start_error = StartIdentity identity_error | StartText string

definition registration_key :: "string option \<Rightarrow> string \<Rightarrow> identity_error + string" where
  "registration_key randomness configured = (if configured = [] then RandomToken randomness else Inr configured)"

text \<open>Without a host no mail is sent; otherwise the sender works behind a queue of sixteen.\<close>

definition registration_mailer ::
    "(string \<Rightarrow> (string \<times> string) option) \<Rightarrow> process_config \<Rightarrow> string + (Sender \<times> Queue) option" where
  "registration_mailer parse_address cfg =
     (if pc_SMTPHost cfg = [] then Inr None
      else bindE (New_sender parse_address (pc_SMTPHost cfg) (pc_SMTPPort cfg) (pc_SMTPFrom cfg) (pc_SMTPUsername cfg)
          (pc_SMTPPassword cfg) (pc_SMTPAllowInsecureLocal cfg)) (\<lambda>sender.
        bindE (NewQueue True 16) (\<lambda>queue. Inr (Some (sender, queue)))))"

definition NewRegistrationService :: "string \<Rightarrow> string + string" where
  "NewRegistrationService key = (if length key < 32 then Inl ''invalid registration service configuration'' else Inr key)"

text \<open>The endpoint of the two clients of the adapter.\<close>

definition New_source ::
    "(string \<Rightarrow> (string \<times> string) option) \<Rightarrow> (string \<Rightarrow> string list \<Rightarrow> string option) \<Rightarrow> string \<Rightarrow> string \<Rightarrow> int \<Rightarrow> string + string" where
  "New_source parse_url join_path baseURL token maxResponseBytes =
     (if token = [] \<or> maxResponseBytes \<le> 0 then Inl ''catalog HTTP source requires client, token, and response limit''
      else if (case parse_url baseURL of None \<Rightarrow> True | Some (scheme, host) \<Rightarrow> host = [] \<or> scheme \<noteq> ''http'' \<and> scheme \<noteq> ''https'')
      then Inl ''inventory adapter URL must be absolute HTTP(S)''
      else case join_path baseURL [''catalog'', ''products''] of None \<Rightarrow> Inl ''build catalog endpoint'' | Some endpoint \<Rightarrow> Inr endpoint)"

definition New_committer ::
    "(string \<Rightarrow> (string \<times> string) option) \<Rightarrow> (string \<Rightarrow> string list \<Rightarrow> string option) \<Rightarrow> string \<Rightarrow> string \<Rightarrow> int \<Rightarrow> string + string" where
  "New_committer parse_url join_path baseURL token maxResponseBytes =
     (if token = [] \<or> maxResponseBytes \<le> 0 then Inl ''inventory HTTP adapter requires client, token, and response limit''
      else if (case parse_url baseURL of None \<Rightarrow> True | Some (scheme, host) \<Rightarrow> host = [] \<or> scheme \<noteq> ''http'' \<and> scheme \<noteq> ''https'')
      then Inl ''inventory adapter URL must be absolute HTTP(S)''
      else case join_path baseURL [''inventory'', ''commit''] of None \<Rightarrow> Inl ''build inventory endpoint'' | Some endpoint \<Rightarrow> Inr endpoint)"

text \<open>The switch on the mode: no endpoint for the parts that run in the process.\<close>

definition by_mode :: "process_config \<Rightarrow> string + string \<Rightarrow> string + string option" where
  "by_mode cfg connect =
     (if pc_InventoryAdapterMode cfg = ''FAKE'' then Inr None
      else if pc_InventoryAdapterMode cfg = ''HTTP'' then bindE connect (\<lambda>endpoint. Inr (Some endpoint))
      else Inl ''unsupported inventory adapter mode'')"

section \<open>The start\<close>

record process =
  ps_identity :: "Config \<times> string"
  ps_registrationKey :: string
  ps_mailer :: "(Sender \<times> Queue) option"
  ps_catalog :: "string option"
  ps_inventory :: "string option"
  ps_worker :: WorkerConfig

definition start :: "start_env \<Rightarrow> process_config \<Rightarrow> start_error + process" where
  "start env cfg =
     bindE (map_sum StartIdentity id (New_service ((sa_identity env)\<lparr>ev_config := identity_config cfg,
         ev_hash := Hash (sa_idkey env) (configured_hasher cfg) (sa_salt env)\<rparr>))) (\<lambda>identity.
     bindE (map_sum StartIdentity id (registration_key (sa_randomness env) (pc_RegistrationCodeKey cfg))) (\<lambda>registrationKey.
     bindE (map_sum StartText id (registration_mailer (sa_parse_address env) cfg)) (\<lambda>mailer.
     bindE (map_sum StartText id (NewRegistrationService registrationKey)) (\<lambda>key.
     bindE (map_sum StartText id (by_mode cfg (New_source (sa_url env) (sa_join_path env) (pc_InventoryAdapterURL cfg)
         (pc_InventoryAdapterToken cfg) (pc_InventoryMaxResponseBodyBytes cfg)))) (\<lambda>catalogSource.
     bindE (map_sum StartText id (refuse (\<not> sa_synced env \<and> pc_InventoryAdapterMode cfg = ''FAKE'') ''catalog synchronisation'')) (\<lambda>_.
     bindE (map_sum StartText id (by_mode cfg (New_committer (sa_url env) (sa_join_path env) (pc_InventoryAdapterURL cfg)
         (pc_InventoryAdapterToken cfg) (pc_InventoryMaxResponseBodyBytes cfg)))) (\<lambda>inventory.
     Inr \<lparr>ps_identity = identity, ps_registrationKey = key, ps_mailer = mailer, ps_catalog = catalogSource, ps_inventory = inventory,
       ps_worker = worker_config cfg\<rparr>)))))))"

section \<open>What a loaded configuration guarantees\<close>

lemma bounded_integer_Inr:
  "bounded_integer ce key fallback minimum maximum message = Inr v \<Longrightarrow> minimum \<le> v \<and> v \<le> maximum"
  by (auto simp: bounded_integer_def split: sum.splits if_splits)

lemma boundedDuration_Inr: "boundedDuration ce key fallback minimum maximum = Inr d \<Longrightarrow> minimum \<le> d \<and> d \<le> maximum"
  by (auto simp: boundedDuration_def Let_def split: option.splits if_splits)

lemma identityDuration_Inr: "identityDuration ce key fallback = Inr d \<Longrightarrow> Minute \<le> d \<and> d \<le> 24 * Hour"
  by (auto simp: identityDuration_def Let_def split: option.splits if_splits)

lemma refuse_Inr [simp]: "refuse condition message = Inr u \<longleftrightarrow> \<not> condition"
  by (auto simp: refuse_def)

text \<open>A later paragraph keeps what the earlier ones set.\<close>

lemma narrow_word: "0 \<le> v \<Longrightarrow> v < 2 ^ n \<Longrightarrow> nat (v mod 2 ^ n) = nat v" for v :: int
  by simp

lemma load_identity_Inr:
  assumes "load_identity ce cfg = Inr cfg'"
  shows "config_valid (identity_config cfg') \<and> pc_Environment cfg' = pc_Environment cfg \<and>
    8 \<le> pc_ArgonMemoryKiB cfg' \<and> pc_ArgonMemoryKiB cfg' < 2 ^ 32 \<and> 1 \<le> pc_ArgonIterations cfg' \<and> pc_ArgonIterations cfg' < 2 ^ 32 \<and>
    1 \<le> pc_ArgonParallelism cfg' \<and> pc_ArgonParallelism cfg' < 2 ^ 8 \<and>
    (pc_Environment cfg = ''production'' \<longrightarrow> pc_GoogleClientIDs cfg' \<noteq> [])"
proof -
  from assms obtain access refresh intent m t p where
    lifetimes: "identityDuration ce ''ACCESS_TOKEN_LIFETIME'' defaultAccessTokenLifetime = Inr access" "\<not> refresh \<le> access"
      "identityDuration ce ''OAUTH_INTENT_LIFETIME'' defaultOAuthIntentLifetime = Inr intent"
    and argon: "bounded_integer ce ''ARGON2_MEMORY_KIB'' defaultArgonMemoryKiB (19 * 1024) (1024 * 1024)
         ''ARGON2_MEMORY_KIB must be from 19456 to 1048576'' = Inr m"
      "bounded_integer ce ''ARGON2_ITERATIONS'' defaultArgonIterations 2 20 ''ARGON2_ITERATIONS must be from 2 to 20'' = Inr t"
      "bounded_integer ce ''ARGON2_PARALLELISM'' defaultArgonParallelism 1 16 ''ARGON2_PARALLELISM must be from 1 to 16'' = Inr p"
    and clients: "\<not> (pc_Environment cfg = ''production'' \<and> length (commaSeparated ce ''GOOGLE_CLIENT_IDS'') = 0)"
    and cfg': "cfg' = cfg\<lparr>pc_AccessTokenLifetime := access, pc_RefreshTokenLifetime := refresh,
       pc_OAuthIntentLifetime := intent, pc_ArgonMemoryKiB := nat (m mod 2 ^ 32),
       pc_ArgonIterations := nat (t mod 2 ^ 32), pc_ArgonParallelism := nat (p mod 2 ^ 8),
       pc_GoogleClientIDs := commaSeparated ce ''GOOGLE_CLIENT_IDS'', pc_AppleClientIDs := commaSeparated ce ''APPLE_CLIENT_IDS''\<rparr>"
    unfolding load_identity_def bindE_Inr Let_def refuse_Inr sum.inject by blast
  have m: "8 \<le> nat m" "nat m < 2 ^ 32" "nat (m mod 2 ^ 32) = nat m" using bounded_integer_Inr [OF argon(1)] by (auto simp: narrow_word nat_less_iff le_nat_iff)
  have t: "1 \<le> nat t" "nat t < 2 ^ 32" "nat (t mod 2 ^ 32) = nat t" using bounded_integer_Inr [OF argon(2)] by (auto simp: narrow_word nat_less_iff le_nat_iff)
  have p: "1 \<le> nat p" "nat p < 2 ^ 8" "nat (p mod 2 ^ 8) = nat p" using bounded_integer_Inr [OF argon(3)] by (auto simp: narrow_word nat_less_iff le_nat_iff)
  have "config_valid (identity_config cfg')"
    using identityDuration_Inr [OF lifetimes(1)] identityDuration_Inr [OF lifetimes(3)] lifetimes(2)
    by (simp add: config_valid_def identity_config_def cfg' duration_units)
  with m t p clients show ?thesis unfolding cfg' by simp
qed

lemma load_mail_Inr:
  assumes "load_mail ce cfg = Inr cfg'"
  obtains key host port sender user password insecure where "cfg' = cfg\<lparr>pc_RegistrationCodeKey := key, pc_SMTPHost := host, pc_SMTPPort := port,
      pc_SMTPFrom := sender, pc_SMTPUsername := user, pc_SMTPPassword := password, pc_SMTPAllowInsecureLocal := insecure\<rparr>"
    "1 \<le> port" "port \<le> 65535"
    "pc_Environment cfg = ''production'' \<longrightarrow> \<not> insecure \<and> 32 \<le> length key \<and> host \<noteq> [] \<and> sender \<noteq> [] \<and> user \<noteq> [] \<and> password \<noteq> []"
proof -
  from assms obtain port insecure where
    port: "bounded_integer ce ''SMTP_PORT'' 587 1 65535 ''SMTP_PORT must be from 1 to 65535'' = Inr port"
    and ok: "\<not> (insecure \<and> pc_Environment cfg = ''production'')"
      "\<not> (pc_Environment cfg = ''production'' \<and> length (ce_env ce ''REGISTRATION_CODE_KEY'') < 32)"
      "\<not> (pc_Environment cfg = ''production'' \<and> (TrimSpace (ce_env ce ''SMTP_HOST'') = [] \<or> TrimSpace (ce_env ce ''SMTP_FROM'') = [] \<or>
        TrimSpace (ce_env ce ''SMTP_USERNAME'') = [] \<or> ce_env ce ''SMTP_PASSWORD'' = []))"
    and cfg': "cfg' = cfg\<lparr>pc_RegistrationCodeKey := ce_env ce ''REGISTRATION_CODE_KEY'', pc_SMTPHost := TrimSpace (ce_env ce ''SMTP_HOST''),
       pc_SMTPPort := port, pc_SMTPFrom := TrimSpace (ce_env ce ''SMTP_FROM''), pc_SMTPUsername := TrimSpace (ce_env ce ''SMTP_USERNAME''),
       pc_SMTPPassword := ce_env ce ''SMTP_PASSWORD'', pc_SMTPAllowInsecureLocal := insecure\<rparr>"
    unfolding load_mail_def bindE_Inr Let_def refuse_Inr sum.inject by blast
  from bounded_integer_Inr [OF port] ok show ?thesis by (intro that [OF cfg']) auto
qed

lemma load_outbox_Inr:
  assumes "load_outbox ce cfg = Inr cfg'"
  obtains poll batch lease base most where "cfg' = cfg\<lparr>pc_OutboxPollInterval := poll, pc_OutboxBatchSize := batch,
      pc_OutboxLeaseTimeout := lease, pc_OutboxRetryBase := base, pc_OutboxRetryMax := most\<rparr>"
    "50 * Millisecond \<le> poll" "poll < lease" "1 \<le> batch" "batch \<le> 100" "100 * Millisecond \<le> base" "base \<le> most" "most \<le> Hour"
proof -
  from assms obtain poll batch lease base most where
    d: "boundedDuration ce ''OUTBOX_POLL_INTERVAL'' defaultOutboxPollInterval (50 * Millisecond) Minute = Inr poll"
      "bounded_integer ce ''OUTBOX_BATCH_SIZE'' defaultOutboxBatchSize 1 100 ''OUTBOX_BATCH_SIZE must be from 1 to 100'' = Inr batch"
      "\<not> lease \<le> poll"
      "boundedDuration ce ''OUTBOX_RETRY_BASE'' defaultOutboxRetryBase (100 * Millisecond) (10 * Minute) = Inr base"
      "boundedDuration ce ''OUTBOX_RETRY_MAX'' defaultOutboxRetryMax (100 * Millisecond) Hour = Inr most" "\<not> most < base"
    and cfg': "cfg' = cfg\<lparr>pc_OutboxPollInterval := poll, pc_OutboxBatchSize := batch, pc_OutboxLeaseTimeout := lease,
      pc_OutboxRetryBase := base, pc_OutboxRetryMax := most\<rparr>"
    unfolding load_outbox_def bindE_Inr Let_def refuse_Inr sum.inject by blast
  from boundedDuration_Inr [OF d(1)] bounded_integer_Inr [OF d(2)] d(3,6) boundedDuration_Inr [OF d(4)] boundedDuration_Inr [OF d(5)]
  show ?thesis by (intro that [OF cfg']) simp_all
qed

lemma load_inventory_Inr:
  assumes "load_inventory ce cfg = Inr cfg'"
  obtains mode url token wait bytes interval where "cfg' = cfg\<lparr>pc_InventoryAdapterMode := mode, pc_InventoryAdapterURL := url,
      pc_InventoryAdapterToken := token, pc_InventoryAdapterTimeout := wait, pc_InventoryMaxResponseBodyBytes := bytes,
      pc_CatalogSyncInterval := interval\<rparr>"
    "wait \<le> pc_OutboxLeaseTimeout cfg" "0 < bytes" "mode = ''FAKE'' \<or> mode = ''HTTP''"
    "pc_Environment cfg = ''production'' \<longrightarrow> mode = ''HTTP''"
    "mode = ''HTTP'' \<longrightarrow> 32 \<le> length token \<and> (\<exists>scheme host. ce_url ce url = Some (scheme, host) \<and> host \<noteq> [] \<and>
      (scheme = ''https'' \<or> scheme = ''http'' \<and> pc_Environment cfg \<noteq> ''production''))"
    "0 < interval"
proof -
  let ?url = "TrimSpace (ce_env ce ''INVENTORY_ADAPTER_URL'')" and ?token = "ce_env ce ''INVENTORY_ADAPTER_TOKEN''"
  let ?mode = "ce_upper ce (envOrDefault ce ''INVENTORY_ADAPTER_MODE'' ''FAKE'')" and ?production = "pc_Environment cfg = ''production''"
  from assms obtain u wait bytes interval where
    mode: "\<not> (?mode \<noteq> ''FAKE'' \<and> ?mode \<noteq> ''HTTP'')" "\<not> (?production \<and> ?mode \<noteq> ''HTTP'')"
    and http: "(if ?mode = ''HTTP'' then
         bindE (case ce_url ce ?url of
             None \<Rightarrow> Inl ''INVENTORY_ADAPTER_URL must be an absolute HTTP(S) URL in HTTP mode''
           | Some (scheme, host) \<Rightarrow>
               if host = [] \<or> scheme \<noteq> ''http'' \<and> scheme \<noteq> ''https''
               then Inl ''INVENTORY_ADAPTER_URL must be an absolute HTTP(S) URL in HTTP mode'' else Inr scheme) (\<lambda>scheme.
         bindE (refuse (?production \<and> scheme \<noteq> ''https'') ''INVENTORY_ADAPTER_URL must use HTTPS in production'') (\<lambda>_.
         refuse (length ?token < 32) ''INVENTORY_ADAPTER_TOKEN must contain at least 32 bytes in HTTP mode''))
       else Inr ()) = Inr u"
    and d: "boundedDuration ce ''INVENTORY_ADAPTER_TIMEOUT'' defaultInventoryTimeout (100 * Millisecond) (pc_OutboxLeaseTimeout cfg) = Inr wait"
      "bounded_integer ce ''INVENTORY_MAX_RESPONSE_BODY_BYTES'' defaultInventoryBodyBytes 1024 (1024 * 1024)
         ''INVENTORY_MAX_RESPONSE_BODY_BYTES must be from 1024 to 1048576'' = Inr bytes"
      "boundedDuration ce ''CATALOG_SYNC_INTERVAL'' defaultCatalogSyncInterval (5 * Second) Hour = Inr interval"
    and cfg': "cfg' = cfg\<lparr>pc_InventoryAdapterMode := ?mode, pc_InventoryAdapterURL := ?url, pc_InventoryAdapterToken := ?token,
      pc_InventoryAdapterTimeout := wait, pc_InventoryMaxResponseBodyBytes := bytes, pc_CatalogSyncInterval := interval\<rparr>"
    unfolding load_inventory_def bindE_Inr Let_def refuse_Inr sum.inject by blast
  have "?mode = ''HTTP'' \<longrightarrow> 32 \<le> length ?token \<and> (\<exists>scheme host. ce_url ce ?url = Some (scheme, host) \<and> host \<noteq> [] \<and>
      (scheme = ''https'' \<or> scheme = ''http'' \<and> \<not> ?production))"
  proof
    assume on: "?mode = ''HTTP''"
    show "32 \<le> length ?token \<and> (\<exists>scheme host. ce_url ce ?url = Some (scheme, host) \<and> host \<noteq> [] \<and>
        (scheme = ''https'' \<or> scheme = ''http'' \<and> \<not> ?production))"
      using http unfolding if_P [OF on] bindE_Inr refuse_Inr by (auto split: option.splits if_splits)
  qed
  with boundedDuration_Inr [OF d(1)] bounded_integer_Inr [OF d(2)] boundedDuration_Inr [OF d(3)] mode show ?thesis
    by (intro that [OF cfg']) (auto simp: duration_units)
qed

lemma load_server_Inr: "load_server ce cfg = Inr cfg' \<Longrightarrow> pc_Environment cfg' \<in> {''development'', ''test'', ''staging'', ''production''}"
  unfolding load_server_def bindE_Inr Let_def refuse_Inr sum.inject
  by (elim exE conjE) (auto simp: parseEnvironment_def Let_def split: if_splits)

text \<open>The facts of all paragraphs about the finished configuration.\<close>

definition http_url :: "config_env \<Rightarrow> process_config \<Rightarrow> bool" where
  "http_url ce cfg \<longleftrightarrow> (\<exists>scheme host. ce_url ce (pc_InventoryAdapterURL cfg) = Some (scheme, host) \<and> host \<noteq> [] \<and>
     (scheme = ''https'' \<or> scheme = ''http'' \<and> pc_Environment cfg \<noteq> ''production''))"

lemma Load_facts:
  assumes "Load ce = Inr cfg"
  shows "config_valid (identity_config cfg)"
    and "8 \<le> pc_ArgonMemoryKiB cfg" "pc_ArgonMemoryKiB cfg < 2 ^ 32" "1 \<le> pc_ArgonIterations cfg" "pc_ArgonIterations cfg < 2 ^ 32"
      "1 \<le> pc_ArgonParallelism cfg" "pc_ArgonParallelism cfg < 2 ^ 8"
    and "pc_OutboxPollInterval cfg < pc_OutboxLeaseTimeout cfg" "0 < pc_OutboxRetryBase cfg" "pc_OutboxRetryBase cfg \<le> pc_OutboxRetryMax cfg"
      "pc_OutboxRetryMax cfg \<le> Hour" "1 \<le> pc_SMTPPort cfg" "pc_SMTPPort cfg \<le> 65535"
    and "pc_InventoryAdapterTimeout cfg \<le> pc_OutboxLeaseTimeout cfg" "0 < pc_InventoryMaxResponseBodyBytes cfg"
    and "pc_InventoryAdapterMode cfg = ''HTTP'' \<longrightarrow> 32 \<le> length (pc_InventoryAdapterToken cfg) \<and> http_url ce cfg"
    and "pc_Environment cfg = ''production'' \<longrightarrow> pc_InventoryAdapterMode cfg = ''HTTP'' \<and> pc_GoogleClientIDs cfg \<noteq> [] \<and>
      \<not> pc_SMTPAllowInsecureLocal cfg \<and> 32 \<le> length (pc_RegistrationCodeKey cfg) \<and> pc_SMTPHost cfg \<noteq> [] \<and> pc_SMTPUsername cfg \<noteq> [] \<and>
      pc_SMTPPassword cfg \<noteq> []"
    and "0 < pc_OutboxPollInterval cfg" "1 \<le> pc_OutboxBatchSize cfg" "pc_OutboxBatchSize cfg \<le> 100" "0 < pc_CatalogSyncInterval cfg"
proof -
  from assms obtain c1 c2 c3 c4 where load: "load_server ce no_config = Inr c1" "load_identity ce c1 = Inr c2"
    "load_mail ce c2 = Inr c3" "load_outbox ce c3 = Inr c4" "load_inventory ce c4 = Inr cfg"
    by (auto simp: Load_def bindE_Inr)
  note identity = load_identity_Inr [OF load(2)]
  obtain key host port sender user pass insecure where c3: "c3 = c2\<lparr>pc_RegistrationCodeKey := key, pc_SMTPHost := host, pc_SMTPPort := port,
      pc_SMTPFrom := sender, pc_SMTPUsername := user, pc_SMTPPassword := pass, pc_SMTPAllowInsecureLocal := insecure\<rparr>"
    and mail: "1 \<le> port" "port \<le> 65535"
      "pc_Environment c2 = ''production'' \<longrightarrow> \<not> insecure \<and> 32 \<le> length key \<and> host \<noteq> [] \<and> sender \<noteq> [] \<and> user \<noteq> [] \<and> pass \<noteq> []"
    by (rule load_mail_Inr [OF load(3)])
  obtain poll batch lease base most where c4: "c4 = c3\<lparr>pc_OutboxPollInterval := poll, pc_OutboxBatchSize := batch,
      pc_OutboxLeaseTimeout := lease, pc_OutboxRetryBase := base, pc_OutboxRetryMax := most\<rparr>"
    and outbox: "50 * Millisecond \<le> poll" "poll < lease" "1 \<le> batch" "batch \<le> 100" "100 * Millisecond \<le> base" "base \<le> most" "most \<le> Hour"
    by (rule load_outbox_Inr [OF load(4)])
  obtain mode url token wait bytes interval where cfg: "cfg = c4\<lparr>pc_InventoryAdapterMode := mode, pc_InventoryAdapterURL := url,
      pc_InventoryAdapterToken := token, pc_InventoryAdapterTimeout := wait, pc_InventoryMaxResponseBodyBytes := bytes,
      pc_CatalogSyncInterval := interval\<rparr>"
    and inventory: "wait \<le> pc_OutboxLeaseTimeout c4" "0 < bytes" "pc_Environment c4 = ''production'' \<longrightarrow> mode = ''HTTP''"
      "mode = ''HTTP'' \<longrightarrow> 32 \<le> length token \<and> (\<exists>scheme host. ce_url ce url = Some (scheme, host) \<and> host \<noteq> [] \<and>
        (scheme = ''https'' \<or> scheme = ''http'' \<and> pc_Environment c4 \<noteq> ''production''))"
      "0 < interval"
    by (rule load_inventory_Inr [OF load(5)])
  note parts = cfg c4 c3
  show "config_valid (identity_config cfg)" using identity by (simp add: parts identity_config_def)
  show "8 \<le> pc_ArgonMemoryKiB cfg" "pc_ArgonMemoryKiB cfg < 2 ^ 32" "1 \<le> pc_ArgonIterations cfg" "pc_ArgonIterations cfg < 2 ^ 32"
    "1 \<le> pc_ArgonParallelism cfg" "pc_ArgonParallelism cfg < 2 ^ 8"
    using identity by (simp_all add: parts)
  show "pc_OutboxPollInterval cfg < pc_OutboxLeaseTimeout cfg" "0 < pc_OutboxRetryBase cfg" "pc_OutboxRetryBase cfg \<le> pc_OutboxRetryMax cfg"
    "pc_OutboxRetryMax cfg \<le> Hour" "1 \<le> pc_SMTPPort cfg" "pc_SMTPPort cfg \<le> 65535"
    using outbox mail by (simp_all add: parts duration_units)
  show "pc_InventoryAdapterTimeout cfg \<le> pc_OutboxLeaseTimeout cfg" "0 < pc_InventoryMaxResponseBodyBytes cfg"
    using inventory by (simp_all add: parts)
  show "pc_InventoryAdapterMode cfg = ''HTTP'' \<longrightarrow> 32 \<le> length (pc_InventoryAdapterToken cfg) \<and> http_url ce cfg"
    using inventory(4) by (simp add: parts http_url_def)
  show "pc_Environment cfg = ''production'' \<longrightarrow> pc_InventoryAdapterMode cfg = ''HTTP'' \<and> pc_GoogleClientIDs cfg \<noteq> [] \<and>
      \<not> pc_SMTPAllowInsecureLocal cfg \<and> 32 \<le> length (pc_RegistrationCodeKey cfg) \<and> pc_SMTPHost cfg \<noteq> [] \<and> pc_SMTPUsername cfg \<noteq> [] \<and>
      pc_SMTPPassword cfg \<noteq> []"
    using inventory(3) mail(3) identity by (simp add: parts)
  show "0 < pc_OutboxPollInterval cfg" "1 \<le> pc_OutboxBatchSize cfg" "pc_OutboxBatchSize cfg \<le> 100" "0 < pc_CatalogSyncInterval cfg"
    using outbox inventory(5) by (simp_all add: parts duration_units)
qed

section \<open>The properties\<close>

text \<open>
  C20: what is accepted at the start is what the components need. With a loaded configuration the
  identity service accepts its lifetimes; a password hash stored under it is read under every other
  loaded configuration, where it accepts exactly the passwords with its key and asks for a new hash
  exactly when one of the three parameters of Argon2 differs; the retry delays double from the base to the maximum
  without overflow; both tickers get a positive interval, without which they would panic; and a batch
  has from 1 to 100 events.
\<close>

theorem loaded_config_fits:
  assumes "Load ce = Inr cfg" and "Load ce' = Inr cfg'"
    and "\<And>pw s t m p n. length (idkey pw s t m p n) = n" and "length salt = 16"
    and "Hash idkey (configured_hasher cfg) (Some salt) password = Inr encoded"
  shows "config_valid (identity_config cfg) \<and>
    (let key = (\<lambda>pw. idkey pw salt (pc_ArgonIterations cfg) (pc_ArgonMemoryKiB cfg) (pc_ArgonParallelism cfg) 32) in
      Verify_password idkey (configured_hasher cfg') attempt encoded = Inr (key attempt = key password,
        pc_ArgonMemoryKiB cfg \<noteq> pc_ArgonMemoryKiB cfg' \<or> pc_ArgonIterations cfg \<noteq> pc_ArgonIterations cfg' \<or>
        pc_ArgonParallelism cfg \<noteq> pc_ArgonParallelism cfg')) \<and>
    (\<forall>k. retryDelay (worker_config cfg) k = min (pc_OutboxRetryMax cfg) (pc_OutboxRetryBase cfg * 2 ^ nat (k - 1))) \<and>
    0 < cfg_PollInterval (worker_config cfg) \<and> 0 < pc_CatalogSyncInterval cfg \<and>
    1 \<le> cfg_BatchSize (worker_config cfg) \<and> cfg_BatchSize (worker_config cfg) \<le> 100"
proof -
  note facts = Load_facts [OF assms(1)]
  have "Verify_password idkey (configured_hasher cfg') attempt encoded =
      Inr (idkey attempt salt (pc_ArgonIterations cfg) (pc_ArgonMemoryKiB cfg) (pc_ArgonParallelism cfg) 32 =
           idkey password salt (pc_ArgonIterations cfg) (pc_ArgonMemoryKiB cfg) (pc_ArgonParallelism cfg) 32,
        pc_ArgonMemoryKiB cfg \<noteq> pc_ArgonMemoryKiB cfg' \<or> pc_ArgonIterations cfg \<noteq> pc_ArgonIterations cfg' \<or>
        pc_ArgonParallelism cfg \<noteq> pc_ArgonParallelism cfg')"
    using password_hash_facts [OF assms(5), where hasher' = "configured_hasher cfg'" and attempt = attempt] assms(3,4) facts(2-7)
    by (simp add: configured_hasher_def NewArgon2id_def)
  moreover have "retryDelay (worker_config cfg) k = min (pc_OutboxRetryMax cfg) (pc_OutboxRetryBase cfg * 2 ^ nat (k - 1))" for k
    using facts(9-11) retryDelay_eq [of "worker_config cfg" k]
    by (simp add: worker_config_def in64_def max_int64_def duration_units)
  moreover have "1 \<le> nat (pc_OutboxBatchSize cfg)" "nat (pc_OutboxBatchSize cfg) \<le> 100"
    using facts(19,20) by linarith+
  ultimately show ?thesis
    using facts(1,18,21) by (simp add: worker_config_def)
qed

lemma equalizer_hashes: "\<exists>h. Hash idkey hasher (Some salt) ''b46 timing equalizer password'' = Inr h"
proof -
  have "RuneCountInString ''b46 timing equalizer password'' = 29"
    by (subst RuneCount_ascii) (simp_all add: byte_def)
  then have "ValidatePassword ''b46 timing equalizer password'' = None" by (simp add: ValidatePassword_None)
  then show ?thesis by (simp add: Hash_def Let_def)
qed

text \<open>A start with a loaded production configuration: what is left to refuse, in order.\<close>

lemma production_start:
  assumes "Load ce = Inr cfg" and "pc_Environment cfg = ''production''"
    and "sa_url env = ce_url ce" and "sa_salt env = Some salt"
  obtains identity sender queue where "\<not> sd_allowInsecureLocal sender" "sd_from sender = pc_SMTPFrom cfg"
    "start env cfg =
      (if \<not> validAddress (sa_parse_address env) (pc_SMTPFrom cfg) then Inl (StartText ''invalid SMTP configuration'')
       else case sa_join_path env (pc_InventoryAdapterURL cfg) [''catalog'', ''products''] of
         None \<Rightarrow> Inl (StartText ''build catalog endpoint'')
       | Some catalog \<Rightarrow> (case sa_join_path env (pc_InventoryAdapterURL cfg) [''inventory'', ''commit''] of
           None \<Rightarrow> Inl (StartText ''build inventory endpoint'')
         | Some inventory \<Rightarrow> Inr \<lparr>ps_identity = identity, ps_registrationKey = pc_RegistrationCodeKey cfg,
             ps_mailer = Some (sender, queue), ps_catalog = Some catalog, ps_inventory = Some inventory,
             ps_worker = worker_config cfg\<rparr>))"
proof -
  note facts = Load_facts [OF assms(1)]
  from facts(17) assms(2) have production: "pc_InventoryAdapterMode cfg = ''HTTP''" "\<not> pc_SMTPAllowInsecureLocal cfg"
    "32 \<le> length (pc_RegistrationCodeKey cfg)" "pc_SMTPHost cfg \<noteq> []" "pc_SMTPUsername cfg \<noteq> []" "pc_SMTPPassword cfg \<noteq> []" by auto
  from facts(16) production(1) obtain scheme host where url: "ce_url ce (pc_InventoryAdapterURL cfg) = Some (scheme, host)" "host \<noteq> []"
    "scheme = ''https'' \<or> scheme = ''http''" by (auto simp: http_url_def)
  have token: "pc_InventoryAdapterToken cfg \<noteq> []" using facts(16) production(1) by auto
  obtain identity where service: "New_service ((sa_identity env)\<lparr>ev_config := identity_config cfg,
      ev_hash := Hash (sa_idkey env) (configured_hasher cfg) (sa_salt env)\<rparr>) = Inr identity"
    using equalizer_hashes [of "sa_idkey env" "configured_hasher cfg" salt] facts(1)
    by (auto simp: New_service_def assms(4) wrapE_def)
  have key: "registration_key (sa_randomness env) (pc_RegistrationCodeKey cfg) = Inr (pc_RegistrationCodeKey cfg)"
    "NewRegistrationService (pc_RegistrationCodeKey cfg) = Inr (pc_RegistrationCodeKey cfg)"
    using production(3) by (auto simp: registration_key_def NewRegistrationService_def)
  define sender where "sender = \<lparr>sd_host = pc_SMTPHost cfg, sd_port = pc_SMTPPort cfg, sd_from = pc_SMTPFrom cfg,
    sd_username = pc_SMTPUsername cfg, sd_password = pc_SMTPPassword cfg, sd_allowInsecureLocal = pc_SMTPAllowInsecureLocal cfg\<rparr>"
  obtain queue where queue: "NewQueue True 16 = Inr queue" by (simp add: NewQueue_def)
  have sender: "\<not> sd_allowInsecureLocal sender" "sd_from sender = pc_SMTPFrom cfg"
    using production(2) by (simp_all add: sender_def)
  have mailer: "registration_mailer (sa_parse_address env) cfg =
      (if validAddress (sa_parse_address env) (pc_SMTPFrom cfg) then Inr (Some (sender, queue)) else Inl ''invalid SMTP configuration'')"
    using production facts(12,13) queue by (simp add: registration_mailer_def New_sender_def sender_def)
  have source: "New_source (ce_url ce) (sa_join_path env) (pc_InventoryAdapterURL cfg) (pc_InventoryAdapterToken cfg)
      (pc_InventoryMaxResponseBodyBytes cfg) =
      (case sa_join_path env (pc_InventoryAdapterURL cfg) [''catalog'', ''products''] of
         None \<Rightarrow> Inl ''build catalog endpoint'' | Some endpoint \<Rightarrow> Inr endpoint)"
    and committer: "New_committer (ce_url ce) (sa_join_path env) (pc_InventoryAdapterURL cfg) (pc_InventoryAdapterToken cfg)
      (pc_InventoryMaxResponseBodyBytes cfg) =
      (case sa_join_path env (pc_InventoryAdapterURL cfg) [''inventory'', ''commit''] of
         None \<Rightarrow> Inl ''build inventory endpoint'' | Some endpoint \<Rightarrow> Inr endpoint)"
    using url token facts(15) by (auto simp: New_source_def New_committer_def)
  show ?thesis
    by (rule that [OF sender, of identity queue])
      (simp add: start_def service key mailer by_mode_def production(1) refuse_def source committer assms(3) split: option.split)
qed


text \<open>
  Outside production a key of registration codes shorter than 32 bytes is accepted by \<open>Load\<close>, but
  then stops the start.
\<close>

theorem short_key_stops_the_start:
  assumes "pc_RegistrationCodeKey cfg \<noteq> []" and "length (pc_RegistrationCodeKey cfg) < 32"
  shows "\<exists>e. start env cfg = Inl e"
  using assms
  by (auto simp: start_def registration_key_def NewRegistrationService_def bindE_def map_sum_def split: sum.splits)

end
