(* ===== verification/Process_Samples.thy ===== *)
theory Process_Samples
  imports Process_Start Identity_Samples
begin

text \<open>
  A production environment with only the settings that production asks for: it loads with the
  defaults everywhere else, and the process starts.
\<close>

section \<open>Unset variables\<close>

lemma trimmed_nothing [simp]: "TrimSpace [] = []"
  by (rule TrimSpace_plain) simp

lemma unset_env: "ce_env ce key = [] \<Longrightarrow> envOrDefault ce key fallback = fallback"
  by (simp add: envOrDefault_def)

lemma default_durations:
  assumes "ce_env ce key = []" and "ParseDuration (ce_scaled ce) (Duration_String d) = Some d"
  shows "lo \<le> d \<Longrightarrow> d \<le> hi \<Longrightarrow> boundedDuration ce key d lo hi = Inr d"
    and "Minute \<le> d \<Longrightarrow> d \<le> 24 * Hour \<Longrightarrow> identityDuration ce key d = Inr d"
    and "Hour \<le> d \<Longrightarrow> d \<le> 365 * 24 * Hour \<Longrightarrow> longDuration ce key d = Inr d"
  using assms by (simp_all add: boundedDuration_def identityDuration_def longDuration_def unset_env Let_def)

lemma default_integer:
  assumes "ce_env ce key = []" and "lo \<le> v" "v \<le> hi" "0 \<le> v" "in64 v"
  shows "bounded_integer ce key v lo hi message = Inr v"
  using assms Atoi_Itoa(1) [of v] by (simp add: bounded_integer_def integer_setting_def unset_env)

text \<open>The defaults survive being printed and parsed.\<close>

lemma default_texts:
  "ParseDuration scaled (Duration_String (10 * Second)) = Some (10 * Second)"
  "ParseDuration scaled (Duration_String (15 * Second)) = Some (15 * Second)"
  "ParseDuration scaled (Duration_String (60 * Second)) = Some (60 * Second)"
  "ParseDuration scaled (Duration_String (2 * Second)) = Some (2 * Second)"
  "ParseDuration scaled (Duration_String (15 * Minute)) = Some (15 * Minute)"
  "ParseDuration scaled (Duration_String (30 * 24 * Hour)) = Some (30 * 24 * Hour)"
  "ParseDuration scaled (Duration_String (10 * Minute)) = Some (10 * Minute)"
  "ParseDuration scaled (Duration_String (500 * Millisecond)) = Some (500 * Millisecond)"
  "ParseDuration scaled (Duration_String (30 * Second)) = Some (30 * Second)"
  "ParseDuration scaled (Duration_String Second) = Some Second"
  "ParseDuration scaled (Duration_String Minute) = Some Minute"
  "ParseDuration scaled (Duration_String (5 * Second)) = Some (5 * Second)"
  by (simp_all add: duration_eval)

section \<open>A production environment\<close>

definition production_settings :: "(string \<times> string) list" where
  "production_settings =
     [(''APP_ENV'', ''production''), (''DATABASE_URL'', ''postgres://db/b46''), (''GOOGLE_CLIENT_IDS'', ''b46''),
      (''REGISTRATION_CODE_KEY'', replicate 32 (CHR ''k'')), (''SMTP_HOST'', ''mx''), (''SMTP_FROM'', ''b46@b46''),
      (''SMTP_USERNAME'', ''b46''), (''SMTP_PASSWORD'', ''pass''), (''INVENTORY_ADAPTER_MODE'', ''HTTP''),
      (''INVENTORY_ADAPTER_URL'', ''https://pos''), (''INVENTORY_ADAPTER_TOKEN'', replicate 32 (CHR ''t''))]"

definition production_env :: config_env where
  "production_env = \<lparr>ce_env = (\<lambda>key. case map_of production_settings key of None \<Rightarrow> [] | Some v \<Rightarrow> v),
     ce_url = (\<lambda>u. if u = ''https://pos'' then Some (''https'', ''pos'') else Some (''postgres'', ''db'')), ce_lower = (\<lambda>s. s),
     ce_upper = (\<lambda>s. if s = ''info'' then ''INFO'' else s), ce_scaled = (\<lambda>f unit scale. f * unit div scale)\<rparr>"

lemma production_env_simps [simp]:
  "ce_url production_env u = (if u = ''https://pos'' then Some (''https'', ''pos'') else Some (''postgres'', ''db''))"
  "ce_lower production_env s = s" "ce_upper production_env s = (if s = ''info'' then ''INFO'' else s)"
  "ce_env production_env key = (case map_of production_settings key of None \<Rightarrow> [] | Some v \<Rightarrow> v)"
  by (simp_all add: production_env_def)

lemma plain_texts:
  "TrimSpace ''production'' = ''production''" "TrimSpace ''postgres://db/b46'' = ''postgres://db/b46''" "TrimSpace ''b46'' = ''b46''"
  "TrimSpace ''mx'' = ''mx''" "TrimSpace ''b46@b46'' = ''b46@b46''" "TrimSpace ''HTTP'' = ''HTTP''" "TrimSpace ''https://pos'' = ''https://pos''"
  by (rule TrimSpace_plain, simp add: byte_def IsSpace_def)+

lemma unset_in_production: "map_of production_settings key = None \<Longrightarrow> ce_env production_env key = []"
  by simp

lemmas unset_duration = default_durations [OF unset_in_production]
  and unset_integer = default_integer [OF unset_in_production]

lemma unset_operational:
  assumes "map_of production_settings key = None" and "ParseDuration (ce_scaled production_env) (Duration_String d) = Some d"
    and "100 * Millisecond \<le> d" and "d \<le> 5 * Minute"
  shows "duration_setting production_env key d = Inr d"
  unfolding duration_setting_def config_constants by (rule unset_duration(1) [OF assms])

lemma production_server:
  "\<exists>cfg. load_server production_env no_config = Inr cfg \<and> pc_Environment cfg = ''production''"
proof -
  have port: "Atoi ''8080'' = Some 8080"
    by (simp add: Atoi_def digits_value_def byte_def in64_def max_int64_def Let_def)
  have bytes: "bounded_integer production_env ''MAX_REQUEST_BODY_BYTES'' defaultMaxRequestBodyBytes minimumMaxRequestBodyBytes
      maximumMaxRequestBodyBytes message = Inr defaultMaxRequestBodyBytes" for message
    by (rule unset_integer) (simp_all add: production_settings_def config_constants in64_def max_int64_def)
  have timeouts: "duration_setting production_env ''HTTP_READ_TIMEOUT'' (10 * Second) = Inr (10 * Second)"
    "duration_setting production_env ''HTTP_WRITE_TIMEOUT'' (15 * Second) = Inr (15 * Second)"
    "duration_setting production_env ''HTTP_IDLE_TIMEOUT'' (60 * Second) = Inr (60 * Second)"
    "duration_setting production_env ''SHUTDOWN_TIMEOUT'' (10 * Second) = Inr (10 * Second)"
    "duration_setting production_env ''DATABASE_HEALTH_TIMEOUT'' (2 * Second) = Inr (2 * Second)"
    by (rule unset_operational, simp add: production_settings_def, rule default_texts, simp add: duration_units, simp add: duration_units)+
  have level: "parseLogLevel production_env (envOrDefault production_env ''LOG_LEVEL'' ''info'') = Inr 0"
    by (simp add: envOrDefault_def production_settings_def parseLogLevel_def level_of_def wrap64_id in64_def max_int64_def Let_def)
  have environment: "parseEnvironment production_env (envOrDefault production_env ''APP_ENV'' ''development'') = Inr ''production''"
    "envOrDefault production_env ''HTTP_PORT'' defaultHTTPPort = ''8080''" "TrimSpace (ce_env production_env ''DATABASE_URL'') = ''postgres://db/b46''"
    by (simp_all add: envOrDefault_def production_settings_def plain_texts parseEnvironment_def defaultHTTPPort_def Let_def)
  show ?thesis
    unfolding load_server_def Let_def environment level timeouts bytes bindE_simps
    by (simp add: port refuse_def)
qed

lemma production_identity:
  "\<exists>cfg'. load_identity production_env cfg = Inr cfg' \<and> pc_Environment cfg' = pc_Environment cfg"
proof -
  have lifetimes: "identityDuration production_env ''ACCESS_TOKEN_LIFETIME'' defaultAccessTokenLifetime = Inr defaultAccessTokenLifetime"
    "longDuration production_env ''REFRESH_TOKEN_LIFETIME'' defaultRefreshTokenLifetime = Inr defaultRefreshTokenLifetime"
    "identityDuration production_env ''OAUTH_INTENT_LIFETIME'' defaultOAuthIntentLifetime = Inr defaultOAuthIntentLifetime"
    unfolding config_constants
    by (rule unset_duration, simp add: production_settings_def, rule default_texts, simp add: duration_units, simp add: duration_units)+
  have argon: "bounded_integer production_env ''ARGON2_MEMORY_KIB'' defaultArgonMemoryKiB (19 * 1024) (1024 * 1024) message = Inr defaultArgonMemoryKiB"
    "bounded_integer production_env ''ARGON2_ITERATIONS'' defaultArgonIterations 2 20 message = Inr defaultArgonIterations"
    "bounded_integer production_env ''ARGON2_PARALLELISM'' defaultArgonParallelism 1 16 message = Inr defaultArgonParallelism" for message
    by (rule unset_integer, simp_all add: production_settings_def config_constants in64_def max_int64_def)+
  have clients: "commaSeparated production_env ''GOOGLE_CLIENT_IDS'' = [''b46'']"
    by (simp add: commaSeparated_def production_settings_def plain_texts Let_def)
  show ?thesis
    unfolding load_identity_def Let_def lifetimes argon clients bindE_simps
    by (simp add: refuse_def config_constants duration_units)
qed

lemma production_mail:
  "pc_Environment cfg = ''production'' \<Longrightarrow> \<exists>cfg'. load_mail production_env cfg = Inr cfg' \<and> pc_Environment cfg' = ''production'' \<and>
    pc_SMTPFrom cfg' = ''b46@b46'' \<and> pc_OutboxLeaseTimeout cfg' = pc_OutboxLeaseTimeout cfg"
proof -
  assume production: "pc_Environment cfg = ''production''"
  have port: "bounded_integer production_env ''SMTP_PORT'' 587 1 65535 message = Inr 587" for message
    by (rule unset_integer) (simp_all add: production_settings_def in64_def max_int64_def)
  have insecure: "ParseBool (envOrDefault production_env ''SMTP_ALLOW_INSECURE_LOCAL'' ''false'') = Some False"
    by (simp add: unset_env production_settings_def ParseBool_def)
  show ?thesis
    unfolding load_mail_def Let_def port insecure bindE_simps
    by (simp add: refuse_def production production_settings_def plain_texts)
qed

lemma production_outbox:
  "\<exists>cfg'. load_outbox production_env cfg = Inr cfg' \<and> pc_Environment cfg' = pc_Environment cfg \<and>
    pc_SMTPFrom cfg' = pc_SMTPFrom cfg \<and> pc_OutboxLeaseTimeout cfg' = 30 * Second \<and> pc_OutboxBatchSize cfg' = 10"
proof -
  have times: "boundedDuration production_env ''OUTBOX_POLL_INTERVAL'' defaultOutboxPollInterval (50 * Millisecond) Minute = Inr defaultOutboxPollInterval"
    "boundedDuration production_env ''OUTBOX_LEASE_TIMEOUT'' defaultOutboxLeaseTimeout (100 * Millisecond) (10 * Minute) = Inr defaultOutboxLeaseTimeout"
    "boundedDuration production_env ''OUTBOX_RETRY_BASE'' defaultOutboxRetryBase (100 * Millisecond) (10 * Minute) = Inr defaultOutboxRetryBase"
    "boundedDuration production_env ''OUTBOX_RETRY_MAX'' defaultOutboxRetryMax (100 * Millisecond) Hour = Inr defaultOutboxRetryMax"
    unfolding config_constants
    by (rule unset_duration, simp add: production_settings_def, rule default_texts, simp add: duration_units, simp add: duration_units)+
  have batch: "bounded_integer production_env ''OUTBOX_BATCH_SIZE'' defaultOutboxBatchSize 1 100 message = Inr 10" for message
    using unset_integer [of "''OUTBOX_BATCH_SIZE''" 1 defaultOutboxBatchSize 100 message]
    by (simp add: production_settings_def config_constants in64_def max_int64_def)
  show ?thesis
    unfolding load_outbox_def Let_def times batch bindE_simps
    by (simp add: refuse_def config_constants duration_units)
qed

lemma production_inventory:
  assumes "pc_Environment cfg = ''production''" and "pc_OutboxLeaseTimeout cfg = 30 * Second"
  shows "\<exists>cfg'. load_inventory production_env cfg = Inr cfg' \<and> pc_Environment cfg' = ''production'' \<and> pc_SMTPFrom cfg' = pc_SMTPFrom cfg \<and>
    pc_OutboxLeaseTimeout cfg' = 30 * Second \<and> pc_OutboxBatchSize cfg' = pc_OutboxBatchSize cfg \<and> pc_InventoryAdapterTimeout cfg' = 5 * Second"
proof -
  have times: "boundedDuration production_env ''INVENTORY_ADAPTER_TIMEOUT'' defaultInventoryTimeout (100 * Millisecond) (30 * Second) = Inr (5 * Second)"
    "boundedDuration production_env ''CATALOG_SYNC_INTERVAL'' defaultCatalogSyncInterval (5 * Second) Hour = Inr (30 * Second)"
    unfolding config_constants
    by (rule unset_duration, simp add: production_settings_def, rule default_texts, simp add: duration_units, simp add: duration_units)+
  have bytes: "bounded_integer production_env ''INVENTORY_MAX_RESPONSE_BODY_BYTES'' defaultInventoryBodyBytes 1024 (1024 * 1024) message =
      Inr defaultInventoryBodyBytes" for message
    by (rule unset_integer) (simp_all add: production_settings_def config_constants in64_def max_int64_def)
  have mode: "ce_upper production_env (envOrDefault production_env ''INVENTORY_ADAPTER_MODE'' ''FAKE'') = ''HTTP''"
    by (simp add: envOrDefault_def production_settings_def plain_texts Let_def)
  have url: "TrimSpace (ce_env production_env ''INVENTORY_ADAPTER_URL'') = ''https://pos''"
    "length (ce_env production_env ''INVENTORY_ADAPTER_TOKEN'') = 32"
    by (simp_all add: production_settings_def plain_texts)
  show ?thesis
    unfolding load_inventory_def Let_def mode url times bytes assms
    by (simp add: refuse_def assms)
qed

text \<open>The configuration that this environment loads.\<close>

lemma production_loads:
  "\<exists>cfg. Load production_env = Inr cfg \<and> pc_Environment cfg = ''production'' \<and> pc_SMTPFrom cfg = ''b46@b46'' \<and>
    pc_OutboxLeaseTimeout cfg = 30 * Second \<and> pc_OutboxBatchSize cfg = 10 \<and> pc_InventoryAdapterTimeout cfg = 5 * Second"
proof -
  obtain c1 where c1: "load_server production_env no_config = Inr c1" "pc_Environment c1 = ''production''"
    using production_server by blast
  obtain c2 where c2: "load_identity production_env c1 = Inr c2" "pc_Environment c2 = ''production''"
    using production_identity [of c1] c1(2) by auto
  obtain c3 where c3: "load_mail production_env c2 = Inr c3" "pc_Environment c3 = ''production''" "pc_SMTPFrom c3 = ''b46@b46''"
    using production_mail [OF c2(2)] by blast
  obtain c4 where c4: "load_outbox production_env c3 = Inr c4" "pc_Environment c4 = ''production''" "pc_SMTPFrom c4 = ''b46@b46''"
    "pc_OutboxLeaseTimeout c4 = 30 * Second" "pc_OutboxBatchSize c4 = 10"
    using production_outbox [of c3] c3 by auto
  obtain cfg where "load_inventory production_env c4 = Inr cfg" "pc_Environment cfg = ''production''" "pc_SMTPFrom cfg = ''b46@b46''"
    "pc_OutboxLeaseTimeout cfg = 30 * Second" "pc_OutboxBatchSize cfg = 10" "pc_InventoryAdapterTimeout cfg = 5 * Second"
    using production_inventory [OF c4(2,4)] c4 by auto
  then show ?thesis by (simp add: Load_def c1 c2 c3 c4)
qed

section \<open>Witnesses\<close>

definition production_cfg :: process_config where
  "production_cfg = (case Load production_env of Inr cfg \<Rightarrow> cfg | Inl _ \<Rightarrow> no_config)"

lemma production_cfg_loaded:
  "Load production_env = Inr production_cfg" "pc_Environment production_cfg = ''production''" "pc_SMTPFrom production_cfg = ''b46@b46''"
  "pc_OutboxLeaseTimeout production_cfg = 30 * Second" "pc_OutboxBatchSize production_cfg = 10" "pc_InventoryAdapterTimeout production_cfg = 5 * Second"
  using production_loads by (auto simp: production_cfg_def)

text \<open>A key that depends on the length only.\<close>

definition some_key :: key_function where
  "some_key password salt t m p n = replicate n (CHR ''k'')"

lemma loaded_config_fits_witness:
  "\<exists>encoded. Hash some_key (configured_hasher production_cfg) (Some (replicate 16 (CHR ''s''))) ''b46 timing equalizer password'' = Inr encoded \<and>
     Verify_password some_key (configured_hasher production_cfg) ''wrong'' encoded = Inr (True, False) \<and>
     config_valid (identity_config production_cfg)"
proof -
  obtain h where h: "Hash some_key (configured_hasher production_cfg) (Some (replicate 16 (CHR ''s''))) ''b46 timing equalizer password'' = Inr h"
    using equalizer_hashes by blast
  from loaded_config_fits [OF production_cfg_loaded(1,1) _ _ h, of "''wrong''"] h show ?thesis by (simp add: some_key_def Let_def)
qed

definition production_surroundings :: start_env where
  "production_surroundings = \<lparr>sa_identity = sample_env, sa_idkey = some_key, sa_salt = Some (replicate 16 (CHR ''s'')), sa_randomness = None,
     sa_parse_address = (\<lambda>a. Some ([], a)), sa_url = ce_url production_env, sa_join_path = (\<lambda>base parts. Some (base @ concat parts)),
     sa_synced = False\<rparr>"


text \<open>
  The defaults let a claim expire while its batch is still being processed: ten calls of the adapter
  may take 50 seconds and the lease is 30 seconds.
\<close>

theorem default_lease_shorter_than_batch:
  "\<exists>cfg. Load production_env = Inr cfg \<and>
    pc_OutboxLeaseTimeout cfg < pc_OutboxBatchSize cfg * pc_InventoryAdapterTimeout cfg"
  using production_loads by (auto simp: duration_units)

end
