(* ===== verification/Stock_Config.thy ===== *)
theory Stock_Config
  imports Platform_Config Inventory_Link
begin

text \<open>
  The configuration of the inventory adapter (its \<open>platform/config/config.go\<close>) and what
  \<open>cmd/adapter/main.go\<close> makes of it: the routes with the digest of the service token. The readers of
  single variables are those of the ordering service apart from the bounds. \<open>sha256\<close> is the digest
  and \<open>parse_uuid\<close> is \<open>uuid.Parse\<close>, whose zero value is \<open>uuid.Nil\<close>.
\<close>

record ('d, 'u) adapter_config =
  ac_Environment :: string
  ac_HTTPAddress :: string
  ac_StoreDatabaseURL :: string
  ac_ServiceTokenDigest :: 'd
  ac_MovementActorID :: 'u
  ac_LogLevel :: int
  ac_ReadTimeout :: int
  ac_WriteTimeout :: int
  ac_IdleTimeout :: int
  ac_ShutdownTimeout :: int
  ac_DatabaseHealthTimeout :: int
  ac_MaxRequestBodyBytes :: int

definition minimumSecretBytes :: nat where "minimumSecretBytes = 32"
definition minimumBodyBytes :: int where "minimumBodyBytes = 1024"
definition maximumBodyBytes :: int where "maximumBodyBytes = 1024 * 1024"

definition adapter_duration :: "config_env \<Rightarrow> string \<Rightarrow> int \<Rightarrow> string + int" where
  "adapter_duration ce key fallback =
     (let failed = Inl (key @ '' must be from 100ms to 5m'') in
      case ParseDuration (ce_scaled ce) (envOrDefault ce key (Duration_String fallback)) of
        None \<Rightarrow> failed
      | Some parsed \<Rightarrow> if parsed < 100 * Millisecond \<or> parsed > 5 * Minute then failed else Inr parsed)"

definition adapter_log_level :: "config_env \<Rightarrow> string \<Rightarrow> string + int" where
  "adapter_log_level ce value =
     (case level_of (ce_upper ce) (ce_lower ce value) of
        None \<Rightarrow> Inl ''LOG_LEVEL must be debug, info, warn, or error''
      | Some level \<Rightarrow> Inr level)"

definition Load_adapter ::
    "(string \<Rightarrow> 'd) \<Rightarrow> (string \<Rightarrow> 'u option) \<Rightarrow> 'u \<Rightarrow> config_env \<Rightarrow> string + ('d, 'u) adapter_config" where
  "Load_adapter sha256 parse_uuid nil_uuid ce =
     (let environment = ce_lower ce (envOrDefault ce ''APP_ENV'' ''development'') in
     bindE (refuse (environment \<notin> {''development'', ''test'', ''staging'', ''production''})
         ''APP_ENV must be development, test, staging, or production'') (\<lambda>_.
     let databaseURL = TrimSpace (ce_env ce ''STORE_DATABASE_URL'') in
     bindE (refuse (case ce_url ce databaseURL of
         None \<Rightarrow> True
       | Some (scheme, host) \<Rightarrow> host = [] \<or> scheme \<noteq> ''postgres'' \<and> scheme \<noteq> ''postgresql'') ''STORE_DATABASE_URL must be a valid postgres URL'') (\<lambda>_.
     let serviceToken = ce_env ce ''INVENTORY_SERVICE_TOKEN'' in
     bindE (refuse (length serviceToken < minimumSecretBytes) ''INVENTORY_SERVICE_TOKEN must contain at least 32 bytes'') (\<lambda>_.
     bindE (case parse_uuid (TrimSpace (ce_env ce ''POS_MOVEMENT_ACTOR_ID'')) of
         None \<Rightarrow> Inl ''POS_MOVEMENT_ACTOR_ID must be a non-zero UUID''
       | Some u \<Rightarrow> if u = nil_uuid then Inl ''POS_MOVEMENT_ACTOR_ID must be a non-zero UUID'' else Inr u) (\<lambda>movementActorID.
     let port = envOrDefault ce ''HTTP_PORT'' ''8081'' in
     bindE (refuse (case Atoi port of None \<Rightarrow> True | Some portNumber \<Rightarrow> portNumber < 1 \<or> portNumber > 65535)
         ''HTTP_PORT must be from 1 to 65535'') (\<lambda>_.
     bindE (adapter_log_level ce (envOrDefault ce ''LOG_LEVEL'' ''info'')) (\<lambda>logLevel.
     bindE (adapter_duration ce ''HTTP_READ_TIMEOUT'' (5 * Second)) (\<lambda>readTimeout.
     bindE (adapter_duration ce ''HTTP_WRITE_TIMEOUT'' (10 * Second)) (\<lambda>writeTimeout.
     bindE (adapter_duration ce ''HTTP_IDLE_TIMEOUT'' (60 * Second)) (\<lambda>idleTimeout.
     bindE (adapter_duration ce ''SHUTDOWN_TIMEOUT'' (10 * Second)) (\<lambda>shutdownTimeout.
     bindE (adapter_duration ce ''DATABASE_HEALTH_TIMEOUT'' (2 * Second)) (\<lambda>healthTimeout.
     bindE (let failed = Inl (''MAX_REQUEST_BODY_BYTES must be from '' @ Itoa minimumBodyBytes @ '' to '' @ Itoa maximumBodyBytes) in
         case Atoi (envOrDefault ce ''MAX_REQUEST_BODY_BYTES'' ''262144'') of
           None \<Rightarrow> failed
         | Some n \<Rightarrow> if n < minimumBodyBytes \<or> n > maximumBodyBytes then failed else Inr n) (\<lambda>maxBody.
     Inr \<lparr>ac_Environment = environment, ac_HTTPAddress = JoinHostPort (envOrDefault ce ''HTTP_HOST'' ''0.0.0.0'') port,
       ac_StoreDatabaseURL = databaseURL, ac_ServiceTokenDigest = sha256 serviceToken, ac_MovementActorID = movementActorID,
       ac_LogLevel = logLevel, ac_ReadTimeout = readTimeout, ac_WriteTimeout = writeTimeout, ac_IdleTimeout = idleTimeout,
       ac_ShutdownTimeout = shutdownTimeout, ac_DatabaseHealthTimeout = healthTimeout, ac_MaxRequestBodyBytes = maxBody\<rparr>)))))))))))))"

text \<open>\<open>transport.New\<close>\<close>

definition New_routes :: "(string \<Rightarrow> 'd) \<Rightarrow> 'd \<Rightarrow> int \<Rightarrow> string + 'd stock_routes" where
  "New_routes sha256 tokenDigest maxBodyBytes =
     (if maxBodyBytes \<le> 0 then Inl ''inventory transport: service, body limit, and logger are required''
      else Inr \<lparr>rt_sha256 = sha256, rt_tokenDigest = tokenDigest\<rparr>)"

section \<open>One secret on both sides\<close>

lemma Load_adapter_Inr:
  assumes "Load_adapter sha256 parse_uuid nil_uuid ce = Inr cfg"
  shows "ac_ServiceTokenDigest cfg = sha256 (ce_env ce ''INVENTORY_SERVICE_TOKEN'')" "0 < ac_MaxRequestBodyBytes cfg"
    "32 \<le> length (ce_env ce ''INVENTORY_SERVICE_TOKEN'')" "ac_MovementActorID cfg \<noteq> nil_uuid"
  using assms unfolding Load_adapter_def bindE_Inr Let_def refuse_def
  by (auto simp: minimumBodyBytes_def minimumSecretBytes_def split: option.splits if_splits)

text \<open>
  When the two services are given the same secret, the adapter starts and authorizes every request
  that the client of the ordering service sends.
\<close>

lemma shared_secret_is_authorized:
  assumes "Load_adapter sha256 parse_uuid nil_uuid ce = Inr cfg" and "ce_env ce ''INVENTORY_SERVICE_TOKEN'' = token"
  shows "\<exists>routes. New_routes sha256 (ac_ServiceTokenDigest cfg) (ac_MaxRequestBodyBytes cfg) = Inr routes \<and>
    authorized routes (posted token wire)"
  using Load_adapter_Inr [OF assms(1)] assms(2)
  by (simp add: New_routes_def authorized_def posted_def bearer_def)

end
