(* ===== verification/Spec2Isabelle.thy ===== *)
theory Spec2Isabelle
  imports Service_Samples Order_Fakes Identity_Samples Inventory_Agreement Catalog_Samples Api_Samples Oauth_Guarantees
    Process_Samples Stock_Config
begin

text \<open>
  Verification of the ordering backend: the ordering service (\<open>services/ordering\<close>), with its modules
  for orders, identity and catalog, and the inventory adapter (\<open>services/inventory-adapter\<close>), which
  commits stock in the database of the point of sale.

  \<^bold>\<open>How the parts interact.\<close> A customer signs in (identity), reads the catalog, and places an order.
  The order, its lines, a pending inventory operation and an outbox row are stored in one transaction.
  The worker claims outbox rows under a lease, asks the inventory adapter to commit the stock, and
  applies the result, which opens a fulfilment or rejects the order. Cashiers read and advance the
  fulfilment. The catalog is synchronised from the adapter in numbered snapshots, against which
  checkout prices the cart.

  \<^bold>\<open>Where what is modelled.\<close>
  \<^item> Shared: \<open>B46_Prelude\<close> (64-bit integers, tables, statements, transactions and their replies),
    \<open>Go_Text\<close> (UTF-8, \<open>strings.TrimSpace\<close>, PostgreSQL text), \<open>Go_Json\<close> (decoders of
    \<open>encoding/json\<close> over parsed values), \<open>Go_Http\<close> (requests, numbers), \<open>Go_Duration\<close> (durations as
    text).
  \<^item> Orders (\<open>internal/ordering\<close>): \<open>Order_Domain\<close> (\<open>domain/order.go\<close>), \<open>Checkout\<close> and
    \<open>Order_Service\<close> (\<open>application/service.go\<close>), \<open>Order_Store\<close> (\<open>adapters/postgres/store.go\<close> and the
    migrations), \<open>Outbox_Worker\<close> and \<open>Worker_Store\<close> (\<open>application/worker.go\<close>), \<open>Inventory_Wire\<close>
    (\<open>inventorycontract\<close>, \<open>inventoryhttp\<close>), \<open>Order_Fakes\<close> (\<open>system\<close>, \<open>inventoryfake\<close>,
    \<open>catalogfake\<close>).
  \<^item> Identity (\<open>internal/identity\<close>): \<open>Identity_Domain\<close>, \<open>Identity_Store\<close>, \<open>Identity_Accounts\<close> and
    \<open>Identity_Registration\<close> (\<open>adapters/postgres\<close>), \<open>Identity_Service\<close> and \<open>Identity_Signup\<close>
    (\<open>application\<close>), \<open>Identity_Security\<close> (\<open>adapters/security\<close>), \<open>Oauth_Verifier\<close>
    (\<open>adapters/oauth\<close>), \<open>Mail_Sender\<close> (\<open>adapters/smtp\<close>).
  \<^item> Catalog (\<open>internal/catalog\<close>): \<open>Product_Catalog\<close> (domain, store, resolver of checkout),
    \<open>Catalog_Sync\<close> (service, loops), \<open>Catalog_Source\<close> (client of the adapter).
  \<^item> Inventory adapter: \<open>Stock_Domain\<close>, \<open>Stock_Store\<close>, \<open>Stock_Transport\<close>, \<open>Stock_Config\<close>, and
    \<open>Inventory_Link\<close>, which connects it with the client of the ordering service.
  \<^item> API and process: \<open>Api_Http\<close>, \<open>Api_Identity\<close>, \<open>Api_Orders\<close>, \<open>Api_Routes\<close> (every route with its
    decoder, guard, answers and errors), \<open>Platform_Config\<close> (\<open>platform/config\<close>) and \<open>Process_Start\<close>
    (\<open>cmd/api/main.go\<close>).

  \<^bold>\<open>What is shown.\<close>
  \<^item> \<open>Order_Lifecycle\<close> refines the store to an order machine: whatever operations run, in any order
    and with any failure, each order is in one coherent stage and moves along the machine.
    \<open>Order_Guarantees\<close> has idempotent and atomic checkout, results applied once, claims, leases that
    exclude other claims under any operations in between (\<open>under_lease\<close>), and listings; \<open>Checkout\<close>
    and \<open>Order_Service\<close> the acceptance, the exact totals, and what a repeated checkout is answered
    when the catalog may have changed; \<open>Worker_Store\<close> that a run of the worker moves the store by its operations only.
  \<^item> \<open>Stock_Commit\<close>, \<open>Stock_Verdict\<close>, \<open>Stock_Ledger\<close> and \<open>Stock_Guarantees\<close>: the adapter decides by the
    stock, deducts all or nothing, never oversells, decides a request once, and completes when one of
    its three attempts is undisturbed. \<open>Inventory_Agreement\<close>: ordering sees exactly what the adapter
    decided.
  \<^item> \<open>Identity_Access\<close>, \<open>Identity_Moves\<close> and \<open>Identity_Guarantees\<close> reduce every operation to few moves
    of accounts and sessions, from which \<open>Identity_Sessions\<close>, \<open>Identity_Login\<close>, \<open>Identity_Codes\<close> and
    \<open>Identity_Intents\<close> derive the guarantees on tokens, families, codes and intents, guesses
    whose statements or commit fail included; \<open>Oauth_Guarantees\<close> what a sign-on with Google proves and
    which account it opens.
  \<^item> \<open>Catalog_Guarantees\<close> and \<open>Catalog_Agreement\<close>: pages of one snapshot, and that a synchronisation
    publishes what the adapter has.
  \<^item> \<open>Api_Guarantees\<close> and \<open>Api_Listing\<close>: roles, ownership and cursors of the whole API.
    \<open>Process_Start\<close>: what a loaded configuration guarantees to the components, and exactly when a
    production configuration starts. The configuration does not make the lease as long as a batch
    may take (\<open>default_lease_shorter_than_batch\<close>).
  \<^item> The theories named \<open>_Samples\<close> hold concrete states on which the properties are applied.

  \<^bold>\<open>Conventions.\<close> Identifiers are canonical lower-case texts in the ordering service and 128-bit words
  in the adapter; other spellings that PostgreSQL casts to the same \<open>uuid\<close>, or refuses to cast, are
  compared as texts, so \<open>CashierView\<close> and \<open>ApplyInventoryResult\<close> are faithful for canonical ones; times are nanoseconds, and the zero time is 0. The \<open>n\<close>-th round trip of an operation
  to PostgreSQL is answered by \<open>replies n\<close>; a reply may also be lost after it took effect. A
  serializable or row-locked transaction acts on one state or fails; what other requests do between
  the transactions of an operation is a parameter (\<open>ev_others\<close>, \<open>meanwhile\<close>, \<open>cl_between\<close> and the
  like). Errors are values: the sentinel that \<open>errors.Is\<close> finds, or a text. The iteration order of
  Go's maps is a parameter, a nil slice is the empty list, JSON objects that the code builds as maps
  are written in the order of the source, and columns that no query reads are omitted. Digests, HMAC, Argon2,
  \<open>uuid.Parse\<close>, the token verification of \<open>go-oidc\<close>, \<open>url.Parse\<close>, \<open>mail.ParseAddress\<close>, the case
  mapping of \<open>strings\<close> and the collation of PostgreSQL are parameters; what is used of them is a
  named hypothesis (\<open>codec_ok\<close>, \<open>no_collision\<close> and the like), instantiated in the samples.

  \<^bold>\<open>Bounds and fuel.\<close> The adapter makes at most three attempts (\<open>maxSerializableTries\<close>), as in the code.
  The polling loops and the reading of the catalog may run for ever and are partial functions, whose
  termination is stated where it is claimed. Following the cursors of a listing takes one request
  more than there are pages, which is the fuel of \<open>follow\<close>.

  \<^bold>\<open>Not modelled.\<close> The lexical layer of JSON (inputs are sequences of values), the truncation of times
  to microseconds, the reuse of slices by \<open>encoding/json\<close> for repeated keys, overflow of the demand
  sums of the adapter beyond 64 bits and of \<open>CEIL(...)::integer\<close> in its catalog beyond 32 bits,
  \<open>last_seen_at\<close> of a session and the race of \<open>RevokeFamily\<close> with a rotation (the update acts on one state), the multiplexer before a path is clean, access logs, the
  recovery of panics, connection pools and schema probes, the migration commands, the signals and the
  shutdown of the processes, and notifications beyond the value that is handed over. The identity
  tables and the view that the order tables have of users are separate states of the model.
\<close>

end
